(* ===== verification/Prelude.thy ===== *)
theory Prelude
  imports Main "HOL-Library.Word" "HOL-Library.Char_ord" "HOL-Library.List_Lexorder"
    "HOL-Library.Product_Lexorder" "HOL-Library.Multiset"
begin

text \<open>
  Shared vocabulary of the development: Rust's \<open>Result\<close> as a sum type with the \<open>?\<close> operator as
  \<open>rbind\<close>, fallible folds, fixed-width integers, comparators with the stable \<open>sort_by\<close> of
  the standard library, and the lemma collections the component theories rewrite with.
\<close>

named_theorems result_simps \<open>characterisations of successful and failing \<open>Result\<close> pipelines\<close>
named_theorems int_simps \<open>unfolding of the fixed-width integer operations\<close>

type_synonym u8 = "8 word"
type_synonym u16 = "16 word"
type_synonym u32 = "32 word"
type_synonym u64 = "64 word"
type_synonym uuid = "128 word"

section \<open>Results\<close>

text \<open>\<open>Result<T, E>\<close> is \<open>'e + 'a\<close>, an error on the left. \<open>rbind\<close> is the early return of \<open>?\<close>.\<close>

definition rbind :: "'e + 'a \<Rightarrow> ('a \<Rightarrow> 'e + 'b) \<Rightarrow> 'e + 'b" where
  "rbind m f = (case m of Inl e \<Rightarrow> Inl e | Inr x \<Rightarrow> f x)"

definition map_err :: "('e \<Rightarrow> 'f) \<Rightarrow> 'e + 'a \<Rightarrow> 'f + 'a" where
  "map_err g m = (case m of Inl e \<Rightarrow> Inl (g e) | Inr x \<Rightarrow> Inr x)"

definition map_ok :: "('a \<Rightarrow> 'b) \<Rightarrow> 'e + 'a \<Rightarrow> 'e + 'b" where
  "map_ok g m = (case m of Inl e \<Rightarrow> Inl e | Inr x \<Rightarrow> Inr (g x))"

definition ok_or :: "'e \<Rightarrow> 'a option \<Rightarrow> 'e + 'a" where
  "ok_or e m = (case m of None \<Rightarrow> Inl e | Some x \<Rightarrow> Inr x)"

definition transpose_opt :: "('e + 'a) option \<Rightarrow> 'e + 'a option" where
  "transpose_opt m = (case m of None \<Rightarrow> Inr None | Some r \<Rightarrow> map_ok Some r)"

definition unwrap_or :: "'a \<Rightarrow> 'a option \<Rightarrow> 'a" where
  "unwrap_or d m = (case m of None \<Rightarrow> d | Some x \<Rightarrow> x)"

text \<open>\<open>Iterator::try_fold\<close>, and \<open>collect\<close> into a \<open>Result<Vec<_>, _>\<close>.\<close>

primrec try_fold :: "('b \<Rightarrow> 'a \<Rightarrow> 'e + 'b) \<Rightarrow> 'b \<Rightarrow> 'a list \<Rightarrow> 'e + 'b" where
  "try_fold f a [] = Inr a"
| "try_fold f a (x # xs) = rbind (f a x) (\<lambda>b. try_fold f b xs)"

primrec try_map :: "('a \<Rightarrow> 'e + 'b) \<Rightarrow> 'a list \<Rightarrow> 'e + 'b list" where
  "try_map f [] = Inr []"
| "try_map f (x # xs) = rbind (f x) (\<lambda>y. rbind (try_map f xs) (\<lambda>ys. Inr (y # ys)))"

section \<open>Fixed-width integers\<close>

text \<open>\<open>i128\<close> values are integers whose checked operations test the range.\<close>

definition i128_min :: int where "i128_min = - (2 ^ 127)"

definition i128_max :: int where "i128_max = 2 ^ 127 - 1"

definition in_i128 :: "int \<Rightarrow> bool" where
  "in_i128 x \<longleftrightarrow> i128_min \<le> x \<and> x \<le> i128_max"

definition check_i128 :: "int \<Rightarrow> int option" where
  "check_i128 x = (if in_i128 x then Some x else None)"

definition i128_checked_add :: "int \<Rightarrow> int \<Rightarrow> int option" where
  "i128_checked_add a b = check_i128 (a + b)"

definition i128_checked_sub :: "int \<Rightarrow> int \<Rightarrow> int option" where
  "i128_checked_sub a b = check_i128 (a - b)"

definition i128_checked_mul :: "int \<Rightarrow> int \<Rightarrow> int option" where
  "i128_checked_mul a b = check_i128 (a * b)"

definition i128_checked_neg :: "int \<Rightarrow> int option" where
  "i128_checked_neg a = check_i128 (- a)"

text \<open>Unsigned words: \<open>checked_sub\<close>, \<open>checked_add\<close> and the saturating operations.\<close>

definition word_checked_sub :: "'a::len word \<Rightarrow> 'a word \<Rightarrow> 'a word option" where
  "word_checked_sub a b = (if b \<le> a then Some (a - b) else None)"

definition word_checked_add :: "'a::len word \<Rightarrow> 'a word \<Rightarrow> 'a word option" where
  "word_checked_add a b = (if unat a + unat b < 2 ^ LENGTH('a) then Some (a + b) else None)"

definition word_saturating_sub :: "'a::len word \<Rightarrow> 'a word \<Rightarrow> 'a word" where
  "word_saturating_sub a b = (if b \<le> a then a - b else 0)"

definition word_saturating_add :: "'a::len word \<Rightarrow> 'a word \<Rightarrow> 'a word" where
  "word_saturating_add a b = (if unat a + unat b < 2 ^ LENGTH('a) then a + b else - 1)"

text \<open>Signed 32 and 64 bit integers as \<open>int\<close>, with the saturating operations of \<open>i32\<close>.\<close>

definition i32_min :: int where "i32_min = - (2 ^ 31)"

definition i32_max :: int where "i32_max = 2 ^ 31 - 1"

definition i32_saturate :: "int \<Rightarrow> int" where
  "i32_saturate x = max i32_min (min i32_max x)"

definition i64_max :: int where "i64_max = 2 ^ 63 - 1"

section \<open>Comparators\<close>

datatype ordering = OLess | OEqual | OGreater

definition ord_cmp :: "'a::linorder \<Rightarrow> 'a \<Rightarrow> ordering" where
  "ord_cmp a b = (if a < b then OLess else if a = b then OEqual else OGreater)"

definition then_with :: "ordering \<Rightarrow> ordering \<Rightarrow> ordering" where
  "then_with p q = (case p of OEqual \<Rightarrow> q | _ \<Rightarrow> p)"

fun ord_reverse :: "ordering \<Rightarrow> ordering" where
  "ord_reverse OLess = OGreater"
| "ord_reverse OEqual = OEqual"
| "ord_reverse OGreater = OLess"

text \<open>\<open>slice::sort_by\<close> is a stable sort; an element is placed before the elements it equals.\<close>

primrec insert_by :: "('a \<Rightarrow> 'a \<Rightarrow> ordering) \<Rightarrow> 'a \<Rightarrow> 'a list \<Rightarrow> 'a list" where
  "insert_by c x [] = [x]"
| "insert_by c x (y # ys) = (if c x y = OGreater then y # insert_by c x ys else x # y # ys)"

primrec sort_by :: "('a \<Rightarrow> 'a \<Rightarrow> ordering) \<Rightarrow> 'a list \<Rightarrow> 'a list" where
  "sort_by c [] = []"
| "sort_by c (x # xs) = insert_by c x (sort_by c xs)"

section \<open>Lemmas on results\<close>

lemma rbind_Inl [simp]: "rbind (Inl e) f = Inl e"
  by (simp add: rbind_def)

lemma rbind_Inr [simp]: "rbind (Inr x) f = f x"
  by (simp add: rbind_def)

lemma rbind_eq_Inr [result_simps]: "rbind m f = Inr y \<longleftrightarrow> (\<exists>x. m = Inr x \<and> f x = Inr y)"
  by (cases m) auto

lemma rbind_eq_Inl [result_simps]:
  "rbind m f = Inl e \<longleftrightarrow> m = Inl e \<or> (\<exists>x. m = Inr x \<and> f x = Inl e)"
  by (cases m) auto

lemma rbind_cong [fundef_cong]:
  "m = m' \<Longrightarrow> (\<And>x. m' = Inr x \<Longrightarrow> f x = f' x) \<Longrightarrow> rbind m f = rbind m' f'"
  by (cases m') auto

lemma map_err_simps [simp]: "map_err g (Inl e) = Inl (g e)" "map_err g (Inr x) = Inr x"
  by (simp_all add: map_err_def)

lemma map_err_eq_Inr [result_simps]: "map_err g m = Inr x \<longleftrightarrow> m = Inr x"
  by (cases m) auto

lemma map_err_eq_Inl [result_simps]: "map_err g m = Inl e \<longleftrightarrow> (\<exists>e'. m = Inl e' \<and> e = g e')"
  by (cases m) auto

lemma map_ok_simps [simp]: "map_ok g (Inl e) = Inl e" "map_ok g (Inr x) = Inr (g x)"
  by (simp_all add: map_ok_def)

lemma map_ok_eq_Inr [result_simps]: "map_ok g m = Inr y \<longleftrightarrow> (\<exists>x. m = Inr x \<and> y = g x)"
  by (cases m) auto

lemma ok_or_simps [simp]: "ok_or e None = Inl e" "ok_or e (Some x) = Inr x"
  by (simp_all add: ok_or_def)

lemma ok_or_eq_Inr [result_simps]: "ok_or e m = Inr x \<longleftrightarrow> m = Some x"
  by (cases m) auto

lemma ok_or_eq_Inl [result_simps]: "ok_or e m = Inl e' \<longleftrightarrow> m = None \<and> e' = e"
  by (cases m) auto

lemma transpose_opt_simps [simp]:
  "transpose_opt None = Inr None" "transpose_opt (Some r) = map_ok Some r"
  by (simp_all add: transpose_opt_def)

lemma unwrap_or_simps [simp]: "unwrap_or d None = d" "unwrap_or d (Some x) = x"
  by (simp_all add: unwrap_or_def)

lemma try_fold_append:
  "try_fold f a (xs @ ys) = rbind (try_fold f a xs) (\<lambda>b. try_fold f b ys)"
  by (induction xs arbitrary: a) (auto simp: rbind_def split: sum.splits)

lemma try_fold_prefix_induct [consumes 1, case_names start step]:
  assumes "try_fold f a xs = Inr b"
    and "P [] a"
    and "\<And>ys x c d. \<lbrakk>P ys c; x \<in> set xs; f c x = Inr d\<rbrakk> \<Longrightarrow> P (ys @ [x]) d"
  shows "P xs b"
  using assms
proof (induction xs arbitrary: b rule: rev_induct)
  case (snoc x xs)
  then obtain c where c: "try_fold f a xs = Inr c" "f c x = Inr b"
    by (auto simp: try_fold_append rbind_eq_Inr)
  have "P xs c"
    by (rule snoc.IH [OF c(1) snoc.prems(2) snoc.prems(3)]) simp_all
  then show ?case using snoc.prems(3) [OF _ _ c(2)] by simp
qed simp

lemma try_map_eq_Inr [result_simps]:
  "try_map f xs = Inr ys \<longleftrightarrow> list_all2 (\<lambda>x y. f x = Inr y) xs ys"
proof (induction xs arbitrary: ys)
  case Nil
  show ?case by auto
next
  case (Cons x xs)
  show ?case
    by (cases ys) (auto simp: result_simps Cons.IH)
qed

lemma list_all2_in_set2: "list_all2 P xs ys \<Longrightarrow> y \<in> set ys \<Longrightarrow> \<exists>x \<in> set xs. P x y"
  by (induction rule: list_all2_induct) auto

lemma if_Inl_eq_Inr [result_simps]: "(if b then Inl e else m) = Inr x \<longleftrightarrow> \<not> b \<and> m = Inr x"
  by simp

lemma find_append:
  "List.find P (xs @ ys) = (case List.find P xs of None \<Rightarrow> List.find P ys | Some x \<Rightarrow> Some x)"
  by (induction xs) auto

lemma find_SomeD: "List.find P xs = Some x \<Longrightarrow> x \<in> set xs \<and> P x"
  by (auto simp: find_Some_iff)

lemma find_unique:
  assumes "x \<in> set xs" "P x" "\<And>y. y \<in> set xs \<Longrightarrow> P y \<Longrightarrow> y = x"
  shows "List.find P xs = Some x"
proof (cases "List.find P xs")
  case None
  with assms(1,2) show ?thesis by (auto simp: find_None_iff)
next
  case (Some y)
  with assms(3) show ?thesis by (auto dest: find_SomeD)
qed

section \<open>Lemmas on integers\<close>

lemmas i128_defs [int_simps] =
  check_i128_def i128_checked_add_def i128_checked_sub_def i128_checked_mul_def
  i128_checked_neg_def

lemma check_i128_eq_Some: "check_i128 x = Some y \<longleftrightarrow> in_i128 x \<and> y = x"
  by (auto simp: check_i128_def)

lemma in_i128_0 [simp]: "in_i128 0"
  by (simp add: in_i128_def i128_min_def i128_max_def)

lemma in_i128_neg: "in_i128 x \<Longrightarrow> x \<noteq> i128_min \<Longrightarrow> in_i128 (- x)"
  by (simp add: in_i128_def i128_min_def i128_max_def)

lemma in_i128_between: "in_i128 a \<Longrightarrow> in_i128 b \<Longrightarrow> a \<le> x \<Longrightarrow> x \<le> b \<Longrightarrow> in_i128 x"
  by (simp add: in_i128_def)

lemma unat_word_saturating_add:
  "unat (word_saturating_add a b :: 'a::len word) = min (unat a + unat b) (2 ^ LENGTH('a) - 1)"
proof (cases "unat a + unat b < 2 ^ LENGTH('a)")
  case True
  then show ?thesis
    by (simp add: word_saturating_add_def unat_word_ariths)
next
  case False
  then show ?thesis
    by (simp add: word_saturating_add_def unsigned_minus_1_eq_mask mask_eq_exp_minus_1)
qed

lemma unat_word_saturating_sub:
  "unat (word_saturating_sub a b :: 'a::len word) = unat a - unat b"
proof (cases "b \<le> a")
  case True
  then show ?thesis
    by (simp add: word_saturating_sub_def unat_sub)
next
  case False
  then have "unat a \<le> unat b"
    by (simp add: word_le_nat_alt)
  with False show ?thesis
    by (simp add: word_saturating_sub_def)
qed

lemma word_checked_sub_eq_Some:
  "word_checked_sub a b = Some c \<longleftrightarrow> unat b + unat c = unat a" for a b c :: "'a::len word"
proof (cases "b \<le> a")
  case True
  then have "unat (a - b) = unat a - unat b" and "unat b \<le> unat a"
    by (simp_all add: unat_sub word_le_nat_alt)
  then have "a - b = c \<longleftrightarrow> unat b + unat c = unat a"
    by (auto simp: word_unat_eq_iff)
  with True show ?thesis
    by (simp add: word_checked_sub_def)
next
  case False
  then show ?thesis
    by (auto simp: word_checked_sub_def word_le_nat_alt)
qed

lemma word_checked_sub_eq_None:
  "word_checked_sub a b = None \<longleftrightarrow> unat a < unat b" for a b :: "'a::len word"
  by (auto simp: word_checked_sub_def word_le_nat_alt)

section \<open>The comparator interface\<close>

text \<open>
  What \<open>sort_by\<close> asks of a comparator: a total preorder. Its clients rely on the result being
  a permutation, ordered, and stable.
\<close>

locale comparator =
  fixes c :: "'a \<Rightarrow> 'a \<Rightarrow> ordering"
  assumes cmp_refl: "c x x = OEqual"
    and cmp_sym: "c y x = ord_reverse (c x y)"
    and cmp_trans: "c x y \<noteq> OGreater \<Longrightarrow> c y z \<noteq> OGreater \<Longrightarrow> c x z \<noteq> OGreater"
begin

lemma cmp_total: "c x y = OGreater \<Longrightarrow> c y x \<noteq> OGreater"
  by (simp add: cmp_sym [of y x])

lemma mset_insert_by: "mset (insert_by c x xs) = add_mset x (mset xs)"
  by (induction xs) auto

lemma mset_sort_by: "mset (sort_by c xs) = mset xs"
  by (induction xs) (simp_all add: mset_insert_by)

lemma set_sort_by: "set (sort_by c xs) = set xs"
  by (metis mset_sort_by set_mset_mset)

lemma sorted_insert_by:
  "sorted_wrt (\<lambda>x y. c x y \<noteq> OGreater) xs \<Longrightarrow>
   sorted_wrt (\<lambda>x y. c x y \<noteq> OGreater) (insert_by c x xs)"
proof (induction xs)
  case Nil
  then show ?case by simp
next
  case (Cons y ys)
  have "set (insert_by c x ys) = insert x (set ys)"
    by (metis mset_insert_by set_mset_add_mset_insert set_mset_mset)
  with Cons cmp_total [of x y] cmp_trans [of x y] show ?case by auto
qed

lemma sorted_sort_by: "sorted_wrt (\<lambda>x y. c x y \<noteq> OGreater) (sort_by c xs)"
  by (induction xs) (simp_all add: sorted_insert_by)

lemma filter_insert_by:
  assumes "sorted_wrt (\<lambda>x y. c x y \<noteq> OGreater) xs"
  shows "filter (\<lambda>y. c k y = OEqual) (insert_by c x xs) = filter (\<lambda>y. c k y = OEqual) (x # xs)"
  using assms
proof (induction xs)
  case Nil
  then show ?case by simp
next
  case (Cons y ys)
  have "\<not> (c k x = OEqual \<and> c k y = OEqual)" if "c x y = OGreater"
  proof
    assume eq: "c k x = OEqual \<and> c k y = OEqual"
    then have "c x k = OEqual" by (simp add: cmp_sym [of x k])
    with eq cmp_trans [of x k y] that show False by simp
  qed
  with Cons show ?case by auto
qed

lemma stable_sort_by:
  "filter (\<lambda>y. c k y = OEqual) (sort_by c xs) = filter (\<lambda>y. c k y = OEqual) xs"
  by (induction xs) (simp_all add: filter_insert_by sorted_sort_by)

lemma sorted_mset_unique:
  assumes "sorted_wrt (\<lambda>x y. c x y \<noteq> OGreater) xs" "sorted_wrt (\<lambda>x y. c x y \<noteq> OGreater) ys"
    and "mset xs = mset ys" "\<And>x y. x \<in> set xs \<Longrightarrow> y \<in> set xs \<Longrightarrow> c x y = OEqual \<Longrightarrow> x = y"
  shows "xs = ys"
  using assms
proof (induction xs arbitrary: ys)
  case (Cons x xs)
  then obtain y zs where ys: "ys = y # zs" by (cases ys) auto
  have sets: "set (x # xs) = set (y # zs)" using Cons.prems(3) ys by (metis set_mset_mset)
  have "x = y"
  proof (rule ccontr)
    assume "x \<noteq> y"
    then have "y \<in> set xs" "x \<in> set zs" using sets by auto
    then have "c x y \<noteq> OGreater" "c y x \<noteq> OGreater" using Cons.prems(1,2) ys by auto
    then have "c x y = OEqual" using cmp_sym [of y x] by (cases "c x y") auto
    with Cons.prems(4) [of x y] \<open>y \<in> set xs\<close> \<open>x \<noteq> y\<close> show False by simp
  qed
  with Cons ys show ?case by auto
qed simp

lemma sort_by_perm:
  assumes "mset xs = mset ys" "\<And>x y. x \<in> set xs \<Longrightarrow> y \<in> set xs \<Longrightarrow> c x y = OEqual \<Longrightarrow> x = y"
  shows "sort_by c xs = sort_by c ys"
  by (rule sorted_mset_unique) (use assms in \<open>auto simp: mset_sort_by set_sort_by sorted_sort_by\<close>)

end

text \<open>Comparing by a key is such a comparator; chains of \<open>then_with\<close> are comparisons of tuples.\<close>

lemma comparator_by_key:
  assumes "\<And>x y. c x y = ord_cmp (k x) (k y)"
  shows "comparator c"
  by unfold_locales (auto simp: assms ord_cmp_def split: if_splits)

lemma then_with_ord_cmp: "then_with (ord_cmp a b) (ord_cmp a' b') = ord_cmp (a, a') (b, b')"
  by (auto simp: then_with_def ord_cmp_def)

end
