(* ===== verification/RustStr.thy ===== *)
theory RustStr
  imports Prelude
begin

text \<open>
  The part of Rust's \<open>str\<close> and \<open>[u8]\<close> API the gateway uses. A \<open>str\<close> is its UTF-8 byte sequence,
  one \<open>char\<close> per byte, so \<open>length\<close> is \<open>str::len\<close>, the order is \<open>Ord\<close> on byte strings, and
  \<open>trim\<close> removes the UTF-8 encodings of the characters with the Unicode property White\_Space.
\<close>

section \<open>Operations\<close>

definition byte_of :: "char \<Rightarrow> nat" where
  "byte_of c = of_char c"

definition is_ascii_digit :: "char \<Rightarrow> bool" where
  "is_ascii_digit c \<longleftrightarrow> 48 \<le> byte_of c \<and> byte_of c \<le> 57"

definition is_ascii_uppercase :: "char \<Rightarrow> bool" where
  "is_ascii_uppercase c \<longleftrightarrow> 65 \<le> byte_of c \<and> byte_of c \<le> 90"

definition is_ascii_lowercase :: "char \<Rightarrow> bool" where
  "is_ascii_lowercase c \<longleftrightarrow> 97 \<le> byte_of c \<and> byte_of c \<le> 122"

definition is_ascii_hexdigit :: "char \<Rightarrow> bool" where
  "is_ascii_hexdigit c \<longleftrightarrow> is_ascii_digit c \<or> (65 \<le> byte_of c \<and> byte_of c \<le> 70)
     \<or> (97 \<le> byte_of c \<and> byte_of c \<le> 102)"

definition is_ascii_whitespace :: "char \<Rightarrow> bool" where
  "is_ascii_whitespace c \<longleftrightarrow> byte_of c \<in> {9, 10, 12, 13, 32}"

definition ascii_lower :: "char \<Rightarrow> char" where
  "ascii_lower c = (if is_ascii_uppercase c then char_of (byte_of c + 32) else c)"

definition ascii_upper :: "char \<Rightarrow> char" where
  "ascii_upper c = (if is_ascii_lowercase c then char_of (byte_of c - 32) else c)"

definition to_ascii_lowercase :: "string \<Rightarrow> string" where
  "to_ascii_lowercase s = map ascii_lower s"

definition to_ascii_uppercase :: "string \<Rightarrow> string" where
  "to_ascii_uppercase s = map ascii_upper s"

definition eq_ignore_ascii_case :: "string \<Rightarrow> string \<Rightarrow> bool" where
  "eq_ignore_ascii_case s t \<longleftrightarrow> to_ascii_lowercase s = to_ascii_lowercase t"

definition strip_prefix :: "string \<Rightarrow> string \<Rightarrow> string option" where
  "strip_prefix p s = (if take (length p) s = p then Some (drop (length p) s) else None)"

definition starts_with :: "string \<Rightarrow> string \<Rightarrow> bool" where
  "starts_with p s \<longleftrightarrow> take (length p) s = p"

definition ends_with :: "string \<Rightarrow> string \<Rightarrow> bool" where
  "ends_with p s \<longleftrightarrow> take (length p) (rev s) = rev p"

text \<open>\<open>contains needle haystack\<close>: does the needle start at some position of the haystack?\<close>

fun contains :: "string \<Rightarrow> string \<Rightarrow> bool" where
  "contains n [] \<longleftrightarrow> n = []"
| "contains n (c # cs) \<longleftrightarrow> starts_with n (c # cs) \<or> contains n cs"

fun split_on :: "char \<Rightarrow> string \<Rightarrow> string list" where
  "split_on d [] = [[]]"
| "split_on d (c # cs) =
     (if c = d then [] # split_on d cs
      else (case split_on d cs of [] \<Rightarrow> [[c]] | p # ps \<Rightarrow> (c # p) # ps))"

text \<open>The White\_Space characters, UTF-8 encoded.\<close>

definition white_space :: "string list" where
  "white_space =
     map (\<lambda>b. [char_of b]) [9, 10, 11, 12, 13, 32 :: nat]
   @ [[CHR 0xC2, CHR 0x85], [CHR 0xC2, CHR 0xA0], [CHR 0xE1, CHR 0x9A, CHR 0x80]]
   @ map (\<lambda>b. [CHR 0xE2, CHR 0x80, char_of b]) ([128 ..< 139] @ [168, 169, 175 :: nat])
   @ [[CHR 0xE2, CHR 0x81, CHR 0x9F], [CHR 0xE3, CHR 0x80, CHR 0x80]]"

function trim_start_by :: "string list \<Rightarrow> string \<Rightarrow> string" where
  "trim_start_by ws s =
     (case List.find (\<lambda>w. w \<noteq> [] \<and> starts_with w s) ws of
        None \<Rightarrow> s
      | Some w \<Rightarrow> trim_start_by ws (drop (length w) s))"
  by pat_completeness auto
termination
proof (relation "measure (\<lambda>(ws, s). length s)", simp)
  fix ws s w
  assume "List.find (\<lambda>w. w \<noteq> [] \<and> starts_with w s) ws = Some w"
  then have "w \<noteq> []" and "take (length w) s = w"
    by (auto dest: find_SomeD simp: starts_with_def)
  then have "s \<noteq> []" by auto
  with \<open>w \<noteq> []\<close> show "((ws, drop (length w) s), ws, s) \<in> measure (\<lambda>(ws, s). length s)"
    by simp
qed

declare trim_start_by.simps [simp del]

definition trim :: "string \<Rightarrow> string" where
  "trim s = rev (trim_start_by (map rev white_space) (rev (trim_start_by white_space s)))"

text \<open>\<open>chars().count()\<close> and \<open>chars().take(n)\<close> of valid UTF-8: every character has one byte that is
  not a continuation byte \<open>0b10xxxxxx\<close>.\<close>

definition is_char_start :: "char \<Rightarrow> bool" where
  "is_char_start c \<longleftrightarrow> byte_of c < 128 \<or> 192 \<le> byte_of c"

definition chars_count :: "string \<Rightarrow> nat" where
  "chars_count s = length (filter is_char_start s)"

fun chars_take :: "nat \<Rightarrow> string \<Rightarrow> string" where
  "chars_take n [] = []"
| "chars_take n (c # cs) =
     (if is_char_start c then (case n of 0 \<Rightarrow> [] | Suc m \<Rightarrow> c # chars_take m cs)
      else c # chars_take n cs)"

section \<open>Decimal numerals\<close>

definition digit_char :: "nat \<Rightarrow> char" where
  "digit_char d = char_of (48 + d)"

definition digit_val :: "char \<Rightarrow> nat" where
  "digit_val c = byte_of c - 48"

text \<open>\<open>Display\<close> of an unsigned integer, and \<open>{:0width$}\<close>.\<close>

fun show_nat :: "nat \<Rightarrow> string" where
  "show_nat n = (if n < 10 then [digit_char n] else show_nat (n div 10) @ [digit_char (n mod 10)])"

declare show_nat.simps [simp del]

definition show_int :: "int \<Rightarrow> string" where
  "show_int i = (if i < 0 then CHR ''-'' # show_nat (nat (- i)) else show_nat (nat i))"

definition pad_zeros :: "nat \<Rightarrow> string \<Rightarrow> string" where
  "pad_zeros w s = replicate (w - length s) (CHR ''0'') @ s"

definition digits_val :: "string \<Rightarrow> nat" where
  "digits_val s = foldl (\<lambda>a c. 10 * a + digit_val c) 0 s"

text \<open>\<open>str::parse::<i128>\<close>: an optional sign and at least one digit, in range.\<close>

definition parse_i128 :: "string \<Rightarrow> int option" where
  "parse_i128 s =
     (let (neg, ds) = (case s of [] \<Rightarrow> (False, [])
                       | c # t \<Rightarrow> if c = CHR ''-'' then (True, t)
                                  else if c = CHR ''+'' then (False, t) else (False, s))
      in if ds = [] \<or> \<not> list_all is_ascii_digit ds then None
         else check_i128 (if neg then - int (digits_val ds) else int (digits_val ds)))"

section \<open>Lemmas\<close>

lemma byte_of_digit_char [simp]: "d < 10 \<Longrightarrow> byte_of (digit_char d) = 48 + d"
  by (simp add: byte_of_def digit_char_def)

lemma is_ascii_digit_digit_char [simp]: "d < 10 \<Longrightarrow> is_ascii_digit (digit_char d)"
  by (simp add: is_ascii_digit_def)

lemma digit_val_digit_char [simp]: "d < 10 \<Longrightarrow> digit_val (digit_char d) = d"
  by (simp add: digit_val_def)

lemma is_ascii_digit_zero [simp]: "is_ascii_digit (CHR ''0'')"
  by (simp add: is_ascii_digit_def byte_of_def)

lemma digit_val_zero [simp]: "digit_val (CHR ''0'') = 0"
  by (simp add: digit_val_def byte_of_def)

lemma show_nat_digits: "list_all is_ascii_digit (show_nat n)"
proof (induction n rule: show_nat.induct)
  case (1 n)
  then show ?case by (subst show_nat.simps) simp
qed

lemma show_nat_nonempty [simp]: "show_nat n \<noteq> []"
  by (subst show_nat.simps) simp

lemma digits_val_Nil [simp]: "digits_val [] = 0"
  by (simp add: digits_val_def)

lemma digits_val_snoc [simp]: "digits_val (s @ [c]) = 10 * digits_val s + digit_val c"
  by (simp add: digits_val_def)

lemma digits_val_append: "digits_val (s @ t) = digits_val s * 10 ^ length t + digits_val t"
proof (induction t rule: rev_induct)
  case (snoc c t)
  have "digits_val (s @ t @ [c]) = 10 * digits_val (s @ t) + digit_val c"
    using digits_val_snoc [of "s @ t" c] by simp
  with snoc show ?case by (simp add: algebra_simps)
qed simp

lemma digits_val_zeros [simp]: "digits_val (replicate k (CHR ''0'')) = 0"
  by (induction k) (simp_all add: digits_val_append [of "[CHR ''0'']", simplified] digits_val_def)

lemma digits_val_show_nat [simp]: "digits_val (show_nat n) = n"
proof (induction n rule: show_nat.induct)
  case (1 n)
  show ?case
  proof (cases "n < 10")
    case True
    then show ?thesis by (simp add: show_nat.simps [of n] digits_val_def)
  next
    case False
    with 1 show ?thesis by (simp add: show_nat.simps [of n])
  qed
qed

lemma length_show_nat: "n < 10 ^ w \<Longrightarrow> 0 < w \<Longrightarrow> length (show_nat n) \<le> w"
proof (induction n arbitrary: w rule: show_nat.induct)
  case (1 n)
  show ?case
  proof (cases "n < 10")
    case True
    with 1 show ?thesis by (simp add: show_nat.simps [of n])
  next
    case False
    then obtain v where w: "w = Suc v" and v: "0 < v"
      using "1.prems" by (cases w; cases "w - 1") auto
    with "1.prems" have "n div 10 < 10 ^ v"
      by (simp add: less_mult_imp_div_less mult.commute)
    with 1 False v w show ?thesis by (simp add: show_nat.simps [of n])
  qed
qed

lemma digits_val_pad [simp]: "digits_val (pad_zeros w s) = digits_val s"
  by (simp add: pad_zeros_def digits_val_append)

lemma length_pad_zeros [simp]: "length s \<le> w \<Longrightarrow> length (pad_zeros w s) = w"
  by (simp add: pad_zeros_def)

lemma pad_zeros_digits: "list_all is_ascii_digit s \<Longrightarrow> list_all is_ascii_digit (pad_zeros w s)"
  by (auto simp: pad_zeros_def list_all_iff)

lemma digit_not_sign:
  "is_ascii_digit c \<Longrightarrow> c \<noteq> CHR ''-'' \<and> c \<noteq> CHR ''+'' \<and> c \<noteq> CHR ''.''"
  by (auto simp: is_ascii_digit_def byte_of_def)

lemma parse_i128_digits:
  assumes "s \<noteq> []" "list_all is_ascii_digit s"
  shows "parse_i128 s = check_i128 (int (digits_val s))"
proof -
  obtain c t where s: "s = c # t" using assms(1) by (cases s) auto
  with assms(2) digit_not_sign [of c] have "c \<noteq> CHR ''-''" "c \<noteq> CHR ''+''" by auto
  with assms s show ?thesis by (simp add: parse_i128_def)
qed

lemma split_on_none: "d \<notin> set s \<Longrightarrow> split_on d s = [s]"
  by (induction s) auto

lemma split_on_nonempty [simp]: "split_on d s \<noteq> []"
  by (cases s) (auto split: list.splits)

lemma split_on_append: "d \<notin> set s \<Longrightarrow> split_on d (s @ d # t) = s # split_on d t"
  by (induction s) auto

lemma strip_prefix_eq_Some: "strip_prefix p s = Some t \<longleftrightarrow> s = p @ t"
proof
  assume "strip_prefix p s = Some t"
  then have "take (length p) s = p" "t = drop (length p) s" by (auto simp: strip_prefix_def split: if_splits)
  then show "s = p @ t" by (metis append_take_drop_id)
qed (simp add: strip_prefix_def)

lemma strip_prefix_eq_None: "strip_prefix p s = None \<longleftrightarrow> (\<forall>t. s \<noteq> p @ t)"
  by (metis not_Some_eq strip_prefix_eq_Some)

lemma white_space_not_printable:
  "w \<in> set white_space \<Longrightarrow> w \<noteq> [] \<and> \<not> (33 \<le> byte_of (hd w) \<and> byte_of (hd w) < 127)
     \<and> \<not> (33 \<le> byte_of (last w) \<and> byte_of (last w) < 127)"
  by (auto simp: white_space_def byte_of_def upt_rec)

lemma trim_start_by_id:
  assumes "\<And>w. w \<in> set ws \<Longrightarrow> w \<noteq> [] \<Longrightarrow> \<not> starts_with w s"
  shows "trim_start_by ws s = s"
proof -
  have "List.find (\<lambda>w. w \<noteq> [] \<and> starts_with w s) ws = None"
    using assms by (auto simp: find_None_iff)
  then show ?thesis by (simp add: trim_start_by.simps [of ws s])
qed

lemma starts_with_hd: "starts_with w s \<Longrightarrow> w \<noteq> [] \<Longrightarrow> s \<noteq> [] \<and> hd w = hd s"
  by (cases w; cases s) (auto simp: starts_with_def)

lemma trim_printable_ends:
  assumes "s \<noteq> []" "33 \<le> byte_of (hd s)" "byte_of (hd s) < 127"
    and "33 \<le> byte_of (last s)" "byte_of (last s) < 127"
  shows "trim s = s"
proof -
  have "\<not> starts_with w s" if "w \<in> set white_space" for w
    using that assms(2,3) white_space_not_printable [OF that] starts_with_hd [of w s] by metis
  then have 1: "trim_start_by white_space s = s"
    by (rule trim_start_by_id)
  have "\<not> starts_with (rev w) (rev s)" if "w \<in> set white_space" for w
    using that assms white_space_not_printable [OF that] starts_with_hd [of "rev w" "rev s"]
    by (metis hd_rev rev_is_Nil_conv)
  then have "trim_start_by (map rev white_space) (rev s) = rev s"
    by (intro trim_start_by_id) auto
  with 1 show ?thesis by (simp add: trim_def)
qed

lemma is_ascii_digit_printable: "is_ascii_digit c \<Longrightarrow> 33 \<le> byte_of c \<and> byte_of c < 127"
  by (simp add: is_ascii_digit_def)

lemma split_on_join: "concat (map (\<lambda>p. d # p) (split_on d s)) = d # s"
  by (induction s) (auto split: list.splits)

lemma split_on_one: "split_on d s = [a] \<Longrightarrow> s = a"
  using split_on_join [of d s] by simp

lemma split_on_two: "split_on d s = [a, b] \<Longrightarrow> s = a @ d # b"
  using split_on_join [of d s] by simp

end
