(* ===== verification/Money.thy ===== *)
theory Money
  imports RustStr
begin

text \<open>
  \<open>FixedDecimal\<close> of \<open>crates/billing-ledger/src/rating.rs\<close>: an \<open>i128\<close> number of units at a decimal
  scale, its checked arithmetic, its \<open>Display\<close> and its parser. The units are an \<open>int\<close> that every
  operation keeps inside the \<open>i128\<close> range; the scale is a \<open>nat\<close> (the code only counts up to it).
\<close>

section \<open>Errors and the data type\<close>

datatype rating_error =
    RE_InvalidPricingJson string
  | RE_InvalidScale nat
  | RE_InvalidCurrency string
  | RE_InvalidMoneyType string
  | RE_InvalidDecimal string string
  | RE_TooManyFractionalDigits string string nat
  | RE_NegativeMoney string
  | RE_ScaleMismatch nat nat
  | RE_ArithmeticOverflow
  | RE_InvalidUsageJson string
  | RE_InvalidUsageField string
  | RE_UsageCategoryExceedsTotal string string

datatype fixed_decimal = FixedDecimal (fd_units: int) (fd_scale: nat)

text \<open>The derived \<open>Ord\<close>: units first, then the scale.\<close>

instantiation fixed_decimal :: linorder
begin

definition less_eq_fixed_decimal :: "fixed_decimal \<Rightarrow> fixed_decimal \<Rightarrow> bool" where
  "a \<le> b \<longleftrightarrow> fd_units a < fd_units b \<or> (fd_units a = fd_units b \<and> fd_scale a \<le> fd_scale b)"

definition less_fixed_decimal :: "fixed_decimal \<Rightarrow> fixed_decimal \<Rightarrow> bool" where
  "a < b \<longleftrightarrow> fd_units a < fd_units b \<or> (fd_units a = fd_units b \<and> fd_scale a < fd_scale b)"

instance
  by standard (auto simp: less_eq_fixed_decimal_def less_fixed_decimal_def intro: fixed_decimal.expand)

end

definition DEFAULT_CURRENCY :: string where
  "DEFAULT_CURRENCY = ''USD''"

definition DEFAULT_MONEY_SCALE :: nat where
  "DEFAULT_MONEY_SCALE = 8"

definition MAX_MONEY_SCALE :: nat where
  "MAX_MONEY_SCALE = 18"

section \<open>Operations\<close>

definition validate_scale :: "nat \<Rightarrow> rating_error + unit" where
  "validate_scale scale = (if scale \<le> MAX_MONEY_SCALE then Inr () else Inl (RE_InvalidScale scale))"

definition from_units :: "int \<Rightarrow> nat \<Rightarrow> rating_error + fixed_decimal" where
  "from_units units scale = rbind (validate_scale scale) (\<lambda>_. Inr (FixedDecimal units scale))"

definition fd_zero :: "nat \<Rightarrow> rating_error + fixed_decimal" where
  "fd_zero scale = from_units 0 scale"

definition fd_is_zero :: "fixed_decimal \<Rightarrow> bool" where
  "fd_is_zero d \<longleftrightarrow> fd_units d = 0"

definition fd_checked_add :: "fixed_decimal \<Rightarrow> fixed_decimal \<Rightarrow> rating_error + fixed_decimal" where
  "fd_checked_add a b =
     (if fd_scale a \<noteq> fd_scale b then Inl (RE_ScaleMismatch (fd_scale a) (fd_scale b))
      else rbind (ok_or RE_ArithmeticOverflow (i128_checked_add (fd_units a) (fd_units b)))
             (\<lambda>units. Inr (FixedDecimal units (fd_scale a))))"

text \<open>\<open>pow10\<close> multiplies in \<open>u128\<close> and stops at the first overflow.\<close>

primrec pow10_loop :: "nat \<Rightarrow> nat \<Rightarrow> nat option" where
  "pow10_loop 0 v = Some v"
| "pow10_loop (Suc n) v = (if v * 10 < 2 ^ 128 then pow10_loop n (v * 10) else None)"

definition pow10 :: "nat \<Rightarrow> nat option" where
  "pow10 scale = pow10_loop scale 1"

text \<open>\<open>Display\<close>; \<open>None\<close> is \<open>fmt::Error\<close>.\<close>

definition fd_to_string :: "fixed_decimal \<Rightarrow> string option" where
  "fd_to_string d =
     (if fd_scale d = 0 then Some (show_int (fd_units d))
      else (let negative = fd_units d < 0;
                magnitude = nat \<bar>fd_units d\<bar>
            in map_option
                 (\<lambda>factor. (if negative then ''-'' else '''')
                    @ show_nat (magnitude div factor) @ ''.''
                    @ pad_zeros (fd_scale d) (show_nat (magnitude mod factor)))
                 (pow10 (fd_scale d))))"

text \<open>The loop that pushes zeros until the fraction has \<open>scale\<close> digits.\<close>

definition pad_fraction :: "nat \<Rightarrow> string \<Rightarrow> string" where
  "pad_fraction scale fraction = fraction @ replicate (scale - length fraction) (CHR ''0'')"

definition parse_decimal_string :: "string \<Rightarrow> string \<Rightarrow> nat \<Rightarrow> rating_error + fixed_decimal" where
  "parse_decimal_string field raw scale =
     rbind (validate_scale scale) (\<lambda>_.
     let v = trim raw in
     if v = [] then Inl (RE_InvalidDecimal field v) else
     let (negative, unsigned) =
           (case strip_prefix ''-'' v of
              Some u \<Rightarrow> (True, u)
            | None \<Rightarrow> (case strip_prefix ''+'' v of Some u \<Rightarrow> (False, u) | None \<Rightarrow> (False, v)))
     in
     if unsigned = [] then Inl (RE_InvalidDecimal field v) else
     let parts = split_on (CHR ''.'') unsigned;
         whole = hd parts;
         fraction_part = (case tl parts of [] \<Rightarrow> None | f # _ \<Rightarrow> Some f)
     in
     if length parts > 2 \<or> whole = [] \<or> \<not> list_all is_ascii_digit whole
        \<or> \<not> list_all is_ascii_digit (unwrap_or [] fraction_part)
     then Inl (RE_InvalidDecimal field v) else
     let fraction = unwrap_or [] fraction_part in
     if length fraction > scale then Inl (RE_TooManyFractionalDigits field v scale) else
     rbind (ok_or RE_ArithmeticOverflow (pow10 scale)) (\<lambda>factor.
     rbind (ok_or (RE_InvalidDecimal field v) (parse_i128 whole)) (\<lambda>whole_value.
     rbind (ok_or RE_ArithmeticOverflow (check_i128 (int factor))) (\<lambda>factor_i128.
     rbind (ok_or RE_ArithmeticOverflow (i128_checked_mul whole_value factor_i128)) (\<lambda>whole_units.
     let fraction_digits = pad_fraction scale fraction in
     rbind (if fraction_digits = [] then Inr 0
            else ok_or (RE_InvalidDecimal field v) (parse_i128 fraction_digits)) (\<lambda>fraction_units.
     rbind (ok_or RE_ArithmeticOverflow (i128_checked_add whole_units fraction_units)) (\<lambda>units.
     rbind (if negative then ok_or RE_ArithmeticOverflow (i128_checked_neg units) else Inr units)
       (\<lambda>units. from_units units scale))))))))"

definition fd_parse :: "string \<Rightarrow> nat \<Rightarrow> rating_error + fixed_decimal" where
  "fd_parse s scale = parse_decimal_string ''decimal'' s scale"

definition reject_negative :: "string \<Rightarrow> fixed_decimal \<Rightarrow> rating_error + unit" where
  "reject_negative field money = (if fd_units money < 0 then Inl (RE_NegativeMoney field) else Inr ())"

text \<open>The currency check: a leading capital, 3 to 32 bytes, capitals, digits and underscores. A byte
  of a non-ASCII character passes none of the tests, as its character does in the code.\<close>

definition currency_ok :: "string \<Rightarrow> bool" where
  "currency_ok currency =
     (case currency of
        [] \<Rightarrow> False
      | first # rest \<Rightarrow>
          is_ascii_uppercase first \<and> 3 \<le> length currency \<and> length currency \<le> 32
          \<and> list_all (\<lambda>c. is_ascii_uppercase c \<or> is_ascii_digit c \<or> c = CHR ''_'') rest)"

definition validate_currency :: "string \<Rightarrow> rating_error + unit" where
  "validate_currency currency =
     (if currency_ok currency then Inr () else Inl (RE_InvalidCurrency currency))"

section \<open>Well-formed amounts\<close>

definition fd_ok :: "fixed_decimal \<Rightarrow> bool" where
  "fd_ok d \<longleftrightarrow> in_i128 (fd_units d) \<and> fd_scale d \<le> MAX_MONEY_SCALE"

lemma fd_ok_FixedDecimal [simp]:
  "fd_ok (FixedDecimal u s) \<longleftrightarrow> in_i128 u \<and> s \<le> MAX_MONEY_SCALE"
  by (simp add: fd_ok_def)

lemma validate_scale_eq_Inr [simp]: "validate_scale s = Inr x \<longleftrightarrow> s \<le> MAX_MONEY_SCALE"
  by (simp add: validate_scale_def)

lemma from_units_eq_Inr [simp]:
  "from_units u s = Inr d \<longleftrightarrow> s \<le> MAX_MONEY_SCALE \<and> d = FixedDecimal u s"
  by (auto simp: from_units_def validate_scale_def)

lemma fd_zero_eq_Inr [simp]:
  "fd_zero s = Inr d \<longleftrightarrow> s \<le> MAX_MONEY_SCALE \<and> d = FixedDecimal 0 s"
  by (simp add: fd_zero_def)

lemma fd_zero_ok: "s \<le> MAX_MONEY_SCALE \<Longrightarrow> fd_zero s = Inr (FixedDecimal 0 s)"
  by simp

lemma fd_checked_add_eq_Inr:
  "fd_checked_add a b = Inr c \<longleftrightarrow>
     fd_scale a = fd_scale b \<and> in_i128 (fd_units a + fd_units b)
     \<and> c = FixedDecimal (fd_units a + fd_units b) (fd_scale a)"
  by (auto simp: fd_checked_add_def i128_checked_add_def check_i128_def)

lemma fd_checked_add_ok: "fd_ok a \<Longrightarrow> fd_checked_add a b = Inr c \<Longrightarrow> fd_ok c"
  by (auto simp: fd_checked_add_eq_Inr fd_ok_def)

lemma pow10_loop_Some: "v * 10 ^ n < 2 ^ 128 \<Longrightarrow> pow10_loop n v = Some (v * 10 ^ n)"
proof (induction n arbitrary: v)
  case (Suc n)
  have "v * 10 * 1 \<le> v * 10 * 10 ^ n" by (rule mult_le_mono2) simp
  also have "\<dots> < 2 ^ 128" using Suc.prems by (simp add: mult_ac)
  finally have "v * 10 < 2 ^ 128" by simp
  with Suc show ?case by (simp add: mult_ac)
qed simp

lemma pow10_Some: "scale \<le> 38 \<Longrightarrow> pow10 scale = Some (10 ^ scale)"
proof -
  assume "scale \<le> 38"
  then have "(10 :: nat) ^ scale \<le> 10 ^ 38" by (rule power_increasing) simp
  then show ?thesis by (simp add: pow10_def pow10_loop_Some)
qed

lemma in_i128_pow10: "scale \<le> MAX_MONEY_SCALE \<Longrightarrow> in_i128 (10 ^ scale)"
proof -
  assume "scale \<le> MAX_MONEY_SCALE"
  then have "(10 :: int) ^ scale \<le> 10 ^ 18" by (intro power_increasing) (auto simp: MAX_MONEY_SCALE_def)
  moreover have "- (2 ^ 127) \<le> (0 :: int)" "(0 :: int) \<le> 10 ^ scale" by simp_all
  ultimately show ?thesis
    unfolding in_i128_def i128_min_def i128_max_def by (intro conjI) (linarith, simp)
qed

section \<open>The decimal grammar\<close>

text \<open>The texts the parser accepts: an optional sign, at least one digit, and an optional point
  followed by digits.\<close>

definition decimal_text :: "string \<Rightarrow> string \<Rightarrow> string option \<Rightarrow> string" where
  "decimal_text sign whole fraction =
     sign @ whole @ (case fraction of None \<Rightarrow> [] | Some f \<Rightarrow> CHR ''.'' # f)"

definition decimal_parts_ok :: "string \<Rightarrow> string \<Rightarrow> string option \<Rightarrow> bool" where
  "decimal_parts_ok sign whole fraction \<longleftrightarrow>
     sign \<in> {'''', ''-'', ''+''} \<and> whole \<noteq> [] \<and> list_all is_ascii_digit whole
     \<and> list_all is_ascii_digit (unwrap_or [] fraction)"

definition decimal_magnitude :: "string \<Rightarrow> string option \<Rightarrow> nat \<Rightarrow> int" where
  "decimal_magnitude whole fraction scale =
     int (digits_val whole) * 10 ^ scale
     + int (digits_val (unwrap_or [] fraction)) * 10 ^ (scale - length (unwrap_or [] fraction))"

lemma digits_no_point: "list_all is_ascii_digit s \<Longrightarrow> CHR ''.'' \<notin> set s"
  using digit_not_sign by (auto simp: list_all_iff)

lemma split_decimal:
  assumes "list_all is_ascii_digit whole" "list_all is_ascii_digit (unwrap_or [] fraction)"
  shows "split_on (CHR ''.'') (whole @ (case fraction of None \<Rightarrow> [] | Some f \<Rightarrow> CHR ''.'' # f)) =
         whole # (case fraction of None \<Rightarrow> [] | Some f \<Rightarrow> [f])"
  using assms digits_no_point
  by (cases fraction) (simp_all add: split_on_none split_on_append)

lemma strip_sign:
  assumes "sign \<in> {'''', ''-'', ''+''}" "list_all is_ascii_digit whole" "whole \<noteq> []"
  shows "(case strip_prefix ''-'' (sign @ whole @ rest) of
            Some u \<Rightarrow> (True, u)
          | None \<Rightarrow> (case strip_prefix ''+'' (sign @ whole @ rest) of
                       Some u \<Rightarrow> (False, u) | None \<Rightarrow> (False, sign @ whole @ rest)))
         = (sign = ''-'', whole @ rest)"
  using assms digit_not_sign by (cases whole) (auto simp: strip_prefix_def)

lemma trim_decimal_text:
  assumes "decimal_parts_ok sign whole fraction"
  shows "trim (decimal_text sign whole fraction) = decimal_text sign whole fraction"
proof (rule trim_printable_ends)
  let ?s = "decimal_text sign whole fraction"
  have pr: "33 \<le> byte_of c \<and> byte_of c < 127" if "c \<in> set ?s" for c
    using that assms is_ascii_digit_printable [of c]
    by (auto simp: decimal_text_def decimal_parts_ok_def list_all_iff byte_of_def
             split: option.splits)
  show "?s \<noteq> []" using assms by (simp add: decimal_text_def decimal_parts_ok_def)
  then have "hd ?s \<in> set ?s" "last ?s \<in> set ?s" by simp_all
  with pr show "33 \<le> byte_of (hd ?s)" "byte_of (hd ?s) < 127"
    "33 \<le> byte_of (last ?s)" "byte_of (last ?s) < 127" by blast+
qed

lemma in_i128_nonneg: "0 \<le> x \<Longrightarrow> x \<le> y \<Longrightarrow> in_i128 y \<Longrightarrow> in_i128 x"
  by (rule in_i128_between [OF in_i128_0])

lemma digits_val_pad_fraction:
  "digits_val (pad_fraction scale f) = digits_val f * 10 ^ (scale - length f)"
  by (simp add: pad_fraction_def digits_val_append)

lemma pad_fraction_digits:
  "list_all is_ascii_digit f \<Longrightarrow> list_all is_ascii_digit (pad_fraction scale f)"
  by (auto simp: list_all_iff pad_fraction_def)

lemma parse_padded_fraction:
  assumes "list_all is_ascii_digit f"
    and "in_i128 (int (digits_val f) * 10 ^ (scale - length f))"
  shows "(if pad_fraction scale f = [] then Inr 0 else ok_or e (parse_i128 (pad_fraction scale f)))
         = Inr (int (digits_val f) * 10 ^ (scale - length f))"
proof (cases "pad_fraction scale f = []")
  case False
  from parse_i128_digits [OF this pad_fraction_digits [OF assms(1)]] assms(2) False show ?thesis
    by (simp add: digits_val_pad_fraction check_i128_def)
qed (auto simp: pad_fraction_def)

lemma parse_padded_fraction_D:
  assumes "(if pad_fraction scale f = [] then Inr 0 else ok_or e (parse_i128 (pad_fraction scale f)))
           = Inr x" and "list_all is_ascii_digit f"
  shows "x = int (digits_val f) * 10 ^ (scale - length f)"
proof (cases "pad_fraction scale f = []")
  case False
  from parse_i128_digits [OF this pad_fraction_digits [OF assms(2)]] assms(1) False show ?thesis
    by (simp add: digits_val_pad_fraction check_i128_eq_Some result_simps)
qed (use assms(1) in \<open>auto simp: pad_fraction_def\<close>)

lemma parse_decimal_text:
  assumes ok: "decimal_parts_ok sign whole fraction"
    and len: "length (unwrap_or [] fraction) \<le> scale" and scale: "scale \<le> MAX_MONEY_SCALE"
    and range: "in_i128 (decimal_magnitude whole fraction scale)"
  shows "parse_decimal_string field (decimal_text sign whole fraction) scale =
         Inr (FixedDecimal ((if sign = ''-'' then -1 else 1) * decimal_magnitude whole fraction scale)
                scale)"
proof -
  define W where "W = int (digits_val whole)"
  define f where "f = unwrap_or [] fraction"
  define F where "F = int (digits_val f) * 10 ^ (scale - length f)"
  have mag: "decimal_magnitude whole fraction scale = W * 10 ^ scale + F"
    by (simp add: decimal_magnitude_def W_def F_def f_def)
  have pos: "0 \<le> W" "0 \<le> F" "0 \<le> W * 10 ^ scale" by (simp_all add: W_def F_def)
  have "W * 1 \<le> W * 10 ^ scale" using pos by (intro mult_left_mono) simp_all
  then have W: "in_i128 W" "in_i128 (W * 10 ^ scale)" "in_i128 F" "in_i128 (W * 10 ^ scale + F)"
    using range mag pos by (auto elim: in_i128_nonneg [rotated 2])
  have neg: "in_i128 (- (W * 10 ^ scale + F))"
    using W(4) add_nonneg_nonneg [OF pos(3,2)] by (intro in_i128_neg) (auto simp: i128_min_def)
  have whole: "parse_i128 whole = Some W"
    using ok W(1) by (simp add: parse_i128_digits decimal_parts_ok_def W_def check_i128_def)
  have digits: "list_all is_ascii_digit f" using ok by (simp add: decimal_parts_ok_def f_def)
  note frac = parse_padded_fraction [OF digits, of scale, folded F_def, OF W(3)]
  have pow: "pow10 scale = Some (10 ^ scale)" using scale by (simp add: pow10_Some MAX_MONEY_SCALE_def)
  have sign: "sign \<in> {'''', ''-'', ''+''}" "list_all is_ascii_digit whole" "whole \<noteq> []"
    using ok by (simp_all add: decimal_parts_ok_def)
  define R where "R = (case fraction of None \<Rightarrow> [] | Some f \<Rightarrow> [f])"
  define u where "u = whole @ (case fraction of None \<Rightarrow> [] | Some f \<Rightarrow> CHR ''.'' # f)"
  define v where "v = decimal_text sign whole fraction"
  have v: "v = sign @ u" "v \<noteq> []" "u \<noteq> []" "trim v = v"
    using sign by (simp_all add: v_def u_def decimal_text_def trim_decimal_text [OF ok, unfolded decimal_text_def])
  have split: "split_on (CHR ''.'') u = whole # R"
    unfolding u_def R_def using ok by (intro split_decimal) (simp_all add: decimal_parts_ok_def)
  have R: "unwrap_or [] (case R of [] \<Rightarrow> None | f # _ \<Rightarrow> Some f) = f" "\<not> 2 < length (whole # R)"
    by (cases fraction; simp add: f_def R_def)+
  have strip: "(case strip_prefix ''-'' v of
            Some u \<Rightarrow> (True, u)
          | None \<Rightarrow> (case strip_prefix ''+'' v of Some u \<Rightarrow> (False, u) | None \<Rightarrow> (False, v)))
         = (sign = ''-'', u)"
    unfolding v(1) u_def by (rule strip_sign [OF sign])
  show ?thesis
    using sign len scale W neg in_i128_pow10 [OF scale] digits v(2,3) R(2)
    unfolding v_def [symmetric] parse_decimal_string_def
    by (simp add: v(4) strip split R(1) frac whole pow mag validate_scale_def from_units_def
          i128_checked_mul_def i128_checked_add_def i128_checked_neg_def check_i128_def
          f_def [symmetric])
qed

lemma strip_sign_cases:
  assumes "(case strip_prefix ''-'' v of
              Some u \<Rightarrow> (True, u)
            | None \<Rightarrow> (case strip_prefix ''+'' v of Some u \<Rightarrow> (False, u) | None \<Rightarrow> (False, v)))
           = (negative, u)"
  obtains sign where "v = sign @ u" "sign \<in> {'''', ''-'', ''+''}" "negative = (sign = ''-'')"
proof -
  have "v = ''-'' @ u \<and> negative \<or> v = ''+'' @ u \<and> \<not> negative \<or> v = u \<and> \<not> negative"
    using assms by (cases v) (auto simp: strip_prefix_def split: if_splits)
  with that [of "''-''"] that [of "''+''"] that [of "''''"] show ?thesis by auto
qed

lemma split_decimal_cases:
  assumes "\<not> 2 < length (split_on (CHR ''.'') u)"
  obtains fraction where
    "u = hd (split_on (CHR ''.'') u) @ (case fraction of None \<Rightarrow> [] | Some f \<Rightarrow> CHR ''.'' # f)"
    "(case tl (split_on (CHR ''.'') u) of [] \<Rightarrow> None | f # _ \<Rightarrow> Some f) = fraction"
proof (cases "split_on (CHR ''.'') u")
  case (Cons a ps)
  with assms have "ps = [] \<or> (\<exists>b. ps = [b])" by (cases ps; cases "tl ps") auto
  then show ?thesis
  proof
    assume "ps = []"
    with Cons split_on_one [of "CHR ''.''" u a] that [of None] show ?thesis by simp
  next
    assume "\<exists>b. ps = [b]"
    then obtain b where "ps = [b]" ..
    with Cons split_on_two [of "CHR ''.''" u a b] that [of "Some b"] show ?thesis by simp
  qed
qed simp

lemma parse_decimal_string_trim:
  "trim (trim raw) = trim raw
   \<Longrightarrow> parse_decimal_string field (trim raw) scale = parse_decimal_string field raw scale"
  by (simp add: parse_decimal_string_def)

lemma parse_decimal_string_Inr:
  assumes "parse_decimal_string field raw scale = Inr d"
  shows "\<exists>sign whole fraction. trim raw = decimal_text sign whole fraction
           \<and> decimal_parts_ok sign whole fraction \<and> length (unwrap_or [] fraction) \<le> scale
           \<and> in_i128 (decimal_magnitude whole fraction scale)
           \<and> scale \<le> MAX_MONEY_SCALE
           \<and> d = FixedDecimal ((if sign = ''-'' then -1 else 1) * decimal_magnitude whole fraction scale) scale"
proof -
  define v where "v = trim raw"
  obtain negative u where nu: "(case strip_prefix ''-'' v of
            Some u \<Rightarrow> (True, u)
          | None \<Rightarrow> (case strip_prefix ''+'' v of Some u \<Rightarrow> (False, u) | None \<Rightarrow> (False, v)))
         = (negative, u)" by (rule prod.exhaust)
  then obtain sign where sign: "v = sign @ u" "sign \<in> {'''', ''-'', ''+''}" "negative = (sign = ''-'')"
    by (rule strip_sign_cases)
  note p = assms [unfolded parse_decimal_string_def, folded v_def, unfolded Let_def nu prod.case]
  have len: "\<not> 2 < length (split_on (CHR ''.'') u)"
    using p by (auto simp: result_simps)
  then obtain fraction where
    fr: "u = hd (split_on (CHR ''.'') u) @ (case fraction of None \<Rightarrow> [] | Some f \<Rightarrow> CHR ''.'' # f)"
      "(case tl (split_on (CHR ''.'') u) of [] \<Rightarrow> None | f # _ \<Rightarrow> Some f) = fraction"
    by (rule split_decimal_cases)
  define whole where "whole = hd (split_on (CHR ''.'') u)"
  note p' = p [unfolded fr(2), folded whole_def]
  have scale: "scale \<le> MAX_MONEY_SCALE" and flen: "length (unwrap_or [] fraction) \<le> scale"
    using p' by (auto simp: result_simps)
  have ok: "decimal_parts_ok sign whole fraction"
    using p' sign(2) by (auto simp: result_simps decimal_parts_ok_def)
  have v: "v = decimal_text sign whole fraction"
    using sign(1) fr(1) by (simp add: decimal_text_def whole_def)
  have pow: "pow10 scale = Some (10 ^ scale)" using scale by (simp add: pow10_Some MAX_MONEY_SCALE_def)
  have "in_i128 (decimal_magnitude whole fraction scale)"
    using p' ok scale
    by (auto simp: result_simps pow decimal_magnitude_def decimal_parts_ok_def
        parse_i128_digits check_i128_eq_Some i128_checked_add_def i128_checked_mul_def
        dest!: parse_padded_fraction_D)
  from parse_decimal_text [OF ok flen scale this, of field] this ok v flen scale assms
  show ?thesis
    using parse_decimal_string_trim [of raw field scale] trim_decimal_text [OF ok]
    unfolding v_def by (intro exI [of _ sign] exI [of _ whole] exI [of _ fraction]) simp
qed

lemma show_int_text:
  "show_int i = decimal_text (if i < 0 then ''-'' else '''') (show_nat (nat \<bar>i\<bar>)) None"
  by (simp add: show_int_def decimal_text_def)

lemma decimal_magnitude_nonneg: "0 \<le> decimal_magnitude whole fraction scale"
  by (simp add: decimal_magnitude_def)

lemma parse_decimal_string_ok:
  assumes "parse_decimal_string field s scale = Inr d"
  shows "fd_ok d \<and> fd_scale d = scale"
proof -
  obtain sign whole fraction where m: "in_i128 (decimal_magnitude whole fraction scale)"
      "scale \<le> MAX_MONEY_SCALE"
    and d: "d = FixedDecimal ((if sign = ''-'' then -1 else 1) * decimal_magnitude whole fraction scale) scale"
    using parse_decimal_string_Inr [OF assms] by blast
  have "decimal_magnitude whole fraction scale \<noteq> i128_min"
    using decimal_magnitude_nonneg [of whole fraction scale] by (auto simp: i128_min_def)
  with m d in_i128_neg [OF m(1)] show ?thesis by simp
qed

text \<open>What \<open>Display\<close> writes is a text of the grammar whose magnitude is that of the amount.\<close>

lemma fd_to_string_text:
  assumes "fd_scale d \<le> MAX_MONEY_SCALE"
  shows "\<exists>sign whole fraction. fd_to_string d = Some (decimal_text sign whole fraction)
           \<and> decimal_parts_ok sign whole fraction
           \<and> length (unwrap_or [] fraction) = fd_scale d
           \<and> sign = (if fd_units d < 0 then ''-'' else '''')
           \<and> decimal_magnitude whole fraction (fd_scale d) = \<bar>fd_units d\<bar>"
proof (cases "fd_scale d = 0")
  case True
  then show ?thesis
    using show_nat_digits [of "nat \<bar>fd_units d\<bar>"]
    by (intro exI [of _ "if fd_units d < 0 then ''-'' else ''''"] exI [of _ "show_nat (nat \<bar>fd_units d\<bar>)"]
          exI [of _ None])
       (simp add: fd_to_string_def show_int_text decimal_parts_ok_def decimal_magnitude_def)
next
  case False
  let ?s = "fd_scale d" and ?m = "nat \<bar>fd_units d\<bar>"
  let ?minor = "pad_zeros ?s (show_nat (?m mod 10 ^ ?s))"
  have pow: "pow10 ?s = Some (10 ^ ?s)" using assms by (simp add: pow10_Some MAX_MONEY_SCALE_def)
  have "length (show_nat (?m mod 10 ^ ?s)) \<le> ?s"
    using False by (intro length_show_nat) simp_all
  then have len: "length ?minor = ?s" by simp
  have "int (?m div 10 ^ ?s) * 10 ^ ?s + int (?m mod 10 ^ ?s) = \<bar>fd_units d\<bar>"
    by (simp add: zdiv_int zmod_int div_mult_mod_eq)
  with False pow len show ?thesis
    using show_nat_digits [of "?m div 10 ^ ?s"] show_nat_digits [of "?m mod 10 ^ ?s"]
    by (intro exI [of _ "if fd_units d < 0 then ''-'' else ''''"] exI [of _ "show_nat (?m div 10 ^ ?s)"]
          exI [of _ "Some ?minor"])
       (simp add: fd_to_string_def decimal_text_def decimal_parts_ok_def decimal_magnitude_def
          pad_zeros_digits Let_def)
qed

section \<open>Properties of the amount type\<close>

text \<open>The decimal parser accepts exactly the texts of the grammar: after trimming, an optional
  sign, at least one digit and an optional point with at most \<open>scale\<close> digits, whose magnitude in
  units fits an \<open>i128\<close>; and it returns the signed magnitude at the requested scale. In particular
  no accepted text is rounded, truncated or wrapped.\<close>

theorem fd_parse_exact:
  "fd_parse s scale = Inr d \<longleftrightarrow>
     (\<exists>sign whole fraction. trim s = decimal_text sign whole fraction
        \<and> decimal_parts_ok sign whole fraction \<and> length (unwrap_or [] fraction) \<le> scale
        \<and> in_i128 (decimal_magnitude whole fraction scale) \<and> scale \<le> MAX_MONEY_SCALE
        \<and> d = FixedDecimal ((if sign = ''-'' then -1 else 1) * decimal_magnitude whole fraction scale)
                scale)"
proof
  assume "fd_parse s scale = Inr d"
  then show "\<exists>sign whole fraction. trim s = decimal_text sign whole fraction
        \<and> decimal_parts_ok sign whole fraction \<and> length (unwrap_or [] fraction) \<le> scale
        \<and> in_i128 (decimal_magnitude whole fraction scale) \<and> scale \<le> MAX_MONEY_SCALE
        \<and> d = FixedDecimal ((if sign = ''-'' then -1 else 1) * decimal_magnitude whole fraction scale)
                scale"
    unfolding fd_parse_def by (rule parse_decimal_string_Inr)
qed (use parse_decimal_string_trim [of s "''decimal''" scale] parse_decimal_text [of _ _ _ scale "''decimal''"]
      trim_decimal_text in \<open>force simp: fd_parse_def\<close>)

text \<open>C16. Printing an amount and parsing the text at the same scale gives the amount back, for every
  valid scale and every unit count except \<open>i128::MIN\<close>, whose magnitude the parser cannot hold.\<close>

theorem fd_parse_display_roundtrip:
  assumes "fd_ok d" "fd_units d \<noteq> i128_min"
  shows "\<exists>s. fd_to_string d = Some s \<and> fd_parse s (fd_scale d) = Inr d"
proof -
  have scale: "fd_scale d \<le> MAX_MONEY_SCALE" using assms(1) by (simp add: fd_ok_def)
  obtain sign whole fraction where t: "fd_to_string d = Some (decimal_text sign whole fraction)"
    "decimal_parts_ok sign whole fraction" "length (unwrap_or [] fraction) = fd_scale d"
    "sign = (if fd_units d < 0 then ''-'' else '''')"
    "decimal_magnitude whole fraction (fd_scale d) = \<bar>fd_units d\<bar>"
    using fd_to_string_text [OF scale] by blast
  have "in_i128 \<bar>fd_units d\<bar>"
    using assms in_i128_neg [of "fd_units d"] by (simp add: fd_ok_def abs_if)
  then have "fd_parse (decimal_text sign whole fraction) (fd_scale d) =
      Inr (FixedDecimal ((if sign = ''-'' then -1 else 1) * \<bar>fd_units d\<bar>) (fd_scale d))"
    unfolding fd_parse_def using parse_decimal_text [OF t(2) _ scale] t(3,5) by simp
  with t(1,4) show ?thesis by (cases d) (auto simp: abs_if split: if_splits)
qed

theorem fd_parse_display_roundtrip_witness:
  "\<exists>s. fd_to_string (FixedDecimal (-15000000) 8) = Some s
       \<and> fd_parse s 8 = Inr (FixedDecimal (-15000000) 8)"
  using fd_parse_display_roundtrip [of "FixedDecimal (-15000000) 8"]
  by (simp add: in_i128_def i128_min_def i128_max_def MAX_MONEY_SCALE_def)

end
