(* ===== verification/Ledger.thy ===== *)
theory Ledger
  imports Money
begin

text \<open>
  The ledger contract of \<open>crates/billing-ledger/src/ledger.rs\<close>: the entry types, the idempotency keys
  and the four planners (reserve, settle, refund, admin adjustment), each a pure function from a request and the
  existing entries to a plan or an error. \<open>Uuid\<close> is a 128-bit word; its \<open>Display\<close> (crate \<open>uuid\<close>) is the
  parameter \<open>fmt\<close> of every definition that builds a key.
\<close>

section \<open>Data\<close>

datatype ledger_error =
    LE_NonPositiveAmount string
  | LE_InvalidCurrency string
  | LE_IdempotencyConflict string
  | LE_RequestAlreadyReserved uuid
  | LE_RequestAlreadySettled uuid
  | LE_ReserveCurrencyMismatch string string
  | LE_RefundSourceNotFound uuid
  | LE_RefundSourceNotConfirmedSettleDebit uuid
  | LE_RefundCurrencyMismatch string string
  | LE_FullRefundAmountNotAllowed
  | LE_PartialRefundAmountRequired
  | LE_PartialRefundOperationIdRequired
  | LE_PartialRefundConsumesRemaining fixed_decimal fixed_decimal
  | LE_AdminAdjustmentZeroAmount
  | LE_RefundAmountExceedsRemaining fixed_decimal fixed_decimal
  | LE_ScaleMismatch nat nat
  | LE_ArithmeticOverflow

datatype ledger_entry_type = ET_Reserve | ET_Settle | ET_Refund | ET_Adjust

datatype ledger_entry_status = ES_Pending | ES_Confirmed | ES_Reversed

datatype ledger_operation_kind =
  LO_Reserve | LO_Settle | LO_Refund | LO_RefundPartial | LO_AdminAdjustment

datatype ledger_refund_kind = RK_Full | RK_Partial

datatype ledger_admin_adjustment_kind = AK_Credit | AK_Debit

datatype ledger_status_update_reason = SR_ReserveSettled

text \<open>The metadata the exact cache (\<open>exact_cache.rs\<close>) attaches to a settle entry.\<close>

datatype exact_cache_status = CS_Hit | CS_Miss | CS_PartialHit

datatype exact_cache_read_policy = RP_Disabled | RP_DiscountedInputTokens | RP_FixedCost

datatype exact_cache_write_policy = WP_Disabled | WP_TokenRate | WP_FixedCost

record exact_cache_usage_summary =
  us_input_tokens :: u64
  us_cached_input_tokens :: u64
  us_billable_input_tokens :: u64
  us_output_tokens :: u64
  us_cache_read_tokens :: u64
  us_cache_write_tokens :: u64

record exact_cache_ledger_metadata =
  ecm_status :: exact_cache_status
  ecm_cache_key_hash :: string
  ecm_cache_entry_id :: "uuid option"
  ecm_read_policy :: exact_cache_read_policy
  ecm_write_policy :: exact_cache_write_policy
  ecm_usage_summary :: exact_cache_usage_summary

record ledger_entry_record =
  ler_id :: uuid
  ler_request_id :: "uuid option"
  ler_related :: "uuid option"
  ler_type :: ledger_entry_type
  ler_amount :: fixed_decimal
  ler_currency :: string
  ler_status :: ledger_entry_status
  ler_key :: string

record ledger_entry_metadata =
  lem_operation :: ledger_operation_kind
  lem_request_id :: "uuid option"
  lem_related :: "uuid option"
  lem_refund_kind :: "ledger_refund_kind option"
  lem_admin_adjustment_kind :: "ledger_admin_adjustment_kind option"
  lem_exact_cache :: "exact_cache_ledger_metadata option"

record ledger_entry_draft =
  led_request_id :: "uuid option"
  led_related :: "uuid option"
  led_type :: ledger_entry_type
  led_amount :: fixed_decimal
  led_currency :: string
  led_status :: ledger_entry_status
  led_key :: string
  led_metadata :: ledger_entry_metadata

record ledger_status_update =
  lsu_entry_id :: uuid
  lsu_from :: ledger_entry_status
  lsu_to :: ledger_entry_status
  lsu_reason :: ledger_status_update_reason

datatype ledger_operation_outcome = LO_Apply | LO_Idempotent uuid

record ledger_operation_plan =
  lop_operation :: ledger_operation_kind
  lop_key :: string
  lop_outcome :: ledger_operation_outcome
  lop_entries :: "ledger_entry_draft list"
  lop_status_updates :: "ledger_status_update list"

record reserve_ledger_request =
  rlr_request_id :: uuid
  rlr_amount :: fixed_decimal
  rlr_currency :: string

record settle_ledger_request =
  slr_request_id :: uuid
  slr_final_cost :: fixed_decimal
  slr_currency :: string

datatype refund_ledger_request =
    RefundFull (rf_related: uuid) (rf_currency: string) (rf_amount: "fixed_decimal option")
  | RefundPartial (rf_related: uuid) (rf_operation_id: "uuid option") (rf_amount: "fixed_decimal option")
      (rf_currency: string)

record admin_adjustment_ledger_request =
  aar_operation_id :: uuid
  aar_request_id :: "uuid option"
  aar_related :: "uuid option"
  aar_amount :: fixed_decimal
  aar_currency :: string

record normalized_refund_request =
  nrr_related :: uuid
  nrr_amount :: "fixed_decimal option"
  nrr_currency :: string
  nrr_kind :: ledger_refund_kind
  nrr_operation :: ledger_operation_kind
  nrr_key :: string

type_synonym ledger = "ledger_entry_record list"

section \<open>Idempotency keys\<close>

definition reserve_ledger_idempotency_key :: "(uuid \<Rightarrow> string) \<Rightarrow> uuid \<Rightarrow> string" where
  "reserve_ledger_idempotency_key fmt request_id = ''reserve:'' @ fmt request_id"

definition settle_ledger_idempotency_key :: "(uuid \<Rightarrow> string) \<Rightarrow> uuid \<Rightarrow> string" where
  "settle_ledger_idempotency_key fmt request_id = ''settle:'' @ fmt request_id"

definition refund_ledger_idempotency_key :: "(uuid \<Rightarrow> string) \<Rightarrow> uuid \<Rightarrow> string" where
  "refund_ledger_idempotency_key fmt related = ''refund:'' @ fmt related"

definition refund_partial_ledger_idempotency_key :: "(uuid \<Rightarrow> string) \<Rightarrow> uuid \<Rightarrow> uuid \<Rightarrow> string" where
  "refund_partial_ledger_idempotency_key fmt related refund_operation_id =
     ''refund_partial:'' @ fmt related @ '':'' @ fmt refund_operation_id"

definition admin_adjustment_ledger_idempotency_key :: "(uuid \<Rightarrow> string) \<Rightarrow> uuid \<Rightarrow> string" where
  "admin_adjustment_ledger_idempotency_key fmt adjustment_operation_id =
     ''admin_adjustment:'' @ fmt adjustment_operation_id"

section \<open>Amounts\<close>

definition require_positive :: "string \<Rightarrow> fixed_decimal \<Rightarrow> ledger_error + unit" where
  "require_positive field amount =
     (if fd_units amount > 0 then Inr () else Inl (LE_NonPositiveAmount field))"

definition ledger_checked_neg :: "fixed_decimal \<Rightarrow> ledger_error + fixed_decimal" where
  "ledger_checked_neg v =
     rbind (ok_or LE_ArithmeticOverflow (i128_checked_neg (fd_units v))) (\<lambda>units.
     map_err (\<lambda>_. LE_ArithmeticOverflow) (from_units units (fd_scale v)))"

definition ledger_ensure_same_scale :: "fixed_decimal \<Rightarrow> fixed_decimal \<Rightarrow> ledger_error + unit" where
  "ledger_ensure_same_scale expected actual =
     (if fd_scale expected = fd_scale actual then Inr ()
      else Inl (LE_ScaleMismatch (fd_scale expected) (fd_scale actual)))"

definition ledger_checked_subtract :: "fixed_decimal \<Rightarrow> fixed_decimal \<Rightarrow> ledger_error + fixed_decimal" where
  "ledger_checked_subtract left right =
     rbind (ledger_ensure_same_scale left right) (\<lambda>_.
     rbind (ledger_checked_neg right) (\<lambda>neg.
     map_err (\<lambda>_. LE_ArithmeticOverflow) (fd_checked_add left neg)))"

definition debit_amount :: "string \<Rightarrow> fixed_decimal \<Rightarrow> ledger_error + fixed_decimal" where
  "debit_amount field amount =
     rbind (require_positive field amount) (\<lambda>_. ledger_checked_neg amount)"

definition ledger_validate_currency :: "string \<Rightarrow> ledger_error + unit" where
  "ledger_validate_currency currency =
     (if currency_ok currency then Inr () else Inl (LE_InvalidCurrency currency))"

section \<open>Looking up entries\<close>

definition find_by_idempotency_key :: "ledger \<Rightarrow> string \<Rightarrow> ledger_entry_record option" where
  "find_by_idempotency_key existing_entries key = List.find (\<lambda>e. ler_key e = key) existing_entries"

definition active_status :: "ledger_entry_status \<Rightarrow> bool" where
  "active_status s \<longleftrightarrow> s = ES_Pending \<or> s = ES_Confirmed"

definition find_active_reserve_for_request :: "ledger \<Rightarrow> uuid \<Rightarrow> ledger_entry_record option" where
  "find_active_reserve_for_request existing_entries request_id =
     List.find (\<lambda>e. ler_request_id e = Some request_id \<and> ler_type e = ET_Reserve
                    \<and> active_status (ler_status e)) existing_entries"

definition find_active_settle_for_request :: "ledger \<Rightarrow> uuid \<Rightarrow> ledger_entry_record option" where
  "find_active_settle_for_request existing_entries request_id =
     List.find (\<lambda>e. ler_request_id e = Some request_id \<and> ler_type e = ET_Settle
                    \<and> active_status (ler_status e)) existing_entries"

definition pending_reserve :: "uuid \<Rightarrow> ledger_entry_record \<Rightarrow> bool" where
  "pending_reserve request_id e \<longleftrightarrow>
     ler_request_id e = Some request_id \<and> ler_type e = ET_Reserve \<and> ler_status e = ES_Pending"

definition reserve_release :: "ledger_entry_record \<Rightarrow> ledger_status_update" where
  "reserve_release e = \<lparr>lsu_entry_id = ler_id e, lsu_from = ES_Pending, lsu_to = ES_Reversed,
                        lsu_reason = SR_ReserveSettled\<rparr>"

definition pending_reserve_updates_for_settle ::
  "ledger \<Rightarrow> uuid \<Rightarrow> string \<Rightarrow> ledger_error + ledger_status_update list" where
  "pending_reserve_updates_for_settle existing_entries request_id settle_currency =
     try_map (\<lambda>e. if ler_currency e \<noteq> settle_currency
                  then Inl (LE_ReserveCurrencyMismatch (ler_currency e) settle_currency)
                  else Inr (reserve_release e))
       (filter (pending_reserve request_id) existing_entries)"

definition find_refund_source :: "ledger \<Rightarrow> uuid \<Rightarrow> ledger_error + ledger_entry_record" where
  "find_refund_source existing_entries related =
     rbind (ok_or (LE_RefundSourceNotFound related)
              (List.find (\<lambda>e. ler_id e = related) existing_entries)) (\<lambda>source.
     if ler_type source \<noteq> ET_Settle \<or> ler_status source \<noteq> ES_Confirmed \<or> fd_units (ler_amount source) \<ge> 0
     then Inl (LE_RefundSourceNotConfirmedSettleDebit related)
     else Inr source)"

definition active_refund_of :: "uuid \<Rightarrow> uuid \<Rightarrow> ledger_entry_record \<Rightarrow> bool" where
  "active_refund_of source_id excluded_entry_id e \<longleftrightarrow>
     ler_related e = Some source_id \<and> ler_id e \<noteq> excluded_entry_id \<and> ler_type e = ET_Refund
     \<and> active_status (ler_status e)"

definition add_refund :: "fixed_decimal \<Rightarrow> ledger_entry_record \<Rightarrow> ledger_error + fixed_decimal" where
  "add_refund total_so_far e =
     rbind (require_positive ''refund.amount'' (ler_amount e)) (\<lambda>_.
     map_err (\<lambda>_. LE_ArithmeticOverflow) (fd_checked_add total_so_far (ler_amount e)))"

definition remaining_refundable_amount_excluding ::
  "ledger_entry_record \<Rightarrow> ledger \<Rightarrow> uuid \<Rightarrow> ledger_error + fixed_decimal" where
  "remaining_refundable_amount_excluding source existing_entries excluded_entry_id =
     rbind (map_err (\<lambda>_. LE_ArithmeticOverflow) (fd_zero (fd_scale (ler_amount source)))) (\<lambda>zero.
     rbind (ledger_checked_neg (ler_amount source)) (\<lambda>debited.
     rbind (try_fold add_refund zero
              (filter (active_refund_of (ler_id source) excluded_entry_id) existing_entries))
       (\<lambda>refunded. ledger_checked_subtract debited refunded)))"

definition remaining_refundable_amount ::
  "ledger_entry_record \<Rightarrow> ledger \<Rightarrow> ledger_error + fixed_decimal" where
  "remaining_refundable_amount source existing_entries =
     remaining_refundable_amount_excluding source existing_entries 0"

definition ensure_existing_matches_draft ::
  "ledger_entry_record \<Rightarrow> ledger_entry_draft \<Rightarrow> ledger_error + unit" where
  "ensure_existing_matches_draft existing draft =
     (let status_matches = (ler_status existing = led_status draft
            \<or> (led_type draft = ET_Reserve \<and> led_status draft = ES_Pending
                \<and> ler_status existing = ES_Reversed))
      in if ler_request_id existing = led_request_id draft
            \<and> ler_related existing = led_related draft
            \<and> ler_type existing = led_type draft
            \<and> ler_amount existing = led_amount draft
            \<and> ler_currency existing = led_currency draft
            \<and> status_matches
         then Inr () else Inl (LE_IdempotencyConflict (led_key draft)))"

definition ensure_existing_matches_refund ::
  "ledger_entry_record \<Rightarrow> normalized_refund_request \<Rightarrow> fixed_decimal \<Rightarrow> ledger_error + unit" where
  "ensure_existing_matches_refund existing refund remaining_excluding_existing =
     (let idempotent = (ler_related existing = Some (nrr_related refund)
            \<and> ler_type existing = ET_Refund \<and> ler_status existing = ES_Confirmed
            \<and> ler_currency existing = nrr_currency refund \<and> fd_units (ler_amount existing) > 0)
      in if \<not> idempotent then Inl (LE_IdempotencyConflict (nrr_key refund))
         else let expected_amount = unwrap_or remaining_excluding_existing (nrr_amount refund)
              in if ler_amount existing \<noteq> expected_amount
                 then Inl (LE_IdempotencyConflict (nrr_key refund)) else Inr ())"

section \<open>Metadata and plans\<close>

definition metadata_reserve :: "uuid \<Rightarrow> ledger_entry_metadata" where
  "metadata_reserve request_id =
     \<lparr>lem_operation = LO_Reserve, lem_request_id = Some request_id, lem_related = None,
      lem_refund_kind = None, lem_admin_adjustment_kind = None, lem_exact_cache = None\<rparr>"

definition metadata_settle :: "uuid \<Rightarrow> ledger_entry_metadata" where
  "metadata_settle request_id =
     \<lparr>lem_operation = LO_Settle, lem_request_id = Some request_id, lem_related = None,
      lem_refund_kind = None, lem_admin_adjustment_kind = None, lem_exact_cache = None\<rparr>"

definition settle_with_exact_cache :: "uuid \<Rightarrow> exact_cache_ledger_metadata \<Rightarrow> ledger_entry_metadata" where
  "settle_with_exact_cache request_id exact_cache =
     \<lparr>lem_operation = LO_Settle, lem_request_id = Some request_id, lem_related = None,
      lem_refund_kind = None, lem_admin_adjustment_kind = None, lem_exact_cache = Some exact_cache\<rparr>"

definition metadata_refund :: "uuid \<Rightarrow> ledger_refund_kind \<Rightarrow> ledger_entry_metadata" where
  "metadata_refund related refund_kind =
     \<lparr>lem_operation = (case refund_kind of RK_Full \<Rightarrow> LO_Refund | RK_Partial \<Rightarrow> LO_RefundPartial),
      lem_request_id = None, lem_related = Some related, lem_refund_kind = Some refund_kind,
      lem_admin_adjustment_kind = None, lem_exact_cache = None\<rparr>"

definition metadata_admin_adjustment ::
  "uuid option \<Rightarrow> uuid option \<Rightarrow> ledger_admin_adjustment_kind \<Rightarrow> ledger_entry_metadata" where
  "metadata_admin_adjustment request_id related adjustment_kind =
     \<lparr>lem_operation = LO_AdminAdjustment, lem_request_id = request_id, lem_related = related,
      lem_refund_kind = None, lem_admin_adjustment_kind = Some adjustment_kind, lem_exact_cache = None\<rparr>"

definition apply_plan ::
  "ledger_operation_kind \<Rightarrow> string \<Rightarrow> ledger_entry_draft \<Rightarrow> ledger_operation_plan" where
  "apply_plan operation key draft =
     \<lparr>lop_operation = operation, lop_key = key, lop_outcome = LO_Apply, lop_entries = [draft],
      lop_status_updates = []\<rparr>"

definition idempotent_plan :: "ledger_operation_kind \<Rightarrow> string \<Rightarrow> uuid \<Rightarrow> ledger_operation_plan" where
  "idempotent_plan operation key existing_entry_id =
     \<lparr>lop_operation = operation, lop_key = key, lop_outcome = LO_Idempotent existing_entry_id,
      lop_entries = [], lop_status_updates = []\<rparr>"

section \<open>The planners\<close>

text \<open>The drafts the planners build.\<close>

definition reserve_draft :: "(uuid \<Rightarrow> string) \<Rightarrow> reserve_ledger_request \<Rightarrow> fixed_decimal \<Rightarrow> ledger_entry_draft" where
  "reserve_draft fmt request amount =
     \<lparr>led_request_id = Some (rlr_request_id request), led_related = None,
      led_type = ET_Reserve, led_amount = amount, led_currency = rlr_currency request,
      led_status = ES_Pending, led_key = reserve_ledger_idempotency_key fmt (rlr_request_id request),
      led_metadata = metadata_reserve (rlr_request_id request)\<rparr>"

definition settle_draft ::
  "(uuid \<Rightarrow> string) \<Rightarrow> settle_ledger_request \<Rightarrow> fixed_decimal \<Rightarrow> ledger_entry_metadata \<Rightarrow> ledger_entry_draft" where
  "settle_draft fmt request amount metadata =
     \<lparr>led_request_id = Some (slr_request_id request), led_related = None,
      led_type = ET_Settle, led_amount = amount, led_currency = slr_currency request,
      led_status = ES_Confirmed, led_key = settle_ledger_idempotency_key fmt (slr_request_id request),
      led_metadata = metadata\<rparr>"

definition refund_draft ::
  "ledger_entry_record \<Rightarrow> normalized_refund_request \<Rightarrow> fixed_decimal \<Rightarrow> ledger_entry_draft" where
  "refund_draft source refund amount =
     \<lparr>led_request_id = ler_request_id source, led_related = Some (ler_id source),
      led_type = ET_Refund, led_amount = amount, led_currency = ler_currency source,
      led_status = ES_Confirmed, led_key = nrr_key refund,
      led_metadata = metadata_refund (ler_id source) (nrr_kind refund)\<rparr>"

definition adjustment_draft ::
  "(uuid \<Rightarrow> string) \<Rightarrow> admin_adjustment_ledger_request \<Rightarrow> ledger_entry_draft" where
  "adjustment_draft fmt request =
     (let adjustment_kind = (if fd_units (aar_amount request) > 0 then AK_Credit else AK_Debit)
      in \<lparr>led_request_id = aar_request_id request, led_related = aar_related request,
          led_type = ET_Adjust, led_amount = aar_amount request,
          led_currency = aar_currency request, led_status = ES_Confirmed,
          led_key = admin_adjustment_ledger_idempotency_key fmt (aar_operation_id request),
          led_metadata = metadata_admin_adjustment (aar_request_id request)
                           (aar_related request) adjustment_kind\<rparr>)"

definition plan_ledger_reserve ::
  "(uuid \<Rightarrow> string) \<Rightarrow> reserve_ledger_request \<Rightarrow> ledger \<Rightarrow> ledger_error + ledger_operation_plan" where
  "plan_ledger_reserve fmt request existing_entries =
     rbind (ledger_validate_currency (rlr_currency request)) (\<lambda>_.
     rbind (debit_amount ''amount'' (rlr_amount request)) (\<lambda>amount.
     let key = reserve_ledger_idempotency_key fmt (rlr_request_id request);
         draft = reserve_draft fmt request amount
     in case find_by_idempotency_key existing_entries key of
          Some existing \<Rightarrow>
            rbind (ensure_existing_matches_draft existing draft) (\<lambda>_.
            Inr (idempotent_plan LO_Reserve key (ler_id existing)))
        | None \<Rightarrow>
            if find_active_settle_for_request existing_entries (rlr_request_id request) \<noteq> None
            then Inl (LE_RequestAlreadySettled (rlr_request_id request))
            else if find_active_reserve_for_request existing_entries (rlr_request_id request) \<noteq> None
            then Inl (LE_RequestAlreadyReserved (rlr_request_id request))
            else Inr (apply_plan LO_Reserve key draft)))"

definition plan_ledger_settle_with_metadata ::
  "(uuid \<Rightarrow> string) \<Rightarrow> settle_ledger_request \<Rightarrow> ledger \<Rightarrow> ledger_entry_metadata
   \<Rightarrow> ledger_error + ledger_operation_plan" where
  "plan_ledger_settle_with_metadata fmt request existing_entries metadata =
     rbind (ledger_validate_currency (slr_currency request)) (\<lambda>_.
     rbind (debit_amount ''final_cost'' (slr_final_cost request)) (\<lambda>amount.
     let key = settle_ledger_idempotency_key fmt (slr_request_id request);
         draft = settle_draft fmt request amount metadata
     in case find_by_idempotency_key existing_entries key of
          Some existing \<Rightarrow>
            rbind (ensure_existing_matches_draft existing draft) (\<lambda>_.
            Inr (idempotent_plan LO_Settle key (ler_id existing)))
        | None \<Rightarrow>
            if find_active_settle_for_request existing_entries (slr_request_id request) \<noteq> None
            then Inl (LE_RequestAlreadySettled (slr_request_id request))
            else
              rbind (pending_reserve_updates_for_settle existing_entries (slr_request_id request)
                       (led_currency draft)) (\<lambda>status_updates.
              Inr \<lparr>lop_operation = LO_Settle, lop_key = key, lop_outcome = LO_Apply,
                   lop_entries = [draft], lop_status_updates = status_updates\<rparr>)))"

definition plan_ledger_settle ::
  "(uuid \<Rightarrow> string) \<Rightarrow> settle_ledger_request \<Rightarrow> ledger \<Rightarrow> ledger_error + ledger_operation_plan" where
  "plan_ledger_settle fmt request existing_entries =
     plan_ledger_settle_with_metadata fmt request existing_entries
       (metadata_settle (slr_request_id request))"

definition normalize_refund_request ::
  "(uuid \<Rightarrow> string) \<Rightarrow> refund_ledger_request \<Rightarrow> ledger_error + normalized_refund_request" where
  "normalize_refund_request fmt request =
     (case request of
        RefundFull related currency amount \<Rightarrow>
          if amount \<noteq> None then Inl LE_FullRefundAmountNotAllowed
          else Inr \<lparr>nrr_related = related, nrr_amount = amount, nrr_currency = currency,
                    nrr_kind = RK_Full, nrr_operation = LO_Refund,
                    nrr_key = refund_ledger_idempotency_key fmt related\<rparr>
      | RefundPartial related refund_operation_id amount currency \<Rightarrow>
          rbind (ok_or LE_PartialRefundOperationIdRequired refund_operation_id) (\<lambda>operation_id.
          Inr \<lparr>nrr_related = related, nrr_amount = amount, nrr_currency = currency,
               nrr_kind = RK_Partial, nrr_operation = LO_RefundPartial,
               nrr_key = refund_partial_ledger_idempotency_key fmt related operation_id\<rparr>))"

text \<open>The amount of a new refund: all that remains, or the requested part, strictly less than it.\<close>

definition refund_amount :: "normalized_refund_request \<Rightarrow> fixed_decimal \<Rightarrow> ledger_error + fixed_decimal" where
  "refund_amount refund remaining =
     (case nrr_kind refund of
        RK_Full \<Rightarrow> Inr remaining
      | RK_Partial \<Rightarrow>
          rbind (ok_or LE_PartialRefundAmountRequired (nrr_amount refund)) (\<lambda>requested.
          rbind (require_positive ''amount'' requested) (\<lambda>_.
          rbind (ledger_ensure_same_scale remaining requested) (\<lambda>_.
          if requested \<ge> remaining then Inl (LE_PartialRefundConsumesRemaining requested remaining)
          else Inr requested))))"

definition plan_ledger_refund ::
  "(uuid \<Rightarrow> string) \<Rightarrow> refund_ledger_request \<Rightarrow> ledger \<Rightarrow> ledger_error + ledger_operation_plan" where
  "plan_ledger_refund fmt request existing_entries =
     rbind (normalize_refund_request fmt request) (\<lambda>refund.
     rbind (ledger_validate_currency (nrr_currency refund)) (\<lambda>_.
     rbind (find_refund_source existing_entries (nrr_related refund)) (\<lambda>source.
     if ler_currency source \<noteq> nrr_currency refund
     then Inl (LE_RefundCurrencyMismatch (ler_currency source) (nrr_currency refund))
     else case find_by_idempotency_key existing_entries (nrr_key refund) of
        Some existing \<Rightarrow>
          rbind (remaining_refundable_amount_excluding source existing_entries (ler_id existing))
            (\<lambda>remaining_excluding_existing.
          rbind (ensure_existing_matches_refund existing refund remaining_excluding_existing) (\<lambda>_.
          Inr (idempotent_plan (nrr_operation refund) (nrr_key refund) (ler_id existing))))
      | None \<Rightarrow>
          rbind (remaining_refundable_amount source existing_entries) (\<lambda>remaining.
          rbind (refund_amount refund remaining) (\<lambda>amount.
          rbind (require_positive ''remaining_refundable_amount'' amount) (\<lambda>_.
          if amount > remaining then Inl (LE_RefundAmountExceedsRemaining amount remaining)
          else Inr (apply_plan (nrr_operation refund) (nrr_key refund)
                 (refund_draft source refund amount))))))))"

definition plan_ledger_admin_adjustment ::
  "(uuid \<Rightarrow> string) \<Rightarrow> admin_adjustment_ledger_request \<Rightarrow> ledger
   \<Rightarrow> ledger_error + ledger_operation_plan" where
  "plan_ledger_admin_adjustment fmt request existing_entries =
     rbind (ledger_validate_currency (aar_currency request)) (\<lambda>_.
     if fd_is_zero (aar_amount request) then Inl LE_AdminAdjustmentZeroAmount
     else
       let key = admin_adjustment_ledger_idempotency_key fmt (aar_operation_id request);
           draft = adjustment_draft fmt request
       in case find_by_idempotency_key existing_entries key of
            Some existing \<Rightarrow>
              rbind (ensure_existing_matches_draft existing draft) (\<lambda>_.
              Inr (idempotent_plan LO_AdminAdjustment key (ler_id existing)))
          | None \<Rightarrow> Inr (apply_plan LO_AdminAdjustment key draft))"

section \<open>The planner interface\<close>

text \<open>
  What a writer relies on of a planner. A plan that applies carries exactly one draft, under the plan's own key,
  which no existing entry has; its status updates release pending reserves. A plan that does not apply
  carries nothing and names an entry that has the key.
\<close>

definition release_of :: "ledger \<Rightarrow> ledger_status_update \<Rightarrow> bool" where
  "release_of es u \<longleftrightarrow> lsu_from u = ES_Pending \<and> lsu_to u = ES_Reversed
     \<and> (\<exists>e \<in> set es. ler_id e = lsu_entry_id u \<and> ler_type e = ET_Reserve \<and> ler_status e = ES_Pending)"

definition plan_contract :: "ledger \<Rightarrow> ledger_operation_plan \<Rightarrow> bool" where
  "plan_contract es p \<longleftrightarrow>
     (case lop_outcome p of
        LO_Apply \<Rightarrow>
          (\<exists>d. lop_entries p = [d] \<and> led_key d = lop_key p)
          \<and> (\<forall>e \<in> set es. ler_key e \<noteq> lop_key p)
          \<and> (\<forall>u \<in> set (lop_status_updates p). release_of es u)
      | LO_Idempotent i \<Rightarrow>
          lop_entries p = [] \<and> lop_status_updates p = []
          \<and> (\<exists>e \<in> set es. ler_key e = lop_key p \<and> ler_id e = i))"

locale ledger_planner =
  fixes plan :: "'r \<Rightarrow> ledger \<Rightarrow> ledger_error + ledger_operation_plan"
    and key_of :: "'r \<Rightarrow> string option"
  assumes plan_key: "plan r es = Inr p \<Longrightarrow> key_of r = Some (lop_key p)"
    and plan_ok: "plan r es = Inr p \<Longrightarrow> plan_contract es p"
begin

lemma applies_iff_new_key:
  assumes "plan r es = Inr p"
  shows "lop_outcome p = LO_Apply \<longleftrightarrow> (\<forall>e \<in> set es. Some (ler_key e) \<noteq> key_of r)"
  using plan_ok [OF assms] plan_key [OF assms]
  by (auto simp: plan_contract_def split: ledger_operation_outcome.splits)

lemma no_second_apply:
  assumes "plan r es = Inr p" "e \<in> set es" "key_of r = Some (ler_key e)"
  shows "lop_entries p = [] \<and> lop_status_updates p = []"
  using plan_ok [OF assms(1)] plan_key [OF assms(1)] assms(2,3)
  by (auto simp: plan_contract_def split: ledger_operation_outcome.splits)

end

lemma find_by_key_None: "find_by_idempotency_key es k = None \<longleftrightarrow> (\<forall>e \<in> set es. ler_key e \<noteq> k)"
  by (auto simp: find_by_idempotency_key_def find_None_iff)

lemma find_by_key_Some: "find_by_idempotency_key es k = Some e \<Longrightarrow> e \<in> set es \<and> ler_key e = k"
  unfolding find_by_idempotency_key_def by (auto dest: find_SomeD)

lemma plan_contract_apply:
  "(\<forall>e \<in> set es. ler_key e \<noteq> k) \<Longrightarrow> led_key d = k \<Longrightarrow> plan_contract es (apply_plan op k d)"
  by (simp add: plan_contract_def apply_plan_def)

lemma plan_contract_record:
  "plan_contract es \<lparr>lop_operation = op, lop_key = k, lop_outcome = LO_Apply, lop_entries = [d],
                     lop_status_updates = us\<rparr>
   \<longleftrightarrow> led_key d = k \<and> (\<forall>e \<in> set es. ler_key e \<noteq> k) \<and> (\<forall>u \<in> set us. release_of es u)"
  by (simp add: plan_contract_def)

lemma plan_contract_idempotent:
  "find_by_idempotency_key es k = Some e \<Longrightarrow> plan_contract es (idempotent_plan op k (ler_id e))"
  by (auto simp: plan_contract_def idempotent_plan_def dest: find_by_key_Some)

lemma try_map_guard_eq_Inr:
  "try_map (\<lambda>x. if bad x then Inl (err x) else Inr (g x)) xs = Inr ys
   \<longleftrightarrow> (\<forall>x \<in> set xs. \<not> bad x) \<and> ys = map g xs"
  by (induction xs arbitrary: ys) (auto simp: result_simps)

lemma pending_updates_eq_Inr:
  "pending_reserve_updates_for_settle es r c = Inr us \<longleftrightarrow>
     (\<forall>e \<in> set es. pending_reserve r e \<longrightarrow> ler_currency e = c)
     \<and> us = map reserve_release (filter (pending_reserve r) es)"
  by (auto simp: pending_reserve_updates_for_settle_def try_map_guard_eq_Inr)

lemma pending_updates_release:
  "pending_reserve_updates_for_settle es r c = Inr us \<Longrightarrow> u \<in> set us \<Longrightarrow> release_of es u"
  by (auto simp: pending_updates_eq_Inr release_of_def reserve_release_def pending_reserve_def)

text \<open>The two ways each planner can succeed.\<close>

lemma reserve_plan_cases:
  assumes "plan_ledger_reserve fmt r es = Inr p"
  obtains (idem) amount e where "debit_amount ''amount'' (rlr_amount r) = Inr amount"
      "find_by_idempotency_key es (reserve_ledger_idempotency_key fmt (rlr_request_id r)) = Some e"
      "ensure_existing_matches_draft e (reserve_draft fmt r amount) = Inr ()"
      "p = idempotent_plan LO_Reserve (reserve_ledger_idempotency_key fmt (rlr_request_id r)) (ler_id e)"
    | (fresh) amount where "debit_amount ''amount'' (rlr_amount r) = Inr amount"
      "currency_ok (rlr_currency r)"
      "find_by_idempotency_key es (reserve_ledger_idempotency_key fmt (rlr_request_id r)) = None"
      "find_active_settle_for_request es (rlr_request_id r) = None"
      "find_active_reserve_for_request es (rlr_request_id r) = None"
      "p = apply_plan LO_Reserve (reserve_ledger_idempotency_key fmt (rlr_request_id r))
             (reserve_draft fmt r amount)"
  using assms
  by (cases "find_by_idempotency_key es (reserve_ledger_idempotency_key fmt (rlr_request_id r))")
     (auto simp: plan_ledger_reserve_def ledger_validate_currency_def Let_def result_simps split: if_splits)

lemma settle_plan_cases:
  assumes "plan_ledger_settle_with_metadata fmt r es m = Inr p"
  obtains (idem) amount e where "debit_amount ''final_cost'' (slr_final_cost r) = Inr amount"
      "find_by_idempotency_key es (settle_ledger_idempotency_key fmt (slr_request_id r)) = Some e"
      "ensure_existing_matches_draft e (settle_draft fmt r amount m) = Inr ()"
      "p = idempotent_plan LO_Settle (settle_ledger_idempotency_key fmt (slr_request_id r)) (ler_id e)"
    | (fresh) amount where "debit_amount ''final_cost'' (slr_final_cost r) = Inr amount"
      "currency_ok (slr_currency r)"
      "find_by_idempotency_key es (settle_ledger_idempotency_key fmt (slr_request_id r)) = None"
      "find_active_settle_for_request es (slr_request_id r) = None"
      "\<forall>e \<in> set es. pending_reserve (slr_request_id r) e \<longrightarrow> ler_currency e = slr_currency r"
      "p = \<lparr>lop_operation = LO_Settle, lop_key = settle_ledger_idempotency_key fmt (slr_request_id r),
            lop_outcome = LO_Apply, lop_entries = [settle_draft fmt r amount m],
            lop_status_updates = map reserve_release (filter (pending_reserve (slr_request_id r)) es)\<rparr>"
  using assms
  by (cases "find_by_idempotency_key es (settle_ledger_idempotency_key fmt (slr_request_id r))")
     (auto simp: plan_ledger_settle_with_metadata_def ledger_validate_currency_def Let_def result_simps
        pending_updates_eq_Inr settle_draft_def split: if_splits)

lemma refund_plan_cases:
  assumes "plan_ledger_refund fmt r es = Inr p"
  obtains (idem) n source e remaining where "normalize_refund_request fmt r = Inr n"
      "find_refund_source es (nrr_related n) = Inr source"
      "find_by_idempotency_key es (nrr_key n) = Some e"
      "remaining_refundable_amount_excluding source es (ler_id e) = Inr remaining"
      "ensure_existing_matches_refund e n remaining = Inr ()"
      "p = idempotent_plan (nrr_operation n) (nrr_key n) (ler_id e)"
    | (fresh) n source remaining amount where "normalize_refund_request fmt r = Inr n"
      "currency_ok (nrr_currency n)"
      "find_refund_source es (nrr_related n) = Inr source"
      "ler_currency source = nrr_currency n"
      "find_by_idempotency_key es (nrr_key n) = None"
      "remaining_refundable_amount source es = Inr remaining"
      "refund_amount n remaining = Inr amount"
      "0 < fd_units amount" "amount \<le> remaining"
      "p = apply_plan (nrr_operation n) (nrr_key n) (refund_draft source n amount)"
proof -
  obtain n where n: "normalize_refund_request fmt r = Inr n"
    using assms by (auto simp: plan_ledger_refund_def result_simps)
  show thesis
    using assms n idem fresh
    by (cases "find_by_idempotency_key es (nrr_key n)")
       (auto simp: plan_ledger_refund_def ledger_validate_currency_def require_positive_def
          result_simps not_less split: if_splits)
qed

lemma adjustment_plan_cases:
  assumes "plan_ledger_admin_adjustment fmt r es = Inr p"
  obtains (idem) e where
      "find_by_idempotency_key es (admin_adjustment_ledger_idempotency_key fmt (aar_operation_id r)) = Some e"
      "ensure_existing_matches_draft e (adjustment_draft fmt r) = Inr ()"
      "p = idempotent_plan LO_AdminAdjustment
             (admin_adjustment_ledger_idempotency_key fmt (aar_operation_id r)) (ler_id e)"
    | (fresh) "fd_units (aar_amount r) \<noteq> 0" "currency_ok (aar_currency r)"
      "find_by_idempotency_key es (admin_adjustment_ledger_idempotency_key fmt (aar_operation_id r)) = None"
      "p = apply_plan LO_AdminAdjustment
             (admin_adjustment_ledger_idempotency_key fmt (aar_operation_id r)) (adjustment_draft fmt r)"
  using assms
  by (cases "find_by_idempotency_key es (admin_adjustment_ledger_idempotency_key fmt (aar_operation_id r))")
     (auto simp: plan_ledger_admin_adjustment_def ledger_validate_currency_def fd_is_zero_def Let_def
        result_simps split: if_splits)

lemmas draft_defs = reserve_draft_def settle_draft_def refund_draft_def adjustment_draft_def

lemma draft_keys [simp]:
  "led_key (reserve_draft fmt r a) = reserve_ledger_idempotency_key fmt (rlr_request_id r)"
  "led_key (settle_draft fmt s a m) = settle_ledger_idempotency_key fmt (slr_request_id s)"
  "led_key (refund_draft source n a) = nrr_key n"
  "led_key (adjustment_draft fmt q) = admin_adjustment_ledger_idempotency_key fmt (aar_operation_id q)"
  by (simp_all add: draft_defs Let_def)

lemma plan_keys [simp]:
  "lop_key (apply_plan op k d) = k" "lop_key (idempotent_plan op k i) = k"
  by (simp_all add: apply_plan_def idempotent_plan_def)

text \<open>The key each request is filed under.\<close>

definition refund_key :: "(uuid \<Rightarrow> string) \<Rightarrow> refund_ledger_request \<Rightarrow> string option" where
  "refund_key fmt r = (case normalize_refund_request fmt r of Inl _ \<Rightarrow> None | Inr n \<Rightarrow> Some (nrr_key n))"

interpretation reserve_planner:
  ledger_planner "plan_ledger_reserve fmt" "\<lambda>r. Some (reserve_ledger_idempotency_key fmt (rlr_request_id r))"
  for fmt
  by unfold_locales
     (auto elim!: reserve_plan_cases simp: plan_contract_apply plan_contract_idempotent find_by_key_None)

interpretation settle_planner:
  ledger_planner "\<lambda>r es. plan_ledger_settle_with_metadata fmt r es (meta r)"
    "\<lambda>r. Some (settle_ledger_idempotency_key fmt (slr_request_id r))"
  for fmt meta
  by unfold_locales
     (auto elim!: settle_plan_cases simp: plan_contract_idempotent find_by_key_None plan_contract_record
        pending_reserve_def release_of_def reserve_release_def)

interpretation refund_planner:
  ledger_planner "plan_ledger_refund fmt" "refund_key fmt"
  for fmt
  by unfold_locales
     (auto elim!: refund_plan_cases simp: refund_key_def plan_contract_apply plan_contract_idempotent
        find_by_key_None)

interpretation adjustment_planner:
  ledger_planner "plan_ledger_admin_adjustment fmt"
    "\<lambda>r. Some (admin_adjustment_ledger_idempotency_key fmt (aar_operation_id r))"
  for fmt
  by unfold_locales
     (auto elim!: adjustment_plan_cases simp: plan_contract_apply plan_contract_idempotent find_by_key_None)

section \<open>Refundable amounts\<close>

definition sum_units :: "ledger \<Rightarrow> int" where
  "sum_units es = sum_list (map (\<lambda>e. fd_units (ler_amount e)) es)"

lemma sum_units_simps [simp]:
  "sum_units [] = 0" "sum_units (e # es) = fd_units (ler_amount e) + sum_units es"
  "sum_units (es @ es') = sum_units es + sum_units es'"
  by (simp_all add: sum_units_def)

lemma sum_units_nonneg: "\<forall>e \<in> set es. 0 < fd_units (ler_amount e) \<Longrightarrow> 0 \<le> sum_units es"
  by (induction es) auto

lemma ledger_checked_neg_eq_Inr:
  "ledger_checked_neg v = Inr w \<longleftrightarrow>
     in_i128 (- fd_units v) \<and> fd_scale v \<le> MAX_MONEY_SCALE \<and> w = FixedDecimal (- fd_units v) (fd_scale v)"
  by (auto simp: ledger_checked_neg_def result_simps i128_checked_neg_def check_i128_eq_Some)

lemma ledger_ensure_same_scale_eq_Inr [simp]:
  "ledger_ensure_same_scale a b = Inr x \<longleftrightarrow> fd_scale a = fd_scale b"
  by (simp add: ledger_ensure_same_scale_def)

lemma ledger_checked_subtract_eq_Inr:
  "ledger_checked_subtract a b = Inr c \<longleftrightarrow>
     fd_scale a = fd_scale b \<and> fd_scale b \<le> MAX_MONEY_SCALE \<and> in_i128 (- fd_units b)
     \<and> in_i128 (fd_units a - fd_units b) \<and> c = FixedDecimal (fd_units a - fd_units b) (fd_scale a)"
  by (auto simp: ledger_checked_subtract_def result_simps ledger_checked_neg_eq_Inr fd_checked_add_eq_Inr)

lemma require_positive_eq_Inr [simp]: "require_positive f a = Inr x \<longleftrightarrow> 0 < fd_units a"
  by (simp add: require_positive_def)

lemma debit_amount_eq_Inr:
  "debit_amount f a = Inr d \<longleftrightarrow>
     0 < fd_units a \<and> in_i128 (- fd_units a) \<and> fd_scale a \<le> MAX_MONEY_SCALE
     \<and> d = FixedDecimal (- fd_units a) (fd_scale a)"
  by (auto simp: debit_amount_def result_simps ledger_checked_neg_eq_Inr)

lemma add_refund_eq_Inr:
  "add_refund z e = Inr y \<longleftrightarrow>
     0 < fd_units (ler_amount e) \<and> fd_scale (ler_amount e) = fd_scale z
     \<and> in_i128 (fd_units z + fd_units (ler_amount e))
     \<and> y = FixedDecimal (fd_units z + fd_units (ler_amount e)) (fd_scale z)"
  by (auto simp: add_refund_def result_simps fd_checked_add_eq_Inr)

lemma refund_fold_eq_Inr:
  assumes "0 \<le> fd_units z"
  shows "try_fold add_refund z es = Inr t
         \<longleftrightarrow> (\<forall>e \<in> set es. 0 < fd_units (ler_amount e) \<and> fd_scale (ler_amount e) = fd_scale z)
             \<and> (es = [] \<or> in_i128 (fd_units z + sum_units es))
             \<and> t = FixedDecimal (fd_units z + sum_units es) (fd_scale z)"
  using assms
proof (induction es arbitrary: z)
  case Nil
  then show ?case by (cases z) auto
next
  case (Cons e es)
  let ?z = "FixedDecimal (fd_units z + fd_units (ler_amount e)) (fd_scale z)"
  have mono: "in_i128 (fd_units z + fd_units (ler_amount e))"
    if "0 < fd_units (ler_amount e)" "\<forall>e \<in> set es. 0 < fd_units (ler_amount e)"
      "in_i128 (fd_units z + (fd_units (ler_amount e) + sum_units es))"
    using that(3) by (rule in_i128_nonneg [rotated 2])
       (use that Cons.prems sum_units_nonneg [of es] in auto)
  show ?case
  proof (cases "0 < fd_units (ler_amount e)")
    case True
    with Cons.IH [of ?z] Cons.prems mono show ?thesis
      by (auto simp: rbind_eq_Inr add_refund_eq_Inr add.assoc)
  qed (simp add: rbind_eq_Inr add_refund_eq_Inr)
qed

lemma remaining_excluding_eq_Inr:
  "remaining_refundable_amount_excluding source es x = Inr m \<longleftrightarrow>
     fd_scale (ler_amount source) \<le> MAX_MONEY_SCALE
     \<and> in_i128 (- fd_units (ler_amount source))
     \<and> (\<forall>e \<in> set es. active_refund_of (ler_id source) x e \<longrightarrow>
            0 < fd_units (ler_amount e) \<and> fd_scale (ler_amount e) = fd_scale (ler_amount source))
     \<and> in_i128 (sum_units (filter (active_refund_of (ler_id source) x) es))
     \<and> in_i128 (- sum_units (filter (active_refund_of (ler_id source) x) es))
     \<and> in_i128 (- fd_units (ler_amount source) - sum_units (filter (active_refund_of (ler_id source) x) es))
     \<and> m = FixedDecimal (- fd_units (ler_amount source)
              - sum_units (filter (active_refund_of (ler_id source) x) es)) (fd_scale (ler_amount source))"
  unfolding remaining_refundable_amount_excluding_def
  by (auto simp: result_simps refund_fold_eq_Inr ledger_checked_neg_eq_Inr ledger_checked_subtract_eq_Inr)

lemma find_refund_source_eq_Inr:
  "find_refund_source es i = Inr s \<Longrightarrow>
     s \<in> set es \<and> ler_id s = i \<and> ler_type s = ET_Settle \<and> ler_status s = ES_Confirmed
     \<and> fd_units (ler_amount s) < 0"
  by (auto simp: find_refund_source_def result_simps not_le dest: find_SomeD split: if_splits)

lemma refund_amount_scale: "refund_amount n m = Inr a \<Longrightarrow> fd_scale a = fd_scale m"
  by (auto simp: refund_amount_def result_simps split: ledger_refund_kind.splits if_splits)

section \<open>Keys are unambiguous\<close>

text \<open>What the keys rely on of \<open>Uuid\<close>'s \<open>Display\<close>: it is injective and writes no colon.\<close>

definition uuid_display :: "(uuid \<Rightarrow> string) \<Rightarrow> bool" where
  "uuid_display fmt \<longleftrightarrow> inj fmt \<and> (\<forall>u. CHR '':'' \<notin> set (fmt u))"

text \<open>The operations a key can stand for, and the key of each.\<close>

datatype operation_id =
    OpReserve uuid
  | OpSettle uuid
  | OpRefundFull uuid
  | OpRefundPartial uuid uuid
  | OpAdminAdjustment uuid

fun operation_key :: "(uuid \<Rightarrow> string) \<Rightarrow> operation_id \<Rightarrow> string" where
  "operation_key fmt (OpReserve r) = reserve_ledger_idempotency_key fmt r"
| "operation_key fmt (OpSettle r) = settle_ledger_idempotency_key fmt r"
| "operation_key fmt (OpRefundFull s) = refund_ledger_idempotency_key fmt s"
| "operation_key fmt (OpRefundPartial s i) = refund_partial_ledger_idempotency_key fmt s i"
| "operation_key fmt (OpAdminAdjustment i) = admin_adjustment_ledger_idempotency_key fmt i"

lemmas key_defs =
  reserve_ledger_idempotency_key_def settle_ledger_idempotency_key_def refund_ledger_idempotency_key_def
  refund_partial_ledger_idempotency_key_def admin_adjustment_ledger_idempotency_key_def

lemma append_sep_inject:
  "c \<notin> set xs \<Longrightarrow> c \<notin> set ys \<Longrightarrow> xs @ c # us = ys @ c # vs \<longleftrightarrow> xs = ys \<and> us = vs"
proof (induction xs arbitrary: ys)
  case Nil
  then show ?case by (cases ys) auto
next
  case (Cons x xs)
  then show ?case by (cases ys) auto
qed

lemma operation_key_inj:
  assumes "uuid_display fmt" "operation_key fmt a = operation_key fmt b"
  shows "a = b"
proof -
  have i: "fmt u = fmt v \<longleftrightarrow> u = v" for u v
    using assms(1) by (auto simp: uuid_display_def inj_eq)
  have n: "CHR '':'' \<notin> set (fmt u)" for u using assms(1) by (simp add: uuid_display_def)
  show ?thesis
    using assms(2) by (cases a; cases b) (auto simp: key_defs i n append_sep_inject)
qed

text \<open>The hyphenated lower-case form, as an instance of the interface.\<close>

definition hex_digit :: "nat \<Rightarrow> char" where
  "hex_digit n = (if n < 10 then char_of (48 + n) else char_of (87 + n))"

definition uuid_nibble :: "uuid \<Rightarrow> nat \<Rightarrow> nat" where
  "uuid_nibble u i = unat (take_bit 4 (drop_bit (4 * (31 - i)) u))"

definition uuid_hex :: "uuid \<Rightarrow> nat \<Rightarrow> nat \<Rightarrow> string" where
  "uuid_hex u i j = map (\<lambda>k. hex_digit (uuid_nibble u k)) [i ..< j]"

definition uuid_hyphenated :: "uuid \<Rightarrow> string" where
  "uuid_hyphenated u = uuid_hex u 0 8 @ ''-'' @ uuid_hex u 8 12 @ ''-'' @ uuid_hex u 12 16 @ ''-''
     @ uuid_hex u 16 20 @ ''-'' @ uuid_hex u 20 32"

lemma uuid_nibble_less: "uuid_nibble u i < 16"
  using take_bit_nat_less_exp [of 4 "unat (drop_bit (4 * (31 - i)) u)"]
  by (simp add: uuid_nibble_def unsigned_take_bit_eq)

lemma byte_of_hex_digit: "n < 16 \<Longrightarrow> byte_of (hex_digit n) = (if n < 10 then 48 + n else 87 + n)"
  by (simp add: hex_digit_def byte_of_def)

lemma hex_digit_inject:
  assumes "m < 16" "n < 16" "hex_digit m = hex_digit n"
  shows "m = n"
proof -
  have "(if m < 10 then 48 + m else 87 + m) = (if n < 10 then 48 + n else 87 + n)"
    using byte_of_hex_digit [OF assms(1)] byte_of_hex_digit [OF assms(2)] assms(3) by metis
  with assms(1,2) show ?thesis by (simp split: if_splits)
qed

lemma hex_digit_not_colon: "n < 16 \<Longrightarrow> hex_digit n \<noteq> CHR '':''"
proof
  assume "n < 16" "hex_digit n = CHR '':''"
  then have "(if n < 10 then 48 + n else 87 + n) = byte_of (CHR '':'')"
    using byte_of_hex_digit [of n] by simp
  then show False by (simp add: byte_of_def split: if_splits)
qed

lemma uuid_hex_inject:
  "uuid_hex u i j = uuid_hex v i j \<Longrightarrow> i \<le> k \<Longrightarrow> k < j \<Longrightarrow> uuid_nibble u k = uuid_nibble v k"
  by (auto simp: uuid_hex_def intro: hex_digit_inject uuid_nibble_less)

lemma uuid_nibbles_inject:
  assumes "\<And>k. k < 32 \<Longrightarrow> uuid_nibble u k = uuid_nibble v k"
  shows "u = v"
proof (rule bit_word_eqI)
  fix n assume "n < LENGTH(128)"
  then have "31 - (31 - n div 4) = n div 4" by simp
  with assms [of "31 - n div 4"] have
    "take_bit 4 (drop_bit (4 * (n div 4)) u) = take_bit 4 (drop_bit (4 * (n div 4)) v)"
    by (simp add: uuid_nibble_def word_unat_eq_iff)
  then have "bit (take_bit 4 (drop_bit (4 * (n div 4)) u)) (n mod 4)
           = bit (take_bit 4 (drop_bit (4 * (n div 4)) v)) (n mod 4)" by simp
  then show "bit u n = bit v n" by (simp add: bit_take_bit_iff bit_drop_bit_eq)
qed

lemma length_uuid_hex [simp]: "length (uuid_hex u i j) = j - i"
  by (simp add: uuid_hex_def)

lemma uuid_hyphenated_display: "uuid_display uuid_hyphenated"
  unfolding uuid_display_def
proof
  have "uuid_nibble u k = uuid_nibble v k" if "uuid_hyphenated u = uuid_hyphenated v" "k < 32" for u v k
  proof -
    have h: "uuid_hex u 0 8 = uuid_hex v 0 8" "uuid_hex u 8 12 = uuid_hex v 8 12"
      "uuid_hex u 12 16 = uuid_hex v 12 16" "uuid_hex u 16 20 = uuid_hex v 16 20"
      "uuid_hex u 20 32 = uuid_hex v 20 32"
      using that(1) by (simp_all add: uuid_hyphenated_def)
    consider "k < 8" | "8 \<le> k" "k < 12" | "12 \<le> k" "k < 16" | "16 \<le> k" "k < 20" | "20 \<le> k"
      by linarith
    then show ?thesis using h [THEN uuid_hex_inject] that(2) by cases simp_all
  qed
  then show "inj uuid_hyphenated" by (intro injI uuid_nibbles_inject)
  have "CHR '':'' \<notin> set (uuid_hex u i j)" for u i j
    using hex_digit_not_colon [OF uuid_nibble_less] by (fastforce simp: uuid_hex_def)
  then show "\<forall>u. CHR '':'' \<notin> set (uuid_hyphenated u)" by (simp add: uuid_hyphenated_def)
qed

section \<open>Properties of the ledger contract\<close>

text \<open>C17. Idempotency keys are unambiguous: two different ledger operations (on whatever request, entry
  or operation id) are never filed under the same key, given that \<open>Uuid\<close>'s text form is injective and
  has no colon.\<close>

theorem idempotency_keys_unambiguous:
  assumes "uuid_display fmt"
  shows "operation_key fmt a = operation_key fmt b \<longleftrightarrow> a = b"
  using operation_key_inj [OF assms] by blast

theorem idempotency_keys_unambiguous_witness:
  "uuid_display uuid_hyphenated
   \<and> operation_key uuid_hyphenated (OpReserve 7) \<noteq> operation_key uuid_hyphenated (OpSettle 7)"
  using uuid_hyphenated_display
    idempotency_keys_unambiguous [OF uuid_hyphenated_display, of "OpReserve 7" "OpSettle 7"]
  by simp

text \<open>What has been refunded against an entry.\<close>

definition refunded :: "ledger \<Rightarrow> uuid \<Rightarrow> int" where
  "refunded es source_id =
     sum_units (filter (\<lambda>e. ler_related e = Some source_id \<and> ler_type e = ET_Refund
                            \<and> active_status (ler_status e)) es)"

lemma refunded_no_nil:
  assumes "\<forall>e \<in> set es. ler_id e \<noteq> 0"
  shows "sum_units (filter (active_refund_of s 0) es) = refunded es s"
proof -
  have "filter (active_refund_of s 0) es =
        filter (\<lambda>e. ler_related e = Some s \<and> ler_type e = ET_Refund \<and> active_status (ler_status e)) es"
    using assms by (intro filter_cong) (auto simp: active_refund_of_def)
  then show ?thesis by (simp add: refunded_def)
qed

lemma fresh_refund_bounded:
  assumes "find_refund_source es (nrr_related n) = Inr source" "\<forall>e \<in> set es. ler_id e \<noteq> 0"
    and "remaining_refundable_amount source es = Inr remaining"
    and "refund_amount n remaining = Inr amount" "amount \<le> remaining"
  shows "refunded es (ler_id source) + fd_units amount \<le> - fd_units (ler_amount source)"
    and "fd_scale amount = fd_scale (ler_amount source)"
proof -
  have r: "remaining = FixedDecimal (- fd_units (ler_amount source) - refunded es (ler_id source))
                         (fd_scale (ler_amount source))"
    using assms(3) unfolding remaining_refundable_amount_def remaining_excluding_eq_Inr
    by (simp add: refunded_no_nil [OF assms(2)])
  with assms(5) show "refunded es (ler_id source) + fd_units amount \<le> - fd_units (ler_amount source)"
    by (auto simp: less_eq_fixed_decimal_def)
  show "fd_scale amount = fd_scale (ler_amount source)"
    using refund_amount_scale [OF assms(4)] r by simp
qed


definition sample_settle :: ledger_entry_record where
  "sample_settle = \<lparr>ler_id = 5, ler_request_id = Some 1, ler_related = None, ler_type = ET_Settle,
     ler_amount = FixedDecimal (-100) 8, ler_currency = ''USD'', ler_status = ES_Confirmed,
     ler_key = ''settle:1''\<rparr>"


end
