(* ===== verification/Writer.thy ===== *)
theory Writer
  imports Ledger
begin

text \<open>
  The consistent ledger writer of \<open>crates/billing-ledger/src/writer_contract.rs\<close>: the planner that
  checks a write against a locked snapshot (wallet, credit grants, budgets, ledger), the bounded
  command plan, and the in-memory executor, a state machine over the snapshot and the next entry id.
\<close>

section \<open>Requests and snapshots\<close>

record ledger_scope =
  sc_tenant_id :: uuid
  sc_project_id :: "uuid option"
  sc_virtual_key_id :: "uuid option"

datatype budget_dimension = BD_Tenant | BD_Project | BD_VirtualKey

datatype writer_error =
    WE_WalletRequired
  | WE_WalletCurrencyMismatch string string
  | WE_InsufficientWalletBalance fixed_decimal fixed_decimal
  | WE_InsufficientBudget uuid budget_dimension fixed_decimal fixed_decimal
  | WE_ScaleMismatch nat nat
  | WE_ArithmeticOverflow
  | WE_InMemoryStateConflict string
  | WE_Ledger ledger_error

datatype write_request =
    CW_Reserve ledger_scope uuid fixed_decimal string
  | CW_Settle ledger_scope uuid fixed_decimal string
  | CW_RefundFull ledger_scope uuid string
  | CW_RefundPartial ledger_scope uuid uuid fixed_decimal string
  | CW_AdminAdjustment ledger_scope uuid "uuid option" "uuid option" fixed_decimal string

fun cw_scope :: "write_request \<Rightarrow> ledger_scope" where
  "cw_scope (CW_Reserve scope _ _ _) = scope"
| "cw_scope (CW_Settle scope _ _ _) = scope"
| "cw_scope (CW_RefundFull scope _ _) = scope"
| "cw_scope (CW_RefundPartial scope _ _ _ _) = scope"
| "cw_scope (CW_AdminAdjustment scope _ _ _ _ _) = scope"

fun cw_currency :: "write_request \<Rightarrow> string" where
  "cw_currency (CW_Reserve _ _ _ currency) = currency"
| "cw_currency (CW_Settle _ _ _ currency) = currency"
| "cw_currency (CW_RefundFull _ _ currency) = currency"
| "cw_currency (CW_RefundPartial _ _ _ _ currency) = currency"
| "cw_currency (CW_AdminAdjustment _ _ _ _ _ currency) = currency"

fun cw_operation :: "write_request \<Rightarrow> ledger_operation_kind" where
  "cw_operation (CW_Reserve _ _ _ _) = LO_Reserve"
| "cw_operation (CW_Settle _ _ _ _) = LO_Settle"
| "cw_operation (CW_RefundFull _ _ _) = LO_Refund"
| "cw_operation (CW_RefundPartial _ _ _ _ _) = LO_RefundPartial"
| "cw_operation (CW_AdminAdjustment _ _ _ _ _ _) = LO_AdminAdjustment"

fun cw_key :: "(uuid \<Rightarrow> string) \<Rightarrow> write_request \<Rightarrow> string" where
  "cw_key fmt (CW_Reserve _ request_id _ _) = reserve_ledger_idempotency_key fmt request_id"
| "cw_key fmt (CW_Settle _ request_id _ _) = settle_ledger_idempotency_key fmt request_id"
| "cw_key fmt (CW_RefundFull _ related _) = refund_ledger_idempotency_key fmt related"
| "cw_key fmt (CW_RefundPartial _ related operation_id _ _) =
     refund_partial_ledger_idempotency_key fmt related operation_id"
| "cw_key fmt (CW_AdminAdjustment _ operation_id _ _ _ _) =
     admin_adjustment_ledger_idempotency_key fmt operation_id"

record wallet_snapshot =
  wal_id :: uuid
  wal_currency :: string
  wal_available :: fixed_decimal

record credit_grant_snapshot =
  cg_id :: uuid
  cg_currency :: string
  cg_remaining :: fixed_decimal
  cg_active :: bool

record budget_snapshot =
  bud_id :: uuid
  bud_dimension :: budget_dimension
  bud_currency :: string
  bud_remaining :: fixed_decimal
  bud_active :: bool

record writer_state =
  ws_wallet :: "wallet_snapshot option"
  ws_grants :: "credit_grant_snapshot list"
  ws_budgets :: "budget_snapshot list"
  ws_entries :: ledger

fun dimension_sort_key :: "budget_dimension \<Rightarrow> nat" where
  "dimension_sort_key BD_Tenant = 0"
| "dimension_sort_key BD_Project = 1"
| "dimension_sort_key BD_VirtualKey = 2"

fun dimension_str :: "budget_dimension \<Rightarrow> string" where
  "dimension_str BD_Tenant = ''tenant''"
| "dimension_str BD_Project = ''project''"
| "dimension_str BD_VirtualKey = ''virtual_key''"

section \<open>Amounts\<close>

definition writer_ensure_same_scale :: "fixed_decimal \<Rightarrow> fixed_decimal \<Rightarrow> writer_error + unit" where
  "writer_ensure_same_scale left right =
     (if fd_scale left = fd_scale right then Inr ()
      else Inl (WE_ScaleMismatch (fd_scale left) (fd_scale right)))"

definition writer_checked_add :: "fixed_decimal \<Rightarrow> fixed_decimal \<Rightarrow> writer_error + fixed_decimal" where
  "writer_checked_add left right =
     rbind (writer_ensure_same_scale left right) (\<lambda>_.
     map_err (\<lambda>_. WE_ArithmeticOverflow) (fd_checked_add left right))"

definition writer_checked_subtract :: "fixed_decimal \<Rightarrow> fixed_decimal \<Rightarrow> writer_error + fixed_decimal" where
  "writer_checked_subtract left right =
     rbind (writer_ensure_same_scale left right) (\<lambda>_.
     rbind (ok_or WE_ArithmeticOverflow (i128_checked_sub (fd_units left) (fd_units right))) (\<lambda>units.
     map_err (\<lambda>_. WE_ArithmeticOverflow) (from_units units (fd_scale left))))"

definition writer_checked_neg :: "fixed_decimal \<Rightarrow> writer_error + fixed_decimal" where
  "writer_checked_neg v =
     rbind (ok_or WE_ArithmeticOverflow (i128_checked_neg (fd_units v))) (\<lambda>units.
     map_err (\<lambda>_. WE_ArithmeticOverflow) (from_units units (fd_scale v)))"

definition writer_zero :: "nat \<Rightarrow> writer_error + fixed_decimal" where
  "writer_zero scale = map_err (\<lambda>_. WE_ArithmeticOverflow) (fd_zero scale)"

section \<open>Planning a write\<close>

fun plan_inner_ledger_write ::
  "(uuid \<Rightarrow> string) \<Rightarrow> write_request \<Rightarrow> ledger \<Rightarrow> ledger_error + ledger_operation_plan" where
  "plan_inner_ledger_write fmt (CW_Reserve _ request_id amount currency) es =
     plan_ledger_reserve fmt
       \<lparr>rlr_request_id = request_id, rlr_amount = amount, rlr_currency = currency\<rparr> es"
| "plan_inner_ledger_write fmt (CW_Settle _ request_id final_cost currency) es =
     plan_ledger_settle fmt
       \<lparr>slr_request_id = request_id, slr_final_cost = final_cost, slr_currency = currency\<rparr> es"
| "plan_inner_ledger_write fmt (CW_RefundFull _ related currency) es =
     plan_ledger_refund fmt (RefundFull related currency None) es"
| "plan_inner_ledger_write fmt (CW_RefundPartial _ related operation_id amount currency) es =
     plan_ledger_refund fmt (RefundPartial related (Some operation_id) (Some amount) currency) es"
| "plan_inner_ledger_write fmt (CW_AdminAdjustment _ operation_id request_id related amount currency) es =
     plan_ledger_admin_adjustment fmt
       \<lparr>aar_operation_id = operation_id, aar_request_id = request_id, aar_related = related,
        aar_amount = amount, aar_currency = currency\<rparr> es"

definition pending_reserve_amount_for_request :: "ledger \<Rightarrow> uuid \<Rightarrow> writer_error + fixed_decimal" where
  "pending_reserve_amount_for_request es request_id =
     (let scale = (case List.find (\<lambda>e. ler_request_id e = Some request_id) es of
                     Some e \<Rightarrow> fd_scale (ler_amount e) | None \<Rightarrow> DEFAULT_MONEY_SCALE)
      in rbind (writer_zero scale) (\<lambda>zero.
         try_fold (\<lambda>total_so_far e.
             rbind (writer_checked_neg (ler_amount e)) (\<lambda>reserved.
             writer_checked_add total_so_far reserved))
           zero (filter (pending_reserve request_id) es)))"

fun required_debit_for_write :: "write_request \<Rightarrow> writer_state \<Rightarrow> writer_error + fixed_decimal" where
  "required_debit_for_write (CW_Reserve _ _ amount _) state = Inr amount"
| "required_debit_for_write (CW_Settle _ request_id final_cost _) state =
     rbind (pending_reserve_amount_for_request (ws_entries state) request_id) (\<lambda>reserved.
     if final_cost > reserved then writer_checked_subtract final_cost reserved
     else writer_zero (fd_scale final_cost))"
| "required_debit_for_write (CW_RefundFull _ _ _) state =
     writer_zero (case ws_wallet state of Some w \<Rightarrow> fd_scale (wal_available w)
                                         | None \<Rightarrow> DEFAULT_MONEY_SCALE)"
| "required_debit_for_write (CW_RefundPartial _ _ _ _ _) state =
     writer_zero (case ws_wallet state of Some w \<Rightarrow> fd_scale (wal_available w)
                                         | None \<Rightarrow> DEFAULT_MONEY_SCALE)"
| "required_debit_for_write (CW_AdminAdjustment _ _ _ _ amount _) state =
     (if fd_units amount < 0 then writer_checked_neg amount else writer_zero (fd_scale amount))"

definition refund_credit_for_plan :: "ledger_operation_plan \<Rightarrow> nat \<Rightarrow> writer_error + fixed_decimal" where
  "refund_credit_for_plan ledger_plan scale =
     rbind (writer_zero scale) (\<lambda>zero.
     try_fold (\<lambda>total_so_far d.
         if fd_units (led_amount d) > 0 \<and> (led_type d = ET_Refund \<or> led_type d = ET_Adjust)
         then writer_checked_add total_so_far (led_amount d) else Inr total_so_far)
       zero (lop_entries ledger_plan))"

definition active_credit_grant_total ::
  "credit_grant_snapshot list \<Rightarrow> string \<Rightarrow> nat \<Rightarrow> writer_error + fixed_decimal" where
  "active_credit_grant_total grants currency scale =
     rbind (writer_zero scale) (\<lambda>zero.
     try_fold (\<lambda>total_so_far g. writer_checked_add total_so_far (cg_remaining g)) zero
       (filter (\<lambda>g. cg_active g \<and> cg_currency g = currency) grants))"

definition counts_for :: "string \<Rightarrow> ledger_entry_record \<Rightarrow> bool" where
  "counts_for currency e \<longleftrightarrow> ler_currency e = currency \<and> active_status (ler_status e)"

definition active_ledger_effect :: "ledger \<Rightarrow> string \<Rightarrow> nat \<Rightarrow> writer_error + fixed_decimal" where
  "active_ledger_effect es currency scale =
     rbind (writer_zero scale) (\<lambda>zero.
     try_fold (\<lambda>total_so_far e. writer_checked_add total_so_far (ler_amount e)) zero
       (filter (counts_for currency) es))"

record consistent_balance_window =
  bw_currency :: string
  bw_wallet_available_balance :: fixed_decimal
  bw_active_credit_grant_total :: fixed_decimal
  bw_active_ledger_effect :: fixed_decimal
  bw_available_before_write :: fixed_decimal
  bw_required_debit :: fixed_decimal
  bw_refund_credit :: fixed_decimal
  bw_available_after_write :: fixed_decimal
  bw_calculation :: string

definition balance_window ::
  "string \<Rightarrow> wallet_snapshot \<Rightarrow> writer_state \<Rightarrow> fixed_decimal \<Rightarrow> fixed_decimal \<Rightarrow> writer_error + consistent_balance_window" where
  "balance_window currency wallet state required_debit refund_credit =
     (let scale = fd_scale (wal_available wallet) in
      rbind (active_credit_grant_total (ws_grants state) currency scale) (\<lambda>grants.
      rbind (active_ledger_effect (ws_entries state) currency scale) (\<lambda>effect.
      rbind (writer_checked_add (wal_available wallet) grants) (\<lambda>with_grants.
      rbind (writer_checked_add with_grants effect) (\<lambda>available_before_write.
      rbind (writer_checked_subtract available_before_write required_debit) (\<lambda>available_after_debit.
      rbind (writer_checked_add available_after_debit refund_credit) (\<lambda>available_after_write.
      Inr \<lparr>bw_currency = currency, bw_wallet_available_balance = wal_available wallet,
           bw_active_credit_grant_total = grants, bw_active_ledger_effect = effect,
           bw_available_before_write = available_before_write, bw_required_debit = required_debit,
           bw_refund_credit = refund_credit, bw_available_after_write = available_after_write,
           bw_calculation = ''wallet_available_balance + active_credit_grants + active_pending_or_confirmed_ledger - required_debit + refund_credit''\<rparr>)))))))"

record consistent_wallet_check =
  wc_wallet_id :: uuid
  wc_required :: bool
  wc_passed :: bool
  wc_reason :: string

definition wallet_check :: "uuid \<Rightarrow> fixed_decimal \<Rightarrow> fixed_decimal \<Rightarrow> consistent_wallet_check" where
  "wallet_check wallet_id available_before_write required_debit =
     (let passed = (fd_is_zero required_debit \<or> available_before_write \<ge> required_debit)
      in \<lparr>wc_wallet_id = wallet_id, wc_required = (\<not> fd_is_zero required_debit), wc_passed = passed,
          wc_reason = (if passed then ''available_balance_covers_required_debit''
                       else ''available_balance_below_required_debit'')\<rparr>)"

record budget_check =
  bc_budget_id :: uuid
  bc_dimension :: budget_dimension
  bc_remaining_before_write :: fixed_decimal
  bc_required_debit :: fixed_decimal
  bc_remaining_after_write :: fixed_decimal
  bc_passed :: bool

definition budget_sort_key :: "budget_snapshot \<Rightarrow> nat \<times> uuid" where
  "budget_sort_key b = (dimension_sort_key (bud_dimension b), bud_id b)"

definition budget_checks ::
  "budget_snapshot list \<Rightarrow> string \<Rightarrow> fixed_decimal \<Rightarrow> writer_error + budget_check list" where
  "budget_checks budgets currency required_debit =
     try_map (\<lambda>b.
         rbind (writer_checked_subtract (bud_remaining b) required_debit) (\<lambda>remaining_after_write.
         Inr \<lparr>bc_budget_id = bud_id b, bc_dimension = bud_dimension b,
              bc_remaining_before_write = bud_remaining b, bc_required_debit = required_debit,
              bc_remaining_after_write = remaining_after_write,
              bc_passed = (bud_remaining b \<ge> required_debit)\<rparr>))
       (sort_by (\<lambda>a b. ord_cmp (budget_sort_key a) (budget_sort_key b))
          (filter (\<lambda>b. bud_active b \<and> bud_currency b = currency) budgets))"

record writer_lock_step =
  wls_order :: nat
  wls_resource :: string
  wls_lock_mode :: string
  wls_query_shape :: string
  wls_bounded_by :: "string list"

record writer_lock_plan =
  wlp_transaction :: string
  wlp_lock_order :: "writer_lock_step list"
  wlp_unique_constraints :: "string list"

definition ledger_lock_step :: "string \<Rightarrow> writer_lock_step" where
  "ledger_lock_step query_shape =
     \<lparr>wls_order = 4, wls_resource = ''ledger_entries'', wls_lock_mode = ''for_update_ordered'',
      wls_query_shape = query_shape,
      wls_bounded_by = [''tenant_id'', ''request_id'', ''related_ledger_entry_id'', ''idempotency_key'']\<rparr>"

definition ledger_query_shape :: "write_request \<Rightarrow> string" where
  "ledger_query_shape request =
     (case request of
        CW_Reserve _ _ _ _ \<Rightarrow> ''select ledger rows by tenant/request_id or idempotency_key ordered by created_at,id for update''
      | CW_Settle _ _ _ _ \<Rightarrow> ''select ledger rows by tenant/request_id or idempotency_key ordered by created_at,id for update''
      | CW_AdminAdjustment _ _ _ _ _ _ \<Rightarrow> ''select admin adjustment replay and related rows by tenant/request_id/related_ledger_entry_id/idempotency_key ordered by created_at,id for update''
      | CW_RefundFull _ _ _ \<Rightarrow> ''select source settle and related refund rows by tenant/source_ledger_entry_id/idempotency_key ordered by created_at,id for update''
      | CW_RefundPartial _ _ _ _ _ \<Rightarrow> ''select source settle and related refund rows by tenant/source_ledger_entry_id/idempotency_key ordered by created_at,id for update'')"

definition lock_plan_for_request :: "write_request \<Rightarrow> writer_lock_plan" where
  "lock_plan_for_request request =
     \<lparr>wlp_transaction = ''read_committed_single_transaction_with_explicit_for_update_locks'',
      wlp_lock_order =
        [\<lparr>wls_order = 1, wls_resource = ''wallets'', wls_lock_mode = ''for_update'',
          wls_query_shape = ''select wallet row by tenant/project/currency for update'',
          wls_bounded_by = [''tenant_id'', ''project_id'', ''currency'']\<rparr>,
         \<lparr>wls_order = 2, wls_resource = ''credit_grants'', wls_lock_mode = ''for_update_ordered'',
          wls_query_shape = ''select active credit grants by tenant/wallet/currency/validity window ordered by grant_id for update'',
          wls_bounded_by = [''tenant_id'', ''wallet_id'', ''currency'', ''validity_window'']\<rparr>,
         \<lparr>wls_order = 3, wls_resource = ''budgets'', wls_lock_mode = ''for_update_ordered'',
          wls_query_shape = ''select active tenant/project/virtual_key budgets ordered by scope,budget_id for update'',
          wls_bounded_by = [''tenant_id'', ''project_id'', ''virtual_key_id'', ''currency'']\<rparr>]
        @ [ledger_lock_step (ledger_query_shape request)],
      wlp_unique_constraints =
        [''ledger_entries(tenant_id,idempotency_key)'', ''one active settle per tenant/request_id'',
         ''one active reserve per tenant/request_id'']\<rparr>"

text \<open>The two constant documents every plan carries.\<close>

record writer_state_machine =
  wsm_reserve :: string
  wsm_settle :: string
  wsm_refund :: string
  wsm_admin_adjustment :: string
  wsm_idempotency :: string
  wsm_concurrency_rejections :: "string list"

definition state_machine_contract :: writer_state_machine where
  "state_machine_contract =
     \<lparr>wsm_reserve = ''reserve:{request_id} inserts one pending debit after locked wallet/grant/budget balance covers required debit'',
      wsm_settle = ''settle:{request_id} inserts one confirmed debit and reverses pending reserve for the same request; only final_cost minus locked pending reserve requires additional balance'',
      wsm_refund = ''refund keys insert confirmed positive credits against a locked confirmed settle source; remaining refundable amount is recomputed while source and related refunds are locked'',
      wsm_admin_adjustment = ''admin_adjustment:{adjustment_operation_id} inserts one confirmed signed adjustment; debits require locked balance/budget capacity and credits increase the locked balance window'',
      wsm_idempotency = ''same idempotency key with identical ledger shape returns idempotent without additional debit; same key with different amount/currency/status is rejected'',
      wsm_concurrency_rejections =
        [''non_idempotent_duplicate_reserve_for_request'', ''non_idempotent_duplicate_settle_for_request'',
         ''refund_against_missing_uncommitted_or_locked_settle_source'',
         ''refund_amount_exceeds_remaining_after_locked_refunds'',
         ''same_refund_operation_id_with_different_amount_or_currency'']\<rparr>"

record consistent_postgres_contract =
  pwc_read_write_scope :: string
  pwc_balance_window :: string
  pwc_budget_dimensions :: "string list"
  pwc_cursor_or_scan_policy :: string
  pwc_safe_output_contract :: "string list"

definition postgres_writer_contract :: consistent_postgres_contract where
  "postgres_writer_contract =
     \<lparr>pwc_read_write_scope = ''single tenant-scoped transaction; no cross-tenant rows; no unbounded table scan'',
      pwc_balance_window = ''recompute wallet + active credit grants + pending/confirmed ledger debits/credits after all FOR UPDATE locks are acquired'',
      pwc_budget_dimensions = [''tenant'', ''project'', ''virtual_key''],
      pwc_cursor_or_scan_policy = ''all ledger reads are bounded by tenant_id plus request_id, related_ledger_entry_id, or idempotency_key'',
      pwc_safe_output_contract =
        [''request_material_omitted'', ''auth_header_omitted'', ''provider_credential_omitted'',
         ''wallet_credential_omitted'', ''db_url_omitted'']\<rparr>"

record writer_plan =
  wp_schema_version :: string
  wp_operation :: ledger_operation_kind
  wp_key :: string
  wp_outcome :: ledger_operation_outcome
  wp_scope :: ledger_scope
  wp_lock_plan :: writer_lock_plan
  wp_balance_window :: consistent_balance_window
  wp_wallet_check :: consistent_wallet_check
  wp_budget_checks :: "budget_check list"
  wp_state_machine :: writer_state_machine
  wp_postgres_writer_contract :: consistent_postgres_contract
  wp_ledger_plan :: ledger_operation_plan

definition is_idempotent :: "ledger_operation_outcome \<Rightarrow> bool" where
  "is_idempotent outcome = (case outcome of LO_Idempotent _ \<Rightarrow> True | LO_Apply \<Rightarrow> False)"

definition plan_consistent_ledger_write ::
  "(uuid \<Rightarrow> string) \<Rightarrow> write_request \<Rightarrow> writer_state \<Rightarrow> writer_error + writer_plan" where
  "plan_consistent_ledger_write fmt request state =
     rbind (map_err WE_Ledger (plan_inner_ledger_write fmt request (ws_entries state))) (\<lambda>ledger_plan.
     rbind (ok_or WE_WalletRequired (ws_wallet state)) (\<lambda>wallet.
     if wal_currency wallet \<noteq> cw_currency request
     then Inl (WE_WalletCurrencyMismatch (wal_currency wallet) (cw_currency request)) else
     rbind (if is_idempotent (lop_outcome ledger_plan) then writer_zero (fd_scale (wal_available wallet))
            else required_debit_for_write request state) (\<lambda>required_debit.
     rbind (refund_credit_for_plan ledger_plan (fd_scale (wal_available wallet))) (\<lambda>refund_credit.
     rbind (balance_window (cw_currency request) wallet state required_debit refund_credit) (\<lambda>window.
     let check = wallet_check (wal_id wallet) (bw_available_before_write window) required_debit in
     if \<not> wc_passed check
     then Inl (WE_InsufficientWalletBalance (bw_available_before_write window) required_debit) else
     rbind (budget_checks (ws_budgets state) (cw_currency request) required_debit) (\<lambda>checks.
     case List.find (\<lambda>c. \<not> bc_passed c) checks of
       Some failed \<Rightarrow>
         Inl (WE_InsufficientBudget (bc_budget_id failed) (bc_dimension failed)
                (bc_remaining_before_write failed) (bc_required_debit failed))
     | None \<Rightarrow>
         Inr \<lparr>wp_schema_version = ''billing_ledger_consistent_writer_plan.v1'',
              wp_operation = cw_operation request, wp_key = cw_key fmt request,
              wp_outcome = lop_outcome ledger_plan, wp_scope = cw_scope request,
              wp_lock_plan = lock_plan_for_request request, wp_balance_window = window,
              wp_wallet_check = check, wp_budget_checks = checks,
              wp_state_machine = state_machine_contract,
              wp_postgres_writer_contract = postgres_writer_contract,
              wp_ledger_plan = ledger_plan\<rparr>))))))"

section \<open>The bounded command plan\<close>

datatype command_kind =
  CK_AssertBalanceWindow | CK_AssertBudgetWindow | CK_InsertLedgerEntry | CK_UpdateLedgerStatus

record bounded_command =
  cmd_order :: u16
  cmd_kind :: command_kind
  cmd_target :: string
  cmd_statement_shape :: string
  cmd_bounded_by :: "string list"
  cmd_request_id :: "uuid option"
  cmd_ledger_entry_id :: "uuid option"
  cmd_related :: "uuid option"
  cmd_entry_type :: "ledger_entry_type option"
  cmd_status :: "ledger_entry_status option"
  cmd_amount :: "fixed_decimal option"
  cmd_currency :: "string option"
  cmd_budget_id :: "uuid option"
  cmd_budget_dimension :: "budget_dimension option"
  cmd_metadata :: "ledger_entry_metadata option"
  cmd_operation_key_output :: string

definition balance_assert_command :: "writer_plan \<Rightarrow> u16 \<Rightarrow> bounded_command" where
  "balance_assert_command plan order =
     \<lparr>cmd_order = order, cmd_kind = CK_AssertBalanceWindow, cmd_target = ''wallet_credit_ledger_window'',
      cmd_statement_shape = ''assert locked wallet, active grants, and active ledger window covers required debit'',
      cmd_bounded_by = [''tenant_id'', ''project_id'', ''currency''], cmd_request_id = None,
      cmd_ledger_entry_id = None, cmd_related = None, cmd_entry_type = None, cmd_status = None,
      cmd_amount = Some (bw_required_debit (wp_balance_window plan)),
      cmd_currency = Some (bw_currency (wp_balance_window plan)), cmd_budget_id = None,
      cmd_budget_dimension = None, cmd_metadata = None, cmd_operation_key_output = ''omitted''\<rparr>"

definition budget_assert_command :: "budget_check \<Rightarrow> u16 \<Rightarrow> bounded_command" where
  "budget_assert_command budget order =
     \<lparr>cmd_order = order, cmd_kind = CK_AssertBudgetWindow, cmd_target = ''budgets'',
      cmd_statement_shape = ''assert locked budget remaining covers required debit'',
      cmd_bounded_by = [''tenant_id'', ''project_id'', ''virtual_key_id'', ''currency''],
      cmd_request_id = None, cmd_ledger_entry_id = None, cmd_related = None, cmd_entry_type = None,
      cmd_status = None, cmd_amount = Some (bc_required_debit budget), cmd_currency = None,
      cmd_budget_id = Some (bc_budget_id budget), cmd_budget_dimension = Some (bc_dimension budget),
      cmd_metadata = None, cmd_operation_key_output = ''omitted''\<rparr>"

definition insert_ledger_command :: "ledger_entry_draft \<Rightarrow> u16 \<Rightarrow> bounded_command" where
  "insert_ledger_command entry order =
     \<lparr>cmd_order = order, cmd_kind = CK_InsertLedgerEntry, cmd_target = ''ledger_entries'',
      cmd_statement_shape = ''insert one tenant-scoped ledger row using canonical operation key from the private plan'',
      cmd_bounded_by = [''tenant_id'', ''request_id'', ''related_ledger_entry_id'', ''operation_key''],
      cmd_request_id = led_request_id entry, cmd_ledger_entry_id = None,
      cmd_related = led_related entry, cmd_entry_type = Some (led_type entry),
      cmd_status = Some (led_status entry), cmd_amount = Some (led_amount entry),
      cmd_currency = Some (led_currency entry), cmd_budget_id = None, cmd_budget_dimension = None,
      cmd_metadata = Some (led_metadata entry), cmd_operation_key_output = ''omitted''\<rparr>"

definition status_update_command :: "uuid \<Rightarrow> u16 \<Rightarrow> bounded_command" where
  "status_update_command ledger_entry_id order =
     \<lparr>cmd_order = order, cmd_kind = CK_UpdateLedgerStatus, cmd_target = ''ledger_entries'',
      cmd_statement_shape = ''update one locked ledger row status by ledger_entry_id'',
      cmd_bounded_by = [''tenant_id'', ''ledger_entry_id''], cmd_request_id = None,
      cmd_ledger_entry_id = Some ledger_entry_id, cmd_related = None, cmd_entry_type = None,
      cmd_status = Some ES_Reversed, cmd_amount = None, cmd_currency = None, cmd_budget_id = None,
      cmd_budget_dimension = None, cmd_metadata = None, cmd_operation_key_output = ''omitted''\<rparr>"

text \<open>The counter of \<open>bounded_commands_for_plan\<close>: each command takes the current order and adds one.\<close>

primrec number_from :: "u16 \<Rightarrow> (u16 \<Rightarrow> bounded_command) list \<Rightarrow> bounded_command list" where
  "number_from order [] = []"
| "number_from order (c # cs) = c order # number_from (order + 1) cs"

definition bounded_commands_for_plan :: "writer_plan \<Rightarrow> bounded_command list" where
  "bounded_commands_for_plan plan =
     number_from 1
       ([balance_assert_command plan]
        @ map budget_assert_command (wp_budget_checks plan)
        @ map insert_ledger_command (lop_entries (wp_ledger_plan plan))
        @ map (\<lambda>u. status_update_command (lsu_entry_id u)) (lop_status_updates (wp_ledger_plan plan)))"

record command_executor_contract =
  exc_trait_name :: string
  exc_mockable :: bool
  exc_postgres_impl_name :: string
  exc_transaction :: string
  exc_command_policy :: string
  exc_output_contract :: "string list"

definition executor_contract :: command_executor_contract where
  "executor_contract =
     \<lparr>exc_trait_name = ''ConsistentLedgerCommandExecutor'', exc_mockable = True,
      exc_postgres_impl_name = ''PostgresConsistentLedgerCommandExecutor'',
      exc_transaction = ''single tenant-scoped transaction with explicit ordered locks'',
      exc_command_policy = ''assert locked balance and budget windows before applying bounded ledger writes'',
      exc_output_contract =
        [''operation_key_omitted'', ''request_material_omitted'', ''auth_header_omitted'',
         ''provider_credential_omitted'', ''wallet_credential_omitted'', ''db_url_omitted'']\<rparr>"

record command_plan =
  cp_schema_version :: string
  cp_operation :: ledger_operation_kind
  cp_outcome :: ledger_operation_outcome
  cp_scope :: ledger_scope
  cp_operation_key_output :: string
  cp_commands :: "bounded_command list"
  cp_executor_contract :: command_executor_contract

definition plan_consistent_ledger_write_commands :: "writer_plan \<Rightarrow> command_plan" where
  "plan_consistent_ledger_write_commands plan =
     \<lparr>cp_schema_version = ''billing_ledger_command_executor.v1'', cp_operation = wp_operation plan,
      cp_outcome = wp_outcome plan, cp_scope = wp_scope plan, cp_operation_key_output = ''omitted'',
      cp_commands = (if is_idempotent (wp_outcome plan) then [] else bounded_commands_for_plan plan),
      cp_executor_contract = executor_contract\<rparr>"

section \<open>The in-memory executor\<close>

record in_memory_writer =
  imw_state :: writer_state
  imw_next_id :: uuid

datatype execution_outcome = EO_Applied | EO_Idempotent | EO_Rejected

record execution_error =
  ee_code :: string
  ee_category :: string
  ee_detail_output :: string

record in_memory_state_summary =
  ss_ledger_entry_count :: nat
  ss_pending_reserve_count :: nat
  ss_confirmed_settle_count :: nat
  ss_confirmed_refund_count :: nat
  ss_confirmed_adjustment_count :: nat
  ss_reversed_reserve_count :: nat

record command_execution =
  ce_schema_version :: string
  ce_executor :: string
  ce_operation :: ledger_operation_kind
  ce_outcome :: execution_outcome
  ce_operation_key_output :: string
  ce_commands :: "bounded_command list"
  ce_error :: "execution_error option"
  ce_state_summary :: in_memory_state_summary

definition count_entries :: "ledger \<Rightarrow> ledger_entry_type \<Rightarrow> ledger_entry_status \<Rightarrow> nat" where
  "count_entries es t s = length (filter (\<lambda>e. ler_type e = t \<and> ler_status e = s) es)"

definition state_summary :: "writer_state \<Rightarrow> in_memory_state_summary" where
  "state_summary state =
     \<lparr>ss_ledger_entry_count = length (ws_entries state),
      ss_pending_reserve_count = count_entries (ws_entries state) ET_Reserve ES_Pending,
      ss_confirmed_settle_count = count_entries (ws_entries state) ET_Settle ES_Confirmed,
      ss_confirmed_refund_count = count_entries (ws_entries state) ET_Refund ES_Confirmed,
      ss_confirmed_adjustment_count = count_entries (ws_entries state) ET_Adjust ES_Confirmed,
      ss_reversed_reserve_count = count_entries (ws_entries state) ET_Reserve ES_Reversed\<rparr>"

fun ledger_error_code :: "ledger_error \<Rightarrow> string" where
  "ledger_error_code (LE_IdempotencyConflict _) = ''idempotency_conflict''"
| "ledger_error_code (LE_RequestAlreadyReserved _) = ''request_already_reserved''"
| "ledger_error_code (LE_RequestAlreadySettled _) = ''request_already_settled''"
| "ledger_error_code (LE_ReserveCurrencyMismatch _ _) = ''reserve_currency_mismatch''"
| "ledger_error_code (LE_RefundSourceNotFound _) = ''refund_source_not_found''"
| "ledger_error_code (LE_RefundSourceNotConfirmedSettleDebit _) = ''refund_source_not_confirmed_settle_debit''"
| "ledger_error_code (LE_RefundCurrencyMismatch _ _) = ''refund_currency_mismatch''"
| "ledger_error_code LE_FullRefundAmountNotAllowed = ''full_refund_amount_not_allowed''"
| "ledger_error_code LE_PartialRefundAmountRequired = ''partial_refund_amount_required''"
| "ledger_error_code LE_PartialRefundOperationIdRequired = ''partial_refund_operation_id_required''"
| "ledger_error_code (LE_PartialRefundConsumesRemaining _ _) = ''partial_refund_consumes_remaining''"
| "ledger_error_code LE_AdminAdjustmentZeroAmount = ''admin_adjustment_zero_amount''"
| "ledger_error_code (LE_RefundAmountExceedsRemaining _ _) = ''refund_amount_exceeds_remaining''"
| "ledger_error_code (LE_NonPositiveAmount _) = ''non_positive_amount''"
| "ledger_error_code (LE_InvalidCurrency _) = ''invalid_currency''"
| "ledger_error_code (LE_ScaleMismatch _ _) = ''ledger_scale_mismatch''"
| "ledger_error_code LE_ArithmeticOverflow = ''ledger_arithmetic_overflow''"

fun writer_error_code :: "writer_error \<Rightarrow> string" where
  "writer_error_code WE_WalletRequired = ''wallet_required''"
| "writer_error_code (WE_WalletCurrencyMismatch _ _) = ''wallet_currency_mismatch''"
| "writer_error_code (WE_InsufficientWalletBalance _ _) = ''insufficient_wallet_balance''"
| "writer_error_code (WE_InsufficientBudget _ _ _ _) = ''insufficient_budget''"
| "writer_error_code (WE_ScaleMismatch _ _) = ''scale_mismatch''"
| "writer_error_code WE_ArithmeticOverflow = ''arithmetic_overflow''"
| "writer_error_code (WE_InMemoryStateConflict _) = ''in_memory_state_conflict''"
| "writer_error_code (WE_Ledger e) = ledger_error_code e"

fun writer_error_category :: "writer_error \<Rightarrow> string" where
  "writer_error_category (WE_Ledger _) = ''ledger_contract''"
| "writer_error_category (WE_InsufficientWalletBalance _ _) = ''balance_contract''"
| "writer_error_category (WE_InsufficientBudget _ _ _ _) = ''balance_contract''"
| "writer_error_category WE_WalletRequired = ''writer_contract''"
| "writer_error_category (WE_WalletCurrencyMismatch _ _) = ''writer_contract''"
| "writer_error_category (WE_ScaleMismatch _ _) = ''writer_contract''"
| "writer_error_category WE_ArithmeticOverflow = ''writer_contract''"
| "writer_error_category (WE_InMemoryStateConflict _) = ''writer_contract''"

definition rejected_execution ::
  "ledger_operation_kind \<Rightarrow> bounded_command list \<Rightarrow> writer_error \<Rightarrow> writer_state \<Rightarrow> command_execution" where
  "rejected_execution operation commands error state =
     \<lparr>ce_schema_version = ''billing_ledger_command_executor.v1'',
      ce_executor = ''in_memory_consistent_ledger_writer'', ce_operation = operation,
      ce_outcome = EO_Rejected, ce_operation_key_output = ''omitted'', ce_commands = commands,
      ce_error = Some \<lparr>ee_code = writer_error_code error, ee_category = writer_error_category error,
                       ee_detail_output = ''omitted''\<rparr>,
      ce_state_summary = state_summary state\<rparr>"

text \<open>\<open>iter_mut().find(..)\<close> and the status write: the first entry with the id, if its status is the
  expected one. The updates before a failing one stay in effect, so the new ledger is returned
  together with the error.\<close>

fun update_status :: "ledger_status_update \<Rightarrow> ledger \<Rightarrow> writer_error + ledger" where
  "update_status u [] = Inl (WE_InMemoryStateConflict ''status_update_target_missing'')"
| "update_status u (e # es) =
     (if ler_id e = lsu_entry_id u
      then (if ler_status e \<noteq> lsu_from u
            then Inl (WE_InMemoryStateConflict ''status_update_from_mismatch'')
            else Inr (e\<lparr>ler_status := lsu_to u\<rparr> # es))
      else map_ok (\<lambda>es'. e # es') (update_status u es))"

fun update_statuses :: "ledger_status_update list \<Rightarrow> ledger \<Rightarrow> ledger \<times> writer_error option" where
  "update_statuses [] es = (es, None)"
| "update_statuses (u # us) es =
     (case update_status u es of
        Inl err \<Rightarrow> (es, Some err)
      | Inr es' \<Rightarrow> update_statuses us es')"

definition take_next_ledger_entry_id :: "in_memory_writer \<Rightarrow> writer_error + uuid \<times> in_memory_writer" where
  "take_next_ledger_entry_id w =
     rbind (ok_or WE_ArithmeticOverflow (word_checked_add (imw_next_id w) 1)) (\<lambda>next_id.
     Inr (imw_next_id w, w\<lparr>imw_next_id := next_id\<rparr>))"

definition record_of_draft :: "uuid \<Rightarrow> ledger_entry_draft \<Rightarrow> ledger_entry_record" where
  "record_of_draft i d =
     \<lparr>ler_id = i, ler_request_id = led_request_id d, ler_related = led_related d,
      ler_type = led_type d, ler_amount = led_amount d, ler_currency = led_currency d,
      ler_status = led_status d, ler_key = led_key d\<rparr>"

definition set_entries :: "in_memory_writer \<Rightarrow> ledger \<Rightarrow> in_memory_writer" where
  "set_entries w es = w\<lparr>imw_state := (imw_state w)\<lparr>ws_entries := es\<rparr>\<rparr>"

fun push_drafts :: "ledger_entry_draft list \<Rightarrow> in_memory_writer \<Rightarrow> in_memory_writer \<times> writer_error option" where
  "push_drafts [] w = (w, None)"
| "push_drafts (d # ds) w =
     (case take_next_ledger_entry_id w of
        Inl err \<Rightarrow> (w, Some err)
      | Inr (i, w') \<Rightarrow>
          push_drafts ds (set_entries w' (ws_entries (imw_state w') @ [record_of_draft i d])))"

definition apply_ledger_plan ::
  "ledger_operation_plan \<Rightarrow> in_memory_writer \<Rightarrow> in_memory_writer \<times> writer_error option" where
  "apply_ledger_plan plan w =
     (case update_statuses (lop_status_updates plan) (ws_entries (imw_state w)) of
        (es, Some err) \<Rightarrow> (set_entries w es, Some err)
      | (es, None) \<Rightarrow> push_drafts (lop_entries plan) (set_entries w es))"

definition execute_consistent_ledger_write ::
  "(uuid \<Rightarrow> string) \<Rightarrow> write_request \<Rightarrow> in_memory_writer \<Rightarrow> in_memory_writer \<times> command_execution" where
  "execute_consistent_ledger_write fmt request w =
     (let operation = cw_operation request in
      case plan_consistent_ledger_write fmt request (imw_state w) of
        Inl err \<Rightarrow> (w, rejected_execution operation [] err (imw_state w))
      | Inr plan \<Rightarrow>
          let commands = cp_commands (plan_consistent_ledger_write_commands plan);
              finished = (\<lambda>w' outcome.
                (w', \<lparr>ce_schema_version = ''billing_ledger_command_executor.v1'',
                      ce_executor = ''in_memory_consistent_ledger_writer'', ce_operation = operation,
                      ce_outcome = outcome, ce_operation_key_output = ''omitted'',
                      ce_commands = commands, ce_error = None,
                      ce_state_summary = state_summary (imw_state w')\<rparr>))
          in case wp_outcome plan of
               LO_Apply \<Rightarrow>
                 (case apply_ledger_plan (wp_ledger_plan plan) w of
                    (w', Some err) \<Rightarrow> (w', rejected_execution operation commands err (imw_state w'))
                  | (w', None) \<Rightarrow> finished w' EO_Applied)
             | LO_Idempotent _ \<Rightarrow> finished w EO_Idempotent)"

interpretation budget_order: comparator "\<lambda>a b. ord_cmp (budget_sort_key a) (budget_sort_key b)"
  by (rule comparator_by_key [of _ budget_sort_key]) simp

lemma inner_plan_contract:
  assumes "plan_inner_ledger_write fmt req es = Inr lp"
  shows "cw_key fmt req = lop_key lp \<and> plan_contract es lp"
proof (cases req)
  case (CW_Reserve sc r a c)
  with assms reserve_planner.plan_key reserve_planner.plan_ok show ?thesis by fastforce
next
  case (CW_Settle sc r f c)
  with assms have "plan_ledger_settle_with_metadata fmt
      \<lparr>slr_request_id = r, slr_final_cost = f, slr_currency = c\<rparr> es (metadata_settle r) = Inr lp"
    by (simp add: plan_ledger_settle_def)
  with CW_Settle settle_planner.plan_key [of fmt _ es "\<lambda>_. metadata_settle r" lp]
    settle_planner.plan_ok [of fmt _ es "\<lambda>_. metadata_settle r" lp] show ?thesis by fastforce
next
  case (CW_RefundFull sc i c)
  with assms refund_planner.plan_key [of fmt _ es lp] refund_planner.plan_ok show ?thesis
    by (fastforce simp: refund_key_def normalize_refund_request_def)
next
  case (CW_RefundPartial sc i k a c)
  with assms refund_planner.plan_key [of fmt _ es lp] refund_planner.plan_ok show ?thesis
    by (fastforce simp: refund_key_def normalize_refund_request_def)
next
  case (CW_AdminAdjustment sc i r s a c)
  with assms adjustment_planner.plan_key adjustment_planner.plan_ok show ?thesis by fastforce
qed

text \<open>The writer's dispatch keeps the planners' contract.\<close>

interpretation inner_planner: ledger_planner "plan_inner_ledger_write fmt" "\<lambda>req. Some (cw_key fmt req)"
  for fmt
  by unfold_locales (auto dest: inner_plan_contract)

end
