(* ===== verification/WriterSafety.thy ===== *)
theory WriterSafety
  imports Writer
begin

text \<open>
  Correctness of the consistent writer: what a successful plan has checked, what applying it does to
  the ledger, the invariant every execution keeps, and the refinement of the executor to an abstract
  wallet with holds and refundable amounts.
\<close>

section \<open>Amounts and folds\<close>

lemma writer_ensure_same_scale_eq_Inr [simp]:
  "writer_ensure_same_scale a b = Inr x \<longleftrightarrow> fd_scale a = fd_scale b"
  by (simp add: writer_ensure_same_scale_def)

lemma writer_checked_add_eq_Inr:
  "writer_checked_add a b = Inr c \<longleftrightarrow>
     fd_scale a = fd_scale b \<and> in_i128 (fd_units a + fd_units b)
     \<and> c = FixedDecimal (fd_units a + fd_units b) (fd_scale a)"
  by (auto simp: writer_checked_add_def result_simps fd_checked_add_eq_Inr)

lemma writer_checked_subtract_eq_Inr:
  "writer_checked_subtract a b = Inr c \<longleftrightarrow>
     fd_scale a = fd_scale b \<and> fd_scale a \<le> MAX_MONEY_SCALE \<and> in_i128 (fd_units a - fd_units b)
     \<and> c = FixedDecimal (fd_units a - fd_units b) (fd_scale a)"
  by (auto simp: writer_checked_subtract_def result_simps i128_checked_sub_def check_i128_eq_Some)

lemma writer_checked_neg_eq_Inr:
  "writer_checked_neg a = Inr c \<longleftrightarrow>
     in_i128 (- fd_units a) \<and> fd_scale a \<le> MAX_MONEY_SCALE \<and> c = FixedDecimal (- fd_units a) (fd_scale a)"
  by (auto simp: writer_checked_neg_def result_simps i128_checked_neg_def check_i128_eq_Some)

lemma writer_zero_eq_Inr [simp]:
  "writer_zero s = Inr d \<longleftrightarrow> s \<le> MAX_MONEY_SCALE \<and> d = FixedDecimal 0 s"
  by (auto simp: writer_zero_def result_simps)

lemmas writer_arith =
  writer_checked_add_eq_Inr writer_checked_subtract_eq_Inr writer_checked_neg_eq_Inr

lemma try_fold_add:
  assumes "try_fold (\<lambda>t x. writer_checked_add t (f x)) z xs = Inr t"
  shows "t = FixedDecimal (fd_units z + sum_list (map (\<lambda>x. fd_units (f x)) xs)) (fd_scale z)
         \<and> (\<forall>x \<in> set xs. fd_scale (f x) = fd_scale z)"
  using assms
proof (induction xs arbitrary: z)
  case Nil
  then show ?case by (cases z) auto
next
  case (Cons x xs)
  then obtain y where y: "writer_checked_add z (f x) = Inr y"
    and "try_fold (\<lambda>t x. writer_checked_add t (f x)) y xs = Inr t"
    by (auto simp: rbind_eq_Inr)
  with Cons.IH [of y] show ?case by (auto simp: writer_checked_add_eq_Inr)
qed

definition ledger_effect :: "ledger \<Rightarrow> string \<Rightarrow> int" where
  "ledger_effect es c = sum_units (filter (counts_for c) es)"

definition grant_total :: "credit_grant_snapshot list \<Rightarrow> string \<Rightarrow> int" where
  "grant_total gs c = sum_list (map (\<lambda>g. fd_units (cg_remaining g)) (filter (\<lambda>g. cg_active g \<and> cg_currency g = c) gs))"

definition held :: "ledger \<Rightarrow> uuid \<Rightarrow> int" where
  "held es r = - sum_units (filter (pending_reserve r) es)"

lemma active_ledger_effect_Inr:
  assumes "active_ledger_effect es c s = Inr d"
  shows "d = FixedDecimal (ledger_effect es c) s"
    and "e \<in> set es \<Longrightarrow> counts_for c e \<Longrightarrow> fd_scale (ler_amount e) = s"
proof -
  have "s \<le> MAX_MONEY_SCALE"
    and "try_fold (\<lambda>t e. writer_checked_add t (ler_amount e)) (FixedDecimal 0 s) (filter (counts_for c) es) = Inr d"
    using assms by (auto simp: active_ledger_effect_def rbind_eq_Inr)
  note t = try_fold_add [OF this(2)]
  from t show "d = FixedDecimal (ledger_effect es c) s" by (simp add: ledger_effect_def sum_units_def)
  from t show "e \<in> set es \<Longrightarrow> counts_for c e \<Longrightarrow> fd_scale (ler_amount e) = s" by auto
qed

lemma active_credit_grant_total_Inr:
  assumes "active_credit_grant_total gs c s = Inr d"
  shows "d = FixedDecimal (grant_total gs c) s"
proof -
  have "try_fold (\<lambda>t g. writer_checked_add t (cg_remaining g)) (FixedDecimal 0 s)
          (filter (\<lambda>g. cg_active g \<and> cg_currency g = c) gs) = Inr d"
    using assms by (auto simp: active_credit_grant_total_def rbind_eq_Inr)
  from try_fold_add [OF this] show ?thesis by (simp add: grant_total_def)
qed

lemma pending_reserve_fold:
  assumes "try_fold (\<lambda>t e. rbind (writer_checked_neg (ler_amount e)) (\<lambda>r. writer_checked_add t r)) z es = Inr t"
  shows "t = FixedDecimal (fd_units z - sum_units es) (fd_scale z)"
  using assms
proof (induction es arbitrary: z)
  case Nil
  then show ?case by (cases z) auto
next
  case (Cons e es)
  then obtain n y where "writer_checked_neg (ler_amount e) = Inr n" "writer_checked_add z n = Inr y"
    and "try_fold (\<lambda>t e. rbind (writer_checked_neg (ler_amount e)) (\<lambda>r. writer_checked_add t r)) y es = Inr t"
    by (auto simp: rbind_eq_Inr)
  with Cons.IH [of y] show ?case by (auto simp: writer_arith algebra_simps)
qed

lemma pending_reserve_amount_Inr:
  assumes "pending_reserve_amount_for_request es r = Inr d"
  shows "fd_units d = held es r"
  using assms
  by (auto simp: pending_reserve_amount_for_request_def Let_def rbind_eq_Inr held_def
      dest!: pending_reserve_fold)

section \<open>What a successful plan has checked\<close>

definition available :: "writer_state \<Rightarrow> int" where
  "available st =
     (case ws_wallet st of
        None \<Rightarrow> 0
      | Some w \<Rightarrow> fd_units (wal_available w) + grant_total (ws_grants st) (wal_currency w)
                   + ledger_effect (ws_entries st) (wal_currency w))"

text \<open>What a write takes out of the wallet, as an integer.\<close>

fun debit_of :: "write_request \<Rightarrow> writer_state \<Rightarrow> int" where
  "debit_of (CW_Reserve _ _ amount _) st = fd_units amount"
| "debit_of (CW_Settle _ r final_cost _) st = max 0 (fd_units final_cost - held (ws_entries st) r)"
| "debit_of (CW_RefundFull _ _ _) st = 0"
| "debit_of (CW_RefundPartial _ _ _ _ _) st = 0"
| "debit_of (CW_AdminAdjustment _ _ _ _ amount _) st = max 0 (- fd_units amount)"

lemma required_debit_units:
  assumes "required_debit_for_write req st = Inr d"
  shows "fd_units d = debit_of req st"
proof (cases req)
  case (CW_Settle sc r f c)
  with assms obtain h where h: "pending_reserve_amount_for_request (ws_entries st) r = Inr h"
    and d: "(if f > h then writer_checked_subtract f h else writer_zero (fd_scale f)) = Inr d"
    by (auto simp: rbind_eq_Inr)
  show ?thesis
  proof (cases "f > h")
    case True
    with d have "fd_units d = fd_units f - fd_units h" by (simp add: writer_arith)
    with True pending_reserve_amount_Inr [OF h] CW_Settle show ?thesis
      by (auto simp: less_fixed_decimal_def)
  next
    case False
    with d pending_reserve_amount_Inr [OF h] CW_Settle show ?thesis
      by (auto simp: less_fixed_decimal_def)
  qed
qed (use assms in \<open>auto simp: writer_arith split: if_splits\<close>)

lemma balance_window_Inr:
  assumes "balance_window c w st d k = Inr b" "ws_wallet st = Some w" "wal_currency w = c"
  shows "fd_units (bw_available_before_write b) = available st"
    and "fd_scale (bw_available_before_write b) = fd_scale (wal_available w)"
    and "fd_scale d = fd_scale (wal_available w)"
    and "bw_required_debit b = d" "bw_refund_credit b = k" "bw_currency b = c"
  using assms
  by (auto simp: balance_window_def Let_def rbind_eq_Inr writer_arith available_def
      dest!: active_ledger_effect_Inr(1) active_credit_grant_total_Inr)

text \<open>The facts a \<open>writer_plan\<close> rests on, when it is a plan to apply.\<close>

lemma find_case_eq_Inr:
  "(case m of Some y \<Rightarrow> Inl (f y) | None \<Rightarrow> Inr x) = Inr z \<longleftrightarrow> m = None \<and> x = z"
  by (cases m) auto

lemma plan_consistent_Inr:
  assumes "plan_consistent_ledger_write fmt req st = Inr p"
  obtains lp w d k b cs where
    "plan_inner_ledger_write fmt req (ws_entries st) = Inr lp" "ws_wallet st = Some w"
    "wal_currency w = cw_currency req"
    "(if is_idempotent (lop_outcome lp) then writer_zero (fd_scale (wal_available w))
      else required_debit_for_write req st) = Inr d"
    "refund_credit_for_plan lp (fd_scale (wal_available w)) = Inr k"
    "balance_window (cw_currency req) w st d k = Inr b"
    "wc_passed (wallet_check (wal_id w) (bw_available_before_write b) d)"
    "budget_checks (ws_budgets st) (cw_currency req) d = Inr cs"
    "List.find (\<lambda>c. \<not> bc_passed c) cs = None"
    "wp_outcome p = lop_outcome lp" "wp_ledger_plan p = lp" "wp_budget_checks p = cs"
    "wp_balance_window p = b"
proof -
  show thesis
    using assms
    unfolding plan_consistent_ledger_write_def rbind_eq_Inr map_err_eq_Inr ok_or_eq_Inr Let_def
      if_Inl_eq_Inr find_case_eq_Inr not_not
    apply (elim exE conjE)
    apply (rule that)
    apply assumption+
    apply (erule subst, simp)+
    done
qed

lemma budget_check_of:
  assumes "budget_checks bs c d = Inr cs" "x \<in> set bs" "bud_active x" "bud_currency x = c"
  shows "\<exists>y \<in> set cs. bc_passed y = (bud_remaining x \<ge> d)"
proof -
  let ?bs = "sort_by (\<lambda>a b. ord_cmp (budget_sort_key a) (budget_sort_key b))
               (filter (\<lambda>b. bud_active b \<and> bud_currency b = c) bs)"
  have "x \<in> set ?bs" using assms(2-4) by (simp add: budget_order.set_sort_by)
  then obtain i where i: "i < length ?bs" "?bs ! i = x" by (auto simp: in_set_conv_nth)
  have "bc_passed y = (bud_remaining b \<ge> d)"
    if "rbind (writer_checked_subtract (bud_remaining b) d) (\<lambda>r.
         Inr \<lparr>bc_budget_id = bud_id b, bc_dimension = bud_dimension b,
              bc_remaining_before_write = bud_remaining b, bc_required_debit = d,
              bc_remaining_after_write = r, bc_passed = (bud_remaining b \<ge> d)\<rparr>) = Inr y" for b y
    using that by (auto simp: rbind_eq_Inr)
  then have "list_all2 (\<lambda>b y. bc_passed y = (bud_remaining b \<ge> d)) ?bs cs"
    using assms(1) unfolding budget_checks_def try_map_eq_Inr by (rule list_all2_mono [rotated])
  from list_all2_nthD [OF this i(1)] list_all2_lengthD [OF this] i show ?thesis by (metis nth_mem)
qed

lemma plan_consistent_apply:
  assumes "plan_consistent_ledger_write fmt req st = Inr p" "wp_outcome p = LO_Apply"
  obtains w where "ws_wallet st = Some w" "wal_currency w = cw_currency req"
    "plan_inner_ledger_write fmt req (ws_entries st) = Inr (wp_ledger_plan p)"
    "lop_outcome (wp_ledger_plan p) = LO_Apply"
    "debit_of req st = 0 \<or> debit_of req st \<le> available st"
    "\<And>b. b \<in> set (ws_budgets st) \<Longrightarrow> bud_active b \<Longrightarrow> bud_currency b = cw_currency req
          \<Longrightarrow> debit_of req st \<le> fd_units (bud_remaining b)"
proof -
  obtain lp w d k b cs where
    lp: "plan_inner_ledger_write fmt req (ws_entries st) = Inr lp" and w: "ws_wallet st = Some w"
    and c: "wal_currency w = cw_currency req"
    and d: "(if is_idempotent (lop_outcome lp) then writer_zero (fd_scale (wal_available w))
             else required_debit_for_write req st) = Inr d"
    and b: "balance_window (cw_currency req) w st d k = Inr b"
    and wc: "wc_passed (wallet_check (wal_id w) (bw_available_before_write b) d)"
    and cs: "budget_checks (ws_budgets st) (cw_currency req) d = Inr cs"
    and fail: "List.find (\<lambda>c. \<not> bc_passed c) cs = None"
    and p: "wp_outcome p = lop_outcome lp" "wp_ledger_plan p = lp"
    using assms(1) by (rule plan_consistent_Inr)
  have "required_debit_for_write req st = Inr d"
    using d p assms(2) by (simp add: is_idempotent_def)
  then have du: "fd_units d = debit_of req st" by (rule required_debit_units)
  note bw = balance_window_Inr [OF b w c]
  have "debit_of req st = 0 \<or> debit_of req st \<le> available st"
    using wc bw(1-3) du by (auto simp: wallet_check_def Let_def fd_is_zero_def less_eq_fixed_decimal_def)
  moreover have "debit_of req st \<le> fd_units (bud_remaining x)"
    if x: "x \<in> set (ws_budgets st)" "bud_active x" "bud_currency x = cw_currency req" for x
    using budget_check_of [OF cs x] fail du by (auto simp: find_None_iff less_eq_fixed_decimal_def)
  ultimately show thesis using that w c lp p assms(2) by simp
qed
section \<open>What applying a plan does\<close>

definition release :: "uuid \<Rightarrow> ledger_entry_record \<Rightarrow> ledger_entry_record" where
  "release r e = (if pending_reserve r e then e\<lparr>ler_status := ES_Reversed\<rparr> else e)"

text \<open>The existing entries after the status updates of a request: a settle releases the pending
  reserves of its request, nothing else changes an entry.\<close>

definition released :: "write_request \<Rightarrow> ledger \<Rightarrow> ledger" where
  "released req es = (case req of CW_Settle _ r _ _ \<Rightarrow> map (release r) es | _ \<Rightarrow> es)"

lemma update_status_ok:
  assumes "distinct (map ler_id es)" "e \<in> set es" "ler_id e = lsu_entry_id u" "ler_status e = lsu_from u"
  shows "update_status u es =
         Inr (map (\<lambda>x. if ler_id x = lsu_entry_id u then x\<lparr>ler_status := lsu_to u\<rparr> else x) es)"
  using assms
proof (induction es)
  case (Cons x es)
  show ?case
  proof (cases "ler_id x = lsu_entry_id u")
    case True
    with Cons.prems have "x = e" "\<forall>y \<in> set es. ler_id y \<noteq> lsu_entry_id u"
      by (auto simp: image_iff)
    with True Cons.prems show ?thesis by (auto intro!: map_idI [symmetric])
  next
    case False
    with Cons show ?thesis by auto
  qed
qed simp

lemma update_statuses_ok:
  assumes "distinct (map ler_id es)" "distinct (map lsu_entry_id us)"
    and "\<forall>u \<in> set us. release_of es u"
  shows "update_statuses us es =
         (map (\<lambda>x. if ler_id x \<in> lsu_entry_id ` set us then x\<lparr>ler_status := ES_Reversed\<rparr> else x) es, None)"
  using assms
proof (induction us arbitrary: es)
  case Nil
  then show ?case by simp
next
  case (Cons u us)
  let ?f = "\<lambda>x. if ler_id x = lsu_entry_id u then x\<lparr>ler_status := lsu_to u\<rparr> else x"
  from Cons.prems(3) obtain e where e: "e \<in> set es" "ler_id e = lsu_entry_id u" "ler_status e = lsu_from u"
    and to: "lsu_to u = ES_Reversed"
    by (auto simp: release_of_def)
  have "map ler_id (map ?f es) = map ler_id es" by simp
  then have ids: "distinct (map ler_id (map ?f es))" using Cons.prems(1) by (simp only:)
  have "release_of (map ?f es) v" if v: "v \<in> set us" for v
  proof -
    from v Cons.prems(2) have "lsu_entry_id v \<noteq> lsu_entry_id u" by (force simp: image_iff)
    moreover from v Cons.prems(3) have "release_of es v" by simp
    ultimately show ?thesis by (fastforce simp: release_of_def)
  qed
  then have "update_statuses us (map ?f es) =
      (map (\<lambda>x. if ler_id x \<in> lsu_entry_id ` set us then x\<lparr>ler_status := ES_Reversed\<rparr> else x) (map ?f es), None)"
    using Cons.prems(2) by (intro Cons.IH [OF ids]) simp_all
  with update_status_ok [OF Cons.prems(1) e] to show ?case by auto
qed

lemma update_statuses_settle:
  assumes "distinct (map ler_id es)"
  shows "update_statuses (map reserve_release (filter (pending_reserve r) es)) es = (map (release r) es, None)"
proof -
  let ?us = "map reserve_release (filter (pending_reserve r) es)"
  have ids: "map lsu_entry_id ?us = map ler_id (filter (pending_reserve r) es)"
    by (simp add: reserve_release_def)
  have "distinct (map lsu_entry_id ?us)"
    unfolding ids using assms by (rule distinct_map_filter)
  moreover have "\<forall>u \<in> set ?us. release_of es u"
    by (auto simp: release_of_def reserve_release_def pending_reserve_def)
  moreover have "ler_id x \<in> lsu_entry_id ` set ?us \<longleftrightarrow> pending_reserve r x" if "x \<in> set es" for x
    using that assms by (auto simp: reserve_release_def image_iff distinct_map inj_on_def)
  ultimately show ?thesis
    using update_statuses_ok [OF assms, of ?us] by (auto simp: release_def)
qed

lemma inner_apply:
  assumes "plan_inner_ledger_write fmt req es = Inr lp" "lop_outcome lp = LO_Apply" "distinct (map ler_id es)"
  obtains d where "lop_entries lp = [d]" "led_key d = cw_key fmt req"
    "update_statuses (lop_status_updates lp) es = (released req es, None)"
  using assms
  by (cases req)
     (auto simp: released_def plan_ledger_settle_def apply_plan_def idempotent_plan_def update_statuses_settle
        normalize_refund_request_def refund_draft_def
        elim!: reserve_plan_cases settle_plan_cases refund_plan_cases adjustment_plan_cases)

lemma ws_entries_set_entries [simp]:
  "ws_entries (imw_state (set_entries w es)) = es" "imw_next_id (set_entries w es) = imw_next_id w"
  "ws_wallet (imw_state (set_entries w es)) = ws_wallet (imw_state w)"
  "ws_grants (imw_state (set_entries w es)) = ws_grants (imw_state w)"
  "ws_budgets (imw_state (set_entries w es)) = ws_budgets (imw_state w)"
  by (simp_all add: set_entries_def)

definition applied_writer :: "in_memory_writer \<Rightarrow> write_request \<Rightarrow> ledger_entry_draft \<Rightarrow> in_memory_writer" where
  "applied_writer w req d =
     set_entries (w\<lparr>imw_next_id := imw_next_id w + 1\<rparr>)
       (released req (ws_entries (imw_state w)) @ [record_of_draft (imw_next_id w) d])"

lemma apply_ledger_plan_cases:
  assumes "update_statuses (lop_status_updates lp) (ws_entries (imw_state w)) = (es', None)"
    and "lop_entries lp = [d]"
  shows "apply_ledger_plan lp w =
           (case word_checked_add (imw_next_id w) 1 of
              None \<Rightarrow> (set_entries w es', Some WE_ArithmeticOverflow)
            | Some n \<Rightarrow> (set_entries (w\<lparr>imw_next_id := n\<rparr>) (es' @ [record_of_draft (imw_next_id w) d]), None))"
  using assms
  by (cases "word_checked_add (imw_next_id w) 1")
     (simp_all add: apply_ledger_plan_def take_next_ledger_entry_id_def set_entries_def)

lemma word_succ_checked:
  "word_checked_add n 1 = (if n = - 1 then None else Some (n + 1))" for n :: uuid
proof -
  have "unat (- 1 :: uuid) = 2 ^ 128 - 1"
    by (simp add: unsigned_minus_1_eq_mask mask_eq_exp_minus_1)
  then have "n = - 1 \<longleftrightarrow> unat n = 2 ^ 128 - 1" by (metis word_unat_eq_iff)
  moreover have "unat n < 2 ^ LENGTH(128)" by (rule unsigned_less)
  ultimately show ?thesis by (auto simp: word_checked_add_def)
qed

text \<open>The three ways an execution can end.\<close>

lemma execute_cases:
  assumes "execute_consistent_ledger_write fmt req w = (w', x)"
    and "distinct (map ler_id (ws_entries (imw_state w)))"
  obtains (applied) p d where "ce_outcome x = EO_Applied" "imw_next_id w \<noteq> - 1"
      "plan_consistent_ledger_write fmt req (imw_state w) = Inr p" "wp_outcome p = LO_Apply"
      "plan_inner_ledger_write fmt req (ws_entries (imw_state w)) = Inr (wp_ledger_plan p)"
      "lop_outcome (wp_ledger_plan p) = LO_Apply"
      "lop_entries (wp_ledger_plan p) = [d]" "led_key d = cw_key fmt req" "w' = applied_writer w req d"
    | (idempotent) p i where "ce_outcome x = EO_Idempotent" "w' = w"
      "plan_consistent_ledger_write fmt req (imw_state w) = Inr p" "wp_outcome p = LO_Idempotent i"
    | (rejected) "ce_outcome x = EO_Rejected" "w' = w"
    | (exhausted) p where "ce_outcome x = EO_Rejected" "imw_next_id w = - 1"
      "plan_consistent_ledger_write fmt req (imw_state w) = Inr p" "wp_outcome p = LO_Apply"
      "w' = set_entries w (released req (ws_entries (imw_state w)))"
proof (cases "plan_consistent_ledger_write fmt req (imw_state w)")
  case (Inl err)
  with assms(1) rejected show thesis
    by (auto simp: execute_consistent_ledger_write_def Let_def rejected_execution_def)
next
  case (Inr p)
  show thesis
  proof (cases "wp_outcome p")
    case LO_Apply
    obtain wl where lp: "plan_inner_ledger_write fmt req (ws_entries (imw_state w)) = Inr (wp_ledger_plan p)"
      "lop_outcome (wp_ledger_plan p) = LO_Apply"
      using Inr LO_Apply by (rule plan_consistent_apply)
    obtain d where d: "lop_entries (wp_ledger_plan p) = [d]" "led_key d = cw_key fmt req"
      "update_statuses (lop_status_updates (wp_ledger_plan p)) (ws_entries (imw_state w))
         = (released req (ws_entries (imw_state w)), None)"
      using lp assms(2) by (rule inner_apply)
    note ap = apply_ledger_plan_cases [OF d(3,1), unfolded word_succ_checked]
    show thesis
    proof (cases "imw_next_id w = - 1")
      case True
      with assms(1) Inr LO_Apply ap exhausted show thesis
        by (auto simp: execute_consistent_ledger_write_def Let_def rejected_execution_def)
    next
      case False
      with assms(1) Inr LO_Apply ap have "w' = applied_writer w req d" "ce_outcome x = EO_Applied"
        by (auto simp: execute_consistent_ledger_write_def Let_def applied_writer_def)
      with applied False Inr LO_Apply lp d(1,2) show thesis by blast
    qed
  next
    case (LO_Idempotent i)
    with assms(1) Inr idempotent show thesis
      by (auto simp: execute_consistent_ledger_write_def Let_def)
  qed
qed

section \<open>The ledger invariant\<close>

definition active_for :: "ledger_entry_type \<Rightarrow> uuid \<Rightarrow> ledger_entry_record \<Rightarrow> bool" where
  "active_for t r e \<longleftrightarrow> ler_request_id e = Some r \<and> ler_type e = t \<and> active_status (ler_status e)"

text \<open>Entries are identified by their id and by their key; a request has at most one active reserve
  and at most one active settle (the constraints the lock plan lists); no refund exceeds its source.\<close>

definition ledger_ok :: "uuid \<Rightarrow> ledger \<Rightarrow> bool" where
  "ledger_ok n es \<longleftrightarrow>
     distinct (map ler_id es) \<and> distinct (map ler_key es)
     \<and> (\<forall>e \<in> set es. ler_id e \<noteq> 0 \<and> ler_id e < n)
     \<and> (\<forall>e \<in> set es. ler_type e = ET_Reserve \<longrightarrow> fd_units (ler_amount e) < 0)
     \<and> (\<forall>r. length (filter (active_for ET_Reserve r) es) \<le> 1)
     \<and> (\<forall>r. length (filter (active_for ET_Settle r) es) \<le> 1)
     \<and> (\<forall>e \<in> set es. ler_type e = ET_Refund \<longrightarrow> (\<exists>s \<in> set es. ler_related e = Some (ler_id s)))
     \<and> (\<forall>s \<in> set es. ler_type s = ET_Settle \<longrightarrow> refunded es (ler_id s) \<le> max 0 (- fd_units (ler_amount s)))"

definition writer_ok :: "in_memory_writer \<Rightarrow> bool" where
  "writer_ok w \<longleftrightarrow> 0 < imw_next_id w \<and> ledger_ok (imw_next_id w) (ws_entries (imw_state w))"

lemma release_simps [simp]:
  "ler_id (release r e) = ler_id e" "ler_key (release r e) = ler_key e"
  "ler_type (release r e) = ler_type e" "ler_amount (release r e) = ler_amount e"
  "ler_related (release r e) = ler_related e" "ler_request_id (release r e) = ler_request_id e"
  "ler_currency (release r e) = ler_currency e"
  by (simp_all add: release_def)

lemma active_release: "active_status (ler_status (release r e)) \<longleftrightarrow> active_status (ler_status e) \<and> \<not> pending_reserve r e"
  by (auto simp: release_def active_status_def pending_reserve_def)

lemma active_for_release: "active_for t q (release r e) \<Longrightarrow> active_for t q e"
  by (simp add: active_for_def active_release)

lemma length_filter_map_le:
  assumes "\<And>x. P (f x) \<Longrightarrow> P x"
  shows "length (filter P (map f xs)) \<le> length (filter P xs)"
  by (induction xs) (use assms in auto)

lemma refunded_release [simp]: "refunded (map (release r) es) i = refunded es i"
proof -
  have "sum_units (filter (\<lambda>e. ler_related e = Some i \<and> ler_type e = ET_Refund \<and> active_status (ler_status e))
          (map (release r) es)) =
        sum_units (filter (\<lambda>e. ler_related e = Some i \<and> ler_type e = ET_Refund \<and> active_status (ler_status e)) es)"
    by (induction es) (auto simp: active_release pending_reserve_def)
  then show ?thesis by (simp add: refunded_def)
qed

lemma release_comp [simp]: "ler_id \<circ> release r = ler_id" "ler_key \<circ> release r = ler_key"
  by (simp_all add: fun_eq_iff)

lemma ledger_ok_release:
  assumes "ledger_ok n es"
  shows "ledger_ok n (map (release r) es)"
proof -
  have "length (filter (active_for t q) (map (release r) es)) \<le> length (filter (active_for t q) es)" for t q
    by (rule length_filter_map_le) (rule active_for_release)
  then have "length (filter (active_for t q) (map (release r) es)) \<le> 1"
    if "length (filter (active_for t q) es) \<le> 1" for t q
    using that by (rule order_trans)
  then show ?thesis
    using assms unfolding ledger_ok_def by auto
qed

lemma refunded_append [simp]:
  "refunded (es @ [e]) i = refunded es i +
     (if ler_related e = Some i \<and> ler_type e = ET_Refund \<and> active_status (ler_status e)
      then fd_units (ler_amount e) else 0)"
  by (simp add: refunded_def)

lemma refunded_unrelated:
  "\<forall>e \<in> set es. ler_type e = ET_Refund \<longrightarrow> ler_related e \<noteq> Some i \<Longrightarrow> refunded es i = 0"
  by (induction es) (auto simp: refunded_def)

text \<open>What a new entry must satisfy for the invariant to survive it.\<close>

definition entry_fits :: "ledger \<Rightarrow> ledger_entry_record \<Rightarrow> bool" where
  "entry_fits es e \<longleftrightarrow>
     (\<forall>x \<in> set es. ler_key x \<noteq> ler_key e)
     \<and> (ler_type e = ET_Reserve \<longrightarrow> fd_units (ler_amount e) < 0)
     \<and> (\<forall>r. active_for ET_Reserve r e \<longrightarrow> filter (active_for ET_Reserve r) es = [])
     \<and> (\<forall>r. active_for ET_Settle r e \<longrightarrow> filter (active_for ET_Settle r) es = [])
     \<and> (ler_type e = ET_Refund \<longrightarrow>
          (\<exists>s \<in> set es. ler_related e = Some (ler_id s) \<and> ler_type s = ET_Settle
             \<and> refunded es (ler_id s) + fd_units (ler_amount e) \<le> - fd_units (ler_amount s)))"

lemma entry_fits_release:
  assumes "entry_fits es e"
  shows "entry_fits (map (release r) es) e"
proof -
  have "filter (active_for t q) (map (release r) es) = []" if "filter (active_for t q) es = []" for t q
    using that active_for_release by (fastforce simp: filter_empty_conv)
  with assms show ?thesis by (auto simp: entry_fits_def)
qed

lemma refunded_bound_append:
  assumes "ledger_ok n es" "ler_id e = n" "entry_fits es e" "s \<in> set (es @ [e])" "ler_type s = ET_Settle"
  shows "refunded (es @ [e]) (ler_id s) \<le> max 0 (- fd_units (ler_amount s))"
proof (cases "s \<in> set es")
  case True
  then have old: "refunded es (ler_id s) \<le> max 0 (- fd_units (ler_amount s))"
    using assms(1,5) by (auto simp: ledger_ok_def)
  show ?thesis
  proof (cases "ler_related e = Some (ler_id s) \<and> ler_type e = ET_Refund")
    case True
    then obtain s' where s': "s' \<in> set es" "ler_id s' = ler_id s"
      "refunded es (ler_id s') + fd_units (ler_amount e) \<le> - fd_units (ler_amount s')"
      using assms(3) by (auto simp: entry_fits_def)
    with \<open>s \<in> set es\<close> assms(1) have "s' = s"
      by (auto simp: ledger_ok_def distinct_map inj_on_def)
    with s' old show ?thesis by auto
  qed (use old in auto)
next
  case False
  with assms(4) have "s = e" by simp
  have "refunded es n = 0"
  proof (rule refunded_unrelated, intro ballI impI notI)
    fix x assume "x \<in> set es" "ler_type x = ET_Refund" "ler_related x = Some n"
    with assms(1) obtain y where "y \<in> set es" "ler_id y = n" by (auto simp: ledger_ok_def)
    with assms(1) show False by (auto simp: ledger_ok_def)
  qed
  with \<open>s = e\<close> assms(2,5) show ?thesis by simp
qed

lemma ledger_ok_append:
  assumes ok: "ledger_ok n es" and e: "ler_id e = n" "entry_fits es e" and n: "n \<noteq> 0" "n < n'"
  shows "ledger_ok n' (es @ [e])"
  unfolding ledger_ok_def
proof (intro conjI allI ballI impI)
  have "distinct (map ler_id es)" "distinct (map ler_key es)" "\<forall>x \<in> set es. ler_id x < n"
    using ok by (simp_all add: ledger_ok_def)
  moreover have "\<forall>x \<in> set es. ler_key x \<noteq> ler_key e" using e(2) by (simp add: entry_fits_def)
  ultimately show "distinct (map ler_id (es @ [e]))" "distinct (map ler_key (es @ [e]))"
    using e(1) by (auto simp: image_iff)
  show "ler_id x \<noteq> 0" "ler_id x < n'" if "x \<in> set (es @ [e])" for x
    using that ok e(1) n by (auto simp: ledger_ok_def)
  show "fd_units (ler_amount x) < 0" if "x \<in> set (es @ [e])" "ler_type x = ET_Reserve" for x
    using that ok e(2) by (auto simp: ledger_ok_def entry_fits_def)
  show "length (filter (active_for ET_Reserve r) (es @ [e])) \<le> 1"
    and "length (filter (active_for ET_Settle r) (es @ [e])) \<le> 1" for r
    using ok e(2) by (auto simp: ledger_ok_def entry_fits_def)
  show "\<exists>s \<in> set (es @ [e]). ler_related x = Some (ler_id s)"
    if "x \<in> set (es @ [e])" "ler_type x = ET_Refund" for x
    using that ok e(2) by (auto simp: ledger_ok_def entry_fits_def)
qed (rule refunded_bound_append [OF ok e])

lemma find_active_None:
  "find_active_reserve_for_request es r = None \<longleftrightarrow> filter (active_for ET_Reserve r) es = []"
  "find_active_settle_for_request es r = None \<longleftrightarrow> filter (active_for ET_Settle r) es = []"
  by (auto simp: find_active_reserve_for_request_def find_active_settle_for_request_def find_None_iff
      filter_empty_conv active_for_def)

lemma entry_fits_draft:
  "entry_fits es (record_of_draft n d) \<longleftrightarrow>
     (\<forall>x \<in> set es. ler_key x \<noteq> led_key d)
     \<and> (led_type d = ET_Reserve \<longrightarrow> fd_units (led_amount d) < 0)
     \<and> (\<forall>r. led_request_id d = Some r \<and> led_type d = ET_Reserve \<and> active_status (led_status d)
            \<longrightarrow> filter (active_for ET_Reserve r) es = [])
     \<and> (\<forall>r. led_request_id d = Some r \<and> led_type d = ET_Settle \<and> active_status (led_status d)
            \<longrightarrow> filter (active_for ET_Settle r) es = [])
     \<and> (led_type d = ET_Refund \<longrightarrow>
          (\<exists>s \<in> set es. led_related d = Some (ler_id s) \<and> ler_type s = ET_Settle
             \<and> refunded es (ler_id s) + fd_units (led_amount d) \<le> - fd_units (ler_amount s)))"
  by (simp add: entry_fits_def record_of_draft_def active_for_def)

lemma planned_refund_fits:
  assumes "plan_ledger_refund fmt r es = Inr lp" "lop_outcome lp = LO_Apply" "lop_entries lp = [d]"
    and "\<forall>e \<in> set es. ler_id e \<noteq> 0"
  shows "entry_fits es (record_of_draft n d)"
  using assms(1)
proof (cases rule: refund_plan_cases)
  case (fresh m source remaining amount)
  note s = find_refund_source_eq_Inr [OF fresh(3)]
    fresh_refund_bounded(1) [OF fresh(3) assms(4) fresh(6,7,9)]
  have "d = refund_draft source m amount" using assms(3) fresh(10) by (simp add: apply_plan_def)
  moreover have "\<exists>s \<in> set es. Some (ler_id source) = Some (ler_id s) \<and> ler_type s = ET_Settle
             \<and> refunded es (ler_id s) + fd_units amount \<le> - fd_units (ler_amount s)"
    using s by (intro bexI [of _ source]) simp_all
  ultimately show ?thesis
    using fresh(5) by (simp add: entry_fits_draft find_by_key_None refund_draft_def)
qed (use assms(2) in \<open>simp add: idempotent_plan_def\<close>)

lemma planned_entry_fits:
  assumes "plan_inner_ledger_write fmt req es = Inr lp" "lop_outcome lp = LO_Apply" "lop_entries lp = [d]"
    and "\<forall>e \<in> set es. ler_id e \<noteq> 0"
  shows "entry_fits es (record_of_draft n d)"
proof (cases req)
  case (CW_Reserve sc r a c)
  with assms(1-3) show ?thesis
    by (auto simp: entry_fits_draft find_by_key_None find_active_None apply_plan_def idempotent_plan_def
        reserve_draft_def debit_amount_eq_Inr elim!: reserve_plan_cases)
next
  case (CW_Settle sc r a c)
  with assms(1-3) show ?thesis
    by (auto simp: entry_fits_draft find_by_key_None find_active_None idempotent_plan_def plan_ledger_settle_def
        settle_draft_def elim!: settle_plan_cases)
next
  case (CW_AdminAdjustment sc i r s a c)
  with assms(1-3) show ?thesis
    by (auto simp: entry_fits_draft find_by_key_None apply_plan_def idempotent_plan_def adjustment_draft_def
        Let_def elim!: adjustment_plan_cases)
qed (use assms planned_refund_fits in auto)

lemma released_ok: "ledger_ok n es \<Longrightarrow> ledger_ok n (released req es)"
  by (auto simp: released_def ledger_ok_release split: write_request.splits)

lemma released_fits: "entry_fits es e \<Longrightarrow> entry_fits (released req es) e"
  by (auto simp: released_def entry_fits_release split: write_request.splits)

lemma writer_ok_ids:
  "writer_ok w \<Longrightarrow> distinct (map ler_id (ws_entries (imw_state w)))"
  "writer_ok w \<Longrightarrow> \<forall>e \<in> set (ws_entries (imw_state w)). ler_id e \<noteq> 0"
  by (simp_all add: writer_ok_def ledger_ok_def)

lemma uuid_succ_gt: "n \<noteq> - 1 \<Longrightarrow> n < n + 1" for n :: uuid
proof -
  assume "n \<noteq> - 1"
  with word_succ_checked [of n] have "unat n + 1 < 2 ^ 128"
    by (simp add: word_checked_add_def split: if_splits)
  then show ?thesis by (simp add: word_less_nat_alt unat_word_ariths)
qed

lemma execute_writer_ok:
  assumes ok: "writer_ok w"
  shows "writer_ok (fst (execute_consistent_ledger_write fmt req w))"
proof -
  obtain w' x where ex: "execute_consistent_ledger_write fmt req w = (w', x)" by (rule prod.exhaust)
  have n: "imw_next_id w \<noteq> 0" "ledger_ok (imw_next_id w) (ws_entries (imw_state w))"
    using ok by (auto simp: writer_ok_def)
  have "writer_ok w'"
    using ex writer_ok_ids(1) [OF ok]
  proof (cases rule: execute_cases)
    case (applied p d)
    have "entry_fits (released req (ws_entries (imw_state w))) (record_of_draft (imw_next_id w) d)"
      using planned_entry_fits [OF applied(5,6,7) writer_ok_ids(2) [OF ok]] by (rule released_fits)
    then have "ledger_ok (imw_next_id w + 1)
        (released req (ws_entries (imw_state w)) @ [record_of_draft (imw_next_id w) d])"
      using n(1) uuid_succ_gt [OF applied(2)]
      by (intro ledger_ok_append [OF released_ok [OF n(2)]]) (simp_all add: record_of_draft_def)
    with uuid_succ_gt [OF applied(2)] show ?thesis
      by (auto simp: applied(9) writer_ok_def applied_writer_def intro: le_less_trans)
  next
    case exhausted
    with ok released_ok show ?thesis by (simp add: writer_ok_def)
  qed (use ok in auto)
  with ex show ?thesis by simp
qed

section \<open>The abstract wallet\<close>

text \<open>
  What the writer promises, without entries, keys or statuses: a balance, the amount held for each
  request, and what can still be refunded of each settled entry. A step either is refused or moves
  exact amounts between them.
\<close>

record wallet_spec =
  sp_balance :: int
  sp_hold :: "uuid \<Rightarrow> int"
  sp_refundable :: "uuid \<Rightarrow> int"

fun spec_step :: "write_request \<Rightarrow> uuid \<Rightarrow> wallet_spec \<Rightarrow> wallet_spec option" where
  "spec_step (CW_Reserve _ r amount _) n s =
     (if 0 < fd_units amount \<and> fd_units amount \<le> sp_balance s
      then Some (s\<lparr>sp_balance := sp_balance s - fd_units amount,
                   sp_hold := (sp_hold s)(r := sp_hold s r + fd_units amount)\<rparr>)
      else None)"
| "spec_step (CW_Settle _ r final_cost _) n s =
     (if 0 < fd_units final_cost
         \<and> (fd_units final_cost \<le> sp_hold s r \<or> fd_units final_cost - sp_hold s r \<le> sp_balance s)
      then Some (s\<lparr>sp_balance := sp_balance s + sp_hold s r - fd_units final_cost,
                   sp_hold := (sp_hold s)(r := 0),
                   sp_refundable := (sp_refundable s)(n := fd_units final_cost)\<rparr>)
      else None)"
| "spec_step (CW_RefundFull _ i _) n s =
     (if 0 < sp_refundable s i
      then Some (s\<lparr>sp_balance := sp_balance s + sp_refundable s i,
                   sp_refundable := (sp_refundable s)(i := 0)\<rparr>)
      else None)"
| "spec_step (CW_RefundPartial _ i _ amount _) n s =
     (if 0 < fd_units amount \<and> fd_units amount < sp_refundable s i
      then Some (s\<lparr>sp_balance := sp_balance s + fd_units amount,
                   sp_refundable := (sp_refundable s)(i := sp_refundable s i - fd_units amount)\<rparr>)
      else None)"
| "spec_step (CW_AdminAdjustment _ _ _ _ amount _) n s =
     (if fd_units amount \<noteq> 0 \<and> (0 \<le> fd_units amount \<or> - fd_units amount \<le> sp_balance s)
      then Some (s\<lparr>sp_balance := sp_balance s + fd_units amount\<rparr>)
      else None)"

definition refundable :: "ledger \<Rightarrow> uuid \<Rightarrow> int" where
  "refundable es i =
     (case find_refund_source es i of
        Inl _ \<Rightarrow> 0 | Inr s \<Rightarrow> - fd_units (ler_amount s) - refunded es i)"

definition abs_writer :: "in_memory_writer \<Rightarrow> wallet_spec" where
  "abs_writer w =
     \<lparr>sp_balance = available (imw_state w), sp_hold = held (ws_entries (imw_state w)),
      sp_refundable = refundable (ws_entries (imw_state w))\<rparr>"

lemma spec_step_solvent: "spec_step req n s = Some s' \<Longrightarrow> 0 \<le> sp_balance s \<Longrightarrow> 0 \<le> sp_balance s'"
  by (cases req) (auto split: if_splits)

lemma ledger_effect_append:
  "ledger_effect (es @ [e]) c = ledger_effect es c + (if counts_for c e then fd_units (ler_amount e) else 0)"
  by (simp add: ledger_effect_def)

lemma held_append:
  "held (es @ [e]) r = held es r - (if pending_reserve r e then fd_units (ler_amount e) else 0)"
  by (simp add: held_def)

lemma pending_reserve_release:
  "pending_reserve q (release r e) \<longleftrightarrow> pending_reserve q e \<and> q \<noteq> r"
  by (auto simp: release_def pending_reserve_def)

lemma held_release: "held (map (release r) es) = (held es)(r := 0)"
proof
  fix q
  have "sum_units (filter (pending_reserve q) (map (release r) es)) =
        (if q = r then 0 else sum_units (filter (pending_reserve q) es))"
    by (induction es) (auto simp: pending_reserve_release)
  then show "held (map (release r) es) q = ((held es)(r := 0)) q" by (simp add: held_def)
qed

lemma ledger_effect_release:
  assumes "\<forall>e \<in> set es. pending_reserve r e \<longrightarrow> ler_currency e = c"
  shows "ledger_effect (map (release r) es) c = ledger_effect es c + held es r"
  using assms
  by (induction es)
     (auto simp: ledger_effect_def held_def counts_for_def active_release, auto simp: pending_reserve_def active_status_def)

lemma find_release:
  "List.find (\<lambda>e. ler_id e = i) (map (release r) es) = map_option (release r) (List.find (\<lambda>e. ler_id e = i) es)"
  by (induction es) auto

lemma release_not_reserve: "ler_type e \<noteq> ET_Reserve \<Longrightarrow> release r e = e"
  by (simp add: release_def pending_reserve_def)

lemma refundable_release [simp]: "refundable (map (release r) es) = refundable es"
proof
  fix i
  show "refundable (map (release r) es) i = refundable es i"
  proof (cases "List.find (\<lambda>e. ler_id e = i) es")
    case (Some e)
    then show ?thesis
      by (cases "ler_type e = ET_Settle")
         (auto simp: refundable_def find_refund_source_def find_release release_not_reserve)
  qed (simp add: refundable_def find_refund_source_def find_release)
qed

lemma find_refund_source_append:
  assumes "\<forall>x \<in> set es. ler_id x \<noteq> ler_id e"
  shows "find_refund_source (es @ [e]) i =
         (if i = ler_id e
          then (if ler_type e \<noteq> ET_Settle \<or> ler_status e \<noteq> ES_Confirmed \<or> fd_units (ler_amount e) \<ge> 0
                then Inl (LE_RefundSourceNotConfirmedSettleDebit i) else Inr e)
          else find_refund_source es i)"
proof (cases "List.find (\<lambda>x. ler_id x = i) es")
  case None
  with assms show ?thesis
    by (auto simp: find_refund_source_def find_append)
next
  case (Some x)
  with assms have "i \<noteq> ler_id e" by (auto dest: find_SomeD)
  with Some show ?thesis by (simp add: find_refund_source_def find_append)
qed

lemma ledger_ok_fresh:
  assumes "ledger_ok n es"
  shows "\<forall>x \<in> set es. ler_id x \<noteq> n" and "refundable es n = 0" and "refunded es n = 0"
proof -
  show fresh: "\<forall>x \<in> set es. ler_id x \<noteq> n" using assms by (auto simp: ledger_ok_def)
  then have "List.find (\<lambda>e. ler_id e = n) es = None" by (auto simp: find_None_iff)
  then show "refundable es n = 0" by (simp add: refundable_def find_refund_source_def)
  show "refunded es n = 0"
  proof (rule refunded_unrelated, intro ballI impI notI)
    fix x assume "x \<in> set es" "ler_type x = ET_Refund" "ler_related x = Some n"
    with assms obtain y where "y \<in> set es" "ler_id y = n" by (auto simp: ledger_ok_def)
    with fresh show False by auto
  qed
qed

lemma refundable_append:
  assumes "ledger_ok n es" "ler_id e = n" "ler_type e \<noteq> ET_Refund"
  shows "refundable (es @ [e]) = (refundable es)(n :=
           if ler_type e = ET_Settle \<and> ler_status e = ES_Confirmed \<and> fd_units (ler_amount e) < 0
           then - fd_units (ler_amount e) else 0)"
  using ledger_ok_fresh [OF assms(1)] assms(2,3)
  by (auto simp: refundable_def find_refund_source_append fun_eq_iff split: sum.splits)

lemma refundable_refund:
  assumes "ledger_ok n es" "ler_id e = n" "ler_type e = ET_Refund" "active_status (ler_status e)"
    and "ler_related e = Some i" "find_refund_source es i = Inr s"
  shows "refundable (es @ [e]) = (refundable es)(i := refundable es i - fd_units (ler_amount e))"
proof
  fix j
  have "i \<noteq> n" using ledger_ok_fresh(1) [OF assms(1)] find_refund_source_eq_Inr [OF assms(6)] by auto
  then show "refundable (es @ [e]) j = ((refundable es)(i := refundable es i - fd_units (ler_amount e))) j"
    using ledger_ok_fresh [OF assms(1)] assms(2-6)
    by (auto simp: refundable_def find_refund_source_append split: sum.splits)
qed

lemma abs_applied:
  assumes "ws_wallet (imw_state w) = Some wl"
  shows "abs_writer (applied_writer w req d) =
     (let es' = released req (ws_entries (imw_state w)) @ [record_of_draft (imw_next_id w) d]
      in \<lparr>sp_balance = available (imw_state w) + ledger_effect es' (wal_currency wl)
                       - ledger_effect (ws_entries (imw_state w)) (wal_currency wl),
          sp_hold = held es', sp_refundable = refundable es'\<rparr>)"
  using assms by (simp add: abs_writer_def applied_writer_def available_def Let_def)

lemma remaining_is_refundable:
  assumes "find_refund_source es i = Inr s" "remaining_refundable_amount s es = Inr m"
    and "\<forall>e \<in> set es. ler_id e \<noteq> 0"
  shows "fd_units m = refundable es i"
  using assms find_refund_source_eq_Inr [OF assms(1)]
  unfolding remaining_refundable_amount_def remaining_excluding_eq_Inr refunded_no_nil [OF assms(3)]
  by (simp add: refundable_def)

lemma record_of_draft_simps [simp]:
  "ler_id (record_of_draft n d) = n" "ler_type (record_of_draft n d) = led_type d"
  "ler_amount (record_of_draft n d) = led_amount d" "ler_status (record_of_draft n d) = led_status d"
  "ler_related (record_of_draft n d) = led_related d" "ler_currency (record_of_draft n d) = led_currency d"
  "ler_request_id (record_of_draft n d) = led_request_id d" "ler_key (record_of_draft n d) = led_key d"
  by (simp_all add: record_of_draft_def)

text \<open>An entry that only moves the balance.\<close>

lemma abs_plain:
  assumes "writer_ok w" "ws_wallet (imw_state w) = Some wl" "\<And>es. released req es = es"
    and "led_type d = ET_Reserve \<or> led_type d = ET_Adjust" "led_currency d = wal_currency wl"
    and "active_status (led_status d)"
  shows "abs_writer (applied_writer w req d) =
     (abs_writer w)\<lparr>sp_balance := available (imw_state w) + fd_units (led_amount d),
       sp_hold := \<lambda>r. held (ws_entries (imw_state w)) r
         - (if pending_reserve r (record_of_draft (imw_next_id w) d) then fd_units (led_amount d) else 0)\<rparr>"
proof -
  have ok: "ledger_ok (imw_next_id w) (ws_entries (imw_state w))" using assms(1) by (simp add: writer_ok_def)
  have "refundable (ws_entries (imw_state w) @ [record_of_draft (imw_next_id w) d])
        = refundable (ws_entries (imw_state w))"
    using assms(4) ledger_ok_fresh(2) [OF ok] by (subst refundable_append [OF ok]) auto
  with assms(3,5,6) show ?thesis
    unfolding abs_applied [OF assms(2)] Let_def
    by (simp add: abs_writer_def ledger_effect_append held_append counts_for_def fun_eq_iff)
qed

lemma refine_reserve:
  assumes w: "writer_ok w" "ws_wallet (imw_state w) = Some wl" "wal_currency wl = c"
    and d: "plan_ledger_reserve fmt \<lparr>rlr_request_id = r, rlr_amount = a, rlr_currency = c\<rparr>
              (ws_entries (imw_state w)) = Inr lp" "lop_outcome lp = LO_Apply" "lop_entries lp = [d]"
    and guard: "fd_units a = 0 \<or> fd_units a \<le> available (imw_state w)"
  shows "spec_step (CW_Reserve sc r a c) n (abs_writer w) = Some (abs_writer (applied_writer w (CW_Reserve sc r a c) d))"
  using d(1)
proof (cases rule: reserve_plan_cases)
  case (fresh amount)
  then have dd: "d = reserve_draft fmt \<lparr>rlr_request_id = r, rlr_amount = a, rlr_currency = c\<rparr> amount"
    and am: "0 < fd_units a" "amount = FixedDecimal (- fd_units a) (fd_scale a)"
    using d(3) by (simp_all add: apply_plan_def debit_amount_eq_Inr)
  have pl: "led_type d = ET_Reserve \<or> led_type d = ET_Adjust" "led_currency d = wal_currency wl"
    "active_status (led_status d)"
    by (simp_all add: dd reserve_draft_def active_status_def w(3))
  have "\<And>es. released (CW_Reserve sc r a c) es = es" by (simp add: released_def)
  from abs_plain [OF w(1,2) this pl] am guard show ?thesis
    by (simp add: dd reserve_draft_def pending_reserve_def abs_writer_def [of w] fun_eq_iff)
qed (use d(2) in \<open>simp add: idempotent_plan_def\<close>)

lemma refine_adjustment:
  assumes w: "writer_ok w" "ws_wallet (imw_state w) = Some wl" "wal_currency wl = c"
    and d: "plan_ledger_admin_adjustment fmt \<lparr>aar_operation_id = i, aar_request_id = r, aar_related = s,
              aar_amount = a, aar_currency = c\<rparr> (ws_entries (imw_state w)) = Inr lp"
      "lop_outcome lp = LO_Apply" "lop_entries lp = [d]"
    and guard: "max 0 (- fd_units a) = 0 \<or> max 0 (- fd_units a) \<le> available (imw_state w)"
  shows "spec_step (CW_AdminAdjustment sc i r s a c) n (abs_writer w)
         = Some (abs_writer (applied_writer w (CW_AdminAdjustment sc i r s a c) d))"
  using d(1)
proof (cases rule: adjustment_plan_cases)
  case fresh
  then have dd: "d = adjustment_draft fmt \<lparr>aar_operation_id = i, aar_request_id = r, aar_related = s,
              aar_amount = a, aar_currency = c\<rparr>" and nz: "fd_units a \<noteq> 0"
    using d(3) by (simp_all add: apply_plan_def)
  have pl: "led_type d = ET_Reserve \<or> led_type d = ET_Adjust" "led_currency d = wal_currency wl"
    "active_status (led_status d)"
    by (simp_all add: dd adjustment_draft_def Let_def active_status_def w(3))
  have "\<And>es. released (CW_AdminAdjustment sc i r s a c) es = es" by (simp add: released_def)
  from abs_plain [OF w(1,2) this pl] nz guard show ?thesis
    by (auto simp: dd adjustment_draft_def Let_def pending_reserve_def abs_writer_def [of w] fun_eq_iff)
qed (use d(2) in \<open>simp add: idempotent_plan_def\<close>)

lemma refine_settle:
  assumes w: "writer_ok w" "ws_wallet (imw_state w) = Some wl" "wal_currency wl = c"
    and d: "plan_ledger_settle fmt \<lparr>slr_request_id = r, slr_final_cost = f, slr_currency = c\<rparr>
              (ws_entries (imw_state w)) = Inr lp" "lop_outcome lp = LO_Apply" "lop_entries lp = [d]"
    and guard: "max 0 (fd_units f - held (ws_entries (imw_state w)) r) = 0
                \<or> max 0 (fd_units f - held (ws_entries (imw_state w)) r) \<le> available (imw_state w)"
  shows "spec_step (CW_Settle sc r f c) (imw_next_id w) (abs_writer w)
         = Some (abs_writer (applied_writer w (CW_Settle sc r f c) d))"
  using d(1) [unfolded plan_ledger_settle_def]
proof (cases rule: settle_plan_cases)
  case (fresh amount)
  let ?es = "ws_entries (imw_state w)"
  let ?e = "record_of_draft (imw_next_id w) d"
  have dd: "d = settle_draft fmt \<lparr>slr_request_id = r, slr_final_cost = f, slr_currency = c\<rparr> amount
                  (metadata_settle r)"
    and am: "0 < fd_units f" "amount = FixedDecimal (- fd_units f) (fd_scale f)"
    using d(3) fresh by (simp_all add: debit_amount_eq_Inr)
  have e: "ler_type ?e = ET_Settle" "ler_status ?e = ES_Confirmed" "fd_units (ler_amount ?e) = - fd_units f"
    "counts_for c ?e" "\<not> pending_reserve q ?e" for q
    by (simp_all add: dd settle_draft_def am counts_for_def active_status_def pending_reserve_def)
  have ok: "ledger_ok (imw_next_id w) (map (release r) ?es)"
    using w(1) ledger_ok_release by (simp add: writer_ok_def)
  have "ledger_effect (map (release r) ?es @ [?e]) c = ledger_effect ?es c + held ?es r - fd_units f"
    using fresh(5) e by (simp add: ledger_effect_append ledger_effect_release)
  moreover have "held (map (release r) ?es @ [?e]) = (held ?es)(r := 0)"
    by (simp add: held_append held_release e fun_eq_iff)
  moreover have "refundable (map (release r) ?es @ [?e]) = (refundable ?es)(imw_next_id w := fd_units f)"
    using e am by (subst refundable_append [OF ok]) simp_all
  ultimately show ?thesis
    using am guard w(3) unfolding abs_applied [OF w(2)] Let_def
    by (auto simp: abs_writer_def released_def max_def split: if_splits)
qed (use d(2) in \<open>simp add: idempotent_plan_def\<close>)

lemma refine_refund:
  assumes w: "writer_ok w" "ws_wallet (imw_state w) = Some wl" "\<And>es. released req es = es"
    and r: "find_refund_source (ws_entries (imw_state w)) i = Inr source" "ler_currency source = wal_currency wl"
    and d: "d = refund_draft source m amount"
  shows "abs_writer (applied_writer w req d) =
     (abs_writer w)\<lparr>sp_balance := available (imw_state w) + fd_units amount,
        sp_refundable := (refundable (ws_entries (imw_state w)))
           (i := refundable (ws_entries (imw_state w)) i - fd_units amount)\<rparr>"
proof -
  let ?es = "ws_entries (imw_state w)" and ?e = "record_of_draft (imw_next_id w) d"
  have ok: "ledger_ok (imw_next_id w) ?es" using w(1) by (simp add: writer_ok_def)
  have e: "ler_type ?e = ET_Refund" "active_status (ler_status ?e)" "ler_related ?e = Some i"
    "ler_amount ?e = amount" "counts_for (wal_currency wl) ?e" "\<not> pending_reserve q ?e" for q
    using find_refund_source_eq_Inr [OF r(1)] r(2)
    by (simp_all add: d refund_draft_def active_status_def counts_for_def pending_reserve_def)
  have "refundable (?es @ [?e]) = (refundable ?es)(i := refundable ?es i - fd_units amount)"
    using refundable_refund [OF ok _ e(1-3) r(1)] e(4) by simp
  moreover have "held (?es @ [?e]) = held ?es" by (simp add: held_append e fun_eq_iff)
  moreover have "ledger_effect (?es @ [?e]) (wal_currency wl) = ledger_effect ?es (wal_currency wl) + fd_units amount"
    using e by (simp add: ledger_effect_append)
  ultimately show ?thesis
    unfolding abs_applied [OF w(2)] Let_def w(3) by (simp add: abs_writer_def [of w])
qed

lemma refine_refund_full:
  assumes w: "writer_ok w" "ws_wallet (imw_state w) = Some wl" "wal_currency wl = c"
    and d: "plan_ledger_refund fmt (RefundFull i c None) (ws_entries (imw_state w)) = Inr lp"
      "lop_outcome lp = LO_Apply" "lop_entries lp = [d]"
  shows "spec_step (CW_RefundFull sc i c) n (abs_writer w) = Some (abs_writer (applied_writer w (CW_RefundFull sc i c) d))"
  using d(1)
proof (cases rule: refund_plan_cases)
  case (fresh m source remaining amount)
  have m: "nrr_related m = i" "nrr_currency m = c" "nrr_kind m = RK_Full"
    using fresh(1) by (auto simp: normalize_refund_request_def)
  have dd: "d = refund_draft source m amount" using d(3) fresh(10) by (simp add: apply_plan_def)
  have am: "amount = remaining" using fresh(7) m(3) by (simp add: refund_amount_def)
  have "fd_units remaining = refundable (ws_entries (imw_state w)) i"
    using fresh(3,6) m(1) writer_ok_ids(2) [OF w(1)] by (intro remaining_is_refundable) simp_all
  moreover have "abs_writer (applied_writer w (CW_RefundFull sc i c) d) =
     (abs_writer w)\<lparr>sp_balance := available (imw_state w) + fd_units amount,
        sp_refundable := (refundable (ws_entries (imw_state w)))
           (i := refundable (ws_entries (imw_state w)) i - fd_units amount)\<rparr>"
    using fresh(3,4) m w(3) dd by (intro refine_refund [OF w(1,2)]) (simp_all add: released_def)
  ultimately show ?thesis
    using am fresh(8) by (simp add: abs_writer_def [of w])
qed (use d(2) in \<open>simp add: idempotent_plan_def\<close>)

lemma refine_refund_partial:
  assumes w: "writer_ok w" "ws_wallet (imw_state w) = Some wl" "wal_currency wl = c"
    and d: "plan_ledger_refund fmt (RefundPartial i (Some k) (Some a) c) (ws_entries (imw_state w)) = Inr lp"
      "lop_outcome lp = LO_Apply" "lop_entries lp = [d]"
  shows "spec_step (CW_RefundPartial sc i k a c) n (abs_writer w)
         = Some (abs_writer (applied_writer w (CW_RefundPartial sc i k a c) d))"
  using d(1)
proof (cases rule: refund_plan_cases)
  case (fresh m source remaining amount)
  have m: "nrr_related m = i" "nrr_currency m = c" "nrr_kind m = RK_Partial" "nrr_amount m = Some a"
    using fresh(1) by (auto simp: normalize_refund_request_def)
  have dd: "d = refund_draft source m amount" using d(3) fresh(10) by (simp add: apply_plan_def)
  have am: "amount = a" "fd_scale remaining = fd_scale a" "a < remaining"
    using fresh(7) m(3,4) by (auto simp: refund_amount_def result_simps)
  have "fd_units remaining = refundable (ws_entries (imw_state w)) i"
    using fresh(3,6) m(1) writer_ok_ids(2) [OF w(1)] by (intro remaining_is_refundable) simp_all
  moreover have "abs_writer (applied_writer w (CW_RefundPartial sc i k a c) d) =
     (abs_writer w)\<lparr>sp_balance := available (imw_state w) + fd_units amount,
        sp_refundable := (refundable (ws_entries (imw_state w)))
           (i := refundable (ws_entries (imw_state w)) i - fd_units amount)\<rparr>"
    using fresh(3,4) m w(3) dd by (intro refine_refund [OF w(1,2)]) (simp_all add: released_def)
  ultimately show ?thesis
    using am fresh(8) by (simp add: abs_writer_def [of w] less_fixed_decimal_def)
qed (use d(2) in \<open>simp add: idempotent_plan_def\<close>)

lemma applied_refines:
  assumes ok: "writer_ok w" and p: "plan_consistent_ledger_write fmt req (imw_state w) = Inr p"
    "wp_outcome p = LO_Apply" and d: "lop_entries (wp_ledger_plan p) = [d]"
  shows "spec_step req (imw_next_id w) (abs_writer w) = Some (abs_writer (applied_writer w req d))"
proof -
  obtain wl where wl: "ws_wallet (imw_state w) = Some wl" "wal_currency wl = cw_currency req"
    and lp: "plan_inner_ledger_write fmt req (ws_entries (imw_state w)) = Inr (wp_ledger_plan p)"
      "lop_outcome (wp_ledger_plan p) = LO_Apply"
    and guard: "debit_of req (imw_state w) = 0 \<or> debit_of req (imw_state w) \<le> available (imw_state w)"
    using p by (rule plan_consistent_apply)
  show ?thesis
  proof (cases req)
    case (CW_Reserve sc r a c)
    with wl lp guard show ?thesis
      unfolding CW_Reserve by (intro refine_reserve [OF ok wl(1) _ _ lp(2) d]) simp_all
  next
    case (CW_Settle sc r a c)
    with wl lp guard show ?thesis
      unfolding CW_Settle by (intro refine_settle [OF ok wl(1) _ _ lp(2) d]) simp_all
  next
    case (CW_RefundFull sc i c)
    with wl lp show ?thesis
      unfolding CW_RefundFull by (intro refine_refund_full [OF ok wl(1) _ _ lp(2) d]) simp_all
  next
    case (CW_RefundPartial sc i k a c)
    with wl lp show ?thesis
      unfolding CW_RefundPartial by (intro refine_refund_partial [OF ok wl(1) _ _ lp(2) d]) simp_all
  next
    case (CW_AdminAdjustment sc i r s a c)
    with wl lp guard show ?thesis
      unfolding CW_AdminAdjustment by (intro refine_adjustment [OF ok wl(1) _ _ lp(2) d]) simp_all
  qed
qed

section \<open>Runs of the executor\<close>

inductive writer_reaches :: "(uuid \<Rightarrow> string) \<Rightarrow> in_memory_writer \<Rightarrow> in_memory_writer \<Rightarrow> bool"
  for fmt w0 where
  start: "writer_reaches fmt w0 w0"
| step: "writer_reaches fmt w0 w \<Longrightarrow>
         writer_reaches fmt w0 (fst (execute_consistent_ledger_write fmt req w))"

lemma reaches_ok: "writer_reaches fmt w0 w \<Longrightarrow> writer_ok w0 \<Longrightarrow> writer_ok w"
  by (induction rule: writer_reaches.induct) (auto intro: execute_writer_ok)

lemma held_nonneg: "ledger_ok n es \<Longrightarrow> 0 \<le> held es r"
proof -
  assume "ledger_ok n es"
  then have "\<forall>e \<in> set es. pending_reserve r e \<longrightarrow> fd_units (ler_amount e) < 0"
    by (auto simp: ledger_ok_def pending_reserve_def)
  then have "sum_units (filter (pending_reserve r) es) \<le> 0" by (induction es) auto
  then show ?thesis by (simp add: held_def)
qed

lemma released_available:
  assumes "plan_inner_ledger_write fmt req es = Inr lp" "lop_outcome lp = LO_Apply" "ledger_ok n es"
  shows "ledger_effect es (cw_currency req) \<le> ledger_effect (released req es) (cw_currency req)"
proof (cases req)
  case (CW_Settle sc r f c)
  have "\<forall>e \<in> set es. pending_reserve r e \<longrightarrow> ler_currency e = c"
    using assms(1,2) CW_Settle
    by (auto simp: plan_ledger_settle_def idempotent_plan_def elim!: settle_plan_cases)
  with CW_Settle held_nonneg [OF assms(3), of r] show ?thesis
    by (simp add: released_def ledger_effect_release)
qed (simp_all add: released_def)

lemma execute_solvent:
  assumes ok: "writer_ok w" and pos: "0 \<le> available (imw_state w)"
  shows "0 \<le> available (imw_state (fst (execute_consistent_ledger_write fmt req w)))"
proof -
  obtain w' x where ex: "execute_consistent_ledger_write fmt req w = (w', x)" by (rule prod.exhaust)
  have "0 \<le> available (imw_state w')"
    using ex writer_ok_ids(1) [OF ok]
  proof (cases rule: execute_cases)
    case (applied p d)
    from spec_step_solvent [OF applied_refines [OF ok applied(3,4,7)]] pos applied(9) show ?thesis
      by (simp add: abs_writer_def)
  next
    case (exhausted p)
    obtain wl where wl: "ws_wallet (imw_state w) = Some wl" "wal_currency wl = cw_currency req"
      and lp: "plan_inner_ledger_write fmt req (ws_entries (imw_state w)) = Inr (wp_ledger_plan p)"
        "lop_outcome (wp_ledger_plan p) = LO_Apply"
      using exhausted(3,4) by (rule plan_consistent_apply)
    from released_available [OF lp] ok wl pos show ?thesis
      by (auto simp: exhausted(5) available_def writer_ok_def intro: order_trans)
  qed (use pos in auto)
  with ex show ?thesis by simp
qed

section \<open>Properties of the writer\<close>

text \<open>A concrete writer: a wallet with 100 units, no grants, one tenant budget of 1000 units.\<close>

definition sample_writer :: in_memory_writer where
  "sample_writer =
     \<lparr>imw_state = \<lparr>ws_wallet = Some \<lparr>wal_id = 1, wal_currency = ''USD'', wal_available = FixedDecimal 100 8\<rparr>,
        ws_grants = [],
        ws_budgets = [\<lparr>bud_id = 2, bud_dimension = BD_Tenant, bud_currency = ''USD'',
                       bud_remaining = FixedDecimal 1000 8, bud_active = True\<rparr>],
        ws_entries = []\<rparr>, imw_next_id = 10\<rparr>"

definition sample_scope :: ledger_scope where
  "sample_scope = \<lparr>sc_tenant_id = 3, sc_project_id = None, sc_virtual_key_id = None\<rparr>"

definition sample_reserve :: write_request where
  "sample_reserve = CW_Reserve sample_scope 7 (FixedDecimal 40 8) ''USD''"

definition sample_fmt :: "uuid \<Rightarrow> string" where
  "sample_fmt u = show_nat (unat u)"

lemmas writer_eval =
  sample_writer_def sample_reserve_def sample_scope_def sample_fmt_def
  execute_consistent_ledger_write_def plan_consistent_ledger_write_def plan_ledger_reserve_def
  ledger_validate_currency_def currency_ok_def is_ascii_uppercase_def byte_of_def debit_amount_def
  require_positive_def ledger_checked_neg_def i128_checked_neg_def check_i128_def in_i128_def i128_min_def
  i128_max_def from_units_def validate_scale_def MAX_MONEY_SCALE_def reserve_ledger_idempotency_key_def
  find_by_idempotency_key_def find_active_settle_for_request_def find_active_reserve_for_request_def
  apply_plan_def is_idempotent_def refund_credit_for_plan_def writer_zero_def fd_zero_def
  reserve_draft_def balance_window_def active_credit_grant_total_def active_ledger_effect_def
  writer_checked_add_def writer_ensure_same_scale_def fd_checked_add_def i128_checked_add_def
  writer_checked_subtract_def i128_checked_sub_def wallet_check_def fd_is_zero_def less_eq_fixed_decimal_def
  budget_checks_def apply_ledger_plan_def take_next_ledger_entry_id_def word_checked_add_def
  set_entries_def record_of_draft_def counts_for_def active_status_def Let_def

lemma sample_execution:
  "ce_outcome (snd (execute_consistent_ledger_write sample_fmt sample_reserve sample_writer)) = EO_Applied"
  by (simp add: writer_eval)

text \<open>C1. The executor refines the abstract wallet. From a well-formed state, an applied write is the
  abstract step on the same request, exactly: a reserve moves its amount from the balance to the hold of
  its request; a settle gives back the hold, takes the final cost and makes it refundable under the new
  entry's id; a refund moves what it returns from the refundable amount to the balance; an adjustment changes the
  balance only; and the step's guard (enough balance, enough refundable) held. Any other outcome
  leaves the writer as it was, except when the entry ids are used up.\<close>

theorem writer_refines_wallet:
  assumes "writer_ok w" "execute_consistent_ledger_write fmt req w = (w', x)"
  shows "case ce_outcome x of
           EO_Applied \<Rightarrow> spec_step req (imw_next_id w) (abs_writer w) = Some (abs_writer w')
         | EO_Idempotent \<Rightarrow> w' = w
         | EO_Rejected \<Rightarrow> w' = w \<or> imw_next_id w = - 1"
  using assms(2) writer_ok_ids(1) [OF assms(1)]
proof (cases rule: execute_cases)
  case (applied p d)
  with applied_refines [OF assms(1) applied(3,4,7)] show ?thesis by simp
qed simp_all

lemma sample_writer_ok: "writer_ok sample_writer"
  by (simp add: writer_ok_def sample_writer_def ledger_ok_def)

theorem writer_refines_wallet_witness:
  "spec_step sample_reserve 10 (abs_writer sample_writer)
     = Some (abs_writer (fst (execute_consistent_ledger_write sample_fmt sample_reserve sample_writer)))"
  using writer_refines_wallet [of sample_writer sample_fmt sample_reserve, OF sample_writer_ok
      prod.collapse [symmetric]] sample_execution
  by (simp add: sample_writer_def)

text \<open>C2. The wallet is never overdrawn: starting from a well-formed state whose available balance
  (wallet, plus active grants, plus the pending and confirmed entries) is not negative, no sequence of
  writes, applied, replayed or rejected, makes it negative.\<close>

theorem wallet_never_overdrawn:
  assumes "writer_reaches fmt w0 w" "writer_ok w0" "0 \<le> available (imw_state w0)"
  shows "0 \<le> available (imw_state w)"
  using assms
  by (induction rule: writer_reaches.induct) (auto intro: execute_solvent reaches_ok)

theorem wallet_never_overdrawn_witness:
  "0 \<le> available (imw_state (fst (execute_consistent_ledger_write sample_fmt sample_reserve sample_writer)))"
proof (rule wallet_never_overdrawn [OF writer_reaches.step [OF writer_reaches.start] sample_writer_ok])
  show "0 \<le> available (imw_state sample_writer)"
    by (simp add: available_def sample_writer_def grant_total_def ledger_effect_def)
qed

text \<open>C4. In every state the writer reaches, the ledger keeps the constraints its lock plan names: no
  two entries share an idempotency key, a request has at most one active reserve and at most one active settle,
  and the active refunds of a settled entry never exceed its debit.\<close>

theorem ledger_constraints_hold:
  assumes "writer_reaches fmt w0 w" "writer_ok w0"
  shows "distinct (map ler_key (ws_entries (imw_state w)))
    \<and> (\<forall>r. length (filter (active_for ET_Reserve r) (ws_entries (imw_state w))) \<le> 1)
    \<and> (\<forall>r. length (filter (active_for ET_Settle r) (ws_entries (imw_state w))) \<le> 1)
    \<and> (\<forall>s \<in> set (ws_entries (imw_state w)). ler_type s = ET_Settle \<longrightarrow>
          refunded (ws_entries (imw_state w)) (ler_id s) \<le> max 0 (- fd_units (ler_amount s)))"
  using reaches_ok [OF assms] by (simp add: writer_ok_def ledger_ok_def)

theorem ledger_constraints_hold_witness:
  "distinct (map ler_key (ws_entries (imw_state
     (fst (execute_consistent_ledger_write sample_fmt sample_reserve sample_writer)))))"
  using ledger_constraints_hold [of sample_fmt sample_writer, OF writer_reaches.step [OF writer_reaches.start]
      sample_writer_ok, of sample_reserve]
  by simp

lemma set_keys_released: "ler_key ` set (released req es) = ler_key ` set es"
  by (auto simp: released_def image_image split: write_request.splits)

lemma execute_keeps_keys:
  assumes "writer_ok w"
  shows "ler_key ` set (ws_entries (imw_state w))
         \<subseteq> ler_key ` set (ws_entries (imw_state (fst (execute_consistent_ledger_write fmt req w))))"
proof -
  obtain w' x where ex: "execute_consistent_ledger_write fmt req w = (w', x)" by (rule prod.exhaust)
  show ?thesis
    using ex writer_ok_ids(1) [OF assms]
    by (cases rule: execute_cases) (auto simp: ex applied_writer_def set_keys_released)
qed

lemma reaches_keeps_keys:
  assumes "writer_reaches fmt w0 w" "writer_ok w0"
  shows "ler_key ` set (ws_entries (imw_state w0)) \<subseteq> ler_key ` set (ws_entries (imw_state w))"
  using assms
proof (induction rule: writer_reaches.induct)
  case (step w req)
  then show ?case using execute_keeps_keys [OF reaches_ok [OF step.hyps step.prems], of fmt req] by blast
qed simp

lemma used_key_never_applies:
  assumes "writer_ok w" "cw_key fmt req \<in> ler_key ` set (ws_entries (imw_state w))"
  shows "fst (execute_consistent_ledger_write fmt req w) = w"
proof -
  obtain w' x where ex: "execute_consistent_ledger_write fmt req w = (w', x)" by (rule prod.exhaust)
  have no: "lop_outcome (wp_ledger_plan p) \<noteq> LO_Apply"
    if "plan_inner_ledger_write fmt req (ws_entries (imw_state w)) = Inr (wp_ledger_plan p)" for p
    using inner_planner.applies_iff_new_key [OF that] assms(2) by auto
  have "w' = w"
    using ex writer_ok_ids(1) [OF assms(1)]
  proof (cases rule: execute_cases)
    case (exhausted p)
    obtain wl where "plan_inner_ledger_write fmt req (ws_entries (imw_state w)) = Inr (wp_ledger_plan p)"
        "lop_outcome (wp_ledger_plan p) = LO_Apply"
      using exhausted(3,4) by (rule plan_consistent_apply)
    with no show ?thesis by blast
  qed (use no in auto)
  with ex show ?thesis by simp
qed

text \<open>C3. A write takes effect at most once. Once a request has been applied, executing it again
  changes nothing, immediately or after any further writes: a retried reserve, settle, refund or adjustment is never
  charged or credited a second time.\<close>

theorem write_applies_at_most_once:
  assumes "writer_ok w" "execute_consistent_ledger_write fmt req w = (w', x)" "ce_outcome x = EO_Applied"
    and "writer_reaches fmt w' w''"
  shows "fst (execute_consistent_ledger_write fmt req w'') = w''"
proof -
  have ok: "writer_ok w'" using execute_writer_ok [OF assms(1), of fmt req] assms(2) by simp
  have "cw_key fmt req \<in> ler_key ` set (ws_entries (imw_state w'))"
    using assms(2) writer_ok_ids(1) [OF assms(1)]
    by (cases rule: execute_cases) (use assms(3) in \<open>auto simp: applied_writer_def\<close>)
  with reaches_keeps_keys [OF assms(4) ok] show ?thesis
    by (intro used_key_never_applies reaches_ok [OF assms(4) ok]) auto
qed

theorem write_applies_at_most_once_witness:
  "let w' = fst (execute_consistent_ledger_write sample_fmt sample_reserve sample_writer)
   in fst (execute_consistent_ledger_write sample_fmt sample_reserve w') = w'"
  using write_applies_at_most_once [OF sample_writer_ok prod.collapse [symmetric] sample_execution
      writer_reaches.start]
  by (simp add: Let_def)

section \<open>Replays\<close>

lemma find_key_append:
  assumes "\<forall>x \<in> set es. ler_key x \<noteq> k" "ler_key e = k"
  shows "find_by_idempotency_key (es @ [e]) k = Some e"
proof -
  have "List.find (\<lambda>x. ler_key x = k) es = None" using assms(1) by (auto simp: find_None_iff)
  with assms(2) show ?thesis by (simp add: find_by_idempotency_key_def find_append)
qed

lemma ensure_matches_own_draft: "ensure_existing_matches_draft (record_of_draft n d) d = Inr ()"
  by (simp add: ensure_existing_matches_draft_def)

lemma remaining_excluding_new:
  assumes "ledger_ok n es" "remaining_refundable_amount s es = Inr m" "ler_id e = n"
  shows "remaining_refundable_amount_excluding s (es @ [e]) n = Inr m"
proof -
  have "filter (active_refund_of (ler_id s) n) (es @ [e]) = filter (active_refund_of (ler_id s) 0) es"
    using assms(1,3) by (auto simp: active_refund_of_def ledger_ok_def intro!: filter_cong)
  with assms(2) show ?thesis
    by (simp add: remaining_refundable_amount_def remaining_refundable_amount_excluding_def)
qed

lemma replay_refund:
  assumes ok: "ledger_ok n es" and p: "plan_ledger_refund fmt r es = Inr lp" "lop_outcome lp = LO_Apply"
    "lop_entries lp = [d]"
  shows "plan_ledger_refund fmt r (es @ [record_of_draft n d])
         = Inr (idempotent_plan (lop_operation lp) (lop_key lp) n)"
  using p(1)
proof (cases rule: refund_plan_cases)
  case (fresh m source remaining amount)
  let ?es = "es @ [record_of_draft n d]"
  have dd: "d = refund_draft source m amount" and lp: "lop_operation lp = nrr_operation m" "lop_key lp = nrr_key m"
    using p(3) fresh(10) by (simp_all add: apply_plan_def)
  have "nrr_related m \<noteq> n"
    using find_refund_source_eq_Inr [OF fresh(3)] ledger_ok_fresh(1) [OF ok] by auto
  then have "find_refund_source ?es (nrr_related m) = Inr source"
    using ledger_ok_fresh(1) [OF ok] fresh(3) by (simp add: find_refund_source_append)
  moreover have "find_by_idempotency_key ?es (nrr_key m) = Some (record_of_draft n d)"
    using fresh(5) by (intro find_key_append) (simp_all add: find_by_key_None dd)
  moreover have "remaining_refundable_amount_excluding source ?es n = Inr remaining"
    by (rule remaining_excluding_new [OF ok fresh(6)]) simp
  moreover have "ensure_existing_matches_refund (record_of_draft n d) m remaining = Inr ()"
    using fresh(1,4,7,8) find_refund_source_eq_Inr [OF fresh(3)]
    by (cases r) (auto simp: ensure_existing_matches_refund_def dd refund_draft_def Let_def refund_amount_def
        normalize_refund_request_def result_simps split: if_splits)
  ultimately show ?thesis
    using fresh(1,2,4) lp by (simp add: plan_ledger_refund_def ledger_validate_currency_def)
qed (use p(2) in \<open>simp add: idempotent_plan_def\<close>)

lemma reserve_known:
  assumes "plan_ledger_reserve fmt r es = Inr lp" "lop_outcome lp = LO_Apply" "lop_entries lp = [d]"
    and "find_by_idempotency_key es' (led_key d) = Some (record_of_draft n d)"
  shows "plan_ledger_reserve fmt r es' = Inr (idempotent_plan LO_Reserve (led_key d) n)"
  using assms(1)
proof (cases rule: reserve_plan_cases)
  case (fresh amount)
  then have "d = reserve_draft fmt r amount" using assms(3) by (simp add: apply_plan_def)
  with fresh(1,2) assms(4) ensure_matches_own_draft [of n d] show ?thesis
    by (simp add: plan_ledger_reserve_def ledger_validate_currency_def Let_def)
qed (use assms(2) in \<open>simp add: idempotent_plan_def\<close>)

lemma settle_known:
  assumes "plan_ledger_settle fmt r es = Inr lp" "lop_outcome lp = LO_Apply" "lop_entries lp = [d]"
    and "find_by_idempotency_key es' (led_key d) = Some (record_of_draft n d)"
  shows "plan_ledger_settle fmt r es' = Inr (idempotent_plan LO_Settle (led_key d) n)"
  using assms(1) [unfolded plan_ledger_settle_def]
proof (cases rule: settle_plan_cases)
  case (fresh amount)
  then have "d = settle_draft fmt r amount (metadata_settle (slr_request_id r))" using assms(3) by simp
  with fresh(1,2) assms(4) ensure_matches_own_draft [of n d] show ?thesis
    by (simp add: plan_ledger_settle_def plan_ledger_settle_with_metadata_def ledger_validate_currency_def Let_def)
qed (use assms(2) in \<open>simp add: idempotent_plan_def\<close>)

lemma adjustment_known:
  assumes "plan_ledger_admin_adjustment fmt r es = Inr lp" "lop_outcome lp = LO_Apply" "lop_entries lp = [d]"
    and "find_by_idempotency_key es' (led_key d) = Some (record_of_draft n d)"
  shows "plan_ledger_admin_adjustment fmt r es' = Inr (idempotent_plan LO_AdminAdjustment (led_key d) n)"
  using assms(1)
proof (cases rule: adjustment_plan_cases)
  case fresh
  then have "d = adjustment_draft fmt r" using assms(3) by (simp add: apply_plan_def)
  with fresh(1,2) assms(4) ensure_matches_own_draft [of n d] show ?thesis
    by (simp add: plan_ledger_admin_adjustment_def ledger_validate_currency_def fd_is_zero_def Let_def)
qed (use assms(2) in \<open>simp add: idempotent_plan_def\<close>)

lemma inner_plan_operation: "plan_inner_ledger_write fmt req es = Inr lp \<Longrightarrow> lop_operation lp = cw_operation req"
  by (cases req)
     (auto simp: plan_ledger_settle_def apply_plan_def idempotent_plan_def normalize_refund_request_def
        elim!: reserve_plan_cases settle_plan_cases refund_plan_cases adjustment_plan_cases)

lemma replay_inner:
  assumes ok: "ledger_ok n es" and p: "plan_inner_ledger_write fmt req es = Inr lp" "lop_outcome lp = LO_Apply"
    "lop_entries lp = [d]"
  shows "plan_inner_ledger_write fmt req (released req es @ [record_of_draft n d])
         = Inr (idempotent_plan (cw_operation req) (cw_key fmt req) n)"
proof -
  let ?es = "released req es @ [record_of_draft n d]"
  have key: "led_key d = cw_key fmt req" "\<forall>x \<in> set es. ler_key x \<noteq> cw_key fmt req"
    using inner_plan_contract [OF p(1)] p(2,3) by (auto simp: plan_contract_def)
  then have "\<forall>x \<in> set (released req es). ler_key x \<noteq> cw_key fmt req"
    using set_keys_released [of req es] by (metis image_iff)
  then have found: "find_by_idempotency_key ?es (cw_key fmt req) = Some (record_of_draft n d)"
    using key(1) by (intro find_key_append) simp_all
  show ?thesis
  proof (cases req)
    case (CW_RefundFull sc i c)
    with replay_refund [OF ok _ p(2,3)] p(1) inner_plan_operation [OF p(1)] inner_plan_contract [OF p(1)] show ?thesis
      by (simp add: released_def)
  next
    case (CW_RefundPartial sc i k a c)
    with replay_refund [OF ok _ p(2,3)] p(1) inner_plan_operation [OF p(1)] inner_plan_contract [OF p(1)] show ?thesis
      by (simp add: released_def)
  next
    case (CW_Reserve sc r a c)
    with p(1) reserve_known [OF _ p(2,3), of fmt _ es ?es n] found key(1) show ?thesis by simp
  next
    case (CW_Settle sc r f c)
    with p(1) settle_known [OF _ p(2,3), of fmt _ es ?es n] found key(1) show ?thesis by simp
  next
    case (CW_AdminAdjustment sc i r s a c)
    with p(1) adjustment_known [OF _ p(2,3), of fmt _ es ?es n] found key(1) show ?thesis by simp
  qed
qed

text \<open>A retry is recognised: after a write has been applied, planning the same request on the new
  ledger is not an error and not a second entry but the idempotent plan that names the entry the
  first execution wrote, for every kind of request, full refunds included.\<close>

theorem retry_is_idempotent:
  assumes "writer_ok w" "execute_consistent_ledger_write fmt req w = (w', x)" "ce_outcome x = EO_Applied"
  shows "plan_inner_ledger_write fmt req (ws_entries (imw_state w'))
         = Inr (idempotent_plan (cw_operation req) (cw_key fmt req) (imw_next_id w))"
  using assms(2) writer_ok_ids(1) [OF assms(1)]
proof (cases rule: execute_cases)
  case (applied p d)
  have "ledger_ok (imw_next_id w) (ws_entries (imw_state w))" using assms(1) by (simp add: writer_ok_def)
  from replay_inner [OF this applied(5-7)] applied(9) show ?thesis by (simp add: applied_writer_def)
qed (use assms(3) in simp_all)

theorem retry_is_idempotent_witness:
  "plan_inner_ledger_write sample_fmt sample_reserve
     (ws_entries (imw_state (fst (execute_consistent_ledger_write sample_fmt sample_reserve sample_writer))))
   = Inr (idempotent_plan LO_Reserve (''reserve:'' @ show_nat 7) 10)"
  using retry_is_idempotent [OF sample_writer_ok prod.collapse [symmetric] sample_execution]
  by (simp add: sample_reserve_def sample_fmt_def sample_writer_def reserve_ledger_idempotency_key_def)

section \<open>Budgets and commands\<close>

text \<open>An applied write is within every budget: each active budget in the wallet's currency had at
  least the debit the write takes (for a settle, its cost beyond what was held).\<close>

theorem applied_write_within_budgets:
  assumes "writer_ok w" "execute_consistent_ledger_write fmt req w = (w', x)" "ce_outcome x = EO_Applied"
    and "b \<in> set (ws_budgets (imw_state w))" "bud_active b" "bud_currency b = cw_currency req"
  shows "debit_of req (imw_state w) \<le> fd_units (bud_remaining b)"
  using assms(2) writer_ok_ids(1) [OF assms(1)]
proof (cases rule: execute_cases)
  case (applied p d)
  then show ?thesis using assms(4-6) by (elim plan_consistent_apply) blast+
qed (use assms(3) in simp_all)

theorem applied_write_within_budgets_witness:
  "debit_of sample_reserve (imw_state sample_writer) \<le> 1000"
proof -
  let ?b = "hd (ws_budgets (imw_state sample_writer))"
  have "?b \<in> set (ws_budgets (imw_state sample_writer))" "bud_active ?b" "bud_currency ?b = cw_currency sample_reserve"
    by (simp_all add: sample_writer_def sample_reserve_def)
  from applied_write_within_budgets [OF sample_writer_ok prod.collapse [symmetric] sample_execution this]
  show ?thesis by (simp add: sample_writer_def)
qed

lemma budget_checks_keys:
  assumes "budget_checks bs c d = Inr cs"
  shows "map (\<lambda>k. (dimension_sort_key (bc_dimension k), bc_budget_id k)) cs =
         map budget_sort_key (sort_by (\<lambda>a b. ord_cmp (budget_sort_key a) (budget_sort_key b))
                                (filter (\<lambda>b. bud_active b \<and> bud_currency b = c) bs))"
proof -
  have "list_all2 (\<lambda>b k. (dimension_sort_key (bc_dimension k), bc_budget_id k) = budget_sort_key b)
          (sort_by (\<lambda>a b. ord_cmp (budget_sort_key a) (budget_sort_key b))
             (filter (\<lambda>b. bud_active b \<and> bud_currency b = c) bs)) cs"
    using assms unfolding budget_checks_def try_map_eq_Inr
    by (rule list_all2_mono) (auto simp: rbind_eq_Inr budget_sort_key_def)
  then show ?thesis by (auto simp: list_all2_conv_all_nth intro: nth_equalityI)
qed

lemma number_from_orders: "i < length cs \<Longrightarrow> \<forall>c \<in> set cs. \<forall>k. cmd_order (c k) = k
  \<Longrightarrow> cmd_order (number_from n cs ! i) = n + of_nat i"
proof (induction cs arbitrary: n i)
  case (Cons c cs)
  then show ?case by (cases i) (auto simp: add.assoc)
qed simp

lemma number_from_length [simp]: "length (number_from n cs) = length cs"
  by (induction cs arbitrary: n) auto

lemma number_from_all_orders:
  "\<forall>c \<in> set cs. \<forall>k. cmd_order (c k) = k
   \<Longrightarrow> map cmd_order (number_from n cs) = map (\<lambda>i. n + of_nat i) [0 ..< length cs]"
  by (rule nth_equalityI) (simp_all add: number_from_orders)

lemma number_from_append:
  "number_from n (cs @ cs') = number_from n cs @ number_from (n + of_nat (length cs)) cs'"
  by (induction cs arbitrary: n) (auto simp: add.assoc)

lemma number_from_kinds:
  assumes "\<And>x k. cmd_kind (f x k) = kind"
  shows "map cmd_kind (number_from n (map f xs)) = replicate (length xs) kind"
  by (induction xs arbitrary: n) (simp_all add: assms)

lemmas command_defs =
  balance_assert_command_def budget_assert_command_def insert_ledger_command_def status_update_command_def

text \<open>The command plan of a write that applies asserts before it writes: first the balance
  window, then every active budget in the order of (dimension, id), which is the order the rows are
  locked in, then exactly one insert, then the status updates; the commands are numbered
  consecutively from one (as 16-bit numbers).\<close>

theorem command_plan_asserts_first:
  assumes "plan_consistent_ledger_write fmt req st = Inr p" "wp_outcome p = LO_Apply"
  shows "map cmd_kind (cp_commands (plan_consistent_ledger_write_commands p)) =
           [CK_AssertBalanceWindow] @ replicate (length (wp_budget_checks p)) CK_AssertBudgetWindow
           @ [CK_InsertLedgerEntry]
           @ replicate (length (lop_status_updates (wp_ledger_plan p))) CK_UpdateLedgerStatus
    \<and> sorted (map (\<lambda>k. (dimension_sort_key (bc_dimension k), bc_budget_id k)) (wp_budget_checks p))
    \<and> map cmd_order (cp_commands (plan_consistent_ledger_write_commands p)) =
        map (\<lambda>i. of_nat (Suc i)) [0 ..< length (cp_commands (plan_consistent_ledger_write_commands p))]"
proof -
  let ?bc = "[balance_assert_command p] @ map budget_assert_command (wp_budget_checks p)
        @ map insert_ledger_command (lop_entries (wp_ledger_plan p))
        @ map (\<lambda>u. status_update_command (lsu_entry_id u)) (lop_status_updates (wp_ledger_plan p))"
  have cmds: "cp_commands (plan_consistent_ledger_write_commands p) = number_from 1 ?bc"
    by (simp add: plan_consistent_ledger_write_commands_def is_idempotent_def assms(2)
        bounded_commands_for_plan_def)
  obtain lp w d k b cs where pl: "plan_inner_ledger_write fmt req (ws_entries st) = Inr lp"
    and bc: "budget_checks (ws_budgets st) (cw_currency req) d = Inr cs"
    and p: "wp_outcome p = lop_outcome lp" "wp_ledger_plan p = lp" "wp_budget_checks p = cs"
    using assms(1) by (rule plan_consistent_Inr)
  obtain dr where dr: "lop_entries (wp_ledger_plan p) = [dr]"
    using inner_plan_contract [OF pl] p assms(2) by (auto simp: plan_contract_def)
  have "map cmd_kind (number_from 1 ?bc) = [CK_AssertBalanceWindow]
      @ replicate (length (wp_budget_checks p)) CK_AssertBudgetWindow @ [CK_InsertLedgerEntry]
      @ replicate (length (lop_status_updates (wp_ledger_plan p))) CK_UpdateLedgerStatus"
    unfolding number_from_append map_append dr
    by (simp add: number_from_kinds command_defs)
  moreover have "\<forall>c \<in> set ?bc. \<forall>k. cmd_order (c k) = k" by (auto simp: command_defs)
  from number_from_all_orders [OF this, of 1]
  have "map cmd_order (number_from 1 ?bc) = map (\<lambda>i. of_nat (Suc i)) [0 ..< length (number_from 1 ?bc)]"
    by (simp only: number_from_length of_nat_Suc)
  moreover have "sorted (map (\<lambda>k. (dimension_sort_key (bc_dimension k), bc_budget_id k)) (wp_budget_checks p))"
    unfolding p(3) budget_checks_keys [OF bc] sorted_wrt_map
    by (rule sorted_wrt_mono_rel [OF _ budget_order.sorted_sort_by]) (auto simp: ord_cmp_def split: if_splits)
  ultimately show ?thesis unfolding cmds by blast
qed

theorem command_plan_asserts_first_witness:
  "\<exists>p. plan_consistent_ledger_write sample_fmt sample_reserve (imw_state sample_writer) = Inr p
     \<and> map cmd_kind (cp_commands (plan_consistent_ledger_write_commands p)) =
         [CK_AssertBalanceWindow, CK_AssertBudgetWindow, CK_InsertLedgerEntry]"
proof -
  obtain p where p: "plan_consistent_ledger_write sample_fmt sample_reserve (imw_state sample_writer) = Inr p"
    "wp_outcome p = LO_Apply" "length (wp_budget_checks p) = 1" "lop_status_updates (wp_ledger_plan p) = []"
    by (simp add: writer_eval)
  from command_plan_asserts_first [OF p(1,2)] p(1,3,4) show ?thesis by simp
qed

end
