(* ===== verification/Rating.thy ===== *)
theory Rating
  imports Money
begin

text \<open>
  The rating engine of \<open>crates/billing-ledger/src/rating.rs\<close>: pricing rules read from JSON, token
  usage extracted from provider responses, and the cost of a request. The JSON library
  (\<open>serde_json\<close>) is a parameter: a record \<open>json_api\<close> of the accessors the code calls on a value of
  any type, so that no theorem depends on how values are represented.
\<close>

section \<open>Data\<close>

definition TOKENS_PER_MILLION :: int where
  "TOKENS_PER_MILLION = 1000000"

record token_usage =
  tu_input_tokens :: u64
  tu_output_tokens :: u64

record extended_token_usage =
  xu_input_tokens :: u64
  xu_output_tokens :: u64
  xu_cache_tokens :: "u64 option"
  xu_reasoning_tokens :: "u64 option"

definition xu_new :: "u64 \<Rightarrow> u64 \<Rightarrow> extended_token_usage" where
  "xu_new input_tokens output_tokens =
     \<lparr>xu_input_tokens = input_tokens, xu_output_tokens = output_tokens,
      xu_cache_tokens = None, xu_reasoning_tokens = None\<rparr>"

definition with_cache_tokens :: "extended_token_usage \<Rightarrow> u64 \<Rightarrow> extended_token_usage" where
  "with_cache_tokens u cache_tokens = u\<lparr>xu_cache_tokens := Some cache_tokens\<rparr>"

definition with_reasoning_tokens :: "extended_token_usage \<Rightarrow> u64 \<Rightarrow> extended_token_usage" where
  "with_reasoning_tokens u reasoning_tokens = u\<lparr>xu_reasoning_tokens := Some reasoning_tokens\<rparr>"

definition from_token_usage :: "token_usage \<Rightarrow> extended_token_usage" where
  "from_token_usage u = xu_new (tu_input_tokens u) (tu_output_tokens u)"

record pricing_rules =
  pr_currency :: string
  pr_scale :: nat
  pr_input_rate :: fixed_decimal
  pr_output_rate :: fixed_decimal
  pr_cache_rate :: fixed_decimal
  pr_reasoning_rate :: fixed_decimal
  pr_fixed_request_cost :: fixed_decimal

record rating_result =
  rr_input_tokens :: u64
  rr_output_tokens :: u64
  rr_cache_tokens :: "u64 option"
  rr_reasoning_tokens :: "u64 option"
  rr_input_cost :: fixed_decimal
  rr_output_cost :: fixed_decimal
  rr_cache_cost :: "fixed_decimal option"
  rr_reasoning_cost :: "fixed_decimal option"
  rr_fixed_request_cost :: fixed_decimal
  rr_total_cost :: fixed_decimal
  rr_currency :: string
  rr_scale :: nat

text \<open>The wire struct that serde fills, its aliases already resolved by the library.\<close>

record 'v pricing_rules_wire =
  pw_currency :: "string option"
  pw_scale :: "u32 option"
  pw_input_rate :: "'v option"
  pw_output_rate :: "'v option"
  pw_cache_rate :: "'v option"
  pw_reasoning_rate :: "'v option"
  pw_fixed_request_cost :: "'v option"

text \<open>What a \<open>match\<close> on \<open>serde_json::Value\<close> sees: a number carries what \<open>as_i64\<close> and \<open>as_u64\<close>
  return for it.\<close>

datatype json_view =
    JV_Null
  | JV_String string
  | JV_Number "64 word option" "64 word option"
  | JV_Other

record 'v json_api =
  json_from_str :: "string \<Rightarrow> string + 'v"
  json_wire :: "'v \<Rightarrow> string + 'v pricing_rules_wire"
  json_get :: "'v \<Rightarrow> string \<Rightarrow> 'v option"
  json_is_object :: "'v \<Rightarrow> bool"
  json_is_null :: "'v \<Rightarrow> bool"
  json_as_u64 :: "'v \<Rightarrow> u64 option"
  json_view :: "'v \<Rightarrow> json_view"

section \<open>Pricing rules\<close>

definition parse_optional_money_field ::
  "'v json_api \<Rightarrow> string \<Rightarrow> 'v option \<Rightarrow> nat \<Rightarrow> rating_error + fixed_decimal" where
  "parse_optional_money_field j field v scale =
     (case map_option (json_view j) v of
        None \<Rightarrow> fd_zero scale
      | Some JV_Null \<Rightarrow> fd_zero scale
      | Some (JV_String s) \<Rightarrow>
          rbind (parse_decimal_string field s scale) (\<lambda>money.
          rbind (reject_negative field money) (\<lambda>_. Inr money))
      | Some (JV_Number as_i64 as_u64) \<Rightarrow>
          rbind (case as_i64 of
                   Some units \<Rightarrow> Inr (sint units)
                 | None \<Rightarrow> (case as_u64 of
                              Some units \<Rightarrow> Inr (uint units)
                            | None \<Rightarrow> Inl (RE_InvalidMoneyType field))) (\<lambda>units.
          rbind (from_units units scale) (\<lambda>money.
          rbind (reject_negative field money) (\<lambda>_. Inr money)))
      | Some JV_Other \<Rightarrow> Inl (RE_InvalidMoneyType field))"

definition pricing_from_json_value :: "'v json_api \<Rightarrow> 'v \<Rightarrow> rating_error + pricing_rules" where
  "pricing_from_json_value j v =
     rbind (map_err RE_InvalidPricingJson (json_wire j v)) (\<lambda>wire.
     let scale = (case pw_scale wire of None \<Rightarrow> DEFAULT_MONEY_SCALE | Some s \<Rightarrow> unat s) in
     rbind (validate_scale scale) (\<lambda>_.
     let currency = unwrap_or DEFAULT_CURRENCY (pw_currency wire) in
     rbind (validate_currency currency) (\<lambda>_.
     rbind (parse_optional_money_field j ''input_token_rate_per_1m'' (pw_input_rate wire) scale) (\<lambda>input.
     rbind (parse_optional_money_field j ''output_token_rate_per_1m'' (pw_output_rate wire) scale) (\<lambda>output.
     rbind (parse_optional_money_field j ''cache_token_rate_per_1m'' (pw_cache_rate wire) scale) (\<lambda>cache.
     rbind (parse_optional_money_field j ''reasoning_token_rate_per_1m'' (pw_reasoning_rate wire) scale) (\<lambda>reasoning.
     rbind (parse_optional_money_field j ''fixed_request_cost'' (pw_fixed_request_cost wire) scale) (\<lambda>fixed.
     Inr \<lparr>pr_currency = currency, pr_scale = scale, pr_input_rate = input, pr_output_rate = output,
          pr_cache_rate = cache, pr_reasoning_rate = reasoning,
          pr_fixed_request_cost = fixed\<rparr>))))))))"

definition pricing_from_json_str :: "'v json_api \<Rightarrow> string \<Rightarrow> rating_error + pricing_rules" where
  "pricing_from_json_str j pricing_json =
     rbind (map_err RE_InvalidPricingJson (json_from_str j pricing_json)) (pricing_from_json_value j)"

section \<open>Costs\<close>

text \<open>Rust's \<open>/\<close> and \<open>%\<close> truncate; on the non-negative numerator they are \<open>div\<close> and \<open>mod\<close>.\<close>

definition div_round_half_up :: "int \<Rightarrow> int \<Rightarrow> rating_error + int" where
  "div_round_half_up numerator denominator =
     (if denominator \<le> 0 \<or> numerator < 0 then Inl RE_ArithmeticOverflow
      else let quotient = numerator div denominator; remainder = numerator mod denominator in
        rbind (ok_or RE_ArithmeticOverflow (i128_checked_mul remainder 2)) (\<lambda>doubled.
        if doubled \<ge> denominator
        then ok_or RE_ArithmeticOverflow (i128_checked_add quotient 1)
        else Inr quotient))"

definition rate_tokens :: "u64 \<Rightarrow> fixed_decimal \<Rightarrow> rating_error + fixed_decimal" where
  "rate_tokens tokens rate_per_million =
     (if fd_units rate_per_million < 0 then Inl (RE_NegativeMoney ''rate_per_million'')
      else
        rbind (ok_or RE_ArithmeticOverflow
                 (i128_checked_mul (uint tokens) (fd_units rate_per_million))) (\<lambda>numerator.
        rbind (div_round_half_up numerator TOKENS_PER_MILLION) (\<lambda>units.
        from_units units (fd_scale rate_per_million))))"

definition rate_usage :: "pricing_rules \<Rightarrow> extended_token_usage \<Rightarrow> rating_error + rating_result" where
  "rate_usage pricing usage =
     rbind (rate_tokens (xu_input_tokens usage) (pr_input_rate pricing)) (\<lambda>input_cost.
     rbind (rate_tokens (xu_output_tokens usage) (pr_output_rate pricing)) (\<lambda>output_cost.
     rbind (transpose_opt (map_option (\<lambda>tokens. rate_tokens tokens (pr_cache_rate pricing))
              (xu_cache_tokens usage))) (\<lambda>cache_cost.
     rbind (transpose_opt (map_option (\<lambda>tokens. rate_tokens tokens (pr_reasoning_rate pricing))
              (xu_reasoning_tokens usage))) (\<lambda>reasoning_cost.
     rbind (fd_checked_add input_cost output_cost) (\<lambda>total1.
     rbind (fd_zero (pr_scale pricing)) (\<lambda>zero1.
     rbind (fd_checked_add total1 (unwrap_or zero1 cache_cost)) (\<lambda>total2.
     rbind (fd_zero (pr_scale pricing)) (\<lambda>zero2.
     rbind (fd_checked_add total2 (unwrap_or zero2 reasoning_cost)) (\<lambda>total3.
     rbind (fd_checked_add total3 (pr_fixed_request_cost pricing)) (\<lambda>total_cost.
     Inr \<lparr>rr_input_tokens = xu_input_tokens usage, rr_output_tokens = xu_output_tokens usage,
          rr_cache_tokens = xu_cache_tokens usage, rr_reasoning_tokens = xu_reasoning_tokens usage,
          rr_input_cost = input_cost, rr_output_cost = output_cost, rr_cache_cost = cache_cost,
          rr_reasoning_cost = reasoning_cost, rr_fixed_request_cost = pr_fixed_request_cost pricing,
          rr_total_cost = total_cost, rr_currency = pr_currency pricing,
          rr_scale = pr_scale pricing\<rparr>))))))))))"

definition rate_usage_from_json ::
  "'v json_api \<Rightarrow> string \<Rightarrow> extended_token_usage \<Rightarrow> rating_error + rating_result" where
  "rate_usage_from_json j pricing_json usage =
     rbind (pricing_from_json_str j pricing_json) (\<lambda>pricing. rate_usage pricing usage)"

section \<open>Token usage reported by a provider\<close>

definition runtime_usage_fields_present :: "'v json_api \<Rightarrow> 'v \<Rightarrow> bool" where
  "runtime_usage_fields_present j v \<longleftrightarrow>
     json_is_object j v
     \<and> list_ex (\<lambda>field. json_get j v field \<noteq> None)
         [''prompt_tokens'', ''input_tokens'', ''promptTokenCount'', ''completion_tokens'',
          ''output_tokens'', ''candidatesTokenCount'', ''total_tokens'', ''totalTokenCount'']"

definition object_field :: "'v json_api \<Rightarrow> 'v \<Rightarrow> string \<Rightarrow> 'v option" where
  "object_field j v field =
     (case json_get j v field of Some u \<Rightarrow> if json_is_object j u then Some u else None | None \<Rightarrow> None)"

definition runtime_usage_object :: "'v json_api \<Rightarrow> 'v \<Rightarrow> 'v option" where
  "runtime_usage_object j v =
     (case object_field j v ''usage'' of
        Some u \<Rightarrow> Some u
      | None \<Rightarrow>
          (case object_field j v ''usageMetadata'' of
             Some u \<Rightarrow> Some u
           | None \<Rightarrow> if runtime_usage_fields_present j v then Some v else None))"

fun value_at_path :: "'v json_api \<Rightarrow> 'v \<Rightarrow> string list \<Rightarrow> 'v option" where
  "value_at_path j v [] = Some v"
| "value_at_path j v (segment # path) =
     (case json_get j v segment of None \<Rightarrow> None | Some u \<Rightarrow> value_at_path j u path)"

definition usage_u64_at_path ::
  "'v json_api \<Rightarrow> 'v \<Rightarrow> string list \<Rightarrow> string \<Rightarrow> rating_error + u64 option" where
  "usage_u64_at_path j v path field =
     (case value_at_path j v path of
        None \<Rightarrow> Inr None
      | Some u \<Rightarrow>
          if json_is_null j u then Inr None
          else ok_or (RE_InvalidUsageField field) (map_option Some (json_as_u64 j u)))"

fun first_present_usage_u64 ::
  "'v json_api \<Rightarrow> 'v \<Rightarrow> (string \<times> string list) list \<Rightarrow> rating_error + u64 option" where
  "first_present_usage_u64 j v [] = Inr None"
| "first_present_usage_u64 j v ((field, path) # candidates) =
     rbind (usage_u64_at_path j v path field) (\<lambda>found.
     case found of Some tokens \<Rightarrow> Inr (Some tokens) | None \<Rightarrow> first_present_usage_u64 j v candidates)"

definition input_total_fields :: "(string \<times> string list) list" where
  "input_total_fields =
     [(''prompt_tokens'', [''prompt_tokens'']),
      (''input_tokens'', [''input_tokens'']),
      (''promptTokenCount'', [''promptTokenCount''])]"

definition output_total_fields :: "(string \<times> string list) list" where
  "output_total_fields =
     [(''completion_tokens'', [''completion_tokens'']),
      (''output_tokens'', [''output_tokens'']),
      (''candidatesTokenCount'', [''candidatesTokenCount''])]"

definition grand_total_fields :: "(string \<times> string list) list" where
  "grand_total_fields =
     [(''total_tokens'', [''total_tokens'']), (''totalTokenCount'', [''totalTokenCount''])]"

definition cache_fields :: "(string \<times> string list) list" where
  "cache_fields =
     [(''prompt_tokens_details.cached_tokens'', [''prompt_tokens_details'', ''cached_tokens'']),
      (''input_tokens_details.cached_tokens'', [''input_tokens_details'', ''cached_tokens'']),
      (''cached_tokens'', [''cached_tokens'']),
      (''cachedContentTokenCount'', [''cachedContentTokenCount'']),
      (''cache_read_input_tokens'', [''cache_read_input_tokens''])]"

definition reasoning_fields :: "(string \<times> string list) list" where
  "reasoning_fields =
     [(''completion_tokens_details.reasoning_tokens'', [''completion_tokens_details'', ''reasoning_tokens'']),
      (''output_tokens_details.reasoning_tokens'', [''output_tokens_details'', ''reasoning_tokens'']),
      (''reasoning_tokens'', [''reasoning_tokens'']),
      (''thoughtsTokenCount'', [''thoughtsTokenCount'']),
      (''thinking_tokens'', [''thinking_tokens''])]"

definition derive_output_tokens_from_total ::
  "'v json_api \<Rightarrow> 'v \<Rightarrow> u64 \<Rightarrow> (rating_error + u64) option" where
  "derive_output_tokens_from_total j usage input_total =
     (case first_present_usage_u64 j usage grand_total_fields of
        Inl e \<Rightarrow> Some (Inl e)
      | Inr None \<Rightarrow> None
      | Inr (Some total_tokens) \<Rightarrow>
          Some (ok_or (RE_UsageCategoryExceedsTotal ''input_tokens'' ''total_tokens'')
                  (word_checked_sub total_tokens input_total)))"

definition subtract_category ::
  "u64 \<Rightarrow> u64 option \<Rightarrow> string \<Rightarrow> string \<Rightarrow> rating_error + u64" where
  "subtract_category total_value category_value category total_field =
     (case category_value of
        Some c \<Rightarrow> ok_or (RE_UsageCategoryExceedsTotal category total_field)
                    (word_checked_sub total_value c)
      | None \<Rightarrow> Inr total_value)"

definition extract_runtime_token_usage_from_value ::
  "'v json_api \<Rightarrow> 'v \<Rightarrow> rating_error + extended_token_usage option" where
  "extract_runtime_token_usage_from_value j v =
     (case runtime_usage_object j v of
        None \<Rightarrow> Inr None
      | Some usage \<Rightarrow>
     rbind (first_present_usage_u64 j usage input_total_fields) (\<lambda>input_found.
     case input_found of
        None \<Rightarrow> Inr None
      | Some input_total \<Rightarrow>
     rbind (first_present_usage_u64 j usage output_total_fields) (\<lambda>output_found.
     rbind (case output_found of
              Some output_total \<Rightarrow> Inr (Some output_total)
            | None \<Rightarrow> transpose_opt (derive_output_tokens_from_total j usage input_total)) (\<lambda>output_found'.
     case output_found' of
        None \<Rightarrow> Inr None
      | Some output_total \<Rightarrow>
     rbind (first_present_usage_u64 j usage cache_fields) (\<lambda>cache_tokens.
     rbind (first_present_usage_u64 j usage reasoning_fields) (\<lambda>reasoning_tokens.
     rbind (subtract_category input_total cache_tokens ''cache_tokens'' ''input_tokens'') (\<lambda>input_tokens.
     rbind (subtract_category output_total reasoning_tokens ''reasoning_tokens'' ''output_tokens'')
       (\<lambda>output_tokens.
     let u0 = xu_new input_tokens output_tokens;
         u1 = (case cache_tokens of Some t \<Rightarrow> with_cache_tokens u0 t | None \<Rightarrow> u0);
         u2 = (case reasoning_tokens of Some t \<Rightarrow> with_reasoning_tokens u1 t | None \<Rightarrow> u1)
     in Inr (Some u2)))))))))"

definition extract_runtime_token_usage_from_json_str ::
  "'v json_api \<Rightarrow> string \<Rightarrow> rating_error + extended_token_usage option" where
  "extract_runtime_token_usage_from_json_str j runtime_usage_json =
     rbind (map_err RE_InvalidUsageJson (json_from_str j runtime_usage_json))
       (extract_runtime_token_usage_from_value j)"

definition rate_runtime_usage_from_json ::
  "'v json_api \<Rightarrow> string \<Rightarrow> string \<Rightarrow> rating_error + rating_result option" where
  "rate_runtime_usage_from_json j pricing_json runtime_usage_json =
     rbind (extract_runtime_token_usage_from_json_str j runtime_usage_json) (\<lambda>extracted.
     case extracted of
        None \<Rightarrow> Inr None
      | Some usage \<Rightarrow> map_ok Some (rate_usage_from_json j pricing_json usage))"

section \<open>Lemmas\<close>

definition pricing_ok :: "pricing_rules \<Rightarrow> bool" where
  "pricing_ok p \<longleftrightarrow>
     pr_scale p \<le> MAX_MONEY_SCALE \<and> currency_ok (pr_currency p)
     \<and> list_all (\<lambda>d. fd_ok d \<and> 0 \<le> fd_units d \<and> fd_scale d = pr_scale p)
         [pr_input_rate p, pr_output_rate p, pr_cache_rate p, pr_reasoning_rate p,
          pr_fixed_request_cost p]"

lemma in_i128_uint64: "in_i128 (uint (x :: 64 word))"
  by (rule in_i128_between [of 0 "2 ^ 64"])
     (use uint_lt2p [of x] in \<open>simp_all add: in_i128_def i128_min_def i128_max_def\<close>)

lemma in_i128_sint64: "in_i128 (sint (x :: 64 word))"
  by (rule in_i128_between [of "- (2 ^ 63)" "2 ^ 63"])
     (use sint_lt [of x] sint_ge [of x] in \<open>simp_all add: in_i128_def i128_min_def i128_max_def\<close>)

lemma parse_optional_money_field_ok:
  assumes "parse_optional_money_field j field v scale = Inr d"
  shows "fd_ok d \<and> 0 \<le> fd_units d \<and> fd_scale d = scale"
  using assms in_i128_uint64 in_i128_sint64
  by (auto simp: parse_optional_money_field_def reject_negative_def result_simps
      dest: parse_decimal_string_ok split: option.splits json_view.splits if_splits)

lemma pricing_from_json_value_ok: "pricing_from_json_value j v = Inr p \<Longrightarrow> pricing_ok p"
  by (auto simp: pricing_from_json_value_def pricing_ok_def result_simps Let_def
      validate_currency_def dest!: parse_optional_money_field_ok split: if_splits)

text \<open>Half-up rounding: the unique integer within half a denominator, ties upwards.\<close>

definition rounds_half_up :: "int \<Rightarrow> int \<Rightarrow> int \<Rightarrow> bool" where
  "rounds_half_up n d q \<longleftrightarrow> 2 * n - d < 2 * d * q \<and> 2 * d * q \<le> 2 * n + d"

lemma rounds_half_up_unique:
  assumes "0 < d" "rounds_half_up n d q" "rounds_half_up n d q'"
  shows "q = q'"
proof -
  have "2 * d * q < 2 * d * (q' + 1)" "2 * d * q' < 2 * d * (q + 1)"
    using assms by (auto simp: rounds_half_up_def algebra_simps)
  with assms(1) have "q < q' + 1" "q' < q + 1" by (auto simp: mult_less_cancel_left)
  then show ?thesis by simp
qed

lemma rounds_half_up_mono:
  assumes "0 < d" "n \<le> n'" "rounds_half_up n d q" "rounds_half_up n' d q'"
  shows "q \<le> q'"
proof -
  have "2 * d * q < 2 * d * (q' + 1)"
    using assms by (auto simp: rounds_half_up_def algebra_simps)
  with assms(1) have "q < q' + 1" by (auto simp: mult_less_cancel_left)
  then show ?thesis by simp
qed

lemma div_round_half_up_Inr:
  assumes "0 \<le> n" "in_i128 n" "1 < d" "d \<le> 2 ^ 64"
  shows "\<exists>q. div_round_half_up n d = Inr q \<and> rounds_half_up n d q \<and> 0 \<le> q \<and> q \<le> n div d + 1"
proof -
  let ?q = "n div d" and ?r = "n mod d"
  have nd: "n = d * ?q + ?r" by simp
  have r: "0 \<le> ?r" "?r < d" using assms(3) by simp_all
  have q: "0 \<le> ?q" using assms by (simp add: pos_imp_zdiv_nonneg_iff)
  have "in_i128 (?r * 2)" using r assms(4) by (simp add: in_i128_def i128_min_def i128_max_def)
  moreover have "in_i128 (?q + 1)"
  proof -
    have "?q * 2 \<le> d * ?q" using q assms(3) mult_right_mono [of 2 d ?q] by (simp add: mult.commute)
    also have "\<dots> \<le> n" using nd r by linarith
    finally have "?q * 2 \<le> n" .
    with assms(2) q show ?thesis by (simp add: in_i128_def i128_min_def i128_max_def)
  qed
  moreover have "rounds_half_up n d (if ?r * 2 \<ge> d then ?q + 1 else ?q)"
  proof -
    have "2 * d * ?q = 2 * (d * ?q)" "2 * d * (?q + 1) = 2 * (d * ?q) + 2 * d"
      by (simp_all add: algebra_simps)
    with nd r show ?thesis unfolding rounds_half_up_def by (split if_split) linarith
  qed
  ultimately show ?thesis
    using assms q by (auto simp: div_round_half_up_def Let_def i128_checked_mul_def
        i128_checked_add_def check_i128_def)
qed

lemma rate_tokens_Inr_iff:
  "rate_tokens tokens rate = Inr cost \<longleftrightarrow>
     0 \<le> fd_units rate \<and> in_i128 (uint tokens * fd_units rate) \<and> fd_scale rate \<le> MAX_MONEY_SCALE
     \<and> fd_scale cost = fd_scale rate
     \<and> rounds_half_up (uint tokens * fd_units rate) TOKENS_PER_MILLION (fd_units cost)"
  (is "?l \<longleftrightarrow> ?r")
proof (cases "0 \<le> fd_units rate \<and> in_i128 (uint tokens * fd_units rate)")
  case True
  then obtain q where q: "div_round_half_up (uint tokens * fd_units rate) TOKENS_PER_MILLION = Inr q"
    "rounds_half_up (uint tokens * fd_units rate) TOKENS_PER_MILLION q"
    using div_round_half_up_Inr [of "uint tokens * fd_units rate" TOKENS_PER_MILLION]
    by (auto simp: TOKENS_PER_MILLION_def)
  have "?l \<longleftrightarrow> fd_scale rate \<le> MAX_MONEY_SCALE \<and> cost = FixedDecimal q (fd_scale rate)"
    using True q(1) by (auto simp: rate_tokens_def i128_checked_mul_def check_i128_def)
  also have "\<dots> \<longleftrightarrow> ?r"
    using True q(2) rounds_half_up_unique [OF _ q(2), of "fd_units cost"]
    by (cases cost) (auto simp: TOKENS_PER_MILLION_def)
  finally show ?thesis .
qed (auto simp: rate_tokens_def i128_checked_mul_def check_i128_def result_simps split: if_splits)

definition opt_units :: "fixed_decimal option \<Rightarrow> int" where
  "opt_units c = (case c of None \<Rightarrow> 0 | Some d \<Rightarrow> fd_units d)"

lemma transpose_opt_map_eq_Inr:
  "transpose_opt (map_option f x) = Inr y \<longleftrightarrow>
     (case x of None \<Rightarrow> y = None | Some a \<Rightarrow> (\<exists>b. f a = Inr b \<and> y = Some b))"
  by (cases x; cases "f (the x)") auto

text \<open>The cost of one token category, absent categories costing nothing.\<close>

definition category_cost :: "u64 option \<Rightarrow> fixed_decimal \<Rightarrow> fixed_decimal option \<Rightarrow> bool" where
  "category_cost tokens rate cost \<longleftrightarrow>
     (case (tokens, cost) of
        (None, None) \<Rightarrow> True
      | (Some t, Some c) \<Rightarrow>
          fd_scale c = fd_scale rate
          \<and> rounds_half_up (uint t * fd_units rate) TOKENS_PER_MILLION (fd_units c)
      | _ \<Rightarrow> False)"

definition opt_tokens :: "u64 option \<Rightarrow> int" where
  "opt_tokens t = (case t of None \<Rightarrow> 0 | Some w \<Rightarrow> uint w)"

lemma rounds_half_up_nonneg: "0 \<le> n \<Longrightarrow> rounds_half_up n TOKENS_PER_MILLION q \<Longrightarrow> 0 \<le> q"
  by (auto simp: rounds_half_up_def TOKENS_PER_MILLION_def)

lemma category_cost_nonneg: "category_cost t rate c \<Longrightarrow> 0 \<le> fd_units rate \<Longrightarrow> 0 \<le> opt_units c"
  using rounds_half_up_nonneg [of "uint (the t) * fd_units rate" "opt_units c"]
  by (auto simp: category_cost_def opt_units_def split: option.splits)

lemma category_cost_mono:
  assumes "category_cost t rate c" "category_cost t' rate c'" "opt_tokens t \<le> opt_tokens t'"
    and "0 \<le> fd_units rate"
  shows "opt_units c \<le> opt_units c'"
proof -
  have r: "rounds_half_up (opt_tokens x * fd_units rate) TOKENS_PER_MILLION (opt_units d)"
    if "category_cost x rate d" for x d
    using that by (auto simp: category_cost_def opt_tokens_def opt_units_def rounds_half_up_def
        TOKENS_PER_MILLION_def split: option.splits)
  have "opt_tokens t * fd_units rate \<le> opt_tokens t' * fd_units rate"
    using assms(3,4) by (rule mult_right_mono)
  from rounds_half_up_mono [OF _ this r [OF assms(1)] r [OF assms(2)]] show ?thesis
    by (simp add: TOKENS_PER_MILLION_def)
qed

lemma rate_tokens_category: "rate_tokens t rate = Inr c \<Longrightarrow> category_cost (Some t) rate (Some c)"
  by (simp add: rate_tokens_Inr_iff category_cost_def)

lemma rate_tokens_opt_category:
  "transpose_opt (map_option (\<lambda>t. rate_tokens t rate) x) = Inr c \<Longrightarrow> category_cost x rate c"
  by (cases x) (auto simp: result_simps rate_tokens_category category_cost_def [of None])

lemma unwrap_or_units: "fd_units (unwrap_or (FixedDecimal 0 s) c) = opt_units c"
  by (cases c) (simp_all add: opt_units_def)

lemma rate_tokens_scale: "rate_tokens t rate = Inr c \<Longrightarrow> fd_scale c = fd_scale rate"
  by (simp add: rate_tokens_Inr_iff)

lemma rate_usage_parts:
  assumes "rate_usage p u = Inr r"
  shows "category_cost (Some (xu_input_tokens u)) (pr_input_rate p) (Some (rr_input_cost r))"
    and "category_cost (Some (xu_output_tokens u)) (pr_output_rate p) (Some (rr_output_cost r))"
    and "category_cost (xu_cache_tokens u) (pr_cache_rate p) (rr_cache_cost r)"
    and "category_cost (xu_reasoning_tokens u) (pr_reasoning_rate p) (rr_reasoning_cost r)"
    and "fd_units (rr_total_cost r) =
           fd_units (rr_input_cost r) + fd_units (rr_output_cost r) + opt_units (rr_cache_cost r)
           + opt_units (rr_reasoning_cost r) + fd_units (pr_fixed_request_cost p)"
    and "fd_scale (rr_total_cost r) = fd_scale (pr_input_rate p)"
    and "in_i128 (fd_units (rr_total_cost r))"
  using assms
  by (auto simp: rate_usage_def result_simps fd_checked_add_eq_Inr rate_tokens_category
      rate_tokens_opt_category rate_tokens_scale unwrap_or_units)

lemma rate_tokens_Inl:
  assumes "rate_tokens t rate = Inl e" "0 \<le> fd_units rate" "fd_scale rate \<le> MAX_MONEY_SCALE"
  shows "e = RE_ArithmeticOverflow \<and> \<not> in_i128 (uint t * fd_units rate)"
proof (cases "in_i128 (uint t * fd_units rate)")
  case True
  then obtain q where "div_round_half_up (uint t * fd_units rate) TOKENS_PER_MILLION = Inr q"
    using assms(2) div_round_half_up_Inr [of "uint t * fd_units rate" TOKENS_PER_MILLION]
    by (auto simp: TOKENS_PER_MILLION_def)
  with True assms show ?thesis
    by (simp add: rate_tokens_def i128_checked_mul_def check_i128_def from_units_def validate_scale_def)
next
  case False
  with assms show ?thesis
    by (simp add: rate_tokens_def i128_checked_mul_def check_i128_def)
qed

lemma transpose_opt_map_eq_Inl:
  "transpose_opt (map_option f x) = Inl e \<longleftrightarrow> (\<exists>a. x = Some a \<and> f a = Inl e)"
  by (cases x; cases "f (the x)") auto

lemma pricing_okD:
  assumes "pricing_ok p"
  shows "d \<in> {pr_input_rate p, pr_output_rate p, pr_cache_rate p, pr_reasoning_rate p,
               pr_fixed_request_cost p}
         \<Longrightarrow> 0 \<le> fd_units d \<and> fd_scale d = pr_scale p \<and> fd_ok d"
    and "pr_scale p \<le> MAX_MONEY_SCALE"
  using assms by (auto simp: pricing_ok_def)

lemma fd_checked_add_Inl:
  "fd_checked_add a b = Inl e \<Longrightarrow>
     e = RE_ArithmeticOverflow \<and> \<not> in_i128 (fd_units a + fd_units b) \<or> fd_scale a \<noteq> fd_scale b"
  by (auto simp: fd_checked_add_def i128_checked_add_def check_i128_def result_simps split: if_splits)

lemma rate_tokens_ok:
  assumes "pricing_ok p"
    and "rate \<in> {pr_input_rate p, pr_output_rate p, pr_cache_rate p, pr_reasoning_rate p}"
  shows "rate_tokens t rate = Inl e \<Longrightarrow> e = RE_ArithmeticOverflow"
    and "rate_tokens t rate = Inr c \<Longrightarrow> fd_scale c = pr_scale p"
proof -
  have "0 \<le> fd_units rate \<and> fd_scale rate = pr_scale p \<and> fd_ok rate"
    using pricing_okD(1) [OF assms(1), of rate] assms(2) by blast
  then show "rate_tokens t rate = Inl e \<Longrightarrow> e = RE_ArithmeticOverflow"
    and "rate_tokens t rate = Inr c \<Longrightarrow> fd_scale c = pr_scale p"
    using rate_tokens_Inl [of t rate e] rate_tokens_scale [of t rate c] by (simp_all add: fd_ok_def)
qed

lemma rate_opt_ok:
  assumes "pricing_ok p"
    and "rate \<in> {pr_input_rate p, pr_output_rate p, pr_cache_rate p, pr_reasoning_rate p}"
  shows "transpose_opt (map_option (\<lambda>t. rate_tokens t rate) x) = Inl e \<Longrightarrow> e = RE_ArithmeticOverflow"
    and "transpose_opt (map_option (\<lambda>t. rate_tokens t rate) x) = Inr c
         \<Longrightarrow> fd_scale (unwrap_or (FixedDecimal 0 (pr_scale p)) c) = pr_scale p"
  using rate_tokens_ok(1) [OF assms, of "the x" e] rate_tokens_ok(2) [OF assms, of "the x" "the c"]
  by (auto simp: transpose_opt_map_eq_Inl transpose_opt_map_eq_Inr split: option.splits)

lemma rate_usage_Inl:
  assumes p: "pricing_ok p" and e: "rate_usage p u = Inl e"
  shows "e = RE_ArithmeticOverflow"
proof -
  let ?s = "pr_scale p"
  note zero = fd_zero_ok [OF pricing_okD(2) [OF p]]
  note rates = rate_tokens_ok [OF p, of "pr_input_rate p", simplified]
    rate_tokens_ok [OF p, of "pr_output_rate p", simplified]
    rate_opt_ok [OF p, of "pr_cache_rate p", simplified]
    rate_opt_ok [OF p, of "pr_reasoning_rate p", simplified]
  have fixed: "fd_scale (pr_fixed_request_cost p) = ?s" using pricing_okD(1) [OF p] by blast
  show ?thesis
    using e unfolding rate_usage_def zero rbind_Inr rbind_eq_Inl
    by (elim disjE exE conjE)
       (auto simp: fixed fd_checked_add_eq_Inr dest!: rates fd_checked_add_Inl)
qed

section \<open>Properties of rating\<close>

text \<open>C15. A rated request is charged exactly: each token category costs its token count times its
  per-million rate, rounded half-up to a unit of the pricing scale, an absent category costs nothing,
  and the total is the sum of the categories and the fixed request cost, with no wrap-around.\<close>

theorem rate_usage_exact:
  assumes "rate_usage p u = Inr r"
  shows "category_cost (Some (xu_input_tokens u)) (pr_input_rate p) (Some (rr_input_cost r))
    \<and> category_cost (Some (xu_output_tokens u)) (pr_output_rate p) (Some (rr_output_cost r))
    \<and> category_cost (xu_cache_tokens u) (pr_cache_rate p) (rr_cache_cost r)
    \<and> category_cost (xu_reasoning_tokens u) (pr_reasoning_rate p) (rr_reasoning_cost r)
    \<and> fd_units (rr_total_cost r) =
         fd_units (rr_input_cost r) + fd_units (rr_output_cost r) + opt_units (rr_cache_cost r)
         + opt_units (rr_reasoning_cost r) + fd_units (pr_fixed_request_cost p)
    \<and> fd_scale (rr_total_cost r) = fd_scale (pr_input_rate p)
    \<and> in_i128 (fd_units (rr_total_cost r))"
  using rate_usage_parts [OF assms] by blast

definition sample_pricing :: pricing_rules where
  "sample_pricing =
     \<lparr>pr_currency = ''USD'', pr_scale = 8, pr_input_rate = FixedDecimal 15000000 8,
      pr_output_rate = FixedDecimal 60000000 8, pr_cache_rate = FixedDecimal 7500000 8,
      pr_reasoning_rate = FixedDecimal 0 8, pr_fixed_request_cost = FixedDecimal 10000 8\<rparr>"

lemmas rating_eval =
  sample_pricing_def rate_usage_def rate_tokens_def div_round_half_up_def i128_checked_mul_def
  i128_checked_add_def check_i128_def in_i128_def i128_min_def i128_max_def TOKENS_PER_MILLION_def
  from_units_def validate_scale_def MAX_MONEY_SCALE_def fd_checked_add_def fd_zero_def xu_new_def

theorem rate_usage_exact_witness:
  "\<exists>r. rate_usage sample_pricing (xu_new 1000 500) = Inr r
     \<and> fd_units (rr_total_cost r) = 15000 + 30000 + 10000
     \<and> rounds_half_up (1000 * 15000000) 1000000 (fd_units (rr_input_cost r))"
proof -
  obtain r where r: "rate_usage sample_pricing (xu_new 1000 500) = Inr r"
    by (simp add: rating_eval)
  moreover have "fd_units (rr_total_cost r) = 15000 + 30000 + 10000"
    using r by (auto simp: rating_eval)
  ultimately show ?thesis
    using rate_usage_exact [OF r]
    by (auto simp: category_cost_def xu_new_def sample_pricing_def TOKENS_PER_MILLION_def)
qed

text \<open>Pricing rules read from JSON are well-formed (one valid scale, non-negative amounts, a valid
  currency), so rating with them can fail in one way only, arithmetic overflow.\<close>

theorem parsed_pricing_only_overflows:
  assumes "pricing_from_json_str j text = Inr p"
  shows "pricing_ok p \<and> (case rate_usage p u of Inl e \<Rightarrow> e = RE_ArithmeticOverflow
                          | Inr r \<Rightarrow> 0 \<le> fd_units (rr_total_cost r) \<and> fd_scale (rr_total_cost r) = pr_scale p)"
proof -
  have p: "pricing_ok p"
    using assms pricing_from_json_value_ok by (auto simp: pricing_from_json_str_def result_simps)
  have "0 \<le> fd_units (rr_total_cost r) \<and> fd_scale (rr_total_cost r) = pr_scale p"
    if "rate_usage p u = Inr r" for r
    using rate_usage_parts(1-4) [OF that, THEN category_cost_nonneg] rate_usage_parts(5,6) [OF that] p
    by (simp add: pricing_ok_def opt_units_def [of "Some _"])
  then show ?thesis using p by (cases "rate_usage p u") (auto dest: rate_usage_Inl)
qed

text \<open>A small JSON document type, for evaluating the parametric definitions on concrete documents.\<close>

datatype jdoc = JNull | JNum u64 | JObj "(string \<times> jdoc) list"

definition jdoc_get :: "jdoc \<Rightarrow> string \<Rightarrow> jdoc option" where
  "jdoc_get v k = (case v of JObj kvs \<Rightarrow> map_of kvs k | _ \<Rightarrow> None)"

definition jdoc_num :: "jdoc \<Rightarrow> u64 option" where
  "jdoc_num v = (case v of JNum n \<Rightarrow> Some n | _ \<Rightarrow> None)"

definition jdoc_wire :: "jdoc \<Rightarrow> string + jdoc pricing_rules_wire" where
  "jdoc_wire v = Inr \<lparr>pw_currency = None, pw_scale = None,
     pw_input_rate = jdoc_get v ''input_token_rate_per_1m'',
     pw_output_rate = jdoc_get v ''output_token_rate_per_1m'', pw_cache_rate = None,
     pw_reasoning_rate = None, pw_fixed_request_cost = None\<rparr>"

definition jdoc_view :: "jdoc \<Rightarrow> json_view" where
  "jdoc_view v = (case v of JNull \<Rightarrow> JV_Null | JNum n \<Rightarrow> JV_Number None (Some n) | JObj _ \<Rightarrow> JV_Other)"

definition jdoc_api :: "jdoc \<Rightarrow> jdoc json_api" where
  "jdoc_api doc =
     \<lparr>json_from_str = (\<lambda>_. Inr doc), json_wire = jdoc_wire, json_get = jdoc_get,
      json_is_object = (\<lambda>v. case v of JObj _ \<Rightarrow> True | _ \<Rightarrow> False),
      json_is_null = (\<lambda>v. v = JNull), json_as_u64 = jdoc_num, json_view = jdoc_view\<rparr>"

lemmas jdoc_eval = jdoc_api_def jdoc_get_def jdoc_num_def jdoc_wire_def jdoc_view_def

theorem parsed_pricing_only_overflows_witness:
  "\<exists>p. pricing_from_json_str (jdoc_api (JObj [(''input_token_rate_per_1m'', JNum 15000000)])) ''{}'' = Inr p
     \<and> pricing_ok p"
proof -
  obtain p where
    "pricing_from_json_str (jdoc_api (JObj [(''input_token_rate_per_1m'', JNum 15000000)])) ''{}'' = Inr p"
    by (simp add: pricing_from_json_str_def pricing_from_json_value_def jdoc_eval Let_def
        validate_scale_def DEFAULT_MONEY_SCALE_def MAX_MONEY_SCALE_def validate_currency_def
        currency_ok_def DEFAULT_CURRENCY_def is_ascii_uppercase_def byte_of_def
        parse_optional_money_field_def fd_zero_def from_units_def reject_negative_def)
  from this parsed_pricing_only_overflows [OF this] show ?thesis by blast
qed

text \<open>Charges are monotone: a request with at least as many tokens in every category never costs
  less.\<close>

theorem rate_usage_monotone:
  assumes "pricing_ok p" "rate_usage p u = Inr r" "rate_usage p u' = Inr r'"
    and "xu_input_tokens u \<le> xu_input_tokens u'" "xu_output_tokens u \<le> xu_output_tokens u'"
    and "opt_tokens (xu_cache_tokens u) \<le> opt_tokens (xu_cache_tokens u')"
    and "opt_tokens (xu_reasoning_tokens u) \<le> opt_tokens (xu_reasoning_tokens u')"
  shows "rr_total_cost r \<le> rr_total_cost r'"
proof -
  note c = rate_usage_parts [OF assms(2)] and c' = rate_usage_parts [OF assms(3)]
  note nn = pricing_okD(1) [OF assms(1)]
  have "opt_units (Some (rr_input_cost r)) \<le> opt_units (Some (rr_input_cost r'))"
    using category_cost_mono [OF c(1) c'(1)] assms(4) nn by (simp add: opt_tokens_def word_le_def)
  moreover have "opt_units (Some (rr_output_cost r)) \<le> opt_units (Some (rr_output_cost r'))"
    using category_cost_mono [OF c(2) c'(2)] assms(5) nn by (simp add: opt_tokens_def word_le_def)
  moreover have "opt_units (rr_cache_cost r) \<le> opt_units (rr_cache_cost r')"
    using category_cost_mono [OF c(3) c'(3) assms(6)] nn by simp
  moreover have "opt_units (rr_reasoning_cost r) \<le> opt_units (rr_reasoning_cost r')"
    using category_cost_mono [OF c(4) c'(4) assms(7)] nn by simp
  ultimately show ?thesis
    using c(5,6) c'(5,6) by (auto simp: less_eq_fixed_decimal_def opt_units_def [of "Some _"])
qed

theorem rate_usage_monotone_witness:
  "\<exists>r r'. rate_usage sample_pricing (xu_new 1000 500) = Inr r
      \<and> rate_usage sample_pricing (xu_new 1001 500) = Inr r' \<and> rr_total_cost r \<le> rr_total_cost r'"
proof -
  obtain r r' where r: "rate_usage sample_pricing (xu_new 1000 500) = Inr r"
    "rate_usage sample_pricing (xu_new 1001 500) = Inr r'"
    by (simp add: rating_eval)
  have "pricing_ok sample_pricing"
    by (simp add: pricing_ok_def rating_eval currency_ok_def is_ascii_uppercase_def byte_of_def)
  from rate_usage_monotone [OF this r] r show ?thesis by (auto simp: xu_new_def)
qed

lemma word_checked_sub_uint:
  "word_checked_sub a b = Some c \<longleftrightarrow> uint b + uint c = uint a" for a b c :: u64
  unfolding word_checked_sub_eq_Some uint_nat of_nat_add [symmetric] of_nat_eq_iff ..

lemma subtract_category_Inr:
  "subtract_category t c a b = Inr x \<Longrightarrow> uint x + opt_tokens c = uint t"
  by (auto simp: subtract_category_def opt_tokens_def result_simps word_checked_sub_uint
      split: option.splits)

lemma usage_build:
  "(case r of
      None \<Rightarrow> (case c of None \<Rightarrow> xu_new i out | Some t \<Rightarrow> with_cache_tokens (xu_new i out) t)
    | Some t' \<Rightarrow> with_reasoning_tokens
                   (case c of None \<Rightarrow> xu_new i out | Some t \<Rightarrow> with_cache_tokens (xu_new i out) t) t')
   = \<lparr>xu_input_tokens = i, xu_output_tokens = out, xu_cache_tokens = c, xu_reasoning_tokens = r\<rparr>"
  by (cases c; cases r) (simp_all add: xu_new_def with_cache_tokens_def with_reasoning_tokens_def)

lemma option_case_eq_Some:
  "(case m of None \<Rightarrow> Inr None | Some x \<Rightarrow> f x) = Inr (Some y) \<longleftrightarrow> (\<exists>x. m = Some x \<and> f x = Inr (Some y))"
  by (cases m) auto

text \<open>The usage
  read from a provider response conserves tokens: the plain and cached input tokens
  add up to the reported input total, and the plain and reasoning output tokens to the output total,
  which is the reported one or, when none is reported, the grand total minus the input total. No
  token is charged in two categories.\<close>

theorem extracted_usage_conserves_tokens:
  assumes "extract_runtime_token_usage_from_value j v = Inr (Some u)"
  shows "\<exists>usage input_total output_total.
      runtime_usage_object j v = Some usage
    \<and> first_present_usage_u64 j usage input_total_fields = Inr (Some input_total)
    \<and> uint (xu_input_tokens u) + opt_tokens (xu_cache_tokens u) = uint input_total
    \<and> uint (xu_output_tokens u) + opt_tokens (xu_reasoning_tokens u) = uint output_total
    \<and> (first_present_usage_u64 j usage output_total_fields = Inr (Some output_total)
       \<or> first_present_usage_u64 j usage output_total_fields = Inr None
         \<and> (\<exists>grand. first_present_usage_u64 j usage grand_total_fields = Inr (Some grand)
                     \<and> uint input_total + uint output_total = uint grand))"
proof -
  have d: "\<exists>grand. first_present_usage_u64 j usage grand_total_fields = Inr (Some grand)
                     \<and> uint i + uint x = uint grand"
    if "transpose_opt (derive_output_tokens_from_total j usage i) = Inr (Some x)" for usage i x
    using that by (auto simp: derive_output_tokens_from_total_def result_simps word_checked_sub_uint
        split: sum.splits option.splits)
  obtain usage i found out where e: "runtime_usage_object j v = Some usage"
      "first_present_usage_u64 j usage input_total_fields = Inr (Some i)"
      "first_present_usage_u64 j usage output_total_fields = Inr found"
      "(case found of Some t \<Rightarrow> Inr (Some t)
        | None \<Rightarrow> transpose_opt (derive_output_tokens_from_total j usage i)) = Inr (Some out)"
      "uint (xu_input_tokens u) + opt_tokens (xu_cache_tokens u) = uint i"
      "uint (xu_output_tokens u) + opt_tokens (xu_reasoning_tokens u) = uint out"
    using assms
    unfolding extract_runtime_token_usage_from_value_def Let_def usage_build option_case_eq_Some rbind_eq_Inr
    by (auto dest!: subtract_category_Inr)
  show ?thesis
  proof (cases found)
    case None
    with e d [of usage i out] show ?thesis by auto
  qed (use e in auto)
qed

definition sample_usage_doc :: jdoc where
  "sample_usage_doc = JObj [(''usage'', JObj [(''prompt_tokens'', JNum 100), (''total_tokens'', JNum 150),
     (''cached_tokens'', JNum 20)])]"

theorem extracted_usage_conserves_tokens_witness:
  "\<exists>u. extract_runtime_token_usage_from_value (jdoc_api JNull) sample_usage_doc = Inr (Some u)
     \<and> uint (xu_input_tokens u) + opt_tokens (xu_cache_tokens u) = 100
     \<and> xu_output_tokens u = 50"
proof -
  let ?j = "jdoc_api JNull"
  obtain u where u: "extract_runtime_token_usage_from_value ?j sample_usage_doc = Inr (Some u)"
    and out: "xu_output_tokens u = 50"
    by (simp add: extract_runtime_token_usage_from_value_def runtime_usage_object_def object_field_def
        sample_usage_doc_def jdoc_eval input_total_fields_def output_total_fields_def grand_total_fields_def
        cache_fields_def reasoning_fields_def usage_u64_at_path_def derive_output_tokens_from_total_def
        subtract_category_def word_checked_sub_def xu_new_def with_cache_tokens_def Let_def)
  have "first_present_usage_u64 ?j usage input_total_fields = Inr (Some i) \<Longrightarrow> i = 100"
    if "runtime_usage_object ?j sample_usage_doc = Some usage" for usage i
    using that by (auto simp: runtime_usage_object_def object_field_def sample_usage_doc_def jdoc_eval
        input_total_fields_def usage_u64_at_path_def)
  with extracted_usage_conserves_tokens [OF u] u out show ?thesis by fastforce
qed

end
