(* ===== verification/ExactCache.thy ===== *)
theory ExactCache
  imports Rating Ledger
begin

text \<open>
  Billing of requests served by the exact response cache (\<open>exact_cache.rs\<close>).

  A cache lookup is turned into a decision (hit, miss, partial hit with the split of the input tokens);
  a billing request is validated, rated per category and settled on the ledger under the request's
  settle key. The status and policy enumerations and the ledger metadata are in \<open>Ledger\<close>, which
  stores them. Tokens are \<open>u64\<close> words, and the one subtraction of the rating wraps as the machine
  does; the lemmas show that validation rules the wrap-around out.
\<close>

section \<open>Data\<close>

datatype exact_cache_error =
    XE_InvalidCacheKeyHash
  | XE_CacheHitEntryIdRequired
  | XE_CacheReadTokensExceedInputTokens
  | XE_InvalidHitTokenSplit
  | XE_InvalidMissTokenSplit
  | XE_InvalidPartialHitTokenSplit
  | XE_NegativeMoney string
  | XE_Rating rating_error
  | XE_Ledger ledger_error

record exact_cache_pricing_rules =
  cp_currency :: string
  cp_scale :: nat
  cp_input_rate :: fixed_decimal
  cp_output_rate :: fixed_decimal
  cp_cache_read_rate :: fixed_decimal
  cp_cache_write_rate :: fixed_decimal
  cp_fixed_cache_read_cost :: fixed_decimal
  cp_fixed_cache_write_cost :: fixed_decimal
  cp_fixed_request_cost :: fixed_decimal

record exact_cache_billing_request =
  cr_request_id :: uuid
  cr_status :: exact_cache_status
  cr_cache_key_hash :: string
  cr_cache_entry_id :: "uuid option"
  cr_input_tokens :: u64
  cr_output_tokens :: u64
  cr_cache_read_tokens :: u64
  cr_cache_write_tokens :: u64
  cr_read_policy :: exact_cache_read_policy
  cr_write_policy :: exact_cache_write_policy

record exact_cache_decision_input =
  di_cache_entry_id :: "uuid option"
  di_input_tokens :: u64
  di_matched_input_tokens :: u64

record exact_cache_decision =
  cd_status :: exact_cache_status
  cd_cache_entry_id :: "uuid option"
  cd_input_tokens :: u64
  cd_cached_input_tokens :: u64
  cd_billable_input_tokens :: u64
  cd_cache_read_tokens :: u64
  cd_cache_write_tokens :: u64

record exact_cache_rating_result =
  xr_status :: exact_cache_status
  xr_input_tokens :: u64
  xr_cached_input_tokens :: u64
  xr_billable_input_tokens :: u64
  xr_output_tokens :: u64
  xr_cache_read_tokens :: u64
  xr_cache_write_tokens :: u64
  xr_read_policy :: exact_cache_read_policy
  xr_write_policy :: exact_cache_write_policy
  xr_input_cost :: fixed_decimal
  xr_output_cost :: fixed_decimal
  xr_cache_read_cost :: fixed_decimal
  xr_cache_write_cost :: fixed_decimal
  xr_fixed_request_cost :: fixed_decimal
  xr_total_cost :: fixed_decimal
  xr_currency :: string
  xr_scale :: nat

record exact_cache_billing_plan =
  xp_status :: exact_cache_status
  xp_cache_operation_key :: "string option"
  xp_cache_read_key :: "string option"
  xp_cache_write_key :: "string option"
  xp_ledger_key :: "string option"
  xp_rating :: exact_cache_rating_result
  xp_ledger_plan :: "ledger_operation_plan option"

section \<open>Operations\<close>

definition decide_exact_cache_request ::
  "exact_cache_decision_input \<Rightarrow> exact_cache_error + exact_cache_decision" where
  "decide_exact_cache_request input =
     (if di_matched_input_tokens input > di_input_tokens input
      then Inl XE_CacheReadTokensExceedInputTokens
      else if di_matched_input_tokens input > 0 \<and> di_cache_entry_id input = None
      then Inl XE_CacheHitEntryIdRequired
      else
        let billable_input_tokens = di_input_tokens input - di_matched_input_tokens input;
            cache_status = (if di_matched_input_tokens input = 0 then CS_Miss
                            else if billable_input_tokens = 0 then CS_Hit else CS_PartialHit)
        in Inr \<lparr>cd_status = cache_status,
                cd_cache_entry_id = (case cache_status of
                    CS_Hit \<Rightarrow> di_cache_entry_id input
                  | CS_PartialHit \<Rightarrow> di_cache_entry_id input
                  | CS_Miss \<Rightarrow> None),
                cd_input_tokens = di_input_tokens input,
                cd_cached_input_tokens = di_matched_input_tokens input,
                cd_billable_input_tokens = billable_input_tokens,
                cd_cache_read_tokens = di_matched_input_tokens input,
                cd_cache_write_tokens = billable_input_tokens\<rparr>)"

definition validate_cache_key_hash :: "string \<Rightarrow> exact_cache_error + unit" where
  "validate_cache_key_hash cache_key_hash =
     (case strip_prefix ''sha256:'' cache_key_hash of
        None \<Rightarrow> Inl XE_InvalidCacheKeyHash
      | Some digest \<Rightarrow>
          if length digest = 64 \<and> list_all is_ascii_hexdigit digest then Inr ()
          else Inl XE_InvalidCacheKeyHash)"

definition exact_cache_read_idempotency_key ::
  "(uuid \<Rightarrow> string) \<Rightarrow> uuid \<Rightarrow> string \<Rightarrow> exact_cache_error + string" where
  "exact_cache_read_idempotency_key fmt request_id cache_key_hash =
     rbind (validate_cache_key_hash cache_key_hash) (\<lambda>_.
     Inr (''exact_cache:read:'' @ fmt request_id @ '':'' @ cache_key_hash))"

definition exact_cache_write_idempotency_key ::
  "(uuid \<Rightarrow> string) \<Rightarrow> uuid \<Rightarrow> string \<Rightarrow> exact_cache_error + string" where
  "exact_cache_write_idempotency_key fmt request_id cache_key_hash =
     rbind (validate_cache_key_hash cache_key_hash) (\<lambda>_.
     Inr (''exact_cache:write:'' @ fmt request_id @ '':'' @ cache_key_hash))"

definition validate_cache_request_shape :: "exact_cache_billing_request \<Rightarrow> exact_cache_error + unit" where
  "validate_cache_request_shape request =
     (if cr_cache_read_tokens request > cr_input_tokens request
      then Inl XE_CacheReadTokensExceedInputTokens
      else case cr_status request of
        CS_Hit \<Rightarrow>
          if cr_cache_entry_id request = None then Inl XE_CacheHitEntryIdRequired
          else if cr_cache_read_tokens request \<noteq> cr_input_tokens request
          then Inl XE_InvalidHitTokenSplit
          else Inr ()
      | CS_Miss \<Rightarrow>
          if cr_cache_read_tokens request \<noteq> 0 then Inl XE_InvalidMissTokenSplit else Inr ()
      | CS_PartialHit \<Rightarrow>
          if cr_cache_entry_id request = None then Inl XE_CacheHitEntryIdRequired
          else if cr_cache_read_tokens request = 0
                  \<or> cr_cache_read_tokens request = cr_input_tokens request
          then Inl XE_InvalidPartialHitTokenSplit
          else Inr ())"

definition ensure_non_negative_money :: "string \<Rightarrow> fixed_decimal \<Rightarrow> exact_cache_error + unit" where
  "ensure_non_negative_money field amount =
     (if fd_units amount \<ge> 0 then Inr () else Inl (XE_NegativeMoney field))"

definition ensure_pricing_is_non_negative :: "exact_cache_pricing_rules \<Rightarrow> exact_cache_error + unit" where
  "ensure_pricing_is_non_negative pricing =
     rbind (ensure_non_negative_money ''input_token_rate_per_million'' (cp_input_rate pricing)) (\<lambda>_.
     rbind (ensure_non_negative_money ''output_token_rate_per_million'' (cp_output_rate pricing)) (\<lambda>_.
     rbind (ensure_non_negative_money ''cache_read_token_rate_per_million''
              (cp_cache_read_rate pricing)) (\<lambda>_.
     rbind (ensure_non_negative_money ''cache_write_token_rate_per_million''
              (cp_cache_write_rate pricing)) (\<lambda>_.
     rbind (ensure_non_negative_money ''fixed_cache_read_cost'' (cp_fixed_cache_read_cost pricing)) (\<lambda>_.
     rbind (ensure_non_negative_money ''fixed_cache_write_cost'' (cp_fixed_cache_write_cost pricing)) (\<lambda>_.
     rbind (ensure_non_negative_money ''fixed_request_cost'' (cp_fixed_request_cost pricing)) (\<lambda>_.
     Inr ())))))))"

text \<open>The cost components, one definition per \<open>match\<close> of \<open>rate_exact_cache_request\<close>.\<close>

definition cache_request_costs ::
  "exact_cache_billing_request \<Rightarrow> exact_cache_pricing_rules \<Rightarrow> fixed_decimal \<Rightarrow> u64
   \<Rightarrow> exact_cache_error + fixed_decimal \<times> fixed_decimal \<times> fixed_decimal" where
  "cache_request_costs request pricing zero billable_input_tokens =
     (case cr_status request of
        CS_Hit \<Rightarrow> Inr (zero, zero, zero)
      | _ \<Rightarrow>
          rbind (map_err XE_Rating (rate_tokens billable_input_tokens (cp_input_rate pricing))) (\<lambda>input_cost.
          rbind (map_err XE_Rating (rate_tokens (cr_output_tokens request) (cp_output_rate pricing)))
            (\<lambda>output_cost.
          Inr (input_cost, output_cost, cp_fixed_request_cost pricing))))"

definition cache_read_cost ::
  "exact_cache_billing_request \<Rightarrow> exact_cache_pricing_rules \<Rightarrow> fixed_decimal
   \<Rightarrow> exact_cache_error + fixed_decimal" where
  "cache_read_cost request pricing zero =
     (case (cr_status request, cr_read_policy request) of
        (CS_Miss, _) \<Rightarrow> Inr zero
      | (_, RP_DiscountedInputTokens) \<Rightarrow>
          map_err XE_Rating (rate_tokens (cr_cache_read_tokens request) (cp_cache_read_rate pricing))
      | (_, RP_FixedCost) \<Rightarrow> Inr (cp_fixed_cache_read_cost pricing)
      | (_, RP_Disabled) \<Rightarrow> Inr zero)"

definition cache_write_cost ::
  "exact_cache_billing_request \<Rightarrow> exact_cache_pricing_rules \<Rightarrow> fixed_decimal
   \<Rightarrow> exact_cache_error + fixed_decimal" where
  "cache_write_cost request pricing zero =
     (case (cr_status request, cr_write_policy request) of
        (CS_Hit, _) \<Rightarrow> Inr zero
      | (_, WP_TokenRate) \<Rightarrow>
          map_err XE_Rating (rate_tokens (cr_cache_write_tokens request) (cp_cache_write_rate pricing))
      | (_, WP_FixedCost) \<Rightarrow> Inr (cp_fixed_cache_write_cost pricing)
      | (_, WP_Disabled) \<Rightarrow> Inr zero)"

definition rate_exact_cache_request ::
  "exact_cache_billing_request \<Rightarrow> exact_cache_pricing_rules
   \<Rightarrow> exact_cache_error + exact_cache_rating_result" where
  "rate_exact_cache_request request pricing =
     rbind (ensure_pricing_is_non_negative pricing) (\<lambda>_.
     rbind (map_err XE_Rating (fd_zero (cp_scale pricing))) (\<lambda>zero.
     let cached_input_tokens = (case cr_status request of
             CS_Miss \<Rightarrow> 0 | _ \<Rightarrow> cr_cache_read_tokens request);
         billable_input_tokens = cr_input_tokens request - cached_input_tokens
     in
     rbind (cache_request_costs request pricing zero billable_input_tokens)
       (\<lambda>(input_cost, output_cost, fixed_request_cost).
     rbind (cache_read_cost request pricing zero) (\<lambda>read_cost.
     rbind (cache_write_cost request pricing zero) (\<lambda>write_cost.
     rbind (map_err XE_Rating (fd_checked_add input_cost output_cost)) (\<lambda>total1.
     rbind (map_err XE_Rating (fd_checked_add total1 read_cost)) (\<lambda>total2.
     rbind (map_err XE_Rating (fd_checked_add total2 write_cost)) (\<lambda>total3.
     rbind (map_err XE_Rating (fd_checked_add total3 fixed_request_cost)) (\<lambda>total_cost.
     Inr \<lparr>xr_status = cr_status request,
          xr_input_tokens = cr_input_tokens request,
          xr_cached_input_tokens = cached_input_tokens,
          xr_billable_input_tokens = billable_input_tokens,
          xr_output_tokens = cr_output_tokens request,
          xr_cache_read_tokens = cr_cache_read_tokens request,
          xr_cache_write_tokens = cr_cache_write_tokens request,
          xr_read_policy = cr_read_policy request,
          xr_write_policy = cr_write_policy request,
          xr_input_cost = input_cost, xr_output_cost = output_cost,
          xr_cache_read_cost = read_cost, xr_cache_write_cost = write_cost,
          xr_fixed_request_cost = fixed_request_cost, xr_total_cost = total_cost,
          xr_currency = cp_currency pricing, xr_scale = cp_scale pricing\<rparr>)))))))))"

text \<open>The metadata of the settle entry.\<close>

definition cache_ledger_metadata ::
  "exact_cache_billing_request \<Rightarrow> exact_cache_rating_result \<Rightarrow> exact_cache_ledger_metadata" where
  "cache_ledger_metadata request rating =
     \<lparr>ecm_status = cr_status request, ecm_cache_key_hash = cr_cache_key_hash request,
      ecm_cache_entry_id = cr_cache_entry_id request,
      ecm_read_policy = cr_read_policy request, ecm_write_policy = cr_write_policy request,
      ecm_usage_summary =
        \<lparr>us_input_tokens = cr_input_tokens request,
         us_cached_input_tokens = xr_cached_input_tokens rating,
         us_billable_input_tokens = xr_billable_input_tokens rating,
         us_output_tokens = cr_output_tokens request,
         us_cache_read_tokens = cr_cache_read_tokens request,
         us_cache_write_tokens = cr_cache_write_tokens request\<rparr>\<rparr>"

definition plan_exact_cache_billing ::
  "(uuid \<Rightarrow> string) \<Rightarrow> exact_cache_billing_request \<Rightarrow> exact_cache_pricing_rules \<Rightarrow> ledger
   \<Rightarrow> exact_cache_error + exact_cache_billing_plan" where
  "plan_exact_cache_billing fmt request pricing existing_entries =
     rbind (validate_cache_key_hash (cr_cache_key_hash request)) (\<lambda>_.
     rbind (validate_cache_request_shape request) (\<lambda>_.
     rbind (case cr_status request of
              CS_Miss \<Rightarrow> Inr None
            | _ \<Rightarrow> map_ok Some (exact_cache_read_idempotency_key fmt (cr_request_id request)
                                 (cr_cache_key_hash request))) (\<lambda>read_key.
     rbind (if cr_status request \<noteq> CS_Hit \<and> cr_write_policy request \<noteq> WP_Disabled
            then map_ok Some (exact_cache_write_idempotency_key fmt (cr_request_id request)
                                (cr_cache_key_hash request))
            else Inr None) (\<lambda>write_key.
     rbind (case cr_status request of
              CS_Miss \<Rightarrow> Inr write_key
            | _ \<Rightarrow> map_ok Some (exact_cache_read_idempotency_key fmt (cr_request_id request)
                                 (cr_cache_key_hash request))) (\<lambda>operation_key.
     rbind (rate_exact_cache_request request pricing) (\<lambda>rating.
     let ledger_key = (if fd_is_zero (xr_total_cost rating) then None
                       else Some (settle_ledger_idempotency_key fmt (cr_request_id request)))
     in
     rbind (if fd_is_zero (xr_total_cost rating) then Inr None
            else map_ok Some (map_err XE_Ledger
                   (plan_ledger_settle_with_metadata fmt
                      \<lparr>slr_request_id = cr_request_id request,
                       slr_final_cost = xr_total_cost rating,
                       slr_currency = xr_currency rating\<rparr>
                      existing_entries
                      (settle_with_exact_cache (cr_request_id request)
                         (cache_ledger_metadata request rating))))) (\<lambda>ledger_plan.
     Inr \<lparr>xp_status = cr_status request, xp_cache_operation_key = operation_key,
          xp_cache_read_key = read_key, xp_cache_write_key = write_key,
          xp_ledger_key = ledger_key, xp_rating = rating,
          xp_ledger_plan = ledger_plan\<rparr>)))))))"

section \<open>What a request is charged\<close>

text \<open>The reference price list: what a request pays for, with token counts as plain integers, and the
  price of an item in units, rounded half up once per item.\<close>

datatype cost_item = PerMillion int fixed_decimal | Flat fixed_decimal

definition item_units :: "cost_item \<Rightarrow> int" where
  "item_units i = (case i of
      PerMillion n rate \<Rightarrow> (2 * (n * fd_units rate) + 1000000) div 2000000
    | Flat d \<Rightarrow> fd_units d)"

definition base_items :: "exact_cache_billing_request \<Rightarrow> exact_cache_pricing_rules \<Rightarrow> cost_item list" where
  "base_items r p =
     (if cr_status r = CS_Hit then []
      else [PerMillion (uint (cr_input_tokens r) - uint (cr_cache_read_tokens r)) (cp_input_rate p),
            PerMillion (uint (cr_output_tokens r)) (cp_output_rate p), Flat (cp_fixed_request_cost p)])"

definition read_items :: "exact_cache_billing_request \<Rightarrow> exact_cache_pricing_rules \<Rightarrow> cost_item list" where
  "read_items r p =
     (if cr_status r = CS_Miss then []
      else case cr_read_policy r of
        RP_Disabled \<Rightarrow> []
      | RP_DiscountedInputTokens \<Rightarrow> [PerMillion (uint (cr_cache_read_tokens r)) (cp_cache_read_rate p)]
      | RP_FixedCost \<Rightarrow> [Flat (cp_fixed_cache_read_cost p)])"

definition write_items :: "exact_cache_billing_request \<Rightarrow> exact_cache_pricing_rules \<Rightarrow> cost_item list" where
  "write_items r p =
     (if cr_status r = CS_Hit then []
      else case cr_write_policy r of
        WP_Disabled \<Rightarrow> []
      | WP_TokenRate \<Rightarrow> [PerMillion (uint (cr_cache_write_tokens r)) (cp_cache_write_rate p)]
      | WP_FixedCost \<Rightarrow> [Flat (cp_fixed_cache_write_cost p)])"

definition charged_items :: "exact_cache_billing_request \<Rightarrow> exact_cache_pricing_rules \<Rightarrow> cost_item list" where
  "charged_items r p = base_items r p @ read_items r p @ write_items r p"

definition items_units :: "cost_item list \<Rightarrow> int" where
  "items_units is = sum_list (map item_units is)"

lemma items_units_simps [simp]:
  "items_units [] = 0" "items_units (i # is) = item_units i + items_units is"
  "items_units (is @ js) = items_units is + items_units js"
  by (simp_all add: items_units_def)

lemma rounds_half_up_div: "rounds_half_up n TOKENS_PER_MILLION q \<Longrightarrow> (2 * n + 1000000) div 2000000 = q"
  by (rule int_div_pos_eq [of _ _ _ "2 * n + 1000000 - 2000000 * q"])
     (auto simp: rounds_half_up_def TOKENS_PER_MILLION_def)

lemma rate_tokens_item:
  "rate_tokens t rate = Inr c \<Longrightarrow> fd_units c = item_units (PerMillion (uint t) rate)"
  by (auto simp: rate_tokens_Inr_iff item_units_def dest!: rounds_half_up_div)

lemma ensure_pricing_is_non_negative_eq_Inr:
  "ensure_pricing_is_non_negative p = Inr () \<longleftrightarrow>
     (\<forall>d \<in> {cp_input_rate p, cp_output_rate p, cp_cache_read_rate p, cp_cache_write_rate p,
             cp_fixed_cache_read_cost p, cp_fixed_cache_write_cost p, cp_fixed_request_cost p}.
        0 \<le> fd_units d)"
  by (auto simp: ensure_pricing_is_non_negative_def ensure_non_negative_money_def result_simps
      split: if_splits)

lemma validate_cache_request_shape_eq_Inr:
  "validate_cache_request_shape r = Inr () \<longleftrightarrow>
     cr_cache_read_tokens r \<le> cr_input_tokens r
     \<and> (cr_status r \<noteq> CS_Miss \<longrightarrow> cr_cache_entry_id r \<noteq> None)
     \<and> (cr_status r = CS_Hit \<longrightarrow> cr_cache_read_tokens r = cr_input_tokens r)
     \<and> (cr_status r = CS_Miss \<longleftrightarrow> cr_cache_read_tokens r = 0 \<and> cr_status r \<noteq> CS_Hit)
     \<and> (cr_status r = CS_PartialHit \<longrightarrow> cr_cache_read_tokens r \<noteq> cr_input_tokens r)"
  by (cases "cr_status r") (auto simp: validate_cache_request_shape_def split: if_splits)

lemma uint_sub_le: "b \<le> a \<Longrightarrow> uint (a - b) = uint a - uint b" for a b :: "'a::len word"
  by (simp add: uint_minus_simple_alt word_le_def)

lemma cache_request_costs_units:
  assumes "cache_request_costs r p (FixedDecimal 0 s) (cr_input_tokens r - cr_cache_read_tokens r)
      = Inr (ic, oc, fc)"
    and "cr_cache_read_tokens r \<le> cr_input_tokens r"
  shows "fd_units ic + fd_units oc + fd_units fc = items_units (base_items r p)"
  using assms
  by (cases "cr_status r")
     (auto simp: cache_request_costs_def base_items_def result_simps uint_sub_le item_units_def [of "Flat _"]
       dest!: rate_tokens_item)

lemma cache_read_cost_units:
  "cache_read_cost r p (FixedDecimal 0 s) = Inr c \<Longrightarrow> fd_units c = items_units (read_items r p)"
  by (cases "cr_status r"; cases "cr_read_policy r")
     (auto simp: cache_read_cost_def read_items_def result_simps item_units_def [of "Flat _"]
       dest!: rate_tokens_item)

lemma cache_write_cost_units:
  "cache_write_cost r p (FixedDecimal 0 s) = Inr c \<Longrightarrow> fd_units c = items_units (write_items r p)"
  by (cases "cr_status r"; cases "cr_write_policy r")
     (auto simp: cache_write_cost_def write_items_def result_simps item_units_def [of "Flat _"]
       dest!: rate_tokens_item)

lemma rate_exact_cache_request_parts:
  assumes "rate_exact_cache_request r p = Inr x" "validate_cache_request_shape r = Inr ()"
  shows "ensure_pricing_is_non_negative p = Inr ()"
    and "fd_units (xr_total_cost x) = items_units (charged_items r p)"
    and "in_i128 (fd_units (xr_total_cost x))"
    and "uint (xr_cached_input_tokens x) = uint (cr_cache_read_tokens r)"
    and "uint (xr_cached_input_tokens x) + uint (xr_billable_input_tokens x) = uint (cr_input_tokens r)"
    and "xr_currency x = cp_currency p"
proof -
  let ?cached = "case cr_status r of CS_Miss \<Rightarrow> 0 | _ \<Rightarrow> cr_cache_read_tokens r"
  have le: "cr_cache_read_tokens r \<le> cr_input_tokens r"
    and cached: "?cached = cr_cache_read_tokens r"
    using assms(2) by (auto simp: validate_cache_request_shape_eq_Inr split: exact_cache_status.splits)
  from assms(1) obtain ic oc fc rc wc t1 t2 t3 where
    "ensure_pricing_is_non_negative p = Inr ()" and
    costs: "cache_request_costs r p (FixedDecimal 0 (cp_scale p))
        (cr_input_tokens r - cr_cache_read_tokens r) = Inr (ic, oc, fc)"
      "cache_read_cost r p (FixedDecimal 0 (cp_scale p)) = Inr rc"
      "cache_write_cost r p (FixedDecimal 0 (cp_scale p)) = Inr wc"
    and sums: "fd_checked_add ic oc = Inr t1" "fd_checked_add t1 rc = Inr t2"
      "fd_checked_add t2 wc = Inr t3" "fd_checked_add t3 fc = Inr (xr_total_cost x)"
    and "xr_cached_input_tokens x = cr_cache_read_tokens r"
      "xr_billable_input_tokens x = cr_input_tokens r - cr_cache_read_tokens r"
      "xr_currency x = cp_currency p"
    unfolding rate_exact_cache_request_def Let_def cached by (auto simp: result_simps split: prod.splits)
  then show "ensure_pricing_is_non_negative p = Inr ()"
    "uint (xr_cached_input_tokens x) = uint (cr_cache_read_tokens r)"
    "uint (xr_cached_input_tokens x) + uint (xr_billable_input_tokens x) = uint (cr_input_tokens r)"
    "xr_currency x = cp_currency p"
    using le by (simp_all add: uint_sub_le)
  show "fd_units (xr_total_cost x) = items_units (charged_items r p)" "in_i128 (fd_units (xr_total_cost x))"
    using sums cache_request_costs_units [OF costs(1) le] cache_read_cost_units [OF costs(2)]
      cache_write_cost_units [OF costs(3)]
    by (auto simp: fd_checked_add_eq_Inr charged_items_def)
qed

lemma item_units_nonneg:
  "0 \<le> n \<Longrightarrow> 0 \<le> fd_units d \<Longrightarrow> 0 \<le> item_units (PerMillion n d)"
  "0 \<le> fd_units d \<Longrightarrow> 0 \<le> item_units (Flat d)"
  by (simp_all add: item_units_def pos_imp_zdiv_nonneg_iff)

lemma charged_items_nonneg:
  assumes "ensure_pricing_is_non_negative p = Inr ()" "cr_cache_read_tokens r \<le> cr_input_tokens r"
  shows "0 \<le> items_units (base_items r p)" "0 \<le> items_units (read_items r p)"
    "0 \<le> items_units (write_items r p)"
  using assms unfolding ensure_pricing_is_non_negative_eq_Inr
  by (auto simp: base_items_def read_items_def write_items_def word_le_def item_units_nonneg
      split: exact_cache_read_policy.splits exact_cache_write_policy.splits)

lemma plan_exact_cache_billing_cases:
  assumes "plan_exact_cache_billing fmt r p es = Inr x"
  obtains (free) "validate_cache_request_shape r = Inr ()" "rate_exact_cache_request r p = Inr (xp_rating x)"
      "fd_units (xr_total_cost (xp_rating x)) = 0" "xp_ledger_plan x = None"
    | (charged) lp where "validate_cache_request_shape r = Inr ()"
      "rate_exact_cache_request r p = Inr (xp_rating x)"
      "fd_units (xr_total_cost (xp_rating x)) \<noteq> 0" "xp_ledger_plan x = Some lp"
      "plan_ledger_settle_with_metadata fmt
         \<lparr>slr_request_id = cr_request_id r, slr_final_cost = xr_total_cost (xp_rating x),
          slr_currency = xr_currency (xp_rating x)\<rparr> es
         (settle_with_exact_cache (cr_request_id r) (cache_ledger_metadata r (xp_rating x))) = Inr lp"
  using assms unfolding plan_exact_cache_billing_def Let_def
  by (auto simp: result_simps fd_is_zero_def split: if_splits)

section \<open>Properties of cache billing\<close>

text \<open>C18. A cache request is charged exactly its price list. When a billing plan is made, the input
  tokens split into cached and billable ones with no wrap-around, the total is the sum of the items the
  request pays for under its status and policies (each token item rounded half up once), and it is not
  negative; a free request writes nothing to the ledger, and any other one settles under the
  request's settle key, either as a replay or with one entry that debits exactly the total.\<close>

theorem exact_cache_bill_exact:
  assumes "plan_exact_cache_billing fmt r p es = Inr x"
  defines "cost \<equiv> items_units (charged_items r p)"
  shows "uint (xr_cached_input_tokens (xp_rating x)) + uint (xr_billable_input_tokens (xp_rating x))
           = uint (cr_input_tokens r)
    \<and> fd_units (xr_total_cost (xp_rating x)) = cost \<and> 0 \<le> cost
    \<and> (case xp_ledger_plan x of
         None \<Rightarrow> cost = 0
       | Some lp \<Rightarrow> 0 < cost \<and> lop_key lp = settle_ledger_idempotency_key fmt (cr_request_id r)
           \<and> (case lop_outcome lp of
                LO_Idempotent i \<Rightarrow> lop_entries lp = [] \<and> lop_status_updates lp = []
              | LO_Apply \<Rightarrow> \<exists>d. lop_entries lp = [d] \<and> fd_units (led_amount d) = - cost
                  \<and> led_request_id d = Some (cr_request_id r) \<and> led_currency d = cp_currency p))"
  using assms(1)
proof (cases rule: plan_exact_cache_billing_cases)
  case free
  note rate = rate_exact_cache_request_parts [OF free(2,1)]
  from free(1) have "cr_cache_read_tokens r \<le> cr_input_tokens r"
    by (simp add: validate_cache_request_shape_eq_Inr)
  from charged_items_nonneg [OF rate(1) this] rate free show ?thesis by (simp add: cost_def charged_items_def)
next
  case (charged lp)
  note rate = rate_exact_cache_request_parts [OF charged(2,1)]
  from charged(1) have "cr_cache_read_tokens r \<le> cr_input_tokens r"
    by (simp add: validate_cache_request_shape_eq_Inr)
  from charged_items_nonneg [OF rate(1) this] have "0 \<le> cost" by (simp add: cost_def charged_items_def)
  with rate charged(3,4) show ?thesis
    using charged(5) unfolding cost_def [symmetric]
    by (elim settle_plan_cases) (simp_all add: idempotent_plan_def settle_draft_def debit_amount_eq_Inr)
qed

definition sample_cache_pricing :: exact_cache_pricing_rules where
  "sample_cache_pricing =
     \<lparr>cp_currency = ''USD'', cp_scale = 8, cp_input_rate = FixedDecimal 100000000 8,
      cp_output_rate = FixedDecimal 200000000 8, cp_cache_read_rate = FixedDecimal 5000000 8,
      cp_cache_write_rate = FixedDecimal 2000000 8, cp_fixed_cache_read_cost = FixedDecimal 100000 8,
      cp_fixed_cache_write_cost = FixedDecimal 30000 8, cp_fixed_request_cost = FixedDecimal 10000 8\<rparr>"

definition sample_key_hash :: string where
  "sample_key_hash = ''sha256:'' @ replicate 64 (CHR ''1'')"

definition sample_cache_request :: exact_cache_billing_request where
  "sample_cache_request =
     \<lparr>cr_request_id = 101, cr_status = CS_PartialHit,
      cr_cache_key_hash = sample_key_hash, cr_cache_entry_id = Some 103,
      cr_input_tokens = 2000, cr_output_tokens = 250, cr_cache_read_tokens = 1500,
      cr_cache_write_tokens = 500, cr_read_policy = RP_DiscountedInputTokens,
      cr_write_policy = WP_TokenRate\<rparr>"

lemma sample_cache_key: "validate_cache_key_hash sample_key_hash = Inr ()"
  by (simp add: sample_key_hash_def validate_cache_key_hash_def strip_prefix_def list_all_length is_ascii_hexdigit_def
      is_ascii_digit_def byte_of_def)

lemmas cache_eval =
  sample_cache_pricing_def rate_exact_cache_request_def cache_request_costs_def
  cache_read_cost_def cache_write_cost_def ensure_pricing_is_non_negative_def ensure_non_negative_money_def
  rate_tokens_def div_round_half_up_def i128_checked_mul_def i128_checked_add_def check_i128_def
  in_i128_def i128_min_def i128_max_def TOKENS_PER_MILLION_def from_units_def validate_scale_def
  MAX_MONEY_SCALE_def fd_checked_add_def fd_zero_def

lemmas cache_plan_eval =
  cache_eval sample_cache_key plan_exact_cache_billing_def exact_cache_read_idempotency_key_def
  exact_cache_write_idempotency_key_def validate_cache_request_shape_def fd_is_zero_def
  plan_ledger_settle_with_metadata_def ledger_validate_currency_def currency_ok_def
  is_ascii_uppercase_def byte_of_def debit_amount_def require_positive_def ledger_checked_neg_def
  i128_checked_neg_def find_by_idempotency_key_def find_active_settle_for_request_def
  pending_reserve_updates_for_settle_def Let_def

lemma sample_cache_plan:
  "\<exists>x. plan_exact_cache_billing uuid_hyphenated sample_cache_request sample_cache_pricing [] = Inr x
     \<and> fd_units (xr_total_cost (xp_rating x)) = 118500"
  unfolding sample_cache_request_def by (simp add: cache_plan_eval)

theorem exact_cache_bill_exact_witness:
  "items_units (charged_items sample_cache_request sample_cache_pricing) = 118500"
  using sample_cache_plan exact_cache_bill_exact [of uuid_hyphenated sample_cache_request
      sample_cache_pricing "[]"] by auto

text \<open>Cache decisions are billable: a billing request that carries the status, entry id and token
  split of a decision passes the shape validation, so the error for an impossible split never
  arises after a decision; and the decision's cached and billable tokens add up to the input tokens.\<close>

theorem decided_request_is_billable:
  assumes "decide_exact_cache_request i = Inr d"
    and "cr_status r = cd_status d" "cr_cache_entry_id r = cd_cache_entry_id d"
    and "cr_input_tokens r = cd_input_tokens d" "cr_cache_read_tokens r = cd_cache_read_tokens d"
  shows "validate_cache_request_shape r = Inr ()
    \<and> uint (cd_cached_input_tokens d) + uint (cd_billable_input_tokens d) = uint (di_input_tokens i)
    \<and> cd_cache_write_tokens d = cd_billable_input_tokens d"
  using assms
  by (auto simp: decide_exact_cache_request_def Let_def validate_cache_request_shape_eq_Inr uint_sub_le
      not_less word_gt_0 split: if_splits)

theorem decided_request_is_billable_witness:
  "validate_cache_request_shape sample_cache_request = Inr ()"
proof -
  obtain d where d: "decide_exact_cache_request
      \<lparr>di_cache_entry_id = Some 103, di_input_tokens = 2000, di_matched_input_tokens = 1500\<rparr> = Inr d"
    "cd_status d = CS_PartialHit" "cd_cache_entry_id d = Some 103" "cd_input_tokens d = 2000"
    "cd_cache_read_tokens d = 1500"
    by (simp add: decide_exact_cache_request_def Let_def)
  from decided_request_is_billable [OF d(1), of sample_cache_request] d(2-5) show ?thesis
    by (simp add: sample_cache_request_def)
qed

lemma per_million_mono:
  "0 \<le> m \<Longrightarrow> m \<le> n \<Longrightarrow> 0 \<le> fd_units d \<Longrightarrow> fd_units d \<le> fd_units e
   \<Longrightarrow> item_units (PerMillion m d) \<le> item_units (PerMillion n e)"
  using mult_mono [of m n "fd_units d" "fd_units e"] by (auto simp: item_units_def intro: zdiv_mono1)

text \<open>Caching never makes a request dearer: with a cache-read rate of at most the input rate and no
  flat read price, a full hit costs at most what the same request costs as a miss, whatever the
  miss pays for output, for writing the cache and for the request itself.\<close>

theorem cache_hit_never_dearer:
  assumes "plan_exact_cache_billing fmt h p es = Inr xh" "plan_exact_cache_billing fmt m p es' = Inr xm"
    and "cr_status h = CS_Hit" "cr_status m = CS_Miss" "cr_input_tokens h = cr_input_tokens m"
    and "cr_read_policy h \<noteq> RP_FixedCost" "fd_units (cp_cache_read_rate p) \<le> fd_units (cp_input_rate p)"
  shows "fd_units (xr_total_cost (xp_rating xh)) \<le> fd_units (xr_total_cost (xp_rating xm))"
proof -
  have rated: "validate_cache_request_shape r = Inr () \<and> rate_exact_cache_request r p = Inr (xp_rating x)"
    if "plan_exact_cache_billing fmt r p es = Inr x" for r es x
    using that by (rule plan_exact_cache_billing_cases) simp_all
  note hit = rated [OF assms(1)] and miss = rated [OF assms(2)]
  note hit_rate = rate_exact_cache_request_parts [OF conjunct2 [OF hit] conjunct1 [OF hit]]
    and miss_rate = rate_exact_cache_request_parts [OF conjunct2 [OF miss] conjunct1 [OF miss]]
  have shape: "cr_cache_read_tokens h = cr_input_tokens m" "cr_cache_read_tokens m = 0"
    using hit miss assms(3-5) by (simp_all add: validate_cache_request_shape_eq_Inr)
  have nn: "0 \<le> fd_units (cp_cache_read_rate p)" "0 \<le> fd_units (cp_input_rate p)"
      "0 \<le> fd_units (cp_output_rate p)" "0 \<le> fd_units (cp_fixed_request_cost p)"
    using hit_rate(1) by (simp_all add: ensure_pricing_is_non_negative_eq_Inr)
  have "items_units (charged_items h p)
        \<le> item_units (PerMillion (uint (cr_input_tokens m)) (cp_input_rate p))"
    using assms(3,6) shape(1) nn per_million_mono [OF _ order_refl nn(1) assms(7), of "uint (cr_input_tokens m)"]
    by (cases "cr_read_policy h")
       (simp_all add: charged_items_def base_items_def read_items_def write_items_def item_units_nonneg)
  also have "\<dots> \<le> items_units (charged_items m p)"
    using assms(4) shape(2) nn charged_items_nonneg(3) [OF miss_rate(1), of m]
    by (simp add: charged_items_def base_items_def read_items_def item_units_nonneg)
  finally show ?thesis using hit_rate(2) miss_rate(2) by simp
qed

definition sample_cache_hit :: exact_cache_billing_request where
  "sample_cache_hit = sample_cache_request\<lparr>cr_status := CS_Hit, cr_cache_read_tokens := 2000\<rparr>"

definition sample_cache_miss :: exact_cache_billing_request where
  "sample_cache_miss = sample_cache_request\<lparr>cr_status := CS_Miss, cr_cache_read_tokens := 0\<rparr>"

theorem cache_hit_never_dearer_witness:
  "\<exists>xh xm. plan_exact_cache_billing uuid_hyphenated sample_cache_hit sample_cache_pricing [] = Inr xh
     \<and> plan_exact_cache_billing uuid_hyphenated sample_cache_miss sample_cache_pricing [] = Inr xm
     \<and> fd_units (xr_total_cost (xp_rating xh)) \<le> fd_units (xr_total_cost (xp_rating xm))"
proof -
  obtain xh where h: "plan_exact_cache_billing uuid_hyphenated sample_cache_hit sample_cache_pricing [] = Inr xh"
    unfolding sample_cache_hit_def sample_cache_request_def by (simp add: cache_plan_eval)
  obtain xm where m: "plan_exact_cache_billing uuid_hyphenated sample_cache_miss sample_cache_pricing [] = Inr xm"
    unfolding sample_cache_miss_def sample_cache_request_def by (simp add: cache_plan_eval)
  from h m cache_hit_never_dearer [OF h m] show ?thesis
    by (simp add: sample_cache_hit_def sample_cache_miss_def sample_cache_request_def sample_cache_pricing_def)
qed

end
