(* ===== verification/PreAuthorize.thy ===== *)
theory PreAuthorize
  imports Money
begin

text \<open>
  The check made before a request is sent upstream (\<open>pre_authorize.rs\<close>): the estimated minimum cost
  against the wallet's available amount and every budget's remaining amount. The one-field structs
  \<open>PreAuthorizeBalance\<close> and \<open>PreAuthorizeBudget\<close> are their amounts.
\<close>

record pre_authorize_estimate =
  pe_minimum_cost :: fixed_decimal
  pe_billable_if_usage_present :: bool

datatype pre_authorize_reject_reason = PR_InsufficientWalletBalance | PR_InsufficientBudget

datatype pre_authorize_decision = PA_Allow | PA_Reject pre_authorize_reject_reason

definition amount_is_insufficient :: "fixed_decimal \<Rightarrow> pre_authorize_estimate \<Rightarrow> bool" where
  "amount_is_insufficient available estimate =
     (if fd_scale available \<noteq> fd_scale (pe_minimum_cost estimate) then False
      else if fd_units (pe_minimum_cost estimate) > 0
      then fd_units available < fd_units (pe_minimum_cost estimate)
      else pe_billable_if_usage_present estimate \<and> fd_units available \<le> 0)"

definition pre_authorize ::
  "pre_authorize_estimate \<Rightarrow> fixed_decimal option \<Rightarrow> fixed_decimal list \<Rightarrow> pre_authorize_decision" where
  "pre_authorize estimate wallet budgets =
     (if (case wallet of None \<Rightarrow> False | Some available \<Rightarrow> amount_is_insufficient available estimate)
      then PA_Reject PR_InsufficientWalletBalance
      else if list_ex (\<lambda>remaining. amount_is_insufficient remaining estimate) budgets
      then PA_Reject PR_InsufficientBudget
      else PA_Allow)"

section \<open>What an authorised request can count on\<close>

text \<open>An amount covers an estimate when it pays the minimum cost and, for a request that will be billed
  once its usage is known, is positive.\<close>

definition covers :: "fixed_decimal \<Rightarrow> pre_authorize_estimate \<Rightarrow> bool" where
  "covers amount e \<longleftrightarrow>
     max 0 (fd_units (pe_minimum_cost e)) \<le> max 0 (fd_units amount)
     \<and> (pe_billable_if_usage_present e \<longrightarrow> 0 < fd_units amount)"

lemma amount_is_insufficient_covers:
  "fd_scale a = fd_scale (pe_minimum_cost e) \<Longrightarrow> amount_is_insufficient a e \<longleftrightarrow> \<not> covers a e"
  by (auto simp: amount_is_insufficient_def covers_def)

text \<open>Pre-authorisation admits exactly the covered requests: when the wallet and the budgets are at
  the scale of the estimate, the decision is to allow if and only if the wallet (when there is one)
  and every budget cover the estimate, and a rejection names the wallet first.\<close>

theorem pre_authorize_allows_iff_covered:
  assumes "\<forall>a \<in> set_option wallet \<union> set budgets. fd_scale a = fd_scale (pe_minimum_cost e)"
  shows "pre_authorize e wallet budgets =
     (if \<exists>a \<in> set_option wallet. \<not> covers a e then PA_Reject PR_InsufficientWalletBalance
      else if \<exists>b \<in> set budgets. \<not> covers b e then PA_Reject PR_InsufficientBudget
      else PA_Allow)"
  using assms
  by (cases wallet) (auto simp: pre_authorize_def list_ex_iff amount_is_insufficient_covers)

theorem pre_authorize_allows_iff_covered_witness:
  "pre_authorize \<lparr>pe_minimum_cost = FixedDecimal 1000000 8, pe_billable_if_usage_present = True\<rparr>
     (Some (FixedDecimal 999999 8)) [] = PA_Reject PR_InsufficientWalletBalance
   \<and> pre_authorize \<lparr>pe_minimum_cost = FixedDecimal 1000000 8, pe_billable_if_usage_present = True\<rparr>
     (Some (FixedDecimal 1000000 8)) [FixedDecimal 10000000 8] = PA_Allow"
  by (simp_all add: pre_authorize_allows_iff_covered covers_def)

end
