(* ===== verification/Reconciliation.thy ===== *)
theory Reconciliation
  imports Money "HOL-Library.List_Lexorder" "HOL-Library.Char_ord"
begin

text \<open>
  The reconciliation of billed requests with the ledger (\<open>reconciliation.rs\<close>), the report the worker
  computes per tenant and period. The loop over the rows is a \<open>try_fold\<close> of one step function over an
  accumulator record; the \<open>BTreeMap\<close> of currency totals is an association list sorted by currency (by
  bytes, as \<open>str\<close> compares). Row and discrepancy counters (\<open>usize\<close>) count elements of the input and are
  naturals; the ledger entry count is an \<open>i64\<close> whose sum wraps. A \<open>to_string\<close> of an amount that
  cannot be printed panics, which is the error value \<open>RCE_Panic\<close>.
\<close>

section \<open>Data\<close>

datatype reconciliation_error =
    RCE_InvalidMoney string string rating_error
  | RCE_ArithmeticOverflow
  | RCE_Panic

record reconciliation_input_row =
  rw_tenant_id :: uuid
  rw_period_start :: string
  rw_period_end :: string
  rw_request_id :: "uuid option"
  rw_project_id :: "uuid option"
  rw_virtual_key_id :: "uuid option"
  rw_trace_id :: "string option"
  rw_canonical_model_id :: "uuid option"
  rw_resolved_provider_id :: "uuid option"
  rw_resolved_channel_id :: "uuid option"
  rw_requested_model :: "string option"
  rw_upstream_model :: "string option"
  rw_request_status :: "string option"
  rw_input_tokens :: "64 word option"
  rw_output_tokens :: "64 word option"
  rw_request_final_cost :: "string option"
  rw_request_currency :: "string option"
  rw_ledger_entry_ids :: "uuid list"
  rw_ledger_entry_count :: "64 word"
  rw_ledger_amount :: "string option"
  rw_ledger_currency :: "string option"

datatype reconciliation_issue = RI_MissingLedger | RI_UnexpectedLedger | RI_AmountMismatch | RI_CurrencyMismatch

record reconciliation_currency_total =
  ct_currency :: string
  ct_request_final_cost_total :: string
  ct_expected_ledger_amount_total :: string
  ct_ledger_amount_total :: string
  ct_difference_amount :: string

record reconciliation_summary =
  sm_request_count :: nat
  sm_billable_request_count :: nat
  sm_ledger_entry_count :: "64 word"
  sm_matched_request_count :: nat
  sm_discrepancy_count :: nat
  sm_missing_ledger_count :: nat
  sm_unexpected_ledger_count :: nat
  sm_amount_mismatch_count :: nat
  sm_currency_mismatch_count :: nat
  sm_returned_discrepancy_count :: nat
  sm_currency_totals :: "reconciliation_currency_total list"

record reconciliation_discrepancy =
  dc_issues :: "reconciliation_issue list"
  dc_request_id :: "uuid option"
  dc_ledger_entry_ids :: "uuid list"
  dc_project_id :: "uuid option"
  dc_virtual_key_id :: "uuid option"
  dc_trace_id :: "string option"
  dc_canonical_model_id :: "uuid option"
  dc_resolved_provider_id :: "uuid option"
  dc_resolved_channel_id :: "uuid option"
  dc_requested_model :: "string option"
  dc_upstream_model :: "string option"
  dc_request_status :: "string option"
  dc_input_tokens :: "64 word option"
  dc_output_tokens :: "64 word option"
  dc_request_final_cost :: "string option"
  dc_expected_ledger_amount :: "string option"
  dc_request_currency :: "string option"
  dc_ledger_amount :: "string option"
  dc_ledger_currency :: "string option"
  dc_difference_amount :: "string option"

record reconciliation_report =
  rp_report_version :: u8
  rp_tenant_id :: uuid
  rp_period_start :: string
  rp_period_end :: string
  rp_summary :: reconciliation_summary
  rp_discrepancies :: "reconciliation_discrepancy list"

record currency_accumulator =
  ca_request_final_cost_total :: fixed_decimal
  ca_expected_ledger_amount_total :: fixed_decimal
  ca_ledger_amount_total :: fixed_decimal

section \<open>Operations\<close>

definition looks_sensitive :: "string \<Rightarrow> bool" where
  "looks_sensitive v =
     (let trimmed = trim v; normalized = to_ascii_lowercase trimmed
      in starts_with ''sk-'' trimmed
         \<or> (starts_with ''vk_'' trimmed \<and> length trimmed > 16)
         \<or> contains ''bearer '' normalized
         \<or> contains ''api_key='' normalized
         \<or> contains ''apikey='' normalized
         \<or> contains ''authorization='' normalized
         \<or> contains ''token='' normalized
         \<or> contains ''password='' normalized
         \<or> contains ''secret='' normalized)"

definition redact_reconciliation_text :: "string \<Rightarrow> string" where
  "redact_reconciliation_text v = (if looks_sensitive v then ''[REDACTED]'' else v)"

definition display_money :: "fixed_decimal \<Rightarrow> reconciliation_error + string" where
  "display_money d = ok_or RCE_Panic (fd_to_string d)"

definition rec_checked_neg :: "fixed_decimal \<Rightarrow> reconciliation_error + fixed_decimal" where
  "rec_checked_neg v =
     rbind (ok_or RCE_ArithmeticOverflow (i128_checked_neg (fd_units v))) (\<lambda>units.
     map_err (\<lambda>_. RCE_ArithmeticOverflow) (from_units units (fd_scale v)))"

definition rec_checked_subtract ::
  "fixed_decimal \<Rightarrow> fixed_decimal \<Rightarrow> reconciliation_error + fixed_decimal" where
  "rec_checked_subtract left right =
     rbind (rec_checked_neg right) (\<lambda>negated.
     map_err (\<lambda>_. RCE_ArithmeticOverflow) (fd_checked_add left negated))"

definition parse_optional_money ::
  "string \<Rightarrow> string option \<Rightarrow> reconciliation_error + fixed_decimal option" where
  "parse_optional_money field v =
     transpose_opt (map_option (\<lambda>s. map_err (RCE_InvalidMoney field s) (fd_parse s DEFAULT_MONEY_SCALE)) v)"

definition default_accumulator :: currency_accumulator where
  "default_accumulator =
     (let zero = FixedDecimal 0 DEFAULT_MONEY_SCALE
      in \<lparr>ca_request_final_cost_total = zero, ca_expected_ledger_amount_total = zero,
          ca_ledger_amount_total = zero\<rparr>)"

definition add_request ::
  "fixed_decimal \<Rightarrow> fixed_decimal \<Rightarrow> currency_accumulator \<Rightarrow> reconciliation_error + currency_accumulator" where
  "add_request cost expected acc =
     rbind (map_err (\<lambda>_. RCE_ArithmeticOverflow)
              (fd_checked_add (ca_request_final_cost_total acc) cost)) (\<lambda>cost_total.
     rbind (map_err (\<lambda>_. RCE_ArithmeticOverflow)
              (fd_checked_add (ca_expected_ledger_amount_total acc) expected)) (\<lambda>expected_total.
     Inr (acc\<lparr>ca_request_final_cost_total := cost_total,
              ca_expected_ledger_amount_total := expected_total\<rparr>)))"

definition add_ledger ::
  "fixed_decimal \<Rightarrow> currency_accumulator \<Rightarrow> reconciliation_error + currency_accumulator" where
  "add_ledger amount acc =
     rbind (map_err (\<lambda>_. RCE_ArithmeticOverflow) (fd_checked_add (ca_ledger_amount_total acc) amount))
       (\<lambda>total_amount. Inr (acc\<lparr>ca_ledger_amount_total := total_amount\<rparr>))"

definition into_total ::
  "string \<Rightarrow> currency_accumulator \<Rightarrow> reconciliation_error + reconciliation_currency_total" where
  "into_total currency acc =
     rbind (display_money (ca_request_final_cost_total acc)) (\<lambda>cost_total.
     rbind (display_money (ca_expected_ledger_amount_total acc)) (\<lambda>expected_total.
     rbind (display_money (ca_ledger_amount_total acc)) (\<lambda>ledger_total.
     rbind (rec_checked_subtract (ca_ledger_amount_total acc) (ca_expected_ledger_amount_total acc))
       (\<lambda>difference.
     rbind (display_money difference) (\<lambda>difference_text.
     Inr \<lparr>ct_currency = currency, ct_request_final_cost_total = cost_total,
          ct_expected_ledger_amount_total = expected_total, ct_ledger_amount_total = ledger_total,
          ct_difference_amount = difference_text\<rparr>)))))"

text \<open>\<open>map.entry(key).or_default()\<close> followed by a fallible update in place.\<close>

type_synonym currency_totals = "(string \<times> currency_accumulator) list"

fun update_entry ::
  "string \<Rightarrow> (currency_accumulator \<Rightarrow> 'e + currency_accumulator) \<Rightarrow> currency_totals \<Rightarrow> 'e + currency_totals" where
  "update_entry k f [] = map_ok (\<lambda>v. [(k, v)]) (f default_accumulator)"
| "update_entry k f ((k', v) # m) =
     (if k = k' then map_ok (\<lambda>v'. (k', v') # m) (f v)
      else if k < k' then map_ok (\<lambda>v'. (k, v') # (k', v) # m) (f default_accumulator)
      else map_ok (\<lambda>m'. (k', v) # m') (update_entry k f m))"

text \<open>The mutable variables of the loop.\<close>

record reconciliation_state =
  rs_period_start :: "string option"
  rs_period_end :: "string option"
  rs_request_count :: nat
  rs_billable_request_count :: nat
  rs_ledger_entry_count :: "64 word"
  rs_matched_request_count :: nat
  rs_missing_ledger_count :: nat
  rs_unexpected_ledger_count :: nat
  rs_amount_mismatch_count :: nat
  rs_currency_mismatch_count :: nat
  rs_currency_totals :: currency_totals
  rs_discrepancies :: "reconciliation_discrepancy list"
  rs_discrepancy_count :: nat

definition initial_state :: reconciliation_state where
  "initial_state =
     \<lparr>rs_period_start = None, rs_period_end = None, rs_request_count = 0,
      rs_billable_request_count = 0, rs_ledger_entry_count = 0, rs_matched_request_count = 0,
      rs_missing_ledger_count = 0, rs_unexpected_ledger_count = 0, rs_amount_mismatch_count = 0,
      rs_currency_mismatch_count = 0, rs_currency_totals = [], rs_discrepancies = [],
      rs_discrepancy_count = 0\<rparr>"

definition nonzero :: "fixed_decimal option \<Rightarrow> bool" where
  "nonzero amount = (case amount of None \<Rightarrow> False | Some d \<Rightarrow> \<not> fd_is_zero d)"

definition row_issues ::
  "reconciliation_input_row \<Rightarrow> bool \<Rightarrow> bool \<Rightarrow> fixed_decimal option \<Rightarrow> fixed_decimal option
   \<Rightarrow> reconciliation_issue list" where
  "row_issues row request_present ledger_present expected_ledger_amount ledger_amount =
     (if request_present \<and> \<not> ledger_present
      then (if nonzero expected_ledger_amount then [RI_MissingLedger] else [])
      else if \<not> request_present \<and> ledger_present then [RI_UnexpectedLedger]
      else if request_present \<and> ledger_present
      then (let currency_matches = (rw_request_currency row = rw_ledger_currency row)
            in (if \<not> currency_matches then [RI_CurrencyMismatch] else [])
               @ (if currency_matches \<and> ledger_amount \<noteq> expected_ledger_amount
                  then [RI_AmountMismatch] else []))
      else [])"

definition row_totals ::
  "reconciliation_input_row \<Rightarrow> fixed_decimal option \<Rightarrow> fixed_decimal option \<Rightarrow> fixed_decimal option
   \<Rightarrow> currency_totals \<Rightarrow> reconciliation_error + currency_totals" where
  "row_totals row request_final_cost expected_ledger_amount ledger_amount totals =
     rbind (case (rw_request_currency row, request_final_cost, expected_ledger_amount) of
              (Some currency, Some cost, Some expected) \<Rightarrow>
                update_entry currency (add_request cost expected) totals
            | _ \<Rightarrow> Inr totals) (\<lambda>totals1.
     case (rw_ledger_currency row, ledger_amount) of
       (Some currency, Some amount) \<Rightarrow> update_entry currency (add_ledger amount) totals1
     | _ \<Rightarrow> Inr totals1)"

definition difference_text ::
  "reconciliation_input_row \<Rightarrow> fixed_decimal option \<Rightarrow> fixed_decimal option
   \<Rightarrow> reconciliation_error + string option" where
  "difference_text row ledger_amount expected_ledger_amount =
     (case (rw_request_currency row = rw_ledger_currency row, ledger_amount, expected_ledger_amount) of
        (True, Some ledger, Some expected) \<Rightarrow>
          rbind (rec_checked_subtract ledger expected) (\<lambda>d. map_ok Some (display_money d))
      | _ \<Rightarrow> Inr None)"

definition row_discrepancy ::
  "reconciliation_input_row \<Rightarrow> reconciliation_issue list \<Rightarrow> string option \<Rightarrow> string option
   \<Rightarrow> reconciliation_discrepancy" where
  "row_discrepancy row issues expected_text difference =
     \<lparr>dc_issues = issues, dc_request_id = rw_request_id row,
      dc_ledger_entry_ids = rw_ledger_entry_ids row, dc_project_id = rw_project_id row,
      dc_virtual_key_id = rw_virtual_key_id row,
      dc_trace_id = map_option redact_reconciliation_text (rw_trace_id row),
      dc_canonical_model_id = rw_canonical_model_id row,
      dc_resolved_provider_id = rw_resolved_provider_id row,
      dc_resolved_channel_id = rw_resolved_channel_id row,
      dc_requested_model = map_option redact_reconciliation_text (rw_requested_model row),
      dc_upstream_model = map_option redact_reconciliation_text (rw_upstream_model row),
      dc_request_status = map_option redact_reconciliation_text (rw_request_status row),
      dc_input_tokens = rw_input_tokens row, dc_output_tokens = rw_output_tokens row,
      dc_request_final_cost = rw_request_final_cost row,
      dc_expected_ledger_amount = expected_text,
      dc_request_currency = map_option redact_reconciliation_text (rw_request_currency row),
      dc_ledger_amount = rw_ledger_amount row,
      dc_ledger_currency = map_option redact_reconciliation_text (rw_ledger_currency row),
      dc_difference_amount = difference\<rparr>"

text \<open>What the loop body does with a row that has issues.\<close>

definition record_discrepancy ::
  "nat \<Rightarrow> reconciliation_input_row \<Rightarrow> reconciliation_issue list \<Rightarrow> fixed_decimal option
   \<Rightarrow> fixed_decimal option \<Rightarrow> reconciliation_state \<Rightarrow> reconciliation_error + reconciliation_state" where
  "record_discrepancy discrepancy_limit row issues expected_ledger_amount ledger_amount st =
     (let st = st\<lparr>
        rs_missing_ledger_count := rs_missing_ledger_count st
          + (if RI_MissingLedger \<in> set issues then 1 else 0),
        rs_unexpected_ledger_count := rs_unexpected_ledger_count st
          + (if RI_UnexpectedLedger \<in> set issues then 1 else 0),
        rs_amount_mismatch_count := rs_amount_mismatch_count st
          + (if RI_AmountMismatch \<in> set issues then 1 else 0),
        rs_currency_mismatch_count := rs_currency_mismatch_count st
          + (if RI_CurrencyMismatch \<in> set issues then 1 else 0),
        rs_discrepancy_count := rs_discrepancy_count st + 1\<rparr>
      in if length (rs_discrepancies st) < discrepancy_limit
         then rbind (difference_text row ledger_amount expected_ledger_amount) (\<lambda>difference.
              rbind (transpose_opt (map_option display_money expected_ledger_amount)) (\<lambda>expected_text.
              Inr (st\<lparr>rs_discrepancies :=
                        rs_discrepancies st @ [row_discrepancy row issues expected_text difference]\<rparr>)))
         else Inr st)"

definition open_period :: "reconciliation_input_row \<Rightarrow> reconciliation_state \<Rightarrow> reconciliation_state" where
  "open_period row st =
     st\<lparr>rs_period_start := Some (unwrap_or (rw_period_start row) (rs_period_start st)),
        rs_period_end := Some (unwrap_or (rw_period_end row) (rs_period_end st))\<rparr>"

definition count_row ::
  "reconciliation_input_row \<Rightarrow> bool \<Rightarrow> fixed_decimal option \<Rightarrow> reconciliation_state \<Rightarrow> reconciliation_state" where
  "count_row row request_present expected_ledger_amount st =
     st\<lparr>rs_request_count := rs_request_count st + (if request_present then 1 else 0),
        rs_billable_request_count := rs_billable_request_count st
          + (if request_present \<and> nonzero expected_ledger_amount then 1 else 0),
        rs_ledger_entry_count := rs_ledger_entry_count st + rw_ledger_entry_count row\<rparr>"

definition reconcile_row ::
  "nat \<Rightarrow> fixed_decimal \<Rightarrow> reconciliation_state \<Rightarrow> reconciliation_input_row
   \<Rightarrow> reconciliation_error + reconciliation_state" where
  "reconcile_row discrepancy_limit zero st row =
     (let st = open_period row st;
          request_present = (rw_request_final_cost row \<noteq> None);
          ledger_present = (0 < sint (rw_ledger_entry_count row))
      in if \<not> request_present \<and> \<not> ledger_present then Inr st
      else
        rbind (parse_optional_money ''request_final_cost'' (rw_request_final_cost row)) (\<lambda>request_final_cost.
        rbind (transpose_opt (map_option rec_checked_neg request_final_cost)) (\<lambda>expected_ledger_amount.
        rbind (parse_optional_money ''ledger_amount'' (rw_ledger_amount row)) (\<lambda>parsed_ledger_amount.
        let ledger_amount = (if ledger_present then Some (unwrap_or zero parsed_ledger_amount) else None);
            st = count_row row request_present expected_ledger_amount st
        in
        rbind (row_totals row request_final_cost expected_ledger_amount ledger_amount
                 (rs_currency_totals st)) (\<lambda>totals.
        let st = st\<lparr>rs_currency_totals := totals\<rparr>;
            issues = row_issues row request_present ledger_present expected_ledger_amount ledger_amount
        in if issues = []
           then Inr (st\<lparr>rs_matched_request_count := rs_matched_request_count st
                          + (if request_present then 1 else 0)\<rparr>)
           else record_discrepancy discrepancy_limit row issues expected_ledger_amount ledger_amount st)))))"

definition reconcile_billing_usage_ledger ::
  "uuid \<Rightarrow> reconciliation_input_row list \<Rightarrow> nat \<Rightarrow> reconciliation_error + reconciliation_report" where
  "reconcile_billing_usage_ledger tenant_id rows discrepancy_limit =
     rbind (map_err (\<lambda>_. RCE_ArithmeticOverflow) (fd_zero DEFAULT_MONEY_SCALE)) (\<lambda>zero.
     rbind (try_fold (reconcile_row discrepancy_limit zero) initial_state rows) (\<lambda>st.
     rbind (try_map (\<lambda>(currency, totals). into_total (redact_reconciliation_text currency) totals)
              (rs_currency_totals st)) (\<lambda>currency_totals.
     Inr \<lparr>rp_report_version = 1, rp_tenant_id = tenant_id,
          rp_period_start = unwrap_or [] (rs_period_start st),
          rp_period_end = unwrap_or [] (rs_period_end st),
          rp_summary =
            \<lparr>sm_request_count = rs_request_count st,
             sm_billable_request_count = rs_billable_request_count st,
             sm_ledger_entry_count = rs_ledger_entry_count st,
             sm_matched_request_count = rs_matched_request_count st,
             sm_discrepancy_count = rs_discrepancy_count st,
             sm_missing_ledger_count = rs_missing_ledger_count st,
             sm_unexpected_ledger_count = rs_unexpected_ledger_count st,
             sm_amount_mismatch_count = rs_amount_mismatch_count st,
             sm_currency_mismatch_count = rs_currency_mismatch_count st,
             sm_returned_discrepancy_count = length (rs_discrepancies st),
             sm_currency_totals = currency_totals\<rparr>,
          rp_discrepancies = rs_discrepancies st\<rparr>)))"

section \<open>What a row means\<close>

text \<open>The reference reading of a row: the cost of the request and the amount on the ledger in units, and
  whether the two agree (a free request needs no ledger entry).\<close>

definition money_units :: "string \<Rightarrow> int" where
  "money_units s = (case fd_parse s DEFAULT_MONEY_SCALE of Inr d \<Rightarrow> fd_units d | Inl _ \<Rightarrow> 0)"

definition cost_units :: "reconciliation_input_row \<Rightarrow> int option" where
  "cost_units row = map_option money_units (rw_request_final_cost row)"

definition ledger_units :: "reconciliation_input_row \<Rightarrow> int option" where
  "ledger_units row =
     (if 0 < sint (rw_ledger_entry_count row)
      then Some (case rw_ledger_amount row of None \<Rightarrow> 0 | Some s \<Rightarrow> money_units s)
      else None)"

definition row_agrees :: "reconciliation_input_row \<Rightarrow> bool" where
  "row_agrees row =
     (case (cost_units row, ledger_units row) of
        (None, None) \<Rightarrow> True
      | (Some cost, None) \<Rightarrow> cost = 0
      | (None, Some ledger) \<Rightarrow> False
      | (Some cost, Some ledger) \<Rightarrow>
          rw_request_currency row = rw_ledger_currency row \<and> ledger = - cost)"

abbreviation usd :: "int \<Rightarrow> fixed_decimal" where
  "usd u \<equiv> FixedDecimal u DEFAULT_MONEY_SCALE"

lemma fd_parse_scale: "fd_parse s scale = Inr d \<Longrightarrow> fd_scale d = scale \<and> in_i128 (fd_units d) \<and> scale \<le> MAX_MONEY_SCALE"
  unfolding fd_parse_def by (drule parse_decimal_string_ok) (auto simp: fd_ok_def)

lemma parse_optional_money_Inr:
  assumes "parse_optional_money f v = Inr m"
  shows "m = map_option (\<lambda>s. usd (money_units s)) v"
proof (cases v)
  case (Some s)
  with assms obtain d where "fd_parse s DEFAULT_MONEY_SCALE = Inr d" "m = Some d"
    by (auto simp: parse_optional_money_def result_simps)
  with Some fd_parse_scale [of s DEFAULT_MONEY_SCALE d] show ?thesis by (simp add: money_units_def fixed_decimal.expand)
qed (use assms in \<open>simp add: parse_optional_money_def\<close>)

lemma rec_checked_neg_eq_Inr:
  "rec_checked_neg d = Inr e \<longleftrightarrow>
     in_i128 (- fd_units d) \<and> fd_scale d \<le> MAX_MONEY_SCALE \<and> e = FixedDecimal (- fd_units d) (fd_scale d)"
  by (auto simp: rec_checked_neg_def result_simps i128_checked_neg_def check_i128_def split: if_splits)

abbreviation row_cost :: "reconciliation_input_row \<Rightarrow> fixed_decimal option" where
  "row_cost row \<equiv> map_option usd (cost_units row)"

abbreviation row_expected :: "reconciliation_input_row \<Rightarrow> fixed_decimal option" where
  "row_expected row \<equiv> map_option (\<lambda>c. usd (- c)) (cost_units row)"

abbreviation row_ledger :: "reconciliation_input_row \<Rightarrow> fixed_decimal option" where
  "row_ledger row \<equiv> map_option usd (ledger_units row)"

definition issues_of :: "reconciliation_input_row \<Rightarrow> reconciliation_issue list" where
  "issues_of row =
     row_issues row (cost_units row \<noteq> None) (ledger_units row \<noteq> None) (row_expected row) (row_ledger row)"

definition counted :: "reconciliation_input_row \<Rightarrow> reconciliation_state \<Rightarrow> currency_totals \<Rightarrow> reconciliation_state" where
  "counted row st totals =
     (count_row row (cost_units row \<noteq> None) (row_expected row) (open_period row st))
       \<lparr>rs_currency_totals := totals\<rparr>"

lemma rs_currency_totals_count_row [simp]:
  "rs_currency_totals (count_row row p e (open_period row st)) = rs_currency_totals st"
  by (simp add: count_row_def open_period_def)

lemma row_amounts:
  assumes "parse_optional_money f (rw_request_final_cost row) = Inr cost"
    "transpose_opt (map_option rec_checked_neg cost) = Inr expected"
    "parse_optional_money g (rw_ledger_amount row) = Inr ledger"
  shows "cost = row_cost row" "expected = row_expected row"
    "(if 0 < sint (rw_ledger_entry_count row) then Some (unwrap_or (usd 0) ledger) else None) = row_ledger row"
proof -
  show c: "cost = row_cost row"
    using parse_optional_money_Inr [OF assms(1)]
    by (simp add: cost_units_def map_option.compositionality comp_def)
  show "expected = row_expected row"
    using assms(2) unfolding c
    by (cases "cost_units row") (auto simp: result_simps rec_checked_neg_eq_Inr)
  show "(if 0 < sint (rw_ledger_entry_count row) then Some (unwrap_or (usd 0) ledger) else None) = row_ledger row"
    using parse_optional_money_Inr [OF assms(3)] by (auto simp: ledger_units_def split: option.splits)
qed

lemma reconcile_row_cases:
  assumes "reconcile_row n (usd 0) st row = Inr st'"
  obtains (skip) "cost_units row = None" "ledger_units row = None" "st' = open_period row st"
    | (agree) totals where
      "row_totals row (row_cost row) (row_expected row) (row_ledger row) (rs_currency_totals st) = Inr totals"
      "issues_of row = []"
      "st' = (counted row st totals)\<lparr>rs_matched_request_count :=
                 rs_matched_request_count (counted row st totals) + (if cost_units row \<noteq> None then 1 else 0)\<rparr>"
    | (differ) totals where
      "row_totals row (row_cost row) (row_expected row) (row_ledger row) (rs_currency_totals st) = Inr totals"
      "issues_of row \<noteq> []"
      "record_discrepancy n row (issues_of row) (row_expected row) (row_ledger row) (counted row st totals) = Inr st'"
proof -
  have present: "(rw_request_final_cost row \<noteq> None) = (cost_units row \<noteq> None)"
    "(0 < sint (rw_ledger_entry_count row)) = (ledger_units row \<noteq> None)"
    by (auto simp: cost_units_def ledger_units_def)
  show thesis
  proof (cases "cost_units row = None \<and> ledger_units row = None")
    case True
    with assms present show ?thesis by (intro skip) (simp_all add: reconcile_row_def Let_def)
  next
    case False
    with assms obtain cost expected ledger totals where
      parsed: "parse_optional_money ''request_final_cost'' (rw_request_final_cost row) = Inr cost"
        "transpose_opt (map_option rec_checked_neg cost) = Inr expected"
        "parse_optional_money ''ledger_amount'' (rw_ledger_amount row) = Inr ledger"
      and "row_totals row cost expected
        (if 0 < sint (rw_ledger_entry_count row) then Some (unwrap_or (usd 0) ledger) else None)
        (rs_currency_totals st) = Inr totals"
      unfolding reconcile_row_def Let_def present by (auto simp: result_simps)
    then have totals:
      "row_totals row (row_cost row) (row_expected row) (row_ledger row) (rs_currency_totals st) = Inr totals"
      using row_amounts [OF parsed] by simp
    have "(if issues_of row = []
        then Inr ((counted row st totals)\<lparr>rs_matched_request_count :=
               rs_matched_request_count (counted row st totals) + (if cost_units row \<noteq> None then 1 else 0)\<rparr>)
        else record_discrepancy n row (issues_of row) (row_expected row) (row_ledger row)
               (counted row st totals)) = Inr st'"
      using assms False totals row_amounts [OF parsed] parsed
      unfolding reconcile_row_def Let_def present counted_def issues_of_def by (simp only: rbind_Inr rs_currency_totals_count_row if_False) simp
    with totals show ?thesis by (cases "issues_of row = []") (auto intro: agree differ)
  qed
qed

lemma issues_of_simps:
  "issues_of row =
     (case (cost_units row, ledger_units row) of
        (None, None) \<Rightarrow> []
      | (Some cost, None) \<Rightarrow> if cost = 0 then [] else [RI_MissingLedger]
      | (None, Some ledger) \<Rightarrow> [RI_UnexpectedLedger]
      | (Some cost, Some ledger) \<Rightarrow>
          if rw_request_currency row \<noteq> rw_ledger_currency row then [RI_CurrencyMismatch]
          else if ledger = - cost then [] else [RI_AmountMismatch])"
  by (auto simp: issues_of_def row_issues_def nonzero_def fd_is_zero_def split: option.splits)

lemma issues_of_Nil: "issues_of row = [] \<longleftrightarrow> row_agrees row"
  by (auto simp: issues_of_simps row_agrees_def split: option.splits)

lemma record_discrepancy_Inr:
  assumes "record_discrepancy n row is e l st = Inr st'"
  obtains x y where
    "st' = st\<lparr>
        rs_missing_ledger_count := rs_missing_ledger_count st + (if RI_MissingLedger \<in> set is then 1 else 0),
        rs_unexpected_ledger_count := rs_unexpected_ledger_count st
          + (if RI_UnexpectedLedger \<in> set is then 1 else 0),
        rs_amount_mismatch_count := rs_amount_mismatch_count st + (if RI_AmountMismatch \<in> set is then 1 else 0),
        rs_currency_mismatch_count := rs_currency_mismatch_count st
          + (if RI_CurrencyMismatch \<in> set is then 1 else 0),
        rs_discrepancy_count := rs_discrepancy_count st + 1,
        rs_discrepancies := rs_discrepancies st
          @ (if length (rs_discrepancies st) < n then [row_discrepancy row is x y] else [])\<rparr>"
proof (cases "length (rs_discrepancies st) < n")
  case True
  with assms show ?thesis by (auto simp: record_discrepancy_def Let_def result_simps intro: that)
next
  case False
  with assms show ?thesis by (intro that) (auto simp: record_discrepancy_def Let_def)
qed

lemma counted_simps [simp]:
  "rs_request_count (counted row st t) = rs_request_count st + (if cost_units row \<noteq> None then 1 else 0)"
  "rs_matched_request_count (counted row st t) = rs_matched_request_count st"
  "rs_missing_ledger_count (counted row st t) = rs_missing_ledger_count st"
  "rs_unexpected_ledger_count (counted row st t) = rs_unexpected_ledger_count st"
  "rs_amount_mismatch_count (counted row st t) = rs_amount_mismatch_count st"
  "rs_currency_mismatch_count (counted row st t) = rs_currency_mismatch_count st"
  "rs_discrepancy_count (counted row st t) = rs_discrepancy_count st"
  "rs_discrepancies (counted row st t) = rs_discrepancies st"
  "rs_currency_totals (counted row st t) = t"
  by (simp_all add: counted_def count_row_def open_period_def)

lemma open_period_simps [simp]:
  "rs_request_count (open_period row st) = rs_request_count st"
  "rs_matched_request_count (open_period row st) = rs_matched_request_count st"
  "rs_missing_ledger_count (open_period row st) = rs_missing_ledger_count st"
  "rs_unexpected_ledger_count (open_period row st) = rs_unexpected_ledger_count st"
  "rs_amount_mismatch_count (open_period row st) = rs_amount_mismatch_count st"
  "rs_currency_mismatch_count (open_period row st) = rs_currency_mismatch_count st"
  "rs_discrepancy_count (open_period row st) = rs_discrepancy_count st"
  "rs_discrepancies (open_period row st) = rs_discrepancies st"
  "rs_currency_totals (open_period row st) = rs_currency_totals st"
  by (simp_all add: open_period_def)

text \<open>The counters after the rows \<open>ys\<close>.\<close>

definition counts_ok :: "nat \<Rightarrow> reconciliation_input_row list \<Rightarrow> reconciliation_state \<Rightarrow> bool" where
  "counts_ok n ys st \<longleftrightarrow>
     rs_request_count st = length (filter (\<lambda>r. cost_units r \<noteq> None) ys)
   \<and> rs_discrepancy_count st = length (filter (\<lambda>r. \<not> row_agrees r) ys)
   \<and> rs_request_count st = rs_matched_request_count st + rs_missing_ledger_count st
       + rs_amount_mismatch_count st + rs_currency_mismatch_count st
   \<and> rs_discrepancy_count st = rs_missing_ledger_count st + rs_unexpected_ledger_count st
       + rs_amount_mismatch_count st + rs_currency_mismatch_count st
   \<and> length (rs_discrepancies st) = min n (rs_discrepancy_count st)"

lemma counts_ok_step:
  assumes "counts_ok n ys st" "reconcile_row n (usd 0) st row = Inr st'"
  shows "counts_ok n (ys @ [row]) st'"
  using assms(2)
proof (cases rule: reconcile_row_cases)
  case skip
  with assms(1) show ?thesis by (simp add: counts_ok_def row_agrees_def)
next
  case (agree totals)
  moreover have "row_agrees row" using agree by (simp add: issues_of_Nil)
  ultimately show ?thesis using assms(1) by (auto simp: counts_ok_def)
next
  case (differ totals)
  have "\<not> row_agrees row" using differ by (simp add: issues_of_Nil)
  from differ(3) show ?thesis
    by (rule record_discrepancy_Inr)
       (use assms(1) differ(2) \<open>\<not> row_agrees row\<close> in
         \<open>auto simp: counts_ok_def issues_of_simps split: option.splits if_splits\<close>)
qed

lemma fold_counts_ok:
  "try_fold (reconcile_row n (usd 0)) initial_state rows = Inr st \<Longrightarrow> counts_ok n rows st"
  by (induction rule: try_fold_prefix_induct)
     (auto simp: counts_ok_def [of _ "[]"] initial_state_def intro: counts_ok_step)

lemma reconcile_Inr:
  assumes "reconcile_billing_usage_ledger tenant rows n = Inr rep"
  obtains st where "try_fold (reconcile_row n (usd 0)) initial_state rows = Inr st"
    "list_all2 (\<lambda>(currency, totals) t. into_total (redact_reconciliation_text currency) totals = Inr t)
       (rs_currency_totals st) (sm_currency_totals (rp_summary rep))"
    "rp_discrepancies rep = rs_discrepancies st"
    "sm_request_count (rp_summary rep) = rs_request_count st"
    "sm_matched_request_count (rp_summary rep) = rs_matched_request_count st"
    "sm_missing_ledger_count (rp_summary rep) = rs_missing_ledger_count st"
    "sm_unexpected_ledger_count (rp_summary rep) = rs_unexpected_ledger_count st"
    "sm_amount_mismatch_count (rp_summary rep) = rs_amount_mismatch_count st"
    "sm_currency_mismatch_count (rp_summary rep) = rs_currency_mismatch_count st"
    "sm_discrepancy_count (rp_summary rep) = rs_discrepancy_count st"
    "sm_returned_discrepancy_count (rp_summary rep) = length (rs_discrepancies st)"
proof -
  from assms obtain st ts where "try_fold (reconcile_row n (usd 0)) initial_state rows = Inr st"
    "list_all2 (\<lambda>x t. (case x of (currency, totals) \<Rightarrow>
        into_total (redact_reconciliation_text currency) totals) = Inr t) (rs_currency_totals st) ts"
    "rp_discrepancies rep = rs_discrepancies st"
    "rp_summary rep =
            \<lparr>sm_request_count = rs_request_count st,
             sm_billable_request_count = rs_billable_request_count st,
             sm_ledger_entry_count = rs_ledger_entry_count st,
             sm_matched_request_count = rs_matched_request_count st,
             sm_discrepancy_count = rs_discrepancy_count st,
             sm_missing_ledger_count = rs_missing_ledger_count st,
             sm_unexpected_ledger_count = rs_unexpected_ledger_count st,
             sm_amount_mismatch_count = rs_amount_mismatch_count st,
             sm_currency_mismatch_count = rs_currency_mismatch_count st,
             sm_returned_discrepancy_count = length (rs_discrepancies st),
             sm_currency_totals = ts\<rparr>"
    by (auto simp: reconcile_billing_usage_ledger_def result_simps)
  then show thesis by (intro that [of st]) (simp_all add: case_prod_unfold)
qed

section \<open>Currency totals\<close>

definition acc_of :: "currency_totals \<Rightarrow> string \<Rightarrow> currency_accumulator" where
  "acc_of m c = (case map_of m c of None \<Rightarrow> default_accumulator | Some a \<Rightarrow> a)"

lemma update_entry_Inr:
  assumes "update_entry k f m = Inr m'" "sorted_wrt (<) (map fst m)"
  shows "sorted_wrt (<) (map fst m') \<and> fst ` set m' = insert k (fst ` set m)
    \<and> (\<exists>v. f (acc_of m k) = Inr v \<and> (\<forall>c. acc_of m' c = (if c = k then v else acc_of m c)))"
  using assms
proof (induction k f m arbitrary: m' rule: update_entry.induct)
  case (1 k f)
  then show ?case by (auto simp: result_simps acc_of_def)
next
  case (2 k f k' v m)
  have later: "map_of m k = None" if "\<not> k' < k"
  proof -
    have "k \<notin> fst ` set m" using 2(3) that by auto
    then show ?thesis by (simp add: map_of_eq_None_iff)
  qed
  consider (same) "k = k'" | (before) "k < k'" | (after) "k' < k" by (rule linorder_cases)
  then show ?case
  proof cases
    case same
    with 2(2,3) show ?thesis by (auto simp: result_simps acc_of_def)
  next
    case before
    with 2(2) obtain v1 where "f default_accumulator = Inr v1" "m' = (k, v1) # (k', v) # m"
      by (auto simp: result_simps split: if_splits)
    moreover have "map_of m k = None" using later before by simp
    moreover have "\<forall>c \<in> set (map fst m). k < c" using 2(3) before by (auto intro: less_trans)
    ultimately show ?thesis using 2(3) before by (auto simp: acc_of_def)
  next
    case after
    with 2(2) obtain m1 where m1: "update_entry k f m = Inr m1" "m' = (k', v) # m1"
      by (auto simp: result_simps split: if_splits)
    with 2(1) [OF _ _ m1(1)] after 2(3)
    have IH: "sorted_wrt (<) (map fst m1)" "fst ` set m1 = insert k (fst ` set m)"
      "\<exists>v. f (acc_of m k) = Inr v \<and> (\<forall>c. acc_of m1 c = (if c = k then v else acc_of m c))"
      by auto
    with m1(2) after 2(3) show ?thesis by (auto simp: acc_of_def)
  qed
qed

definition request_sum :: "reconciliation_input_row list \<Rightarrow> string \<Rightarrow> int" where
  "request_sum rows c = sum_list (map (\<lambda>r. if rw_request_currency r = Some c then unwrap_or 0 (cost_units r) else 0) rows)"

definition ledger_sum :: "reconciliation_input_row list \<Rightarrow> string \<Rightarrow> int" where
  "ledger_sum rows c = sum_list (map (\<lambda>r. if rw_ledger_currency r = Some c then unwrap_or 0 (ledger_units r) else 0) rows)"

lemma sum_simps [simp]:
  "request_sum [] c = 0" "ledger_sum [] c = 0"
  "request_sum (ys @ [r]) c
     = request_sum ys c + (if rw_request_currency r = Some c then unwrap_or 0 (cost_units r) else 0)"
  "ledger_sum (ys @ [r]) c
     = ledger_sum ys c + (if rw_ledger_currency r = Some c then unwrap_or 0 (ledger_units r) else 0)"
  by (simp_all add: request_sum_def ledger_sum_def)

definition totals_ok :: "reconciliation_input_row list \<Rightarrow> currency_totals \<Rightarrow> bool" where
  "totals_ok ys m \<longleftrightarrow> sorted_wrt (<) (map fst m) \<and>
     (\<forall>c. acc_of m c = \<lparr>ca_request_final_cost_total = usd (request_sum ys c),
                          ca_expected_ledger_amount_total = usd (- request_sum ys c),
                          ca_ledger_amount_total = usd (ledger_sum ys c)\<rparr>)"

lemma add_request_Inr:
  "add_request (usd a) (usd b)
     \<lparr>ca_request_final_cost_total = usd x, ca_expected_ledger_amount_total = usd y,
      ca_ledger_amount_total = z\<rparr> = Inr acc
   \<Longrightarrow> acc = \<lparr>ca_request_final_cost_total = usd (x + a), ca_expected_ledger_amount_total = usd (y + b),
              ca_ledger_amount_total = z\<rparr>"
  by (auto simp: add_request_def result_simps fd_checked_add_eq_Inr fixed_decimal.expand)

lemma add_ledger_Inr:
  "add_ledger (usd a)
     \<lparr>ca_request_final_cost_total = x, ca_expected_ledger_amount_total = y,
      ca_ledger_amount_total = usd z\<rparr> = Inr acc
   \<Longrightarrow> acc = \<lparr>ca_request_final_cost_total = x, ca_expected_ledger_amount_total = y,
              ca_ledger_amount_total = usd (z + a)\<rparr>"
  by (auto simp: add_ledger_def result_simps fd_checked_add_eq_Inr fixed_decimal.expand)

lemma row_totals_ok:
  assumes "totals_ok ys m"
    and "row_totals row (row_cost row) (row_expected row) (row_ledger row) m = Inr m'"
  shows "totals_ok (ys @ [row]) m'"
proof -
  obtain m1 where m1: "(case (rw_request_currency row, row_cost row, row_expected row) of
              (Some currency, Some cost, Some expected) \<Rightarrow> update_entry currency (add_request cost expected) m
            | _ \<Rightarrow> Inr m) = Inr m1"
    and m': "(case (rw_ledger_currency row, row_ledger row) of
       (Some currency, Some amount) \<Rightarrow> update_entry currency (add_ledger amount) m1
     | _ \<Rightarrow> Inr m1) = Inr m'"
    using assms(2) by (auto simp: row_totals_def result_simps)
  have s1: "sorted_wrt (<) (map fst m1)
    \<and> (\<forall>c. acc_of m1 c = \<lparr>ca_request_final_cost_total = usd (request_sum (ys @ [row]) c),
           ca_expected_ledger_amount_total = usd (- request_sum (ys @ [row]) c),
           ca_ledger_amount_total = usd (ledger_sum ys c)\<rparr>)"
  proof (cases "rw_request_currency row = None \<or> cost_units row = None")
    case True
    with m1 assms(1) show ?thesis by (auto simp: totals_ok_def split: option.splits)
  next
    case False
    then obtain k u where k: "rw_request_currency row = Some k" "cost_units row = Some u" by auto
    with m1 have "update_entry k (add_request (usd u) (usd (- u))) m = Inr m1" by simp
    from update_entry_Inr [OF this] assms(1) k show ?thesis
      by (auto simp: totals_ok_def dest!: add_request_Inr)
  qed
  show ?thesis
  proof (cases "rw_ledger_currency row = None \<or> ledger_units row = None")
    case True
    with m' s1 show ?thesis by (auto simp: totals_ok_def split: option.splits)
  next
    case False
    then obtain k u where k: "rw_ledger_currency row = Some k" "ledger_units row = Some u" by auto
    with m' have "update_entry k (add_ledger (usd u)) m1 = Inr m'" by simp
    from update_entry_Inr [OF this] s1 k show ?thesis
      by (auto simp: totals_ok_def dest!: add_ledger_Inr)
  qed
qed

lemma fold_totals_ok:
  "try_fold (reconcile_row n (usd 0)) initial_state rows = Inr st \<Longrightarrow> totals_ok rows (rs_currency_totals st)"
proof (induction rule: try_fold_prefix_induct)
  case start
  show ?case by (simp add: totals_ok_def initial_state_def acc_of_def default_accumulator_def Let_def)
next
  case (step ys row st st')
  from step(3) show ?case
  proof (cases rule: reconcile_row_cases)
    case skip
    with step(1) show ?thesis by (simp add: totals_ok_def)
  next
    case (agree totals)
    with row_totals_ok [OF step(1)] show ?thesis by simp
  next
    case (differ totals)
    from differ(3) row_totals_ok [OF step(1) differ(1)] show ?thesis
      by (auto elim!: record_discrepancy_Inr)
  qed
qed

lemma acc_of_entry: "sorted_wrt (<) (map fst m) \<Longrightarrow> (c, a) \<in> set m \<Longrightarrow> acc_of m c = a"
  by (simp add: acc_of_def strict_sorted_iff map_of_is_SomeI)

lemma into_total_exact:
  assumes "totals_ok rows m" "(c, a) \<in> set m" "into_total k a = Inr t"
  shows "ct_currency t = k
    \<and> fd_to_string (usd (request_sum rows c)) = Some (ct_request_final_cost_total t)
    \<and> fd_to_string (usd (- request_sum rows c)) = Some (ct_expected_ledger_amount_total t)
    \<and> fd_to_string (usd (ledger_sum rows c)) = Some (ct_ledger_amount_total t)
    \<and> fd_to_string (usd (ledger_sum rows c + request_sum rows c)) = Some (ct_difference_amount t)"
proof -
  have "a = \<lparr>ca_request_final_cost_total = usd (request_sum rows c),
            ca_expected_ledger_amount_total = usd (- request_sum rows c),
            ca_ledger_amount_total = usd (ledger_sum rows c)\<rparr>"
    using assms(1,2) acc_of_entry [of m c a] by (simp add: totals_ok_def)
  with assms(3) show ?thesis
    by (auto simp: into_total_def result_simps display_money_def rec_checked_subtract_def
        rec_checked_neg_eq_Inr fd_checked_add_eq_Inr fixed_decimal.expand)
qed

lemma agreeing_rows_balance:
  "\<forall>r \<in> set rows. row_agrees r \<Longrightarrow> ledger_sum rows c = - request_sum rows c"
  by (induction rows rule: rev_induct) (auto simp: row_agrees_def split: option.splits)

lemma usd_zero_text: "fd_to_string (usd 0) = Some ''0.00000000''"
proof -
  have "show_nat 0 = ''0''" by (simp add: show_nat.simps [of 0] digit_char_def char_of_def bit_0)
  moreover have "replicate 7 (CHR ''0'') = ''0000000''" by (simp add: numeral_eq_Suc)
  ultimately show ?thesis by (simp add: fd_to_string_def DEFAULT_MONEY_SCALE_def pow10_Some pad_zeros_def)
qed

text \<open>The marker that replaces a secret is not itself taken for one, so redaction is final.\<close>

lemma redact_not_sensitive: "\<not> looks_sensitive (redact_reconciliation_text v)"
proof -
  have "trim ''[REDACTED]'' = ''[REDACTED]''"
    by (rule trim_printable_ends) (simp_all add: byte_of_def)
  then have "\<not> looks_sensitive ''[REDACTED]''"
    by (simp add: looks_sensitive_def starts_with_def to_ascii_lowercase_def ascii_lower_def
        is_ascii_uppercase_def byte_of_def char_of_def)
  then show ?thesis by (simp add: redact_reconciliation_text_def)
qed

definition discrepancy_texts :: "reconciliation_discrepancy \<Rightarrow> string set" where
  "discrepancy_texts d = \<Union> (set_option ` {dc_trace_id d, dc_requested_model d, dc_upstream_model d,
     dc_request_status d, dc_request_currency d, dc_ledger_currency d})"

lemma row_discrepancy_texts: "v \<in> discrepancy_texts (row_discrepancy row is x y) \<Longrightarrow> \<not> looks_sensitive v"
  by (auto simp: discrepancy_texts_def row_discrepancy_def redact_not_sensitive)

lemma fold_redacted:
  "try_fold (reconcile_row n (usd 0)) initial_state rows = Inr st
   \<Longrightarrow> \<forall>d \<in> set (rs_discrepancies st). \<forall>v \<in> discrepancy_texts d. \<not> looks_sensitive v"
proof (induction rule: try_fold_prefix_induct)
  case start
  show ?case by (simp add: initial_state_def)
next
  case (step ys row st st')
  from step(3) show ?case
    by (cases rule: reconcile_row_cases)
       (use step(1) in \<open>auto dest!: row_discrepancy_texts elim!: record_discrepancy_Inr split: if_splits\<close>)
qed

section \<open>Properties of reconciliation\<close>

text \<open>The reconciliation report counts right: the requests are the rows with a cost; the
  discrepancies are exactly the rows whose ledger amount is not the negated cost in the same currency
  (a free request may have no entry); every request is either matched or has exactly one
  of the three issues a request can have, every discrepancy has exactly one issue, and the report
  returns as many discrepancies as there are, up to the limit.\<close>

theorem reconciliation_counts_exact:
  assumes "reconcile_billing_usage_ledger tenant rows n = Inr rep"
  defines "s \<equiv> rp_summary rep"
  shows "sm_request_count s = length (filter (\<lambda>r. cost_units r \<noteq> None) rows)
    \<and> sm_discrepancy_count s = length (filter (\<lambda>r. \<not> row_agrees r) rows)
    \<and> sm_request_count s = sm_matched_request_count s + sm_missing_ledger_count s
         + sm_amount_mismatch_count s + sm_currency_mismatch_count s
    \<and> sm_discrepancy_count s = sm_missing_ledger_count s + sm_unexpected_ledger_count s
         + sm_amount_mismatch_count s + sm_currency_mismatch_count s
    \<and> length (rp_discrepancies rep) = min n (sm_discrepancy_count s)
    \<and> sm_returned_discrepancy_count s = length (rp_discrepancies rep)"
  using assms(1) unfolding s_def
  by (rule reconcile_Inr) (auto dest!: fold_counts_ok simp: counts_ok_def)

text \<open>C19. The currency totals are exact: each total of the report is, for one currency, the printed sum
  of the costs of the requests in that currency, of the negated costs, of the ledger amounts in that
  currency, and of the ledger amounts plus the costs as the difference. When no row disagrees,
  every difference is zero, so a clean report proves that the ledger holds what was billed.\<close>

theorem reconciliation_totals_exact:
  assumes "reconcile_billing_usage_ledger tenant rows n = Inr rep"
    and "t \<in> set (sm_currency_totals (rp_summary rep))"
  shows "\<exists>c. ct_currency t = redact_reconciliation_text c
    \<and> fd_to_string (usd (request_sum rows c)) = Some (ct_request_final_cost_total t)
    \<and> fd_to_string (usd (- request_sum rows c)) = Some (ct_expected_ledger_amount_total t)
    \<and> fd_to_string (usd (ledger_sum rows c)) = Some (ct_ledger_amount_total t)
    \<and> fd_to_string (usd (ledger_sum rows c + request_sum rows c)) = Some (ct_difference_amount t)
    \<and> (sm_discrepancy_count (rp_summary rep) = 0 \<longrightarrow> ct_difference_amount t = ''0.00000000'')"
proof -
  from assms(1) obtain st where st: "try_fold (reconcile_row n (usd 0)) initial_state rows = Inr st"
    "list_all2 (\<lambda>(currency, totals) t. into_total (redact_reconciliation_text currency) totals = Inr t)
       (rs_currency_totals st) (sm_currency_totals (rp_summary rep))"
    "sm_discrepancy_count (rp_summary rep) = rs_discrepancy_count st"
    by (rule reconcile_Inr)
  from assms(2) st(2) obtain c a where "(c, a) \<in> set (rs_currency_totals st)"
    "into_total (redact_reconciliation_text c) a = Inr t"
    by (auto dest!: list_all2_in_set2)
  note t = into_total_exact [OF fold_totals_ok [OF st(1)] this]
  moreover have "ct_difference_amount t = ''0.00000000''" if "rs_discrepancy_count st = 0"
  proof -
    have "\<forall>r \<in> set rows. row_agrees r"
      using fold_counts_ok [OF st(1)] that by (simp add: counts_ok_def filter_empty_conv)
    then have "fd_to_string (usd 0) = Some (ct_difference_amount t)"
      using t agreeing_rows_balance [of rows c] by simp
    then show ?thesis by (simp add: usd_zero_text)
  qed
  ultimately show ?thesis using st(3) by auto
qed

text \<open>The report leaks no credential: no text of a returned discrepancy (trace id, models, status,
  currencies) and no currency label of the totals looks like an API key, a bearer token, a password
  or a secret, whatever the rows contain.\<close>

theorem reconciliation_redacts_secrets:
  assumes "reconcile_billing_usage_ledger tenant rows n = Inr rep"
  shows "(\<forall>d \<in> set (rp_discrepancies rep). \<forall>v \<in> discrepancy_texts d. \<not> looks_sensitive v)
    \<and> (\<forall>t \<in> set (sm_currency_totals (rp_summary rep)). \<not> looks_sensitive (ct_currency t))"
proof -
  from assms obtain st where st: "try_fold (reconcile_row n (usd 0)) initial_state rows = Inr st"
    "list_all2 (\<lambda>(currency, totals) t. into_total (redact_reconciliation_text currency) totals = Inr t)
       (rs_currency_totals st) (sm_currency_totals (rp_summary rep))"
    "rp_discrepancies rep = rs_discrepancies st"
    by (rule reconcile_Inr)
  have "\<not> looks_sensitive (ct_currency t)" if "t \<in> set (sm_currency_totals (rp_summary rep))" for t
  proof -
    from list_all2_in_set2 [OF st(2) that] obtain c a
      where "into_total (redact_reconciliation_text c) a = Inr t" by auto
    then show ?thesis by (auto simp: into_total_def result_simps redact_not_sensitive)
  qed
  with fold_redacted [OF st(1)] st(3) show ?thesis by auto
qed

section \<open>A sample report\<close>

text \<open>A request of 0.5 USD that never reached the ledger.\<close>

definition sample_row :: reconciliation_input_row where
  "sample_row =
     \<lparr>rw_tenant_id = 1, rw_period_start = ''a'', rw_period_end = ''b'', rw_request_id = Some 2,
      rw_project_id = None, rw_virtual_key_id = None, rw_trace_id = None,
      rw_canonical_model_id = None, rw_resolved_provider_id = None, rw_resolved_channel_id = None,
      rw_requested_model = None, rw_upstream_model = None, rw_request_status = None,
      rw_input_tokens = None, rw_output_tokens = None, rw_request_final_cost = Some ''0.5'',
      rw_request_currency = Some ''USD'', rw_ledger_entry_ids = [], rw_ledger_entry_count = 0,
      rw_ledger_amount = None, rw_ledger_currency = None\<rparr>"

lemma parse_half: "fd_parse ''0.5'' DEFAULT_MONEY_SCALE = Inr (usd 50000000)"
  using parse_decimal_text [of "''''" "''0''" "Some ''5''" DEFAULT_MONEY_SCALE "''decimal''"]
  by (simp add: fd_parse_def decimal_text_def decimal_parts_ok_def decimal_magnitude_def digits_val_def
      digit_val_def is_ascii_digit_def byte_of_def DEFAULT_MONEY_SCALE_def MAX_MONEY_SCALE_def in_i128_def
      i128_min_def i128_max_def)

lemma fd_to_string_usd: "\<exists>s. fd_to_string (usd u) = Some s"
  by (simp add: fd_to_string_def DEFAULT_MONEY_SCALE_def pow10_Some Let_def)

lemma sample_report:
  obtains rep where "reconcile_billing_usage_ledger 1 [sample_row] 5 = Inr rep"
    "sm_discrepancy_count (rp_summary rep) = 1" "length (sm_currency_totals (rp_summary rep)) = 1"
proof -
  obtain s t where st: "fd_to_string (usd 50000000) = Some s" "fd_to_string (usd (- 50000000)) = Some t"
    using fd_to_string_usd by metis
  have zero: "fd_zero DEFAULT_MONEY_SCALE = Inr (usd 0)"
    by (rule fd_zero_ok) (simp add: DEFAULT_MONEY_SCALE_def MAX_MONEY_SCALE_def)
  have ranges: "in_i128 50000000" "in_i128 (- 50000000)" "DEFAULT_MONEY_SCALE \<le> MAX_MONEY_SCALE"
    by (simp_all add: DEFAULT_MONEY_SCALE_def MAX_MONEY_SCALE_def in_i128_def i128_min_def i128_max_def)
  have "\<exists>rep. reconcile_billing_usage_ledger 1 [sample_row] 5 = Inr rep
      \<and> sm_discrepancy_count (rp_summary rep) = 1 \<and> length (sm_currency_totals (rp_summary rep)) = 1"
    by (simp add: reconcile_billing_usage_ledger_def zero sample_row_def reconcile_row_def Let_def
        parse_optional_money_def parse_half rec_checked_neg_def i128_checked_neg_def check_i128_def ranges
        from_units_def validate_scale_def row_totals_def add_request_def default_accumulator_def
        fd_checked_add_def i128_checked_add_def row_issues_def nonzero_def fd_is_zero_def
        record_discrepancy_def difference_text_def display_money_def st usd_zero_text into_total_def
        rec_checked_subtract_def open_period_def count_row_def initial_state_def)
  then show thesis using that by blast
qed

theorem reconciliation_counts_exact_witness:
  "\<exists>rep. reconcile_billing_usage_ledger 1 [sample_row] 5 = Inr rep
     \<and> sm_missing_ledger_count (rp_summary rep) + sm_unexpected_ledger_count (rp_summary rep)
        + sm_amount_mismatch_count (rp_summary rep) + sm_currency_mismatch_count (rp_summary rep) = 1
     \<and> length (rp_discrepancies rep) = 1"
proof -
  obtain rep where rep: "reconcile_billing_usage_ledger 1 [sample_row] 5 = Inr rep"
    "sm_discrepancy_count (rp_summary rep) = 1"
    by (rule sample_report)
  with reconciliation_counts_exact [OF rep(1)] show ?thesis by simp
qed

theorem reconciliation_totals_exact_witness:
  "\<exists>rep t. reconcile_billing_usage_ledger 1 [sample_row] 5 = Inr rep
     \<and> t \<in> set (sm_currency_totals (rp_summary rep))
     \<and> (\<exists>c. ct_currency t = redact_reconciliation_text c
          \<and> fd_to_string (usd (request_sum [sample_row] c)) = Some (ct_request_final_cost_total t))"
proof -
  obtain rep where rep: "reconcile_billing_usage_ledger 1 [sample_row] 5 = Inr rep"
    "length (sm_currency_totals (rp_summary rep)) = 1"
    by (rule sample_report)
  then obtain t where "t \<in> set (sm_currency_totals (rp_summary rep))"
    by (cases "sm_currency_totals (rp_summary rep)") auto
  with reconciliation_totals_exact [OF rep(1) this] rep(1) show ?thesis by blast
qed

theorem reconciliation_redacts_secrets_witness:
  "\<exists>rep. reconcile_billing_usage_ledger 1 [sample_row] 5 = Inr rep
     \<and> (\<forall>t \<in> set (sm_currency_totals (rp_summary rep)). \<not> looks_sensitive (ct_currency t))"
proof -
  obtain rep where rep: "reconcile_billing_usage_ledger 1 [sample_row] 5 = Inr rep"
    by (rule sample_report)
  with reconciliation_redacts_secrets [OF rep] show ?thesis by blast
qed

end
