(* ===== verification/Selection.thy ===== *)
theory Selection
  imports Prelude
begin

text \<open>
  Route selection (\<open>routing/src/selection.rs\<close>): the filter of a candidate, the order of the candidates,
  trace affinity, the weighted pick inside the best priority group, and the decision snapshot.
  Priorities are \<open>i32\<close> values as integers, weights \<open>u32\<close> and seeds \<open>u64\<close> words; the sum of the weights
  and the running ticket are \<open>u64\<close> words, as in the code.
\<close>

section \<open>Data\<close>

definition ROUTE_DECISION_SNAPSHOT_VERSION :: u16 where
  "ROUTE_DECISION_SNAPSHOT_VERSION = 1"

datatype channel_status =
    CS_Enabled | CS_Degraded | CS_Disabled | CS_CoolingDown | CS_RecoveryProbe | CS_AuthFailed
  | CS_QuotaExhausted | CS_ManualDisabled | CS_Deleted

datatype channel_health = CH_Healthy | CH_Degraded | CH_Unhealthy

datatype candidate_filter_reason =
    FR_CanonicalModelDisabled | FR_CanonicalModelDeleted | FR_ModelVisibilityDenied
  | FR_ProfileModelDenied | FR_AssociationDisabled | FR_AssociationDeleted
  | FR_ProfileChannelTagDenied | FR_ProfileProviderDenied | FR_Disabled | FR_CoolingDown
  | FR_RecoveryProbe | FR_AuthFailed | FR_QuotaExhausted | FR_ManualDisabled | FR_Deleted
  | FR_RateLimitExceeded | FR_Unhealthy | FR_ZeroWeight

record route_candidate =
  rc_channel_id :: string
  rc_provider_id :: string
  rc_provider_model :: string
  rc_priority :: int
  rc_weight :: u32
  rc_status :: channel_status
  rc_health :: channel_health
  rc_rate_limit_available :: bool

definition route_candidate_new :: "string \<Rightarrow> string \<Rightarrow> string \<Rightarrow> int \<Rightarrow> u32 \<Rightarrow> route_candidate" where
  "route_candidate_new channel_id provider_id provider_model priority weight =
     \<lparr>rc_channel_id = channel_id, rc_provider_id = provider_id, rc_provider_model = provider_model,
      rc_priority = priority, rc_weight = weight, rc_status = CS_Enabled, rc_health = CH_Healthy,
      rc_rate_limit_available = True\<rparr>"

definition with_status :: "channel_status \<Rightarrow> route_candidate \<Rightarrow> route_candidate" where
  "with_status status c = c\<lparr>rc_status := status\<rparr>"

definition with_health :: "channel_health \<Rightarrow> route_candidate \<Rightarrow> route_candidate" where
  "with_health health c = c\<lparr>rc_health := health\<rparr>"

definition with_rate_limit_available :: "bool \<Rightarrow> route_candidate \<Rightarrow> route_candidate" where
  "with_rate_limit_available available c = c\<lparr>rc_rate_limit_available := available\<rparr>"

record evaluated_candidate =
  ev_candidate :: route_candidate
  ev_filter_reason :: "candidate_filter_reason option"

definition is_selectable :: "evaluated_candidate \<Rightarrow> bool" where
  "is_selectable e \<longleftrightarrow> ev_filter_reason e = None"

record selection_policy =
  sp_seed :: u64

record trace_affinity =
  ta_enabled :: bool
  ta_previous :: "string option"

definition trace_affinity_disabled :: trace_affinity where
  "trace_affinity_disabled = \<lparr>ta_enabled = False, ta_previous = None\<rparr>"

definition prefer_channel :: "string \<Rightarrow> trace_affinity" where
  "prefer_channel channel_id = \<lparr>ta_enabled = True, ta_previous = Some channel_id\<rparr>"

record route_selection_context =
  cx_trace_id :: "string option"
  cx_trace_affinity :: trace_affinity

definition context_default :: route_selection_context where
  "context_default = \<lparr>cx_trace_id = None, cx_trace_affinity = trace_affinity_disabled\<rparr>"

definition for_trace :: "string \<Rightarrow> route_selection_context" where
  "for_trace trace_id = \<lparr>cx_trace_id = Some trace_id, cx_trace_affinity = trace_affinity_disabled\<rparr>"

definition with_trace_id :: "string \<Rightarrow> route_selection_context \<Rightarrow> route_selection_context" where
  "with_trace_id trace_id cx = cx\<lparr>cx_trace_id := Some trace_id\<rparr>"

definition with_trace_affinity_channel ::
  "string \<Rightarrow> route_selection_context \<Rightarrow> route_selection_context" where
  "with_trace_affinity_channel channel_id cx = cx\<lparr>cx_trace_affinity := prefer_channel channel_id\<rparr>"

datatype trace_affinity_status =
    TS_Disabled | TS_NoTraceId | TS_NoPreviousSuccess | TS_PreviousChannelNotCandidate
  | TS_PreviousChannelFiltered | TS_Applied

record trace_affinity_decision =
  td_status :: trace_affinity_status
  td_trace_id :: "string option"
  td_previous :: "string option"
  td_applied :: "string option"

record route_request =
  rq_requested_model :: string
  rq_canonical_model :: "string option"
  rq_policy :: selection_policy

definition route_request_new :: "string \<Rightarrow> u64 \<Rightarrow> route_request" where
  "route_request_new requested_model seed =
     \<lparr>rq_requested_model = requested_model, rq_canonical_model = None, rq_policy = \<lparr>sp_seed = seed\<rparr>\<rparr>"

definition with_canonical_model :: "string \<Rightarrow> route_request \<Rightarrow> route_request" where
  "with_canonical_model canonical_model r = r\<lparr>rq_canonical_model := Some canonical_model\<rparr>"

record selected_route =
  sr_channel_id :: string
  sr_provider_id :: string
  sr_provider_model :: string
  sr_priority :: int
  sr_weight :: u32

record route_decision =
  rd_requested_model :: string
  rd_canonical_model :: "string option"
  rd_policy :: selection_policy
  rd_trace_id :: "string option"
  rd_trace_affinity :: trace_affinity_decision
  rd_selected_channel_id :: "string option"
  rd_selected :: "selected_route option"
  rd_candidates :: "evaluated_candidate list"

record route_candidate_score =
  cs_priority :: int
  cs_weight :: u32
  cs_trace_affinity_bonus :: u32
  cs_total :: int

record snapshot_candidate =
  sc_channel_id :: string
  sc_provider_id :: string
  sc_provider_model :: string
  sc_priority :: int
  sc_weight :: u32
  sc_status :: channel_status
  sc_health :: channel_health
  sc_rate_limit_available :: bool
  sc_filtered :: bool
  sc_filter_reason :: "candidate_filter_reason option"
  sc_score :: "route_candidate_score option"
  sc_selected :: bool
  sc_trace_affinity_match :: bool

record route_decision_snapshot =
  sn_version :: u16
  sn_requested_model :: string
  sn_canonical_model :: "string option"
  sn_policy :: selection_policy
  sn_trace_id :: "string option"
  sn_trace_affinity :: trace_affinity_decision
  sn_selected_channel_id :: "string option"
  sn_selected :: "selected_route option"
  sn_candidates :: "snapshot_candidate list"

record route_decision_snapshot_summary =
  ss_version :: u16
  ss_requested_model :: string
  ss_canonical_model :: "string option"
  ss_selected_channel_id :: "string option"
  ss_selected_provider_model :: "string option"
  ss_candidate_count :: nat
  ss_filtered_count :: nat
  ss_filter_reasons :: "candidate_filter_reason list"
  ss_selected_score_total :: "int option"
  ss_trace_affinity_status :: trace_affinity_status

section \<open>Operations\<close>

definition selection_filter_reason_for :: "route_candidate \<Rightarrow> candidate_filter_reason option" where
  "selection_filter_reason_for c =
     (case rc_status c of
        CS_Disabled \<Rightarrow> Some FR_Disabled
      | CS_CoolingDown \<Rightarrow> Some FR_CoolingDown
      | CS_RecoveryProbe \<Rightarrow> Some FR_RecoveryProbe
      | CS_AuthFailed \<Rightarrow> Some FR_AuthFailed
      | CS_QuotaExhausted \<Rightarrow> Some FR_QuotaExhausted
      | CS_ManualDisabled \<Rightarrow> Some FR_ManualDisabled
      | CS_Deleted \<Rightarrow> Some FR_Deleted
      | _ \<Rightarrow>
          if \<not> rc_rate_limit_available c then Some FR_RateLimitExceeded
          else if rc_health c = CH_Unhealthy then Some FR_Unhealthy
          else if rc_weight c = 0 then Some FR_ZeroWeight
          else None)"

definition compare_evaluated_candidates :: "evaluated_candidate \<Rightarrow> evaluated_candidate \<Rightarrow> ordering" where
  "compare_evaluated_candidates l r =
     then_with (then_with (ord_cmp (rc_priority (ev_candidate l)) (rc_priority (ev_candidate r)))
       (ord_cmp (rc_weight (ev_candidate r)) (rc_weight (ev_candidate l))))
       (ord_cmp (rc_channel_id (ev_candidate l)) (rc_channel_id (ev_candidate r)))"

definition evaluate_candidates :: "route_candidate list \<Rightarrow> evaluated_candidate list" where
  "evaluate_candidates candidates =
     sort_by compare_evaluated_candidates
       (map (\<lambda>c. \<lparr>ev_candidate = c, ev_filter_reason = selection_filter_reason_for c\<rparr>) candidates)"

definition selected_route_from_candidate :: "evaluated_candidate \<Rightarrow> selected_route" where
  "selected_route_from_candidate e =
     \<lparr>sr_channel_id = rc_channel_id (ev_candidate e), sr_provider_id = rc_provider_id (ev_candidate e),
      sr_provider_model = rc_provider_model (ev_candidate e), sr_priority = rc_priority (ev_candidate e),
      sr_weight = rc_weight (ev_candidate e)\<rparr>"

text \<open>\<open>Iterator::min\<close>, and the loop that walks the group with the ticket.\<close>

definition iter_min :: "int list \<Rightarrow> int option" where
  "iter_min xs = (case xs of [] \<Rightarrow> None | x # ys \<Rightarrow> Some (foldl min x ys))"

definition weight64 :: "evaluated_candidate \<Rightarrow> u64" where
  "weight64 e = ucast (rc_weight (ev_candidate e))"

primrec walk_group :: "u64 \<Rightarrow> evaluated_candidate list \<Rightarrow> evaluated_candidate option" where
  "walk_group ticket [] = None"
| "walk_group ticket (e # es) =
     (if ticket < weight64 e then Some e else walk_group (ticket - weight64 e) es)"

definition priority_group :: "int \<Rightarrow> evaluated_candidate list \<Rightarrow> evaluated_candidate list" where
  "priority_group best_priority candidates =
     filter (\<lambda>e. is_selectable e \<and> rc_priority (ev_candidate e) = best_priority) candidates"

definition pick_by_priority_then_weight :: "evaluated_candidate list \<Rightarrow> u64 \<Rightarrow> selected_route option" where
  "pick_by_priority_then_weight candidates seed =
     (case iter_min (map (\<lambda>e. rc_priority (ev_candidate e)) (filter is_selectable candidates)) of
        None \<Rightarrow> None
      | Some best_priority \<Rightarrow>
          let group = priority_group best_priority candidates;
              total_weight = sum_list (map weight64 group)
          in if total_weight = 0 then None
             else map_option selected_route_from_candidate (walk_group (seed mod total_weight) group))"

definition evaluate_trace_affinity ::
  "route_selection_context \<Rightarrow> evaluated_candidate list \<Rightarrow> trace_affinity_decision" where
  "evaluate_trace_affinity cx candidates =
     (let previous = ta_previous (cx_trace_affinity cx)
      in if \<not> ta_enabled (cx_trace_affinity cx)
         then \<lparr>td_status = TS_Disabled, td_trace_id = cx_trace_id cx, td_previous = previous,
               td_applied = None\<rparr>
         else if cx_trace_id cx = None
         then \<lparr>td_status = TS_NoTraceId, td_trace_id = None, td_previous = previous, td_applied = None\<rparr>
         else case previous of
           None \<Rightarrow> \<lparr>td_status = TS_NoPreviousSuccess, td_trace_id = cx_trace_id cx,
                     td_previous = previous, td_applied = None\<rparr>
         | Some channel_id \<Rightarrow>
             (case List.find (\<lambda>e. rc_channel_id (ev_candidate e) = channel_id) candidates of
                None \<Rightarrow> \<lparr>td_status = TS_PreviousChannelNotCandidate, td_trace_id = cx_trace_id cx,
                          td_previous = previous, td_applied = None\<rparr>
              | Some e \<Rightarrow>
                  if \<not> is_selectable e
                  then \<lparr>td_status = TS_PreviousChannelFiltered, td_trace_id = cx_trace_id cx,
                        td_previous = previous, td_applied = None\<rparr>
                  else \<lparr>td_status = TS_Applied, td_trace_id = cx_trace_id cx,
                        td_previous = Some channel_id, td_applied = Some channel_id\<rparr>))"

definition pick_by_trace_affinity ::
  "evaluated_candidate list \<Rightarrow> trace_affinity_decision \<Rightarrow> selected_route option" where
  "pick_by_trace_affinity candidates decision =
     (case td_applied decision of
        None \<Rightarrow> None
      | Some channel_id \<Rightarrow>
          map_option selected_route_from_candidate
            (List.find (\<lambda>e. is_selectable e \<and> rc_channel_id (ev_candidate e) = channel_id) candidates))"

definition select_from_evaluated_candidates ::
  "route_request \<Rightarrow> evaluated_candidate list \<Rightarrow> route_selection_context \<Rightarrow> route_decision" where
  "select_from_evaluated_candidates request evaluated cx =
     (let affinity = evaluate_trace_affinity cx evaluated;
          selected = (case pick_by_trace_affinity evaluated affinity of
              Some r \<Rightarrow> Some r
            | None \<Rightarrow> pick_by_priority_then_weight evaluated (sp_seed (rq_policy request)))
      in \<lparr>rd_requested_model = rq_requested_model request,
          rd_canonical_model = rq_canonical_model request, rd_policy = rq_policy request,
          rd_trace_id = cx_trace_id cx, rd_trace_affinity = affinity,
          rd_selected_channel_id = map_option sr_channel_id selected, rd_selected = selected,
          rd_candidates = evaluated\<rparr>)"

definition select_route_from_evaluated ::
  "route_request \<Rightarrow> evaluated_candidate list \<Rightarrow> route_selection_context \<Rightarrow> route_decision" where
  "select_route_from_evaluated request candidates cx =
     select_from_evaluated_candidates request (sort_by compare_evaluated_candidates candidates) cx"

definition select_route_with_context ::
  "route_request \<Rightarrow> route_candidate list \<Rightarrow> route_selection_context \<Rightarrow> route_decision" where
  "select_route_with_context request candidates cx =
     select_from_evaluated_candidates request (evaluate_candidates candidates) cx"

definition select_route :: "route_request \<Rightarrow> route_candidate list \<Rightarrow> route_decision" where
  "select_route request candidates = select_route_with_context request candidates context_default"

definition trace_affinity_decision_disabled :: trace_affinity_decision where
  "trace_affinity_decision_disabled =
     \<lparr>td_status = TS_Disabled, td_trace_id = None, td_previous = None, td_applied = None\<rparr>"

definition route_decision_empty :: "string \<Rightarrow> route_decision" where
  "route_decision_empty requested_model =
     \<lparr>rd_requested_model = requested_model, rd_canonical_model = None, rd_policy = \<lparr>sp_seed = 0\<rparr>,
      rd_trace_id = None, rd_trace_affinity = trace_affinity_decision_disabled,
      rd_selected_channel_id = None, rd_selected = None, rd_candidates = []\<rparr>"

text \<open>The score is computed in \<open>i64\<close>; its range is a lemma below.\<close>

definition score_candidate :: "route_candidate \<Rightarrow> bool \<Rightarrow> route_candidate_score" where
  "score_candidate candidate trace_affinity_match =
     (let bonus = (if trace_affinity_match then 1 else 0 :: u32);
          total_score = (i32_max - rc_priority candidate) + uint (rc_weight candidate) + uint bonus
      in \<lparr>cs_priority = rc_priority candidate, cs_weight = rc_weight candidate,
          cs_trace_affinity_bonus = bonus, cs_total = total_score\<rparr>)"

definition snapshot_of_candidate ::
  "string option \<Rightarrow> string option \<Rightarrow> evaluated_candidate \<Rightarrow> snapshot_candidate" where
  "snapshot_of_candidate selected_channel_id affinity_channel_id e =
     (let candidate = ev_candidate e;
          affinity_match = (affinity_channel_id = Some (rc_channel_id candidate))
      in \<lparr>sc_channel_id = rc_channel_id candidate, sc_provider_id = rc_provider_id candidate,
          sc_provider_model = rc_provider_model candidate, sc_priority = rc_priority candidate,
          sc_weight = rc_weight candidate, sc_status = rc_status candidate,
          sc_health = rc_health candidate, sc_rate_limit_available = rc_rate_limit_available candidate,
          sc_filtered = (\<not> is_selectable e), sc_filter_reason = ev_filter_reason e,
          sc_score = (if is_selectable e then Some (score_candidate candidate affinity_match) else None),
          sc_selected = (selected_channel_id = Some (rc_channel_id candidate)),
          sc_trace_affinity_match = affinity_match\<rparr>)"

definition snapshot_from_decision :: "route_decision \<Rightarrow> route_decision_snapshot" where
  "snapshot_from_decision decision =
     \<lparr>sn_version = ROUTE_DECISION_SNAPSHOT_VERSION, sn_requested_model = rd_requested_model decision,
      sn_canonical_model = rd_canonical_model decision, sn_policy = rd_policy decision,
      sn_trace_id = rd_trace_id decision, sn_trace_affinity = rd_trace_affinity decision,
      sn_selected_channel_id = rd_selected_channel_id decision, sn_selected = rd_selected decision,
      sn_candidates = map (snapshot_of_candidate (rd_selected_channel_id decision)
                             (td_previous (rd_trace_affinity decision))) (rd_candidates decision)\<rparr>"

definition snapshot_summary :: "route_decision_snapshot \<Rightarrow> route_decision_snapshot_summary" where
  "snapshot_summary s =
     \<lparr>ss_version = sn_version s, ss_requested_model = sn_requested_model s,
      ss_canonical_model = sn_canonical_model s, ss_selected_channel_id = sn_selected_channel_id s,
      ss_selected_provider_model = map_option sr_provider_model (sn_selected s),
      ss_candidate_count = length (sn_candidates s),
      ss_filtered_count = length (filter sc_filtered (sn_candidates s)),
      ss_filter_reasons = List.map_filter sc_filter_reason (sn_candidates s),
      ss_selected_score_total =
        map_option cs_total (Option.bind (List.find sc_selected (sn_candidates s)) sc_score),
      ss_trace_affinity_status = td_status (sn_trace_affinity s)\<rparr>"

section \<open>The order of the candidates\<close>

text \<open>The sort key: priority, then weight downwards, then channel id.\<close>

definition candidate_key :: "route_candidate \<Rightarrow> int \<times> int \<times> string" where
  "candidate_key c = (rc_priority c, - uint (rc_weight c), rc_channel_id c)"

lemma ord_cmp_uint: "ord_cmp a b = ord_cmp (- uint b) (- uint a)" for a b :: "'a::len word"
  by (auto simp: ord_cmp_def word_less_def word_uint_eq_iff)

lemma then_with_assoc: "then_with (then_with a b) c = then_with a (then_with b c)"
  by (simp add: then_with_def split: ordering.splits)

lemma compare_evaluated_by_key:
  "compare_evaluated_candidates l r = ord_cmp (candidate_key (ev_candidate l)) (candidate_key (ev_candidate r))"
  unfolding compare_evaluated_candidates_def candidate_key_def then_with_assoc
    ord_cmp_uint [of "rc_weight (ev_candidate r)"]
  by (simp add: then_with_ord_cmp)

interpretation candidate_order: comparator compare_evaluated_candidates
  by (rule comparator_by_key) (rule compare_evaluated_by_key)

section \<open>The weighted pick\<close>

lemma iter_min_eq:
  "iter_min xs = (if xs = [] then None else Some (Min (set xs)))"
proof -
  have "foldl min x ys = Min (insert x (set ys))" for x :: int and ys
  proof (induction ys arbitrary: x)
    case (Cons y ys)
    then show ?case by (cases "set ys = {}") (auto simp: min.assoc min.left_commute)
  qed simp
  then show ?thesis by (simp add: iter_min_def split: list.split)
qed

definition cand_weight :: "evaluated_candidate \<Rightarrow> nat" where
  "cand_weight e = unat (rc_weight (ev_candidate e))"

definition prefix_weight :: "evaluated_candidate list \<Rightarrow> nat \<Rightarrow> nat" where
  "prefix_weight es i = sum_list (map cand_weight (take i es))"

lemma cand_weight_less: "cand_weight e < 2 ^ 32"
  using unsigned_less [of "rc_weight (ev_candidate e)", where 'a = nat] by (simp add: cand_weight_def)

lemma unat_weight64 [simp]: "unat (weight64 e) = cand_weight e"
proof -
  have "unat (rc_weight (ev_candidate e)) < 2 ^ 64"
    using cand_weight_less [of e] by (simp add: cand_weight_def)
  then show ?thesis by (simp add: weight64_def cand_weight_def unsigned_ucast_eq take_bit_nat_eq_self)
qed

lemma sum_weight_bound: "sum_list (map cand_weight es) \<le> length es * (2 ^ 32 - 1)"
proof (induction es)
  case (Cons e es)
  with cand_weight_less [of e] show ?case by simp
qed simp

lemma unat_sum_weight64:
  "sum_list (map cand_weight es) < 2 ^ 64 \<Longrightarrow>
   unat (sum_list (map weight64 es)) = sum_list (map cand_weight es)"
  by (induction es) (simp_all add: unat_word_ariths)

lemma walk_group_nth:
  assumes "i < length es" "prefix_weight es i \<le> unat t" "unat t < prefix_weight es (Suc i)"
  shows "walk_group t es = Some (es ! i)"
  using assms
proof (induction es arbitrary: i t)
  case (Cons e es)
  show ?case
  proof (cases i)
    case 0
    with Cons.prems show ?thesis by (simp add: prefix_weight_def word_less_nat_alt)
  next
    case (Suc j)
    with Cons.prems have le: "cand_weight e \<le> unat t" by (simp add: prefix_weight_def)
    then have "weight64 e \<le> t" by (simp add: word_le_nat_alt)
    then have "unat (t - weight64 e) = unat t - cand_weight e" by (simp add: unat_sub)
    with Cons.prems Suc le Cons.IH [of j "t - weight64 e"] show ?thesis
      by (simp add: prefix_weight_def word_less_nat_alt)
  qed
qed simp

lemma prefix_slot:
  assumes "t < sum_list (map cand_weight es)"
  shows "\<exists>i < length es. prefix_weight es i \<le> t \<and> t < prefix_weight es (Suc i)"
  using assms
proof (induction es arbitrary: t)
  case (Cons e es)
  show ?case
  proof (cases "t < cand_weight e")
    case True
    then show ?thesis by (intro exI [of _ 0]) (simp add: prefix_weight_def)
  next
    case False
    with Cons.prems have "t - cand_weight e < sum_list (map cand_weight es)" by simp
    from Cons.IH [OF this] obtain i where "i < length es" "prefix_weight es i \<le> t - cand_weight e"
      "t - cand_weight e < prefix_weight es (Suc i)" by blast
    with False show ?thesis by (intro exI [of _ "Suc i"]) (auto simp: prefix_weight_def)
  qed
qed simp

text \<open>The group the pick is made from.\<close>

definition best_group :: "evaluated_candidate list \<Rightarrow> evaluated_candidate list" where
  "best_group es =
     filter (\<lambda>e. is_selectable e \<and> (\<forall>f \<in> set es. is_selectable f
        \<longrightarrow> rc_priority (ev_candidate e) \<le> rc_priority (ev_candidate f))) es"

lemma pick_by_priority_eq:
  "pick_by_priority_then_weight es seed =
     (let total_weight = sum_list (map weight64 (best_group es))
      in if total_weight = 0 then None
         else map_option selected_route_from_candidate (walk_group (seed mod total_weight) (best_group es)))"
proof (cases "filter is_selectable es = []")
  case True
  then have "best_group es = []" by (auto simp: best_group_def filter_empty_conv)
  with True show ?thesis by (simp add: pick_by_priority_then_weight_def iter_min_def)
next
  case False
  let ?p = "\<lambda>e. rc_priority (ev_candidate e)"
  let ?S = "?p ` set (filter is_selectable es)"
  have "priority_group (Min ?S) es = best_group es"
    unfolding priority_group_def best_group_def
  proof (rule filter_cong [OF refl])
    fix e assume e: "e \<in> set es"
    have "?S \<noteq> {}" using False by (simp only: image_is_empty set_empty) simp
    then have "is_selectable e \<Longrightarrow> ?p e = Min ?S \<longleftrightarrow> (\<forall>p \<in> ?S. ?p e \<le> p)"
      using e by (auto simp: Min_eq_iff eq_commute [of _ "Min _"])
    then show "(is_selectable e \<and> ?p e = Min ?S)
      = (is_selectable e \<and> (\<forall>f \<in> set es. is_selectable f \<longrightarrow> ?p e \<le> ?p f))" by auto
  qed
  with False show ?thesis
    by (simp add: pick_by_priority_then_weight_def iter_min_eq Let_def)
qed

lemma best_group_subset: "e \<in> set (best_group es) \<Longrightarrow> e \<in> set es \<and> is_selectable e"
  by (simp add: best_group_def)

lemma best_group_nonempty:
  assumes "e \<in> set es" "is_selectable e"
  shows "best_group es \<noteq> []"
proof -
  let ?S = "(\<lambda>e. rc_priority (ev_candidate e)) ` {e \<in> set es. is_selectable e}"
  have "Min ?S \<in> ?S" using assms by (intro Min_in) auto
  then obtain f where "f \<in> set es" "is_selectable f" "rc_priority (ev_candidate f) = Min ?S" by auto
  then have "f \<in> set (best_group es)" by (auto simp: best_group_def)
  then show ?thesis by auto
qed

lemma group_weight_bound:
  assumes "length es < 2 ^ 32"
  shows "sum_list (map cand_weight (best_group es)) < 2 ^ 64"
proof -
  have "length (best_group es) < 2 ^ 32" using assms by (simp add: best_group_def le_less_trans [OF length_filter_le])
  then have "length (best_group es) * (2 ^ 32 - 1) \<le> (2 ^ 32 - 1) * (2 ^ 32 - 1 :: nat)"
    by (intro mult_right_mono) simp_all
  also have "\<dots> < 2 ^ 64" by simp
  finally show ?thesis using sum_weight_bound [of "best_group es"] by simp
qed

lemma walk_group_in: "walk_group t es = Some e \<Longrightarrow> e \<in> set es"
  by (induction es arbitrary: t) (auto split: if_splits)

lemma pick_weighted:
  assumes "sum_list (map cand_weight (best_group es)) < 2 ^ 64" "i < length (best_group es)"
    and "prefix_weight (best_group es) i \<le> unat seed mod sum_list (map cand_weight (best_group es))"
    and "unat seed mod sum_list (map cand_weight (best_group es)) < prefix_weight (best_group es) (Suc i)"
  shows "pick_by_priority_then_weight es seed = Some (selected_route_from_candidate (best_group es ! i))"
proof -
  let ?W = "sum_list (map weight64 (best_group es))"
  have W: "unat ?W = sum_list (map cand_weight (best_group es))" by (rule unat_sum_weight64 [OF assms(1)])
  have "prefix_weight (best_group es) (Suc i) \<noteq> 0" using assms(4) by linarith
  then have "sum_list (map cand_weight (best_group es)) \<noteq> 0"
    by (auto simp: prefix_weight_def dest: in_set_takeD)
  with W have "?W \<noteq> 0" by auto
  moreover have "walk_group (seed mod ?W) (best_group es) = Some (best_group es ! i)"
    using assms(3,4) W by (intro walk_group_nth [OF assms(2)]) (simp_all add: unat_mod_distrib)
  ultimately show ?thesis by (simp add: pick_by_priority_eq Let_def)
qed

lemma selected_is_candidate:
  assumes "rd_selected (select_from_evaluated_candidates request es cx) = Some r"
  shows "\<exists>e \<in> set es. r = selected_route_from_candidate e \<and> is_selectable e
    \<and> (case td_applied (evaluate_trace_affinity cx es) of
         Some c \<Rightarrow> sr_channel_id r = c \<and> ta_previous (cx_trace_affinity cx) = Some c
       | None \<Rightarrow> \<forall>f \<in> set es. is_selectable f \<longrightarrow> sr_priority r \<le> rc_priority (ev_candidate f))"
proof (cases "td_applied (evaluate_trace_affinity cx es)")
  case None
  then have "pick_by_priority_then_weight es (sp_seed (rq_policy request)) = Some r"
    using assms by (simp add: select_from_evaluated_candidates_def pick_by_trace_affinity_def Let_def)
  then obtain e where "e \<in> set (best_group es)" "r = selected_route_from_candidate e"
    by (auto simp: pick_by_priority_eq Let_def dest: walk_group_in split: if_splits)
  with None show ?thesis by (auto simp: best_group_def selected_route_from_candidate_def)
next
  case (Some c)
  then obtain e where e: "List.find (\<lambda>e. rc_channel_id (ev_candidate e) = c) es = Some e" "is_selectable e"
    "ta_previous (cx_trace_affinity cx) = Some c"
    by (auto simp: evaluate_trace_affinity_def Let_def split: if_splits option.splits)
  have "e \<in> set es \<and> rc_channel_id (ev_candidate e) = c" using find_SomeD [OF e(1)] by simp
  then have "List.find (\<lambda>e. is_selectable e \<and> rc_channel_id (ev_candidate e) = c) es \<noteq> None"
    using e(2) by (auto simp: find_None_iff)
  then obtain f where f: "List.find (\<lambda>e. is_selectable e \<and> rc_channel_id (ev_candidate e) = c) es = Some f"
    by auto
  from find_SomeD [OF f] have "f \<in> set es" "is_selectable f" "rc_channel_id (ev_candidate f) = c" by auto
  with assms Some f e(3) show ?thesis
    by (auto simp: select_from_evaluated_candidates_def pick_by_trace_affinity_def Let_def
        selected_route_from_candidate_def)
qed

section \<open>Properties of selection\<close>

text \<open>A selected route is always a permitted one: it is a candidate of the decision that no filter
  excluded; when trace affinity applies it is the channel of the previous success, and otherwise its
  priority value is the lowest among all permitted candidates.\<close>

theorem selected_route_is_permitted:
  assumes "rd_selected (select_from_evaluated_candidates request es cx) = Some r"
  shows "\<exists>e \<in> set es. r = selected_route_from_candidate e \<and> is_selectable e
    \<and> (case td_applied (evaluate_trace_affinity cx es) of
         Some c \<Rightarrow> sr_channel_id r = c \<and> ta_previous (cx_trace_affinity cx) = Some c
       | None \<Rightarrow> \<forall>f \<in> set es. is_selectable f \<longrightarrow> sr_priority r \<le> rc_priority (ev_candidate f))"
  using assms by (rule selected_is_candidate)

definition sample_candidates :: "route_candidate list" where
  "sample_candidates =
     [route_candidate_new ''b'' ''p'' ''m'' 0 1, route_candidate_new ''a'' ''p'' ''m'' 0 3,
      with_health CH_Unhealthy (route_candidate_new ''c'' ''p'' ''m'' (-1) 9),
      route_candidate_new ''d'' ''p'' ''m'' 5 9]"

lemmas selection_eval =
  sample_candidates_def route_candidate_new_def with_health_def evaluate_candidates_def
  selection_filter_reason_for_def compare_evaluated_candidates_def then_with_def ord_cmp_def
  is_selectable_def

lemma sample_evaluated:
  "evaluate_candidates sample_candidates =
     map (\<lambda>c. \<lparr>ev_candidate = c, ev_filter_reason = selection_filter_reason_for c\<rparr>)
       [with_health CH_Unhealthy (route_candidate_new ''c'' ''p'' ''m'' (-1) 9),
        route_candidate_new ''a'' ''p'' ''m'' 0 3, route_candidate_new ''b'' ''p'' ''m'' 0 1,
        route_candidate_new ''d'' ''p'' ''m'' 5 9]"
  by (simp add: selection_eval)

lemma sample_group:
  "best_group (evaluate_candidates sample_candidates) =
     [\<lparr>ev_candidate = route_candidate_new ''a'' ''p'' ''m'' 0 3, ev_filter_reason = None\<rparr>,
      \<lparr>ev_candidate = route_candidate_new ''b'' ''p'' ''m'' 0 1, ev_filter_reason = None\<rparr>]"
  unfolding sample_evaluated by (simp add: best_group_def selection_eval)

lemma sample_pick:
  "pick_by_priority_then_weight (evaluate_candidates sample_candidates) 7
     = Some (selected_route_from_candidate
         \<lparr>ev_candidate = route_candidate_new ''b'' ''p'' ''m'' 0 1, ev_filter_reason = None\<rparr>)"
  by (simp add: pick_by_priority_eq sample_group weight64_def route_candidate_new_def)

theorem selected_route_is_permitted_witness:
  "\<exists>r. rd_selected (select_from_evaluated_candidates (route_request_new ''m'' 7)
         (evaluate_candidates sample_candidates) context_default) = Some r
     \<and> (\<exists>e \<in> set (evaluate_candidates sample_candidates). r = selected_route_from_candidate e \<and> is_selectable e)"
proof -
  obtain r where r: "rd_selected (select_from_evaluated_candidates (route_request_new ''m'' 7)
      (evaluate_candidates sample_candidates) context_default) = Some r"
    by (simp add: select_from_evaluated_candidates_def context_default_def trace_affinity_disabled_def
        evaluate_trace_affinity_def pick_by_trace_affinity_def route_request_new_def sample_pick)
  with selected_route_is_permitted [OF r] show ?thesis by blast
qed

text \<open>Weights are honoured exactly: over one period of seeds, a candidate of the best priority group is
  chosen by exactly as many seeds as its weight, so traffic is split in the configured proportion.
  The bound on the number of candidates rules the overflow of the summed weights out.\<close>

theorem weighted_pick_is_proportional:
  assumes "length es < 2 ^ 32" "distinct (map (\<lambda>e. rc_channel_id (ev_candidate e)) es)"
    and "e \<in> set (best_group es)"
  shows "card {s. s < sum_list (map cand_weight (best_group es))
      \<and> pick_by_priority_then_weight es (of_nat s) = Some (selected_route_from_candidate e)} = cand_weight e"
proof -
  let ?g = "best_group es"
  let ?W = "sum_list (map cand_weight ?g)"
  have W: "?W < 2 ^ 64" by (rule group_weight_bound [OF assms(1)])
  from assms(3) obtain i where i: "i < length ?g" "e = ?g ! i" by (metis in_set_conv_nth)
  have dist: "distinct (map (\<lambda>e. rc_channel_id (ev_candidate e)) ?g)"
    using assms(2) by (simp add: best_group_def distinct_map_filter)
  have pick: "pick_by_priority_then_weight es (of_nat s) = Some (selected_route_from_candidate (?g ! j))"
    if "s < ?W" "j < length ?g" "prefix_weight ?g j \<le> s" "s < prefix_weight ?g (Suc j)" for s j
    using that W by (intro pick_weighted [OF W that(2)])
      (simp_all add: unat_of_nat take_bit_nat_eq_self unsigned_of_nat)
  have "{s. s < ?W \<and> pick_by_priority_then_weight es (of_nat s) = Some (selected_route_from_candidate e)}
    = {prefix_weight ?g i ..< prefix_weight ?g (Suc i)}" (is "?A = ?B")
  proof (intro equalityI subsetI)
    fix s assume s: "s \<in> ?A"
    then obtain j where j: "j < length ?g" "prefix_weight ?g j \<le> s" "s < prefix_weight ?g (Suc j)"
      using prefix_slot [of s ?g] by auto
    with s pick [of s j] have "selected_route_from_candidate (?g ! j) = selected_route_from_candidate e" by simp
    then have "rc_channel_id (ev_candidate (?g ! j)) = rc_channel_id (ev_candidate (?g ! i))"
      by (simp add: selected_route_from_candidate_def i(2))
    then have "j = i" using dist i(1) j(1) by (simp add: distinct_conv_nth) metis
    with j show "s \<in> ?B" by simp
  next
    fix s assume "s \<in> ?B"
    moreover have "prefix_weight ?g (Suc i) \<le> ?W"
      by (metis append_take_drop_id le_add1 map_append prefix_weight_def sum_list.append)
    ultimately show "s \<in> ?A" using pick [of s i] i by auto
  qed
  moreover have "prefix_weight ?g (Suc i) = prefix_weight ?g i + cand_weight e"
    using i by (simp add: prefix_weight_def take_Suc_conv_app_nth)
  ultimately show ?thesis by simp
qed

theorem weighted_pick_is_proportional_witness:
  "card {s. s < 4 \<and> pick_by_priority_then_weight (evaluate_candidates sample_candidates) (of_nat s)
     = Some (selected_route_from_candidate
         \<lparr>ev_candidate = route_candidate_new ''a'' ''p'' ''m'' 0 3, ev_filter_reason = None\<rparr>)} = 3"
proof -
  have "length (evaluate_candidates sample_candidates) < 2 ^ 32"
    "distinct (map (\<lambda>e. rc_channel_id (ev_candidate e)) (evaluate_candidates sample_candidates))"
    unfolding sample_evaluated by (simp_all add: selection_eval)
  from weighted_pick_is_proportional [OF this, of
      "\<lparr>ev_candidate = route_candidate_new ''a'' ''p'' ''m'' 0 3, ev_filter_reason = None\<rparr>"]
  show ?thesis by (simp add: sample_group cand_weight_def route_candidate_new_def)
qed

lemma eligible_selected:
  assumes "c \<in> set cands" "selection_filter_reason_for c = None" "length cands < 2 ^ 32"
  shows "rd_selected (select_route_with_context request cands cx) \<noteq> None"
proof -
  let ?es = "evaluate_candidates cands"
  have es: "set ?es = (\<lambda>c. \<lparr>ev_candidate = c, ev_filter_reason = selection_filter_reason_for c\<rparr>) ` set cands"
    by (simp add: evaluate_candidates_def candidate_order.set_sort_by)
  have len: "length ?es = length cands"
    unfolding evaluate_candidates_def using candidate_order.mset_sort_by by (metis length_map size_mset)
  let ?g = "best_group ?es"
  have "?g \<noteq> []" using assms(1,2) es
    by (intro best_group_nonempty [of "\<lparr>ev_candidate = c, ev_filter_reason = None\<rparr>"]) (force simp: is_selectable_def)+
  then obtain e where e: "e \<in> set ?g" by (cases ?g) auto
  then have "selection_filter_reason_for (ev_candidate e) = None"
    using best_group_subset [of e ?es] unfolding es by (auto simp: is_selectable_def)
  then have "cand_weight e \<noteq> 0"
    by (auto simp: cand_weight_def selection_filter_reason_for_def unat_eq_zero
        split: channel_status.splits if_splits)
  then have pos: "0 < sum_list (map cand_weight ?g)"
    using member_le_sum_list [of "cand_weight e" "map cand_weight ?g"] e by simp
  have W: "sum_list (map cand_weight ?g) < 2 ^ 64" using group_weight_bound [of ?es] assms(3) len by simp
  obtain i where "i < length ?g"
    "prefix_weight ?g i \<le> unat (sp_seed (rq_policy request)) mod sum_list (map cand_weight ?g)"
    "unat (sp_seed (rq_policy request)) mod sum_list (map cand_weight ?g) < prefix_weight ?g (Suc i)"
    using prefix_slot [of "unat (sp_seed (rq_policy request)) mod sum_list (map cand_weight ?g)" ?g] pos by auto
  from pick_weighted [OF W this] show ?thesis
    by (simp add: select_route_with_context_def select_from_evaluated_candidates_def Let_def split: option.split)
qed

text \<open>Selection always succeeds when it can: with at least one candidate whose channel is enabled or
  degraded, not unhealthy, within its rate limit and of positive weight, a route is selected,
  whatever the seed and the trace affinity.\<close>

theorem eligible_candidate_gets_selected:
  assumes "c \<in> set cands" "selection_filter_reason_for c = None" "length cands < 2 ^ 32"
  shows "rd_selected (select_route_with_context request cands cx) \<noteq> None"
  using assms by (rule eligible_selected)

theorem eligible_candidate_gets_selected_witness:
  "rd_selected (select_route_with_context (route_request_new ''m'' 41) sample_candidates (for_trace ''t'')) \<noteq> None"
  by (rule eligible_candidate_gets_selected [of "route_candidate_new ''a'' ''p'' ''m'' 0 3"])
     (simp_all add: selection_eval)

text \<open>The decision does not depend on the order in which the candidates arrive: for candidates of
  distinct channels, any permutation gives the same decision, including the order of the reported
  candidates, so a replay from an unordered store reproduces it.\<close>

theorem selection_ignores_candidate_order:
  assumes "mset cands = mset cands'" "distinct (map rc_channel_id cands)"
  shows "select_route_with_context request cands cx = select_route_with_context request cands' cx"
proof -
  let ?ev = "\<lambda>c. \<lparr>ev_candidate = c, ev_filter_reason = selection_filter_reason_for c\<rparr>"
  have "inj_on rc_channel_id (set cands)" using assms(2) by (simp add: distinct_map)
  then have "sort_by compare_evaluated_candidates (map ?ev cands)
    = sort_by compare_evaluated_candidates (map ?ev cands')"
    using assms(1)
    by (intro candidate_order.sort_by_perm)
       (auto simp: compare_evaluated_by_key candidate_key_def ord_cmp_def inj_on_eq_iff split: if_splits)
  then show ?thesis by (simp add: select_route_with_context_def evaluate_candidates_def)
qed

theorem selection_ignores_candidate_order_witness:
  "select_route_with_context (route_request_new ''m'' 3) sample_candidates context_default
   = select_route_with_context (route_request_new ''m'' 3) (rev sample_candidates) context_default"
  by (rule selection_ignores_candidate_order) (simp_all add: sample_candidates_def route_candidate_new_def with_health_def)

lemma find_filter_single: "filter P xs = [x] \<Longrightarrow> List.find P xs = Some x"
  by (induction xs) (auto split: if_splits)

lemma filter_eq_single:
  assumes "x \<in> set xs" "distinct xs" "\<And>y. y \<in> set xs \<Longrightarrow> P y \<longleftrightarrow> y = x"
  shows "filter P xs = [x]"
  using assms by (induction xs) (auto simp: filter_empty_conv split: if_splits)

lemma score_range:
  "0 \<le> w \<Longrightarrow> w < 2 ^ 32 \<Longrightarrow> i32_min \<le> p \<Longrightarrow> p \<le> i32_max \<Longrightarrow> b \<in> {0, 1}
   \<Longrightarrow> 0 \<le> i32_max - p + w + b \<and> i32_max - p + w + b \<le> i64_max"
  by (auto simp: i32_min_def i32_max_def i64_max_def)

text \<open>The decision snapshot explains the selection: for candidates of distinct channels with \<open>i32\<close>
  priorities, exactly one candidate of the snapshot is marked selected, it is the selected
  route, it was not filtered, and the summary reports its score, which is its distance from
  the worst priority plus its weight plus one for trace affinity and lies well inside \<open>i64\<close>.\<close>

theorem snapshot_explains_selection:
  assumes "distinct (map (\<lambda>e. rc_channel_id (ev_candidate e)) es)"
    and "d = select_from_evaluated_candidates request es cx" "rd_selected d = Some r"
    and "i32_min \<le> sr_priority r" "sr_priority r \<le> i32_max"
  shows "\<exists>c score. filter sc_selected (sn_candidates (snapshot_from_decision d)) = [c]
    \<and> sc_channel_id c = sr_channel_id r \<and> sc_provider_model c = sr_provider_model r \<and> \<not> sc_filtered c
    \<and> ss_selected_score_total (snapshot_summary (snapshot_from_decision d)) = Some score
    \<and> score = i32_max - sr_priority r + uint (sr_weight r) + (if sc_trace_affinity_match c then 1 else 0)
    \<and> 0 \<le> score \<and> score \<le> i64_max"
proof -
  obtain e where e: "e \<in> set es" "r = selected_route_from_candidate e" "is_selectable e"
    using selected_is_candidate [of request es cx r] assms(2,3) by blast
  define snap where "snap = snapshot_of_candidate (rd_selected_channel_id d) (td_previous (rd_trace_affinity d))"
  have d: "rd_selected_channel_id d = Some (rc_channel_id (ev_candidate e))" "rd_candidates d = es"
    using assms(2,3) e(2)
    by (auto simp: select_from_evaluated_candidates_def Let_def selected_route_from_candidate_def)
  have "filter (sc_selected \<circ> snap) es = [e]"
    using assms(1) e(1) d(1)
    by (intro filter_eq_single)
       (auto simp: snap_def snapshot_of_candidate_def Let_def distinct_map dest: inj_onD)
  then have sel: "filter sc_selected (map snap es) = [snap e]" by (simp add: filter_map)
  have bounds: "0 \<le> i32_max - sr_priority r + uint (sr_weight r) + b"
    "i32_max - sr_priority r + uint (sr_weight r) + b \<le> i64_max" if "b \<in> {0, 1}" for b
    using score_range [OF uint_ge_0 _ assms(4,5) that, of "sr_weight r"] uint_lt2p [of "sr_weight r"] by simp_all
  show ?thesis
    using sel find_filter_single [OF sel] e(2,3) bounds
    by (auto simp: snapshot_from_decision_def snapshot_summary_def d(2) snap_def [symmetric] intro!: exI [of _ "snap e"])
       (auto simp: snap_def snapshot_of_candidate_def Let_def selected_route_from_candidate_def score_candidate_def)
qed

theorem snapshot_explains_selection_witness:
  "\<exists>c. filter sc_selected (sn_candidates (snapshot_from_decision
         (select_from_evaluated_candidates (route_request_new ''m'' 7)
            (evaluate_candidates sample_candidates) context_default))) = [c] \<and> sc_channel_id c = ''b''"
proof -
  let ?d = "select_from_evaluated_candidates (route_request_new ''m'' 7)
      (evaluate_candidates sample_candidates) context_default"
  let ?e = "\<lparr>ev_candidate = route_candidate_new ''b'' ''p'' ''m'' 0 1, ev_filter_reason = None\<rparr>"
  have dist: "distinct (map (\<lambda>e. rc_channel_id (ev_candidate e)) (evaluate_candidates sample_candidates))"
    unfolding sample_evaluated by (simp add: selection_eval)
  have "rd_selected ?d = Some (selected_route_from_candidate ?e)"
    by (simp add: select_from_evaluated_candidates_def context_default_def trace_affinity_disabled_def
        evaluate_trace_affinity_def pick_by_trace_affinity_def route_request_new_def sample_pick)
  from snapshot_explains_selection [OF dist refl this] show ?thesis
    by (auto simp: selected_route_from_candidate_def route_candidate_new_def i32_min_def i32_max_def)
qed

end
