(* ===== verification/ModelMapping.thy ===== *)
theory ModelMapping
  imports RustStr
begin

text \<open>
  The mapping of a requested model name to the name a channel's upstream knows it by
  (\<open>routing/src/model_mapping.rs\<close>): explicit mappings, prefix trimming and the case policy.
\<close>

datatype model_name_case_policy = CP_Preserve | CP_Lower | CP_Upper

definition case_policy_parse :: "string \<Rightarrow> model_name_case_policy" where
  "case_policy_parse v =
     (let normalized = to_ascii_lowercase (trim v)
      in if normalized \<in> {''lower'', ''lowercase''} then CP_Lower
         else if normalized \<in> {''upper'', ''uppercase''} then CP_Upper
         else CP_Preserve)"

definition case_policy_apply :: "model_name_case_policy \<Rightarrow> string \<Rightarrow> string" where
  "case_policy_apply policy v =
     (case policy of CP_Preserve \<Rightarrow> v | CP_Lower \<Rightarrow> to_ascii_lowercase v | CP_Upper \<Rightarrow> to_ascii_uppercase v)"

record explicit_model_mapping =
  em_requested_model :: string
  em_upstream_model :: string

record channel_model_mapping_policy =
  mp_explicit_mappings :: "explicit_model_mapping list"
  mp_trim_prefixes :: "string list"
  mp_case_policy :: model_name_case_policy

definition mapping_policy_new :: channel_model_mapping_policy where
  "mapping_policy_new =
     \<lparr>mp_explicit_mappings = [], mp_trim_prefixes = [], mp_case_policy = CP_Preserve\<rparr>"

definition with_explicit_mapping ::
  "string \<Rightarrow> string \<Rightarrow> channel_model_mapping_policy \<Rightarrow> channel_model_mapping_policy" where
  "with_explicit_mapping requested_model upstream_model policy =
     policy\<lparr>mp_explicit_mappings := mp_explicit_mappings policy
              @ [\<lparr>em_requested_model = requested_model, em_upstream_model = upstream_model\<rparr>]\<rparr>"

definition with_trim_prefix ::
  "string \<Rightarrow> channel_model_mapping_policy \<Rightarrow> channel_model_mapping_policy" where
  "with_trim_prefix prefix policy = policy\<lparr>mp_trim_prefixes := mp_trim_prefixes policy @ [prefix]\<rparr>"

definition with_case_policy ::
  "model_name_case_policy \<Rightarrow> channel_model_mapping_policy \<Rightarrow> channel_model_mapping_policy" where
  "with_case_policy case_policy policy = policy\<lparr>mp_case_policy := case_policy\<rparr>"

definition prefix_with_separator :: "string \<Rightarrow> string" where
  "prefix_with_separator prefix = (if ends_with ''/'' prefix then prefix else prefix @ ''/'')"

definition normalized_trim_prefix :: "string \<Rightarrow> string \<Rightarrow> string option" where
  "normalized_trim_prefix model raw_prefix =
     (let prefix = trim raw_prefix
      in if prefix = [] then None
         else case strip_prefix (prefix_with_separator prefix) model of
           None \<Rightarrow> None
         | Some trimmed \<Rightarrow> if trimmed = [] then None else Some trimmed)"

text \<open>\<open>Iterator::max_by_key\<close> keeps the last of several maximal elements.\<close>

definition iter_max_by_key :: "('a \<Rightarrow> nat) \<Rightarrow> 'a list \<Rightarrow> 'a option" where
  "iter_max_by_key k xs =
     (case xs of [] \<Rightarrow> None | x # ys \<Rightarrow> Some (foldl (\<lambda>best y. if k best \<le> k y then y else best) x ys))"

definition trim_model_prefix :: "string \<Rightarrow> string list \<Rightarrow> string" where
  "trim_model_prefix model prefixes =
     unwrap_or model
       (iter_max_by_key (\<lambda>candidate. length model - length candidate)
          (List.map_filter (normalized_trim_prefix model) prefixes))"

definition map_upstream_model_name :: "string \<Rightarrow> channel_model_mapping_policy \<Rightarrow> string" where
  "map_upstream_model_name requested_model policy =
     (let fallback = case_policy_apply (mp_case_policy policy)
                       (trim_model_prefix requested_model (mp_trim_prefixes policy))
      in case List.find (\<lambda>m. em_requested_model m = requested_model) (mp_explicit_mappings policy) of
           Some mapping \<Rightarrow> if em_upstream_model mapping \<noteq> [] then em_upstream_model mapping else fallback
         | None \<Rightarrow> fallback)"

section \<open>The longest prefix\<close>

lemma iter_max_by_key_Some:
  assumes "iter_max_by_key k xs = Some m"
  shows "m \<in> set xs \<and> (\<forall>x \<in> set xs. k x \<le> k m)"
proof -
  have "let m = foldl (\<lambda>best y. if k best \<le> k y then y else best) x ys
        in m \<in> insert x (set ys) \<and> (\<forall>z \<in> insert x (set ys). k z \<le> k m)" for x ys
  proof (induction ys arbitrary: x)
    case (Cons y ys)
    from Cons.IH [of "if k x \<le> k y then y else x"] show ?case by (auto simp: Let_def split: if_splits)
  qed simp
  with assms show ?thesis by (auto simp: iter_max_by_key_def Let_def split: list.splits)
qed

lemma iter_max_by_key_None: "iter_max_by_key k xs = None \<longleftrightarrow> xs = []"
  by (simp add: iter_max_by_key_def split: list.split)

lemma set_map_filter: "set (List.map_filter f xs) = {y. \<exists>x \<in> set xs. f x = Some y}"
  by (induction xs) (auto simp: List.map_filter_simps split: option.splits)

lemma normalized_trim_prefix_Some:
  "normalized_trim_prefix model p = Some t \<longleftrightarrow>
     trim p \<noteq> [] \<and> t \<noteq> [] \<and> model = prefix_with_separator (trim p) @ t"
proof (cases "strip_prefix (prefix_with_separator (trim p)) model")
  case None
  then have "\<forall>t. model \<noteq> prefix_with_separator (trim p) @ t" using strip_prefix_eq_None by blast
  with None show ?thesis by (simp add: normalized_trim_prefix_def Let_def)
next
  case (Some u)
  then have "model = prefix_with_separator (trim p) @ u" by (simp only: strip_prefix_eq_Some)
  with Some show ?thesis by (auto simp: normalized_trim_prefix_def Let_def)
qed

lemma trim_model_prefix_longest:
  "(\<forall>p \<in> set ps. normalized_trim_prefix model p = None) \<and> trim_model_prefix model ps = model
   \<or> (\<exists>p \<in> set ps. normalized_trim_prefix model p = Some (trim_model_prefix model ps)
        \<and> (\<forall>q \<in> set ps. \<forall>t. normalized_trim_prefix model q = Some t
             \<longrightarrow> length (trim_model_prefix model ps) \<le> length t))"
proof (cases "List.map_filter (normalized_trim_prefix model) ps = []")
  case True
  then have none: "{y. \<exists>p \<in> set ps. normalized_trim_prefix model p = Some y} = {}"
    by (simp flip: set_map_filter)
  have "normalized_trim_prefix model p = None" if "p \<in> set ps" for p
    by (cases "normalized_trim_prefix model p") (use none that in auto)
  with True show ?thesis by (simp add: trim_model_prefix_def iter_max_by_key_def)
next
  case False
  then obtain m where m: "iter_max_by_key (\<lambda>c. length model - length c)
      (List.map_filter (normalized_trim_prefix model) ps) = Some m"
    by (metis iter_max_by_key_None not_None_eq)
  then have "trim_model_prefix model ps = m" by (simp add: trim_model_prefix_def)
  moreover have "length m \<le> length t" if "q \<in> set ps" "normalized_trim_prefix model q = Some t" for q t
  proof -
    have "length t \<le> length model" using that(2) by (auto simp: normalized_trim_prefix_Some)
    moreover have "length m \<le> length model"
      using iter_max_by_key_Some [OF m] by (auto simp: set_map_filter normalized_trim_prefix_Some)
    moreover have "length model - length t \<le> length model - length m"
      using iter_max_by_key_Some [OF m] that by (auto simp: set_map_filter)
    ultimately show ?thesis by linarith
  qed
  moreover have "\<exists>p \<in> set ps. normalized_trim_prefix model p = Some m"
    using iter_max_by_key_Some [OF m] by (auto simp: set_map_filter)
  ultimately show ?thesis by blast
qed

section \<open>Properties of the mapping\<close>

text \<open>The upstream name of a model is the explicit mapping's when there is a non-empty one for
  it; otherwise the longest of the configured prefixes that leaves a name is removed (the whole name
  is kept when none does) and only the letter case changes. A non-empty model name never maps to an
  empty one.\<close>

theorem upstream_model_name_exact:
  assumes "model \<noteq> []"
  shows "map_upstream_model_name model policy \<noteq> []
    \<and> (case List.find (\<lambda>m. em_requested_model m = model) (mp_explicit_mappings policy) of
         Some m \<Rightarrow> em_upstream_model m \<noteq> [] \<longrightarrow> map_upstream_model_name model policy = em_upstream_model m
       | None \<Rightarrow> \<exists>kept. map_upstream_model_name model policy = case_policy_apply (mp_case_policy policy) kept
           \<and> (kept = model \<and> (\<forall>p \<in> set (mp_trim_prefixes policy). normalized_trim_prefix model p = None)
              \<or> (\<exists>p \<in> set (mp_trim_prefixes policy). trim p \<noteq> []
                   \<and> model = prefix_with_separator (trim p) @ kept
                   \<and> (\<forall>q \<in> set (mp_trim_prefixes policy). \<forall>t. normalized_trim_prefix model q = Some t
                        \<longrightarrow> length kept \<le> length t))))"
proof -
  let ?ps = "mp_trim_prefixes policy"
  have trimmed: "trim_model_prefix model ?ps = model \<and> (\<forall>p \<in> set ?ps. normalized_trim_prefix model p = None)
    \<or> (\<exists>p \<in> set ?ps. trim p \<noteq> [] \<and> model = prefix_with_separator (trim p) @ trim_model_prefix model ?ps
         \<and> (\<forall>q \<in> set ?ps. \<forall>t. normalized_trim_prefix model q = Some t
              \<longrightarrow> length (trim_model_prefix model ?ps) \<le> length t))"
    using trim_model_prefix_longest [of ?ps model] normalized_trim_prefix_Some [of model] by blast
  have "trim_model_prefix model ps \<noteq> []" for ps
    using trim_model_prefix_longest [of ps model] assms by (auto simp: normalized_trim_prefix_Some)
  then have "case_policy_apply cp (trim_model_prefix model ps) \<noteq> []" for cp ps
    by (simp add: case_policy_apply_def to_ascii_lowercase_def to_ascii_uppercase_def
        split: model_name_case_policy.split)
  with trimmed show ?thesis
    unfolding map_upstream_model_name_def Let_def by (cases "List.find (\<lambda>m. em_requested_model m = model) (mp_explicit_mappings policy)") auto
qed

theorem upstream_model_name_exact_witness:
  "map_upstream_model_name ''gpt''
     (with_explicit_mapping ''gpt'' ''gpt-4o'' (with_trim_prefix ''openai'' mapping_policy_new)) = ''gpt-4o''"
  using upstream_model_name_exact [of "''gpt''"
      "with_explicit_mapping ''gpt'' ''gpt-4o'' (with_trim_prefix ''openai'' mapping_policy_new)"]
  by (simp add: with_explicit_mapping_def with_trim_prefix_def mapping_policy_new_def)

end
