(* ===== verification/CandidateGeneration.thy ===== *)
theory CandidateGeneration
  imports Selection ModelMapping
begin

text \<open>
  Candidate generation (\<open>routing/src/candidate_generation.rs\<close>): the associations of a canonical model
  are matched with the channels, each match becomes a candidate with its upstream model name, its
  combined priority and the first filter that excludes it, and the candidates are sorted. The
  \<open>regex\<close> crate is a parameter: \<open>regex p\<close> is \<open>None\<close> when the pattern does not compile, and otherwise the
  predicate \<open>is_match\<close>.
\<close>

section \<open>Data\<close>

definition ROUTE_PRIORITY_ASSOCIATION_MULTIPLIER :: int where
  "ROUTE_PRIORITY_ASSOCIATION_MULTIPLIER = 1000000"

datatype canonical_model_status = MS_Active | MS_Deprecated | MS_Disabled | MS_Deleted

datatype canonical_model_visibility = MV_Public | MV_Internal | MV_Hidden

record canonical_model_route_input =
  cm_id :: string
  cm_model_key :: string
  cm_status :: canonical_model_status
  cm_visibility :: canonical_model_visibility

definition canonical_model_new :: "string \<Rightarrow> string \<Rightarrow> canonical_model_route_input" where
  "canonical_model_new i model_key =
     \<lparr>cm_id = i, cm_model_key = model_key, cm_status = MS_Active, cm_visibility = MV_Internal\<rparr>"

definition cm_with_status ::
  "canonical_model_status \<Rightarrow> canonical_model_route_input \<Rightarrow> canonical_model_route_input" where
  "cm_with_status status model = model\<lparr>cm_status := status\<rparr>"

definition cm_with_visibility ::
  "canonical_model_visibility \<Rightarrow> canonical_model_route_input \<Rightarrow> canonical_model_route_input" where
  "cm_with_visibility visibility model = model\<lparr>cm_visibility := visibility\<rparr>"

datatype model_association_status = AS_Enabled | AS_Disabled | AS_Deleted

datatype model_association_type = AT_ExplicitChannel | AT_ChannelTag | AT_ModelPattern | AT_Global

datatype model_association_target =
    Target_ExplicitChannel string
  | Target_ChannelTag string
  | Target_ModelPattern string
  | Target_Global

definition association_type :: "model_association_target \<Rightarrow> model_association_type" where
  "association_type target =
     (case target of
        Target_ExplicitChannel _ \<Rightarrow> AT_ExplicitChannel
      | Target_ChannelTag _ \<Rightarrow> AT_ChannelTag
      | Target_ModelPattern _ \<Rightarrow> AT_ModelPattern
      | Target_Global \<Rightarrow> AT_Global)"

record model_association_route_input =
  ma_id :: string
  ma_canonical_model_id :: string
  ma_target :: model_association_target
  ma_upstream_model_name :: "string option"
  ma_priority :: int
  ma_fallback_allowed :: bool
  ma_status :: model_association_status

definition association_new ::
  "string \<Rightarrow> string \<Rightarrow> model_association_target \<Rightarrow> int \<Rightarrow> model_association_route_input" where
  "association_new i canonical_model_id target priority =
     \<lparr>ma_id = i, ma_canonical_model_id = canonical_model_id, ma_target = target,
      ma_upstream_model_name = None, ma_priority = priority, ma_fallback_allowed = True,
      ma_status = AS_Enabled\<rparr>"

definition explicit_channel :: "string \<Rightarrow> string \<Rightarrow> string \<Rightarrow> int \<Rightarrow> model_association_route_input" where
  "explicit_channel i canonical_model_id channel_id priority =
     association_new i canonical_model_id (Target_ExplicitChannel channel_id) priority"

definition channel_tag :: "string \<Rightarrow> string \<Rightarrow> string \<Rightarrow> int \<Rightarrow> model_association_route_input" where
  "channel_tag i canonical_model_id tag priority =
     association_new i canonical_model_id (Target_ChannelTag tag) priority"

definition model_pattern :: "string \<Rightarrow> string \<Rightarrow> string \<Rightarrow> int \<Rightarrow> model_association_route_input" where
  "model_pattern i canonical_model_id pattern priority =
     association_new i canonical_model_id (Target_ModelPattern pattern) priority"

definition global_association :: "string \<Rightarrow> string \<Rightarrow> int \<Rightarrow> model_association_route_input" where
  "global_association i canonical_model_id priority =
     association_new i canonical_model_id Target_Global priority"

definition with_upstream_model_name ::
  "string \<Rightarrow> model_association_route_input \<Rightarrow> model_association_route_input" where
  "with_upstream_model_name name association = association\<lparr>ma_upstream_model_name := Some name\<rparr>"

definition with_fallback_allowed ::
  "bool \<Rightarrow> model_association_route_input \<Rightarrow> model_association_route_input" where
  "with_fallback_allowed fallback_allowed association = association\<lparr>ma_fallback_allowed := fallback_allowed\<rparr>"

definition ma_with_status ::
  "model_association_status \<Rightarrow> model_association_route_input \<Rightarrow> model_association_route_input" where
  "ma_with_status status association = association\<lparr>ma_status := status\<rparr>"

record channel_route_input =
  ch_id :: string
  ch_provider_id :: string
  ch_tags :: "string list"
  ch_model_mapping_policy :: channel_model_mapping_policy
  ch_priority :: int
  ch_weight :: u32
  ch_status :: channel_status
  ch_health :: channel_health
  ch_rate_limit_available :: bool

definition channel_new :: "string \<Rightarrow> string \<Rightarrow> int \<Rightarrow> u32 \<Rightarrow> channel_route_input" where
  "channel_new i provider_id priority weight =
     \<lparr>ch_id = i, ch_provider_id = provider_id, ch_tags = [],
      ch_model_mapping_policy = mapping_policy_new, ch_priority = priority, ch_weight = weight,
      ch_status = CS_Enabled, ch_health = CH_Healthy, ch_rate_limit_available = True\<rparr>"

definition non_empty_string :: "string \<Rightarrow> string option" where
  "non_empty_string v = (let trimmed = trim v in if trimmed = [] then None else Some trimmed)"

definition push_non_empty :: "string list \<Rightarrow> string \<Rightarrow> string list" where
  "push_non_empty vs v = (case non_empty_string v of None \<Rightarrow> vs | Some s \<Rightarrow> vs @ [s])"

definition with_tag :: "string \<Rightarrow> channel_route_input \<Rightarrow> channel_route_input" where
  "with_tag tag channel = channel\<lparr>ch_tags := push_non_empty (ch_tags channel) tag\<rparr>"

definition with_tags :: "string list \<Rightarrow> channel_route_input \<Rightarrow> channel_route_input" where
  "with_tags tags channel = channel\<lparr>ch_tags := ch_tags channel @ List.map_filter non_empty_string tags\<rparr>"

definition with_model_mapping_policy ::
  "channel_model_mapping_policy \<Rightarrow> channel_route_input \<Rightarrow> channel_route_input" where
  "with_model_mapping_policy policy channel = channel\<lparr>ch_model_mapping_policy := policy\<rparr>"

definition ch_with_status :: "channel_status \<Rightarrow> channel_route_input \<Rightarrow> channel_route_input" where
  "ch_with_status status channel = channel\<lparr>ch_status := status\<rparr>"

definition ch_with_health :: "channel_health \<Rightarrow> channel_route_input \<Rightarrow> channel_route_input" where
  "ch_with_health health channel = channel\<lparr>ch_health := health\<rparr>"

definition ch_with_rate_limit_available :: "bool \<Rightarrow> channel_route_input \<Rightarrow> channel_route_input" where
  "ch_with_rate_limit_available available channel = channel\<lparr>ch_rate_limit_available := available\<rparr>"

record profile_route_constraints =
  pf_visible_model_visibilities :: "canonical_model_visibility list"
  pf_allowed_models :: "string list"
  pf_denied_models :: "string list"
  pf_allowed_channel_tags :: "string list"
  pf_denied_channel_tags :: "string list"
  pf_blocked_provider_ids :: "string list"

definition profile_unrestricted :: profile_route_constraints where
  "profile_unrestricted =
     \<lparr>pf_visible_model_visibilities = [], pf_allowed_models = [], pf_denied_models = [],
      pf_allowed_channel_tags = [], pf_denied_channel_tags = [], pf_blocked_provider_ids = []\<rparr>"

definition with_visible_model_visibility ::
  "canonical_model_visibility \<Rightarrow> profile_route_constraints \<Rightarrow> profile_route_constraints" where
  "with_visible_model_visibility visibility profile =
     profile\<lparr>pf_visible_model_visibilities := pf_visible_model_visibilities profile @ [visibility]\<rparr>"

definition with_allowed_model :: "string \<Rightarrow> profile_route_constraints \<Rightarrow> profile_route_constraints" where
  "with_allowed_model model profile = profile\<lparr>pf_allowed_models := push_non_empty (pf_allowed_models profile) model\<rparr>"

definition with_denied_model :: "string \<Rightarrow> profile_route_constraints \<Rightarrow> profile_route_constraints" where
  "with_denied_model model profile = profile\<lparr>pf_denied_models := push_non_empty (pf_denied_models profile) model\<rparr>"

definition with_allowed_channel_tag :: "string \<Rightarrow> profile_route_constraints \<Rightarrow> profile_route_constraints" where
  "with_allowed_channel_tag tag profile = profile\<lparr>pf_allowed_channel_tags := push_non_empty (pf_allowed_channel_tags profile) tag\<rparr>"

definition with_denied_channel_tag :: "string \<Rightarrow> profile_route_constraints \<Rightarrow> profile_route_constraints" where
  "with_denied_channel_tag tag profile = profile\<lparr>pf_denied_channel_tags := push_non_empty (pf_denied_channel_tags profile) tag\<rparr>"

definition with_blocked_provider_id :: "string \<Rightarrow> profile_route_constraints \<Rightarrow> profile_route_constraints" where
  "with_blocked_provider_id provider_id profile = profile\<lparr>pf_blocked_provider_ids := push_non_empty (pf_blocked_provider_ids profile) provider_id\<rparr>"

record route_candidate_generation_input =
  gi_requested_model :: string
  gi_canonical_model :: canonical_model_route_input
  gi_associations :: "model_association_route_input list"
  gi_channels :: "channel_route_input list"
  gi_profile :: profile_route_constraints

definition generation_input_new ::
  "string \<Rightarrow> canonical_model_route_input \<Rightarrow> route_candidate_generation_input" where
  "generation_input_new requested_model canonical_model =
     \<lparr>gi_requested_model = requested_model, gi_canonical_model = canonical_model, gi_associations = [],
      gi_channels = [], gi_profile = profile_unrestricted\<rparr>"

definition with_association ::
  "model_association_route_input \<Rightarrow> route_candidate_generation_input \<Rightarrow> route_candidate_generation_input" where
  "with_association association input = input\<lparr>gi_associations := gi_associations input @ [association]\<rparr>"

definition with_channel ::
  "channel_route_input \<Rightarrow> route_candidate_generation_input \<Rightarrow> route_candidate_generation_input" where
  "with_channel channel input = input\<lparr>gi_channels := gi_channels input @ [channel]\<rparr>"

definition with_profile ::
  "profile_route_constraints \<Rightarrow> route_candidate_generation_input \<Rightarrow> route_candidate_generation_input" where
  "with_profile profile input = input\<lparr>gi_profile := profile\<rparr>"

record generated_route_candidate =
  gc_association_id :: string
  gc_association_type :: model_association_type
  gc_association_priority :: int
  gc_channel_priority :: int
  gc_fallback_allowed :: bool
  gc_candidate :: route_candidate
  gc_filter_reason :: "candidate_filter_reason option"

definition gc_is_selectable :: "generated_route_candidate \<Rightarrow> bool" where
  "gc_is_selectable g \<longleftrightarrow> gc_filter_reason g = None"

definition gc_evaluated_candidate :: "generated_route_candidate \<Rightarrow> evaluated_candidate" where
  "gc_evaluated_candidate g = \<lparr>ev_candidate = gc_candidate g, ev_filter_reason = gc_filter_reason g\<rparr>"

record route_candidate_generation_result =
  gr_requested_model :: string
  gr_canonical_model :: canonical_model_route_input
  gr_candidates :: "generated_route_candidate list"

definition evaluated_candidates :: "route_candidate_generation_result \<Rightarrow> evaluated_candidate list" where
  "evaluated_candidates result = map gc_evaluated_candidate (gr_candidates result)"

definition selectable_route_candidates :: "generated_route_candidate list \<Rightarrow> route_candidate list" where
  "selectable_route_candidates candidates = map gc_candidate (filter gc_is_selectable candidates)"

section \<open>Operations\<close>

definition route_priority_for_generation :: "int \<Rightarrow> int \<Rightarrow> int" where
  "route_priority_for_generation association_priority channel_priority =
     i32_saturate (i32_saturate (association_priority * ROUTE_PRIORITY_ASSOCIATION_MULTIPLIER)
                   + channel_priority)"

definition string_list_contains :: "string list \<Rightarrow> string \<Rightarrow> bool" where
  "string_list_contains vs expected = list_ex (\<lambda>v. v = expected) vs"

definition channel_has_tag :: "channel_route_input \<Rightarrow> string \<Rightarrow> bool" where
  "channel_has_tag channel tag = list_ex (\<lambda>t. t = tag) (ch_tags channel)"

definition has_any_tag :: "channel_route_input \<Rightarrow> string list \<Rightarrow> bool" where
  "has_any_tag channel tags = list_ex (channel_has_tag channel) tags"

definition model_filter_reason ::
  "canonical_model_route_input \<Rightarrow> profile_route_constraints \<Rightarrow> candidate_filter_reason option" where
  "model_filter_reason model profile =
     (case cm_status model of
        MS_Disabled \<Rightarrow> Some FR_CanonicalModelDisabled
      | MS_Deleted \<Rightarrow> Some FR_CanonicalModelDeleted
      | _ \<Rightarrow>
          if string_list_contains (pf_denied_models profile) (cm_model_key model)
             \<or> (pf_allowed_models profile \<noteq> []
                 \<and> \<not> string_list_contains (pf_allowed_models profile) (cm_model_key model))
          then Some FR_ProfileModelDenied
          else if pf_visible_model_visibilities profile \<noteq> []
                  \<and> cm_visibility model \<notin> set (pf_visible_model_visibilities profile)
          then Some FR_ModelVisibilityDenied
          else None)"

definition association_filter_reason ::
  "model_association_route_input \<Rightarrow> candidate_filter_reason option" where
  "association_filter_reason association =
     (case ma_status association of
        AS_Enabled \<Rightarrow> None
      | AS_Disabled \<Rightarrow> Some FR_AssociationDisabled
      | AS_Deleted \<Rightarrow> Some FR_AssociationDeleted)"

definition profile_channel_filter_reason ::
  "channel_route_input \<Rightarrow> profile_route_constraints \<Rightarrow> candidate_filter_reason option" where
  "profile_channel_filter_reason channel profile =
     (if has_any_tag channel (pf_denied_channel_tags profile)
         \<or> (pf_allowed_channel_tags profile \<noteq> []
             \<and> \<not> has_any_tag channel (pf_allowed_channel_tags profile))
      then Some FR_ProfileChannelTagDenied
      else if string_list_contains (pf_blocked_provider_ids profile) (ch_provider_id channel)
      then Some FR_ProfileProviderDenied
      else None)"

definition model_pattern_matches ::
  "(string \<Rightarrow> (string \<Rightarrow> bool) option) \<Rightarrow> string \<Rightarrow> string \<Rightarrow> bool" where
  "model_pattern_matches regex model raw_pattern =
     (let pattern = trim raw_pattern
      in if pattern = [] then False
         else case regex pattern of None \<Rightarrow> False | Some is_match \<Rightarrow> is_match model)"

definition association_matches_channel ::
  "(string \<Rightarrow> (string \<Rightarrow> bool) option) \<Rightarrow> model_association_route_input \<Rightarrow> channel_route_input
   \<Rightarrow> string \<Rightarrow> bool" where
  "association_matches_channel regex association channel canonical_model_key =
     (case ma_target association of
        Target_ExplicitChannel channel_id \<Rightarrow> ch_id channel = channel_id
      | Target_ChannelTag tag \<Rightarrow> channel_has_tag channel tag
      | Target_ModelPattern pattern \<Rightarrow> model_pattern_matches regex canonical_model_key pattern
      | Target_Global \<Rightarrow> True)"

definition upstream_model_name ::
  "model_association_route_input \<Rightarrow> channel_route_input \<Rightarrow> canonical_model_route_input \<Rightarrow> string" where
  "upstream_model_name association channel model =
     (let fallback = map_upstream_model_name (cm_model_key model) (ch_model_mapping_policy channel)
      in case map_option trim (ma_upstream_model_name association) of
           None \<Rightarrow> fallback
         | Some v \<Rightarrow> if v \<noteq> [] then v else fallback)"

definition association_type_rank :: "model_association_type \<Rightarrow> u8" where
  "association_type_rank t =
     (case t of AT_ExplicitChannel \<Rightarrow> 0 | AT_ChannelTag \<Rightarrow> 1 | AT_ModelPattern \<Rightarrow> 2 | AT_Global \<Rightarrow> 3)"

definition compare_generated_route_candidates ::
  "generated_route_candidate \<Rightarrow> generated_route_candidate \<Rightarrow> ordering" where
  "compare_generated_route_candidates l r =
     then_with (then_with (then_with (then_with (then_with (then_with
       (ord_cmp (rc_priority (gc_candidate l)) (rc_priority (gc_candidate r)))
       (ord_cmp (rc_weight (gc_candidate r)) (rc_weight (gc_candidate l))))
       (ord_cmp (rc_channel_id (gc_candidate l)) (rc_channel_id (gc_candidate r))))
       (ord_cmp (rc_provider_id (gc_candidate l)) (rc_provider_id (gc_candidate r))))
       (ord_cmp (rc_provider_model (gc_candidate l)) (rc_provider_model (gc_candidate r))))
       (ord_cmp (gc_association_id l) (gc_association_id r)))
       (ord_cmp (association_type_rank (gc_association_type l))
          (association_type_rank (gc_association_type r)))"

text \<open>\<open>Option::or\<close> and the candidate built for one matching pair.\<close>

definition opt_or :: "'a option \<Rightarrow> 'a option \<Rightarrow> 'a option" where
  "opt_or a b = (case a of None \<Rightarrow> b | Some x \<Rightarrow> Some x)"

definition generate_candidate ::
  "route_candidate_generation_input \<Rightarrow> model_association_route_input \<Rightarrow> channel_route_input
   \<Rightarrow> generated_route_candidate" where
  "generate_candidate input association channel =
     (let candidate =
            with_rate_limit_available (ch_rate_limit_available channel)
              (with_health (ch_health channel)
                (with_status (ch_status channel)
                  (route_candidate_new (ch_id channel) (ch_provider_id channel)
                     (upstream_model_name association channel (gi_canonical_model input))
                     (route_priority_for_generation (ma_priority association) (ch_priority channel))
                     (ch_weight channel))));
          filter_reason =
            opt_or (opt_or (opt_or (model_filter_reason (gi_canonical_model input) (gi_profile input))
              (association_filter_reason association))
              (profile_channel_filter_reason channel (gi_profile input)))
              (selection_filter_reason_for candidate)
      in \<lparr>gc_association_id = ma_id association,
          gc_association_type = association_type (ma_target association),
          gc_association_priority = ma_priority association,
          gc_channel_priority = ch_priority channel,
          gc_fallback_allowed = ma_fallback_allowed association,
          gc_candidate = candidate, gc_filter_reason = filter_reason\<rparr>)"

definition generate_route_candidates ::
  "(string \<Rightarrow> (string \<Rightarrow> bool) option) \<Rightarrow> route_candidate_generation_input
   \<Rightarrow> route_candidate_generation_result" where
  "generate_route_candidates regex input =
     (let candidates =
            concat (map (\<lambda>association.
                map (generate_candidate input association)
                  (filter (\<lambda>channel. association_matches_channel regex association channel
                             (cm_model_key (gi_canonical_model input))) (gi_channels input)))
              (filter (\<lambda>association. ma_canonical_model_id association = cm_id (gi_canonical_model input))
                 (gi_associations input)))
      in \<lparr>gr_requested_model = gi_requested_model input, gr_canonical_model = gi_canonical_model input,
          gr_candidates = sort_by compare_generated_route_candidates candidates\<rparr>)"

section \<open>What generation produces\<close>

definition generated_key ::
  "generated_route_candidate \<Rightarrow> (int \<times> int \<times> string) \<times> string \<times> string \<times> string \<times> u8" where
  "generated_key g =
     (candidate_key (gc_candidate g), rc_provider_id (gc_candidate g), rc_provider_model (gc_candidate g),
      gc_association_id g, association_type_rank (gc_association_type g))"

lemma compare_generated_by_key:
  "compare_generated_route_candidates l r = ord_cmp (generated_key l) (generated_key r)"
  unfolding compare_generated_route_candidates_def generated_key_def candidate_key_def then_with_assoc
    ord_cmp_uint [of "rc_weight (gc_candidate r)"]
  by (simp add: then_with_ord_cmp) (auto simp: ord_cmp_def)

interpretation generated_order: comparator compare_generated_route_candidates
  by (rule comparator_by_key) (rule compare_generated_by_key)

lemma generated_iff:
  "g \<in> set (gr_candidates (generate_route_candidates regex input)) \<longleftrightarrow>
     (\<exists>a \<in> set (gi_associations input). \<exists>c \<in> set (gi_channels input).
        ma_canonical_model_id a = cm_id (gi_canonical_model input)
        \<and> association_matches_channel regex a c (cm_model_key (gi_canonical_model input))
        \<and> g = generate_candidate input a c)"
  by (auto simp: generate_route_candidates_def Let_def generated_order.set_sort_by)

text \<open>What the profile, the model, the association and the channel must satisfy for a candidate to be used.\<close>

definition model_permitted :: "canonical_model_route_input \<Rightarrow> profile_route_constraints \<Rightarrow> bool" where
  "model_permitted m p \<longleftrightarrow>
     cm_status m \<in> {MS_Active, MS_Deprecated} \<and> cm_model_key m \<notin> set (pf_denied_models p)
     \<and> (pf_allowed_models p = [] \<or> cm_model_key m \<in> set (pf_allowed_models p))
     \<and> (pf_visible_model_visibilities p = [] \<or> cm_visibility m \<in> set (pf_visible_model_visibilities p))"

definition channel_permitted :: "channel_route_input \<Rightarrow> profile_route_constraints \<Rightarrow> bool" where
  "channel_permitted c p \<longleftrightarrow>
     set (ch_tags c) \<inter> set (pf_denied_channel_tags p) = {}
     \<and> (pf_allowed_channel_tags p = [] \<or> set (ch_tags c) \<inter> set (pf_allowed_channel_tags p) \<noteq> {})
     \<and> ch_provider_id c \<notin> set (pf_blocked_provider_ids p)"

definition channel_usable :: "channel_route_input \<Rightarrow> bool" where
  "channel_usable c \<longleftrightarrow>
     ch_status c \<in> {CS_Enabled, CS_Degraded} \<and> ch_rate_limit_available c
     \<and> ch_health c \<noteq> CH_Unhealthy \<and> ch_weight c \<noteq> 0"

lemma model_filter_reason_None: "model_filter_reason m p = None \<longleftrightarrow> model_permitted m p"
  by (auto simp: model_filter_reason_def model_permitted_def string_list_contains_def list_ex_iff
      split: canonical_model_status.splits)

lemma association_filter_reason_None: "association_filter_reason a = None \<longleftrightarrow> ma_status a = AS_Enabled"
  by (simp add: association_filter_reason_def split: model_association_status.split)

lemma profile_channel_filter_reason_None:
  "profile_channel_filter_reason c p = None \<longleftrightarrow> channel_permitted c p"
  by (auto simp: profile_channel_filter_reason_def channel_permitted_def has_any_tag_def channel_has_tag_def
      string_list_contains_def list_ex_iff)

lemma opt_or_None: "opt_or a b = None \<longleftrightarrow> a = None \<and> b = None"
  by (simp add: opt_or_def split: option.split)

lemma generate_candidate_selectable:
  "gc_filter_reason (generate_candidate input a c) = None \<longleftrightarrow>
     model_permitted (gi_canonical_model input) (gi_profile input) \<and> ma_status a = AS_Enabled
     \<and> channel_permitted c (gi_profile input) \<and> channel_usable c"
  by (auto simp: generate_candidate_def Let_def opt_or_None model_filter_reason_None
      association_filter_reason_None profile_channel_filter_reason_None channel_usable_def
      selection_filter_reason_for_def with_rate_limit_available_def with_health_def with_status_def
      route_candidate_new_def split: channel_status.splits)

section \<open>Properties of generation\<close>

text \<open>C20. Routing obeys the policy end to end. When a route is selected from the generated candidates, it
  comes from an enabled association of the requested model and a channel that association matches; the
  model is active, visible and allowed by the profile; the channel carries no denied tag, an allowed
  one when there is an allow list, and no blocked provider; and the channel is enabled, within its
  rate limit, not unhealthy and of positive weight. The upstream is called by the name the
  association or the channel's mapping gives the model.\<close>

theorem routed_request_respects_policy:
  assumes "rd_selected (select_route_from_evaluated request
      (evaluated_candidates (generate_route_candidates regex input)) cx) = Some r"
  shows "\<exists>a \<in> set (gi_associations input). \<exists>c \<in> set (gi_channels input).
      ma_canonical_model_id a = cm_id (gi_canonical_model input) \<and> ma_status a = AS_Enabled
    \<and> association_matches_channel regex a c (cm_model_key (gi_canonical_model input))
    \<and> model_permitted (gi_canonical_model input) (gi_profile input)
    \<and> channel_permitted c (gi_profile input) \<and> channel_usable c
    \<and> sr_channel_id r = ch_id c \<and> sr_provider_id r = ch_provider_id c
    \<and> sr_provider_model r = upstream_model_name a c (gi_canonical_model input)"
proof -
  from assms obtain e where e: "e \<in> set (evaluated_candidates (generate_route_candidates regex input))"
    "r = selected_route_from_candidate e" "is_selectable e"
    unfolding select_route_from_evaluated_def
    using selected_is_candidate candidate_order.set_sort_by by blast
  then obtain g where g: "g \<in> set (gr_candidates (generate_route_candidates regex input))"
    "e = gc_evaluated_candidate g" by (auto simp: evaluated_candidates_def)
  then obtain a c where ac: "a \<in> set (gi_associations input)" "c \<in> set (gi_channels input)"
    "ma_canonical_model_id a = cm_id (gi_canonical_model input)"
    "association_matches_channel regex a c (cm_model_key (gi_canonical_model input))"
    "g = generate_candidate input a c" by (auto simp: generated_iff)
  have "gc_filter_reason (generate_candidate input a c) = None"
    using e(3) g(2) ac(5) by (simp add: is_selectable_def gc_evaluated_candidate_def)
  moreover have "sr_channel_id r = ch_id c" "sr_provider_id r = ch_provider_id c"
    "sr_provider_model r = upstream_model_name a c (gi_canonical_model input)"
    using e(2) g(2) ac(5)
    by (simp_all add: selected_route_from_candidate_def gc_evaluated_candidate_def generate_candidate_def Let_def
        with_rate_limit_available_def with_health_def with_status_def route_candidate_new_def)
  ultimately show ?thesis using ac by (auto simp: generate_candidate_selectable)
qed

text \<open>A sample route: the parameter is exact matching of the pattern.\<close>

definition literal_regex :: "string \<Rightarrow> (string \<Rightarrow> bool) option" where
  "literal_regex p = Some (\<lambda>m. m = p)"

definition sample_generation :: route_candidate_generation_input where
  "sample_generation =
     with_channel (channel_new ''c1'' ''p1'' 5 10)
       (with_association (global_association ''a1'' ''m1'' 1)
         (generation_input_new ''gpt'' (canonical_model_new ''m1'' ''gpt'')))"

lemmas generation_input_defs =
  generation_input_new_def with_association_def with_channel_def global_association_def

lemma sample_generated:
  "gr_candidates (generate_route_candidates literal_regex sample_generation)
     = [generate_candidate sample_generation (association_new ''a1'' ''m1'' Target_Global 1)
          (channel_new ''c1'' ''p1'' 5 10)]"
  by (simp add: generate_route_candidates_def sample_generation_def generation_input_defs canonical_model_new_def
      association_new_def association_matches_channel_def)

lemma sample_selectable:
  "gc_filter_reason (generate_candidate sample_generation (association_new ''a1'' ''m1'' Target_Global 1)
     (channel_new ''c1'' ''p1'' 5 10)) = None"
  by (simp add: generate_candidate_selectable model_permitted_def channel_permitted_def channel_usable_def
      sample_generation_def generation_input_defs canonical_model_new_def profile_unrestricted_def association_new_def channel_new_def)

theorem routed_request_respects_policy_witness:
  "\<exists>r. rd_selected (select_route_from_evaluated (route_request_new ''gpt'' 3)
         (evaluated_candidates (generate_route_candidates literal_regex sample_generation)) context_default) = Some r
     \<and> (\<exists>c \<in> set (gi_channels sample_generation). channel_usable c \<and> sr_channel_id r = ch_id c)"
proof -
  let ?g = "generate_candidate sample_generation (association_new ''a1'' ''m1'' Target_Global 1)
     (channel_new ''c1'' ''p1'' 5 10)"
  have "weight64 (gc_evaluated_candidate ?g) = 10"
    by (simp add: weight64_def gc_evaluated_candidate_def generate_candidate_def Let_def with_rate_limit_available_def
        with_health_def with_status_def route_candidate_new_def channel_new_def)
  moreover have "best_group [gc_evaluated_candidate ?g] = [gc_evaluated_candidate ?g]"
    using sample_selectable by (simp add: best_group_def is_selectable_def gc_evaluated_candidate_def)
  ultimately obtain r where r: "rd_selected (select_route_from_evaluated (route_request_new ''gpt'' 3)
      (evaluated_candidates (generate_route_candidates literal_regex sample_generation)) context_default) = Some r"
    by (simp add: select_route_from_evaluated_def evaluated_candidates_def sample_generated
        select_from_evaluated_candidates_def context_default_def trace_affinity_disabled_def
        evaluate_trace_affinity_def pick_by_trace_affinity_def route_request_new_def pick_by_priority_eq)
  from routed_request_respects_policy [OF r] r show ?thesis by blast
qed

lemma i32_saturate_mono: "x \<le> y \<Longrightarrow> i32_saturate x \<le> i32_saturate y"
  by (simp add: i32_saturate_def)

text \<open>Association priorities dominate channel priorities: within the supported range of association
  priorities, an association of lower value beats any other one whatever the channels'
  priorities, channels of one association are ordered by their own, and saturation never inverts an
  order.\<close>

theorem association_priority_dominates:
  assumes "0 \<le> c" "c < ROUTE_PRIORITY_ASSOCIATION_MULTIPLIER" "0 \<le> c'" "c' < ROUTE_PRIORITY_ASSOCIATION_MULTIPLIER"
    and "- 2147 \<le> a" "a \<le> 2146" "- 2147 \<le> a'" "a' \<le> 2146"
  shows "(route_priority_for_generation a c < route_priority_for_generation a' c'
          \<longleftrightarrow> a < a' \<or> (a = a' \<and> c < c'))
    \<and> (\<forall>x x' y y'. x \<le> x' \<and> y \<le> y' \<longrightarrow> route_priority_for_generation x y \<le> route_priority_for_generation x' y')"
proof -
  have exact: "route_priority_for_generation b d = b * 1000000 + d"
    if "- 2147 \<le> b" "b \<le> 2146" "0 \<le> d" "d < 1000000" for b d
    using that by (auto simp: route_priority_for_generation_def i32_saturate_def i32_min_def i32_max_def
        ROUTE_PRIORITY_ASSOCIATION_MULTIPLIER_def min_def max_def)
  have "(a * 1000000 + c < a' * 1000000 + c') \<longleftrightarrow> a < a' \<or> (a = a' \<and> c < c')"
    using assms(1-4) unfolding ROUTE_PRIORITY_ASSOCIATION_MULTIPLIER_def by linarith
  then have "route_priority_for_generation a c < route_priority_for_generation a' c'
      \<longleftrightarrow> a < a' \<or> (a = a' \<and> c < c')"
    using exact [of a c] exact [of a' c'] assms by (simp add: ROUTE_PRIORITY_ASSOCIATION_MULTIPLIER_def)
  moreover have "route_priority_for_generation x y \<le> route_priority_for_generation x' y'"
    if "x \<le> x'" "y \<le> y'" for x x' y y'
    unfolding route_priority_for_generation_def
    by (intro i32_saturate_mono add_mono mult_right_mono that)
       (simp add: ROUTE_PRIORITY_ASSOCIATION_MULTIPLIER_def)
  ultimately show ?thesis by blast
qed

theorem association_priority_dominates_witness:
  "route_priority_for_generation 1 999999 < route_priority_for_generation 2 0"
  using association_priority_dominates [of 999999 0 1 2] by (simp add: ROUTE_PRIORITY_ASSOCIATION_MULTIPLIER_def)

end
