(* ===== verification/RateLimit.thy ===== *)
theory RateLimit
  imports Selection
begin

text \<open>
  Rate limits of a channel (\<open>routing/src/rate_limit.rs\<close>): whether a request fits the three windows
  (requests per minute, tokens per minute, concurrency), the estimate of the tokens to reserve, and the
  reservation plan that acquires or releases capacity. An \<open>i64\<close> is its 64-bit word read by \<open>sint\<close>, so
  the casts to \<open>u64\<close> keep the word.
\<close>

section \<open>Data\<close>

type_synonym i64 = "64 word"

datatype rate_limit_dimension = RD_RequestsPerMinute | RD_TokensPerMinute | RD_Concurrency

datatype rate_limit_dimension_status =
  DS_Unlimited | DS_WindowMissing | DS_Available | DS_Exceeded | DS_InvalidLimit | DS_InvalidRequired

record rate_limit_window =
  lw_limit :: "i64 option"
  lw_used :: "i64 option"
  lw_required :: i64

definition window_unlimited :: rate_limit_window where
  "window_unlimited = \<lparr>lw_limit = None, lw_used = None, lw_required = 0\<rparr>"

definition window_limited :: "i64 \<Rightarrow> i64 \<Rightarrow> i64 \<Rightarrow> rate_limit_window" where
  "window_limited limit used required = \<lparr>lw_limit = Some limit, lw_used = Some used, lw_required = required\<rparr>"

definition window_missing :: "i64 \<Rightarrow> i64 \<Rightarrow> rate_limit_window" where
  "window_missing limit required = \<lparr>lw_limit = Some limit, lw_used = None, lw_required = required\<rparr>"

record rate_limit_availability_input =
  ai_requests_per_minute :: rate_limit_window
  ai_tokens_per_minute :: rate_limit_window
  ai_concurrency :: rate_limit_window

record rate_limit_dimension_summary =
  dim_dimension :: rate_limit_dimension
  dim_status :: rate_limit_dimension_status
  dim_selectable :: bool
  dim_limit :: "u64 option"
  dim_used :: u64
  dim_required :: u64
  dim_remaining :: "u64 option"
  dim_window_present :: bool
  dim_sanitized_negative_used :: bool

record rate_limit_availability =
  av_selectable :: bool
  av_filter_reason :: "candidate_filter_reason option"
  av_blocking_dimensions :: "rate_limit_dimension list"
  av_dimensions :: "rate_limit_dimension_summary list"

definition RATE_LIMIT_DEFAULT_TPM_FALLBACK_TOKENS :: i64 where
  "RATE_LIMIT_DEFAULT_TPM_FALLBACK_TOKENS = 1024"

definition RATE_LIMIT_MIN_TPM_RESERVATION_TOKENS :: u64 where
  "RATE_LIMIT_MIN_TPM_RESERVATION_TOKENS = 1"

datatype rate_limit_tpm_estimate_source =
    ES_TotalTokens | ES_PromptAndCompletion | ES_PromptAndMaxCompletion
  | ES_PartialEstimateWithConservativeFallback | ES_ConservativeFallback

record rate_limit_tpm_estimate_input =
  ti_prompt_tokens :: "i64 option"
  ti_completion_tokens :: "i64 option"
  ti_max_completion_tokens :: "i64 option"
  ti_total_tokens :: "i64 option"
  ti_conservative_fallback_tokens :: i64

definition tpm_estimate_input_default :: rate_limit_tpm_estimate_input where
  "tpm_estimate_input_default =
     \<lparr>ti_prompt_tokens = None, ti_completion_tokens = None, ti_max_completion_tokens = None,
      ti_total_tokens = None, ti_conservative_fallback_tokens = RATE_LIMIT_DEFAULT_TPM_FALLBACK_TOKENS\<rparr>"

record rate_limit_tpm_reservation_estimate =
  te_required_tokens :: u64
  te_source :: rate_limit_tpm_estimate_source
  te_prompt_tokens :: "u64 option"
  te_completion_tokens :: "u64 option"
  te_max_completion_tokens :: "u64 option"
  te_completion_reservation_tokens :: "u64 option"
  te_fallback_tokens :: u64
  te_used_conservative_fallback :: bool
  te_sanitized_negative_estimate :: bool
  te_clamped_to_i64_max :: bool
  te_body_material_in_output :: bool

definition I64_MAX :: u64 where
  "I64_MAX = 2 ^ 63 - 1"

definition required_tokens_i64 :: "rate_limit_tpm_reservation_estimate \<Rightarrow> i64" where
  "required_tokens_i64 e = min (te_required_tokens e) I64_MAX"

datatype rate_limit_reservation_operation = RO_Acquire | RO_Release

datatype rate_limit_reservation_status = RS_Acquired | RS_Rejected | RS_Released | RS_ReleaseNoop

datatype rate_limit_counter_update = CU_None | CU_Increment | CU_Decrement

record rate_limit_counter_window =
  cw_limit :: "i64 option"
  cw_used :: "i64 option"

record rate_limit_required_capacity =
  rq_requests_per_minute :: i64
  rq_tokens_per_minute :: i64
  rq_concurrency :: i64

definition from_tpm_estimate ::
  "i64 \<Rightarrow> rate_limit_tpm_reservation_estimate \<Rightarrow> i64 \<Rightarrow> rate_limit_required_capacity" where
  "from_tpm_estimate requests_per_minute tpm_estimate concurrency =
     \<lparr>rq_requests_per_minute = requests_per_minute,
      rq_tokens_per_minute = required_tokens_i64 tpm_estimate, rq_concurrency = concurrency\<rparr>"

record rate_limit_reservation_input =
  ri_requests_per_minute :: rate_limit_counter_window
  ri_tokens_per_minute :: rate_limit_counter_window
  ri_concurrency :: rate_limit_counter_window
  ri_required :: rate_limit_required_capacity
  ri_operation :: rate_limit_reservation_operation
  ri_reservation_acquired :: bool

definition reservation_acquire ::
  "rate_limit_counter_window \<Rightarrow> rate_limit_counter_window \<Rightarrow> rate_limit_counter_window
   \<Rightarrow> rate_limit_required_capacity \<Rightarrow> rate_limit_reservation_input" where
  "reservation_acquire requests_per_minute tokens_per_minute concurrency required =
     \<lparr>ri_requests_per_minute = requests_per_minute, ri_tokens_per_minute = tokens_per_minute,
      ri_concurrency = concurrency, ri_required = required, ri_operation = RO_Acquire,
      ri_reservation_acquired = False\<rparr>"

definition reservation_release ::
  "rate_limit_counter_window \<Rightarrow> rate_limit_counter_window \<Rightarrow> rate_limit_counter_window
   \<Rightarrow> rate_limit_required_capacity \<Rightarrow> bool \<Rightarrow> rate_limit_reservation_input" where
  "reservation_release requests_per_minute tokens_per_minute concurrency required reservation_acquired =
     \<lparr>ri_requests_per_minute = requests_per_minute, ri_tokens_per_minute = tokens_per_minute,
      ri_concurrency = concurrency, ri_required = required, ri_operation = RO_Release,
      ri_reservation_acquired = reservation_acquired\<rparr>"

record rate_limit_reservation_dimension_plan =
  dp_dimension :: rate_limit_dimension
  dp_status :: rate_limit_dimension_status
  dp_selectable_for_acquire :: bool
  dp_limit :: "u64 option"
  dp_used_before :: u64
  dp_required :: u64
  dp_used_after :: u64
  dp_remaining_before :: "u64 option"
  dp_remaining_after :: "u64 option"
  dp_window_present :: bool
  dp_sanitized_negative_used :: bool
  dp_counter_update :: rate_limit_counter_update
  dp_saturated_release :: bool

record rate_limit_reservation_plan =
  pl_operation :: rate_limit_reservation_operation
  pl_status :: rate_limit_reservation_status
  pl_filter_reason :: "candidate_filter_reason option"
  pl_blocking_dimensions :: "rate_limit_dimension list"
  pl_dimensions :: "rate_limit_reservation_dimension_plan list"
  pl_conservative_reject :: bool
  pl_counter_updates_planned :: nat
  pl_window_material_in_output :: bool

section \<open>Operations\<close>

definition clamp_u64 :: "i64 \<Rightarrow> u64" where
  "clamp_u64 v = (if sint v < 0 then 0 else v)"

definition non_negative_u64 :: "i64 \<Rightarrow> u64 option" where
  "non_negative_u64 v = (if 0 \<le> sint v then Some v else None)"

definition window_used :: "rate_limit_window \<Rightarrow> u64" where
  "window_used w = clamp_u64 (unwrap_or 0 (lw_used w))"

definition used_is_negative :: "rate_limit_window \<Rightarrow> bool" where
  "used_is_negative w = (case lw_used w of None \<Rightarrow> False | Some used \<Rightarrow> sint used < 0)"

definition evaluate_rate_limit_dimension ::
  "rate_limit_dimension \<Rightarrow> rate_limit_window \<Rightarrow> rate_limit_dimension_summary" where
  "evaluate_rate_limit_dimension dimension w =
     (let required = clamp_u64 (lw_required w)
      in if sint (lw_required w) < 0
         then \<lparr>dim_dimension = dimension, dim_status = DS_InvalidRequired, dim_selectable = False,
               dim_limit = Option.bind (lw_limit w) non_negative_u64, dim_used = window_used w,
               dim_required = required, dim_remaining = None,
               dim_window_present = (lw_used w \<noteq> None), dim_sanitized_negative_used = used_is_negative w\<rparr>
         else case lw_limit w of
           None \<Rightarrow>
             \<lparr>dim_dimension = dimension, dim_status = DS_Unlimited, dim_selectable = True,
              dim_limit = None, dim_used = window_used w, dim_required = required, dim_remaining = None,
              dim_window_present = (lw_used w \<noteq> None), dim_sanitized_negative_used = used_is_negative w\<rparr>
         | Some raw_limit \<Rightarrow>
             if sint raw_limit < 0
             then \<lparr>dim_dimension = dimension, dim_status = DS_InvalidLimit, dim_selectable = False,
                   dim_limit = None, dim_used = window_used w, dim_required = required,
                   dim_remaining = None, dim_window_present = (lw_used w \<noteq> None),
                   dim_sanitized_negative_used = used_is_negative w\<rparr>
             else case lw_used w of
               None \<Rightarrow>
                 \<lparr>dim_dimension = dimension, dim_status = DS_WindowMissing, dim_selectable = False,
                  dim_limit = Some raw_limit, dim_used = 0, dim_required = required,
                  dim_remaining = Some raw_limit, dim_window_present = False,
                  dim_sanitized_negative_used = False\<rparr>
             | Some raw_used \<Rightarrow>
                 let used = clamp_u64 raw_used;
                     remaining = word_saturating_sub raw_limit used;
                     selectable = (used \<le> raw_limit \<and> required \<le> remaining)
                 in \<lparr>dim_dimension = dimension,
                     dim_status = (if selectable then DS_Available else DS_Exceeded),
                     dim_selectable = selectable, dim_limit = Some raw_limit, dim_used = used,
                     dim_required = required, dim_remaining = Some remaining,
                     dim_window_present = True, dim_sanitized_negative_used = (sint raw_used < 0)\<rparr>)"

definition evaluate_rate_limit_availability ::
  "rate_limit_availability_input \<Rightarrow> rate_limit_availability" where
  "evaluate_rate_limit_availability input =
     (let dimensions =
            [evaluate_rate_limit_dimension RD_RequestsPerMinute (ai_requests_per_minute input),
             evaluate_rate_limit_dimension RD_TokensPerMinute (ai_tokens_per_minute input),
             evaluate_rate_limit_dimension RD_Concurrency (ai_concurrency input)];
          blocking = map dim_dimension (filter (\<lambda>d. \<not> dim_selectable d) dimensions);
          selectable = (blocking = [])
      in \<lparr>av_selectable = selectable,
          av_filter_reason = (if \<not> selectable then Some FR_RateLimitExceeded else None),
          av_blocking_dimensions = blocking, av_dimensions = dimensions\<rparr>)"

definition apply_rate_limit_availability_to_candidate ::
  "route_candidate \<Rightarrow> rate_limit_availability \<Rightarrow> route_candidate" where
  "apply_rate_limit_availability_to_candidate candidate availability =
     with_rate_limit_available (av_selectable availability) candidate"

definition sanitize_optional_token_estimate :: "i64 option \<Rightarrow> u64 option \<times> bool" where
  "sanitize_optional_token_estimate v =
     (case v of
        Some t \<Rightarrow> if 0 \<le> sint t then (Some t, False) else (None, True)
      | None \<Rightarrow> (None, False))"

definition sanitize_conservative_fallback_tokens :: "i64 \<Rightarrow> u64 \<times> bool" where
  "sanitize_conservative_fallback_tokens v =
     (if 0 < sint v then (v, False) else (RATE_LIMIT_DEFAULT_TPM_FALLBACK_TOKENS, True))"

definition completion_reservation_tokens :: "u64 option \<Rightarrow> u64 option \<Rightarrow> u64 option" where
  "completion_reservation_tokens completion_tokens max_completion_tokens =
     (case (completion_tokens, max_completion_tokens) of
        (Some c, Some m) \<Rightarrow> Some (max c m)
      | (Some c, None) \<Rightarrow> Some c
      | (None, Some m) \<Rightarrow> Some m
      | (None, None) \<Rightarrow> None)"

definition tpm_required ::
  "u64 option \<Rightarrow> u64 option \<Rightarrow> u64 option \<Rightarrow> u64 option \<Rightarrow> u64 option \<Rightarrow> u64
   \<Rightarrow> u64 \<times> rate_limit_tpm_estimate_source \<times> bool" where
  "tpm_required total_tokens prompt_tokens completion_tokens max_completion_tokens reservation fallback =
     (case total_tokens of
        Some t \<Rightarrow> (max t RATE_LIMIT_MIN_TPM_RESERVATION_TOKENS, ES_TotalTokens, False)
      | None \<Rightarrow>
          (case (prompt_tokens, reservation) of
             (Some p, Some r) \<Rightarrow>
               let max_completion_drives = (case (completion_tokens, max_completion_tokens) of
                       (Some c, Some m) \<Rightarrow> m > c
                     | (None, Some _) \<Rightarrow> True
                     | _ \<Rightarrow> False)
               in (max (word_saturating_add p r) RATE_LIMIT_MIN_TPM_RESERVATION_TOKENS,
                   if max_completion_drives then ES_PromptAndMaxCompletion else ES_PromptAndCompletion,
                   False)
           | (None, None) \<Rightarrow>
               (max fallback RATE_LIMIT_MIN_TPM_RESERVATION_TOKENS, ES_ConservativeFallback, True)
           | _ \<Rightarrow>
               (max (word_saturating_add (unwrap_or fallback prompt_tokens) (unwrap_or fallback reservation))
                  RATE_LIMIT_MIN_TPM_RESERVATION_TOKENS,
                ES_PartialEstimateWithConservativeFallback, True)))"

definition estimate_tpm_reservation ::
  "rate_limit_tpm_estimate_input \<Rightarrow> rate_limit_tpm_reservation_estimate" where
  "estimate_tpm_reservation input =
     (let (prompt_tokens, prompt_negative) = sanitize_optional_token_estimate (ti_prompt_tokens input);
          (completion_tokens, completion_negative) =
            sanitize_optional_token_estimate (ti_completion_tokens input);
          (max_completion_tokens, max_completion_negative) =
            sanitize_optional_token_estimate (ti_max_completion_tokens input);
          (total_tokens, total_negative) = sanitize_optional_token_estimate (ti_total_tokens input);
          (fallback_tokens, fallback_sanitized) =
            sanitize_conservative_fallback_tokens (ti_conservative_fallback_tokens input);
          reservation = completion_reservation_tokens completion_tokens max_completion_tokens;
          (required_tokens, source, used_fallback) =
            tpm_required total_tokens prompt_tokens completion_tokens max_completion_tokens reservation
              fallback_tokens
      in \<lparr>te_required_tokens = required_tokens, te_source = source, te_prompt_tokens = prompt_tokens,
          te_completion_tokens = completion_tokens, te_max_completion_tokens = max_completion_tokens,
          te_completion_reservation_tokens = reservation, te_fallback_tokens = fallback_tokens,
          te_used_conservative_fallback = used_fallback,
          te_sanitized_negative_estimate = (prompt_negative \<or> completion_negative
             \<or> max_completion_negative \<or> total_negative \<or> fallback_sanitized),
          te_clamped_to_i64_max = (required_tokens > I64_MAX), te_body_material_in_output = False\<rparr>)"

definition reservation_window :: "rate_limit_counter_window \<Rightarrow> i64 \<Rightarrow> rate_limit_window" where
  "reservation_window w required = \<lparr>lw_limit = cw_limit w, lw_used = cw_used w, lw_required = required\<rparr>"

definition reservation_availability_input ::
  "rate_limit_reservation_input \<Rightarrow> rate_limit_availability_input" where
  "reservation_availability_input input =
     \<lparr>ai_requests_per_minute =
        reservation_window (ri_requests_per_minute input) (rq_requests_per_minute (ri_required input)),
      ai_tokens_per_minute =
        reservation_window (ri_tokens_per_minute input) (rq_tokens_per_minute (ri_required input)),
      ai_concurrency =
        reservation_window (ri_concurrency input) (rq_concurrency (ri_required input))\<rparr>"

definition counter_update_for_dimension ::
  "rate_limit_reservation_operation \<Rightarrow> rate_limit_reservation_status \<Rightarrow> rate_limit_dimension_summary
   \<Rightarrow> rate_limit_counter_update" where
  "counter_update_for_dimension operation status summary =
     (if dim_limit summary = None \<or> \<not> dim_window_present summary \<or> dim_required summary = 0 then CU_None
      else case (operation, status) of
        (RO_Acquire, RS_Acquired) \<Rightarrow> CU_Increment
      | (RO_Release, RS_Released) \<Rightarrow> CU_Decrement
      | _ \<Rightarrow> CU_None)"

definition reservation_dimension_plan ::
  "rate_limit_reservation_operation \<Rightarrow> rate_limit_reservation_status \<Rightarrow> rate_limit_dimension_summary
   \<Rightarrow> rate_limit_reservation_dimension_plan" where
  "reservation_dimension_plan operation status summary =
     (let counter_update = counter_update_for_dimension operation status summary;
          used_after = (case counter_update of
              CU_Increment \<Rightarrow> word_saturating_add (dim_used summary) (dim_required summary)
            | CU_Decrement \<Rightarrow> word_saturating_sub (dim_used summary) (dim_required summary)
            | CU_None \<Rightarrow> dim_used summary)
      in \<lparr>dp_dimension = dim_dimension summary, dp_status = dim_status summary,
          dp_selectable_for_acquire = dim_selectable summary, dp_limit = dim_limit summary,
          dp_used_before = dim_used summary, dp_required = dim_required summary,
          dp_used_after = used_after, dp_remaining_before = dim_remaining summary,
          dp_remaining_after = map_option (\<lambda>limit. word_saturating_sub limit used_after) (dim_limit summary),
          dp_window_present = dim_window_present summary,
          dp_sanitized_negative_used = dim_sanitized_negative_used summary,
          dp_counter_update = counter_update,
          dp_saturated_release = (counter_update = CU_Decrement \<and> dim_required summary > dim_used summary)\<rparr>)"

definition plan_rate_limit_reservation ::
  "rate_limit_reservation_input \<Rightarrow> rate_limit_reservation_plan" where
  "plan_rate_limit_reservation input =
     (let availability = evaluate_rate_limit_availability (reservation_availability_input input);
          invalid_required = list_ex (\<lambda>d. dim_status d = DS_InvalidRequired) (av_dimensions availability);
          status = (case ri_operation input of
              RO_Acquire \<Rightarrow> if av_selectable availability then RS_Acquired else RS_Rejected
            | RO_Release \<Rightarrow>
                if \<not> ri_reservation_acquired input then RS_ReleaseNoop
                else if invalid_required then RS_Rejected
                else RS_Released);
          blocking = (if status = RS_Rejected
                      then map dim_dimension (filter (\<lambda>d. \<not> dim_selectable d) (av_dimensions availability))
                      else []);
          dimensions = map (reservation_dimension_plan (ri_operation input) status)
                         (av_dimensions availability)
      in \<lparr>pl_operation = ri_operation input, pl_status = status,
          pl_filter_reason = (if status = RS_Rejected then Some FR_RateLimitExceeded else None),
          pl_blocking_dimensions = blocking, pl_dimensions = dimensions,
          pl_conservative_reject = (status = RS_Rejected
             \<and> list_ex (\<lambda>d. dim_status d = DS_WindowMissing) (av_dimensions availability)),
          pl_counter_updates_planned = length (filter (\<lambda>d. dp_counter_update d \<noteq> CU_None) dimensions),
          pl_window_material_in_output = False\<rparr>)"

section \<open>When a window admits a request\<close>

lemma sint_bit: "sint w = uint w - 2 ^ 64 * of_bool (bit (uint w) 63)" for w :: i64
  using take_bit_int_eq_self [OF uint_ge_0, of w 64] uint_lt2p [of w]
  by (simp add: sint_uint signed_take_bit_eq_take_bit_minus)

lemma uint_of_nonneg: "0 \<le> sint w \<Longrightarrow> uint w = sint w" for w :: i64
  using uint_lt2p [of w] by (cases "bit (uint w) 63") (simp_all only: sint_bit of_bool_eq, simp_all)

lemma sint_of_small: "uint w < 2 ^ 63 \<Longrightarrow> sint w = uint w" for w :: i64
  unfolding sint_uint by (rule signed_take_bit_int_eq_self) (simp_all add: order_trans [OF _ uint_ge_0])

lemma clamp_u64_uint: "uint (clamp_u64 v) = max 0 (sint v)"
  by (auto simp: clamp_u64_def uint_of_nonneg)

lemma sint_upper: "sint (w :: i64) < 2 ^ 63"
  using sint_lt [of w] by simp

lemma uint_saturating_add: "uint (word_saturating_add a b) = min (uint a + uint b) (2 ^ 64 - 1)" for a b :: u64
  unfolding uint_nat unat_word_saturating_add by (simp add: of_nat_min)

lemma uint_saturating_sub: "uint (word_saturating_sub a b) = max 0 (uint a - uint b)" for a b :: u64
  unfolding uint_nat unat_word_saturating_sub by (simp add: int_ops(6) max_def)

text \<open>The contract of a window: a non-negative requirement, and either no limit or a valid limit and a known
  use that leaves room.\<close>

definition window_fits :: "rate_limit_window \<Rightarrow> bool" where
  "window_fits w \<longleftrightarrow> 0 \<le> sint (lw_required w) \<and>
     (case lw_limit w of
        None \<Rightarrow> True
      | Some l \<Rightarrow> (case lw_used w of None \<Rightarrow> False | Some u \<Rightarrow> max 0 (sint u) + sint (lw_required w) \<le> sint l))"

lemma dim_selectable_iff: "dim_selectable (evaluate_rate_limit_dimension d w) \<longleftrightarrow> window_fits w"
proof (cases "sint (lw_required w) < 0 \<or> lw_limit w = None \<or> lw_used w = None")
  case True
  then show ?thesis by (auto simp: evaluate_rate_limit_dimension_def window_fits_def Let_def split: option.split)
next
  case False
  then obtain l u where lu: "lw_limit w = Some l" "lw_used w = Some u" "0 \<le> sint (lw_required w)" by auto
  show ?thesis
  proof (cases "sint l < 0")
    case True
    with lu show ?thesis by (simp add: evaluate_rate_limit_dimension_def window_fits_def Let_def)
  next
    case False
    with lu have "dim_selectable (evaluate_rate_limit_dimension d w) \<longleftrightarrow>
        clamp_u64 u \<le> l \<and> clamp_u64 (lw_required w) \<le> word_saturating_sub l (clamp_u64 u)"
      by (simp add: evaluate_rate_limit_dimension_def Let_def)
    also have "\<dots> \<longleftrightarrow> max 0 (sint u) + sint (lw_required w) \<le> sint l"
      using lu(3) False by (auto simp: word_le_def clamp_u64_uint uint_saturating_sub uint_of_nonneg)
    finally show ?thesis using lu by (simp add: window_fits_def)
  qed
qed

lemma av_selectable_iff:
  "av_selectable (evaluate_rate_limit_availability i) \<longleftrightarrow>
     window_fits (ai_requests_per_minute i) \<and> window_fits (ai_tokens_per_minute i)
     \<and> window_fits (ai_concurrency i)"
  by (auto simp: evaluate_rate_limit_availability_def Let_def dim_selectable_iff)

text \<open>The effect of a dimension plan on its counter.\<close>

definition after_window ::
  "rate_limit_reservation_dimension_plan \<Rightarrow> rate_limit_counter_window \<Rightarrow> rate_limit_counter_window" where
  "after_window d w = (if dp_counter_update d = CU_None then w else w\<lparr>cw_used := Some (dp_used_after d)\<rparr>)"

section \<open>The counters under reservations\<close>

text \<open>The use a window shows, its capped value after a plan, and the steps of a limiter that applies each plan to
  its three counters and remembers the reservations it holds.\<close>

definition shown_use :: "i64 \<Rightarrow> int" where
  "shown_use u = max 0 (sint u)"

record limiter =
  lm_requests_per_minute :: rate_limit_counter_window
  lm_tokens_per_minute :: rate_limit_counter_window
  lm_concurrency :: rate_limit_counter_window
  lm_held :: "rate_limit_required_capacity list"

definition limiter_acquire :: "limiter \<Rightarrow> rate_limit_required_capacity \<Rightarrow> rate_limit_reservation_plan" where
  "limiter_acquire s r = plan_rate_limit_reservation
     (reservation_acquire (lm_requests_per_minute s) (lm_tokens_per_minute s) (lm_concurrency s) r)"

definition limiter_release ::
  "limiter \<Rightarrow> rate_limit_required_capacity \<Rightarrow> bool \<Rightarrow> rate_limit_reservation_plan" where
  "limiter_release s r acquired = plan_rate_limit_reservation
     (reservation_release (lm_requests_per_minute s) (lm_tokens_per_minute s) (lm_concurrency s) r acquired)"

definition limiter_apply ::
  "rate_limit_reservation_plan \<Rightarrow> rate_limit_required_capacity list \<Rightarrow> limiter \<Rightarrow> limiter" where
  "limiter_apply p held s =
     \<lparr>lm_requests_per_minute = after_window (pl_dimensions p ! 0) (lm_requests_per_minute s),
      lm_tokens_per_minute = after_window (pl_dimensions p ! 1) (lm_tokens_per_minute s),
      lm_concurrency = after_window (pl_dimensions p ! 2) (lm_concurrency s), lm_held = held\<rparr>"

inductive limiter_step :: "limiter \<Rightarrow> limiter \<Rightarrow> bool" where
  acquired: "pl_status (limiter_acquire s r) = RS_Acquired \<Longrightarrow>
     limiter_step s (limiter_apply (limiter_acquire s r) (r # lm_held s) s)"
| rejected: "pl_status (limiter_acquire s r) \<noteq> RS_Acquired \<Longrightarrow>
     limiter_step s (limiter_apply (limiter_acquire s r) (lm_held s) s)"
| released: "r \<in> set (lm_held s) \<Longrightarrow>
     limiter_step s (limiter_apply (limiter_release s r True) (remove1 r (lm_held s)) s)"
| not_held: "limiter_step s (limiter_apply (limiter_release s r False) (lm_held s) s)"

definition dimension_after ::
  "rate_limit_reservation_operation \<Rightarrow> rate_limit_reservation_status \<Rightarrow> rate_limit_dimension \<Rightarrow> i64
   \<Rightarrow> rate_limit_counter_window \<Rightarrow> rate_limit_counter_window" where
  "dimension_after opn st d r w =
     after_window (reservation_dimension_plan opn st
       (evaluate_rate_limit_dimension d (reservation_window w r))) w"

lemma dimension_after_idle:
  "\<not> (opn = RO_Acquire \<and> st = RS_Acquired) \<Longrightarrow> \<not> (opn = RO_Release \<and> st = RS_Released)
   \<Longrightarrow> dimension_after opn st d r w = w"
  by (cases opn; cases st)
     (simp_all add: dimension_after_def after_window_def reservation_dimension_plan_def Let_def
       counter_update_for_dimension_def)

lemma dimension_after_unlimited: "cw_limit w = None \<Longrightarrow> dimension_after opn st d r w = w"
  by (simp add: dimension_after_def after_window_def reservation_dimension_plan_def Let_def
      counter_update_for_dimension_def evaluate_rate_limit_dimension_def reservation_window_def)

lemma plan_dimensions:
  "pl_dimensions (plan_rate_limit_reservation i) =
     map (reservation_dimension_plan (ri_operation i) (pl_status (plan_rate_limit_reservation i)))
       (av_dimensions (evaluate_rate_limit_availability (reservation_availability_input i)))"
  by (simp add: plan_rate_limit_reservation_def Let_def)

lemma limiter_apply_acquire:
  "limiter_apply (limiter_acquire s r) held s =
     (let st = pl_status (limiter_acquire s r) in
      \<lparr>lm_requests_per_minute = dimension_after RO_Acquire st RD_RequestsPerMinute
          (rq_requests_per_minute r) (lm_requests_per_minute s),
       lm_tokens_per_minute = dimension_after RO_Acquire st RD_TokensPerMinute
          (rq_tokens_per_minute r) (lm_tokens_per_minute s),
       lm_concurrency = dimension_after RO_Acquire st RD_Concurrency (rq_concurrency r) (lm_concurrency s),
       lm_held = held\<rparr>)"
  unfolding limiter_apply_def limiter_acquire_def plan_dimensions
  by (simp add: Let_def evaluate_rate_limit_availability_def reservation_availability_input_def
      reservation_acquire_def dimension_after_def)

lemma limiter_apply_release:
  "limiter_apply (limiter_release s r acquired) held s =
     (let st = pl_status (limiter_release s r acquired) in
      \<lparr>lm_requests_per_minute = dimension_after RO_Release st RD_RequestsPerMinute
          (rq_requests_per_minute r) (lm_requests_per_minute s),
       lm_tokens_per_minute = dimension_after RO_Release st RD_TokensPerMinute
          (rq_tokens_per_minute r) (lm_tokens_per_minute s),
       lm_concurrency = dimension_after RO_Release st RD_Concurrency (rq_concurrency r) (lm_concurrency s),
       lm_held = held\<rparr>)"
  unfolding limiter_apply_def limiter_release_def plan_dimensions
  by (simp add: Let_def evaluate_rate_limit_availability_def reservation_availability_input_def
      reservation_release_def dimension_after_def)

definition capacity_fits :: "limiter \<Rightarrow> rate_limit_required_capacity \<Rightarrow> bool" where
  "capacity_fits s r \<longleftrightarrow>
     window_fits (reservation_window (lm_requests_per_minute s) (rq_requests_per_minute r)) \<and>
     window_fits (reservation_window (lm_tokens_per_minute s) (rq_tokens_per_minute r)) \<and>
     window_fits (reservation_window (lm_concurrency s) (rq_concurrency r))"

lemma limiter_acquire_status:
  "pl_status (limiter_acquire s r) = (if capacity_fits s r then RS_Acquired else RS_Rejected)"
  unfolding limiter_acquire_def plan_rate_limit_reservation_def capacity_fits_def
  by (simp add: Let_def av_selectable_iff reservation_availability_input_def reservation_acquire_def)

lemma dim_invalid_required:
  "dim_status (evaluate_rate_limit_dimension d w) = DS_InvalidRequired \<longleftrightarrow> sint (lw_required w) < 0"
  by (simp add: evaluate_rate_limit_dimension_def Let_def split: option.split)

lemma limiter_release_status:
  "pl_status (limiter_release s r acquired) =
     (if \<not> acquired then RS_ReleaseNoop
      else if 0 \<le> sint (rq_requests_per_minute r) \<and> 0 \<le> sint (rq_tokens_per_minute r)
              \<and> 0 \<le> sint (rq_concurrency r) then RS_Released
      else RS_Rejected)"
  unfolding limiter_release_def plan_rate_limit_reservation_def
  by (auto simp: Let_def evaluate_rate_limit_availability_def reservation_availability_input_def
      reservation_release_def dim_invalid_required reservation_window_def)

lemma limited_summary:
  assumes "cw_limit w = Some l" "0 \<le> sint l" "cw_used w = Some u" "0 \<le> sint r"
  shows "dim_used (evaluate_rate_limit_dimension d (reservation_window w r)) = clamp_u64 u"
    "dim_required (evaluate_rate_limit_dimension d (reservation_window w r)) = r"
    "dim_limit (evaluate_rate_limit_dimension d (reservation_window w r)) = Some l"
    "dim_window_present (evaluate_rate_limit_dimension d (reservation_window w r))"
  using assms by (simp_all add: evaluate_rate_limit_dimension_def reservation_window_def Let_def clamp_u64_def)

lemma acquire_window:
  assumes "window_fits (reservation_window w r)" "cw_limit w = Some l" "cw_used w = Some u"
  shows "\<exists>u'. dimension_after RO_Acquire RS_Acquired d r w = w\<lparr>cw_used := Some u'\<rparr>
          \<and> shown_use u' = shown_use u + sint r \<and> shown_use u' \<le> sint l"
proof -
  have fit: "0 \<le> sint r" "shown_use u + sint r \<le> sint l" "0 \<le> shown_use u"
    using assms by (simp_all add: window_fits_def reservation_window_def shown_use_def)
  then have l: "0 \<le> sint l" and ul: "sint u \<le> sint l" by (simp_all add: shown_use_def)
  note s = limited_summary [OF assms(2) l assms(3) fit(1)]
  have "uint (word_saturating_add (clamp_u64 u) r) = shown_use u + sint r"
    using fit sint_upper [of l]
    by (simp add: uint_saturating_add uint_of_nonneg clamp_u64_uint shown_use_def [symmetric])
  moreover from this have "sint (word_saturating_add (clamp_u64 u) r) = shown_use u + sint r"
    using sint_of_small [of "word_saturating_add (clamp_u64 u) r"] fit sint_upper [of l] by linarith
  moreover have "w\<lparr>cw_used := Some u\<rparr> = w"
    using assms(3) by (cases w) simp
  ultimately show ?thesis
    using fit l ul s
    by (intro exI [of _ "if r = 0 then u else word_saturating_add (clamp_u64 u) r"])
       (simp add: dimension_after_def after_window_def reservation_dimension_plan_def Let_def
         counter_update_for_dimension_def shown_use_def)
qed

lemma release_window:
  assumes "0 \<le> sint r" "cw_limit w = Some l" "0 \<le> sint l" "cw_used w = Some u" "sint r \<le> shown_use u"
  shows "\<exists>u'. dimension_after RO_Release RS_Released d r w = w\<lparr>cw_used := Some u'\<rparr>
          \<and> shown_use u' = shown_use u - sint r"
proof -
  note s = limited_summary [OF assms(2,3,4,1)]
  have "uint (word_saturating_sub (clamp_u64 u) r) = shown_use u - sint r"
    using assms by (simp add: uint_saturating_sub uint_of_nonneg clamp_u64_uint shown_use_def)
  moreover from this have "sint (word_saturating_sub (clamp_u64 u) r) = shown_use u - sint r"
    using sint_of_small [of "word_saturating_sub (clamp_u64 u) r"] assms(1) sint_upper [of u]
    by (simp add: shown_use_def)
  moreover have "w\<lparr>cw_used := Some u\<rparr> = w"
    using assms(4) by (cases w) simp
  ultimately show ?thesis
    using s assms(5)
    by (intro exI [of _ "if r = 0 then u else word_saturating_sub (clamp_u64 u) r"])
       (simp add: dimension_after_def after_window_def reservation_dimension_plan_def Let_def
         counter_update_for_dimension_def shown_use_def)
qed

text \<open>What a counter is, given the window it started as and the capacities held on it: nothing is held on an
  invalid or unknown window, and a limited one shows its first use plus all that is held.\<close>

definition counter_inv :: "rate_limit_counter_window \<Rightarrow> rate_limit_counter_window \<Rightarrow> int list \<Rightarrow> bool" where
  "counter_inv w0 w held \<longleftrightarrow> (\<forall>r\<in>set held. 0 \<le> r) \<and> cw_limit w = cw_limit w0 \<and>
     (case (cw_limit w0, cw_used w0) of
        (None, _) \<Rightarrow> w = w0
      | (Some l, None) \<Rightarrow> w = w0 \<and> held = []
      | (Some l, Some u0) \<Rightarrow> (held = [] \<or> 0 \<le> sint l) \<and>
          (\<exists>u. cw_used w = Some u \<and> shown_use u = shown_use u0 + sum_list held
             \<and> shown_use u \<le> max (shown_use u0) (sint l)))"

lemma counter_inv_acquire:
  assumes "counter_inv w0 w held" "window_fits (reservation_window w r)"
  shows "counter_inv w0 (dimension_after RO_Acquire RS_Acquired d r w) (sint r # held)"
proof (cases "cw_limit w0")
  case None
  with assms show ?thesis
    by (auto simp: counter_inv_def dimension_after_unlimited window_fits_def reservation_window_def)
next
  case (Some l)
  with assms obtain u u0 where u: "cw_limit w = Some l" "cw_used w = Some u" "cw_used w0 = Some u0"
    and sum: "shown_use u = shown_use u0 + sum_list held" and nn: "\<forall>r\<in>set held. 0 \<le> r"
    by (auto simp: counter_inv_def window_fits_def reservation_window_def split: option.splits)
  from acquire_window [OF assms(2) u(1,2), of d] obtain u' where
    u': "dimension_after RO_Acquire RS_Acquired d r w = w\<lparr>cw_used := Some u'\<rparr>"
      "shown_use u' = shown_use u + sint r" "shown_use u' \<le> sint l" by auto
  from assms(2) u have "0 \<le> sint r" "0 \<le> sint l"
    by (auto simp: window_fits_def reservation_window_def)
  with u u' sum nn Some show ?thesis by (simp add: counter_inv_def max_def)
qed

lemma sum_list_remove1: "x \<in> set xs \<Longrightarrow> sum_list (remove1 x xs) = sum_list xs - x" for x :: int
  by (induction xs) auto

lemma counter_inv_release:
  assumes "counter_inv w0 w held" "sint r \<in> set held"
  shows "counter_inv w0 (dimension_after RO_Release RS_Released d r w) (remove1 (sint r) held)"
proof (cases "cw_limit w0")
  case None
  with assms show ?thesis
    by (auto simp: counter_inv_def dimension_after_unlimited dest: notin_set_remove1)
next
  case (Some l)
  with assms obtain u u0 where u: "cw_limit w = Some l" "0 \<le> sint l" "cw_used w = Some u" "cw_used w0 = Some u0"
    and sum: "shown_use u = shown_use u0 + sum_list held" "shown_use u \<le> max (shown_use u0) (sint l)"
    and nn: "\<forall>r\<in>set held. 0 \<le> r"
    by (auto simp: counter_inv_def split: option.splits)
  have r: "0 \<le> sint r" "sint r \<le> sum_list held"
    using nn assms(2) by (auto intro: member_le_sum_list)
  moreover have "0 \<le> shown_use u0" by (simp add: shown_use_def)
  ultimately have "sint r \<le> shown_use u" using sum by linarith
  from release_window [OF r(1) u(1,2,3) this, of d] obtain u' where
    u': "dimension_after RO_Release RS_Released d r w = w\<lparr>cw_used := Some u'\<rparr>"
      "shown_use u' = shown_use u - sint r" by auto
  have "\<forall>r'\<in>set (remove1 (sint r) held). 0 \<le> r'"
    using nn by (meson notin_set_remove1)
  then show ?thesis
    using u u' sum r Some assms(2) by (simp add: counter_inv_def sum_list_remove1)
qed

definition limiter_inv :: "limiter \<Rightarrow> limiter \<Rightarrow> bool" where
  "limiter_inv s0 s \<longleftrightarrow>
     counter_inv (lm_requests_per_minute s0) (lm_requests_per_minute s)
       (map (\<lambda>r. sint (rq_requests_per_minute r)) (lm_held s)) \<and>
     counter_inv (lm_tokens_per_minute s0) (lm_tokens_per_minute s)
       (map (\<lambda>r. sint (rq_tokens_per_minute r)) (lm_held s)) \<and>
     counter_inv (lm_concurrency s0) (lm_concurrency s)
       (map (\<lambda>r. sint (rq_concurrency r)) (lm_held s))"

lemma counter_inv_refl: "counter_inv w w []"
  by (auto simp: counter_inv_def split: option.split)

lemma counter_inv_mset: "counter_inv w0 w xs \<Longrightarrow> mset xs = mset ys \<Longrightarrow> counter_inv w0 w ys"
  unfolding counter_inv_def
  by (auto dest: mset_eq_setD simp: sum_mset_sum_list [symmetric] split: option.splits)

lemma mset_map_remove1: "r \<in> set rs \<Longrightarrow> mset (remove1 (f r) (map f rs)) = mset (map f (remove1 r rs))"
  by (simp add: image_mset_Diff)

lemma counter_inv_release_held:
  assumes "counter_inv w0 w (map (\<lambda>r. sint (f r)) held)" "r \<in> set held"
  shows "counter_inv w0 (dimension_after RO_Release RS_Released d (f r) w)
           (map (\<lambda>r. sint (f r)) (remove1 r held))"
proof -
  have "counter_inv w0 (dimension_after RO_Release RS_Released d (f r) w)
          (remove1 (sint (f r)) (map (\<lambda>r. sint (f r)) held))"
    using counter_inv_release [OF assms(1), of "f r"] assms(2) by simp
  then show ?thesis
    by (rule counter_inv_mset) (rule mset_map_remove1 [OF assms(2), of "\<lambda>r. sint (f r)"])
qed

lemma counter_inv_nonneg: "counter_inv w0 w (map f held) \<Longrightarrow> r \<in> set held \<Longrightarrow> 0 \<le> f r"
  by (simp add: counter_inv_def)

lemma limiter_step_inv: "limiter_step s s' \<Longrightarrow> limiter_inv s0 s \<Longrightarrow> limiter_inv s0 s'"
proof (induction rule: limiter_step.induct)
  case (acquired s r)
  then have "capacity_fits s r" by (simp add: limiter_acquire_status split: if_splits)
  with acquired show ?case
    by (simp add: limiter_inv_def limiter_apply_acquire Let_def capacity_fits_def counter_inv_acquire)
next
  case (rejected s r)
  then show ?case by (simp add: limiter_inv_def limiter_apply_acquire Let_def dimension_after_idle)
next
  case (released r s)
  then have "pl_status (limiter_release s r True) = RS_Released"
    by (auto simp: limiter_release_status limiter_inv_def dest: counter_inv_nonneg)
  with released show ?case
    by (simp add: limiter_inv_def limiter_apply_release Let_def counter_inv_release_held)
next
  case (not_held s r)
  then show ?case
    by (simp add: limiter_inv_def limiter_apply_release limiter_release_status Let_def dimension_after_idle)
qed

lemma limiter_reachable_inv:
  assumes "limiter_step\<^sup>*\<^sup>* s0 s" "lm_held s0 = []"
  shows "limiter_inv s0 s"
  using assms(1)
proof induction
  case base
  then show ?case using assms(2) by (simp add: limiter_inv_def counter_inv_refl)
next
  case (step s s')
  then show ?case by (blast intro: limiter_step_inv)
qed

section \<open>The limiter's contract\<close>

text \<open>C11. In every state reached from one with nothing held, by any interleaving of admitted and refused
  acquisitions and of releases, each limited counter shows exactly its first use plus the capacities of the
  reservations held, and that never exceeds the larger of the first use and the limit. So the limit is never
  exceeded by an admission, and releasing everything restores the counter.\<close>

theorem limits_never_exceeded:
  assumes "limiter_step\<^sup>*\<^sup>* s0 s" "lm_held s0 = []"
    and "(win, req) \<in> {(lm_requests_per_minute, rq_requests_per_minute),
           (lm_tokens_per_minute, rq_tokens_per_minute), (lm_concurrency, rq_concurrency)}"
    and "cw_limit (win s0) = Some l" "cw_used (win s0) = Some u0"
  shows "\<exists>u. win s = \<lparr>cw_limit = Some l, cw_used = Some u\<rparr>
     \<and> max 0 (sint u) = max 0 (sint u0) + (\<Sum>r\<leftarrow>lm_held s. sint (req r))
     \<and> max 0 (sint u) \<le> max (max 0 (sint u0)) (sint l)"
proof -
  have "counter_inv (win s0) (win s) (map (\<lambda>r. sint (req r)) (lm_held s))"
    using limiter_reachable_inv [OF assms(1,2)] assms(3) by (auto simp: limiter_inv_def)
  then show ?thesis
    using assms(4,5) by (cases "win s") (auto simp: counter_inv_def shown_use_def)
qed

definition sample_limiter :: limiter where
  "sample_limiter = \<lparr>lm_requests_per_minute = \<lparr>cw_limit = Some 10, cw_used = Some 9\<rparr>,
     lm_tokens_per_minute = \<lparr>cw_limit = None, cw_used = None\<rparr>,
     lm_concurrency = \<lparr>cw_limit = Some 4, cw_used = Some 0\<rparr>, lm_held = []\<rparr>"

definition sample_capacity :: rate_limit_required_capacity where
  "sample_capacity = \<lparr>rq_requests_per_minute = 1, rq_tokens_per_minute = 500, rq_concurrency = 1\<rparr>"

lemma sample_limiter_acquire:
  "limiter_step sample_limiter
     (limiter_apply (limiter_acquire sample_limiter sample_capacity) [sample_capacity] sample_limiter)"
proof -
  have "capacity_fits sample_limiter sample_capacity" by code_simp
  then have "pl_status (limiter_acquire sample_limiter sample_capacity) = RS_Acquired"
    by (simp add: limiter_acquire_status)
  from limiter_step.acquired [OF this] show ?thesis by (simp add: sample_limiter_def)
qed

theorem limits_never_exceeded_witness:
  "\<exists>u. lm_requests_per_minute
         (limiter_apply (limiter_acquire sample_limiter sample_capacity) [sample_capacity] sample_limiter)
       = \<lparr>cw_limit = Some 10, cw_used = Some u\<rparr> \<and> max 0 (sint u) = 10"
  using limits_never_exceeded [OF r_into_rtranclp [of limiter_step, OF sample_limiter_acquire],
      of lm_requests_per_minute rq_requests_per_minute 10 9]
  by (auto simp: sample_limiter_def sample_capacity_def limiter_apply_def)

definition acquire_windows ::
  "rate_limit_counter_window \<Rightarrow> rate_limit_counter_window \<Rightarrow> rate_limit_counter_window
   \<Rightarrow> rate_limit_required_capacity \<Rightarrow> (rate_limit_dimension \<times> rate_limit_window) list" where
  "acquire_windows rpm tpm conc r =
     [(RD_RequestsPerMinute, reservation_window rpm (rq_requests_per_minute r)),
      (RD_TokensPerMinute, reservation_window tpm (rq_tokens_per_minute r)),
      (RD_Concurrency, reservation_window conc (rq_concurrency r))]"

lemma acquired_update_iff:
  assumes "window_fits w"
  shows "counter_update_for_dimension RO_Acquire RS_Acquired (evaluate_rate_limit_dimension d w) \<noteq> CU_None
     \<longleftrightarrow> lw_limit w \<noteq> None \<and> 0 < sint (lw_required w)"
proof -
  have "lw_required w \<noteq> 0 \<longleftrightarrow> 0 < sint (lw_required w)"
    using assms signed_eq_0_iff [where 'a = int, of "lw_required w"]
    by (auto simp: window_fits_def order_less_le simp del: signed_eq_0_iff)
  then show ?thesis
    using assms
    by (auto simp: window_fits_def counter_update_for_dimension_def evaluate_rate_limit_dimension_def
        Let_def clamp_u64_def split: option.splits)
qed

lemma idle_update:
  "counter_update_for_dimension RO_Acquire RS_Rejected summary = CU_None"
  by (simp add: counter_update_for_dimension_def)

lemma dimension_plan_update [simp]:
  "dp_counter_update (reservation_dimension_plan opn st x) = counter_update_for_dimension opn st x"
  by (simp add: reservation_dimension_plan_def Let_def)

lemma dim_dimension_eval [simp]: "dim_dimension (evaluate_rate_limit_dimension d w) = d"
  by (simp add: evaluate_rate_limit_dimension_def Let_def split: option.split)

text \<open>An acquisition is granted exactly when the requirement is non-negative and fits each limited window
  whose use is known. A refusal names exactly the windows that do not fit and plans no counter update; a grant
  updates exactly the limited windows with a positive requirement.\<close>

theorem acquire_granted_iff_fits:
  "let ws = acquire_windows rpm tpm conc r;
       p = plan_rate_limit_reservation (reservation_acquire rpm tpm conc r);
       fits = list_all (\<lambda>(d, w). window_fits w) ws
   in pl_status p = (if fits then RS_Acquired else RS_Rejected)
    \<and> pl_blocking_dimensions p = map fst (filter (\<lambda>(d, w). \<not> window_fits w) ws)
    \<and> pl_counter_updates_planned p =
        (if fits then length (filter (\<lambda>(d, w). lw_limit w \<noteq> None \<and> 0 < sint (lw_required w)) ws) else 0)"
proof (cases "list_all (\<lambda>(d, w). window_fits w) (acquire_windows rpm tpm conc r)")
  case True
  then show ?thesis
    by (simp add: acquire_windows_def plan_rate_limit_reservation_def Let_def av_selectable_iff
        reservation_availability_input_def reservation_acquire_def evaluate_rate_limit_availability_def
        dim_selectable_iff acquired_update_iff)
next
  case False
  then show ?thesis
    by (auto simp: acquire_windows_def plan_rate_limit_reservation_def Let_def av_selectable_iff
        reservation_availability_input_def reservation_acquire_def evaluate_rate_limit_availability_def
        dim_selectable_iff idle_update)
qed

text \<open>What the estimate should be: the reported total, else prompt plus the larger of the two completion figures,
  a missing part replaced by the fallback; negative figures count as missing.\<close>

definition reported :: "i64 option \<Rightarrow> int option" where
  "reported v = (case v of Some t \<Rightarrow> if 0 \<le> sint t then Some (sint t) else None | None \<Rightarrow> None)"

definition fallback_need :: "i64 \<Rightarrow> int" where
  "fallback_need v = (if 0 < sint v then sint v else 1024)"

definition completion_need :: "rate_limit_tpm_estimate_input \<Rightarrow> int option" where
  "completion_need i =
     (case (reported (ti_completion_tokens i), reported (ti_max_completion_tokens i)) of
        (Some c, Some m) \<Rightarrow> Some (max c m)
      | (Some c, None) \<Rightarrow> Some c
      | (None, other) \<Rightarrow> other)"

definition tpm_need :: "rate_limit_tpm_estimate_input \<Rightarrow> int" where
  "tpm_need i =
     (let fallback = fallback_need (ti_conservative_fallback_tokens i)
      in max 1
       (case (reported (ti_total_tokens i), reported (ti_prompt_tokens i), completion_need i) of
          (Some t, _, _) \<Rightarrow> t
        | (None, None, None) \<Rightarrow> fallback
        | (None, p, c) \<Rightarrow> unwrap_or fallback p + unwrap_or fallback c))"

lemma sanitize_reported:
  "map_option uint (fst (sanitize_optional_token_estimate v)) = reported v"
  by (auto simp: sanitize_optional_token_estimate_def reported_def uint_of_nonneg split: option.split)

lemma sanitize_fallback: "uint (fst (sanitize_conservative_fallback_tokens v)) = fallback_need v"
  by (simp add: sanitize_conservative_fallback_tokens_def fallback_need_def uint_of_nonneg
      RATE_LIMIT_DEFAULT_TPM_FALLBACK_TOKENS_def)

lemma uint_max: "uint (max a b) = max (uint a) (uint b)"
  by (simp add: max_def word_le_def)

lemma sanitize_small: "fst (sanitize_optional_token_estimate v) = Some t \<Longrightarrow> uint t < 2 ^ 63"
  using sint_upper [of t]
  by (auto simp: sanitize_optional_token_estimate_def uint_of_nonneg split: option.splits if_splits)

lemma fallback_small: "uint (fst (sanitize_conservative_fallback_tokens v)) < 2 ^ 63"
  using sint_upper [of v] by (simp add: sanitize_fallback fallback_need_def)

lemma completion_reservation_need:
  "map_option uint (completion_reservation_tokens (fst (sanitize_optional_token_estimate c))
       (fst (sanitize_optional_token_estimate m))) =
     (case (reported c, reported m) of
        (Some c, Some m) \<Rightarrow> Some (max c m) | (Some c, None) \<Rightarrow> Some c | (None, other) \<Rightarrow> other)"
  unfolding sanitize_reported [symmetric]
  by (simp add: completion_reservation_tokens_def uint_max split: option.split)

lemma completion_reservation_small:
  "completion_reservation_tokens (fst (sanitize_optional_token_estimate c))
       (fst (sanitize_optional_token_estimate m)) = Some t \<Longrightarrow> uint t < 2 ^ 63"
  by (auto simp: completion_reservation_tokens_def uint_max split: option.splits dest!: sanitize_small)

lemma tpm_required_need:
  assumes "\<And>t. p = Some t \<Longrightarrow> uint t < 2 ^ 63" "\<And>t. res = Some t \<Longrightarrow> uint t < 2 ^ 63" "uint fb < 2 ^ 63"
  shows "uint (fst (tpm_required tot p c m res fb)) =
     max 1 (case (map_option uint tot, map_option uint p, map_option uint res) of
          (Some t, _, _) \<Rightarrow> t
        | (None, None, None) \<Rightarrow> uint fb
        | (None, p, r) \<Rightarrow> unwrap_or (uint fb) p + unwrap_or (uint fb) r)"
  using assms
  by (cases tot; cases p; cases res)
     (simp_all add: tpm_required_def Let_def uint_max uint_saturating_add max.commute
       RATE_LIMIT_MIN_TPM_RESERVATION_TOKENS_def)

lemma uint_I64_MAX: "uint I64_MAX = 2 ^ 63 - 1"
  by (simp add: I64_MAX_def)

lemma required_tokens_i64_sint:
  "sint (required_tokens_i64 e) = min (uint (te_required_tokens e)) (2 ^ 63 - 1)"
proof -
  have "uint (required_tokens_i64 e) = min (uint (te_required_tokens e)) (2 ^ 63 - 1)"
    by (simp add: required_tokens_i64_def min_def word_le_def uint_I64_MAX)
  then show ?thesis using sint_of_small [of "required_tokens_i64 e"] by linarith
qed

text \<open>The tokens to reserve are exactly the reported total, or the prompt plus the larger completion figure
  with the fallback for a missing part, and at least one: the 64-bit sum never saturates. The value handed to the
  limiter is that estimate capped at the largest signed 64-bit number, flagged when it was capped.\<close>

theorem tpm_estimate_exact:
  "let e = estimate_tpm_reservation i
   in uint (te_required_tokens e) = tpm_need i
    \<and> sint (required_tokens_i64 e) = min (tpm_need i) (2 ^ 63 - 1)
    \<and> (te_clamped_to_i64_max e \<longleftrightarrow> tpm_need i > 2 ^ 63 - 1)
    \<and> 1 \<le> sint (required_tokens_i64 e)"
proof -
  define e where "e = estimate_tpm_reservation i"
  let ?san = "\<lambda>v. fst (sanitize_optional_token_estimate v)"
  let ?res = "completion_reservation_tokens (?san (ti_completion_tokens i)) (?san (ti_max_completion_tokens i))"
  let ?fb = "fst (sanitize_conservative_fallback_tokens (ti_conservative_fallback_tokens i))"
  have req: "te_required_tokens e = fst (tpm_required (?san (ti_total_tokens i)) (?san (ti_prompt_tokens i))
      (?san (ti_completion_tokens i)) (?san (ti_max_completion_tokens i)) ?res ?fb)"
    and cl: "te_clamped_to_i64_max e \<longleftrightarrow> te_required_tokens e > I64_MAX"
    by (simp_all add: e_def estimate_tpm_reservation_def Let_def split_beta)
  have "uint (te_required_tokens e) =
     max 1 (case (map_option uint (?san (ti_total_tokens i)), map_option uint (?san (ti_prompt_tokens i)),
         map_option uint ?res) of
          (Some t, _, _) \<Rightarrow> t
        | (None, None, None) \<Rightarrow> uint ?fb
        | (None, p, r) \<Rightarrow> unwrap_or (uint ?fb) p + unwrap_or (uint ?fb) r)"
    unfolding req
    by (rule tpm_required_need [OF sanitize_small completion_reservation_small fallback_small])
  then have need: "uint (te_required_tokens e) = tpm_need i"
    by (simp only: sanitize_reported sanitize_fallback completion_reservation_need tpm_need_def
        completion_need_def Let_def)
  moreover have "1 \<le> tpm_need i" by (simp add: tpm_need_def Let_def)
  ultimately show ?thesis
    unfolding e_def [symmetric] Let_def by (simp add: required_tokens_i64_sint cl word_less_def uint_I64_MAX)
qed

end
