(* ===== verification/RustUtf8.thy ===== *)
theory RustUtf8
  imports RustStr
begin

text \<open>
  UTF-8 decoding as the standard library does it, and the two line end bytes.
\<close>

definition NL :: char where "NL = char_of (10 :: nat)"

definition CR :: char where "CR = char_of (13 :: nat)"

section \<open>Decoding\<close>

text \<open>The number of bytes the first character takes, or the length of the first invalid sequence, which
  \<open>String::from_utf8_lossy\<close> replaces by U+FFFD. \<open>valid_utf8\<close> is the test of \<open>str::from_utf8\<close>.\<close>

definition byte_at :: "string \<Rightarrow> nat \<Rightarrow> nat" where
  "byte_at s i = (if i < length s then byte_of (s ! i) else 0)"

definition is_cont :: "nat \<Rightarrow> bool" where
  "is_cont b \<longleftrightarrow> 128 \<le> b \<and> b < 192"

definition second_ok :: "nat \<Rightarrow> nat \<Rightarrow> bool" where
  "second_ok b c =
     (if b = 224 then 160 \<le> c \<and> c \<le> 191
      else if b = 237 then 128 \<le> c \<and> c \<le> 159
      else if b = 240 then 144 \<le> c \<and> c \<le> 191
      else if b = 244 then 128 \<le> c \<and> c \<le> 143
      else is_cont c)"

definition utf8_first :: "string \<Rightarrow> nat \<times> bool" where
  "utf8_first s =
     (let b = byte_at s 0 in
      if b < 128 then (1, True)
      else if 194 \<le> b \<and> b \<le> 223 then (if is_cont (byte_at s 1) then (2, True) else (1, False))
      else if 224 \<le> b \<and> b \<le> 239 then
        (if \<not> second_ok b (byte_at s 1) then (1, False)
         else if \<not> is_cont (byte_at s 2) then (2, False) else (3, True))
      else if 240 \<le> b \<and> b \<le> 244 then
        (if \<not> second_ok b (byte_at s 1) then (1, False)
         else if \<not> is_cont (byte_at s 2) then (2, False)
         else if \<not> is_cont (byte_at s 3) then (3, False) else (4, True))
      else (1, False))"

lemma utf8_first_pos: "0 < fst (utf8_first s)"
  by (simp add: utf8_first_def Let_def)

function from_utf8_lossy :: "string \<Rightarrow> string" where
  "from_utf8_lossy s =
     (if s = [] then []
      else (if snd (utf8_first s) then take (fst (utf8_first s)) s else map char_of [239, 191, 189 :: nat])
             @ from_utf8_lossy (drop (fst (utf8_first s)) s))"
  by auto
termination
  by (relation "measure length") (auto intro!: diff_less simp: utf8_first_pos)

declare from_utf8_lossy.simps [simp del]

function valid_utf8 :: "string \<Rightarrow> bool" where
  "valid_utf8 s = (if s = [] then True else snd (utf8_first s) \<and> valid_utf8 (drop (fst (utf8_first s)) s))"
  by auto
termination
  by (relation "measure length") (auto intro!: diff_less simp: utf8_first_pos)

declare valid_utf8.simps [simp del]

lemma valid_utf8_ascii: "list_all (\<lambda>c. byte_of c < 128) s \<Longrightarrow> valid_utf8 s"
proof (induction s)
  case (Cons c s)
  then have "utf8_first (c # s) = (1, True)" by (simp add: utf8_first_def byte_at_def)
  with Cons show ?case by (simp add: valid_utf8.simps [of "c # s"])
qed (simp add: valid_utf8.simps [of "[]"])

lemma lossy_valid: "valid_utf8 s \<Longrightarrow> from_utf8_lossy s = s"
proof (induction s rule: from_utf8_lossy.induct)
  case (1 s)
  show ?case
  proof (cases "s = []")
    case False
    then have "snd (utf8_first s)" "valid_utf8 (drop (fst (utf8_first s)) s)"
      using 1(2) valid_utf8.simps [of s] by auto
    with 1(1) False show ?thesis by (simp add: from_utf8_lossy.simps [of s])
  qed (simp add: from_utf8_lossy.simps [of "[]"])
qed

end
