(* ===== verification/Sse.thy ===== *)
theory Sse
  imports RustUtf8
begin

text \<open>
  Server-sent events of a provider stream (\<open>stream/src/lib.rs\<close>): the block parser, the incremental decoder
  with its bounded buffer, the recognition of terminal events and the reason a stream ended with.
  Indexed byte loops are recursive functions of the index.
\<close>

section \<open>Data\<close>

datatype stream_end_reason_kind =
  SR_Completed | SR_ClientCancel | SR_UpstreamEof | SR_UpstreamError | SR_ParserError | SR_Timeout | SR_GatewayAbort

fun end_reason_as_str :: "stream_end_reason_kind \<Rightarrow> string" where
  "end_reason_as_str SR_Completed = ''completed''"
| "end_reason_as_str SR_ClientCancel = ''client_cancel''"
| "end_reason_as_str SR_UpstreamEof = ''upstream_eof''"
| "end_reason_as_str SR_UpstreamError = ''upstream_error''"
| "end_reason_as_str SR_ParserError = ''parser_error''"
| "end_reason_as_str SR_Timeout = ''timeout''"
| "end_reason_as_str SR_GatewayAbort = ''gateway_abort''"

datatype stream_protocol =
  SP_OpenAiChatCompletions | SP_OpenAiResponses | SP_AnthropicMessages | SP_GeminiGenerateContent

datatype terminal_event_kind_t = TK_None | TK_Completed | TK_Failed

definition is_terminal :: "terminal_event_kind_t \<Rightarrow> bool" where
  "is_terminal k \<longleftrightarrow> k \<noteq> TK_None"

datatype stream_end_signal =
  SS_TerminalEvent | SS_UpstreamEof | SS_UpstreamError | SS_ParserError | SS_ClientCancel | SS_Timeout | SS_GatewayAbort

record sse_event =
  se_event :: "string option"
  se_data :: string

datatype sse_parse_error = SPE_EventTooLarge

datatype sse_decode_error = SDE_Parse sse_parse_error | SDE_BufferTooLarge

record sse_decoder =
  sd_max_event_bytes :: nat
  sd_buffer :: string

definition decoder_new :: "nat \<Rightarrow> sse_decoder" where
  "decoder_new max_event_bytes = \<lparr>sd_max_event_bytes = max_event_bytes, sd_buffer = []\<rparr>"

definition QUOTE :: char where "QUOTE = char_of (34 :: nat)"

definition BACKSLASH :: char where "BACKSLASH = char_of (92 :: nat)"

section \<open>The block parser\<close>

definition trim_cr :: "string \<Rightarrow> string" where
  "trim_cr line = (if line \<noteq> [] \<and> last line = CR then butlast line else line)"

definition trim_one_leading_space :: "string \<Rightarrow> string" where
  "trim_one_leading_space line = unwrap_or line (strip_prefix '' '' line)"

definition trim_ascii :: "string \<Rightarrow> string" where
  "trim_ascii v = rev (dropWhile is_ascii_whitespace (rev (dropWhile is_ascii_whitespace v)))"

definition parse_line :: "sse_event \<Rightarrow> string \<Rightarrow> sse_event" where
  "parse_line ev raw_line =
     (let line = trim_cr raw_line
      in case strip_prefix ''event:'' line of
           Some v \<Rightarrow> ev\<lparr>se_event := Some (trim (from_utf8_lossy v))\<rparr>
         | None \<Rightarrow>
             (case strip_prefix ''data:'' line of
                Some v \<Rightarrow> ev\<lparr>se_data := se_data ev @ (if se_data ev \<noteq> [] then [NL] else [])
                                        @ trim_one_leading_space v\<rparr>
              | None \<Rightarrow> ev))"

definition parse_block :: "nat \<Rightarrow> string \<Rightarrow> sse_parse_error + sse_event" where
  "parse_block max_event_bytes block =
     (if length block > max_event_bytes then Inl SPE_EventTooLarge
      else Inr (foldl parse_line \<lparr>se_event = None, se_data = []\<rparr> (split_on NL block)))"

section \<open>The decoder\<close>

text \<open>\<open>windows(n).position(..)\<close> for a non-empty pattern.\<close>

fun find_sub :: "string \<Rightarrow> string \<Rightarrow> nat option" where
  "find_sub p [] = None"
| "find_sub p (c # cs) = (if starts_with p (c # cs) then Some 0 else map_option Suc (find_sub p cs))"

definition find_sse_boundary :: "string \<Rightarrow> (nat \<times> nat) option" where
  "find_sse_boundary buffer =
     (let lf = map_option (\<lambda>index. (index, 2)) (find_sub [NL, NL] buffer);
          crlf = map_option (\<lambda>index. (index, 4)) (find_sub [CR, NL, CR, NL] buffer)
      in case (lf, crlf) of
           (Some lf, Some crlf) \<Rightarrow> Some (if fst lf \<le> fst crlf then lf else crlf)
         | (Some lf, None) \<Rightarrow> Some lf
         | (None, Some crlf) \<Rightarrow> Some crlf
         | (None, None) \<Rightarrow> None)"

lemma find_sub_less: "find_sub p s = Some i \<Longrightarrow> i < length s"
  by (induction s arbitrary: i) (auto split: if_splits)

lemma boundary_less: "find_sse_boundary s = Some (b, l) \<Longrightarrow> b < length s \<and> 0 < l \<and> l \<le> 4"
  by (auto simp: find_sse_boundary_def Let_def split: option.splits if_splits dest: find_sub_less)

function drain_events ::
  "nat \<Rightarrow> string \<Rightarrow> sse_event list \<Rightarrow> string \<times> (sse_decode_error + sse_event list)" where
  "drain_events max_event_bytes buffer events =
     (case find_sse_boundary buffer of
        None \<Rightarrow> (buffer, Inr events)
      | Some (boundary, boundary_len) \<Rightarrow>
          let block = take boundary buffer;
              rest = drop (boundary + boundary_len) buffer
          in if trim_ascii block = [] then drain_events max_event_bytes rest events
             else case parse_block max_event_bytes block of
               Inl e \<Rightarrow> (rest, Inl (SDE_Parse e))
             | Inr ev \<Rightarrow> drain_events max_event_bytes rest (events @ [ev]))"
  by auto
termination
  by (relation "measure (\<lambda>(_, b, _). length b)") (auto dest!: boundary_less)

declare drain_events.simps [simp del]

definition sse_push :: "sse_decoder \<Rightarrow> string \<Rightarrow> sse_decoder \<times> (sse_decode_error + sse_event list)" where
  "sse_push d chunk =
     (let buffer = sd_buffer d @ chunk
      in if length buffer > sd_max_event_bytes d \<and> find_sse_boundary buffer = None
         then (d\<lparr>sd_buffer := buffer\<rparr>, Inl SDE_BufferTooLarge)
         else let (rest, result) = drain_events (sd_max_event_bytes d) buffer []
              in (d\<lparr>sd_buffer := rest\<rparr>, result))"

definition sse_finish :: "sse_decoder \<Rightarrow> sse_decoder \<times> (sse_decode_error + sse_event list)" where
  "sse_finish d =
     (if trim_ascii (sd_buffer d) = [] then (d\<lparr>sd_buffer := []\<rparr>, Inr [])
      else if length (sd_buffer d) > sd_max_event_bytes d then (d, Inl SDE_BufferTooLarge)
      else (d\<lparr>sd_buffer := []\<rparr>,
            map_ok (\<lambda>ev. [ev]) (map_err SDE_Parse (parse_block (sd_max_event_bytes d) (sd_buffer d)))))"

section \<open>Scanning JSON text\<close>

definition get_at :: "string \<Rightarrow> nat \<Rightarrow> char option" where
  "get_at s i = (if i < length s then Some (s ! i) else None)"

function json_string_loop :: "string \<Rightarrow> string \<Rightarrow> nat \<Rightarrow> nat \<Rightarrow> bool \<Rightarrow> (bool \<times> nat) option" where
  "json_string_loop input expected index expected_index matches =
     (if index < length input then
        if input ! index = BACKSLASH then
          if index + 1 \<ge> length input then None
          else json_string_loop input expected (index + 2) expected_index False
        else if input ! index = QUOTE then
          Some (matches \<and> expected_index = length expected, index + 1)
        else json_string_loop input expected (index + 1) (expected_index + 1)
               (matches \<and> get_at expected expected_index = Some (input ! index))
      else None)"
  by auto
termination
  by (relation "measure (\<lambda>(input, _, index, _, _). length input - index)") auto

declare json_string_loop.simps [simp del]

definition json_string_matches :: "string \<Rightarrow> nat \<Rightarrow> string \<Rightarrow> (bool \<times> nat) option" where
  "json_string_matches input start expected =
     (if get_at input start \<noteq> Some QUOTE then None
      else json_string_loop input expected (start + 1) 0 True)"

function skip_json_ws :: "string \<Rightarrow> nat \<Rightarrow> nat" where
  "skip_json_ws input index =
     (if index < length input \<and> is_ascii_whitespace (input ! index) then skip_json_ws input (index + 1)
      else index)"
  by auto
termination
  by (relation "measure (\<lambda>(input, index). length input - index)") auto

declare skip_json_ws.simps [simp del]

lemma json_string_loop_progress:
  "json_string_loop input expected index ei m = Some (r, e) \<Longrightarrow> index < e \<and> e \<le> length input"
proof (induction input expected index ei m arbitrary: r e rule: json_string_loop.induct)
  case (1 input expected index ei m)
  show ?case
    using 1(3) 1(1) [of r e] 1(2) [of r e] unfolding json_string_loop.simps [of input expected index ei m]
    by (auto split: if_splits)
qed

lemma json_string_matches_progress:
  "json_string_matches input start expected = Some (r, e) \<Longrightarrow> start < e \<and> e \<le> length input"
  by (auto simp: json_string_matches_def split: if_splits dest!: json_string_loop_progress)

function key_value_loop :: "string \<Rightarrow> string \<Rightarrow> string \<Rightarrow> nat \<Rightarrow> bool" where
  "key_value_loop input key val index =
     (if index < length input then
        if input ! index \<noteq> QUOTE then key_value_loop input key val (index + 1)
        else case json_string_matches input index key of
          None \<Rightarrow> False
        | Some (key_matches, string_end) \<Rightarrow>
            if \<not> key_matches then key_value_loop input key val string_end
            else let colon = skip_json_ws input string_end
              in if get_at input colon \<noteq> Some (CHR '':'') then key_value_loop input key val string_end
                 else let value_start = skip_json_ws input (colon + 1)
                   in if get_at input value_start \<noteq> Some QUOTE then key_value_loop input key val string_end
                      else case json_string_matches input value_start val of
                        None \<Rightarrow> False
                      | Some (value_matches, _) \<Rightarrow>
                          if value_matches then True else key_value_loop input key val string_end
      else False)"
  by auto
termination
  by (relation "measure (\<lambda>(input, _, _, index). length input - index)")
     (auto dest!: json_string_matches_progress)

declare key_value_loop.simps [simp del]

definition json_key_string_value_eq :: "string \<Rightarrow> string \<Rightarrow> string \<Rightarrow> bool" where
  "json_key_string_value_eq input key val = key_value_loop input key val 0"

function json_string_closed_loop :: "string \<Rightarrow> nat \<Rightarrow> bool" where
  "json_string_closed_loop input index =
     (if index < length input then
        if input ! index = BACKSLASH then json_string_closed_loop input (index + 2)
        else if input ! index = QUOTE then True
        else json_string_closed_loop input (index + 1)
      else False)"
  by auto
termination
  by (relation "measure (\<lambda>(input, index). length input - index)") auto

declare json_string_closed_loop.simps [simp del]

definition json_string_is_closed :: "string \<Rightarrow> nat \<Rightarrow> bool" where
  "json_string_is_closed input start =
     (if get_at input start \<noteq> Some QUOTE then False else json_string_closed_loop input (start + 1))"

definition json_value_is_non_null :: "string \<Rightarrow> nat \<Rightarrow> bool" where
  "json_value_is_non_null input index =
     (case get_at input index of
        None \<Rightarrow> False
      | Some c \<Rightarrow>
          if c = QUOTE then json_string_is_closed input index
          else c \<in> set ''{[tf-'' \<or> is_ascii_digit c)"

function non_null_loop :: "string \<Rightarrow> string \<Rightarrow> nat \<Rightarrow> bool" where
  "non_null_loop input key index =
     (if index < length input then
        if input ! index \<noteq> QUOTE then non_null_loop input key (index + 1)
        else case json_string_matches input index key of
          None \<Rightarrow> False
        | Some (key_matches, string_end) \<Rightarrow>
            if \<not> key_matches then non_null_loop input key string_end
            else let colon = skip_json_ws input string_end
              in if get_at input colon \<noteq> Some (CHR '':'') then non_null_loop input key string_end
                 else json_value_is_non_null input (skip_json_ws input (colon + 1))
      else False)"
  by auto
termination
  by (relation "measure (\<lambda>(input, _, index). length input - index)")
     (auto dest!: json_string_matches_progress)

declare non_null_loop.simps [simp del]

definition json_key_has_non_null_value :: "string \<Rightarrow> string \<Rightarrow> bool" where
  "json_key_has_non_null_value input key = non_null_loop input key 0"

section \<open>Terminal events and end reasons\<close>

definition responses_terminal_event_kind :: "sse_event \<Rightarrow> terminal_event_kind_t" where
  "responses_terminal_event_kind event =
     (if se_event event = Some ''response.completed'' then TK_Completed
      else if se_event event \<in> Some ` {''response.failed'', ''response.incomplete'', ''response.cancelled''}
      then TK_Failed
      else if json_key_string_value_eq (se_data event) ''type'' ''response.completed'' then TK_Completed
      else if json_key_string_value_eq (se_data event) ''type'' ''response.failed''
            \<or> json_key_string_value_eq (se_data event) ''type'' ''response.incomplete''
            \<or> json_key_string_value_eq (se_data event) ''type'' ''response.cancelled'' then TK_Failed
      else TK_None)"

definition anthropic_terminal_event_kind :: "sse_event \<Rightarrow> terminal_event_kind_t" where
  "anthropic_terminal_event_kind event =
     (if se_event event = Some ''message_stop'' then TK_Completed
      else if se_event event = Some ''error'' then TK_Failed
      else if json_key_string_value_eq (se_data event) ''type'' ''message_stop'' then TK_Completed
      else if json_key_string_value_eq (se_data event) ''type'' ''error'' then TK_Failed
      else TK_None)"

definition terminal_event_kind :: "stream_protocol \<Rightarrow> sse_event \<Rightarrow> terminal_event_kind_t" where
  "terminal_event_kind protocol event =
     (case protocol of
        SP_OpenAiChatCompletions \<Rightarrow> if trim_ascii (se_data event) = ''[DONE]'' then TK_Completed else TK_None
      | SP_OpenAiResponses \<Rightarrow> responses_terminal_event_kind event
      | SP_AnthropicMessages \<Rightarrow> anthropic_terminal_event_kind event
      | SP_GeminiGenerateContent \<Rightarrow>
          if json_key_has_non_null_value (se_data event) ''finishReason''
             \<or> json_key_has_non_null_value (se_data event) ''finish_reason''
          then TK_Completed else TK_None)"

definition is_terminal_event :: "stream_protocol \<Rightarrow> sse_event \<Rightarrow> bool" where
  "is_terminal_event protocol event = is_terminal (terminal_event_kind protocol event)"

fun stream_end_reason :: "bool \<Rightarrow> stream_end_signal \<Rightarrow> stream_end_reason_kind" where
  "stream_end_reason terminal_seen SS_TerminalEvent = SR_Completed"
| "stream_end_reason terminal_seen SS_UpstreamEof = (if terminal_seen then SR_Completed else SR_UpstreamEof)"
| "stream_end_reason terminal_seen SS_UpstreamError = SR_UpstreamError"
| "stream_end_reason terminal_seen SS_ParserError = SR_ParserError"
| "stream_end_reason terminal_seen SS_ClientCancel = SR_ClientCancel"
| "stream_end_reason terminal_seen SS_Timeout = SR_Timeout"
| "stream_end_reason terminal_seen SS_GatewayAbort = SR_GatewayAbort"

definition determine_stream_end_reason :: "bool \<Rightarrow> stream_end_signal \<Rightarrow> stream_end_reason_kind" where
  "determine_stream_end_reason terminal_seen sig = stream_end_reason terminal_seen sig"

definition stream_end_reason_for_terminal_kind ::
  "terminal_event_kind_t \<Rightarrow> stream_end_signal \<Rightarrow> stream_end_reason_kind" where
  "stream_end_reason_for_terminal_kind terminal_kind sig =
     (case sig of
        SS_TerminalEvent \<Rightarrow>
          (case terminal_kind of
             TK_Failed \<Rightarrow> SR_UpstreamError | TK_Completed \<Rightarrow> SR_Completed | TK_None \<Rightarrow> SR_UpstreamEof)
      | SS_UpstreamEof \<Rightarrow>
          if terminal_kind = TK_Failed then SR_UpstreamError
          else stream_end_reason (is_terminal terminal_kind) SS_UpstreamEof
      | _ \<Rightarrow> stream_end_reason (is_terminal terminal_kind) sig)"

end
