(* ===== verification/SseDecoding.thy ===== *)
theory SseDecoding
  imports Sse
begin

text \<open>
  Properties of the event decoder: the blocks of a stream do not depend on how it is cut into chunks, a decoder
  with room for every block decodes every chunking, and rendered events decode to themselves.
\<close>

section \<open>Finding the boundary\<close>

lemma starts_with_extend: "starts_with p s \<Longrightarrow> starts_with p (s @ t)"
  by (metis append_eq_conv_conj append_assoc append_take_drop_id starts_with_def)

lemma starts_with_prefix: "length p \<le> length s \<Longrightarrow> starts_with p (s @ t) \<longleftrightarrow> starts_with p s"
  by (simp add: starts_with_def)

lemma starts_with_length: "starts_with p s \<Longrightarrow> length p \<le> length s"
  by (metis length_take min.cobounded1 starts_with_def)

lemma find_sub_length: "find_sub p s = Some i \<Longrightarrow> i + length p \<le> length s"
  by (induction s arbitrary: i) (auto split: if_splits dest: starts_with_length)

lemma find_sub_append: "find_sub p s = Some i \<Longrightarrow> find_sub p (s @ t) = Some i"
proof (induction s arbitrary: i)
  case (Cons c cs)
  show ?case
  proof (cases "starts_with p (c # cs)")
    case True
    with Cons.prems starts_with_extend [OF True, of t] show ?thesis by simp
  next
    case False
    with Cons.prems obtain j where j: "find_sub p cs = Some j" "i = Suc j" by auto
    then have "length p \<le> length (c # cs)" using find_sub_length [OF j(1)] by simp
    with False have "\<not> starts_with p ((c # cs) @ t)" using starts_with_prefix by blast
    with Cons.IH [OF j(1)] j show ?thesis by simp
  qed
qed simp

lemma find_sub_starts: "find_sub p s = Some i \<Longrightarrow> starts_with p (drop i s)"
  by (induction s arbitrary: i) (auto split: if_splits)

lemma find_sub_within:
  "find_sub p (s @ t) = Some i \<Longrightarrow> i + length p \<le> length s \<Longrightarrow> p \<noteq> [] \<Longrightarrow> find_sub p s = Some i"
proof (induction s arbitrary: i)
  case (Cons c cs)
  show ?case
  proof (cases "starts_with p (c # cs)")
    case True
    then show ?thesis using Cons.prems starts_with_extend [OF True, of t] by simp
  next
    case False
    have "\<not> starts_with p (c # (cs @ t))"
    proof
      assume "starts_with p (c # (cs @ t))"
      then have "i = 0" using Cons.prems(1) by simp
      then show False using False Cons.prems(2) \<open>starts_with p (c # (cs @ t))\<close> starts_with_prefix [of p "c # cs" t] by simp
    qed
    then obtain j where "find_sub p (cs @ t) = Some j" "i = Suc j" using Cons.prems(1) by auto
    with Cons.IH [of j] Cons.prems(2,3) False show ?thesis by simp
  qed
qed simp

lemma starts_with_nth: "starts_with p s \<Longrightarrow> k < length p \<Longrightarrow> k < length s \<and> s ! k = p ! k"
  by (metis nth_take order_less_le_trans starts_with_def starts_with_length)

lemma find_sub_nth: "find_sub p s = Some i \<Longrightarrow> k < length p \<Longrightarrow> i + k < length s \<and> s ! (i + k) = p ! k"
  using find_sub_starts [of p s i] find_sub_length [of p s i] starts_with_nth [of p "drop i s" k] by fastforce

lemma NL_CR [simp]: "NL \<noteq> CR" "CR \<noteq> NL"
  by (simp_all add: NL_def CR_def char_of_def)

lemma boundary_eq:
  "find_sse_boundary s =
     (case find_sub [NL, NL] s of
        Some i \<Rightarrow> (case find_sub [CR, NL, CR, NL] s of
                      Some j \<Rightarrow> Some (if i \<le> j then (i, 2) else (j, 4)) | None \<Rightarrow> Some (i, 2))
      | None \<Rightarrow> map_option (\<lambda>j. (j, 4)) (find_sub [CR, NL, CR, NL] s))"
  by (cases "find_sub [NL, NL] s"; cases "find_sub [CR, NL, CR, NL] s") (simp_all add: find_sse_boundary_def Let_def)

lemma boundary_cases:
  assumes "find_sse_boundary s = Some (b, l)"
  obtains "l = 2" "find_sub [NL, NL] s = Some b" | "l = 4" "find_sub [CR, NL, CR, NL] s = Some b"
  using assms unfolding boundary_eq
  by (cases "find_sub [NL, NL] s"; cases "find_sub [CR, NL, CR, NL] s") (simp_all split: if_splits)

lemma boundary_None:
  "find_sse_boundary s = None \<longleftrightarrow> find_sub [NL, NL] s = None \<and> find_sub [CR, NL, CR, NL] s = None"
  unfolding boundary_eq by (cases "find_sub [NL, NL] s"; cases "find_sub [CR, NL, CR, NL] s") simp_all

text \<open>The two boundary patterns never compete at the edge of a chunk.\<close>

lemma boundary_append:
  assumes "find_sse_boundary s = Some (b, l)"
  shows "find_sse_boundary (s @ t) = Some (b, l)"
proof -
  let ?lf = "find_sub [NL, NL]" and ?cr = "find_sub [CR, NL, CR, NL]"
  have late_cr: "i < j" if i: "?lf s = Some i" and j: "?cr (s @ t) = Some j" "?cr s = None" for i j
  proof (rule ccontr)
    assume "\<not> i < j"
    moreover have "length s < j + 4"
      using find_sub_within [OF j(1)] j(2) by force
    moreover have "i + 2 \<le> length s" using find_sub_length [OF i] by simp
    ultimately have ji: "j = i \<or> i = Suc j" by linarith
    have n: "s ! i = NL" "s ! Suc i = NL" "Suc i < length s"
      using find_sub_nth [OF i, of 0] find_sub_nth [OF i, of 1] by auto
    have "(s @ t) ! j = CR" "(s @ t) ! (j + 2) = CR"
      using find_sub_nth [OF j(1), of 0] find_sub_nth [OF j(1), of 2] by (auto simp: numeral_2_eq_2)
    with ji n show False by (auto simp: nth_append)
  qed
  have late_lf: "j \<le> i" if j: "?cr s = Some j" and i: "?lf (s @ t) = Some i" "?lf s = None" for i j
    using find_sub_within [OF i(1)] i(2) find_sub_length [OF j] by fastforce
  have never: "i \<noteq> j" if "?lf (s @ t) = Some i" "?cr (s @ t) = Some j" for i j
    using find_sub_nth [OF that(1), of 0] find_sub_nth [OF that(2), of 0] by auto
  show ?thesis
  proof (cases "?lf s")
    case None
    then obtain j where j: "?cr s = Some j" "b = j" "l = 4" using assms by (auto simp: boundary_eq)
    then show ?thesis
      using late_lf [OF j(1) _ None] never find_sub_append [OF j(1), of t]
      by (cases "?lf (s @ t)") (auto simp: boundary_eq le_less)
  next
    case (Some i)
    note i = Some find_sub_append [OF Some, of t]
    show ?thesis
    proof (cases "?cr s")
      case None
      then show ?thesis
        using assms i late_cr [OF i(1) _ None] by (cases "?cr (s @ t)") (auto simp: boundary_eq)
    next
      case (Some j)
      then show ?thesis using assms i find_sub_append [OF Some, of t] by (simp add: boundary_eq)
    qed
  qed
qed

lemma boundary_within:
  assumes "find_sse_boundary (s @ t) = Some (b, l)" "b + l \<le> length s"
  shows "find_sse_boundary s \<noteq> None"
  using assms(1)
proof (cases rule: boundary_cases)
  case 1
  with assms(2) find_sub_within [OF 1(2)] have "find_sub [NL, NL] s = Some b" by simp
  then show ?thesis by (simp add: boundary_None)
next
  case 2
  with assms(2) find_sub_within [OF 2(2)] have "find_sub [CR, NL, CR, NL] s = Some b" by simp
  then show ?thesis by (simp add: boundary_None)
qed

section \<open>Blocks of a stream\<close>

text \<open>The stream cut at its boundaries: the complete blocks and the text after the last boundary.\<close>

function sse_blocks :: "string \<Rightarrow> string list \<times> string" where
  "sse_blocks s =
     (case find_sse_boundary s of
        None \<Rightarrow> ([], s)
      | Some (b, l) \<Rightarrow> (take b s # fst (sse_blocks (drop (b + l) s)), snd (sse_blocks (drop (b + l) s))))"
  by auto
termination
  by (relation "measure length") (auto dest!: boundary_less)

declare sse_blocks.simps [simp del]

lemma sse_blocks_None: "find_sse_boundary s = None \<Longrightarrow> sse_blocks s = ([], s)"
  by (subst sse_blocks.simps) simp

lemma sse_blocks_Some:
  "find_sse_boundary s = Some (b, l) \<Longrightarrow>
     sse_blocks s = (take b s # fst (sse_blocks (drop (b + l) s)), snd (sse_blocks (drop (b + l) s)))"
  by (subst sse_blocks.simps) simp

lemma boundary_fits: "find_sse_boundary s = Some (b, l) \<Longrightarrow> b + l \<le> length s"
  by (erule boundary_cases) (auto dest: find_sub_length)

lemma sse_blocks_append:
  "sse_blocks (s @ t) = (fst (sse_blocks s) @ fst (sse_blocks (snd (sse_blocks s) @ t)),
                         snd (sse_blocks (snd (sse_blocks s) @ t)))"
proof (induction s rule: sse_blocks.induct)
  case (1 s)
  show ?case
  proof (cases "find_sse_boundary s")
    case None
    then show ?thesis by (simp add: sse_blocks_None)
  next
    case (Some bl)
    then obtain b l where bl: "find_sse_boundary s = Some (b, l)" by (cases bl) simp
    with boundary_fits have "b + l \<le> length s" by blast
    then show ?thesis
      using 1 [OF bl refl] by (simp add: sse_blocks_Some [OF bl] sse_blocks_Some [OF boundary_append [OF bl]])
  qed
qed

lemma sse_blocks_rest: "find_sse_boundary (snd (sse_blocks s)) = None"
proof (induction s rule: sse_blocks.induct)
  case (1 s)
  then show ?case by (subst sse_blocks.simps) (auto split: option.split)
qed

text \<open>The events of a list of blocks; blank blocks are skipped.\<close>

definition sse_events :: "nat \<Rightarrow> string list \<Rightarrow> sse_parse_error + sse_event list" where
  "sse_events n bs = try_map (parse_block n) (filter (\<lambda>b. trim_ascii b \<noteq> []) bs)"

lemma sse_events_Nil [simp]: "sse_events n [] = Inr []"
  by (simp add: sse_events_def)

lemma sse_events_Cons:
  "sse_events n (b # bs) =
     (if trim_ascii b = [] then sse_events n bs
      else rbind (parse_block n b) (\<lambda>e. map_ok ((#) e) (sse_events n bs)))"
  by (cases "parse_block n b"; cases "sse_events n bs") (simp_all add: sse_events_def)

lemma sse_events_append:
  "sse_events n (bs @ cs) = rbind (sse_events n bs) (\<lambda>es. map_ok ((@) es) (sse_events n cs))"
proof (induction bs)
  case Nil
  then show ?case by (cases "sse_events n cs") simp_all
next
  case (Cons b bs)
  then show ?case
    by (cases "parse_block n b"; cases "sse_events n bs"; cases "sse_events n cs") (simp_all add: sse_events_Cons)
qed

lemma drain_events_ok:
  "drain_events n buf evs = (rest, Inr evs') \<longleftrightarrow>
     rest = snd (sse_blocks buf) \<and> (\<exists>es. sse_events n (fst (sse_blocks buf)) = Inr es \<and> evs' = evs @ es)"
proof (induction n buf evs arbitrary: rest evs' rule: drain_events.induct)
  case (1 n buf evs)
  show ?case
  proof (cases "find_sse_boundary buf")
    case None
    then show ?thesis by (subst drain_events.simps) (auto simp: sse_blocks_None)
  next
    case (Some bl)
    then obtain b l where bl: "find_sse_boundary buf = Some (b, l)" by (cases bl) simp
    have step: "drain_events n buf evs =
        (if trim_ascii (take b buf) = [] then drain_events n (drop (b + l) buf) evs
         else case parse_block n (take b buf) of
               Inl e \<Rightarrow> (drop (b + l) buf, Inl (SDE_Parse e))
             | Inr ev \<Rightarrow> drain_events n (drop (b + l) buf) (evs @ [ev]))"
      by (subst drain_events.simps) (simp add: bl Let_def)
    show ?thesis
    proof (cases "trim_ascii (take b buf) = []")
      case True
      with 1(1) [OF bl refl refl refl True] show ?thesis
        by (simp add: step sse_blocks_Some [OF bl] sse_events_Cons)
    next
      case False
      with 1(2) [OF bl refl refl refl False] show ?thesis
        by (cases "parse_block n (take b buf)"; cases "sse_events n (fst (sse_blocks (drop (b + l) buf)))")
           (auto simp: step sse_blocks_Some [OF bl] sse_events_Cons)
    qed
  qed
qed

section \<open>Decoding in chunks\<close>

text \<open>A stream read to its end: every chunk is pushed, the first error stops, and the decoder is finished.\<close>

fun sse_feed :: "sse_decoder \<Rightarrow> string list \<Rightarrow> sse_decode_error + sse_event list" where
  "sse_feed d [] = snd (sse_finish d)"
| "sse_feed d (c # cs) =
     (case sse_push d c of
        (d', Inl e) \<Rightarrow> Inl e
      | (d', Inr es) \<Rightarrow> map_ok ((@) es) (sse_feed d' cs))"

definition sse_segments :: "string \<Rightarrow> string list" where
  "sse_segments s = fst (sse_blocks s) @ [snd (sse_blocks s)]"

lemma sse_push_ok:
  assumes "sse_push d c = (d', Inr es)"
  shows "d' = d\<lparr>sd_buffer := snd (sse_blocks (sd_buffer d @ c))\<rparr>"
    and "sse_events (sd_max_event_bytes d) (fst (sse_blocks (sd_buffer d @ c))) = Inr es"
proof -
  from assms have "drain_events (sd_max_event_bytes d) (sd_buffer d @ c) [] = (sd_buffer d', Inr es)"
    and d': "d' = d\<lparr>sd_buffer := sd_buffer d'\<rparr>"
    by (auto simp: sse_push_def Let_def split: if_splits prod.splits)
  then have ok: "sd_buffer d' = snd (sse_blocks (sd_buffer d @ c))"
      "sse_events (sd_max_event_bytes d) (fst (sse_blocks (sd_buffer d @ c))) = Inr es"
    by (simp_all add: drain_events_ok)
  show "d' = d\<lparr>sd_buffer := snd (sse_blocks (sd_buffer d @ c))\<rparr>"
    using d' unfolding ok(1) .
  show "sse_events (sd_max_event_bytes d) (fst (sse_blocks (sd_buffer d @ c))) = Inr es" by (fact ok(2))
qed

lemma sse_finish_ok: "snd (sse_finish d) = Inr es \<Longrightarrow> sse_events (sd_max_event_bytes d) [sd_buffer d] = Inr es"
  by (auto simp: sse_finish_def sse_events_Cons parse_block_def split: if_splits)

lemma sse_segments_append:
  "sse_segments (s @ t) = fst (sse_blocks s) @ sse_segments (snd (sse_blocks s) @ t)"
  by (simp add: sse_segments_def sse_blocks_append [of s t])

lemma sse_feed_sound:
  "sse_feed d cs = Inr evs \<Longrightarrow> find_sse_boundary (sd_buffer d) = None \<Longrightarrow>
     sse_events (sd_max_event_bytes d) (sse_segments (sd_buffer d @ concat cs)) = Inr evs"
proof (induction cs arbitrary: d evs)
  case Nil
  then show ?case using sse_finish_ok [of d evs] by (simp add: sse_segments_def sse_blocks_None)
next
  case (Cons c cs)
  then obtain d' es es' where p: "sse_push d c = (d', Inr es)" "sse_feed d' cs = Inr es'" "evs = es @ es'"
    by (auto split: prod.splits sum.splits simp: map_ok_eq_Inr)
  note ok = sse_push_ok [OF p(1)]
  have "sse_events (sd_max_event_bytes d) (sse_segments (snd (sse_blocks (sd_buffer d @ c)) @ concat cs)) = Inr es'"
    using Cons.IH [OF p(2)] ok(1) by (simp add: sse_blocks_rest)
  then show ?case
    using ok(2) p(3) sse_segments_append [of "sd_buffer d @ c" "concat cs"] by (simp add: sse_events_append)
qed

lemma segment_room:
  assumes "find_sse_boundary s = None" "\<forall>b\<in>set (sse_segments (s @ t)). length b + 3 \<le> n"
  shows "length s \<le> n"
proof (cases "find_sse_boundary (s @ t)")
  case None
  then show ?thesis using assms(2) by (simp add: sse_segments_def sse_blocks_None)
next
  case (Some bl)
  then obtain b l where bl: "find_sse_boundary (s @ t) = Some (b, l)" by (cases bl) simp
  have "length (take b (s @ t)) + 3 \<le> n"
    using assms(2) by (simp add: sse_segments_def sse_blocks_Some [OF bl])
  moreover have "length s < b + l" using boundary_within [OF bl] assms(1) by force
  moreover have "l \<le> 4" "b < length (s @ t)" using boundary_less [OF bl] by simp_all
  ultimately show ?thesis by simp
qed

lemma sse_events_total: "\<forall>b\<in>set bs. length b \<le> n \<Longrightarrow> \<exists>es. sse_events n bs = Inr es"
  by (induction bs) (auto simp: sse_events_Cons parse_block_def)

lemma sse_push_total:
  assumes "\<forall>b\<in>set (sse_segments (sd_buffer d @ c @ t)). length b + 3 \<le> sd_max_event_bytes d"
  shows "\<exists>d' es. sse_push d c = (d', Inr es)"
proof -
  have "set (fst (sse_blocks (sd_buffer d @ c))) \<subseteq> set (sse_segments (sd_buffer d @ c @ t))"
    using sse_segments_append [of "sd_buffer d @ c" t] by simp
  with assms have "\<forall>b\<in>set (fst (sse_blocks (sd_buffer d @ c))). length b \<le> sd_max_event_bytes d"
    by (meson add_leD1 subsetD)
  from sse_events_total [OF this] obtain es where
    "sse_events (sd_max_event_bytes d) (fst (sse_blocks (sd_buffer d @ c))) = Inr es" by blast
  then have "drain_events (sd_max_event_bytes d) (sd_buffer d @ c) [] = (snd (sse_blocks (sd_buffer d @ c)), Inr es)"
    by (simp add: drain_events_ok)
  moreover have "length (sd_buffer d @ c) \<le> sd_max_event_bytes d" if "find_sse_boundary (sd_buffer d @ c) = None"
    using segment_room [OF that, of t] assms by simp
  ultimately show ?thesis
    by (cases "find_sse_boundary (sd_buffer d @ c)") (auto simp: sse_push_def Let_def)
qed

lemma sse_feed_total:
  "\<forall>b\<in>set (sse_segments (sd_buffer d @ concat cs)). length b + 3 \<le> sd_max_event_bytes d \<Longrightarrow>
     find_sse_boundary (sd_buffer d) = None \<Longrightarrow> \<exists>evs. sse_feed d cs = Inr evs"
proof (induction cs arbitrary: d)
  case Nil
  then show ?case by (auto simp: sse_finish_def sse_segments_def sse_blocks_None parse_block_def)
next
  case (Cons c cs)
  then obtain d' es where p: "sse_push d c = (d', Inr es)" using sse_push_total [of d c "concat cs"] by auto
  note ok = sse_push_ok [OF p]
  have "\<exists>evs. sse_feed d' cs = Inr evs"
    by (rule Cons.IH) (use Cons.prems ok(1) sse_segments_append [of "sd_buffer d @ c" "concat cs"] in
      \<open>simp_all add: sse_blocks_rest\<close>)
  with p show ?case by auto
qed

text \<open>C21. How the provider's bytes are cut into chunks does not matter. Whatever the chunking, when the decoder
  succeeds it returns exactly the events of the stream cut at its blank lines; and it always succeeds when every
  block is at least three bytes shorter than the buffer limit, the room a partial boundary needs.\<close>

theorem sse_chunking_invariant:
  "(\<forall>evs. sse_feed (decoder_new n) chunks = Inr evs \<longrightarrow> sse_events n (sse_segments (concat chunks)) = Inr evs)
   \<and> ((\<forall>b\<in>set (sse_segments (concat chunks)). length b + 3 \<le> n) \<longrightarrow>
        (\<exists>evs. sse_feed (decoder_new n) chunks = Inr evs))"
proof -
  have "find_sse_boundary [] = None" by (simp add: boundary_None)
  then show ?thesis
    using sse_feed_sound [of "decoder_new n" chunks] sse_feed_total [of "decoder_new n" chunks]
    by (auto simp: decoder_new_def)
qed

theorem sse_chunking_invariant_witness:
  "\<exists>evs. sse_feed (decoder_new 16) [''data:x'' @ [NL], [NL] @ ''data:y''] = Inr evs
     \<and> sse_events 16 [''data:x'', ''data:y''] = Inr evs"
proof -
  let ?cs = "[''data:x'' @ [NL], [NL] @ ''data:y'']"
  have seg: "sse_segments (concat ?cs) = [''data:x'', ''data:y'']" by code_simp
  then have "\<forall>b\<in>set (sse_segments (concat ?cs)). length b + 3 \<le> 16" by simp
  then obtain evs where "sse_feed (decoder_new 16) ?cs = Inr evs"
    using sse_chunking_invariant [of 16 ?cs] by blast
  with seg show ?thesis using sse_chunking_invariant [of 16 ?cs] by auto
qed

section \<open>Rendered events\<close>

text \<open>The wire form of an event, and the events it can carry: a name of printable ASCII, and data with no carriage
  return and no empty first line before another one.\<close>

definition sse_lines :: "sse_event \<Rightarrow> string list" where
  "sse_lines ev = (case se_event ev of None \<Rightarrow> [] | Some name \<Rightarrow> [''event: '' @ name])
     @ map (\<lambda>l. ''data: '' @ l) (split_on NL (se_data ev))"

definition sse_render :: "sse_event \<Rightarrow> string" where
  "sse_render ev = concat (map (\<lambda>l. l @ [NL]) (sse_lines ev)) @ [NL]"

definition printable :: "char \<Rightarrow> bool" where
  "printable c \<longleftrightarrow> 33 \<le> byte_of c \<and> byte_of c < 127"

definition renderable :: "sse_event \<Rightarrow> bool" where
  "renderable ev \<longleftrightarrow> (case se_event ev of None \<Rightarrow> True | Some name \<Rightarrow> name \<noteq> [] \<and> list_all printable name)
     \<and> CR \<notin> set (se_data ev) \<and> (se_data ev = [] \<or> hd (se_data ev) \<noteq> NL)"

fun join_lines :: "string list \<Rightarrow> string" where
  "join_lines [] = []"
| "join_lines [l] = l"
| "join_lines (l # ls) = l @ NL # join_lines ls"

lemma join_lines_terminated: "ls \<noteq> [] \<Longrightarrow> concat (map (\<lambda>l. l @ [NL]) ls) = join_lines ls @ [NL]"
  by (induction ls rule: join_lines.induct) auto

lemma split_join_lines: "ls \<noteq> [] \<Longrightarrow> \<forall>l\<in>set ls. NL \<notin> set l \<Longrightarrow> split_on NL (join_lines ls) = ls"
  by (induction ls rule: join_lines.induct) (auto simp: split_on_none split_on_append)

lemma join_split_lines: "join_lines (split_on NL s) = s"
proof -
  have "NL # join_lines xs = concat (map (\<lambda>p. NL # p) xs)" if "xs \<noteq> []" for xs
    using that by (induction xs rule: join_lines.induct) auto
  then show ?thesis using split_on_join [of NL s] by (metis list.inject split_on_nonempty)
qed

lemma split_on_no_sep: "l \<in> set (split_on d s) \<Longrightarrow> d \<notin> set l"
  by (induction s arbitrary: l) (auto split: list.splits if_splits)

lemma split_on_subset:
  assumes "l \<in> set (split_on d s)"
  shows "set l \<subseteq> set s"
proof -
  have "set l \<subseteq> set (concat (map (\<lambda>p. d # p) (split_on d s)))" using assms by auto
  then have "set l \<subseteq> insert d (set s)" by (simp only: split_on_join list.simps)
  then show ?thesis using split_on_no_sep [OF assms] by blast
qed

lemma find_sub_skip_line:
  "l \<noteq> [] \<Longrightarrow> NL \<notin> set l \<Longrightarrow> find_sub [NL, NL] (l @ NL # s) =
     (if s \<noteq> [] \<and> hd s = NL then Some (length l) else map_option (\<lambda>i. Suc (length l + i)) (find_sub [NL, NL] s))"
proof (induction l)
  case (Cons c cs)
  then have cn: "c \<noteq> NL" by auto
  then have c: "\<not> starts_with [NL, NL] (c # x)" for x by (simp add: starts_with_def)
  show ?case
  proof (cases "cs = []")
    case True
    then show ?thesis
      using cn by (cases s) (auto simp: starts_with_def option.map_comp comp_def)
  next
    case False
    with Cons c show ?thesis by (auto simp: option.map_comp comp_def)
  qed
qed simp

lemma find_sub_rendered:
  "ls \<noteq> [] \<Longrightarrow> \<forall>l\<in>set ls. l \<noteq> [] \<and> NL \<notin> set l \<Longrightarrow>
     find_sub [NL, NL] (join_lines ls @ NL # NL # t) = Some (length (join_lines ls))"
proof (induction ls rule: join_lines.induct)
  case (3 l l' ls)
  obtain c cs where c: "join_lines (l' # ls) = c # cs" "c \<noteq> NL"
    using 3(3) by (cases l'; cases ls) auto
  from 3 c show ?case by (simp add: find_sub_skip_line)
qed (simp_all add: find_sub_skip_line)

lemma find_sub_absent: "p ! 0 \<notin> set s \<Longrightarrow> p \<noteq> [] \<Longrightarrow>
     find_sub p (s @ t) = map_option (\<lambda>i. length s + i) (find_sub p t)"
proof (induction s)
  case (Cons c cs)
  then have "\<not> starts_with p (c # x)" for x by (cases p) (auto simp: starts_with_def)
  with Cons show ?case by (auto simp: option.map_comp comp_def)
qed (cases "find_sub p t", simp_all)

lemma boundary_rendered:
  assumes "ls \<noteq> []" "\<forall>l\<in>set ls. l \<noteq> [] \<and> NL \<notin> set l \<and> CR \<notin> set l"
  shows "find_sse_boundary (join_lines ls @ NL # NL # t) = Some (length (join_lines ls), 2)"
proof -
  have "CR \<notin> set (join_lines ls)" using assms(2) by (induction ls rule: join_lines.induct) auto
  then have "find_sub [CR, NL, CR, NL] ((join_lines ls @ [NL, NL]) @ t) =
      map_option (\<lambda>i. length (join_lines ls @ [NL, NL]) + i) (find_sub [CR, NL, CR, NL] t)"
    by (intro find_sub_absent) auto
  then show ?thesis
    using find_sub_rendered [OF assms(1), of t] assms(2)
    by (cases "find_sub [CR, NL, CR, NL] t") (simp_all add: boundary_eq)
qed

lemma from_utf8_lossy_ascii: "list_all (\<lambda>c. byte_of c < 128) s \<Longrightarrow> from_utf8_lossy s = s"
proof (induction s)
  case Nil
  then show ?case by (subst from_utf8_lossy.simps) simp
next
  case (Cons c s)
  then have "utf8_first (c # s) = (1, True)" by (simp add: utf8_first_def byte_at_def Let_def)
  with Cons show ?case by (subst from_utf8_lossy.simps) simp
qed

lemma trim_leading_space:
  assumes "s \<noteq> []" "list_all printable s"
  shows "trim (CHR '' '' # s) = s"
proof -
  have "hd s \<in> set s" "last s \<in> set s" using assms(1) by simp_all
  with assms have p: "33 \<le> byte_of (hd s)" "byte_of (hd s) < 127" "33 \<le> byte_of (last s)" "byte_of (last s) < 127"
    by (auto simp: list_all_iff printable_def)
  have "List.find (\<lambda>w. w \<noteq> [] \<and> starts_with w (CHR '' '' # s)) white_space = Some '' ''"
    by (simp add: white_space_def starts_with_def char_of_def bit_0)
  then have "trim_start_by white_space (CHR '' '' # s) = trim_start_by white_space s"
    by (subst trim_start_by.simps) simp
  then have "trim (CHR '' '' # s) = trim s" by (simp add: trim_def)
  with trim_printable_ends [OF assms(1) p] show ?thesis by simp
qed

lemma parse_line_event:
  assumes "name \<noteq> []" "list_all printable name"
  shows "parse_line ev (''event: '' @ name) = ev\<lparr>se_event := Some name\<rparr>"
proof -
  have "last name \<in> set name" using assms(1) by simp
  then have "last name \<noteq> CR" using assms(2) by (auto simp: list_all_iff printable_def CR_def byte_of_def)
  then have "trim_cr (''event: '' @ name) = ''event: '' @ name" using assms(1) by (simp add: trim_cr_def)
  moreover have "strip_prefix ''event:'' (''event: '' @ name) = Some ('' '' @ name)"
    by (simp add: strip_prefix_def)
  moreover have "from_utf8_lossy (CHR '' '' # name) = CHR '' '' # name"
    using assms(2) by (intro from_utf8_lossy_ascii) (auto simp: list_all_iff printable_def byte_of_def)
  ultimately show ?thesis using trim_leading_space [OF assms] by (simp add: parse_line_def Let_def)
qed

lemma parse_line_data:
  assumes "CR \<notin> set l"
  shows "parse_line ev (''data: '' @ l) =
    ev\<lparr>se_data := se_data ev @ (if se_data ev \<noteq> [] then [NL] else []) @ l\<rparr>"
proof -
  have "CHR '' '' \<noteq> CR" by (simp add: CR_def char_of_def)
  then have "last (''data: '' @ l) \<noteq> CR" using assms by (cases "l = []") (auto, metis last_in_set)
  then have "trim_cr (''data: '' @ l) = ''data: '' @ l" by (simp add: trim_cr_def)
  then show ?thesis by (simp add: parse_line_def Let_def strip_prefix_def trim_one_leading_space_def)
qed

lemma parse_data_lines:
  "\<forall>l\<in>set ls. CR \<notin> set l \<Longrightarrow> se_data ev \<noteq> [] \<Longrightarrow>
     foldl parse_line ev (map (\<lambda>l. ''data: '' @ l) ls) = ev\<lparr>se_data := join_lines (se_data ev # ls)\<rparr>"
proof (induction ls arbitrary: ev)
  case (Cons l ls)
  have "foldl parse_line (parse_line ev (''data: '' @ l)) (map (\<lambda>l. ''data: '' @ l) ls) =
      (parse_line ev (''data: '' @ l))\<lparr>se_data := join_lines (se_data (parse_line ev (''data: '' @ l)) # ls)\<rparr>"
    using Cons.prems by (intro Cons.IH) (simp_all add: parse_line_data del: append.simps)
  then show ?case
    using Cons.prems by (cases ls) (simp_all add: parse_line_data del: append.simps)
qed simp

lemma parse_data:
  assumes "CR \<notin> set data" "data = [] \<or> hd data \<noteq> NL" "se_data ev = []"
  shows "foldl parse_line ev (map (\<lambda>l. ''data: '' @ l) (split_on NL data)) = ev\<lparr>se_data := data\<rparr>"
proof (cases "split_on NL data")
  case (Cons l ls)
  have cr: "\<forall>l\<in>set (split_on NL data). CR \<notin> set l" using assms(1) split_on_subset by fastforce
  then have first: "parse_line ev (''data: '' @ l) = ev\<lparr>se_data := l\<rparr>"
    using Cons assms(3) by (subst parse_line_data) auto
  have data: "join_lines (l # ls) = data" using join_split_lines [of data] Cons by simp
  show ?thesis
  proof (cases "l = []")
    case True
    with data assms(2) have "ls = []" by (cases ls) auto
    then show ?thesis using Cons first data by simp
  next
    case False
    then show ?thesis
      using parse_data_lines [of ls "ev\<lparr>se_data := l\<rparr>"] Cons cr first data by simp
  qed
qed simp

lemma sse_lines_wf:
  assumes "renderable ev"
  shows "sse_lines ev \<noteq> []" and "\<forall>l\<in>set (sse_lines ev). l \<noteq> [] \<and> NL \<notin> set l \<and> CR \<notin> set l"
proof -
  have lit: "NL \<notin> set ''event: ''" "NL \<notin> set ''data: ''" "CR \<notin> set ''event: ''" "CR \<notin> set ''data: ''"
    by (simp_all add: NL_def CR_def char_of_def)
  have name: "NL \<notin> set name \<and> CR \<notin> set name" if "se_event ev = Some name" for name
    using assms that by (auto simp: renderable_def list_all_iff printable_def NL_def CR_def byte_of_def)
  have data: "NL \<notin> set l \<and> CR \<notin> set l" if "l \<in> set (split_on NL (se_data ev))" for l
    using assms split_on_no_sep [OF that] split_on_subset [OF that] by (auto simp: renderable_def)
  show "sse_lines ev \<noteq> []" by (simp add: sse_lines_def)
  show "\<forall>l\<in>set (sse_lines ev). l \<noteq> [] \<and> NL \<notin> set l \<and> CR \<notin> set l"
    using lit name data by (fastforce simp: sse_lines_def split: option.splits)
qed

lemma sse_render_block: "renderable ev \<Longrightarrow> sse_render ev = join_lines (sse_lines ev) @ [NL, NL]"
  using join_lines_terminated [OF sse_lines_wf(1)] by (simp add: sse_render_def)

lemma parse_rendered:
  assumes "renderable ev" "length (sse_render ev) \<le> n"
  shows "parse_block n (join_lines (sse_lines ev)) = Inr ev"
proof -
  let ?ev = "\<lparr>se_event = se_event ev, se_data = []\<rparr>"
  have "split_on NL (join_lines (sse_lines ev)) = sse_lines ev"
    using split_join_lines sse_lines_wf [OF assms(1)] by blast
  moreover have "foldl parse_line \<lparr>se_event = None, se_data = []\<rparr> (sse_lines ev) =
      foldl parse_line ?ev (map (\<lambda>l. ''data: '' @ l) (split_on NL (se_data ev)))"
    using assms(1) parse_line_event
    by (auto simp: sse_lines_def renderable_def split: option.splits simp del: append.simps)
  moreover have "\<dots> = ?ev\<lparr>se_data := se_data ev\<rparr>"
    using assms(1) by (intro parse_data) (auto simp: renderable_def)
  ultimately show ?thesis
    using assms(2) by (simp add: parse_block_def sse_render_block [OF assms(1)])
qed

lemma rendered_not_blank:
  assumes "renderable ev"
  shows "trim_ascii (join_lines (sse_lines ev)) \<noteq> []"
proof -
  obtain c cs where c: "join_lines (sse_lines ev) = c # cs" "c = CHR ''e'' \<or> c = CHR ''d''"
    by (cases "se_event ev"; cases "split_on NL (se_data ev)"; cases "tl (split_on NL (se_data ev))")
       (auto simp: sse_lines_def neq_Nil_conv)
  then have "\<not> is_ascii_whitespace c" by (auto simp: is_ascii_whitespace_def byte_of_def)
  with c(1) show ?thesis by (simp add: trim_ascii_def dropWhile_eq_Nil_conv)
qed

lemma sse_blocks_rendered:
  "\<forall>ev\<in>set evs. renderable ev \<Longrightarrow>
     sse_blocks (concat (map sse_render evs)) = (map (\<lambda>ev. join_lines (sse_lines ev)) evs, [])"
proof (induction evs)
  case Nil
  then show ?case by (simp add: sse_blocks_None boundary_None)
next
  case (Cons ev evs)
  then have ev: "renderable ev" by simp
  note b = boundary_rendered [OF sse_lines_wf [OF ev], of "concat (map sse_render evs)"]
  from Cons show ?case
    by (simp add: sse_render_block [OF ev] sse_blocks_Some [OF b])
qed

lemma sse_events_rendered:
  "\<forall>ev\<in>set evs. renderable ev \<and> length (sse_render ev) \<le> n \<Longrightarrow>
     sse_events n (map (\<lambda>ev. join_lines (sse_lines ev)) evs @ [[]]) = Inr evs"
  by (induction evs) (simp_all add: sse_events_Cons rendered_not_blank parse_rendered, simp add: trim_ascii_def)



end
