(* ===== verification/SseTerminal.thy ===== *)
theory SseTerminal
  imports Sse
begin

text \<open>
  The recognition of terminal events: the index loops over the event data are related to a scan of the remaining
  text, and the scan finds exactly the string-valued keys that stand outside other strings.
\<close>

section \<open>The scan on suffixes\<close>

text \<open>The raw content of a string whose opening quote has been read, and the text after its closing quote.\<close>

fun scan_string :: "string \<Rightarrow> (string \<times> string) option" where
  "scan_string [] = None"
| "scan_string (c # cs) =
     (if c = QUOTE then Some ([], cs)
      else if c = BACKSLASH then
        (case cs of [] \<Rightarrow> None
         | d # ds \<Rightarrow> map_option (\<lambda>(s, r). (c # d # s, r)) (scan_string ds))
      else map_option (\<lambda>(s, r). (c # s, r)) (scan_string cs))"

lemma quote_neq [simp]: "QUOTE \<noteq> BACKSLASH" "BACKSLASH \<noteq> QUOTE"
  by (simp_all add: QUOTE_def BACKSLASH_def char_of_def)

lemma scan_string_split: "scan_string s = Some (ct, r) \<Longrightarrow> s = ct @ QUOTE # r"
  by (induction s arbitrary: ct r rule: scan_string.induct) (auto split: if_splits list.splits)

lemma scan_string_append: "scan_string s = Some (ct, r) \<Longrightarrow> scan_string (s @ t) = Some (ct, r @ t)"
  by (induction s arbitrary: ct r rule: scan_string.induct) (auto split: if_splits list.splits)

lemma scan_string_content: "scan_string s = Some (ct, r) \<Longrightarrow> scan_string (ct @ QUOTE # t) = Some (ct, t)"
  by (induction s arbitrary: ct r rule: scan_string.induct) (auto split: if_splits list.splits)

lemma scan_string_plain:
  "QUOTE \<notin> set k \<Longrightarrow> BACKSLASH \<notin> set k \<Longrightarrow> scan_string (k @ QUOTE # t) = Some (k, t)"
  by (induction k) auto

lemma drop_nth: "i < length s \<Longrightarrow> drop i s = s ! i # drop (Suc i) s"
  by (rule Cons_nth_drop_Suc [symmetric])

lemma drop_eq_nth: "drop j e = c # d \<longleftrightarrow> j < length e \<and> e ! j = c \<and> drop (Suc j) e = d"
  by (cases "j < length e") (auto simp: drop_nth)

definition matches_from :: "string \<Rightarrow> nat \<Rightarrow> string \<Rightarrow> bool" where
  "matches_from e j ct \<longleftrightarrow> BACKSLASH \<notin> set ct \<and> j \<le> length e \<and> drop j e = ct"

lemma json_string_loop_scan:
  "json_string_loop input e i j m =
     (case scan_string (drop i input) of
        None \<Rightarrow> None
      | Some (ct, r) \<Rightarrow> Some (m \<and> matches_from e j ct, length input - length r))"
proof (induction input e i j m rule: json_string_loop.induct)
  case (1 input e i j m)
  show ?case
  proof (cases "i < length input")
    case False
    then show ?thesis by (subst json_string_loop.simps) simp
  next
    case True
    note d = drop_nth [OF True]
    consider (esc) "input ! i = BACKSLASH" | (close) "input ! i = QUOTE"
      | (plain) "input ! i \<noteq> BACKSLASH" "input ! i \<noteq> QUOTE" by blast
    then show ?thesis
    proof cases
      case esc
      show ?thesis
      proof (cases "i + 1 < length input")
        case False
        with True esc show ?thesis by (subst json_string_loop.simps) (simp add: d)
      next
        case i1: True
        then have d2: "drop (Suc i) input = input ! Suc i # drop (i + 2) input" using drop_nth [of "Suc i" input] by simp
        have "json_string_loop input e i j m = json_string_loop input e (i + 2) j False"
          using True esc i1 by (subst json_string_loop.simps) simp
        with 1(1) [OF True esc] i1 show ?thesis
          by (auto simp: d d2 esc matches_from_def split: option.split)
      qed
    next
      case close
      have "drop j e = [] \<and> j \<le> length e \<longleftrightarrow> j = length e" by auto
      with True close show ?thesis
        by (subst json_string_loop.simps) (auto simp: d matches_from_def)
    next
      case plain
      have "json_string_loop input e i j m =
          json_string_loop input e (i + 1) (j + 1) (m \<and> get_at e j = Some (input ! i))"
        using True plain by (subst json_string_loop.simps) simp
      with 1(2) [OF True plain] True plain show ?thesis
        by (auto simp: d matches_from_def get_at_def drop_eq_nth split: option.split)
    qed
  qed
qed

lemma drop_length_scan:
  assumes "scan_string (drop i s) = Some (ct, r)"
  shows "drop (length s - length r) s = r"
proof -
  have "s = take i s @ ct @ QUOTE # r"
    using scan_string_split [OF assms] append_take_drop_id [of i s] by simp
  then obtain p where "s = p @ r" by (metis append.assoc append_Cons append_Nil)
  then show ?thesis by simp
qed

lemma json_string_matches_scan:
  assumes "i < length input" "input ! i = QUOTE"
  shows "json_string_matches input i e =
     (case scan_string (drop (Suc i) input) of
        None \<Rightarrow> None
      | Some (ct, r) \<Rightarrow> Some (BACKSLASH \<notin> set ct \<and> e = ct, length input - length r))"
  using assms by (simp add: json_string_matches_def get_at_def json_string_loop_scan matches_from_def split: option.split)

lemma skip_json_ws_drop: "drop (skip_json_ws input i) input = dropWhile is_ascii_whitespace (drop i input)"
proof (induction input i rule: skip_json_ws.induct)
  case (1 input i)
  then show ?case
    by (subst skip_json_ws.simps) (cases "i < length input"; auto simp: drop_nth)
qed

lemma get_at_drop: "get_at s i = (case drop i s of [] \<Rightarrow> None | c # _ \<Rightarrow> Some c)"
  by (cases "i < length s") (simp_all add: get_at_def drop_nth)

text \<open>The string value after a key: nothing when no colon and opening quote follow.\<close>

definition value_after :: "string \<Rightarrow> (string \<times> string) option option" where
  "value_after r =
     (case dropWhile is_ascii_whitespace r of
        [] \<Rightarrow> None
      | c # t \<Rightarrow> if c \<noteq> CHR '':'' then None
          else (case dropWhile is_ascii_whitespace t of
                  [] \<Rightarrow> None
                | q # u \<Rightarrow> if q \<noteq> QUOTE then None else Some (scan_string u)))"

lemma scan_string_shorter: "scan_string s = Some (ct, r) \<Longrightarrow> length r < length s"
  by (drule scan_string_split) simp

function kv_scan :: "string \<Rightarrow> string \<Rightarrow> string \<Rightarrow> bool" where
  "kv_scan key val [] = False"
| "kv_scan key val (c # cs) =
     (if c \<noteq> QUOTE then kv_scan key val cs
      else case scan_string cs of
        None \<Rightarrow> False
      | Some (ct, r) \<Rightarrow>
          if BACKSLASH \<notin> set ct \<and> key = ct then
            (case value_after r of
               None \<Rightarrow> kv_scan key val r
             | Some None \<Rightarrow> False
             | Some (Some (vt, _)) \<Rightarrow> (BACKSLASH \<notin> set vt \<and> val = vt) \<or> kv_scan key val r)
          else kv_scan key val r)"
  by pat_completeness auto
termination
  by (relation "measure (\<lambda>(_, _, s). length s)") (auto dest!: scan_string_shorter)

lemma value_after_loop:
  assumes "drop e input = r"
  defines "colon \<equiv> skip_json_ws input e" and "vs \<equiv> skip_json_ws input (skip_json_ws input e + 1)"
  shows "value_after r =
     (if get_at input colon \<noteq> Some (CHR '':'') \<or> get_at input vs \<noteq> Some QUOTE then None
      else Some (scan_string (drop (Suc vs) input)))"
proof -
  have c: "drop colon input = dropWhile is_ascii_whitespace r"
    by (simp add: colon_def skip_json_ws_drop assms(1))
  have v: "drop vs input = dropWhile is_ascii_whitespace (drop (Suc colon) input)"
    by (simp add: vs_def colon_def skip_json_ws_drop)
  show ?thesis
  proof (cases "dropWhile is_ascii_whitespace r")
    case Nil
    then have "value_after r = None" unfolding value_after_def Nil by simp
    moreover have "get_at input colon = None" unfolding get_at_drop c Nil by simp
    ultimately show ?thesis by simp
  next
    case (Cons x t)
    with c have t: "drop (Suc colon) input = t" by (metis drop_Suc list.sel(3) drop_tl)
    show ?thesis
    proof (cases "dropWhile is_ascii_whitespace t")
      case Nil
      then have "value_after r = None" unfolding value_after_def Cons by (simp only: list.case Nil) simp
      moreover have "get_at input vs = None" unfolding get_at_drop v t Nil by simp
      ultimately show ?thesis by simp
    next
      case (Cons y u)
      with v t have "drop (Suc vs) input = u" by (metis drop_Suc list.sel(3) drop_tl)
      with Cons \<open>dropWhile is_ascii_whitespace r = x # t\<close> c v t show ?thesis
        by (simp add: value_after_def get_at_drop)
    qed
  qed
qed

lemma key_value_loop_scan: "key_value_loop input key val i = kv_scan key val (drop i input)"
proof (induction "length input - i" arbitrary: i rule: less_induct)
  case less
  show ?case
  proof (cases "i < length input \<and> input ! i = QUOTE")
    case False
    then show ?thesis using less [of "Suc i"] by (subst key_value_loop.simps) (auto simp: drop_nth)
  next
    case True
    then have d: "drop i input = QUOTE # drop (Suc i) input" by (simp add: drop_nth)
    show ?thesis
    proof (cases "scan_string (drop (Suc i) input)")
      case None
      with True d show ?thesis by (subst key_value_loop.simps) (simp add: json_string_matches_scan)
    next
      case (Some p)
      then obtain ct r where p: "scan_string (drop (Suc i) input) = Some (ct, r)" by (cases p) simp
      define e where "e = length input - length r"
      define m where "m \<longleftrightarrow> BACKSLASH \<notin> set ct \<and> key = ct"
      have jm: "json_string_matches input i key = Some (m, e)"
        using True p by (simp add: json_string_matches_scan e_def m_def)
      have r: "drop e input = r" using drop_length_scan [OF p] by (simp add: e_def)
      have IH: "key_value_loop input key val e = kv_scan key val r"
        using less [of e] json_string_matches_progress [OF jm] r by (simp add: diff_less_mono2)
      let ?vs = "skip_json_ws input (skip_json_ws input e + 1)"
      have vm: "json_string_matches input ?vs val =
          map_option (\<lambda>(vt, u). (BACKSLASH \<notin> set vt \<and> val = vt, length input - length u))
            (scan_string (drop (Suc ?vs) input))" if "get_at input ?vs = Some QUOTE"
        using that by (auto simp: get_at_def json_string_matches_scan split: if_splits option.split)
      have step: "key_value_loop input key val i =
          (if m then
             (case value_after r of
                None \<Rightarrow> key_value_loop input key val e
              | Some None \<Rightarrow> False
              | Some (Some (vt, _)) \<Rightarrow> (BACKSLASH \<notin> set vt \<and> val = vt) \<or> key_value_loop input key val e)
           else key_value_loop input key val e)"
        using True vm unfolding value_after_loop [OF r]
        by (subst key_value_loop.simps) (auto simp: Let_def jm split: option.split)
      show ?thesis using IH by (auto simp: step d p m_def split: option.split)
    qed
  qed
qed

section \<open>What the scan finds\<close>

text \<open>Text that ends outside every string it opens, and a key with a string value at the start of a text.\<close>

function outside :: "string \<Rightarrow> bool" where
  "outside [] = True"
| "outside (c # cs) =
     (if c \<noteq> QUOTE then outside cs
      else case scan_string cs of None \<Rightarrow> False | Some (ct, r) \<Rightarrow> outside r)"
  by pat_completeness auto
termination
  by (relation "measure length") (auto dest!: scan_string_shorter)

definition pair_at :: "string \<Rightarrow> string \<Rightarrow> string \<Rightarrow> bool" where
  "pair_at key val t \<longleftrightarrow> (\<exists>w1 w2 b. list_all is_ascii_whitespace w1 \<and> list_all is_ascii_whitespace w2
     \<and> t = QUOTE # key @ QUOTE # w1 @ CHR '':'' # w2 @ QUOTE # val @ QUOTE # b)"

definition plain_text :: "string \<Rightarrow> bool" where
  "plain_text s \<longleftrightarrow> QUOTE \<notin> set s \<and> BACKSLASH \<notin> set s"

lemma dropWhile_ws: "list_all P w \<Longrightarrow> \<not> P c \<Longrightarrow> dropWhile P (w @ c # t) = c # t"
  by (induction w) auto

lemma not_ws [simp]: "\<not> is_ascii_whitespace (CHR '':'')" "\<not> is_ascii_whitespace QUOTE"
  by (simp_all add: is_ascii_whitespace_def byte_of_def QUOTE_def)

lemma value_after_SomeD:
  assumes "value_after r = Some x"
  obtains w1 w2 u where "list_all is_ascii_whitespace w1" "list_all is_ascii_whitespace w2"
    "r = w1 @ CHR '':'' # w2 @ QUOTE # u" "x = scan_string u"
proof -
  obtain t where t: "dropWhile is_ascii_whitespace r = CHR '':'' # t"
    using assms by (cases "dropWhile is_ascii_whitespace r") (auto simp: value_after_def split: if_splits)
  then obtain u where u: "dropWhile is_ascii_whitespace t = QUOTE # u" "x = scan_string u"
    using assms by (cases "dropWhile is_ascii_whitespace t") (auto simp: value_after_def split: if_splits)
  have ws: "list_all is_ascii_whitespace (takeWhile is_ascii_whitespace xs)" for xs
    by (auto simp: list_all_iff dest: set_takeWhileD)
  have "r = takeWhile is_ascii_whitespace r @ CHR '':'' # takeWhile is_ascii_whitespace t @ QUOTE # u"
    using takeWhile_dropWhile_id [of is_ascii_whitespace r] takeWhile_dropWhile_id [of is_ascii_whitespace t] t u(1)
    by simp
  then show ?thesis by (rule that [OF ws ws _ u(2)])
qed

lemma foundI: "s = a @ t \<Longrightarrow> outside a \<Longrightarrow> pair_at key val t \<Longrightarrow> \<exists>a t. s = a @ t \<and> outside a \<and> pair_at key val t"
  by blast

lemma kv_scan_sound:
  "kv_scan key val s \<Longrightarrow> \<exists>a t. s = a @ t \<and> outside a \<and> pair_at key val t"
proof (induction s rule: measure_induct_rule [of length])
  case (less s)
  then obtain c cs where s: "s = c # cs" by (cases s) auto
  show ?case
  proof (cases "c = QUOTE")
    case False
    with less.prems less.IH [of cs] s obtain a t where "cs = a @ t" "outside a" "pair_at key val t" by auto
    with False show ?thesis by (intro foundI [of s "c # a" t]) (simp_all add: s)
  next
    case True
    with less.prems s obtain ct r where cr: "scan_string cs = Some (ct, r)" by (auto split: option.splits)
    have later: "\<exists>a t. s = a @ t \<and> outside a \<and> pair_at key val t" if rec: "\<exists>a t. r = a @ t \<and> outside a \<and> pair_at key val t"
    proof -
      from rec obtain a t where "r = a @ t" "outside a" "pair_at key val t" by blast
      with True scan_string_split [OF cr] scan_string_content [OF cr] show ?thesis
        by (intro foundI [of s "c # ct @ QUOTE # a" t]) (simp_all add: s)
    qed
    show ?thesis
    proof (cases "kv_scan key val r")
      case True
      with less.IH [of r] scan_string_shorter [OF cr] s show ?thesis by (intro later) simp
    next
      case False
      with less.prems s True cr obtain u where v: "value_after r = Some (Some (val, u))" "key = ct"
        by (auto split: if_splits option.splits)
      from v(1) obtain w1 w2 x where w: "list_all is_ascii_whitespace w1" "list_all is_ascii_whitespace w2"
        "r = w1 @ CHR '':'' # w2 @ QUOTE # x" "Some (val, u) = scan_string x" by (rule value_after_SomeD)
      from w(4) have "x = val @ QUOTE # u" using scan_string_split by metis
      then have "pair_at key val (c # cs)"
        using True scan_string_split [OF cr] v(2) w unfolding pair_at_def by auto
      then show ?thesis by (intro foundI [of s "[]" "c # cs"]) (simp_all add: s)
    qed
  qed
qed

lemma value_after_pair:
  "list_all is_ascii_whitespace w1 \<Longrightarrow> list_all is_ascii_whitespace w2 \<Longrightarrow>
     value_after (w1 @ CHR '':'' # w2 @ QUOTE # u) = Some (scan_string u)"
  by (simp add: value_after_def dropWhile_ws)

text \<open>A string opened by the first quote of a text that goes on with a closed string is closed.\<close>

lemma first_string_closed:
  "outside r \<Longrightarrow> scan_string t \<noteq> None \<Longrightarrow> QUOTE \<notin> set p \<Longrightarrow> r @ QUOTE # t = p @ QUOTE # u
     \<Longrightarrow> scan_string u \<noteq> None"
proof (induction p arbitrary: r)
  case Nil
  show ?case
  proof (cases r)
    case (Cons c r')
    with Nil obtain ct x where "scan_string r' = Some (ct, x)" "u = r' @ QUOTE # t"
      by (auto split: option.splits)
    with scan_string_append show ?thesis by fastforce
  qed (use Nil in auto)
next
  case (Cons x p)
  then show ?case by (cases r) (auto split: if_splits)
qed

lemma ws_no_quote: "list_all is_ascii_whitespace w \<Longrightarrow> QUOTE \<notin> set w"
  using not_ws(2) by (auto simp: list_all_iff)

lemma kv_scan_complete:
  assumes "plain_text key" "plain_text val"
  shows "outside a \<Longrightarrow> pair_at key val t \<Longrightarrow> kv_scan key val (a @ t)"
proof (induction a rule: measure_induct_rule [of length])
  case (less a)
  from less.prems(2) obtain w1 w2 b where
    w: "list_all is_ascii_whitespace w1" "list_all is_ascii_whitespace w2"
    and t: "t = QUOTE # key @ QUOTE # w1 @ CHR '':'' # w2 @ QUOTE # val @ QUOTE # b"
    by (auto simp: pair_at_def)
  have key: "scan_string (key @ QUOTE # x) = Some (key, x)" for x
    using assms(1) by (simp add: plain_text_def scan_string_plain)
  have val: "scan_string (val @ QUOTE # x) = Some (val, x)" for x
    using assms(2) by (simp add: plain_text_def scan_string_plain)
  show ?case
  proof (cases a)
    case Nil
    then show ?thesis using t key val assms value_after_pair [OF w] by (simp add: plain_text_def)
  next
    case (Cons c cs)
    show ?thesis
    proof (cases "c = QUOTE")
      case False
      with Cons less show ?thesis by simp
    next
      case True
      with Cons less.prems(1) obtain ct r where cr: "scan_string cs = Some (ct, r)" "outside r"
        by (auto split: option.splits)
      have IH: "kv_scan key val (r @ t)"
        using less.IH [of r] scan_string_shorter [OF cr(1)] cr(2) less.prems(2) Cons by simp
      have "value_after (r @ t) \<noteq> Some None"
      proof
        assume "value_after (r @ t) = Some None"
        then obtain v1 v2 u where v: "list_all is_ascii_whitespace v1" "list_all is_ascii_whitespace v2"
          "r @ t = v1 @ CHR '':'' # v2 @ QUOTE # u" "None = scan_string u" by (rule value_after_SomeD)
        have "QUOTE \<noteq> CHR '':''" by (simp add: QUOTE_def char_of_def)
        then have "QUOTE \<notin> set (v1 @ CHR '':'' # v2)" using ws_no_quote v(1,2) by simp
        with first_string_closed [OF cr(2), of _ "v1 @ CHR '':'' # v2" u] v(3,4) t key show False by auto
      qed
      with scan_string_append [OF cr(1)] Cons True IH show ?thesis by (auto split: option.split)
    qed
  qed
qed

text \<open>The byte scan of event data recognises exactly what it should: it terminates on every input and succeeds
  exactly when the text has, outside every string literal, the key as a string followed by a colon and the
  value as a string, with optional white space. Occurrences inside other strings never count.\<close>

theorem json_key_match_exact:
  assumes "plain_text key" "plain_text val"
  shows "json_key_string_value_eq input key val \<longleftrightarrow>
    (\<exists>a t. input = a @ t \<and> outside a \<and> pair_at key val t)"
  unfolding json_key_string_value_eq_def key_value_loop_scan
  using kv_scan_sound [of key val input] kv_scan_complete [OF assms] by auto

theorem json_key_match_exact_witness:
  "json_key_string_value_eq (CHR ''{'' # QUOTE # ''type'' @ [QUOTE] @ '': '' @ [QUOTE] @ ''error'' @ [QUOTE] @ ''}'')
     ''type'' ''error''"
proof -
  have p: "plain_text ''type''" "plain_text ''error''"
    by (simp_all add: plain_text_def QUOTE_def BACKSLASH_def char_of_def)
  have "pair_at ''type'' ''error''
      (QUOTE # ''type'' @ [QUOTE] @ '': '' @ [QUOTE] @ ''error'' @ [QUOTE] @ ''}'')"
    unfolding pair_at_def
    by (rule exI [of _ "[]"], rule exI [of _ "'' ''"], rule exI [of _ "''}''"]) (simp add: is_ascii_whitespace_def byte_of_def)
  moreover have "outside ''{''" by (simp add: QUOTE_def char_of_def)
  ultimately show ?thesis
    unfolding json_key_match_exact [OF p] by (intro foundI [of _ "''{''"]) simp_all
qed

end
