(* ===== verification/ProviderErrors.thy ===== *)
theory ProviderErrors
  imports RustStr
begin

text \<open>
  Classification of provider errors (\<open>routing/src/errors.rs\<close>): what a failed attempt means for a retry on the
  same channel, for the fallback to the next one and for the health of the channel.
\<close>

section \<open>Data\<close>

datatype provider_transport_error_kind =
  PT_Timeout | PT_Connect | PT_Dns | PT_Tls | PT_ConnectionClosed | PT_Body | PT_Other

datatype provider_stream_error_kind =
  PS_InvalidSse | PS_IncompleteEvent | PS_UnexpectedEof | PS_DecodeError

datatype provider_error_kind =
    EK_Authentication | EK_RateLimited | EK_Timeout | EK_Transport | EK_ClientRequest | EK_NotFound
  | EK_ProviderServer | EK_ProviderOverloaded | EK_ProviderProtocol | EK_StreamProtocol | EK_Unknown

datatype health_impact = HI_None | HI_Degrade | HI_Cooldown | HI_MarkAuthFailed

record provider_error_signal =
  sg_status_code :: "u16 option"
  sg_transport :: "provider_transport_error_kind option"
  sg_stream :: "provider_stream_error_kind option"
  sg_retry_after_ms :: "u64 option"

definition signal_from_status :: "u16 \<Rightarrow> provider_error_signal" where
  "signal_from_status status_code =
     \<lparr>sg_status_code = Some status_code, sg_transport = None, sg_stream = None, sg_retry_after_ms = None\<rparr>"

definition signal_from_transport :: "provider_transport_error_kind \<Rightarrow> provider_error_signal" where
  "signal_from_transport transport =
     \<lparr>sg_status_code = None, sg_transport = Some transport, sg_stream = None, sg_retry_after_ms = None\<rparr>"

definition signal_from_stream :: "provider_stream_error_kind \<Rightarrow> provider_error_signal" where
  "signal_from_stream stream =
     \<lparr>sg_status_code = None, sg_transport = None, sg_stream = Some stream, sg_retry_after_ms = None\<rparr>"

record provider_error_classification =
  pc_kind :: provider_error_kind
  pc_retryable_same_channel :: bool
  pc_can_fallback :: bool
  pc_health_impact :: health_impact
  pc_status_code :: "u16 option"
  pc_retry_after_ms :: "u64 option"
  pc_reason_code :: string

datatype adapter_transport_kind = AT_Timeout | AT_Connect | AT_Body | AT_Other

record adapter_error_input =
  ae_status_code :: "u16 option"
  ae_transport :: "adapter_transport_kind option"
  ae_retry_after_ms :: "u64 option"
  ae_owner :: "string option"
  ae_stage :: "string option"
  ae_code :: "string option"

record provider_error_fallback_decision =
  fd_retry_same_channel :: bool
  fd_fallback_to_next_channel :: bool

record adapter_error_classification =
  ac_classification :: provider_error_classification
  ac_health_impact :: health_impact
  ac_fallback :: provider_error_fallback_decision

section \<open>Metadata\<close>

definition normalized_eq :: "string \<Rightarrow> string \<Rightarrow> bool" where
  "normalized_eq actual expected = eq_ignore_ascii_case actual expected"

definition normalized_contains :: "string \<Rightarrow> string \<Rightarrow> bool" where
  "normalized_contains actual needle = contains (to_ascii_lowercase needle) (to_ascii_lowercase actual)"

definition is_auth_code :: "string \<Rightarrow> bool" where
  "is_auth_code code \<longleftrightarrow> normalized_eq code ''provider_auth_failed''
     \<or> normalized_contains code ''invalid_api_key''
     \<or> normalized_contains code ''invalid_auth''
     \<or> normalized_contains code ''unauthorized''"

definition is_quota_like_code :: "string \<Rightarrow> bool" where
  "is_quota_like_code code \<longleftrightarrow> normalized_eq code ''provider_429''
     \<or> normalized_contains code ''quota''
     \<or> normalized_contains code ''rate_limit''
     \<or> normalized_contains code ''rate-limit''
     \<or> normalized_contains code ''rate_limited''
     \<or> normalized_contains code ''resource_exhausted''
     \<or> normalized_contains code ''too_many_requests''
     \<or> normalized_contains code ''limit_exceeded''"

definition quota_reason_code :: "u16 option \<Rightarrow> string \<Rightarrow> string" where
  "quota_reason_code status_code code =
     (if status_code = Some 429
       \<or> normalized_eq code ''provider_429''
       \<or> normalized_contains code ''rate_limit''
       \<or> normalized_contains code ''rate-limit''
       \<or> normalized_contains code ''rate_limited''
       \<or> normalized_contains code ''too_many_requests''
      then ''provider_rate_limited'' else ''provider_quota_exhausted'')"

definition is_client_request_metadata :: "string \<Rightarrow> string \<Rightarrow> string \<Rightarrow> bool" where
  "is_client_request_metadata owner stage code \<longleftrightarrow>
     eq_ignore_ascii_case owner ''client''
     \<or> ((eq_ignore_ascii_case stage ''request_parse'' \<or> eq_ignore_ascii_case stage ''request_validate'')
        \<and> (normalized_contains code ''invalid_request''
           \<or> normalized_contains code ''invalid_json''
           \<or> normalized_contains code ''streaming_unsupported''
           \<or> normalized_contains code ''streaming_not_implemented''))"

definition is_parser_response_metadata :: "string \<Rightarrow> string \<Rightarrow> bool" where
  "is_parser_response_metadata owner stage \<longleftrightarrow>
     eq_ignore_ascii_case owner ''parser'' \<and> eq_ignore_ascii_case stage ''response_transform''"

definition classify_adapter_error_metadata :: "adapter_error_input \<Rightarrow> provider_error_classification option" where
  "classify_adapter_error_metadata input =
     (let owner = unwrap_or [] (ae_owner input);
          stage = unwrap_or [] (ae_stage input);
          code = unwrap_or [] (ae_code input)
      in if is_quota_like_code code then
           Some \<lparr>pc_kind = EK_RateLimited, pc_retryable_same_channel = False, pc_can_fallback = True,
                 pc_health_impact = HI_Cooldown, pc_status_code = ae_status_code input,
                 pc_retry_after_ms = ae_retry_after_ms input,
                 pc_reason_code = quota_reason_code (ae_status_code input) code\<rparr>
         else if is_auth_code code then
           Some \<lparr>pc_kind = EK_Authentication, pc_retryable_same_channel = False, pc_can_fallback = True,
                 pc_health_impact = HI_MarkAuthFailed, pc_status_code = ae_status_code input,
                 pc_retry_after_ms = ae_retry_after_ms input, pc_reason_code = ''provider_auth_failed''\<rparr>
         else if is_client_request_metadata owner stage code then
           Some \<lparr>pc_kind = EK_ClientRequest, pc_retryable_same_channel = False, pc_can_fallback = False,
                 pc_health_impact = HI_None, pc_status_code = ae_status_code input,
                 pc_retry_after_ms = ae_retry_after_ms input,
                 pc_reason_code = ''adapter_rejected_client_request''\<rparr>
         else if is_parser_response_metadata owner stage then
           Some \<lparr>pc_kind = EK_ProviderProtocol, pc_retryable_same_channel = True, pc_can_fallback = True,
                 pc_health_impact = HI_Degrade, pc_status_code = ae_status_code input,
                 pc_retry_after_ms = ae_retry_after_ms input,
                 pc_reason_code =
                   (if normalized_contains code ''invalid_json'' then ''provider_response_invalid_json''
                    else if normalized_contains code ''invalid_response'' then ''provider_response_invalid''
                    else ''provider_response_parse_error'')\<rparr>
         else None)"

definition adapter_transport_from_metadata :: "adapter_error_input \<Rightarrow> adapter_transport_kind option" where
  "adapter_transport_from_metadata input =
     (let owner = unwrap_or [] (ae_owner input);
          stage = unwrap_or [] (ae_stage input);
          code = unwrap_or [] (ae_code input)
      in if \<not> eq_ignore_ascii_case owner ''network'' \<or> \<not> eq_ignore_ascii_case stage ''provider_call'' then None
         else if normalized_contains code ''timeout'' then Some AT_Timeout
         else if normalized_contains code ''connect'' then Some AT_Connect
         else if normalized_contains code ''body'' \<or> normalized_contains code ''read''
               \<or> normalized_contains code ''response'' then Some AT_Body
         else if normalized_contains code ''request'' then Some AT_Other
         else None)"

fun transport_from :: "adapter_transport_kind \<Rightarrow> provider_transport_error_kind" where
  "transport_from AT_Timeout = PT_Timeout"
| "transport_from AT_Connect = PT_Connect"
| "transport_from AT_Body = PT_Body"
| "transport_from AT_Other = PT_Other"

definition adapter_provider_error_signal :: "adapter_error_input \<Rightarrow> provider_error_signal" where
  "adapter_provider_error_signal input =
     \<lparr>sg_status_code = ae_status_code input,
      sg_transport = map_option transport_from
        (case ae_transport input of Some t \<Rightarrow> Some t | None \<Rightarrow> adapter_transport_from_metadata input),
      sg_stream = None, sg_retry_after_ms = ae_retry_after_ms input\<rparr>"

section \<open>Classification\<close>

fun stream_reason_code :: "provider_stream_error_kind \<Rightarrow> string" where
  "stream_reason_code PS_InvalidSse = ''provider_stream_invalid_sse''"
| "stream_reason_code PS_IncompleteEvent = ''provider_stream_incomplete_event''"
| "stream_reason_code PS_UnexpectedEof = ''provider_stream_unexpected_eof''"
| "stream_reason_code PS_DecodeError = ''provider_stream_decode_error''"

definition classify_stream_error ::
  "provider_error_signal \<Rightarrow> provider_stream_error_kind \<Rightarrow> provider_error_classification" where
  "classify_stream_error signal stream =
     \<lparr>pc_kind = EK_StreamProtocol, pc_retryable_same_channel = True, pc_can_fallback = True,
      pc_health_impact = HI_Degrade, pc_status_code = sg_status_code signal,
      pc_retry_after_ms = sg_retry_after_ms signal, pc_reason_code = stream_reason_code stream\<rparr>"

fun transport_kind_and_reason :: "provider_transport_error_kind \<Rightarrow> provider_error_kind \<times> string" where
  "transport_kind_and_reason PT_Timeout = (EK_Timeout, ''provider_transport_timeout'')"
| "transport_kind_and_reason PT_Connect = (EK_Transport, ''provider_transport_connect'')"
| "transport_kind_and_reason PT_Dns = (EK_Transport, ''provider_transport_dns'')"
| "transport_kind_and_reason PT_Tls = (EK_Transport, ''provider_transport_tls'')"
| "transport_kind_and_reason PT_ConnectionClosed = (EK_Transport, ''provider_transport_connection_closed'')"
| "transport_kind_and_reason PT_Body = (EK_Transport, ''provider_transport_body'')"
| "transport_kind_and_reason PT_Other = (EK_Transport, ''provider_transport_other'')"

definition classify_transport_error ::
  "provider_error_signal \<Rightarrow> provider_transport_error_kind \<Rightarrow> provider_error_classification" where
  "classify_transport_error signal transport =
     (let (kind, reason_code) = transport_kind_and_reason transport
      in \<lparr>pc_kind = kind, pc_retryable_same_channel = True, pc_can_fallback = True,
          pc_health_impact = HI_Degrade, pc_status_code = sg_status_code signal,
          pc_retry_after_ms = sg_retry_after_ms signal, pc_reason_code = reason_code\<rparr>)"

definition status_classification ::
  "provider_error_signal \<Rightarrow> u16 \<Rightarrow> provider_error_kind \<Rightarrow> bool \<Rightarrow> bool \<Rightarrow> health_impact \<Rightarrow> string
   \<Rightarrow> provider_error_classification" where
  "status_classification signal status_code kind retryable can_fallback impact reason =
     \<lparr>pc_kind = kind, pc_retryable_same_channel = retryable, pc_can_fallback = can_fallback,
      pc_health_impact = impact, pc_status_code = Some status_code,
      pc_retry_after_ms = sg_retry_after_ms signal, pc_reason_code = reason\<rparr>"

definition classify_status_code :: "provider_error_signal \<Rightarrow> u16 \<Rightarrow> provider_error_classification" where
  "classify_status_code signal status_code =
     (let classified = status_classification signal status_code in
      if status_code \<in> {401, 403} then
        classified EK_Authentication False True HI_MarkAuthFailed ''provider_auth_failed''
      else if status_code = 408 then classified EK_Timeout True True HI_Degrade ''provider_http_timeout''
      else if status_code = 429 then classified EK_RateLimited False True HI_Cooldown ''provider_rate_limited''
      else if status_code \<in> {400, 422} then
        classified EK_ClientRequest False False HI_None ''provider_rejected_client_request''
      else if status_code = 404 then
        classified EK_NotFound False True HI_None ''provider_model_or_route_not_found''
      else if status_code \<in> {502, 503, 504, 529} then
        classified EK_ProviderOverloaded True True HI_Degrade ''provider_overloaded''
      else if status_code \<in> {500, 501} \<or> (505 \<le> status_code \<and> status_code \<le> 599) then
        classified EK_ProviderServer True True HI_Degrade ''provider_server_error''
      else if status_code \<in> {402, 409, 410, 423, 424, 425, 426, 428, 431, 451} then
        classified EK_ClientRequest False False HI_None ''provider_client_error''
      else if 405 \<le> status_code \<and> status_code \<le> 499 then
        classified EK_ClientRequest False False HI_None ''provider_client_error''
      else classified EK_Unknown False True HI_Degrade ''provider_status_unknown'')"

definition classify_provider_error :: "provider_error_signal \<Rightarrow> provider_error_classification" where
  "classify_provider_error signal =
     (case sg_stream signal of
        Some stream \<Rightarrow> classify_stream_error signal stream
      | None \<Rightarrow>
          (case sg_transport signal of
             Some transport \<Rightarrow> classify_transport_error signal transport
           | None \<Rightarrow>
               (case sg_status_code signal of
                  Some status_code \<Rightarrow> classify_status_code signal status_code
                | None \<Rightarrow>
                    \<lparr>pc_kind = EK_Unknown, pc_retryable_same_channel = False, pc_can_fallback = True,
                     pc_health_impact = HI_Degrade, pc_status_code = None,
                     pc_retry_after_ms = sg_retry_after_ms signal,
                     pc_reason_code = ''provider_error_unknown''\<rparr>)))"

definition classify_adapter_provider_error :: "adapter_error_input \<Rightarrow> adapter_error_classification" where
  "classify_adapter_provider_error input =
     (let signal = adapter_provider_error_signal input;
          classification = (case classify_adapter_error_metadata input of
              Some c \<Rightarrow> c
            | None \<Rightarrow> classify_provider_error signal)
      in \<lparr>ac_classification = classification, ac_health_impact = pc_health_impact classification,
          ac_fallback = \<lparr>fd_retry_same_channel = pc_retryable_same_channel classification,
                         fd_fallback_to_next_channel = pc_can_fallback classification\<rparr>\<rparr>)"

section \<open>The contract of a classification\<close>

text \<open>The kind fixes the reaction: an error of the client is final and never held against the channel, an
  authentication failure or a rate limit moves on to another channel without a retry, and every other
  failure of the provider degrades the channel and lets the request move on.\<close>

fun reaction :: "provider_error_kind \<Rightarrow> bool \<times> bool \<times> health_impact" where
  "reaction EK_ClientRequest = (False, False, HI_None)"
| "reaction EK_NotFound = (False, True, HI_None)"
| "reaction EK_Authentication = (False, True, HI_MarkAuthFailed)"
| "reaction EK_RateLimited = (False, True, HI_Cooldown)"
| "reaction EK_Unknown = (False, True, HI_Degrade)"
| "reaction _ = (True, True, HI_Degrade)"

definition follows_reaction :: "provider_error_classification \<Rightarrow> bool" where
  "follows_reaction c \<longleftrightarrow>
     (pc_retryable_same_channel c, pc_can_fallback c, pc_health_impact c) = reaction (pc_kind c)"

lemma status_follows: "follows_reaction (classify_status_code signal status)"
  unfolding classify_status_code_def Let_def
  by (simp add: follows_reaction_def status_classification_def)

lemma provider_follows: "follows_reaction (classify_provider_error signal)"
proof (cases "sg_stream signal")
  case (Some s)
  then show ?thesis by (simp add: classify_provider_error_def classify_stream_error_def follows_reaction_def)
next
  case None
  show ?thesis
  proof (cases "sg_transport signal")
    case (Some t)
    with None show ?thesis
      by (cases t) (simp_all add: classify_provider_error_def classify_transport_error_def follows_reaction_def)
  next
    case t: None
    with None show ?thesis
      by (cases "sg_status_code signal")
         (simp_all add: classify_provider_error_def status_follows, simp add: follows_reaction_def)
  qed
qed

lemma metadata_follows: "classify_adapter_error_metadata input = Some c \<Longrightarrow> follows_reaction c"
  by (auto simp: classify_adapter_error_metadata_def Let_def follows_reaction_def split: if_splits)

lemma metadata_keeps:
  "classify_adapter_error_metadata input = Some c \<Longrightarrow>
     pc_status_code c = ae_status_code input \<and> pc_retry_after_ms c = ae_retry_after_ms input"
  by (auto simp: classify_adapter_error_metadata_def Let_def split: if_splits)

lemma status_keeps:
  "pc_status_code (classify_status_code signal status) = Some status
   \<and> pc_retry_after_ms (classify_status_code signal status) = sg_retry_after_ms signal"
  unfolding classify_status_code_def Let_def by (simp add: status_classification_def)

lemma provider_keeps:
  "pc_status_code (classify_provider_error signal) = sg_status_code signal
   \<and> pc_retry_after_ms (classify_provider_error signal) = sg_retry_after_ms signal"
  by (simp add: classify_provider_error_def classify_stream_error_def classify_transport_error_def status_keeps
      split_beta split: option.split)

text \<open>C23. Every error is classified consistently, whatever mixture of status, transport and adapter metadata it
  carries: the kind alone determines retry, fallback and health impact; the decision handed to the router
  is that of the classification; and the status and the retry delay are passed on unchanged. In
  particular only a client error stops the fallback, and a retry on the same channel always leaves the
  fallback open.\<close>

theorem error_classification_consistent:
  "let r = classify_adapter_provider_error input; c = ac_classification r in
     (fd_retry_same_channel (ac_fallback r), fd_fallback_to_next_channel (ac_fallback r), ac_health_impact r)
       = reaction (pc_kind c)
   \<and> pc_status_code c = ae_status_code input \<and> pc_retry_after_ms c = ae_retry_after_ms input
   \<and> (fd_fallback_to_next_channel (ac_fallback r) \<longleftrightarrow> pc_kind c \<noteq> EK_ClientRequest)"
proof -
  define c where "c = ac_classification (classify_adapter_provider_error input)"
  have f: "follows_reaction c"
    by (auto simp: c_def classify_adapter_provider_error_def Let_def provider_follows metadata_follows
        split: option.split)
  have k: "pc_status_code c = ae_status_code input \<and> pc_retry_after_ms c = ae_retry_after_ms input"
    by (auto simp: c_def classify_adapter_provider_error_def Let_def provider_keeps metadata_keeps
        adapter_provider_error_signal_def split: option.split)
  have d: "fd_retry_same_channel (ac_fallback (classify_adapter_provider_error input)) = pc_retryable_same_channel c"
    "fd_fallback_to_next_channel (ac_fallback (classify_adapter_provider_error input)) = pc_can_fallback c"
    "ac_health_impact (classify_adapter_provider_error input) = pc_health_impact c"
    by (simp_all add: c_def classify_adapter_provider_error_def Let_def)
  have "pc_can_fallback c \<longleftrightarrow> pc_kind c \<noteq> EK_ClientRequest"
    using f by (cases "pc_kind c") (simp_all add: follows_reaction_def)
  with f k d show ?thesis by (simp add: Let_def c_def [symmetric] follows_reaction_def)
qed

end
