(* ===== verification/Credentials.thy ===== *)
theory Credentials
  imports RustStr
begin

text \<open>
  Credentials and roles (\<open>auth/src/rbac.rs\<close>, \<open>keys.rs\<close>, \<open>sessions.rs\<close>): the permission matrix, virtual keys,
  the bearer header and session tokens. SHA-256 (\<open>sha\<close>, the lower-case hexadecimal digest) and the simple
  text form of a UUID (\<open>simple\<close>) are parameters; the random UUIDs of a generated secret are arguments.
\<close>

section \<open>Roles and permissions\<close>

datatype role_parse_error = RPE_Empty | RPE_Unsupported string

datatype permission =
    Perm_TenantAdmin | Perm_ProjectAdmin | Perm_ProviderManage | Perm_KeyManage | Perm_BillingRead
  | Perm_BillingAdjust | Perm_LogReadMetadata | Perm_LogReadPayload | Perm_AuditRead | Perm_SystemConfig

datatype access_control_error = ACE_MissingRole | ACE_PermissionDenied permission

datatype role = Role_Owner | Role_Admin | Role_Ops | Role_Billing | Role_Developer | Role_Viewer

fun role_as_str :: "role \<Rightarrow> string" where
  "role_as_str Role_Owner = ''owner''"
| "role_as_str Role_Admin = ''admin''"
| "role_as_str Role_Ops = ''ops''"
| "role_as_str Role_Billing = ''billing''"
| "role_as_str Role_Developer = ''developer''"
| "role_as_str Role_Viewer = ''viewer''"

fun permission_as_str :: "permission \<Rightarrow> string" where
  "permission_as_str Perm_TenantAdmin = ''tenant_admin''"
| "permission_as_str Perm_ProjectAdmin = ''project_admin''"
| "permission_as_str Perm_ProviderManage = ''provider_manage''"
| "permission_as_str Perm_KeyManage = ''key_manage''"
| "permission_as_str Perm_BillingRead = ''billing_read''"
| "permission_as_str Perm_BillingAdjust = ''billing_adjust''"
| "permission_as_str Perm_LogReadMetadata = ''log_read_metadata''"
| "permission_as_str Perm_LogReadPayload = ''log_read_payload''"
| "permission_as_str Perm_AuditRead = ''audit_read''"
| "permission_as_str Perm_SystemConfig = ''system_config''"

fun role_allows :: "role \<Rightarrow> permission \<Rightarrow> bool" where
  "role_allows Role_Owner p = True"
| "role_allows Role_Admin p = (p \<in> {Perm_TenantAdmin, Perm_ProjectAdmin, Perm_ProviderManage, Perm_KeyManage,
     Perm_BillingRead, Perm_LogReadMetadata, Perm_LogReadPayload, Perm_AuditRead})"
| "role_allows Role_Ops p = (p \<in> {Perm_ProviderManage, Perm_KeyManage, Perm_LogReadMetadata, Perm_AuditRead})"
| "role_allows Role_Billing p = (p \<in> {Perm_BillingRead, Perm_BillingAdjust})"
| "role_allows Role_Developer p = (p \<in> {Perm_KeyManage, Perm_LogReadMetadata})"
| "role_allows Role_Viewer p = (p \<in> {Perm_BillingRead, Perm_LogReadMetadata, Perm_AuditRead})"

definition any_role_allows :: "role list \<Rightarrow> permission \<Rightarrow> bool" where
  "any_role_allows roles p = list_ex (\<lambda>r. role_allows r p) roles"

definition require_permission :: "role list \<Rightarrow> permission \<Rightarrow> access_control_error + unit" where
  "require_permission roles p =
     (if roles = [] then Inl ACE_MissingRole
      else if any_role_allows roles p then Inr ()
      else Inl (ACE_PermissionDenied p))"

definition role_from_str :: "string \<Rightarrow> role_parse_error + role" where
  "role_from_str raw =
     (let normalized = to_ascii_lowercase (trim raw)
      in if normalized = [] then Inl RPE_Empty
         else if normalized = ''owner'' then Inr Role_Owner
         else if normalized = ''admin'' then Inr Role_Admin
         else if normalized = ''ops'' then Inr Role_Ops
         else if normalized = ''billing'' then Inr Role_Billing
         else if normalized = ''developer'' then Inr Role_Developer
         else if normalized = ''viewer'' then Inr Role_Viewer
         else Inl (RPE_Unsupported raw))"

section \<open>Virtual keys\<close>

definition VIRTUAL_KEY_SECRET_PREFIX :: string where
  "VIRTUAL_KEY_SECRET_PREFIX = ''vk_''"

definition VIRTUAL_KEY_PREFIX_LEN :: nat where
  "VIRTUAL_KEY_PREFIX_LEN = 12"

datatype virtual_key_error = VK_Empty | VK_TooShort

datatype authorization_error = AE_Missing | AE_InvalidScheme | AE_Empty | AE_TooShort

record parsed_virtual_key =
  pk_prefix :: string
  pk_secret_hash :: string

record generated_virtual_key =
  gk_secret :: string
  gk_prefix :: string
  gk_secret_hash :: string

fun authorization_error_from :: "virtual_key_error \<Rightarrow> authorization_error" where
  "authorization_error_from VK_Empty = AE_Empty"
| "authorization_error_from VK_TooShort = AE_TooShort"

definition hash_virtual_key :: "(string \<Rightarrow> string) \<Rightarrow> string \<Rightarrow> string" where
  "hash_virtual_key sha raw = sha raw"

definition key_prefix_for_secret :: "string \<Rightarrow> virtual_key_error + string" where
  "key_prefix_for_secret raw =
     (let trimmed = trim raw
      in if trimmed = [] then Inl VK_Empty
         else if chars_count trimmed < VIRTUAL_KEY_PREFIX_LEN then Inl VK_TooShort
         else Inr (chars_take VIRTUAL_KEY_PREFIX_LEN trimmed))"

definition parse_virtual_key :: "(string \<Rightarrow> string) \<Rightarrow> string \<Rightarrow> virtual_key_error + parsed_virtual_key" where
  "parse_virtual_key sha raw =
     (let trimmed = trim raw
      in if trimmed = [] then Inl VK_Empty
         else if chars_count trimmed < VIRTUAL_KEY_PREFIX_LEN then Inl VK_TooShort
         else rbind (key_prefix_for_secret trimmed)
                (\<lambda>prefix. Inr \<lparr>pk_prefix = prefix, pk_secret_hash = hash_virtual_key sha trimmed\<rparr>))"

text \<open>\<open>expect\<close> panics on an error, which is \<open>None\<close>.\<close>

definition generate_virtual_key ::
  "(string \<Rightarrow> string) \<Rightarrow> (uuid \<Rightarrow> string) \<Rightarrow> uuid \<Rightarrow> uuid \<Rightarrow> generated_virtual_key option" where
  "generate_virtual_key sha simple u1 u2 =
     (let secret = VIRTUAL_KEY_SECRET_PREFIX @ simple u1 @ simple u2
      in case parse_virtual_key sha secret of
           Inl _ \<Rightarrow> None
         | Inr parsed \<Rightarrow> Some \<lparr>gk_secret = secret, gk_prefix = pk_prefix parsed,
                               gk_secret_hash = pk_secret_hash parsed\<rparr>)"

text \<open>\<open>str::split_whitespace\<close>.\<close>

function split_whitespace_from :: "string \<Rightarrow> string \<Rightarrow> string list" where
  "split_whitespace_from cur s =
     (if s = [] then (if cur = [] then [] else [cur])
      else case List.find (\<lambda>w. w \<noteq> [] \<and> starts_with w s) white_space of
        None \<Rightarrow> split_whitespace_from (cur @ [hd s]) (tl s)
      | Some w \<Rightarrow> (if cur = [] then [] else [cur]) @ split_whitespace_from [] (drop (length w) s))"
  by auto
termination
  by (relation "measure (\<lambda>(_, s). length s)") (auto dest!: find_SomeD intro!: diff_less)

declare split_whitespace_from.simps [simp del]

definition split_whitespace :: "string \<Rightarrow> string list" where
  "split_whitespace s = split_whitespace_from [] s"

definition parse_authorization_header ::
  "(string \<Rightarrow> string) \<Rightarrow> string option \<Rightarrow> authorization_error + parsed_virtual_key" where
  "parse_authorization_header sha header =
     rbind (ok_or AE_Missing header) (\<lambda>h.
       let header = trim h
       in if header = [] then Inl AE_Empty
          else (case split_whitespace header of
                  [] \<Rightarrow> Inl AE_Empty
                | scheme # rest \<Rightarrow>
                    if \<not> eq_ignore_ascii_case scheme ''bearer'' then Inl AE_InvalidScheme
                    else (case rest of
                            [] \<Rightarrow> Inl AE_Empty
                          | token # others \<Rightarrow>
                              if others \<noteq> [] then Inl AE_InvalidScheme
                              else map_err authorization_error_from (parse_virtual_key sha token))))"

definition parse_bearer_authorization ::
  "(string \<Rightarrow> string) \<Rightarrow> string \<Rightarrow> authorization_error + parsed_virtual_key" where
  "parse_bearer_authorization sha header = parse_authorization_header sha (Some header)"

section \<open>Session tokens\<close>

definition SESSION_TOKEN_PREFIX :: string where
  "SESSION_TOKEN_PREFIX = ''sess_''"

definition SESSION_TOKEN_RANDOM_HEX_LEN :: nat where
  "SESSION_TOKEN_RANDOM_HEX_LEN = 64"

definition SESSION_TOKEN_LEN :: nat where
  "SESSION_TOKEN_LEN = length SESSION_TOKEN_PREFIX + SESSION_TOKEN_RANDOM_HEX_LEN"

definition SESSION_TOKEN_LOOKUP_PREFIX_LEN :: nat where
  "SESSION_TOKEN_LOOKUP_PREFIX_LEN = 20"

datatype session_token_error = ST_Empty | ST_InvalidPrefix | ST_InvalidLength | ST_InvalidCharacters

record generated_session_token =
  gs_token :: string
  gs_prefix :: string
  gs_token_hash :: string

record parsed_session_token =
  ps_prefix :: string
  ps_token_hash :: string

definition validate_session_token :: "string \<Rightarrow> session_token_error + string" where
  "validate_session_token raw =
     (let token = trim raw
      in if token = [] then Inl ST_Empty
         else if \<not> starts_with SESSION_TOKEN_PREFIX token then Inl ST_InvalidPrefix
         else if length token \<noteq> SESSION_TOKEN_LEN then Inl ST_InvalidLength
         else if \<not> list_all is_ascii_hexdigit (drop (length SESSION_TOKEN_PREFIX) token)
         then Inl ST_InvalidCharacters
         else Inr token)"

definition hash_session_token :: "(string \<Rightarrow> string) \<Rightarrow> string \<Rightarrow> session_token_error + string" where
  "hash_session_token sha raw = rbind (validate_session_token raw) (\<lambda>token. Inr (sha token))"

definition session_token_lookup_prefix :: "string \<Rightarrow> session_token_error + string" where
  "session_token_lookup_prefix raw =
     rbind (validate_session_token raw) (\<lambda>token. Inr (chars_take SESSION_TOKEN_LOOKUP_PREFIX_LEN token))"

definition parse_session_token :: "(string \<Rightarrow> string) \<Rightarrow> string \<Rightarrow> session_token_error + parsed_session_token" where
  "parse_session_token sha raw =
     rbind (session_token_lookup_prefix raw) (\<lambda>prefix.
     rbind (hash_session_token sha raw) (\<lambda>token_hash.
       Inr \<lparr>ps_prefix = prefix, ps_token_hash = token_hash\<rparr>))"

definition generate_session_token ::
  "(string \<Rightarrow> string) \<Rightarrow> (uuid \<Rightarrow> string) \<Rightarrow> uuid \<Rightarrow> uuid \<Rightarrow> generated_session_token option" where
  "generate_session_token sha simple u1 u2 =
     (let token = SESSION_TOKEN_PREFIX @ simple u1 @ simple u2
      in case parse_session_token sha token of
           Inl _ \<Rightarrow> None
         | Inr parsed \<Rightarrow> Some \<lparr>gs_token = token, gs_prefix = ps_prefix parsed,
                               gs_token_hash = ps_token_hash parsed\<rparr>)"

section \<open>Issued credentials\<close>

definition uuid_simple :: "(uuid \<Rightarrow> string) \<Rightarrow> bool" where
  "uuid_simple simple \<longleftrightarrow> (\<forall>u. length (simple u) = 32 \<and> list_all is_ascii_hexdigit (simple u))"

definition graphic :: "string \<Rightarrow> bool" where
  "graphic s \<longleftrightarrow> list_all (\<lambda>c. 33 \<le> byte_of c \<and> byte_of c < 127) s"

lemma graphic_hex: "list_all is_ascii_hexdigit s \<Longrightarrow> graphic s"
  by (auto simp: graphic_def list_all_iff is_ascii_hexdigit_def is_ascii_digit_def)

lemma graphic_append [simp]: "graphic (s @ t) \<longleftrightarrow> graphic s \<and> graphic t"
  by (simp add: graphic_def)

lemma graphic_trim: "graphic s \<Longrightarrow> s \<noteq> [] \<Longrightarrow> trim s = s"
  using trim_printable_ends [of s] hd_in_set [of s] last_in_set [of s] by (auto simp: graphic_def list_all_iff)

lemma graphic_chars_count: "graphic s \<Longrightarrow> chars_count s = length s"
proof -
  assume "graphic s"
  then have "filter is_char_start s = s"
    by (intro filter_True) (auto simp: graphic_def list_all_iff is_char_start_def)
  then show ?thesis by (simp add: chars_count_def)
qed

lemma graphic_chars_take: "graphic s \<Longrightarrow> chars_take n s = take n s"
  by (induction n s rule: chars_take.induct) (auto simp: graphic_def is_char_start_def split: nat.split)

lemma no_space_at_graphic:
  assumes "33 \<le> byte_of c" "byte_of c < 127"
  shows "List.find (\<lambda>w. w \<noteq> [] \<and> starts_with w (c # s)) white_space = None"
  using assms white_space_not_printable starts_with_hd [of _ "c # s"] by (fastforce simp: find_None_iff)

lemma split_whitespace_graphic:
  "graphic p \<Longrightarrow> split_whitespace_from cur (p @ s) = split_whitespace_from (cur @ p) s"
proof (induction p arbitrary: cur)
  case (Cons c p)
  then have "split_whitespace_from cur (c # (p @ s)) = split_whitespace_from (cur @ [c]) (p @ s)"
    by (subst split_whitespace_from.simps) (simp add: no_space_at_graphic graphic_def)
  with Cons show ?case by (simp add: graphic_def)
qed simp

lemma split_whitespace_space:
  "split_whitespace_from cur (CHR '' '' # s) = (if cur = [] then [] else [cur]) @ split_whitespace_from [] s"
proof -
  have "List.find (\<lambda>w. w \<noteq> [] \<and> starts_with w (CHR '' '' # s)) white_space = Some '' ''"
    by (simp add: white_space_def starts_with_def char_of_def bit_0)
  then show ?thesis by (subst split_whitespace_from.simps) simp
qed

lemma split_whitespace_two:
  assumes "graphic a" "graphic b" "a \<noteq> []" "b \<noteq> []"
  shows "split_whitespace (a @ CHR '' '' # b) = [a, b]"
proof -
  have "split_whitespace_from [] (b @ []) = split_whitespace_from b []"
    using split_whitespace_graphic [OF assms(2), of "[]" "[]"] by simp
  also have "\<dots> = [b]" using assms(4) by (subst split_whitespace_from.simps) simp
  finally show ?thesis
    using assms(3) split_whitespace_graphic [OF assms(1), of "[]" "CHR '' '' # b"]
    by (simp add: split_whitespace_def split_whitespace_space)
qed

lemma byte_of_lower: "byte_of (ascii_lower c) = (if is_ascii_uppercase c then byte_of c + 32 else byte_of c)"
  by (simp add: ascii_lower_def byte_of_def is_ascii_uppercase_def)

lemma graphic_lower: "graphic (to_ascii_lowercase s) \<Longrightarrow> graphic s"
  by (induction s) (auto simp: graphic_def to_ascii_lowercase_def byte_of_lower is_ascii_uppercase_def split: if_splits)

lemma graphic_scheme: "eq_ignore_ascii_case s ''bearer'' \<Longrightarrow> graphic s \<and> s \<noteq> []"
proof -
  assume eq: "eq_ignore_ascii_case s ''bearer''"
  have "to_ascii_lowercase ''bearer'' = ''bearer''"
    by (simp add: to_ascii_lowercase_def ascii_lower_def is_ascii_uppercase_def byte_of_def)
  then have "to_ascii_lowercase s = ''bearer''" using eq by (simp add: eq_ignore_ascii_case_def)
  moreover have "graphic ''bearer''" by (simp add: graphic_def byte_of_def)
  ultimately show ?thesis using graphic_lower [of s] by (auto simp: to_ascii_lowercase_def)
qed

lemma parse_graphic_key:
  assumes "graphic s" "12 \<le> length s"
  shows "parse_virtual_key sha s = Inr \<lparr>pk_prefix = take 12 s, pk_secret_hash = sha s\<rparr>"
proof -
  have "s \<noteq> []" using assms(2) by auto
  then show ?thesis
    using assms graphic_trim [OF assms(1)]
    by (simp add: parse_virtual_key_def key_prefix_for_secret_def Let_def VIRTUAL_KEY_PREFIX_LEN_def
        graphic_chars_count graphic_chars_take hash_virtual_key_def)
qed

lemma bearer_header_parses:
  assumes "eq_ignore_ascii_case scheme ''bearer''" "graphic s" "12 \<le> length s"
  shows "parse_authorization_header sha (Some (scheme @ CHR '' '' # s)) =
     Inr \<lparr>pk_prefix = take 12 s, pk_secret_hash = sha s\<rparr>"
proof -
  have s: "graphic scheme" "scheme \<noteq> []" "s \<noteq> []" using graphic_scheme [OF assms(1)] assms(3) by auto
  have "hd scheme \<in> set scheme" "last s \<in> set s" using s by simp_all
  then have "trim (scheme @ CHR '' '' # s) = scheme @ CHR '' '' # s"
    using s assms(2) by (intro trim_printable_ends) (auto simp: graphic_def list_all_iff)
  with assms s show ?thesis
    by (simp add: parse_authorization_header_def Let_def split_whitespace_two parse_graphic_key)
qed

lemma session_token_parses:
  assumes "list_all is_ascii_hexdigit h" "length h = 64"
  shows "parse_session_token sha (''sess_'' @ h) =
     Inr \<lparr>ps_prefix = take 20 (''sess_'' @ h), ps_token_hash = sha (''sess_'' @ h)\<rparr>"
proof -
  have g: "graphic (''sess_'' @ h)" using graphic_hex [OF assms(1)] by (simp add: graphic_def byte_of_def)
  then have "trim (''sess_'' @ h) = ''sess_'' @ h" by (intro graphic_trim) auto
  then have "validate_session_token (''sess_'' @ h) = Inr (''sess_'' @ h)"
    using assms by (simp add: validate_session_token_def Let_def SESSION_TOKEN_PREFIX_def SESSION_TOKEN_LEN_def
        SESSION_TOKEN_RANDOM_HEX_LEN_def starts_with_def)
  then show ?thesis
    using graphic_chars_take [OF g, of 20]
    by (simp add: parse_session_token_def session_token_lookup_prefix_def hash_session_token_def
        SESSION_TOKEN_LOOKUP_PREFIX_LEN_def)
qed

text \<open>C25. What is issued authenticates. Generation never panics; the secret of a generated virtual key, sent as a
  bearer header with the scheme in any letter case, yields exactly the stored prefix and hash; and a generated
  session token parses to its stored lookup prefix and hash. The stored prefixes are the first 12 and 20
  characters, so the rest of a secret is only kept as its hash.\<close>

theorem issued_credentials_authenticate:
  assumes "uuid_simple simple" "eq_ignore_ascii_case scheme ''bearer''"
  shows "\<exists>k t. generate_virtual_key sha simple u1 u2 = Some k
    \<and> parse_authorization_header sha (Some (scheme @ '' '' @ gk_secret k)) =
        Inr \<lparr>pk_prefix = gk_prefix k, pk_secret_hash = gk_secret_hash k\<rparr>
    \<and> gk_prefix k = take 12 (gk_secret k) \<and> gk_secret_hash k = sha (gk_secret k)
    \<and> generate_session_token sha simple u1 u2 = Some t
    \<and> parse_session_token sha (gs_token t) = Inr \<lparr>ps_prefix = gs_prefix t, ps_token_hash = gs_token_hash t\<rparr>
    \<and> gs_prefix t = take 20 (gs_token t) \<and> gs_token_hash t = sha (gs_token t)"
proof -
  let ?h = "simple u1 @ simple u2"
  have hex: "list_all is_ascii_hexdigit ?h" "length ?h = 64" using assms(1) by (simp_all add: uuid_simple_def)
  have g: "graphic (''vk_'' @ ?h)" using graphic_hex [OF hex(1)] by (simp add: graphic_def byte_of_def)
  have l: "12 \<le> length (''vk_'' @ ?h)" using hex(2) by simp
  have k: "generate_virtual_key sha simple u1 u2 =
      Some \<lparr>gk_secret = ''vk_'' @ ?h, gk_prefix = take 12 (''vk_'' @ ?h), gk_secret_hash = sha (''vk_'' @ ?h)\<rparr>"
    unfolding generate_virtual_key_def VIRTUAL_KEY_SECRET_PREFIX_def Let_def parse_graphic_key [OF g l] by simp
  have t: "generate_session_token sha simple u1 u2 =
      Some \<lparr>gs_token = ''sess_'' @ ?h, gs_prefix = take 20 (''sess_'' @ ?h), gs_token_hash = sha (''sess_'' @ ?h)\<rparr>"
    unfolding generate_session_token_def SESSION_TOKEN_PREFIX_def Let_def session_token_parses [OF hex] by simp
  show ?thesis
    unfolding k t using bearer_header_parses [OF assms(2) g l, of sha] session_token_parses [OF hex, of sha] by simp
qed

theorem issued_credentials_authenticate_witness:
  "\<exists>k. generate_virtual_key id (\<lambda>u. replicate 32 (CHR ''a'')) 1 2 = Some k
     \<and> parse_authorization_header id (Some (''BEARER'' @ '' '' @ gk_secret k)) =
         Inr \<lparr>pk_prefix = gk_prefix k, pk_secret_hash = gk_secret_hash k\<rparr>"
proof -
  have "uuid_simple (\<lambda>u. replicate 32 (CHR ''a''))"
    by (simp add: uuid_simple_def list_all_iff is_ascii_hexdigit_def byte_of_def)
  moreover have "eq_ignore_ascii_case ''BEARER'' ''bearer''" by code_simp
  ultimately show ?thesis using issued_credentials_authenticate [of "\<lambda>u. replicate 32 (CHR ''a'')" "''BEARER''" id 1 2]
    by blast
qed

end
