(* ===== verification/RustParse.thy ===== *)
theory RustParse
  imports RustStr
begin

text \<open>
  More of the \<open>str\<close> API, used by the header, path and protocol readers: splitting at the first or last separator,
  suffixes, \<open>find_map\<close>, \<open>trim_matches\<close>, and \<open>str::parse\<close> at the integer types with their ranges.
\<close>

unbundle bit_operations_syntax

definition strip_suffix :: "string \<Rightarrow> string \<Rightarrow> string option" where
  "strip_suffix p s = map_option rev (strip_prefix (rev p) (rev s))"

definition trim_matches :: "char \<Rightarrow> string \<Rightarrow> string" where
  "trim_matches c s = rev (dropWhile (\<lambda>d. d = c) (rev (dropWhile (\<lambda>d. d = c) s)))"

fun split_once :: "char \<Rightarrow> string \<Rightarrow> (string \<times> string) option" where
  "split_once d [] = None"
| "split_once d (c # cs) =
     (if c = d then Some ([], cs) else map_option (\<lambda>(a, b). (c # a, b)) (split_once d cs))"

definition rsplit_once :: "char \<Rightarrow> string \<Rightarrow> (string \<times> string) option" where
  "rsplit_once d s = map_option (\<lambda>(a, b). (rev b, rev a)) (split_once d (rev s))"

fun find_map :: "('a \<Rightarrow> 'b option) \<Rightarrow> 'a list \<Rightarrow> 'b option" where
  "find_map f [] = None"
| "find_map f (x # xs) = (case f x of Some y \<Rightarrow> Some y | None \<Rightarrow> find_map f xs)"

text \<open>\<open>parse\<close> at a signed type: an optional sign and at least one digit; at an unsigned type only a plus sign is
  accepted. Out of range is an error.\<close>

definition parse_signed :: "nat \<Rightarrow> string \<Rightarrow> int option" where
  "parse_signed bits s =
     (let (neg, ds) = (case s of [] \<Rightarrow> (False, [])
                       | c # t \<Rightarrow> if c = CHR ''-'' then (True, t)
                                  else if c = CHR ''+'' then (False, t) else (False, s));
          v = (if neg then - int (digits_val ds) else int (digits_val ds))
      in if ds = [] \<or> \<not> list_all is_ascii_digit ds then None
         else if - (2 ^ (bits - 1)) \<le> v \<and> v < 2 ^ (bits - 1) then Some v else None)"

definition parse_unsigned :: "nat \<Rightarrow> string \<Rightarrow> nat option" where
  "parse_unsigned bits s =
     (let ds = (case s of [] \<Rightarrow> [] | c # t \<Rightarrow> if c = CHR ''+'' then t else s)
      in if ds = [] \<or> \<not> list_all is_ascii_digit ds then None
         else if digits_val ds < 2 ^ bits then Some (digits_val ds) else None)"

text \<open>The exclusive or of two bytes.\<close>

text \<open>Lower-case hexadecimal, written out as a loop in several modules.\<close>

definition hex_encode :: "string \<Rightarrow> string" where
  "hex_encode bytes =
     concat (map (\<lambda>b. [''0123456789abcdef'' ! (byte_of b div 16), ''0123456789abcdef'' ! (byte_of b mod 16)]) bytes)"

definition xor_byte :: "char \<Rightarrow> char \<Rightarrow> char" where
  "xor_byte a b = char_of (byte_of a XOR byte_of b)"

section \<open>Lemmas\<close>

lemma strip_suffix_eq_Some: "strip_suffix p s = Some t \<longleftrightarrow> s = t @ p"
proof -
  have "strip_suffix p s = Some t \<longleftrightarrow> strip_prefix (rev p) (rev s) = Some (rev t)"
    by (auto simp: strip_suffix_def)
  also have "\<dots> \<longleftrightarrow> rev s = rev p @ rev t" by (rule strip_prefix_eq_Some)
  also have "\<dots> \<longleftrightarrow> s = t @ p" by (metis rev_append rev_rev_ident)
  finally show ?thesis .
qed

lemma starts_with_iff: "starts_with p s \<longleftrightarrow> (\<exists>t. s = p @ t)"
  by (metis append_eq_conv_conj append_take_drop_id starts_with_def)

lemma ends_with_iff: "ends_with p s \<longleftrightarrow> (\<exists>t. s = t @ p)"
proof -
  have "ends_with p s \<longleftrightarrow> starts_with (rev p) (rev s)" by (simp add: ends_with_def starts_with_def)
  also have "\<dots> \<longleftrightarrow> (\<exists>t. rev s = rev p @ t)" by (rule starts_with_iff)
  also have "\<dots> \<longleftrightarrow> (\<exists>t. s = t @ p)" by (metis rev_append rev_rev_ident)
  finally show ?thesis .
qed

lemma starts_with_append [simp]: "starts_with p (p @ t)"
  by (auto simp: starts_with_iff)

lemma ends_with_append [simp]: "ends_with p (t @ p)"
  by (auto simp: ends_with_iff)

lemma starts_with_Nil [simp]: "starts_with [] s"
  by (simp add: starts_with_def)

lemma starts_with_Cons [simp]:
  "starts_with (c # p) (d # s) \<longleftrightarrow> c = d \<and> starts_with p s" "\<not> starts_with (c # p) []"
  by (auto simp: starts_with_def)

lemma split_once_append: "d \<notin> set a \<Longrightarrow> split_once d (a @ d # b) = Some (a, b)"
  by (induction a) auto

lemma split_once_SomeD: "split_once d s = Some (a, b) \<Longrightarrow> s = a @ d # b \<and> d \<notin> set a"
proof (induction s arbitrary: a)
  case (Cons c s)
  then show ?case by (cases "c = d") auto
qed simp

lemma split_once_eq_None: "split_once d s = None \<longleftrightarrow> d \<notin> set s"
  by (induction s) auto

lemma show_nat_hd_digit: "is_ascii_digit (hd (show_nat n))"
  using show_nat_digits [of n] by (cases "show_nat n") auto

lemma parse_signed_digits:
  assumes "s \<noteq> []" "list_all is_ascii_digit s"
  shows "parse_signed bits s = (if int (digits_val s) < 2 ^ (bits - 1) then Some (int (digits_val s)) else None)"
proof -
  obtain c t where s: "s = c # t" using assms(1) by (cases s) auto
  with assms(2) digit_not_sign [of c] have "c \<noteq> CHR ''-''" "c \<noteq> CHR ''+''" by auto
  moreover have "- (2 ^ (bits - 1)) \<le> int (digits_val s)"
    using order_trans [of "- (2 ^ (bits - 1))" 0 "int (digits_val s)"] by simp
  ultimately show ?thesis using assms s by (simp add: parse_signed_def)
qed

lemma parse_signed_show_nat:
  "int n < 2 ^ (bits - 1) \<Longrightarrow> parse_signed bits (show_nat n) = Some (int n)"
  by (simp add: parse_signed_digits show_nat_digits)

lemma parse_signed_show_int:
  assumes "- (2 ^ (bits - 1)) \<le> i" "i < 2 ^ (bits - 1)"
  shows "parse_signed bits (show_int i) = Some i"
proof (cases "i < 0")
  case True
  then show ?thesis
    using assms show_nat_digits [of "nat (- i)"] by (simp add: show_int_def parse_signed_def)
next
  case False
  then show ?thesis using assms parse_signed_show_nat [of "nat i" bits] by (simp add: show_int_def)
qed

lemma parse_unsigned_digits:
  assumes "s \<noteq> []" "list_all is_ascii_digit s"
  shows "parse_unsigned bits s = (if digits_val s < 2 ^ bits then Some (digits_val s) else None)"
proof -
  obtain c t where s: "s = c # t" using assms(1) by (cases s) auto
  with assms(2) digit_not_sign [of c] have "c \<noteq> CHR ''+''" by auto
  with assms s show ?thesis by (simp add: parse_unsigned_def)
qed

lemma parse_unsigned_show_nat: "n < 2 ^ bits \<Longrightarrow> parse_unsigned bits (show_nat n) = Some n"
  by (simp add: parse_unsigned_digits show_nat_digits)

lemma xor_eq_zero_nat: "a XOR b = 0 \<longleftrightarrow> a = (b :: nat)"
  by (auto simp: bit_eq_iff bit_xor_iff)

lemma xor_byte_zero_iff: "byte_of (xor_byte a b) = 0 \<longleftrightarrow> a = b"
proof -
  have "take_bit 8 (byte_of a XOR byte_of b) = take_bit 8 (byte_of a) XOR take_bit 8 (byte_of b)"
    by (rule take_bit_xor)
  also have "\<dots> = byte_of a XOR byte_of b"
    by (simp add: byte_of_def take_bit_eq_mod)
  finally have "byte_of (xor_byte a b) = byte_of a XOR byte_of b"
    by (simp add: xor_byte_def byte_of_def take_bit_eq_mod)
  then show ?thesis by (simp add: xor_eq_zero_nat byte_of_def)
qed

end
