(* ===== verification/RedisProtocol.thy ===== *)
theory RedisProtocol
  imports RustParse RustUtf8
begin

text \<open>
  The Redis wire protocol of the login limiter (\<open>apps/control-plane/src/auth_login_rate_limit.rs\<close>): commands
  are written as arrays of bulk strings, and a response is read from the bytes of the connection. The reader works on
  the bytes that have arrived before the connection ends; a read past the end is the error \<open>Unavailable\<close>. An array is
  read by a loop that calls the reader, so that arrays nest to any depth; the option type of the reader stands for a
  run that does not end.
\<close>

datatype redis_rate_limit_error = RE_Unavailable | RE_InvalidResponse

datatype redis_response =
  RR_Simple string | RR_Error | RR_Integer int | RR_Bulk "string option" | RR_Array "redis_response list"

definition redis_host_port :: "string \<Rightarrow> string" where
  "redis_host_port addr =
     (let v1 = trim addr;
          v2 = unwrap_or v1 (strip_prefix ''redis://'' v1);
          v3 = (case rsplit_once (CHR ''@'') v2 of Some (_, after_userinfo) \<Rightarrow> after_userinfo | None \<Rightarrow> v2);
          v4 = (case split_once (CHR ''/'') v3 of Some (host_port, _) \<Rightarrow> host_port | None \<Rightarrow> v3)
      in if CHR '':'' \<in> set v4 then v4 else v4 @ '':6379'')"

definition encode_redis_command :: "string list \<Rightarrow> string" where
  "encode_redis_command parts =
     ''*'' @ show_nat (length parts) @ [CR, NL]
     @ concat (map (\<lambda>part. ''$'' @ show_nat (length part) @ [CR, NL] @ part @ [CR, NL]) parts)"

text \<open>\<open>read_line\<close> takes the bytes up to and with the next line feed, or all of them.\<close>

definition read_redis_line :: "string \<Rightarrow> redis_rate_limit_error + string \<times> string" where
  "read_redis_line s =
     (let body = takeWhile (\<lambda>c. c \<noteq> NL) s;
          line = take (length body + 1) s;
          rest = drop (length body + 1) s
      in if \<not> valid_utf8 line then Inl RE_Unavailable
         else if \<not> ends_with [CR, NL] line then Inl RE_InvalidResponse
         else Inr (take (length line - 2) line, rest))"

text \<open>One response that is not an array, or the length of the array that follows.\<close>

definition read_redis_head :: "string \<Rightarrow> redis_rate_limit_error + (redis_response + nat) \<times> string" where
  "read_redis_head s =
     (case s of
        [] \<Rightarrow> Inl RE_Unavailable
      | c # after_prefix \<Rightarrow>
          if c = CHR ''+'' then
            rbind (read_redis_line after_prefix) (\<lambda>(line, rest). Inr (Inl (RR_Simple line), rest))
          else if c = CHR ''-'' then
            rbind (read_redis_line after_prefix) (\<lambda>(line, rest). Inr (Inl RR_Error, rest))
          else if c = CHR '':'' then
            rbind (read_redis_line after_prefix) (\<lambda>(line, rest).
            rbind (ok_or RE_InvalidResponse (parse_signed 64 line)) (\<lambda>i. Inr (Inl (RR_Integer i), rest)))
          else if c = CHR ''$'' then
            rbind (read_redis_line after_prefix) (\<lambda>(line, rest).
            rbind (ok_or RE_InvalidResponse (parse_signed 64 line)) (\<lambda>len.
            if len < 0 then Inr (Inl (RR_Bulk None), rest)
            else if length rest < nat len + 2 then Inl RE_Unavailable
            else let body = take (nat len + 2) rest
                 in if \<not> ends_with [CR, NL] body then Inl RE_InvalidResponse
                    else Inr (Inl (RR_Bulk (Some (take (nat len) body))), drop (nat len + 2) rest)))
          else if c = CHR ''*'' then
            rbind (read_redis_line after_prefix) (\<lambda>(line, rest).
            rbind (ok_or RE_InvalidResponse (parse_signed 64 line)) (\<lambda>len.
            if len < 0 then Inr (Inl (RR_Array []), rest) else Inr (Inr (nat len), rest)))
          else Inl RE_InvalidResponse)"

partial_function (option) read_redis_items ::
  "nat \<Rightarrow> string \<Rightarrow> (redis_rate_limit_error + redis_response list \<times> string) option" where
  "read_redis_items n s =
     (if n = 0 then Some (Inr ([], s))
      else case read_redis_head s of
        Inl e \<Rightarrow> Some (Inl e)
      | Inr (Inl r, rest) \<Rightarrow>
          Option.bind (read_redis_items (n - 1) rest) (\<lambda>more.
          Some (map_ok (\<lambda>(rs, rest'). (r # rs, rest')) more))
      | Inr (Inr len, rest) \<Rightarrow>
          Option.bind (read_redis_items len rest) (\<lambda>inner.
          case inner of
            Inl e \<Rightarrow> Some (Inl e)
          | Inr (items, rest') \<Rightarrow>
              Option.bind (read_redis_items (n - 1) rest') (\<lambda>more.
              Some (map_ok (\<lambda>(rs, rest''). (RR_Array items # rs, rest'')) more))))"

definition read_redis_response :: "string \<Rightarrow> (redis_rate_limit_error + redis_response \<times> string) option" where
  "read_redis_response s = map_option (map_ok (\<lambda>(rs, rest). (hd rs, rest))) (read_redis_items 1 s)"

definition redis_integer :: "redis_response \<Rightarrow> redis_rate_limit_error + int" where
  "redis_integer response = (case response of RR_Integer v \<Rightarrow> Inr v | _ \<Rightarrow> Inl RE_InvalidResponse)"

section \<open>The reader ends\<close>

lemma read_redis_line_shorter: "read_redis_line s = Inr (line, rest) \<Longrightarrow> length rest < length s"
  by (cases s) (auto simp: read_redis_line_def Let_def ends_with_def split: if_splits)

lemma read_redis_head_shorter:
  assumes "read_redis_head s = Inr (x, rest)"
  shows "length rest < length s"
proof -
  obtain c t where s: "s = c # t" using assms by (cases s) (auto simp: read_redis_head_def)
  have "length rest \<le> length t"
    using assms unfolding s
    by (auto simp: read_redis_head_def rbind_def ok_or_def Let_def split: if_splits sum.splits option.splits
        dest!: read_redis_line_shorter)
  then show ?thesis by (simp add: s)
qed

lemma read_redis_items_returns:
  "\<exists>r. read_redis_items n s = Some r \<and> (\<forall>rs rest. r = Inr (rs, rest) \<longrightarrow> length rs = n \<and> length rest + n \<le> length s)"
proof (induction "length s" arbitrary: n s rule: less_induct)
  case less
  show ?case
  proof (cases "n = 0")
    case False
    show ?thesis
    proof (cases "read_redis_head s")
      case (Inr p)
      obtain x rest where p: "p = (x, rest)" by (cases p)
      from Inr have shorter: "length rest < length s" by (auto simp: p dest: read_redis_head_shorter)
      show ?thesis
      proof (cases x)
        case (Inl r)
        from less(1) [OF shorter, of "n - 1"] obtain more where
          "read_redis_items (n - 1) rest = Some more"
          "\<And>rs rest'. more = Inr (rs, rest') \<Longrightarrow> length rs = n - 1 \<and> length rest' + (n - 1) \<le> length rest" by blast
        with Inl p \<open>read_redis_head s = Inr p\<close> False shorter show ?thesis
          by (cases more) (auto simp: read_redis_items.simps [of n s] map_ok_def)
      next
        case (Inr len)
        from less(1) [OF shorter, of len] obtain inner where inner:
          "read_redis_items len rest = Some inner"
          "\<And>rs rest'. inner = Inr (rs, rest') \<Longrightarrow> length rest' \<le> length rest" by fastforce
        show ?thesis
        proof (cases inner)
          case (Inr q)
          obtain items rest' where q: "q = (items, rest')" by (cases q)
          from inner(2) Inr q shorter have "length rest' < length s" by fastforce
          from less(1) [OF this, of "n - 1"] obtain more where
            "read_redis_items (n - 1) rest' = Some more"
            "\<And>rs r2. more = Inr (rs, r2) \<Longrightarrow> length rs = n - 1 \<and> length r2 + (n - 1) \<le> length rest'" by blast
          with \<open>x = Inr len\<close> p q Inr inner(1) \<open>read_redis_head s = Inr p\<close> False \<open>length rest' < length s\<close>
          show ?thesis by (cases more) (auto simp: read_redis_items.simps [of n s] map_ok_def)
        qed (use \<open>x = Inr len\<close> p inner(1) \<open>read_redis_head s = Inr p\<close> False
            in \<open>auto simp: read_redis_items.simps [of n s]\<close>)
      qed
    qed (use False in \<open>auto simp: read_redis_items.simps [of n s]\<close>)
  qed (simp add: read_redis_items.simps)
qed



section \<open>Framing\<close>

text \<open>The bytes a server sends for a response, and the responses it can send.\<close>

fun resp_encode :: "redis_response \<Rightarrow> string" where
  "resp_encode (RR_Simple line) = ''+'' @ line @ [CR, NL]"
| "resp_encode RR_Error = ''-ERR'' @ [CR, NL]"
| "resp_encode (RR_Integer i) = '':'' @ show_int i @ [CR, NL]"
| "resp_encode (RR_Bulk None) = ''$-1'' @ [CR, NL]"
| "resp_encode (RR_Bulk (Some body)) = ''$'' @ show_nat (length body) @ [CR, NL] @ body @ [CR, NL]"
| "resp_encode (RR_Array rs) = ''*'' @ show_nat (length rs) @ [CR, NL] @ concat (map resp_encode rs)"

definition ascii_line :: "string \<Rightarrow> bool" where
  "ascii_line l \<longleftrightarrow> list_all (\<lambda>c. byte_of c < 128 \<and> c \<noteq> NL) l"

fun resp_ok :: "redis_response \<Rightarrow> bool" where
  "resp_ok (RR_Simple line) \<longleftrightarrow> ascii_line line"
| "resp_ok RR_Error \<longleftrightarrow> True"
| "resp_ok (RR_Integer i) \<longleftrightarrow> - (2 ^ 63) \<le> i \<and> i < 2 ^ 63"
| "resp_ok (RR_Bulk None) \<longleftrightarrow> True"
| "resp_ok (RR_Bulk (Some body)) \<longleftrightarrow> length body < 2 ^ 63"
| "resp_ok (RR_Array rs) \<longleftrightarrow> length rs < 2 ^ 63 \<and> list_all resp_ok rs"

lemma line_ends_ascii: "byte_of CR = 13" "byte_of NL = 10" "CR \<noteq> NL"
  by (simp_all add: CR_def NL_def byte_of_def char_of_def bit_0)

lemma read_redis_line_encoded:
  assumes "ascii_line l"
  shows "read_redis_line (l @ CR # NL # rest) = Inr (l, rest)"
proof -
  have l: "NL \<notin> set l" using assms by (auto simp: ascii_line_def list_all_iff)
  then have "takeWhile (\<lambda>c. c \<noteq> NL) (l @ CR # NL # rest) = l @ [CR]"
    by (simp add: takeWhile_append line_ends_ascii)
  moreover have "valid_utf8 (l @ [CR, NL])"
    using assms by (intro valid_utf8_ascii) (auto simp: ascii_line_def list_all_iff line_ends_ascii)
  ultimately show ?thesis
    using ends_with_append [of "[CR, NL]" l] by (simp add: read_redis_line_def Let_def)
qed

lemma ascii_line_digits: "list_all is_ascii_digit l \<Longrightarrow> ascii_line l"
  by (auto simp: ascii_line_def list_all_iff is_ascii_digit_def line_ends_ascii)

lemma ascii_line_show_nat [simp]: "ascii_line (show_nat n)"
  by (intro ascii_line_digits show_nat_digits)

lemma ascii_line_Cons [simp]: "ascii_line (c # l) \<longleftrightarrow> byte_of c < 128 \<and> c \<noteq> NL \<and> ascii_line l" "ascii_line []"
  by (simp_all add: ascii_line_def)

lemma ascii_line_show_int [simp]: "ascii_line (show_int i)"
  by (simp add: show_int_def byte_of_def NL_def char_of_def)

lemma read_redis_head_encoded:
  "resp_ok (RR_Simple l) \<Longrightarrow> read_redis_head (resp_encode (RR_Simple l) @ rest) = Inr (Inl (RR_Simple l), rest)"
  "read_redis_head (resp_encode RR_Error @ rest) = Inr (Inl RR_Error, rest)"
  "resp_ok (RR_Integer i) \<Longrightarrow> read_redis_head (resp_encode (RR_Integer i) @ rest) = Inr (Inl (RR_Integer i), rest)"
  "resp_ok (RR_Bulk b) \<Longrightarrow> read_redis_head (resp_encode (RR_Bulk b) @ rest) = Inr (Inl (RR_Bulk b), rest)"
  "length rs < 2 ^ 63 \<Longrightarrow> read_redis_head (resp_encode (RR_Array rs) @ rest) =
     Inr (Inr (length rs), concat (map resp_encode rs) @ rest)"
proof -
  note line = read_redis_line_encoded
  show "resp_ok (RR_Simple l) \<Longrightarrow> read_redis_head (resp_encode (RR_Simple l) @ rest) = Inr (Inl (RR_Simple l), rest)"
    by (simp add: read_redis_head_def line)
  show "read_redis_head (resp_encode RR_Error @ rest) = Inr (Inl RR_Error, rest)"
    using line [of "''ERR''" rest] by (simp add: read_redis_head_def byte_of_def NL_def char_of_def)
  show "resp_ok (RR_Integer i) \<Longrightarrow> read_redis_head (resp_encode (RR_Integer i) @ rest) = Inr (Inl (RR_Integer i), rest)"
    by (simp add: read_redis_head_def line parse_signed_show_int)
  show "length rs < 2 ^ 63 \<Longrightarrow> read_redis_head (resp_encode (RR_Array rs) @ rest) =
      Inr (Inr (length rs), concat (map resp_encode rs) @ rest)"
    by (simp add: read_redis_head_def line parse_signed_show_nat)
  show "resp_ok (RR_Bulk b) \<Longrightarrow> read_redis_head (resp_encode (RR_Bulk b) @ rest) = Inr (Inl (RR_Bulk b), rest)"
  proof (cases b)
    case None
    have "parse_signed 64 ''-1'' = Some (- 1)" by code_simp
    then show ?thesis using None line [of "''-1''" rest] by (simp add: read_redis_head_def byte_of_def NL_def char_of_def)
  next
    case (Some body)
    assume "resp_ok (RR_Bulk b)"
    then show ?thesis
      using Some ends_with_append [of "[CR, NL]" body]
      by (simp add: read_redis_head_def line parse_signed_show_nat)
  qed
qed

lemma resp_encode_nonempty: "resp_encode r \<noteq> []"
  by (cases r rule: resp_encode.cases) auto

lemma read_redis_items_encoded:
  "list_all resp_ok rs \<Longrightarrow> read_redis_items (length rs) (concat (map resp_encode rs) @ rest) = Some (Inr (rs, rest))"
proof (induction "length (concat (map resp_encode rs))" arbitrary: rs rest rule: less_induct)
  case less
  show ?case
  proof (cases rs)
    case (Cons r more)
    let ?tail = "concat (map resp_encode more) @ rest"
    from less(2) Cons have ok: "resp_ok r" "list_all resp_ok more" by auto
    have tail: "read_redis_items (length more) ?tail = Some (Inr (more, rest))"
      using less(1) [of more rest] ok(2) resp_encode_nonempty [of r] by (simp add: Cons)
    show ?thesis
    proof (cases "\<exists>items. r = RR_Array items")
      case True
      then obtain items where r: "r = RR_Array items" by blast
      have "read_redis_items (length items) (concat (map resp_encode items) @ ?tail) = Some (Inr (items, ?tail))"
        using less(1) [of items ?tail] ok(1) by (simp add: Cons r)
      then show ?thesis
        using read_redis_head_encoded(5) [of items ?tail] ok(1) tail
        by (simp add: Cons r read_redis_items.simps [of "Suc (length more)"] map_ok_def)
    next
      case False
      then have "read_redis_head (resp_encode r @ ?tail) = Inr (Inl r, ?tail)"
        using ok(1) read_redis_head_encoded(1,3,4) [where rest = ?tail] read_redis_head_encoded(2) [of ?tail]
        by (cases r) blast+
      then show ?thesis
        using tail by (simp add: Cons read_redis_items.simps [of "Suc (length more)"] map_ok_def)
    qed
  qed (simp add: read_redis_items.simps)
qed

text \<open>The wire format is binary safe: a command written for any parts, whatever bytes they hold, reads back as
  exactly the array of those parts and nothing of what follows it, and so does every response a server can send.\<close>

theorem redis_framing_roundtrip:
  "(length parts < 2 ^ 63 \<longrightarrow> list_all (\<lambda>part. length part < 2 ^ 63) parts \<longrightarrow>
      read_redis_response (encode_redis_command parts @ rest)
        = Some (Inr (RR_Array (map (\<lambda>part. RR_Bulk (Some part)) parts), rest)))
   \<and> (resp_ok response \<longrightarrow> read_redis_response (resp_encode response @ rest) = Some (Inr (response, rest)))"
proof -
  have read: "read_redis_response (resp_encode r @ rest) = Some (Inr (r, rest))" if "resp_ok r" for r
    using that read_redis_items_encoded [of "[r]" rest] by (simp add: read_redis_response_def map_ok_def)
  have "encode_redis_command parts = resp_encode (RR_Array (map (\<lambda>part. RR_Bulk (Some part)) parts))"
    by (simp add: encode_redis_command_def comp_def)
  then show ?thesis
    using read [of "RR_Array (map (\<lambda>part. RR_Bulk (Some part)) parts)"] read [of response]
    by (simp add: list_all_iff)
qed

theorem redis_framing_roundtrip_witness:
  "read_redis_response (encode_redis_command [''DEL'', ''k'' @ [CR, NL] @ ''*1''])
     = Some (Inr (RR_Array [RR_Bulk (Some ''DEL''), RR_Bulk (Some (''k'' @ [CR, NL] @ ''*1''))], []))"
  using redis_framing_roundtrip [of "[''DEL'', ''k'' @ [CR, NL] @ ''*1'']" "[]"] by simp

end
