(* ===== verification/Passwords.thy ===== *)
theory Passwords
  imports RustParse
begin

text \<open>
  Admin password hashing (\<open>crates/auth/src/passwords.rs\<close>): HMAC and PBKDF2 as the source writes them out, the
  encoded form of a hash, and verification. SHA-256 and the hexadecimal codec are third-party and parameters: \<open>sha\<close>
  gives the digest bytes, \<open>enc\<close> and \<open>dec\<close> are \<open>hex::encode\<close> and \<open>hex::decode\<close>.
\<close>

definition sha256_digest :: "(string \<Rightarrow> string) \<Rightarrow> bool" where
  "sha256_digest sha \<longleftrightarrow> (\<forall>x. length (sha x) = 32)"

definition hex_codec :: "(string \<Rightarrow> string) \<Rightarrow> (string \<Rightarrow> string option) \<Rightarrow> bool" where
  "hex_codec enc dec \<longleftrightarrow> (\<forall>x. dec (enc x) = Some x \<and> list_all is_ascii_hexdigit (enc x))"

section \<open>Key derivation\<close>

definition DEFAULT_PASSWORD_HASH_ITERATIONS :: nat where
  "DEFAULT_PASSWORD_HASH_ITERATIONS = 210000"

definition MIN_PASSWORD_HASH_ITERATIONS :: nat where
  "MIN_PASSWORD_HASH_ITERATIONS = 10000"

datatype password_hash_error = PH_EmptyPassword | PH_EmptySalt | PH_IterationsTooLow nat nat

datatype password_verification_error =
    PV_InvalidFormat | PV_UnsupportedAlgorithm | PV_UnsupportedVersion | PV_InvalidIterations
  | PV_InvalidSalt | PV_InvalidDigest | PV_Hash password_hash_error

definition hmac_sha256 :: "(string \<Rightarrow> string) \<Rightarrow> string \<Rightarrow> string \<Rightarrow> string" where
  "hmac_sha256 sha key data =
     (let short_key = (if length key > 64 then sha key else key);
          normalized_key = short_key @ replicate (64 - length short_key) (CHR 0x00);
          inner_pad = map (xor_byte (CHR 0x36)) normalized_key;
          outer_pad = map (xor_byte (CHR 0x5C)) normalized_key
      in sha (outer_pad @ sha (inner_pad @ data)))"

primrec pbkdf2_loop :: "(string \<Rightarrow> string) \<Rightarrow> string \<Rightarrow> nat \<Rightarrow> string \<Rightarrow> string \<Rightarrow> string" where
  "pbkdf2_loop sha password 0 u derived = derived"
| "pbkdf2_loop sha password (Suc n) u derived =
     (let u' = hmac_sha256 sha password u in pbkdf2_loop sha password n u' (map2 xor_byte derived u'))"

definition pbkdf2_sha256 :: "(string \<Rightarrow> string) \<Rightarrow> string \<Rightarrow> string \<Rightarrow> nat \<Rightarrow> string" where
  "pbkdf2_sha256 sha password salt iterations =
     (let u = hmac_sha256 sha password (salt @ [CHR 0x00, CHR 0x00, CHR 0x00, CHR 0x01])
      in pbkdf2_loop sha password (iterations - 1) u u)"

definition derive_admin_password_digest ::
  "(string \<Rightarrow> string) \<Rightarrow> string \<Rightarrow> string \<Rightarrow> nat \<Rightarrow> password_hash_error + string" where
  "derive_admin_password_digest sha password salt iterations =
     (if password = [] then Inl PH_EmptyPassword
      else if salt = [] then Inl PH_EmptySalt
      else if iterations < MIN_PASSWORD_HASH_ITERATIONS
      then Inl (PH_IterationsTooLow MIN_PASSWORD_HASH_ITERATIONS iterations)
      else Inr (pbkdf2_sha256 sha password salt iterations))"

section \<open>Encoded hashes\<close>

definition hash_admin_password_with_salt ::
  "(string \<Rightarrow> string) \<Rightarrow> (string \<Rightarrow> string) \<Rightarrow> string \<Rightarrow> string \<Rightarrow> nat \<Rightarrow> password_hash_error + string" where
  "hash_admin_password_with_salt sha enc password salt iterations =
     rbind (derive_admin_password_digest sha password salt iterations) (\<lambda>digest.
     Inr (''pbkdf2-sha256$v1$'' @ show_nat iterations @ ''$'' @ enc salt @ ''$'' @ enc digest))"

text \<open>The salt is the bytes of two random UUIDs.\<close>

definition generate_password_salt :: "(uuid \<Rightarrow> string) \<Rightarrow> uuid \<Rightarrow> uuid \<Rightarrow> string" where
  "generate_password_salt as_bytes first second = as_bytes first @ as_bytes second"

definition hash_admin_password ::
  "(string \<Rightarrow> string) \<Rightarrow> (string \<Rightarrow> string) \<Rightarrow> (uuid \<Rightarrow> string) \<Rightarrow> uuid \<Rightarrow> uuid \<Rightarrow> string
   \<Rightarrow> password_hash_error + string" where
  "hash_admin_password sha enc as_bytes first second password =
     hash_admin_password_with_salt sha enc password (generate_password_salt as_bytes first second)
       DEFAULT_PASSWORD_HASH_ITERATIONS"

record parsed_password_hash =
  ph_iterations :: nat
  ph_salt :: string
  ph_digest :: string

definition parse_password_hash ::
  "(string \<Rightarrow> string option) \<Rightarrow> string \<Rightarrow> password_verification_error + parsed_password_hash" where
  "parse_password_hash dec encoded_hash =
     (case split_on (CHR ''$'') encoded_hash of
        [algorithm, version, iterations_part, salt_part, digest_part] \<Rightarrow>
          if algorithm \<noteq> ''pbkdf2-sha256'' then Inl PV_UnsupportedAlgorithm
          else if version \<noteq> ''v1'' then Inl PV_UnsupportedVersion
          else rbind (ok_or PV_InvalidIterations (parse_unsigned 32 iterations_part)) (\<lambda>iterations.
               rbind (ok_or PV_InvalidSalt (dec salt_part)) (\<lambda>salt.
               if salt = [] then Inl PV_InvalidSalt
               else rbind (ok_or PV_InvalidDigest (dec digest_part)) (\<lambda>digest.
               if length digest \<noteq> 32 then Inl PV_InvalidDigest
               else Inr \<lparr>ph_iterations = iterations, ph_salt = salt, ph_digest = digest\<rparr>)))
      | _ \<Rightarrow> Inl PV_InvalidFormat)"

text \<open>The comparison reads both arrays to the end.\<close>

definition constant_time_eq :: "string \<Rightarrow> string \<Rightarrow> bool" where
  "constant_time_eq left right =
     (if length left \<noteq> length right then False
      else foldl (\<lambda>diff (l, r). diff OR byte_of (xor_byte l r)) 0 (zip left right) = (0 :: nat))"

definition verify_admin_password ::
  "(string \<Rightarrow> string) \<Rightarrow> (string \<Rightarrow> string option) \<Rightarrow> string \<Rightarrow> string \<Rightarrow> password_verification_error + bool" where
  "verify_admin_password sha dec password encoded_hash =
     rbind (parse_password_hash dec encoded_hash) (\<lambda>parsed.
     rbind (map_err PV_Hash (derive_admin_password_digest sha password (ph_salt parsed) (ph_iterations parsed)))
       (\<lambda>actual. Inr (constant_time_eq actual (ph_digest parsed))))"

section \<open>Verification is exact\<close>

lemma or_fold_zero: "foldl (\<lambda>diff (l, r). diff OR f l r) d ps = (0 :: nat) \<longleftrightarrow> d = 0 \<and> (\<forall>(l, r)\<in>set ps. f l r = 0)"
proof (induction ps arbitrary: d)
  case (Cons p ps)
  have "d OR n = 0 \<longleftrightarrow> d = 0 \<and> n = 0" for n :: nat by (simp add: or_eq_0_iff)
  with Cons show ?case by (cases p) auto
qed simp

lemma constant_time_eq_iff: "constant_time_eq left right \<longleftrightarrow> left = right"
proof -
  have "left = right" if "length left = length right" "\<forall>(l, r)\<in>set (zip left right). l = r"
    using that by (induction left right rule: list_induct2) auto
  then show ?thesis
    by (auto simp: constant_time_eq_def or_fold_zero xor_byte_zero_iff in_set_zip)
qed

lemma length_hmac: "sha256_digest sha \<Longrightarrow> length (hmac_sha256 sha key data) = 32"
  by (simp add: hmac_sha256_def sha256_digest_def Let_def)

lemma length_pbkdf2_loop:
  "sha256_digest sha \<Longrightarrow> length derived = 32 \<Longrightarrow> length (pbkdf2_loop sha password n u derived) = 32"
  by (induction n arbitrary: u derived) (simp_all add: Let_def length_hmac)

lemma length_pbkdf2: "sha256_digest sha \<Longrightarrow> length (pbkdf2_sha256 sha password salt iterations) = 32"
  by (simp add: pbkdf2_sha256_def Let_def length_pbkdf2_loop length_hmac)

lemma hex_no_dollar: "list_all is_ascii_hexdigit s \<Longrightarrow> CHR ''$'' \<notin> set s"
  by (auto simp: list_all_iff is_ascii_hexdigit_def is_ascii_digit_def byte_of_def)

lemma digits_no_dollar: "CHR ''$'' \<notin> set (show_nat n)"
  using show_nat_digits [of n] by (auto simp: list_all_iff is_ascii_digit_def byte_of_def)

lemma split_encoded_hash:
  assumes "hex_codec enc dec"
  shows "split_on (CHR ''$'') (''pbkdf2-sha256$v1$'' @ show_nat n @ ''$'' @ enc salt @ ''$'' @ enc digest) =
    [''pbkdf2-sha256'', ''v1'', show_nat n, enc salt, enc digest]"
proof -
  have enc: "CHR ''$'' \<notin> set (enc x)" for x using assms hex_no_dollar by (simp add: hex_codec_def)
  let ?rest = "show_nat n @ ''$'' @ enc salt @ ''$'' @ enc digest"
  have "split_on (CHR ''$'') ?rest = [show_nat n, enc salt, enc digest]"
    using split_on_append [OF digits_no_dollar, of n "enc salt @ ''$'' @ enc digest"]
      split_on_append [OF enc, of salt "enc digest"] split_on_none [OF enc, of digest] by simp
  then show ?thesis by simp
qed

text \<open>C35. A stored password hash accepts exactly the passwords that derive the stored key: verifying a password
  against the hash of another gives true if and only if both derive the same bytes under its salt and
  iterations, the empty password is an error, and in particular the password that was hashed is accepted.\<close>

theorem password_verification_exact:
  assumes "sha256_digest sha" "hex_codec enc dec" "iterations < 2 ^ 32"
    and "hash_admin_password_with_salt sha enc password salt iterations = Inr h"
  shows "verify_admin_password sha dec candidate h =
      (if candidate = [] then Inl (PV_Hash PH_EmptyPassword)
       else Inr (pbkdf2_sha256 sha candidate salt iterations = pbkdf2_sha256 sha password salt iterations))
    \<and> verify_admin_password sha dec password h = Inr True"
proof -
  have ok: "password \<noteq> []" "salt \<noteq> []" "\<not> iterations < MIN_PASSWORD_HASH_ITERATIONS"
    and h: "h = ''pbkdf2-sha256$v1$'' @ show_nat iterations @ ''$'' @ enc salt @ ''$''
      @ enc (pbkdf2_sha256 sha password salt iterations)"
    using assms(4) by (auto simp: hash_admin_password_with_salt_def derive_admin_password_digest_def rbind_def
        split: if_splits)
  have "parse_password_hash dec h = Inr \<lparr>ph_iterations = iterations, ph_salt = salt,
      ph_digest = pbkdf2_sha256 sha password salt iterations\<rparr>"
    using assms(2) ok(2) length_pbkdf2 [OF assms(1)]
    unfolding parse_password_hash_def h split_encoded_hash [OF assms(2)]
    by (simp add: parse_unsigned_show_nat [OF assms(3)] hex_codec_def)
  then show ?thesis
    using ok by (simp add: verify_admin_password_def derive_admin_password_digest_def constant_time_eq_iff map_err_def)
qed

text \<open>A codec that satisfies the assumption.\<close>

definition hex_char :: "nat \<Rightarrow> char" where
  "hex_char n = (if n < 10 then char_of (48 + n) else char_of (87 + n))"

definition hex_val :: "char \<Rightarrow> nat" where
  "hex_val c = (if byte_of c < 97 then byte_of c - 48 else byte_of c - 87)"

definition sample_encode :: "string \<Rightarrow> string" where
  "sample_encode s = concat (map (\<lambda>c. [hex_char (byte_of c div 16), hex_char (byte_of c mod 16)]) s)"

fun sample_decode :: "string \<Rightarrow> string option" where
  "sample_decode [] = Some []"
| "sample_decode [c] = None"
| "sample_decode (c # d # s) = map_option ((#) (char_of (16 * hex_val c + hex_val d))) (sample_decode s)"

lemma hex_char_digit: "n < 16 \<Longrightarrow> is_ascii_hexdigit (hex_char n) \<and> hex_val (hex_char n) = n"
  by (auto simp: hex_char_def hex_val_def is_ascii_hexdigit_def is_ascii_digit_def byte_of_def)

lemma sample_hex_codec: "hex_codec sample_encode sample_decode"
proof -
  have "sample_decode (sample_encode s) = Some s \<and> list_all is_ascii_hexdigit (sample_encode s)" for s
  proof (induction s)
    case (Cons c s)
    have "byte_of c < 256" by (simp add: byte_of_def)
    then have n: "byte_of c div 16 < 16" "byte_of c mod 16 < 16" by auto
    have "char_of (16 * (byte_of c div 16) + byte_of c mod 16) = c" by (simp add: byte_of_def)
    with Cons hex_char_digit [OF n(1)] hex_char_digit [OF n(2)] show ?case by (simp add: sample_encode_def)
  qed (simp add: sample_encode_def)
  then show ?thesis by (simp add: hex_codec_def)
qed

theorem password_verification_exact_witness:
  "\<exists>h. hash_admin_password_with_salt (\<lambda>_. replicate 32 (CHR ''d'')) sample_encode ''secret'' ''salt'' 10000 = Inr h
     \<and> verify_admin_password (\<lambda>_. replicate 32 (CHR ''d'')) sample_decode ''secret'' h = Inr True"
proof -
  have "sha256_digest (\<lambda>_. replicate 32 (CHR ''d''))" by (simp add: sha256_digest_def)
  moreover obtain h where
    "hash_admin_password_with_salt (\<lambda>_. replicate 32 (CHR ''d'')) sample_encode ''secret'' ''salt'' 10000 = Inr h"
    by (simp add: hash_admin_password_with_salt_def derive_admin_password_digest_def MIN_PASSWORD_HASH_ITERATIONS_def)
  ultimately show ?thesis
    using password_verification_exact [OF _ sample_hex_codec, of "\<lambda>_. replicate 32 (CHR ''d'')" 10000 "''secret''" "''salt''"]
    by auto
qed

end
