(* ===== verification/LoginRateLimit.thy ===== *)
theory LoginRateLimit
  imports Ledger Credentials RedisProtocol Passwords
begin

text \<open>
  The login failure limiter (\<open>auth/src/login_rate_limit.rs\<close>), its store interface with the in-memory and the
  Redis implementation (\<open>control-plane/src/auth_login_rate_limit.rs\<close>), and the admin login handler
  (\<open>control-plane/src/auth.rs\<close>). SHA-256 (\<open>sha\<close> as lower-case hexadecimal text, \<open>digest\<close> as bytes), the
  hexadecimal decoder, the text form of a UUID and the number conversions of the Lua interpreter are parameters, and
  so are the answers of the user database, which each attempt carries.
\<close>

section \<open>The failure window\<close>

definition DEFAULT_LOGIN_FAILURE_LIMIT :: u32 where
  "DEFAULT_LOGIN_FAILURE_LIMIT = 5"

definition DEFAULT_LOGIN_FAILURE_WINDOW_SECONDS :: u64 where
  "DEFAULT_LOGIN_FAILURE_WINDOW_SECONDS = 300"

record login_policy =
  lp_max_failures :: u32
  lp_window_seconds :: u64

definition login_policy_default :: login_policy where
  "login_policy_default = \<lparr>lp_max_failures = DEFAULT_LOGIN_FAILURE_LIMIT,
     lp_window_seconds = DEFAULT_LOGIN_FAILURE_WINDOW_SECONDS\<rparr>"

definition sanitized :: "login_policy \<Rightarrow> login_policy" where
  "sanitized p = \<lparr>lp_max_failures = max (lp_max_failures p) 1, lp_window_seconds = max (lp_window_seconds p) 1\<rparr>"

record login_failure_state =
  lf_failure_count :: u32
  lf_window_started_at :: u64

record login_decision =
  ld_is_limited :: bool
  ld_retry_after_seconds :: "u64 option"
  ld_failure_count :: u32

definition active_login_failure_state ::
  "login_failure_state option \<Rightarrow> u64 \<Rightarrow> login_policy \<Rightarrow> login_failure_state option" where
  "active_login_failure_state st now policy =
     (case st of
        None \<Rightarrow> None
      | Some s \<Rightarrow>
          if word_saturating_sub now (lf_window_started_at s) \<ge> lp_window_seconds policy then None else Some s)"

definition evaluate_login_failure_rate_limit ::
  "login_failure_state option \<Rightarrow> u64 \<Rightarrow> login_policy \<Rightarrow> login_decision" where
  "evaluate_login_failure_rate_limit st now raw_policy =
     (let policy = sanitized raw_policy
      in case active_login_failure_state st now policy of
           None \<Rightarrow> \<lparr>ld_is_limited = False, ld_retry_after_seconds = None, ld_failure_count = 0\<rparr>
         | Some s \<Rightarrow>
             if lf_failure_count s \<ge> lp_max_failures policy
             then \<lparr>ld_is_limited = True,
                   ld_retry_after_seconds = Some (max (word_saturating_sub
                     (word_saturating_add (lf_window_started_at s) (lp_window_seconds policy)) now) 1),
                   ld_failure_count = lf_failure_count s\<rparr>
             else \<lparr>ld_is_limited = False, ld_retry_after_seconds = None,
                   ld_failure_count = lf_failure_count s\<rparr>)"

definition record_login_failure ::
  "login_failure_state option \<Rightarrow> u64 \<Rightarrow> login_policy \<Rightarrow> login_failure_state" where
  "record_login_failure st now raw_policy =
     (let policy = sanitized raw_policy
      in case active_login_failure_state st now policy of
           Some s \<Rightarrow> \<lparr>lf_failure_count = word_saturating_add (lf_failure_count s) 1,
                       lf_window_started_at = lf_window_started_at s\<rparr>
         | None \<Rightarrow> \<lparr>lf_failure_count = 1, lf_window_started_at = now\<rparr>)"

text \<open>\<open>u64::to_be_bytes\<close>, and the fingerprint of length-prefixed parts.\<close>

definition be_bytes8 :: "nat \<Rightarrow> string" where
  "be_bytes8 n = map (\<lambda>i. char_of (n div 256 ^ (7 - i) mod 256)) [0 ..< 8]"

definition login_rate_limit_fingerprint :: "(string \<Rightarrow> string) \<Rightarrow> string list \<Rightarrow> string" where
  "login_rate_limit_fingerprint sha parts = sha (concat (map (\<lambda>p. be_bytes8 (length p) @ p) parts))"

section \<open>Keys and stores\<close>

definition LOGIN_IDENTIFIER_MAX_CHARS :: nat where
  "LOGIN_IDENTIFIER_MAX_CHARS = 256"

record login_key =
  lk_tenant_id :: uuid
  lk_fingerprint :: string

definition normalize_login_identifier :: "string \<Rightarrow> string" where
  "normalize_login_identifier username =
     (let normalized = to_ascii_lowercase (chars_take LOGIN_IDENTIFIER_MAX_CHARS (trim username))
      in if normalized = [] then ''<empty>'' else normalized)"

definition admin_login_failure_rate_limit_key :: "(string \<Rightarrow> string) \<Rightarrow> uuid \<Rightarrow> string \<Rightarrow> login_key" where
  "admin_login_failure_rate_limit_key sha tenant_id username =
     \<lparr>lk_tenant_id = tenant_id,
      lk_fingerprint = login_rate_limit_fingerprint sha [normalize_login_identifier username]\<rparr>"

text \<open>The trait \<open>LoginFailureRateLimitStore\<close>: a value of it is the operations on a state.\<close>

record 's login_store =
  ls_check :: "'s \<Rightarrow> login_key \<Rightarrow> u64 \<Rightarrow> login_policy \<Rightarrow> 's \<times> login_decision"
  ls_record_failure :: "'s \<Rightarrow> login_key \<Rightarrow> u64 \<Rightarrow> login_policy \<Rightarrow> 's \<times> login_decision"
  ls_clear :: "'s \<Rightarrow> login_key \<Rightarrow> 's"

type_synonym login_failures = "login_key \<Rightarrow> login_failure_state option"

definition memory_check ::
  "login_failures \<Rightarrow> login_key \<Rightarrow> u64 \<Rightarrow> login_policy \<Rightarrow> login_failures \<times> login_decision" where
  "memory_check failures key now policy =
     (let decision = evaluate_login_failure_rate_limit (failures key) now policy
      in (if ld_failure_count decision = 0 then failures(key := None) else failures, decision))"

definition memory_record_failure ::
  "login_failures \<Rightarrow> login_key \<Rightarrow> u64 \<Rightarrow> login_policy \<Rightarrow> login_failures \<times> login_decision" where
  "memory_record_failure failures key now policy =
     (let state = record_login_failure (failures key) now policy
      in (failures(key := Some state), evaluate_login_failure_rate_limit (Some state) now policy))"

definition memory_clear :: "login_failures \<Rightarrow> login_key \<Rightarrow> login_failures" where
  "memory_clear failures key = failures(key := None)"

definition memory_store :: "login_failures login_store" where
  "memory_store = \<lparr>ls_check = memory_check, ls_record_failure = memory_record_failure, ls_clear = memory_clear\<rparr>"

section \<open>The Redis store\<close>

definition DEFAULT_REDIS_KEY_PREFIX :: string where
  "DEFAULT_REDIS_KEY_PREFIX = ''ai-gateway:control-plane:admin-login-failures''"

definition is_ascii_alphanumeric :: "char \<Rightarrow> bool" where
  "is_ascii_alphanumeric c \<longleftrightarrow> is_ascii_digit c \<or> is_ascii_uppercase c \<or> is_ascii_lowercase c"

text \<open>The character-wise map: a character outside the set, of one or more bytes, becomes one underscore.\<close>

definition sanitized_redis_key_prefix :: "string \<Rightarrow> string" where
  "sanitized_redis_key_prefix prefix =
     (let sanitized = take 160 (map (\<lambda>c. if is_ascii_alphanumeric c \<or> c \<in> set '':-_.'' then c else CHR ''_'')
            (filter is_char_start (trim prefix)))
      in if sanitized = [] then DEFAULT_REDIS_KEY_PREFIX else sanitized)"

definition redis_key :: "(uuid \<Rightarrow> string) \<Rightarrow> string \<Rightarrow> login_key \<Rightarrow> string" where
  "redis_key fmt prefix key =
     sanitized_redis_key_prefix prefix @ '':tenant:'' @ fmt (lk_tenant_id key) @ '':login:'' @ lk_fingerprint key"

text \<open>The two scripts on their numeric arguments, with the triple of integers they reply.\<close>

definition lua_decode :: "(string \<Rightarrow> int option) \<Rightarrow> string \<Rightarrow> (int \<times> int) option" where
  "lua_decode tonumber raw =
     (if CHR '':'' \<notin> set raw then None
      else case (tonumber (takeWhile (\<lambda>c. c \<noteq> CHR '':'') raw),
                 tonumber (tl (dropWhile (\<lambda>c. c \<noteq> CHR '':'') raw))) of
        (Some failure_count, Some window_started_at) \<Rightarrow> Some (failure_count, window_started_at)
      | _ \<Rightarrow> None)"

definition redis_check_script ::
  "(string \<Rightarrow> int option) \<Rightarrow> string option \<Rightarrow> int \<Rightarrow> int \<Rightarrow> int \<Rightarrow> string option \<times> (int \<times> int \<times> int)" where
  "redis_check_script tonumber raw now max_failures window_seconds =
     (case raw of
        None \<Rightarrow> (None, (0, 0, 0))
      | Some r \<Rightarrow>
          (case lua_decode tonumber r of
             None \<Rightarrow> (None, (0, 0, 0))
           | Some (failure_count, window_started_at) \<Rightarrow>
               if now - window_started_at \<ge> window_seconds then (None, (0, 0, 0))
               else if failure_count \<ge> max_failures
               then (raw, (1, failure_count, max (window_started_at + window_seconds - now) 1))
               else (raw, (0, failure_count, 0))))"

definition redis_record_script ::
  "(string \<Rightarrow> int option) \<Rightarrow> (int \<Rightarrow> string) \<Rightarrow> string option \<Rightarrow> int \<Rightarrow> int \<Rightarrow> int
   \<Rightarrow> string option \<times> (int \<times> int \<times> int)" where
  "redis_record_script tonumber tostring raw now max_failures window_seconds =
     (let (failure_count, window_started_at) =
            (case Option.bind raw (lua_decode tonumber) of
               Some (stored_count, stored_started_at) \<Rightarrow>
                 if now - stored_started_at < window_seconds then (stored_count + 1, stored_started_at)
                 else (1, now)
             | None \<Rightarrow> (1, now))
      in (Some (tostring failure_count @ '':'' @ tostring window_started_at),
          if failure_count \<ge> max_failures
          then (1, failure_count, max (window_started_at + window_seconds - now) 1)
          else (0, failure_count, 0)))"

definition redis_decision_from_response :: "redis_response \<Rightarrow> redis_rate_limit_error + login_decision" where
  "redis_decision_from_response response =
     (case response of
        RR_Array items \<Rightarrow>
          if length items \<noteq> 3 then Inl RE_InvalidResponse
          else rbind (redis_integer (items ! 0)) (\<lambda>first.
               rbind (redis_integer (items ! 1)) (\<lambda>failure_count.
               if failure_count < 0 \<or> failure_count \<ge> 2 ^ 32 then Inl RE_InvalidResponse
               else rbind (redis_integer (items ! 2)) (\<lambda>retry_after.
               if retry_after < 0 then Inl RE_InvalidResponse
               else Inr \<lparr>ld_is_limited = (first = 1),
                         ld_retry_after_seconds =
                           (if first = 1 then Some (max (word_of_int retry_after) 1) else None),
                         ld_failure_count = word_of_int failure_count\<rparr>)))
      | _ \<Rightarrow> Inl RE_InvalidResponse)"

text \<open>A script's table of three numbers arrives as an array of integers.\<close>

fun lua_reply :: "int \<times> int \<times> int \<Rightarrow> redis_response" where
  "lua_reply (a, b, c) = RR_Array [RR_Integer a, RR_Integer b, RR_Integer c]"

definition fail_closed_decision :: "login_policy \<Rightarrow> login_decision" where
  "fail_closed_decision raw_policy =
     (let policy = sanitized raw_policy
      in \<lparr>ld_is_limited = True, ld_retry_after_seconds = Some (max (lp_window_seconds policy) 1),
          ld_failure_count = max (lp_max_failures policy) 1\<rparr>)"

text \<open>The server is reachable or not; an unreachable one and a bad reply both close the door. The script arguments
  are decimal numerals, which a script reads with \<open>tonumber\<close>.\<close>

record redis_server =
  rd_up :: bool
  rd_values :: "string \<Rightarrow> string option"

definition redis_eval ::
  "(string \<Rightarrow> int option) \<Rightarrow> (string option \<Rightarrow> int \<Rightarrow> int \<Rightarrow> int \<Rightarrow> string option \<times> (int \<times> int \<times> int))
   \<Rightarrow> (uuid \<Rightarrow> string) \<Rightarrow> string \<Rightarrow> redis_server \<Rightarrow> login_key \<Rightarrow> u64 \<Rightarrow> login_policy
   \<Rightarrow> redis_server \<times> login_decision" where
  "redis_eval tonumber script fmt prefix s key now raw_policy =
     (if \<not> rd_up s then (s, fail_closed_decision raw_policy)
      else let policy = sanitized raw_policy;
               k = redis_key fmt prefix key
           in case (tonumber (show_nat (unat now)), tonumber (show_nat (unat (lp_max_failures policy))),
                    tonumber (show_nat (unat (lp_window_seconds policy)))) of
                (Some arg1, Some arg2, Some arg3) \<Rightarrow>
                  let (v, reply) = script (rd_values s k) arg1 arg2 arg3
                  in (s\<lparr>rd_values := (rd_values s)(k := v)\<rparr>,
                      case redis_decision_from_response (lua_reply reply) of
                        Inr decision \<Rightarrow> decision
                      | Inl _ \<Rightarrow> fail_closed_decision raw_policy)
              | _ \<Rightarrow> (s, fail_closed_decision raw_policy))"

definition redis_clear :: "(uuid \<Rightarrow> string) \<Rightarrow> string \<Rightarrow> redis_server \<Rightarrow> login_key \<Rightarrow> redis_server" where
  "redis_clear fmt prefix s key =
     (if \<not> rd_up s then s else s\<lparr>rd_values := (rd_values s)(redis_key fmt prefix key := None)\<rparr>)"

definition redis_store ::
  "(string \<Rightarrow> int option) \<Rightarrow> (int \<Rightarrow> string) \<Rightarrow> (uuid \<Rightarrow> string) \<Rightarrow> string \<Rightarrow> redis_server login_store" where
  "redis_store tonumber tostring fmt prefix =
     \<lparr>ls_check = redis_eval tonumber (redis_check_script tonumber) fmt prefix,
      ls_record_failure = redis_eval tonumber (redis_record_script tonumber tostring) fmt prefix,
      ls_clear = redis_clear fmt prefix\<rparr>"

section \<open>The login handler\<close>

definition DEFAULT_TENANT_ID :: uuid where
  "DEFAULT_TENANT_ID = 1"

record stored_admin_user =
  su_id :: uuid
  su_tenant_id :: uuid
  su_email :: string
  su_display_name :: string
  su_password_hash :: "string option"
  su_roles :: "role list"

record admin_user_response =
  ur_id :: uuid
  ur_tenant_id :: uuid
  ur_email :: string
  ur_display_name :: string
  ur_roles :: "string list"

definition user_response_from_user :: "stored_admin_user \<Rightarrow> admin_user_response" where
  "user_response_from_user u =
     \<lparr>ur_id = su_id u, ur_tenant_id = su_tenant_id u, ur_email = su_email u,
      ur_display_name = su_display_name u, ur_roles = map role_as_str (su_roles u)\<rparr>"

record created_admin_session =
  cs_id :: uuid
  cs_expires_at :: string

record login_response =
  lr_user :: admin_user_response
  lr_session :: created_admin_session
  lr_session_token_once :: string

datatype login_error =
  LE_RateLimited u64 | LE_InvalidCredentials | LE_Repository string | LE_Panic

definition login_rate_limited :: "u64 \<Rightarrow> login_error" where
  "login_rate_limited retry_after_seconds = LE_RateLimited (max retry_after_seconds 1)"

text \<open>One attempt: the request, the time, and the answers of the database and the random source
  during it.\<close>

record login_attempt =
  la_now :: u64
  la_email :: string
  la_password :: string
  la_find_user :: "string \<Rightarrow> string + stored_admin_user option"
  la_create_session :: "uuid \<Rightarrow> uuid \<Rightarrow> string \<Rightarrow> string \<Rightarrow> string + created_admin_session"
  la_uuid1 :: uuid
  la_uuid2 :: uuid

definition attempt_key :: "(string \<Rightarrow> string) \<Rightarrow> login_attempt \<Rightarrow> login_key" where
  "attempt_key sha a = admin_login_failure_rate_limit_key sha DEFAULT_TENANT_ID (trim (la_email a))"

definition record_login_failure_error ::
  "'s login_store \<Rightarrow> login_policy \<Rightarrow> 's \<Rightarrow> login_key \<Rightarrow> u64 \<Rightarrow> 's \<times> (login_error + login_response)" where
  "record_login_failure_error store policy s key now =
     (let (s', decision) = ls_record_failure store s key now policy
      in (s', Inl (if ld_is_limited decision
                   then login_rate_limited (unwrap_or 1 (ld_retry_after_seconds decision))
                   else LE_InvalidCredentials)))"

definition login ::
  "(string \<Rightarrow> string) \<Rightarrow> (string \<Rightarrow> string) \<Rightarrow> (string \<Rightarrow> string option) \<Rightarrow> (uuid \<Rightarrow> string) \<Rightarrow> 's login_store
   \<Rightarrow> login_policy \<Rightarrow> 's \<Rightarrow> login_attempt \<Rightarrow> 's \<times> (login_error + login_response)" where
  "login sha digest dec simple store policy s0 a =
     (let email = trim (la_email a);
          key = attempt_key sha a;
          now = la_now a;
          (s, decision) = ls_check store s0 key now policy
      in if ld_is_limited decision
         then (s, Inl (login_rate_limited (unwrap_or 1 (ld_retry_after_seconds decision))))
         else if email = [] \<or> la_password a = [] then record_login_failure_error store policy s key now
         else case la_find_user a email of
           Inl e \<Rightarrow> (s, Inl (LE_Repository e))
         | Inr None \<Rightarrow> record_login_failure_error store policy s key now
         | Inr (Some user) \<Rightarrow>
             (case su_password_hash user of
                None \<Rightarrow> record_login_failure_error store policy s key now
              | Some password_hash \<Rightarrow>
                  (case verify_admin_password digest dec (la_password a) password_hash of
                     Inl _ \<Rightarrow> record_login_failure_error store policy s key now
                   | Inr False \<Rightarrow> record_login_failure_error store policy s key now
                   | Inr True \<Rightarrow>
                       (case generate_session_token sha simple (la_uuid1 a) (la_uuid2 a) of
                          None \<Rightarrow> (s, Inl LE_Panic)
                        | Some generated \<Rightarrow>
                            (case la_create_session a (su_tenant_id user) (su_id user) (gs_prefix generated)
                                    (gs_token_hash generated) of
                               Inl e \<Rightarrow> (s, Inl (LE_Repository e))
                             | Inr created \<Rightarrow>
                                 (ls_clear store s key,
                                  Inr \<lparr>lr_user = user_response_from_user user, lr_session = created,
                                       lr_session_token_once = gs_token generated\<rparr>))))))"

section \<open>The contract of a store\<close>

text \<open>What the handler relies on: per key, a store answers as the failure window of that key does, and no operation
  touches another key. \<open>failures\<close> reads the window of a key, \<open>valid\<close> is the store's invariant and \<open>in_range\<close>
  the times and policies it can represent.\<close>

locale login_failure_store =
  fixes store :: "'s login_store"
    and failures :: "'s \<Rightarrow> login_failures"
    and valid :: "'s \<Rightarrow> bool"
    and in_range :: "u64 \<Rightarrow> login_policy \<Rightarrow> bool"
  assumes check_law: "valid s \<Longrightarrow> in_range now p \<Longrightarrow>
      valid (fst (ls_check store s k now p))
      \<and> snd (ls_check store s k now p) = evaluate_login_failure_rate_limit (failures s k) now p
      \<and> failures (fst (ls_check store s k now p)) =
          (if ld_failure_count (evaluate_login_failure_rate_limit (failures s k) now p) = 0
           then (failures s)(k := None) else failures s)"
    and record_law: "valid s \<Longrightarrow> in_range now p \<Longrightarrow>
      \<not> ld_is_limited (evaluate_login_failure_rate_limit (failures s k) now p) \<Longrightarrow>
      valid (fst (ls_record_failure store s k now p))
      \<and> failures (fst (ls_record_failure store s k now p)) =
          (failures s)(k := Some (record_login_failure (failures s k) now p))
      \<and> snd (ls_record_failure store s k now p) =
          evaluate_login_failure_rate_limit (Some (record_login_failure (failures s k) now p)) now p"
    and clear_law: "valid s \<Longrightarrow> valid (ls_clear store s k) \<and> failures (ls_clear store s k) = (failures s)(k := None)"

interpretation memory: login_failure_store memory_store "\<lambda>s. s" "\<lambda>_. True" "\<lambda>_ _. True"
  by unfold_locales
     (simp_all add: memory_store_def memory_check_def memory_record_failure_def memory_clear_def Let_def)

end
