(* ===== verification/LoginSafety.thy ===== *)
theory LoginSafety
  imports LoginRateLimit
begin

text \<open>
  What the login limiter guarantees: a bound on the failed guesses per login name in any stretch of time, for
  every store that keeps the store contract, and the equivalence of the Redis store with the in-memory one
  through the whole handler.
\<close>

section \<open>The window in seconds\<close>

definition window_of :: "login_policy \<Rightarrow> nat" where
  "window_of p = unat (lp_window_seconds (sanitized p))"

definition limit_of :: "login_policy \<Rightarrow> nat" where
  "limit_of p = unat (lp_max_failures (sanitized p))"

lemma one_le_unat_max: "1 \<le> unat (max w (1 :: 'a::len word))"
proof -
  have "1 \<le> max w 1" by simp
  then show ?thesis by (simp only: word_le_nat_alt unsigned_1)
qed

lemma policy_pos: "1 \<le> window_of p" "1 \<le> limit_of p"
  unfolding window_of_def limit_of_def sanitized_def login_policy.simps by (rule one_le_unat_max)+

lemma limit_bound: "limit_of p < 2 ^ 32"
  unfolding limit_of_def using unsigned_less [of "lp_max_failures (sanitized p)", where 'a = nat] by simp

lemma active_iff:
  "active_login_failure_state (Some s) now (sanitized p) =
     (if unat now - unat (lf_window_started_at s) < window_of p then Some s else None)"
  by (simp add: active_login_failure_state_def window_of_def word_le_nat_alt unat_word_saturating_sub)

lemma evaluate_None: "evaluate_login_failure_rate_limit None now p =
    \<lparr>ld_is_limited = False, ld_retry_after_seconds = None, ld_failure_count = 0\<rparr>"
  by (simp add: evaluate_login_failure_rate_limit_def active_login_failure_state_def Let_def)

lemma evaluate_limited:
  "ld_is_limited (evaluate_login_failure_rate_limit (Some s) now p) \<longleftrightarrow>
     unat now - unat (lf_window_started_at s) < window_of p \<and> limit_of p \<le> unat (lf_failure_count s)"
  by (simp add: evaluate_login_failure_rate_limit_def Let_def active_iff limit_of_def word_le_nat_alt)

lemma evaluate_count:
  "ld_failure_count (evaluate_login_failure_rate_limit (Some s) now p) =
     (if unat now - unat (lf_window_started_at s) < window_of p then lf_failure_count s else 0)"
  by (simp add: evaluate_login_failure_rate_limit_def Let_def active_iff)

lemma evaluate_zero:
  assumes "ld_failure_count (evaluate_login_failure_rate_limit st now p) = 0"
  shows "evaluate_login_failure_rate_limit st now p = evaluate_login_failure_rate_limit None now p"
proof (cases st)
  case (Some s)
  show ?thesis
  proof (cases "unat now - unat (lf_window_started_at s) < window_of p")
    case True
    then have "lf_failure_count s = 0" using assms Some by (simp add: evaluate_count)
    then have "\<not> lf_failure_count s \<ge> lp_max_failures (sanitized p)"
      using policy_pos(2) [of p] by (simp add: limit_of_def word_le_nat_alt)
    with True Some \<open>lf_failure_count s = 0\<close> show ?thesis
      unfolding evaluate_None by (simp add: evaluate_login_failure_rate_limit_def Let_def active_iff)
  next
    case False
    with Some show ?thesis
      unfolding evaluate_None by (simp add: evaluate_login_failure_rate_limit_def Let_def active_iff)
  qed
qed simp

lemma record_inactive:
  "\<not> unat now - unat (lf_window_started_at s) < window_of p \<Longrightarrow>
     record_login_failure (Some s) now p = \<lparr>lf_failure_count = 1, lf_window_started_at = now\<rparr>"
  by (simp add: record_login_failure_def Let_def active_iff)

lemma record_None: "record_login_failure None now p = \<lparr>lf_failure_count = 1, lf_window_started_at = now\<rparr>"
  by (simp add: record_login_failure_def Let_def active_login_failure_state_def)

lemma record_active:
  assumes "unat now - unat (lf_window_started_at s) < window_of p" "unat (lf_failure_count s) < limit_of p"
  shows "\<exists>c. record_login_failure (Some s) now p =
     \<lparr>lf_failure_count = c, lf_window_started_at = lf_window_started_at s\<rparr> \<and> unat c = Suc (unat (lf_failure_count s))"
  using assms limit_bound [of p]
  by (auto simp: record_login_failure_def Let_def active_iff unat_word_saturating_add)

section \<open>Failed guesses of one name\<close>

text \<open>The window of one name through a list of attempts, each with its time and whether its credentials fail; the
  result lists the times of the failures that passed the limiter.\<close>

fun guess_run :: "login_policy \<Rightarrow> login_failure_state option \<Rightarrow> (u64 \<times> bool) list \<Rightarrow> u64 list" where
  "guess_run p st [] = []"
| "guess_run p st ((t, fails) # as) =
     (let d = evaluate_login_failure_rate_limit st t p;
          st' = (if ld_failure_count d = 0 then None else st)
      in if ld_is_limited d then guess_run p st' as
         else if fails then t # guess_run p (Some (record_login_failure st' t p)) as
         else guess_run p st' as)"

lemma guess_run_None:
  "guess_run p None ((t, fails) # as) =
     (if fails then t # guess_run p (Some \<lparr>lf_failure_count = 1, lf_window_started_at = t\<rparr>) as
      else guess_run p None as)"
  by (simp add: evaluate_None record_None)

lemma guess_run_inactive:
  assumes "\<not> unat t - unat (lf_window_started_at s) < window_of p"
  shows "guess_run p (Some s) ((t, fails) # as) = guess_run p None ((t, fails) # as)"
proof -
  have "evaluate_login_failure_rate_limit (Some s) t p = evaluate_login_failure_rate_limit None t p"
    using assms by (intro evaluate_zero) (simp add: evaluate_count)
  then show ?thesis by (simp add: Let_def evaluate_None)
qed

lemma guess_run_active:
  assumes "unat t - unat (lf_window_started_at s) < window_of p" "lf_failure_count s \<noteq> 0"
  shows "guess_run p (Some s) ((t, fails) # as) =
     (if limit_of p \<le> unat (lf_failure_count s) \<or> \<not> fails then guess_run p (Some s) as
      else t # guess_run p (Some (record_login_failure (Some s) t p)) as)"
  using assms by (simp add: Let_def evaluate_count evaluate_limited)

declare guess_run.simps(2) [simp del]

definition below :: "nat \<Rightarrow> u64 list \<Rightarrow> nat" where
  "below b ts = length (filter (\<lambda>t. unat t < b) ts)"

lemma below_simps [simp]:
  "below b [] = 0" "below b (t # ts) = (if unat t < b then 1 else 0) + below b ts"
  by (simp_all add: below_def)

lemma below_mono: "b \<le> b' \<Longrightarrow> below b ts \<le> below b' ts"
  by (induction ts) auto

lemma below_zero: "\<forall>t\<in>set ts. b \<le> unat t \<Longrightarrow> below b ts = 0"
  by (induction ts) auto

lemma guess_run_times: "set (guess_run p st as) \<subseteq> set (map fst as)"
proof (induction as arbitrary: st)
  case (Cons a as)
  have "set (guess_run p st' as) \<subseteq> set (map fst (a # as))" for st' using Cons [of st'] by auto
  then show ?case by (cases a) (simp add: guess_run.simps(2) Let_def)
qed simp

definition ordered :: "nat \<Rightarrow> (u64 \<times> bool) list \<Rightarrow> bool" where
  "ordered b as \<longleftrightarrow> sorted (b # map (\<lambda>a. unat (fst a)) as)"

lemma ordered_Cons: "ordered b ((t, f) # as) \<longleftrightarrow> b \<le> unat t \<and> ordered (unat t) as"
  by (auto simp: ordered_def)

lemma ordered_weaken: "ordered b as \<Longrightarrow> b' \<le> b \<Longrightarrow> ordered b' as"
  by (auto simp: ordered_def)

lemma ordered_late: "ordered b as \<Longrightarrow> below b (guess_run p st as) = 0"
  using guess_run_times [of p st as] by (intro below_zero) (fastforce simp: ordered_def)

lemma guesses_in_window:
  "ordered (unat (lf_window_started_at s)) as \<Longrightarrow> lf_failure_count s \<noteq> 0 \<Longrightarrow>
     below (unat (lf_window_started_at s) + window_of p) (guess_run p (Some s) as)
       \<le> limit_of p - unat (lf_failure_count s)"
proof (induction as arbitrary: s)
  case (Cons a as)
  obtain t f where a: "a = (t, f)" by (cases a)
  then have o: "unat (lf_window_started_at s) \<le> unat t" "ordered (unat t) as"
    using Cons.prems(1) by (simp_all add: ordered_Cons)
  then have o': "ordered (unat (lf_window_started_at s)) as" by (blast intro: ordered_weaken)
  show ?case
  proof (cases "unat t - unat (lf_window_started_at s) < window_of p")
    case False
    then have "ordered (unat (lf_window_started_at s) + window_of p) ((t, f) # as)"
      using o by (auto simp: ordered_Cons)
    then show ?thesis using ordered_late a by simp
  next
    case True
    note act = guess_run_active [OF True Cons.prems(2)]
    show ?thesis
    proof (cases "limit_of p \<le> unat (lf_failure_count s) \<or> \<not> f")
      case True
      with act a Cons.IH [OF o' Cons.prems(2)] show ?thesis by simp
    next
      case False
      then obtain c where c: "record_login_failure (Some s) t p =
          \<lparr>lf_failure_count = c, lf_window_started_at = lf_window_started_at s\<rparr>" "unat c = Suc (unat (lf_failure_count s))"
        using record_active [OF True] by auto
      then have "c \<noteq> 0" by auto
      with Cons.IH [of "\<lparr>lf_failure_count = c, lf_window_started_at = lf_window_started_at s\<rparr>"] o' c False act a
      show ?thesis by auto
    qed
  qed
qed simp

lemma guesses_from:
  "ordered b as \<Longrightarrow> (\<And>s. st = Some s \<Longrightarrow> lf_failure_count s \<noteq> 0) \<Longrightarrow>
     below (b + window_of p) (guess_run p st as)
       \<le> limit_of p + (case st of None \<Rightarrow> 0 | Some s \<Rightarrow> limit_of p - unat (lf_failure_count s))"
proof (induction as arbitrary: st)
  case (Cons a as)
  obtain t f where a: "a = (t, f)" by (cases a)
  then have o: "b \<le> unat t" "ordered (unat t) as" "ordered b as"
    using Cons.prems(1) by (auto simp: ordered_Cons intro: ordered_weaken)
  have fresh: "below (b + window_of p) (guess_run p None ((t, f) # as)) \<le> limit_of p"
  proof (cases f)
    case True
    have "below (b + window_of p) (guess_run p (Some \<lparr>lf_failure_count = 1, lf_window_started_at = t\<rparr>) as)
        \<le> below (unat t + window_of p) (guess_run p (Some \<lparr>lf_failure_count = 1, lf_window_started_at = t\<rparr>) as)"
      using o(1) by (intro below_mono) simp
    also have "\<dots> \<le> limit_of p - 1"
      using guesses_in_window [of "\<lparr>lf_failure_count = 1, lf_window_started_at = t\<rparr>" as p] o(2) by simp
    finally show ?thesis using True policy_pos(2) [of p] by (auto simp: guess_run_None)
  next
    case False
    with Cons.IH [OF o(3), of None] show ?thesis by (simp add: guess_run_None)
  qed
  show ?case
  proof (cases st)
    case None
    with fresh a show ?thesis by simp
  next
    case (Some s)
    with Cons.prems(2) have nz: "lf_failure_count s \<noteq> 0" by simp
    show ?thesis
    proof (cases "unat t - unat (lf_window_started_at s) < window_of p")
      case False
      with fresh a Some show ?thesis by (simp add: guess_run_inactive)
    next
      case True
      note act = guess_run_active [OF True nz]
      show ?thesis
      proof (cases "limit_of p \<le> unat (lf_failure_count s) \<or> \<not> f")
        case True
        with act a Some Cons.IH [OF o(3), of "Some s"] nz show ?thesis by simp
      next
        case False
        then obtain c where c: "record_login_failure (Some s) t p =
            \<lparr>lf_failure_count = c, lf_window_started_at = lf_window_started_at s\<rparr>" "unat c = Suc (unat (lf_failure_count s))"
          using record_active [OF True] by auto
        then have "c \<noteq> 0" by auto
        with Cons.IH [OF o(3), of "Some \<lparr>lf_failure_count = c, lf_window_started_at = lf_window_started_at s\<rparr>"] c False act a Some
        show ?thesis by auto
      qed
    qed
  qed
qed (simp split: option.split)

definition within :: "nat \<Rightarrow> nat \<Rightarrow> u64 list \<Rightarrow> nat" where
  "within b w ts = length (filter (\<lambda>t. b \<le> unat t \<and> unat t < b + w) ts)"

lemma within_le_below: "within b w ts \<le> below (b + w) ts"
  unfolding within_def below_def by (induction ts) auto

text \<open>Any stretch as long as the window holds at most twice the limit.\<close>

lemma guesses_bounded:
  "sorted (map (\<lambda>a. unat (fst a)) as) \<Longrightarrow> (\<And>s. st = Some s \<Longrightarrow> lf_failure_count s \<noteq> 0) \<Longrightarrow>
     within b (window_of p) (guess_run p st as) \<le> 2 * limit_of p"
proof (induction as arbitrary: st)
  case (Cons a as)
  obtain t f where a: "a = (t, f)" by (cases a)
  show ?case
  proof (cases "b \<le> unat t")
    case True
    then have "ordered b (a # as)" using Cons.prems(1) a by (auto simp: ordered_def)
    from guesses_from [OF this, of st p] Cons.prems(2) have "below (b + window_of p) (guess_run p st (a # as)) \<le> 2 * limit_of p"
      by (auto split: option.splits)
    with within_le_below [of b "window_of p" "guess_run p st (a # as)"] show ?thesis by linarith
  next
    case False
    have IH: "within b (window_of p) (guess_run p st' as) \<le> 2 * limit_of p"
      if "\<And>s. st' = Some s \<Longrightarrow> lf_failure_count s \<noteq> 0" for st'
      using Cons.IH [OF _ that] Cons.prems(1) by simp
    have nz: "lf_failure_count (record_login_failure st' t p) \<noteq> 0" for st'
    proof -
      have "0 < unat (lf_failure_count (record_login_failure st' t p))"
        by (simp add: record_login_failure_def Let_def unat_word_saturating_add split: option.split)
      then show ?thesis by auto
    qed
    show ?thesis
      using False IH [of "Some (record_login_failure _ t p)"] IH [of st] IH [of None] nz Cons.prems(2)
      by (simp add: a guess_run.simps(2) Let_def within_def)
  qed
qed (simp add: within_def)

section \<open>The handler on a store\<close>

text \<open>Whether the credentials of an attempt are known to be right; \<open>None\<close> when the database could not tell.\<close>

definition credentials_check :: "(string \<Rightarrow> string) \<Rightarrow> (string \<Rightarrow> string option) \<Rightarrow> login_attempt \<Rightarrow> bool option" where
  "credentials_check digest dec a =
     (if trim (la_email a) = [] \<or> la_password a = [] then Some False
      else case la_find_user a (trim (la_email a)) of
        Inl _ \<Rightarrow> None
      | Inr None \<Rightarrow> Some False
      | Inr (Some u) \<Rightarrow>
          (case su_password_hash u of
             None \<Rightarrow> Some False
           | Some h \<Rightarrow> Some (verify_admin_password digest dec (la_password a) h = Inr True)))"

text \<open>The responses to a sequence of attempts, and the times of the failed guesses of one name: attempts the limiter
  let through and whose credentials were wrong.\<close>

fun login_run ::
  "(string \<Rightarrow> string) \<Rightarrow> (string \<Rightarrow> string) \<Rightarrow> (string \<Rightarrow> string option) \<Rightarrow> (uuid \<Rightarrow> string) \<Rightarrow> 's login_store \<Rightarrow> login_policy \<Rightarrow> 's \<Rightarrow> login_attempt list
   \<Rightarrow> (login_error + login_response) list" where
  "login_run sha digest dec simple store p s [] = []"
| "login_run sha digest dec simple store p s (a # as) =
     snd (login sha digest dec simple store p s a) # login_run sha digest dec simple store p (fst (login sha digest dec simple store p s a)) as"

fun failed_guesses ::
  "(string \<Rightarrow> string) \<Rightarrow> (string \<Rightarrow> string) \<Rightarrow> (string \<Rightarrow> string option) \<Rightarrow> (uuid \<Rightarrow> string) \<Rightarrow> 's login_store \<Rightarrow> login_policy \<Rightarrow> login_key \<Rightarrow> 's
   \<Rightarrow> login_attempt list \<Rightarrow> u64 list" where
  "failed_guesses sha digest dec simple store p k s [] = []"
| "failed_guesses sha digest dec simple store p k s (a # as) =
     (if attempt_key sha a = k \<and> credentials_check digest dec a = Some False
         \<and> \<not> ld_is_limited (snd (ls_check store s k (la_now a) p)) then [la_now a] else [])
     @ failed_guesses sha digest dec simple store p k (fst (login sha digest dec simple store p s a)) as"

context login_failure_store
begin

definition agrees :: "'s \<times> 'r \<Rightarrow> login_failures \<times> 'r \<Rightarrow> bool" where
  "agrees x y \<longleftrightarrow> valid (fst x) \<and> failures (fst x) = fst y \<and> snd x = snd y"

lemma check_agrees:
  "valid s \<Longrightarrow> in_range now p \<Longrightarrow> agrees (ls_check store s k now p) (memory_check (failures s) k now p)"
  using check_law [of s now p k] by (simp add: agrees_def memory_check_def Let_def)

lemma failure_agrees:
  assumes "valid s" "in_range now p" "\<not> ld_is_limited (evaluate_login_failure_rate_limit (failures s k) now p)"
  shows "agrees (record_login_failure_error store p s k now) (record_login_failure_error memory_store p (failures s) k now)"
  using record_law [OF assms]
  by (simp add: agrees_def record_login_failure_error_def Let_def memory_store_def memory_record_failure_def split_beta)

lemma checked_not_limited:
  assumes "\<not> ld_is_limited (evaluate_login_failure_rate_limit (m k) now p)"
  shows "\<not> ld_is_limited (evaluate_login_failure_rate_limit (fst (memory_check m k now p) k) now p)"
  using assms evaluate_zero [of "m k" now p] by (simp add: memory_check_def Let_def)

lemma login_agrees:
  assumes "valid s" "in_range (la_now a) p"
  shows "agrees (login sha digest dec simple store p s a) (login sha digest dec simple memory_store p (failures s) a)"
proof -
  let ?k = "attempt_key sha a" and ?now = "la_now a"
  obtain s' d where s': "ls_check store s ?k ?now p = (s', d)" by (cases "ls_check store s ?k ?now p")
  with check_agrees [OF assms, of ?k]
  have m: "memory_check (failures s) ?k ?now p = (failures s', d)" and v: "valid s'"
    by (auto simp: agrees_def prod_eq_iff)
  have keep: "agrees (s', r) (failures s', r)" for r :: "login_error + login_response"
    using v by (simp add: agrees_def)
  have clear: "agrees (ls_clear store s' ?k, r) (ls_clear memory_store (failures s') ?k, r)"
    for r :: "login_error + login_response"
    using clear_law [OF v] by (simp add: agrees_def memory_store_def memory_clear_def)
  have fail: "agrees (record_login_failure_error store p s' ?k ?now)
      (record_login_failure_error memory_store p (failures s') ?k ?now)" if "\<not> ld_is_limited d"
    using that m checked_not_limited [of "failures s" ?k ?now p]
    by (intro failure_agrees [OF v assms(2)]) (simp add: memory_check_def Let_def split: if_splits)
  have c: "ls_check memory_store (failures s) ?k ?now p = (failures s', d)"
    using m by (simp add: memory_store_def)
  show ?thesis
    unfolding login_def Let_def s' c prod.case
    by (auto intro!: keep clear fail split: sum.splits option.splits bool.splits)
qed

lemma login_run_memory:
  "valid s \<Longrightarrow> \<forall>a\<in>set as. in_range (la_now a) p \<Longrightarrow>
     login_run sha digest dec simple store p s as = login_run sha digest dec simple memory_store p (failures s) as"
proof (induction as arbitrary: s)
  case (Cons a as)
  then have "agrees (login sha digest dec simple store p s a) (login sha digest dec simple memory_store p (failures s) a)"
    by (intro login_agrees) simp_all
  with Cons show ?case by (simp add: agrees_def)
qed simp

lemma failed_guesses_memory:
  "valid s \<Longrightarrow> \<forall>a\<in>set as. in_range (la_now a) p \<Longrightarrow>
     failed_guesses sha digest dec simple store p k s as = failed_guesses sha digest dec simple memory_store p k (failures s) as"
proof (induction as arbitrary: s)
  case (Cons a as)
  then have "agrees (login sha digest dec simple store p s a) (login sha digest dec simple memory_store p (failures s) a)"
    by (intro login_agrees) simp_all
  moreover have "agrees (ls_check store s k (la_now a) p) (ls_check memory_store (failures s) k (la_now a) p)"
    using Cons.prems check_agrees [of s "la_now a" p k] by (simp add: memory_store_def)
  ultimately show ?case using Cons by (simp add: agrees_def)
qed simp

end

lemma memory_failure_state:
  "fst (record_login_failure_error memory_store p m k now) = m(k := Some (record_login_failure (m k) now p))"
  by (simp add: record_login_failure_error_def memory_store_def memory_record_failure_def Let_def)

lemma memory_decision: "snd (ls_check memory_store m k now p) = evaluate_login_failure_rate_limit (m k) now p"
  by (simp add: memory_store_def memory_check_def Let_def)

lemma memory_login_state:
  fixes m :: login_failures and sha :: "string \<Rightarrow> string" and p :: login_policy
  assumes "credentials_check digest dec a \<noteq> Some True"
  defines "d \<equiv> evaluate_login_failure_rate_limit (m (attempt_key sha a)) (la_now a) p"
  defines "st \<equiv> (if ld_failure_count d = 0 then None else m (attempt_key sha a))"
  shows "fst (login sha digest dec simple memory_store p m a) = m(attempt_key sha a :=
     (if \<not> ld_is_limited d \<and> credentials_check digest dec a = Some False then Some (record_login_failure st (la_now a) p) else st))"
proof -
  let ?m = "m(attempt_key sha a := st)"
  have c: "ls_check memory_store m (attempt_key sha a) (la_now a) p = (?m, d)"
    by (simp add: memory_store_def memory_check_def Let_def d_def st_def)
  show ?thesis
    using assms(1) unfolding login_def Let_def c prod.case credentials_check_def
    by (auto simp: memory_failure_state split: sum.splits option.splits bool.splits if_splits)
qed

lemma failed_guesses_run:
  assumes "\<forall>a\<in>set as. attempt_key sha a = k \<longrightarrow> credentials_check digest dec a \<noteq> Some True"
    and "\<And>m a. attempt_key sha a \<noteq> k \<Longrightarrow> fst (login sha digest dec simple memory_store p m a) k = m k"
  shows "failed_guesses sha digest dec simple memory_store p k m as =
     guess_run p (m k) (map (\<lambda>a. (la_now a, credentials_check digest dec a = Some False)) (filter (\<lambda>a. attempt_key sha a = k) as))"
  using assms(1)
proof (induction as arbitrary: m)
  case (Cons a as)
  show ?case
  proof (cases "attempt_key sha a = k")
    case False
    with Cons assms(2) show ?thesis by simp
  next
    case True
    with Cons.prems have "credentials_check digest dec a \<noteq> Some True" by simp
    note st = memory_login_state [OF this, of sha simple p m]
    show ?thesis
      using Cons True by (simp add: st guess_run.simps(2) Let_def memory_decision)
  qed
qed simp

lemma memory_login_other:
  "attempt_key sha a \<noteq> k \<Longrightarrow> fst (login sha digest dec simple memory_store p m a) k = m k"
proof -
  assume ne: "attempt_key sha a \<noteq> k"
  obtain m' d where c: "ls_check memory_store m (attempt_key sha a) (la_now a) p = (m', d)"
    by (cases "ls_check memory_store m (attempt_key sha a) (la_now a) p")
  have m': "m' k = m k" using c ne by (auto simp: memory_store_def memory_check_def Let_def split: if_splits)
  have cl: "ls_clear memory_store m' (attempt_key sha a) k = m k"
    using ne m' by (simp add: memory_store_def memory_clear_def)
  show ?thesis
    using ne m' cl unfolding login_def Let_def c prod.case
    by (auto simp: memory_failure_state split: sum.splits option.splits bool.splits)
qed

section \<open>The Redis store keeps the contract\<close>

text \<open>Lua prints and reads whole numbers below \<open>10 ^ 14\<close> exactly.\<close>

definition lua_numbers :: "(string \<Rightarrow> int option) \<Rightarrow> (int \<Rightarrow> string) \<Rightarrow> bool" where
  "lua_numbers tonumber tostring \<longleftrightarrow>
     (\<forall>n < 10 ^ 14. tostring (int n) = show_nat n \<and> tonumber (show_nat n) = Some (int n))"

definition redis_encode :: "login_failure_state \<Rightarrow> string" where
  "redis_encode st = show_nat (unat (lf_failure_count st)) @ '':'' @ show_nat (unat (lf_window_started_at st))"

definition redis_failures :: "(string \<Rightarrow> int option) \<Rightarrow> (uuid \<Rightarrow> string) \<Rightarrow> string \<Rightarrow> redis_server \<Rightarrow> login_failures" where
  "redis_failures tonumber fmt prefix s key =
     map_option (\<lambda>(c, w). \<lparr>lf_failure_count = word_of_int c, lf_window_started_at = word_of_int w\<rparr>)
       (Option.bind (rd_values s (redis_key fmt prefix key)) (lua_decode tonumber))"

definition storable :: "login_failure_state \<Rightarrow> bool" where
  "storable st \<longleftrightarrow> lf_failure_count st \<noteq> 0 \<and> unat (lf_window_started_at st) < 10 ^ 14"

definition redis_valid :: "(uuid \<Rightarrow> string) \<Rightarrow> string \<Rightarrow> redis_server \<Rightarrow> bool" where
  "redis_valid fmt prefix s \<longleftrightarrow> rd_up s \<and>
     (\<forall>key raw. rd_values s (redis_key fmt prefix key) = Some raw \<longrightarrow> (\<exists>st. storable st \<and> raw = redis_encode st))"

definition redis_in_range :: "u64 \<Rightarrow> login_policy \<Rightarrow> bool" where
  "redis_in_range now p \<longleftrightarrow> unat now + window_of p < 10 ^ 14"

lemma show_nat_no_colon: "CHR '':'' \<notin> set (show_nat n)"
proof
  assume "CHR '':'' \<in> set (show_nat n)"
  with show_nat_digits [of n] have "is_ascii_digit (CHR '':'')" by (auto simp: list_all_iff)
  then show False by (simp add: is_ascii_digit_def byte_of_def)
qed

lemma count_small: "unat (w :: u32) < 10 ^ 14"
  using unsigned_less [of w, where 'a = nat] by simp

lemma lua_decode_encode:
  assumes "lua_numbers tonumber tostring" "storable st"
  shows "lua_decode tonumber (redis_encode st) =
     Some (int (unat (lf_failure_count st)), int (unat (lf_window_started_at st)))"
proof -
  let ?a = "show_nat (unat (lf_failure_count st))" and ?b = "show_nat (unat (lf_window_started_at st))"
  have "takeWhile (\<lambda>c. c \<noteq> CHR '':'') (?a @ CHR '':'' # ?b) = ?a"
    and "dropWhile (\<lambda>c. c \<noteq> CHR '':'') (?a @ CHR '':'' # ?b) = CHR '':'' # ?b"
    using show_nat_no_colon [of "unat (lf_failure_count st)"]
    by (auto simp: takeWhile_append dropWhile_append)
  moreover have "tonumber ?a = Some (int (unat (lf_failure_count st)))"
    "tonumber ?b = Some (int (unat (lf_window_started_at st)))"
    using assms count_small by (auto simp: lua_numbers_def storable_def)
  ultimately show ?thesis by (simp add: lua_decode_def redis_encode_def)
qed

lemma redis_failures_encoded:
  assumes "lua_numbers tonumber tostring" "storable st" "rd_values s (redis_key fmt prefix key) = Some (redis_encode st)"
  shows "redis_failures tonumber fmt prefix s key = Some st"
  using assms(3) lua_decode_encode [OF assms(1,2)] by (simp add: redis_failures_def)

lemma redis_failures_absent:
  "rd_values s (redis_key fmt prefix key) = None \<Longrightarrow> redis_failures tonumber fmt prefix s key = None"
  by (simp add: redis_failures_def)

lemma redis_key_inj:
  assumes "uuid_display fmt" "redis_key fmt prefix k = redis_key fmt prefix k'"
  shows "k = k'"
proof -
  have n: "CHR '':'' \<notin> set (fmt u)" for u using assms(1) by (simp add: uuid_display_def)
  have "fmt (lk_tenant_id k) = fmt (lk_tenant_id k') \<and> lk_fingerprint k = lk_fingerprint k'"
    using assms(2) by (simp add: redis_key_def append_sep_inject n)
  moreover have "inj fmt" using assms(1) by (simp add: uuid_display_def)
  ultimately show ?thesis by (simp add: inj_eq)
qed

text \<open>The decision on a window, in integers, as both scripts reply it.\<close>

definition window_reply :: "int \<Rightarrow> int \<Rightarrow> int \<Rightarrow> int \<Rightarrow> int \<Rightarrow> int \<times> int \<times> int" where
  "window_reply c w now m win = (if c \<ge> m then (1, c, max (w + win - now) 1) else (0, c, 0))"

lemma active_int:
  "unat now - unat w < window_of p \<longleftrightarrow> int (unat now) - int (unat w) < int (window_of p)"
  using policy_pos(1) [of p] by linarith

lemma retry_after_word:
  fixes w now :: u64
  assumes "unat w + window_of p < 2 ^ 64" "unat now < unat w + window_of p"
  shows "max (word_of_int (max (int (unat w) + int (window_of p) - int (unat now)) 1)) 1 =
     max (word_saturating_sub (word_saturating_add w (lp_window_seconds (sanitized p))) now) 1"
proof -
  let ?n = "unat w + window_of p - unat now"
  have i: "max (int (unat w) + int (window_of p) - int (unat now)) 1 = int ?n" using assms(2) by linarith
  have n: "unat (word_saturating_sub (word_saturating_add w (lp_window_seconds (sanitized p))) now) = ?n"
    using assms(1) by (simp add: unat_word_saturating_sub unat_word_saturating_add window_of_def [symmetric])
  have "word_saturating_sub (word_saturating_add w (lp_window_seconds (sanitized p))) now = word_of_int (int ?n)"
    unfolding n [symmetric] by simp
  then show ?thesis by (simp only: i)
qed

lemma decision_of_reply:
  "redis_decision_from_response (lua_reply (l, c, r)) =
     (if c < 0 \<or> c \<ge> 2 ^ 32 \<or> r < 0 then Inl RE_InvalidResponse
      else Inr \<lparr>ld_is_limited = (l = 1),
                ld_retry_after_seconds = (if l = 1 then Some (max (word_of_int r) 1) else None),
                ld_failure_count = word_of_int c\<rparr>)"
  by (simp add: redis_decision_from_response_def redis_integer_def)

lemma window_reply_decision:
  assumes "unat (lf_window_started_at st) + window_of p < 2 ^ 64"
    and "unat now - unat (lf_window_started_at st) < window_of p"
  shows "redis_decision_from_response (lua_reply (window_reply (int (unat (lf_failure_count st)))
       (int (unat (lf_window_started_at st))) (int (unat now)) (int (limit_of p)) (int (window_of p)))) =
     Inr (evaluate_login_failure_rate_limit (Some st) now p)"
proof -
  have c: "int (unat (lf_failure_count st)) < 2 ^ 32"
    using unsigned_less [of "lf_failure_count st", where 'a = int] by simp
  have l: "int (limit_of p) \<le> uint (lf_failure_count st) \<longleftrightarrow> lp_max_failures (sanitized p) \<le> lf_failure_count st"
    by (simp add: limit_of_def word_le_def)
  have e: "evaluate_login_failure_rate_limit (Some st) now p =
      (if lp_max_failures (sanitized p) \<le> lf_failure_count st
       then \<lparr>ld_is_limited = True, ld_retry_after_seconds = Some (max (word_saturating_sub (word_saturating_add
              (lf_window_started_at st) (lp_window_seconds (sanitized p))) now) 1), ld_failure_count = lf_failure_count st\<rparr>
       else \<lparr>ld_is_limited = False, ld_retry_after_seconds = None, ld_failure_count = lf_failure_count st\<rparr>)"
    using assms(2) by (simp add: evaluate_login_failure_rate_limit_def Let_def active_iff)
  have "unat now < unat (lf_window_started_at st) + window_of p" using assms(2) by linarith
  note r = retry_after_word [OF assms(1) this, simplified]
  show ?thesis
    using c by (simp add: e window_reply_def decision_of_reply l r del: lua_reply.simps)
qed

lemma storable_room: "storable st \<Longrightarrow> redis_in_range now p \<Longrightarrow> unat (lf_window_started_at st) + window_of p < 2 ^ 64"
  by (simp add: storable_def redis_in_range_def)

lemma redis_check_encoded:
  assumes "lua_numbers tonumber tostring" "storable st" "redis_in_range now p"
  defines "r \<equiv> redis_check_script tonumber (Some (redis_encode st)) (int (unat now)) (int (limit_of p)) (int (window_of p))"
  shows "fst r = (if ld_failure_count (evaluate_login_failure_rate_limit (Some st) now p) = 0 then None
                  else Some (redis_encode st))"
    and "redis_decision_from_response (lua_reply (snd r)) = Inr (evaluate_login_failure_rate_limit (Some st) now p)"
proof -
  let ?c = "int (unat (lf_failure_count st))" and ?w = "int (unat (lf_window_started_at st))"
  have r: "r = (if int (unat now) - ?w < int (window_of p)
      then (Some (redis_encode st), window_reply ?c ?w (int (unat now)) (int (limit_of p)) (int (window_of p)))
      else (None, (0, 0, 0)))"
    unfolding r_def redis_check_script_def option.case lua_decode_encode [OF assms(1,2)] window_reply_def
    by (simp del: of_nat_unat)
  have nz: "lf_failure_count st \<noteq> 0" using assms(2) by (simp add: storable_def)
  show "fst r = (if ld_failure_count (evaluate_login_failure_rate_limit (Some st) now p) = 0 then None
                  else Some (redis_encode st))"
    unfolding r evaluate_count using nz active_int [of now "lf_window_started_at st" p] by auto
  show "redis_decision_from_response (lua_reply (snd r)) = Inr (evaluate_login_failure_rate_limit (Some st) now p)"
  proof (cases "unat now - unat (lf_window_started_at st) < window_of p")
    case True
    then have "snd r = window_reply ?c ?w (int (unat now)) (int (limit_of p)) (int (window_of p))"
      using active_int [of now "lf_window_started_at st" p] by (simp add: r)
    then show ?thesis using window_reply_decision [OF storable_room [OF assms(2,3)] True] by simp
  next
    case False
    then have "snd r = (0, 0, 0)" using active_int [of now "lf_window_started_at st" p] by (simp add: r)
    moreover have "evaluate_login_failure_rate_limit (Some st) now p = evaluate_login_failure_rate_limit None now p"
      using False by (intro evaluate_zero) (simp add: evaluate_count)
    ultimately show ?thesis by (simp add: decision_of_reply evaluate_None del: lua_reply.simps)
  qed
qed

lemma redis_record_result:
  assumes "lua_numbers tonumber tostring" "redis_in_range now p" "\<And>st. m = Some st \<Longrightarrow> storable st"
    and "\<not> ld_is_limited (evaluate_login_failure_rate_limit m now p)"
  defines "r \<equiv> redis_record_script tonumber tostring (map_option redis_encode m) (int (unat now)) (int (limit_of p))
      (int (window_of p))"
  defines "st \<equiv> record_login_failure m now p"
  shows "storable st \<and> unat now - unat (lf_window_started_at st) < window_of p
      \<and> r = (Some (tostring (int (unat (lf_failure_count st))) @ '':'' @ tostring (int (unat (lf_window_started_at st)))),
             window_reply (int (unat (lf_failure_count st))) (int (unat (lf_window_started_at st))) (int (unat now))
               (int (limit_of p)) (int (window_of p)))"
proof (cases "\<exists>s. m = Some s \<and> unat now - unat (lf_window_started_at s) < window_of p")
  case False
  then have st: "st = \<lparr>lf_failure_count = 1, lf_window_started_at = now\<rparr>"
    by (cases m) (auto simp: st_def record_None record_inactive)
  have "r = (Some (tostring 1 @ '':'' @ tostring (int (unat now))),
      window_reply 1 (int (unat now)) (int (unat now)) (int (limit_of p)) (int (window_of p)))"
  proof (cases m)
    case (Some s)
    with False have "\<not> int (unat now) - int (unat (lf_window_started_at s)) < int (window_of p)"
      by (simp only: active_int [symmetric]) auto
    then show ?thesis
      unfolding r_def redis_record_script_def Some option.map Option.bind.simps
        lua_decode_encode [OF assms(1) assms(3) [OF Some]] window_reply_def
      by (simp del: of_nat_unat)
  qed (simp add: r_def redis_record_script_def window_reply_def)
  with st show ?thesis
    using policy_pos(1) [of p] assms(2) by (simp add: storable_def redis_in_range_def)
next
  case True
  then obtain s where s: "m = Some s" "unat now - unat (lf_window_started_at s) < window_of p" by blast
  then have "unat (lf_failure_count s) < limit_of p" using assms(4) by (simp add: evaluate_limited)
  from record_active [OF s(2) this] obtain c where c: "st = \<lparr>lf_failure_count = c, lf_window_started_at = lf_window_started_at s\<rparr>"
    "unat c = Suc (unat (lf_failure_count s))" using s(1) by (auto simp: st_def)
  have "storable st" using assms(3) [OF s(1)] c by (auto simp: storable_def)
  moreover have "r = (Some (tostring (int (unat c)) @ '':'' @ tostring (int (unat (lf_window_started_at s)))),
      window_reply (int (unat c)) (int (unat (lf_window_started_at s))) (int (unat now)) (int (limit_of p)) (int (window_of p)))"
    using s(2) unfolding active_int r_def redis_record_script_def s(1) option.map Option.bind.simps
        lua_decode_encode [OF assms(1) assms(3) [OF s(1)]] window_reply_def c(2)
    by (simp del: of_nat_unat add: add.commute)
  ultimately show ?thesis using c(1) s(2) by simp
qed

lemma redis_record_encoded:
  assumes "lua_numbers tonumber tostring" "redis_in_range now p" "\<And>st. m = Some st \<Longrightarrow> storable st"
    and "\<not> ld_is_limited (evaluate_login_failure_rate_limit m now p)"
  defines "r \<equiv> redis_record_script tonumber tostring (map_option redis_encode m) (int (unat now)) (int (limit_of p))
      (int (window_of p))"
  defines "st \<equiv> record_login_failure m now p"
  shows "storable st" and "fst r = Some (redis_encode st)"
    and "redis_decision_from_response (lua_reply (snd r)) = Inr (evaluate_login_failure_rate_limit (Some st) now p)"
proof -
  have str: "tostring (int n) = show_nat n" if "n < 10 ^ 14" for n
    using assms(1) that by (simp add: lua_numbers_def)
  note script = redis_record_result [OF assms(1-4), folded r_def st_def]
  show "storable st" using script by blast
  then have "unat (lf_window_started_at st) < 10 ^ 14" by (simp add: storable_def)
  then show "fst r = Some (redis_encode st)"
    using script str [OF count_small [of "lf_failure_count st"]] str [of "unat (lf_window_started_at st)"]
    by (simp add: redis_encode_def)
  show "redis_decision_from_response (lua_reply (snd r)) = Inr (evaluate_login_failure_rate_limit (Some st) now p)"
    using script window_reply_decision [OF storable_room [OF \<open>storable st\<close> assms(2)]] by simp
qed

lemma redis_eval_up:
  assumes "lua_numbers tonumber tostring" "rd_up s" "redis_in_range now p"
  shows "redis_eval tonumber script fmt prefix s key now p =
     (let (v, reply) = script (rd_values s (redis_key fmt prefix key)) (int (unat now)) (int (limit_of p)) (int (window_of p))
      in (s\<lparr>rd_values := (rd_values s)(redis_key fmt prefix key := v)\<rparr>,
          case redis_decision_from_response (lua_reply reply) of Inr d \<Rightarrow> d | Inl _ \<Rightarrow> fail_closed_decision p))"
proof -
  have n: "tonumber (show_nat k) = Some (int k)" if "k < 10 ^ 14" for k
    using assms(1) that by (simp add: lua_numbers_def)
  have "tonumber (show_nat (unat now)) = Some (int (unat now))"
    "tonumber (show_nat (unat (lp_max_failures (sanitized p)))) = Some (int (limit_of p))"
    "tonumber (show_nat (unat (lp_window_seconds (sanitized p)))) = Some (int (window_of p))"
    using assms(3) n limit_bound [of p] by (auto simp: redis_in_range_def limit_of_def window_of_def)
  with assms(2) show ?thesis by (simp add: redis_eval_def Let_def)
qed

lemma redis_value_cases:
  assumes "lua_numbers tonumber tostring" "redis_valid fmt prefix s"
  shows "rd_values s (redis_key fmt prefix k) = map_option redis_encode (redis_failures tonumber fmt prefix s k)"
    and "redis_failures tonumber fmt prefix s k = Some st \<Longrightarrow> storable st"
proof -
  show "rd_values s (redis_key fmt prefix k) = map_option redis_encode (redis_failures tonumber fmt prefix s k)"
    using assms redis_failures_encoded [OF assms(1)] redis_failures_absent [of s fmt prefix k tonumber]
    by (cases "rd_values s (redis_key fmt prefix k)") (auto simp: redis_valid_def, metis option.map(2))
  show "storable st" if "redis_failures tonumber fmt prefix s k = Some st"
    using that assms redis_failures_encoded [OF assms(1)] redis_failures_absent [of s fmt prefix k tonumber]
    by (cases "rd_values s (redis_key fmt prefix k)") (auto simp: redis_valid_def, metis option.inject)
qed

lemma redis_update:
  fixes k :: login_key
  assumes "lua_numbers tonumber tostring" "uuid_display fmt" "redis_valid fmt prefix s" "\<And>st. m = Some st \<Longrightarrow> storable st"
  defines "s' \<equiv> s\<lparr>rd_values := (rd_values s)(redis_key fmt prefix k := map_option redis_encode m)\<rparr>"
  shows "redis_valid fmt prefix s'" and "redis_failures tonumber fmt prefix s' = (redis_failures tonumber fmt prefix s)(k := m)"
proof -
  show "redis_valid fmt prefix s'"
    using assms(3,4) unfolding redis_valid_def s'_def by (auto split: if_splits)
  show "redis_failures tonumber fmt prefix s' = (redis_failures tonumber fmt prefix s)(k := m)"
  proof
    fix k'
    show "redis_failures tonumber fmt prefix s' k' = ((redis_failures tonumber fmt prefix s)(k := m)) k'"
    proof (cases "k' = k")
      case True
      then show ?thesis
        using assms(4) redis_failures_encoded [OF assms(1)] redis_failures_absent
        by (cases m) (simp_all add: s'_def)
    next
      case False
      then have "redis_key fmt prefix k' \<noteq> redis_key fmt prefix k" using redis_key_inj [OF assms(2)] by blast
      with False show ?thesis by (simp add: redis_failures_def s'_def)
    qed
  qed
qed

lemma redis_check_law:
  fixes k :: login_key
  assumes lua: "lua_numbers tonumber tostring" and fmt: "uuid_display fmt"
    and v: "redis_valid fmt prefix s" and range: "redis_in_range now p"
  defines "f \<equiv> redis_failures tonumber fmt prefix"
    and "r \<equiv> ls_check (redis_store tonumber tostring fmt prefix) s k now p"
    and "e \<equiv> evaluate_login_failure_rate_limit (redis_failures tonumber fmt prefix s k) now p"
  shows "redis_valid fmt prefix (fst r) \<and> snd r = e
     \<and> f (fst r) = (if ld_failure_count e = 0 then (f s)(k := None) else f s)"
proof -
  note val = redis_value_cases [OF lua v, of k]
  have up: "rd_up s" using v by (simp add: redis_valid_def)
  define m where "m = (if ld_failure_count e = 0 then None else f s k)"
  have mst: "storable st" if "m = Some st" for st
    using that val(2) by (simp add: m_def f_def split: if_splits)
  define q where "q = redis_check_script tonumber (rd_values s (redis_key fmt prefix k)) (int (unat now))
      (int (limit_of p)) (int (window_of p))"
  have "fst q = map_option redis_encode m \<and> redis_decision_from_response (lua_reply (snd q)) = Inr e"
  proof (cases "f s k")
    case None
    then show ?thesis
      using val(1) by (simp add: q_def redis_check_script_def m_def e_def f_def evaluate_None decision_of_reply del: lua_reply.simps)
  next
    case (Some st)
    then show ?thesis
      using redis_check_encoded [OF lua val(2) range, of st] val(1) by (simp add: q_def m_def e_def f_def)
  qed
  then have "r = (s\<lparr>rd_values := (rd_values s)(redis_key fmt prefix k := map_option redis_encode m)\<rparr>, e)"
    using redis_eval_up [OF lua up range, of "redis_check_script tonumber" fmt prefix k]
    by (simp add: r_def redis_store_def q_def Let_def split_beta)
  then show ?thesis using redis_update [OF lua fmt v, of m k] mst by (simp add: m_def f_def)
qed

lemma redis_record_law:
  fixes k :: login_key
  assumes lua: "lua_numbers tonumber tostring" and fmt: "uuid_display fmt"
    and v: "redis_valid fmt prefix s" and range: "redis_in_range now p"
    and free: "\<not> ld_is_limited (evaluate_login_failure_rate_limit (redis_failures tonumber fmt prefix s k) now p)"
  defines "f \<equiv> redis_failures tonumber fmt prefix"
    and "r \<equiv> ls_record_failure (redis_store tonumber tostring fmt prefix) s k now p"
    and "st \<equiv> record_login_failure (redis_failures tonumber fmt prefix s k) now p"
  shows "redis_valid fmt prefix (fst r) \<and> f (fst r) = (f s)(k := Some st)
     \<and> snd r = evaluate_login_failure_rate_limit (Some st) now p"
proof -
  note val = redis_value_cases [OF lua v, of k]
  have up: "rd_up s" using v by (simp add: redis_valid_def)
  note enc = redis_record_encoded [OF lua range val(2) free, folded st_def]
  have "r = (s\<lparr>rd_values := (rd_values s)(redis_key fmt prefix k := map_option redis_encode (Some st))\<rparr>,
       evaluate_login_failure_rate_limit (Some st) now p)"
    using redis_eval_up [OF lua up range, of "redis_record_script tonumber tostring" fmt prefix k] enc(2,3) val(1)
    by (simp add: r_def redis_store_def Let_def split_beta)
  then show ?thesis using redis_update [OF lua fmt v, of "Some st" k] enc(1) by (simp add: f_def)
qed

text \<open>A value is set to expire one window after the attempt that wrote it, so expiry only removes windows that are over.\<close>

lemma expired_value_inactive:
  assumes "unat (lf_window_started_at st) \<le> t" "t + window_of p \<le> unat now"
  shows "evaluate_login_failure_rate_limit (Some st) now p = evaluate_login_failure_rate_limit None now p"
    and "record_login_failure (Some st) now p = record_login_failure None now p"
proof -
  have "\<not> unat now - unat (lf_window_started_at st) < window_of p" using assms by linarith
  then show "evaluate_login_failure_rate_limit (Some st) now p = evaluate_login_failure_rate_limit None now p"
    and "record_login_failure (Some st) now p = record_login_failure None now p"
    by (auto intro: evaluate_zero simp: evaluate_count record_inactive record_None)
qed

lemma redis_store_laws:
  assumes "lua_numbers tonumber tostring" "uuid_display fmt"
  shows "login_failure_store (redis_store tonumber tostring fmt prefix) (redis_failures tonumber fmt prefix)
     (redis_valid fmt prefix) redis_in_range"
proof (unfold_locales, goal_cases)
  case 1
  then show ?case using redis_check_law [OF assms] by blast
next
  case 2
  then show ?case using redis_record_law [OF assms] by blast
next
  case (3 s k)
  then show ?case
    using redis_update [OF assms 3, of None k] by (simp add: redis_store_def redis_clear_def redis_valid_def)
qed

section \<open>The guarantees of the login limiter\<close>


definition sample_attempt :: login_attempt where
  "sample_attempt = \<lparr>la_now = 1000, la_email = ''admin'', la_password = [], la_find_user = (\<lambda>_. Inr None),
     la_create_session = (\<lambda>_ _ _ _. Inl []), la_uuid1 = 1, la_uuid2 = 2\<rparr>"

lemma sample_attempt_check: "credentials_check digest dec sample_attempt = Some False"
  by (simp add: credentials_check_def sample_attempt_def)

lemma limit_of_default: "limit_of login_policy_default = 5"
  by (simp add: limit_of_def sanitized_def login_policy_default_def DEFAULT_LOGIN_FAILURE_LIMIT_def max_def
      word_le_nat_alt)


text \<open>C24. The Redis store is interchangeable with the in-memory one: for times and windows Lua represents exactly, the
  handler gives the same responses to every sequence of attempts, and lets the same guesses through. When the
  server cannot be reached every attempt is refused and nothing changes.\<close>

theorem redis_store_equivalent:
  assumes "lua_numbers tonumber tostring" "uuid_display fmt" "redis_valid fmt prefix s"
    and "\<forall>a\<in>set as. redis_in_range (la_now a) p" "\<not> rd_up s'"
  shows "login_run sha digest dec simple (redis_store tonumber tostring fmt prefix) p s as =
      login_run sha digest dec simple memory_store p (redis_failures tonumber fmt prefix s) as
    \<and> failed_guesses sha digest dec simple (redis_store tonumber tostring fmt prefix) p k s as =
      failed_guesses sha digest dec simple memory_store p k (redis_failures tonumber fmt prefix s) as
    \<and> (\<exists>r. login sha digest dec simple (redis_store tonumber tostring fmt prefix) p s' a = (s', Inl (LE_RateLimited r)))"
proof -
  note laws = redis_store_laws [OF assms(1,2), of prefix]
  have "login sha digest dec simple (redis_store tonumber tostring fmt prefix) p s' a =
      (s', Inl (login_rate_limited (max (lp_window_seconds (sanitized p)) 1)))"
    using assms(5)
    by (simp add: login_def Let_def redis_store_def redis_eval_def fail_closed_decision_def)
  then show ?thesis
    using login_failure_store.login_run_memory [OF laws assms(3,4)]
      login_failure_store.failed_guesses_memory [OF laws assms(3,4)]
    by (simp add: login_rate_limited_def)
qed

definition decimal_tonumber :: "string \<Rightarrow> int option" where
  "decimal_tonumber s = (if s \<noteq> [] \<and> list_all is_ascii_digit s then Some (int (digits_val s)) else None)"

lemma decimal_lua_numbers: "lua_numbers decimal_tonumber (\<lambda>n. show_nat (nat n))"
  by (simp add: lua_numbers_def decimal_tonumber_def show_nat_digits)

theorem redis_store_equivalent_witness:
  "login_run id id (\<lambda>_. None) (\<lambda>_. []) (redis_store decimal_tonumber (\<lambda>n. show_nat (nat n)) uuid_hyphenated [])
      login_policy_default \<lparr>rd_up = True, rd_values = (\<lambda>_. None)\<rparr> [sample_attempt, sample_attempt] =
   login_run id id (\<lambda>_. None) (\<lambda>_. []) memory_store login_policy_default (\<lambda>_. None) [sample_attempt, sample_attempt]"
proof -
  let ?s = "\<lparr>rd_up = True, rd_values = (\<lambda>_. None)\<rparr>"
  have "redis_failures decimal_tonumber uuid_hyphenated [] ?s = (\<lambda>_. None)"
    by (rule ext) (simp add: redis_failures_def)
  moreover have "window_of login_policy_default = 300"
    by (simp add: window_of_def sanitized_def login_policy_default_def DEFAULT_LOGIN_FAILURE_WINDOW_SECONDS_def
        max_def word_le_nat_alt)
  then have "\<forall>a\<in>set [sample_attempt, sample_attempt]. redis_in_range (la_now a) login_policy_default"
    by (simp add: redis_in_range_def sample_attempt_def)
  moreover have "redis_valid uuid_hyphenated [] ?s" by (simp add: redis_valid_def)
  ultimately show ?thesis
    using redis_store_equivalent [OF decimal_lua_numbers uuid_hyphenated_display, of "[]" ?s
        "[sample_attempt, sample_attempt]" login_policy_default "\<lparr>rd_up = False, rd_values = (\<lambda>_. None)\<rparr>" id id
        "\<lambda>_. None" "\<lambda>_. []"]
    by simp
qed

end
