(* ===== verification/AdminSessions.thy ===== *)
theory AdminSessions
  imports LoginRateLimit RustParse
begin

text \<open>
  Sessions of the control plane (\<open>apps/control-plane/src/auth.rs\<close>, \<open>auth_repo.rs\<close>): how a request carries a session token,
  the tables the repository reads and writes, authentication, and logout. A header map is what
  \<open>get\<close> and \<open>to_str\<close> answer for a name: nothing, a value that is no text, or a text. The tables are lists of rows, an SQL
  statement is the function on them that it denotes, and \<open>q n\<close> says whether the database carries out the \<open>n\<close>-th
  statement of a call. Times are in microseconds; columns that no statement reads are left out.
\<close>

section \<open>Session tokens in headers\<close>

type_synonym header_map = "string \<Rightarrow> string option option"

record auth_error =
  ae_status :: u16
  ae_code :: string
  ae_message :: string
  ae_retry_after_seconds :: "u64 option"

definition auth_unauthorized :: auth_error where
  "auth_unauthorized = \<lparr>ae_status = 401, ae_code = ''unauthorized'', ae_message = ''admin session required'',
     ae_retry_after_seconds = None\<rparr>"

definition auth_forbidden :: auth_error where
  "auth_forbidden = \<lparr>ae_status = 403, ae_code = ''forbidden'', ae_message = ''admin permission denied'',
     ae_retry_after_seconds = None\<rparr>"

definition auth_service_unavailable :: auth_error where
  "auth_service_unavailable = \<lparr>ae_status = 500, ae_code = ''auth_service_error'',
     ae_message = ''authentication service unavailable'', ae_retry_after_seconds = None\<rparr>"

definition ADMIN_SESSION_COOKIE :: string where
  "ADMIN_SESSION_COOKIE = ''ai_gateway_admin_session''"

definition ADMIN_SESSION_HEADER :: string where
  "ADMIN_SESSION_HEADER = ''x-admin-session''"

datatype session_token_source = ST_AuthorizationBearer | ST_AdminHeader | ST_Cookie

record session_token_candidate =
  tc_token :: string
  tc_source :: session_token_source

definition bearer_token :: "header_map \<Rightarrow> auth_error + string option" where
  "bearer_token headers =
     (case headers ''authorization'' of
        None \<Rightarrow> Inr None
      | Some value \<Rightarrow>
          rbind (ok_or auth_unauthorized value) (\<lambda>text.
          let header = trim text in
          if header = [] then Inr None
          else case split_whitespace header of
            [] \<Rightarrow> Inr None
          | scheme # parts \<Rightarrow>
              if \<not> eq_ignore_ascii_case scheme ''bearer'' then Inr None
              else (case parts of
                      [] \<Rightarrow> Inl auth_unauthorized
                    | token # rest \<Rightarrow> if rest \<noteq> [] then Inl auth_unauthorized else Inr (Some token))))"

definition admin_session_header :: "header_map \<Rightarrow> auth_error + string option" where
  "admin_session_header headers =
     (case headers ADMIN_SESSION_HEADER of
        None \<Rightarrow> Inr None
      | Some value \<Rightarrow>
          rbind (ok_or auth_unauthorized value) (\<lambda>text.
          let token = trim text in if token = [] then Inr None else Inr (Some token)))"

definition cookie_value :: "string \<Rightarrow> string \<Rightarrow> string option" where
  "cookie_value cookie_header name =
     find_map (\<lambda>pair. case split_once (CHR ''='') (trim pair) of
                        None \<Rightarrow> None
                      | Some (candidate_name, value) \<Rightarrow> if trim candidate_name = name then Some (trim value) else None)
       (split_on (CHR '';'') cookie_header)"

definition session_token_from_cookie :: "header_map \<Rightarrow> string option" where
  "session_token_from_cookie headers =
     (case headers ''cookie'' of Some (Some cookie) \<Rightarrow> cookie_value cookie ADMIN_SESSION_COOKIE | _ \<Rightarrow> None)"

definition session_token_from_headers :: "header_map \<Rightarrow> auth_error + session_token_candidate option" where
  "session_token_from_headers headers =
     rbind (bearer_token headers) (\<lambda>bearer.
       case bearer of
         Some token \<Rightarrow> Inr (Some \<lparr>tc_token = token, tc_source = ST_AuthorizationBearer\<rparr>)
       | None \<Rightarrow>
     rbind (admin_session_header headers) (\<lambda>header.
       case header of
         Some token \<Rightarrow> Inr (Some \<lparr>tc_token = token, tc_source = ST_AdminHeader\<rparr>)
       | None \<Rightarrow> Inr (map_option (\<lambda>token. \<lparr>tc_token = token, tc_source = ST_Cookie\<rparr>) (session_token_from_cookie headers))))"

definition secure_cookie_suffix :: "bool \<Rightarrow> string" where
  "secure_cookie_suffix secure = (if secure then ''; Secure'' else [])"

definition session_cookie_with_secure :: "string \<Rightarrow> int \<Rightarrow> bool \<Rightarrow> string" where
  "session_cookie_with_secure token ttl_seconds secure =
     ADMIN_SESSION_COOKIE @ ''='' @ token @ ''; Path=/; HttpOnly; SameSite=Lax; Max-Age='' @ show_int ttl_seconds
     @ secure_cookie_suffix secure"

definition clear_session_cookie_with_secure :: "bool \<Rightarrow> string" where
  "clear_session_cookie_with_secure secure =
     ADMIN_SESSION_COOKIE @ ''=; Path=/; HttpOnly; SameSite=Lax; Max-Age=0; Expires=Thu, 01 Jan 1970 00:00:00 GMT''
     @ secure_cookie_suffix secure"

section \<open>The tables and their statements\<close>

record user_row =
  us_id :: uuid
  us_tenant_id :: uuid
  us_email :: string
  us_display_name :: string
  us_password_hash :: "string option"
  us_status :: string
  us_deleted :: bool

record session_row =
  ses_id :: uuid
  ses_tenant_id :: uuid
  ses_user_id :: uuid
  ses_token_lookup_prefix :: string
  ses_token_hash :: string
  ses_status :: string
  ses_expires_at :: int
  ses_revoked_at :: "int option"

text \<open>A row of \<open>team_members\<close> or \<open>project_members\<close>, the latter with its project; \<open>mem_scope_active\<close> is the condition on the
  team or project that the role query joins.\<close>

record member_row =
  mem_tenant_id :: uuid
  mem_user_id :: uuid
  mem_project_id :: "uuid option"
  mem_role :: string
  mem_scope_active :: bool

record wallet_row =
  wrow_id :: uuid
  wrow_tenant_id :: uuid
  wrow_project_id :: "uuid option"
  wrow_currency :: string
  wrow_status :: string
  wrow_deleted :: bool

record virtual_key_row =
  vk_id :: uuid
  vk_tenant_id :: uuid
  vk_project_id :: uuid
  vk_key_prefix :: string
  vk_secret_hash :: string
  vk_status :: string
  vk_deleted :: bool
  vk_expires_at :: "int option"

record admin_db =
  db_users :: "user_row list"
  db_sessions :: "session_row list"
  db_members :: "member_row list"
  db_wallets :: "wallet_row list"
  db_virtual_keys :: "virtual_key_row list"

datatype auth_repo_error = RE_Query

record stored_admin_session =
  ss_id :: uuid
  ss_user :: stored_admin_user
  ss_expires_at :: string

definition ROLE_ALL :: "role list" where
  "ROLE_ALL = [Role_Owner, Role_Admin, Role_Ops, Role_Billing, Role_Developer, Role_Viewer]"

definition role_rank :: "role \<Rightarrow> nat" where
  "role_rank r = length (takeWhile (\<lambda>candidate. candidate \<noteq> r) ROLE_ALL)"

definition sort_roles :: "role list \<Rightarrow> role list" where
  "sort_roles roles = sort_key role_rank roles"

text \<open>The query asks for distinct roles; the order of its rows is that of the table, which \<open>sort_roles\<close> makes
  irrelevant.\<close>

definition list_user_roles :: "bool \<Rightarrow> admin_db \<Rightarrow> uuid \<Rightarrow> uuid \<Rightarrow> auth_repo_error + role list" where
  "list_user_roles ok db tenant_id user_id =
     (let rows = remdups (map mem_role (filter (\<lambda>m. mem_tenant_id m = tenant_id \<and> mem_user_id m = user_id \<and> mem_scope_active m)
                   (db_members db)))
      in if \<not> ok then Inl RE_Query
         else Inr (sort_roles (foldl (\<lambda>roles raw_role.
                case role_from_str raw_role of
                  Inr role \<Rightarrow> if role \<in> set roles then roles else roles @ [role]
                | Inl _ \<Rightarrow> roles) [] rows)))"

definition user_from_row :: "bool \<Rightarrow> admin_db \<Rightarrow> user_row \<Rightarrow> auth_repo_error + stored_admin_user" where
  "user_from_row ok db u =
     rbind (list_user_roles ok db (us_tenant_id u) (us_id u)) (\<lambda>roles.
       Inr \<lparr>su_id = us_id u, su_tenant_id = us_tenant_id u, su_email = us_email u, su_display_name = us_display_name u,
            su_password_hash = us_password_hash u, su_roles = roles\<rparr>)"

text \<open>\<open>lower\<close> is the function of the database.\<close>

definition find_active_user_by_email ::
  "(string \<Rightarrow> string) \<Rightarrow> (nat \<Rightarrow> bool) \<Rightarrow> admin_db \<Rightarrow> uuid \<Rightarrow> string \<Rightarrow> auth_repo_error + stored_admin_user option" where
  "find_active_user_by_email lower q db tenant_id email =
     (if \<not> q 0 then Inl RE_Query
      else case List.find (\<lambda>u. us_tenant_id u = tenant_id \<and> lower (us_email u) = lower email
                             \<and> us_status u = ''active'' \<and> \<not> us_deleted u) (db_users db) of
        None \<Rightarrow> Inr None
      | Some u \<Rightarrow> map_ok Some (user_from_row (q 1) db u))"

text \<open>The constraints of the table that an insertion has to meet (\<open>db/migrations/0005_e1_e2_e3_e10_integrity_hardening.sql\<close>).\<close>

definition session_row_insertable :: "admin_db \<Rightarrow> int \<Rightarrow> session_row \<Rightarrow> bool" where
  "session_row_insertable db now row \<longleftrightarrow>
     ses_id row \<notin> ses_id ` set (db_sessions db) \<and> ses_token_hash row \<notin> ses_token_hash ` set (db_sessions db)
     \<and> (\<exists>u\<in>set (db_users db). us_tenant_id u = ses_tenant_id row \<and> us_id u = ses_user_id row)
     \<and> starts_with ''sess_'' (ses_token_lookup_prefix row) \<and> length (ses_token_lookup_prefix row) = 20
     \<and> list_all is_ascii_hexdigit (drop 5 (ses_token_lookup_prefix row))
     \<and> length (ses_token_hash row) = 64
     \<and> list_all (\<lambda>c. is_ascii_hexdigit c \<and> \<not> is_ascii_uppercase c) (ses_token_hash row)
     \<and> now < ses_expires_at row"

definition create_session ::
  "(int \<Rightarrow> string) \<Rightarrow> (nat \<Rightarrow> bool) \<Rightarrow> admin_db \<Rightarrow> int \<Rightarrow> uuid \<Rightarrow> uuid \<Rightarrow> uuid \<Rightarrow> string \<Rightarrow> string \<Rightarrow> int
   \<Rightarrow> admin_db \<times> (auth_repo_error + created_admin_session)" where
  "create_session time_text q db now new_id tenant_id user_id token_lookup_prefix token_hash ttl_seconds =
     (let row = \<lparr>ses_id = new_id, ses_tenant_id = tenant_id, ses_user_id = user_id,
                 ses_token_lookup_prefix = token_lookup_prefix, ses_token_hash = token_hash, ses_status = ''active'',
                 ses_expires_at = now + ttl_seconds * 1000000, ses_revoked_at = None\<rparr>
      in if \<not> q 0 \<or> \<not> session_row_insertable db now row then (db, Inl RE_Query)
         else let db' = db\<lparr>db_sessions := db_sessions db @ [row]\<rparr>
              in if \<not> q 1 then (db', Inl RE_Query)
                 else (db', Inr \<lparr>cs_id = new_id, cs_expires_at = time_text (ses_expires_at row)\<rparr>))"

definition session_row_live :: "int \<Rightarrow> session_row \<Rightarrow> bool" where
  "session_row_live now s \<longleftrightarrow> ses_status s = ''active'' \<and> ses_revoked_at s = None \<and> now < ses_expires_at s"

definition user_row_live :: "user_row \<Rightarrow> bool" where
  "user_row_live u \<longleftrightarrow> us_status u = ''active'' \<and> \<not> us_deleted u"

definition find_active_session_by_token ::
  "(string \<Rightarrow> string) \<Rightarrow> (int \<Rightarrow> string) \<Rightarrow> (nat \<Rightarrow> bool) \<Rightarrow> admin_db \<Rightarrow> int \<Rightarrow> string
   \<Rightarrow> auth_repo_error + stored_admin_session option" where
  "find_active_session_by_token sha time_text q db now token =
     (case parse_session_token sha token of
        Inl _ \<Rightarrow> Inr None
      | Inr parsed \<Rightarrow>
          if \<not> q 0 then Inl RE_Query
          else case List.find (\<lambda>(s, u). us_tenant_id u = ses_tenant_id s \<and> us_id u = ses_user_id s
                   \<and> ses_token_lookup_prefix s = ps_prefix parsed \<and> ses_token_hash s = ps_token_hash parsed
                   \<and> session_row_live now s \<and> user_row_live u) (List.product (db_sessions db) (db_users db)) of
            None \<Rightarrow> Inr None
          | Some (s, u) \<Rightarrow>
              rbind (user_from_row (q 1) db u) (\<lambda>user.
              if \<not> q 2 then Inl RE_Query
              else Inr (Some \<lparr>ss_id = ses_id s, ss_user = user, ss_expires_at = time_text (ses_expires_at s)\<rparr>)))"

definition revoke_session :: "bool \<Rightarrow> admin_db \<Rightarrow> int \<Rightarrow> uuid \<Rightarrow> uuid \<Rightarrow> admin_db \<times> (auth_repo_error + unit)" where
  "revoke_session ok db now tenant_id session_id =
     (if \<not> ok then (db, Inl RE_Query)
      else (db\<lparr>db_sessions := map (\<lambda>s. if ses_tenant_id s = tenant_id \<and> ses_id s = session_id \<and> ses_status s = ''active''
                  then s\<lparr>ses_status := ''revoked'', ses_revoked_at := Some (unwrap_or now (ses_revoked_at s))\<rparr> else s)
                (db_sessions db)\<rparr>, Inr ()))"

text \<open>The enterprise identity handlers of \<open>admin.rs\<close> insert rows of the same form, with eight hours to live, and mark rows as
  expired; \<open>selected\<close> is their condition on the metadata column.\<close>

definition expire_enterprise_identity_sessions ::
  "(session_row \<Rightarrow> bool) \<Rightarrow> bool \<Rightarrow> admin_db \<Rightarrow> int \<Rightarrow> uuid \<Rightarrow> admin_db \<times> (auth_repo_error + unit)" where
  "expire_enterprise_identity_sessions selected ok db now tenant_id =
     (if \<not> ok then (db, Inl RE_Query)
      else (db\<lparr>db_sessions := map (\<lambda>s. if ses_tenant_id s = tenant_id \<and> selected s \<and> ses_status s = ''active''
                    \<and> ses_expires_at s \<le> now then s\<lparr>ses_status := ''expired''\<rparr> else s) (db_sessions db)\<rparr>, Inr ()))"

section \<open>Authentication\<close>

fun auth_error_from_repo :: "auth_repo_error \<Rightarrow> auth_error" where
  "auth_error_from_repo RE_Query = auth_service_unavailable"

definition authenticate_headers ::
  "(string \<Rightarrow> string) \<Rightarrow> (int \<Rightarrow> string) \<Rightarrow> (nat \<Rightarrow> bool) \<Rightarrow> admin_db \<Rightarrow> int \<Rightarrow> header_map \<Rightarrow> auth_error + stored_admin_session" where
  "authenticate_headers sha time_text q db now headers =
     rbind (session_token_from_headers headers) (\<lambda>c.
     rbind (ok_or auth_unauthorized c) (\<lambda>candidate.
     rbind (map_err auth_error_from_repo (find_active_session_by_token sha time_text q db now (tc_token candidate))) (\<lambda>session.
       ok_or auth_unauthorized session)))"

datatype remaining_balance_principal_source = RB_UserSession | RB_DeveloperToken

record remaining_balance_principal =
  rb_source :: remaining_balance_principal_source
  rb_tenant_id :: uuid
  rb_project_id :: uuid
  rb_user_id :: "uuid option"
  rb_virtual_key_id :: "uuid option"
  rb_wallet_id :: uuid
  rb_currency :: string

definition wallet_row_live :: "wallet_row \<Rightarrow> bool" where
  "wallet_row_live w \<longleftrightarrow> wrow_status w = ''active'' \<and> \<not> wrow_deleted w"

definition find_remaining_balance_user_session_principal ::
  "bool \<Rightarrow> admin_db \<Rightarrow> int \<Rightarrow> parsed_session_token \<Rightarrow> uuid \<Rightarrow> auth_error + remaining_balance_principal option" where
  "find_remaining_balance_user_session_principal ok db now parsed wallet_id =
     (if \<not> ok then Inl auth_service_unavailable
      else Inr (find_map (\<lambda>(s, u, m, w).
        case mem_project_id m of
          None \<Rightarrow> None
        | Some project_id \<Rightarrow>
            if us_tenant_id u = ses_tenant_id s \<and> us_id u = ses_user_id s
               \<and> mem_tenant_id m = ses_tenant_id s \<and> mem_user_id m = ses_user_id s
               \<and> wrow_tenant_id w = ses_tenant_id s \<and> wrow_project_id w = Some project_id
               \<and> ses_token_lookup_prefix s = ps_prefix parsed \<and> ses_token_hash s = ps_token_hash parsed
               \<and> session_row_live now s \<and> user_row_live u \<and> wrow_id w = wallet_id \<and> wallet_row_live w
            then Some \<lparr>rb_source = RB_UserSession, rb_tenant_id = ses_tenant_id s, rb_project_id = project_id,
                       rb_user_id = Some (ses_user_id s), rb_virtual_key_id = None, rb_wallet_id = wrow_id w,
                       rb_currency = wrow_currency w\<rparr>
            else None)
        (List.product (db_sessions db) (List.product (db_users db) (List.product (db_members db) (db_wallets db))))))"

definition find_remaining_balance_developer_token_principal ::
  "bool \<Rightarrow> admin_db \<Rightarrow> int \<Rightarrow> parsed_virtual_key \<Rightarrow> uuid \<Rightarrow> auth_error + remaining_balance_principal option" where
  "find_remaining_balance_developer_token_principal ok db now parsed wallet_id =
     (if \<not> ok then Inl auth_service_unavailable
      else Inr (find_map (\<lambda>(k, w).
        if wrow_tenant_id w = vk_tenant_id k \<and> wrow_project_id w = Some (vk_project_id k)
           \<and> vk_key_prefix k = pk_prefix parsed \<and> vk_secret_hash k = pk_secret_hash parsed
           \<and> vk_status k = ''active'' \<and> \<not> vk_deleted k
           \<and> (case vk_expires_at k of None \<Rightarrow> True | Some e \<Rightarrow> now < e)
           \<and> wrow_id w = wallet_id \<and> wallet_row_live w
        then Some \<lparr>rb_source = RB_DeveloperToken, rb_tenant_id = vk_tenant_id k, rb_project_id = vk_project_id k,
                   rb_user_id = None, rb_virtual_key_id = Some (vk_id k), rb_wallet_id = wrow_id w,
                   rb_currency = wrow_currency w\<rparr>
        else None) (List.product (db_virtual_keys db) (db_wallets db))))"

definition authenticate_remaining_balance_principal ::
  "(string \<Rightarrow> string) \<Rightarrow> (nat \<Rightarrow> bool) \<Rightarrow> admin_db \<Rightarrow> int \<Rightarrow> header_map \<Rightarrow> uuid \<Rightarrow> auth_error + remaining_balance_principal" where
  "authenticate_remaining_balance_principal sha q db now headers wallet_id =
     rbind (session_token_from_headers headers) (\<lambda>c.
     rbind (case c of
              None \<Rightarrow> Inr None
            | Some candidate \<Rightarrow>
                if tc_source candidate \<noteq> ST_AuthorizationBearer then Inr None
                else (case parse_session_token sha (tc_token candidate) of
                        Inl _ \<Rightarrow> Inr None
                      | Inr parsed \<Rightarrow> find_remaining_balance_user_session_principal (q 0) db now parsed wallet_id)) (\<lambda>by_session.
       case by_session of
         Some found \<Rightarrow> Inr found
       | None \<Rightarrow>
     rbind (bearer_token headers) (\<lambda>t.
     rbind (case t of
              None \<Rightarrow> Inr None
            | Some token \<Rightarrow>
                (case parse_virtual_key sha token of
                   Inl _ \<Rightarrow> Inr None
                 | Inr parsed \<Rightarrow> find_remaining_balance_developer_token_principal (q 1) db now parsed wallet_id)) (\<lambda>by_key.
       ok_or auth_forbidden by_key))))"

definition logout ::
  "(string \<Rightarrow> string) \<Rightarrow> (int \<Rightarrow> string) \<Rightarrow> bool \<Rightarrow> (nat \<Rightarrow> bool) \<Rightarrow> admin_db \<Rightarrow> int \<Rightarrow> header_map \<Rightarrow> admin_db \<times> (auth_error + string)" where
  "logout sha time_text secure q db now headers =
     (case authenticate_headers sha time_text q db now headers of
        Inl e \<Rightarrow> (db, Inl e)
      | Inr session \<Rightarrow>
          (case revoke_session (q 3) db now (su_tenant_id (ss_user session)) (ss_id session) of
             (db', Inl e) \<Rightarrow> (db', Inl (auth_error_from_repo e))
           | (db', Inr _) \<Rightarrow> (db', Inr (clear_session_cookie_with_secure secure))))"

end
