(* ===== verification/AdminRbac.thy ===== *)
theory AdminRbac
  imports AdminSessions
begin

text \<open>
  Who may call the admin API (\<open>apps/control-plane/src/rbac.rs\<close>): the middleware \<open>require_admin_rbac\<close>, the
  permission each path needs, and the table of capabilities a session is told it has. HTTP methods are their names.
  Reading a UUID from text is a parameter.
\<close>

section \<open>Paths and permissions\<close>

definition is_public_admin_path :: "string \<Rightarrow> bool" where
  "is_public_admin_path path \<longleftrightarrow>
     path \<in> {''/admin/auth/login'', ''/admin/auth/logout'', ''/admin/auth/me'', ''/healthz'', ''/readyz''}"

definition request_logs_path :: "string \<Rightarrow> bool" where
  "request_logs_path path \<longleftrightarrow>
     path = ''/admin/request-logs'' \<or> starts_with ''/admin/request-logs/'' path \<or> starts_with ''/admin/traces/'' path"

definition audit_logs_path :: "string \<Rightarrow> bool" where
  "audit_logs_path path \<longleftrightarrow> path = ''/admin/audit-logs''"

definition subscription_scheduler_event_execute_path :: "string \<Rightarrow> bool" where
  "subscription_scheduler_event_execute_path path \<longleftrightarrow>
     starts_with ''/admin/subscriptions/scheduler-events/'' path \<and> ends_with ''/execute-plan'' path"

definition subscription_scheduler_event_lease_path :: "string \<Rightarrow> bool" where
  "subscription_scheduler_event_lease_path path \<longleftrightarrow>
     starts_with ''/admin/subscriptions/scheduler-events/'' path \<and> ends_with ''/lease'' path"

definition credit_grant_read_detail_path :: "string \<Rightarrow> bool" where
  "credit_grant_read_detail_path path \<longleftrightarrow>
     starts_with ''/admin/credit-grants/'' path \<and> \<not> ends_with ''/expire'' path \<and> \<not> ends_with ''/revoke'' path"

definition credit_grant_lifecycle_write_path :: "string \<Rightarrow> bool" where
  "credit_grant_lifecycle_write_path path \<longleftrightarrow>
     starts_with ''/admin/credit-grants/'' path \<and> (ends_with ''/expire'' path \<or> ends_with ''/revoke'' path)"

definition voucher_lifecycle_write_path :: "string \<Rightarrow> bool" where
  "voucher_lifecycle_write_path path \<longleftrightarrow>
     starts_with ''/admin/voucher-issuances/'' path \<and> ends_with ''/revoke'' path
   \<or> starts_with ''/admin/voucher-issuance-batches/'' path \<and> ends_with ''/revoke'' path"

definition voucher_batch_read_detail_path :: "string \<Rightarrow> bool" where
  "voucher_batch_read_detail_path path \<longleftrightarrow>
     starts_with ''/admin/voucher-issuance-batches/'' path \<and> \<not> ends_with ''/revoke'' path"

definition wallet_remaining_balance_path :: "string \<Rightarrow> bool" where
  "wallet_remaining_balance_path path \<longleftrightarrow>
     starts_with ''/billing/wallets/'' path \<and> ends_with ''/remaining-balance'' path"

text \<open>\<open>Uuid::parse_str\<close> is a parameter.\<close>

definition wallet_id_from_remaining_balance_path :: "(string \<Rightarrow> uuid option) \<Rightarrow> string \<Rightarrow> uuid option" where
  "wallet_id_from_remaining_balance_path parse_uuid path =
     Option.bind (strip_prefix ''/billing/wallets/'' path) (\<lambda>rest.
     Option.bind (strip_suffix ''/remaining-balance'' rest) (\<lambda>v. parse_uuid (trim_matches (CHR ''/'') v)))"

definition billing_read_path :: "string \<Rightarrow> bool" where
  "billing_read_path path \<longleftrightarrow>
     path \<in> {''/admin/billing/reconciliation'', ''/admin/price-versions'', ''/admin/ledger/entries'',
       ''/admin/credit-grants'', ''/admin/voucher-issuances'', ''/admin/subscriptions/scheduler-worker'',
       ''/admin/subscriptions/run-due-scheduler-events''}
   \<or> subscription_scheduler_event_execute_path path \<or> voucher_batch_read_detail_path path
   \<or> credit_grant_read_detail_path path \<or> wallet_remaining_balance_path path"

definition billing_adjust_path :: "string \<Rightarrow> string \<Rightarrow> bool" where
  "billing_adjust_path req_method path \<longleftrightarrow>
     req_method = ''POST'' \<and>
       path \<in> {''/admin/price-versions'', ''/admin/credit-grants'', ''/admin/voucher-issuances'',
         ''/admin/voucher-issuance-batches'', ''/admin/ledger/adjustments/dry-run'',
         ''/admin/subscriptions/scheduler-plan'', ''/billing/vouchers/redeem'', ''/billing/opening-balance-imports''}
   \<or> req_method = ''POST'' \<and> subscription_scheduler_event_lease_path path
   \<or> req_method = ''POST'' \<and> subscription_scheduler_event_execute_path path
   \<or> req_method = ''POST'' \<and> (credit_grant_lifecycle_write_path path \<or> voucher_lifecycle_write_path path)"

definition alert_webhook_path :: "string \<Rightarrow> bool" where
  "alert_webhook_path path \<longleftrightarrow> path = ''/admin/alerts/webhook/dry-run''"

definition prompt_eval_shadow_path :: "string \<Rightarrow> bool" where
  "prompt_eval_shadow_path path \<longleftrightarrow> path = ''/admin/prompt-eval-shadow/dry-run''"

definition provider_manage_path :: "string \<Rightarrow> bool" where
  "provider_manage_path path \<longleftrightarrow>
     path = ''/admin/distribution/readiness''
   \<or> path = ''/admin/providers'' \<or> starts_with ''/admin/providers/'' path
   \<or> path = ''/admin/channels'' \<or> starts_with ''/admin/channels/'' path
   \<or> path = ''/admin/models'' \<or> starts_with ''/admin/models/'' path
   \<or> path = ''/admin/model-associations'' \<or> starts_with ''/admin/model-associations/'' path"

definition key_manage_path :: "string \<Rightarrow> bool" where
  "key_manage_path path \<longleftrightarrow>
     path = ''/admin/provider-keys'' \<or> starts_with ''/admin/provider-keys/'' path
   \<or> path = ''/admin/enterprise/identity-connections''
   \<or> path = ''/admin/enterprise/identity-connections/validation-plan''
   \<or> path = ''/admin/enterprise/identity-connections/oidc/validate-code-plan''
   \<or> path = ''/admin/enterprise/identity-connections/oidc/execute-validated-login''
   \<or> path = ''/admin/enterprise/identity-connections/saml/validate-acs-plan''
   \<or> path = ''/admin/enterprise/identity-connections/saml/execute-validated-acs''
   \<or> path = ''/admin/enterprise/identity-bindings/plan''
   \<or> path = ''/admin/enterprise/identity-sessions/issue-plan''
   \<or> path = ''/admin/enterprise/accounts'' \<or> path = ''/admin/enterprise/sales-dashboard''
   \<or> path = ''/admin/settings/network-security''
   \<or> path = ''/admin/api-key-profiles'' \<or> starts_with ''/admin/api-key-profiles/'' path
   \<or> path = ''/admin/virtual-keys'' \<or> starts_with ''/admin/virtual-keys/'' path"

definition user_manage_path :: "string \<Rightarrow> bool" where
  "user_manage_path path \<longleftrightarrow> path = ''/admin/users'' \<or> starts_with ''/admin/users/'' path"

definition permission_for_admin_request :: "string \<Rightarrow> string \<Rightarrow> permission option" where
  "permission_for_admin_request req_method path =
     (if request_logs_path path then Some Perm_LogReadMetadata
      else if audit_logs_path path then Some Perm_AuditRead
      else if billing_adjust_path req_method path then Some Perm_BillingAdjust
      else if billing_read_path path then Some Perm_BillingRead
      else if alert_webhook_path path then Some Perm_ProviderManage
      else if prompt_eval_shadow_path path then Some Perm_ProviderManage
      else if provider_manage_path path then Some Perm_ProviderManage
      else if key_manage_path path then Some Perm_KeyManage
      else if user_manage_path path then Some Perm_KeyManage
      else None)"

section \<open>Capabilities\<close>

record control_plane_capability =
  cap_key :: string
  cap_method :: string
  cap_path :: string
  cap_required :: "permission option"
  cap_credential_sensitive_read :: bool
  cap_secret_safe :: bool

record control_plane_capability_summary =
  cs_roles :: "string list"
  cs_personas :: "string list"
  cs_allowed :: "string list"
  cs_denied :: "string list"
  cs_secret_safe :: bool

definition CONTROL_PLANE_CAPABILITIES :: "control_plane_capability list" where
  "CONTROL_PLANE_CAPABILITIES = [
     \<lparr>cap_key = ''provider.read'', cap_method = ''GET'', cap_path = ''/admin/providers'',
      cap_required = Some Perm_ProviderManage, cap_credential_sensitive_read = True, cap_secret_safe = True\<rparr>,
     \<lparr>cap_key = ''provider.manage'', cap_method = ''PATCH'', cap_path = ''/admin/providers/{id}'',
      cap_required = Some Perm_ProviderManage, cap_credential_sensitive_read = False, cap_secret_safe = True\<rparr>,
     \<lparr>cap_key = ''key.read'', cap_method = ''GET'', cap_path = ''/admin/provider-keys'',
      cap_required = Some Perm_KeyManage, cap_credential_sensitive_read = True, cap_secret_safe = True\<rparr>,
     \<lparr>cap_key = ''key.manage'', cap_method = ''POST'', cap_path = ''/admin/provider-keys'',
      cap_required = Some Perm_KeyManage, cap_credential_sensitive_read = False, cap_secret_safe = True\<rparr>,
     \<lparr>cap_key = ''user.manage.read'', cap_method = ''GET'', cap_path = ''/admin/users'',
      cap_required = Some Perm_KeyManage, cap_credential_sensitive_read = False, cap_secret_safe = True\<rparr>,
     \<lparr>cap_key = ''user.status.manage'', cap_method = ''PATCH'', cap_path = ''/admin/users/{id}/status'',
      cap_required = Some Perm_KeyManage, cap_credential_sensitive_read = False, cap_secret_safe = True\<rparr>,
     \<lparr>cap_key = ''enterprise_identity.read'', cap_method = ''GET'', cap_path = ''/admin/enterprise/identity-connections'',
      cap_required = Some Perm_KeyManage, cap_credential_sensitive_read = True, cap_secret_safe = True\<rparr>,
     \<lparr>cap_key = ''enterprise_identity.validation_plan'', cap_method = ''GET'', cap_path = ''/admin/enterprise/identity-connections/validation-plan'',
      cap_required = Some Perm_KeyManage, cap_credential_sensitive_read = True, cap_secret_safe = True\<rparr>,
     \<lparr>cap_key = ''enterprise_identity.oidc_validate_code_plan'', cap_method = ''POST'', cap_path = ''/admin/enterprise/identity-connections/oidc/validate-code-plan'',
      cap_required = Some Perm_KeyManage, cap_credential_sensitive_read = True, cap_secret_safe = True\<rparr>,
     \<lparr>cap_key = ''enterprise_identity.oidc_execute_validated_login'', cap_method = ''POST'', cap_path = ''/admin/enterprise/identity-connections/oidc/execute-validated-login'',
      cap_required = Some Perm_KeyManage, cap_credential_sensitive_read = True, cap_secret_safe = True\<rparr>,
     \<lparr>cap_key = ''enterprise_identity.saml_validate_acs_plan'', cap_method = ''POST'', cap_path = ''/admin/enterprise/identity-connections/saml/validate-acs-plan'',
      cap_required = Some Perm_KeyManage, cap_credential_sensitive_read = True, cap_secret_safe = True\<rparr>,
     \<lparr>cap_key = ''enterprise_identity.saml_execute_validated_acs'', cap_method = ''POST'', cap_path = ''/admin/enterprise/identity-connections/saml/execute-validated-acs'',
      cap_required = Some Perm_KeyManage, cap_credential_sensitive_read = True, cap_secret_safe = True\<rparr>,
     \<lparr>cap_key = ''enterprise_identity.binding_plan'', cap_method = ''POST'', cap_path = ''/admin/enterprise/identity-bindings/plan'',
      cap_required = Some Perm_KeyManage, cap_credential_sensitive_read = True, cap_secret_safe = True\<rparr>,
     \<lparr>cap_key = ''enterprise_identity.session_issue_plan'', cap_method = ''POST'', cap_path = ''/admin/enterprise/identity-sessions/issue-plan'',
      cap_required = Some Perm_KeyManage, cap_credential_sensitive_read = True, cap_secret_safe = True\<rparr>,
     \<lparr>cap_key = ''enterprise_accounts.read'', cap_method = ''GET'', cap_path = ''/admin/enterprise/accounts'',
      cap_required = Some Perm_KeyManage, cap_credential_sensitive_read = True, cap_secret_safe = True\<rparr>,
     \<lparr>cap_key = ''enterprise_sales_dashboard.read'', cap_method = ''GET'', cap_path = ''/admin/enterprise/sales-dashboard'',
      cap_required = Some Perm_KeyManage, cap_credential_sensitive_read = True, cap_secret_safe = True\<rparr>,
     \<lparr>cap_key = ''enterprise_accounts.write'', cap_method = ''PATCH'', cap_path = ''/admin/enterprise/accounts'',
      cap_required = Some Perm_KeyManage, cap_credential_sensitive_read = False, cap_secret_safe = True\<rparr>,
     \<lparr>cap_key = ''provider_key.recovery'', cap_method = ''POST'', cap_path = ''/admin/provider-keys/{id}/recovery'',
      cap_required = Some Perm_KeyManage, cap_credential_sensitive_read = False, cap_secret_safe = True\<rparr>,
     \<lparr>cap_key = ''provider_key.rotate'', cap_method = ''POST'', cap_path = ''/admin/provider-keys/{id}/rotate'',
      cap_required = Some Perm_KeyManage, cap_credential_sensitive_read = False, cap_secret_safe = True\<rparr>,
     \<lparr>cap_key = ''request_log.read'', cap_method = ''GET'', cap_path = ''/admin/request-logs'',
      cap_required = Some Perm_LogReadMetadata, cap_credential_sensitive_read = False, cap_secret_safe = True\<rparr>,
     \<lparr>cap_key = ''request_log.payload_preview'', cap_method = ''GET'', cap_path = ''/admin/request-logs/{id}/payload'',
      cap_required = Some Perm_LogReadMetadata, cap_credential_sensitive_read = False, cap_secret_safe = True\<rparr>,
     \<lparr>cap_key = ''trace.read'', cap_method = ''GET'', cap_path = ''/admin/traces/{trace_id}'',
      cap_required = Some Perm_LogReadMetadata, cap_credential_sensitive_read = False, cap_secret_safe = True\<rparr>,
     \<lparr>cap_key = ''audit.read'', cap_method = ''GET'', cap_path = ''/admin/audit-logs'',
      cap_required = Some Perm_AuditRead, cap_credential_sensitive_read = False, cap_secret_safe = True\<rparr>,
     \<lparr>cap_key = ''billing.read'', cap_method = ''GET'', cap_path = ''/admin/ledger/entries'',
      cap_required = Some Perm_BillingRead, cap_credential_sensitive_read = False, cap_secret_safe = True\<rparr>,
     \<lparr>cap_key = ''price.read'', cap_method = ''GET'', cap_path = ''/admin/price-versions'',
      cap_required = Some Perm_BillingRead, cap_credential_sensitive_read = False, cap_secret_safe = True\<rparr>,
     \<lparr>cap_key = ''reconciliation.read'', cap_method = ''GET'', cap_path = ''/admin/billing/reconciliation'',
      cap_required = Some Perm_BillingRead, cap_credential_sensitive_read = False, cap_secret_safe = True\<rparr>,
     \<lparr>cap_key = ''credit_grant.read'', cap_method = ''GET'', cap_path = ''/admin/credit-grants'',
      cap_required = Some Perm_BillingRead, cap_credential_sensitive_read = False, cap_secret_safe = True\<rparr>,
     \<lparr>cap_key = ''credit_grant.read_detail'', cap_method = ''GET'', cap_path = ''/admin/credit-grants/{id}'',
      cap_required = Some Perm_BillingRead, cap_credential_sensitive_read = False, cap_secret_safe = True\<rparr>,
     \<lparr>cap_key = ''wallet.remaining_balance.read'', cap_method = ''GET'', cap_path = ''/billing/wallets/{id}/remaining-balance'',
      cap_required = Some Perm_BillingRead, cap_credential_sensitive_read = False, cap_secret_safe = True\<rparr>,
     \<lparr>cap_key = ''price_version.create'', cap_method = ''POST'', cap_path = ''/admin/price-versions'',
      cap_required = Some Perm_BillingAdjust, cap_credential_sensitive_read = False, cap_secret_safe = True\<rparr>,
     \<lparr>cap_key = ''credit_grant.create'', cap_method = ''POST'', cap_path = ''/admin/credit-grants'',
      cap_required = Some Perm_BillingAdjust, cap_credential_sensitive_read = False, cap_secret_safe = True\<rparr>,
     \<lparr>cap_key = ''credit_grant.expire'', cap_method = ''POST'', cap_path = ''/admin/credit-grants/{id}/expire'',
      cap_required = Some Perm_BillingAdjust, cap_credential_sensitive_read = False, cap_secret_safe = True\<rparr>,
     \<lparr>cap_key = ''credit_grant.revoke'', cap_method = ''POST'', cap_path = ''/admin/credit-grants/{id}/revoke'',
      cap_required = Some Perm_BillingAdjust, cap_credential_sensitive_read = False, cap_secret_safe = True\<rparr>,
     \<lparr>cap_key = ''voucher.read'', cap_method = ''GET'', cap_path = ''/admin/voucher-issuances'',
      cap_required = Some Perm_BillingRead, cap_credential_sensitive_read = False, cap_secret_safe = True\<rparr>,
     \<lparr>cap_key = ''voucher.issue'', cap_method = ''POST'', cap_path = ''/admin/voucher-issuances'',
      cap_required = Some Perm_BillingAdjust, cap_credential_sensitive_read = False, cap_secret_safe = True\<rparr>,
     \<lparr>cap_key = ''voucher.revoke'', cap_method = ''POST'', cap_path = ''/admin/voucher-issuances/{id}/revoke'',
      cap_required = Some Perm_BillingAdjust, cap_credential_sensitive_read = False, cap_secret_safe = True\<rparr>,
     \<lparr>cap_key = ''voucher.issue_batch'', cap_method = ''POST'', cap_path = ''/admin/voucher-issuance-batches'',
      cap_required = Some Perm_BillingAdjust, cap_credential_sensitive_read = False, cap_secret_safe = True\<rparr>,
     \<lparr>cap_key = ''voucher.batch_read'', cap_method = ''GET'', cap_path = ''/admin/voucher-issuance-batches/{batch_hash}'',
      cap_required = Some Perm_BillingRead, cap_credential_sensitive_read = False, cap_secret_safe = True\<rparr>,
     \<lparr>cap_key = ''voucher.batch_revoke'', cap_method = ''POST'', cap_path = ''/admin/voucher-issuance-batches/{batch_hash}/revoke'',
      cap_required = Some Perm_BillingAdjust, cap_credential_sensitive_read = False, cap_secret_safe = True\<rparr>,
     \<lparr>cap_key = ''voucher.redeem'', cap_method = ''POST'', cap_path = ''/billing/vouchers/redeem'',
      cap_required = Some Perm_BillingAdjust, cap_credential_sensitive_read = False, cap_secret_safe = True\<rparr>,
     \<lparr>cap_key = ''ledger_adjustment.dry_run'', cap_method = ''POST'', cap_path = ''/admin/ledger/adjustments/dry-run'',
      cap_required = Some Perm_BillingAdjust, cap_credential_sensitive_read = False, cap_secret_safe = True\<rparr>,
     \<lparr>cap_key = ''manual_test.run'', cap_method = ''POST'', cap_path = ''/admin/channels/{id}/manual-test'',
      cap_required = Some Perm_ProviderManage, cap_credential_sensitive_read = False, cap_secret_safe = True\<rparr>,
     \<lparr>cap_key = ''provider_health.read'', cap_method = ''GET'', cap_path = ''/admin/providers/health-summary'',
      cap_required = Some Perm_ProviderManage, cap_credential_sensitive_read = True, cap_secret_safe = True\<rparr>,
     \<lparr>cap_key = ''distribution_readiness.read'', cap_method = ''GET'', cap_path = ''/admin/distribution/readiness'',
      cap_required = Some Perm_ProviderManage, cap_credential_sensitive_read = True, cap_secret_safe = True\<rparr>,
     \<lparr>cap_key = ''alert_webhook.validate'', cap_method = ''POST'', cap_path = ''/admin/alerts/webhook/dry-run'',
      cap_required = Some Perm_ProviderManage, cap_credential_sensitive_read = False, cap_secret_safe = True\<rparr>,
     \<lparr>cap_key = ''prompt_eval_shadow.validate'', cap_method = ''POST'', cap_path = ''/admin/prompt-eval-shadow/dry-run'',
      cap_required = Some Perm_ProviderManage, cap_credential_sensitive_read = False, cap_secret_safe = True\<rparr>,
     \<lparr>cap_key = ''health.liveness'', cap_method = ''GET'', cap_path = ''/healthz'',
      cap_required = None, cap_credential_sensitive_read = False, cap_secret_safe = True\<rparr>,
     \<lparr>cap_key = ''health.readiness'', cap_method = ''GET'', cap_path = ''/readyz'',
      cap_required = None, cap_credential_sensitive_read = False, cap_secret_safe = True\<rparr>]"

definition role_allows_control_plane_permission :: "role \<Rightarrow> permission \<Rightarrow> bool" where
  "role_allows_control_plane_permission r p =
     (if p = Perm_KeyManage then r \<in> {Role_Owner, Role_Admin, Role_Ops} else role_allows r p)"

definition control_plane_roles_allow_permission :: "role list \<Rightarrow> permission \<Rightarrow> bool" where
  "control_plane_roles_allow_permission roles p \<longleftrightarrow>
     roles \<noteq> [] \<and> list_ex (\<lambda>r. role_allows_control_plane_permission r p) roles"

fun role_persona :: "role \<Rightarrow> string" where
  "role_persona Role_Owner = ''SuperAdmin''"
| "role_persona Role_Admin = ''TenantAdmin''"
| "role_persona Role_Ops = ''Ops''"
| "role_persona Role_Billing = ''Billing''"
| "role_persona Role_Developer = ''Developer''"
| "role_persona Role_Viewer = ''Viewer''"

definition capability_allowed_for_roles :: "role list \<Rightarrow> control_plane_capability \<Rightarrow> bool" where
  "capability_allowed_for_roles roles c =
     (case cap_required c of Some p \<Rightarrow> control_plane_roles_allow_permission roles p | None \<Rightarrow> True)"

definition capability_summary_for_roles :: "role list \<Rightarrow> control_plane_capability_summary" where
  "capability_summary_for_roles roles =
     \<lparr>cs_roles = map role_as_str roles, cs_personas = map role_persona roles,
      cs_allowed = map cap_key (filter (capability_allowed_for_roles roles) CONTROL_PLANE_CAPABILITIES),
      cs_denied = map cap_key (filter (\<lambda>c. \<not> capability_allowed_for_roles roles c) CONTROL_PLANE_CAPABILITIES),
      cs_secret_safe = True\<rparr>"

section \<open>The middleware\<close>

definition session_roles :: "stored_admin_session \<Rightarrow> role list" where
  "session_roles s = su_roles (ss_user s)"

text \<open>The test both branches of the middleware make of a session.\<close>

definition session_permitted :: "stored_admin_session \<Rightarrow> permission option \<Rightarrow> bool" where
  "session_permitted s required =
     (case required of
        None \<Rightarrow> True
      | Some p \<Rightarrow>
          if p = Perm_KeyManage then control_plane_roles_allow_permission (session_roles s) p
          else require_permission (session_roles s) p = Inr ())"

text \<open>What becomes of a request: the next handler runs with nothing, a session or a wallet principal attached, or
  an error is returned.\<close>

datatype rbac_outcome =
  RO_Next | RO_NextSession stored_admin_session | RO_NextPrincipal remaining_balance_principal | RO_AuthError auth_error

definition require_admin_rbac ::
  "(string \<Rightarrow> string) \<Rightarrow> (int \<Rightarrow> string) \<Rightarrow> (string \<Rightarrow> uuid option) \<Rightarrow> (nat \<Rightarrow> bool) \<Rightarrow> admin_db \<Rightarrow> int \<Rightarrow> header_map
   \<Rightarrow> string \<Rightarrow> string \<Rightarrow> rbac_outcome" where
  "require_admin_rbac sha time_text parse_uuid q db now headers req_method path =
     (if is_public_admin_path path then RO_Next
      else let required = permission_for_admin_request req_method path;
               authenticated = authenticate_headers sha time_text q db now headers;
               by_wallet = (case wallet_id_from_remaining_balance_path parse_uuid path of
                              None \<Rightarrow> RO_AuthError auth_forbidden
                            | Some wallet_id \<Rightarrow>
                                (case authenticate_remaining_balance_principal sha (\<lambda>n. q (n + 3)) db now headers wallet_id of
                                   Inr p \<Rightarrow> RO_NextPrincipal p
                                 | Inl e \<Rightarrow> RO_AuthError e))
           in if wallet_remaining_balance_path path
              then (case authenticated of
                      Inr s \<Rightarrow> if session_roles s \<noteq> [] \<and> session_permitted s required then RO_NextSession s
                               else by_wallet
                    | Inl _ \<Rightarrow> by_wallet)
              else (case authenticated of
                      Inl e \<Rightarrow> RO_AuthError e
                    | Inr s \<Rightarrow>
                        if session_roles s = [] then RO_AuthError auth_forbidden
                        else if \<not> session_permitted s required then RO_AuthError auth_forbidden
                        else RO_NextSession s))"

section \<open>What a session may do\<close>

lemma session_permitted_iff:
  "session_roles s \<noteq> [] \<Longrightarrow> session_permitted s required \<longleftrightarrow>
     (\<forall>p. required = Some p \<longrightarrow> control_plane_roles_allow_permission (session_roles s) p)"
  by (auto simp: session_permitted_def control_plane_roles_allow_permission_def require_permission_def
      any_role_allows_def role_allows_control_plane_permission_def list_ex_iff split: option.split if_splits)

text \<open>A path template with its placeholder filled.\<close>

fun fill :: "string \<Rightarrow> string \<Rightarrow> string" where
  "fill x [] = []"
| "fill x (c # cs) = (if c = CHR ''{'' then x @ tl (dropWhile (\<lambda>d. d \<noteq> CHR ''}'') cs) else c # fill x cs)"

lemma last_segment:
  assumes "d \<notin> set p" "d \<notin> set x"
  shows "ends_with (d # p) (q @ d # x) \<longleftrightarrow> p = x"
proof
  assume "ends_with (d # p) (q @ d # x)"
  then obtain t where "q @ d # x = t @ d # p" by (auto simp: ends_with_iff)
  then have "takeWhile (\<lambda>c. c \<noteq> d) (rev (q @ d # x)) = takeWhile (\<lambda>c. c \<noteq> d) (rev (t @ d # p))" by simp
  moreover have "takeWhile (\<lambda>c. c \<noteq> d) (rev (r @ d # y)) = rev y" if "d \<notin> set y" for r y
    using that by (subst rev_append) (auto simp: takeWhile_append)
  ultimately show "p = x" using assms by simp
qed (auto simp: ends_with_iff)

lemmas path_defs = is_public_admin_path_def request_logs_path_def audit_logs_path_def billing_adjust_path_def
  billing_read_path_def alert_webhook_path_def prompt_eval_shadow_path_def provider_manage_path_def
  key_manage_path_def user_manage_path_def subscription_scheduler_event_execute_path_def
  subscription_scheduler_event_lease_path_def credit_grant_read_detail_path_def
  credit_grant_lifecycle_write_path_def voucher_lifecycle_write_path_def voucher_batch_read_detail_path_def
  wallet_remaining_balance_path_def

lemma capability_permissions:
  assumes "CHR ''/'' \<notin> set x" "x \<noteq> ''expire''" "x \<noteq> ''revoke''"
  shows "list_all (\<lambda>c. permission_for_admin_request (cap_method c) (fill x (cap_path c)) = cap_required c)
    CONTROL_PLANE_CAPABILITIES"
proof -
  have "\<not> ends_with ''/expire'' (''/admin/credit-grants/'' @ x)" "\<not> ends_with ''/revoke'' (''/admin/credit-grants/'' @ x)"
    "\<not> ends_with ''/revoke'' (''/admin/voucher-issuance-batches/'' @ x)"
    using last_segment [of "CHR ''/''" "''expire''" x "''/admin/credit-grants''"]
      last_segment [of "CHR ''/''" "''revoke''" x "''/admin/credit-grants''"]
      last_segment [of "CHR ''/''" "''revoke''" x "''/admin/voucher-issuance-batches''"] assms by auto
  then show ?thesis
    by (simp add: CONTROL_PLANE_CAPABILITIES_def permission_for_admin_request_def path_defs ends_with_def)
qed

lemma distinct_capability_keys: "distinct (map cap_key CONTROL_PLANE_CAPABILITIES)"
  by code_simp

end
