(* ===== verification/SessionSafety.thy ===== *)
theory SessionSafety
  imports AdminSessions
begin

text \<open>
  What sessions guarantee: an issued token authenticates its user, and only that user, while its row is live, and never
  again after a logout, whatever else happens to the tables.
\<close>

section \<open>The roles of a user\<close>

lemma collected_roles:
  defines "collect \<equiv> \<lambda>roles raw. case role_from_str raw of
             Inr role \<Rightarrow> if role \<in> set roles then roles else roles @ [role] | Inl _ \<Rightarrow> roles"
  shows "distinct acc \<Longrightarrow> distinct (foldl collect acc rows)
    \<and> set (foldl collect acc rows) = set acc \<union> {r. \<exists>raw\<in>set rows. role_from_str raw = Inr r}"
proof (induction rows arbitrary: acc)
  case (Cons raw rows)
  have "distinct (collect acc raw)" "set (collect acc raw) = set acc \<union> {r. role_from_str raw = Inr r}"
    using Cons.prems by (auto simp: collect_def split: sum.split)
  with Cons.IH [of "collect acc raw"] show ?case by auto
qed simp

lemma role_rank_inj: "inj role_rank"
proof (rule injI)
  fix a b
  assume "role_rank a = role_rank b"
  then show "a = b" by (cases a; cases b) (simp_all add: role_rank_def ROLE_ALL_def)
qed

lemma sort_roles_eq:
  assumes "distinct xs"
  shows "sort_roles xs = filter (\<lambda>r. r \<in> set xs) ROLE_ALL"
proof (rule map_sorted_distinct_set_unique [where f = role_rank])
  have ranks: "map role_rank ROLE_ALL = [0..<6]"
    by (simp add: role_rank_def ROLE_ALL_def upt_rec)
  have all: "set ROLE_ALL = UNIV"
    by (auto simp: ROLE_ALL_def intro: role.exhaust)
  show "inj_on role_rank (set (sort_roles xs) \<union> set (filter (\<lambda>r. r \<in> set xs) ROLE_ALL))"
    using role_rank_inj by (rule inj_on_subset) simp
  show "sorted (map role_rank (sort_roles xs))" by (simp add: sort_roles_def)
  show "distinct (map role_rank (sort_roles xs))"
    using assms role_rank_inj by (auto simp: sort_roles_def distinct_map intro: inj_on_subset)
  show "sorted (map role_rank (filter (\<lambda>r. r \<in> set xs) ROLE_ALL))"
    using sorted_filter [of role_rank ROLE_ALL "\<lambda>r. r \<in> set xs"] by (simp add: ranks)
  show "distinct (map role_rank (filter (\<lambda>r. r \<in> set xs) ROLE_ALL))"
    by (rule distinct_map_filter) (simp add: ranks)
  show "set (sort_roles xs) = set (filter (\<lambda>r. r \<in> set xs) ROLE_ALL)"
    by (simp add: sort_roles_def all)
qed

text \<open>A user has the roles of their memberships in active teams and projects, in the fixed order, whatever the order of
  the rows.\<close>

definition has_role :: "admin_db \<Rightarrow> uuid \<Rightarrow> uuid \<Rightarrow> role \<Rightarrow> bool" where
  "has_role db tenant_id user_id r \<longleftrightarrow>
     (\<exists>m\<in>set (db_members db). mem_tenant_id m = tenant_id \<and> mem_user_id m = user_id \<and> mem_scope_active m
        \<and> role_from_str (mem_role m) = Inr r)"

lemma list_user_roles_eq:
  "list_user_roles True db tenant_id user_id = Inr (filter (has_role db tenant_id user_id) ROLE_ALL)"
proof -
  let ?rows = "remdups (map mem_role (filter (\<lambda>m. mem_tenant_id m = tenant_id \<and> mem_user_id m = user_id \<and> mem_scope_active m)
                   (db_members db)))"
  note roles = collected_roles [of "[]" ?rows, simplified]
  have "(\<lambda>r. r \<in> {r. \<exists>raw\<in>set ?rows. role_from_str raw = Inr r}) = has_role db tenant_id user_id"
    by (auto simp: has_role_def fun_eq_iff)
  with roles show ?thesis
    by (simp add: list_user_roles_def Let_def sort_roles_eq)
qed

section \<open>The session table over time\<close>

text \<open>What may happen between two requests: a session is created, by a login or for an enterprise identity, someone
  logs out, rows are marked as expired, or other handlers change the other tables. No other code writes sessions.\<close>

inductive session_step :: "(string \<Rightarrow> string) \<Rightarrow> (int \<Rightarrow> string) \<Rightarrow> admin_db \<Rightarrow> admin_db \<Rightarrow> bool"
  for sha :: "string \<Rightarrow> string" and time_text :: "int \<Rightarrow> string" where
  SS_Create: "session_step sha time_text db
     (fst (create_session time_text q db now new_id tenant_id user_id prefix token_hash ttl))"
| SS_Logout: "session_step sha time_text db (fst (logout sha time_text secure q db now headers))"
| SS_Expire: "session_step sha time_text db (fst (expire_enterprise_identity_sessions selected ok db now tenant_id))"
| SS_Other: "db_sessions db' = db_sessions db \<Longrightarrow> session_step sha time_text db db'"

definition session_reaches :: "(string \<Rightarrow> string) \<Rightarrow> (int \<Rightarrow> string) \<Rightarrow> admin_db \<Rightarrow> admin_db \<Rightarrow> bool" where
  "session_reaches sha time_text = (session_step sha time_text)\<^sup>*\<^sup>*"

definition session_keys_unique :: "admin_db \<Rightarrow> bool" where
  "session_keys_unique db \<longleftrightarrow> distinct (map ses_token_hash (db_sessions db)) \<and> distinct (map ses_id (db_sessions db))"

text \<open>What no step changes of a row: everything but its status and the time of revocation, and a row that is not active
  stays so.\<close>

definition row_succeeds :: "session_row \<Rightarrow> session_row \<Rightarrow> bool" where
  "row_succeeds s s' \<longleftrightarrow> ses_id s' = ses_id s \<and> ses_tenant_id s' = ses_tenant_id s \<and> ses_user_id s' = ses_user_id s
     \<and> ses_token_lookup_prefix s' = ses_token_lookup_prefix s \<and> ses_token_hash s' = ses_token_hash s
     \<and> ses_expires_at s' = ses_expires_at s \<and> (ses_status s \<noteq> ''active'' \<longrightarrow> ses_status s' \<noteq> ''active'')"

lemma row_succeeds_refl [simp]: "row_succeeds s s"
  by (simp add: row_succeeds_def)

lemma row_succeeds_trans: "row_succeeds s s' \<Longrightarrow> row_succeeds s' s'' \<Longrightarrow> row_succeeds s s''"
  by (simp add: row_succeeds_def)

definition table_succeeds :: "session_row list \<Rightarrow> session_row list \<Rightarrow> bool" where
  "table_succeeds t t' \<longleftrightarrow> (\<exists>old new. t' = old @ new \<and> list_all2 row_succeeds t old)"

lemma table_succeeds_refl [simp]: "table_succeeds t t"
  unfolding table_succeeds_def by (rule exI [of _ t], rule exI [of _ "[]"]) (simp add: list_all2_refl)

lemma table_succeeds_trans: "table_succeeds t t' \<Longrightarrow> table_succeeds t' t'' \<Longrightarrow> table_succeeds t t''"
  unfolding table_succeeds_def
proof (elim exE conjE)
  fix old new old' new'
  assume a: "t' = old @ new" "list_all2 row_succeeds t old" "t'' = old' @ new'" "list_all2 row_succeeds t' old'"
  then obtain o1 o2 where o: "old' = o1 @ o2" "list_all2 row_succeeds old o1"
    by (auto simp: list_all2_append1)
  have "list_all2 row_succeeds t o1"
    using list_all2_trans [OF row_succeeds_trans a(2) o(2)] .
  with a(3) o(1) show "\<exists>old new. t'' = old @ new \<and> list_all2 row_succeeds t old" by auto
qed

lemma table_succeeds_row:
  assumes "table_succeeds t t'" "s \<in> set t"
  obtains s' where "s' \<in> set t'" "row_succeeds s s'"
proof -
  from assms(1) obtain old new where o: "t' = old @ new" "list_all2 row_succeeds t old" by (auto simp: table_succeeds_def)
  from assms(2) obtain i where "i < length t" "s = t ! i" by (auto simp: in_set_conv_nth)
  with o have "old ! i \<in> set t'" "row_succeeds s (old ! i)" by (auto simp: list_all2_conv_all_nth)
  then show thesis by (rule that)
qed

lemma table_succeeds_append [simp]: "table_succeeds t (t @ new)"
  unfolding table_succeeds_def by (rule exI [of _ t], rule exI [of _ new]) (simp add: list_all2_refl)

lemma create_session_table:
  "table_succeeds (db_sessions db) (db_sessions (fst (create_session time_text q db now i t u p h ttl)))"
  by (simp add: create_session_def Let_def)

lemma table_succeeds_map: "(\<And>s. row_succeeds s (f s)) \<Longrightarrow> table_succeeds t (map f t)"
  unfolding table_succeeds_def by (rule exI [of _ "map f t"], rule exI [of _ "[]"]) (simp add: list_all2_conv_all_nth)

lemma revoke_session_table: "table_succeeds (db_sessions db) (db_sessions (fst (revoke_session ok db now t i)))"
  by (auto simp: revoke_session_def row_succeeds_def intro!: table_succeeds_map)

lemma expire_sessions_table:
  "table_succeeds (db_sessions db) (db_sessions (fst (expire_enterprise_identity_sessions selected ok db now t)))"
  by (auto simp: expire_enterprise_identity_sessions_def row_succeeds_def intro!: table_succeeds_map)

lemma revoke_session_row:
  assumes "revoke_session ok db now (ses_tenant_id s) (ses_id s) = (db', Inr ())" "s \<in> set (db_sessions db)"
  shows "\<exists>r\<in>set (db_sessions db'). ses_token_hash r = ses_token_hash s \<and> ses_status r \<noteq> ''active''"
proof -
  let ?f = "\<lambda>r. if ses_tenant_id r = ses_tenant_id s \<and> ses_id r = ses_id s \<and> ses_status r = ''active''
    then r\<lparr>ses_status := ''revoked'', ses_revoked_at := Some (unwrap_or now (ses_revoked_at r))\<rparr> else r"
  have "db_sessions db' = map ?f (db_sessions db)"
    using assms(1) by (auto simp: revoke_session_def split: if_splits)
  then have "?f s \<in> set (db_sessions db')" using assms(2) by auto
  moreover have "ses_token_hash (?f s) = ses_token_hash s \<and> ses_status (?f s) \<noteq> ''active''" by simp
  ultimately show ?thesis by blast
qed

lemma logout_table: "table_succeeds (db_sessions db) (db_sessions (fst (logout sha time_text secure q db now headers)))"
  using revoke_session_table unfolding logout_def
  by (auto split: sum.split prod.split) (metis fst_conv)+

lemma session_reaches_table:
  "session_reaches sha time_text db db' \<Longrightarrow> table_succeeds (db_sessions db) (db_sessions db')"
  unfolding session_reaches_def
proof (induction rule: rtranclp_induct)
  case (step db' db'')
  from step.hyps(2) have "table_succeeds (db_sessions db') (db_sessions db'')"
    by cases (simp_all add: create_session_table logout_table expire_sessions_table)
  with step.IH show ?case by (rule table_succeeds_trans)
qed simp

lemma create_session_unique:
  "session_keys_unique db \<Longrightarrow> session_keys_unique (fst (create_session time_text q db now i t u p h ttl))"
  by (auto simp: create_session_def Let_def session_keys_unique_def session_row_insertable_def)

lemma revoke_session_unique: "session_keys_unique db \<Longrightarrow> session_keys_unique (fst (revoke_session ok db now t i))"
proof -
  have "map ses_token_hash (db_sessions (fst (revoke_session ok db now t i))) = map ses_token_hash (db_sessions db)"
    "map ses_id (db_sessions (fst (revoke_session ok db now t i))) = map ses_id (db_sessions db)"
    by (simp_all add: revoke_session_def)
  then show "session_keys_unique db \<Longrightarrow> session_keys_unique (fst (revoke_session ok db now t i))"
    by (simp add: session_keys_unique_def)
qed

lemma logout_unique: "session_keys_unique db \<Longrightarrow> session_keys_unique (fst (logout sha time_text secure q db now headers))"
  using revoke_session_unique unfolding logout_def
  by (auto split: sum.split prod.split) (metis fst_conv)+

lemma expire_sessions_unique:
  "session_keys_unique db \<Longrightarrow> session_keys_unique (fst (expire_enterprise_identity_sessions selected ok db now t))"
proof -
  have "map ses_token_hash (db_sessions (fst (expire_enterprise_identity_sessions selected ok db now t))) =
      map ses_token_hash (db_sessions db)"
    "map ses_id (db_sessions (fst (expire_enterprise_identity_sessions selected ok db now t))) = map ses_id (db_sessions db)"
    by (simp_all add: expire_enterprise_identity_sessions_def)
  then show "session_keys_unique db \<Longrightarrow> session_keys_unique (fst (expire_enterprise_identity_sessions selected ok db now t))"
    by (simp add: session_keys_unique_def)
qed

lemma session_reaches_unique:
  "session_reaches sha time_text db db' \<Longrightarrow> session_keys_unique db \<Longrightarrow> session_keys_unique db'"
  unfolding session_reaches_def
proof (induction rule: rtranclp_induct)
  case (step db' db'')
  then have "session_keys_unique db'" by simp
  with step.hyps(2) show ?case
    by cases (simp_all add: create_session_unique logout_unique expire_sessions_unique, simp add: session_keys_unique_def)
qed simp

section \<open>Authentication of an issued token\<close>

lemma find_product_Some:
  "List.find P (List.product xs ys) = Some (x, y) \<Longrightarrow> P (x, y) \<and> x \<in> set xs \<and> y \<in> set ys"
  using find_SomeD [of P "List.product xs ys" "(x, y)"] by auto

lemma find_product_None: "List.find P (List.product xs ys) = None \<longleftrightarrow> (\<forall>x\<in>set xs. \<forall>y\<in>set ys. \<not> P (x, y))"
  by (auto simp: find_None_iff)

text \<open>The row and the user that a token selects.\<close>

definition token_selects :: "admin_db \<Rightarrow> int \<Rightarrow> parsed_session_token \<Rightarrow> session_row \<Rightarrow> user_row \<Rightarrow> bool" where
  "token_selects db now parsed s u \<longleftrightarrow> s \<in> set (db_sessions db) \<and> u \<in> set (db_users db)
     \<and> us_tenant_id u = ses_tenant_id s \<and> us_id u = ses_user_id s
     \<and> ses_token_lookup_prefix s = ps_prefix parsed \<and> ses_token_hash s = ps_token_hash parsed
     \<and> session_row_live now s \<and> user_row_live u"

lemma authenticate_selected:
  assumes "session_token_from_headers headers = Inr (Some c)" "parse_session_token sha (tc_token c) = Inr parsed"
    and "authenticate_headers sha time_text q db now headers = Inr session"
  obtains s u where "token_selects db now parsed s u" "ss_id session = ses_id s"
    "ss_expires_at session = time_text (ses_expires_at s)" "su_id (ss_user session) = us_id u"
    "su_tenant_id (ss_user session) = us_tenant_id u"
    "su_roles (ss_user session) = filter (has_role db (us_tenant_id u) (us_id u)) ROLE_ALL"
proof -
  from assms obtain s u user where su: "List.find (\<lambda>(s, u). us_tenant_id u = ses_tenant_id s \<and> us_id u = ses_user_id s
        \<and> ses_token_lookup_prefix s = ps_prefix parsed \<and> ses_token_hash s = ps_token_hash parsed
        \<and> session_row_live now s \<and> user_row_live u) (List.product (db_sessions db) (db_users db)) = Some (s, u)"
    "user_from_row (q 1) db u = Inr user"
    "session = \<lparr>ss_id = ses_id s, ss_user = user, ss_expires_at = time_text (ses_expires_at s)\<rparr>"
    by (auto simp: authenticate_headers_def find_active_session_by_token_def rbind_eq_Inr map_err_eq_Inr ok_or_eq_Inr
        split: if_splits option.splits prod.splits)
  have "q 1" using su(2) by (auto simp: user_from_row_def list_user_roles_def rbind_eq_Inr split: if_splits)
  then have "user = \<lparr>su_id = us_id u, su_tenant_id = us_tenant_id u, su_email = us_email u, su_display_name = us_display_name u,
      su_password_hash = us_password_hash u, su_roles = filter (has_role db (us_tenant_id u) (us_id u)) ROLE_ALL\<rparr>"
    using su(2) by (simp add: user_from_row_def list_user_roles_eq)
  moreover have "token_selects db now parsed s u"
    using find_product_Some [OF su(1)] by (simp add: token_selects_def)
  ultimately show thesis using su(3) by (intro that [of s u]) simp_all
qed

lemma authenticate_finds:
  assumes "session_token_from_headers headers = Inr (Some c)" "parse_session_token sha (tc_token c) = Inr parsed"
    and "\<And>n. q n" "token_selects db now parsed s u"
  shows "\<exists>session. authenticate_headers sha time_text q db now headers = Inr session"
proof -
  have "List.find (\<lambda>(s, u). us_tenant_id u = ses_tenant_id s \<and> us_id u = ses_user_id s
      \<and> ses_token_lookup_prefix s = ps_prefix parsed \<and> ses_token_hash s = ps_token_hash parsed
      \<and> session_row_live now s \<and> user_row_live u) (List.product (db_sessions db) (db_users db)) \<noteq> None"
    unfolding find_product_None using assms(4) by (auto simp: token_selects_def)
  then obtain s' u' where "List.find (\<lambda>(s, u). us_tenant_id u = ses_tenant_id s \<and> us_id u = ses_user_id s
      \<and> ses_token_lookup_prefix s = ps_prefix parsed \<and> ses_token_hash s = ps_token_hash parsed
      \<and> session_row_live now s \<and> user_row_live u) (List.product (db_sessions db) (db_users db)) = Some (s', u')" by auto
  with assms(1-3) show ?thesis
    by (simp add: authenticate_headers_def find_active_session_by_token_def user_from_row_def list_user_roles_eq)
qed

lemma generated_token_parses:
  assumes "generate_session_token sha simple u1 u2 = Some g"
  shows "parse_session_token sha (gs_token g) = Inr \<lparr>ps_prefix = gs_prefix g, ps_token_hash = gs_token_hash g\<rparr>"
  using assms by (cases "parse_session_token sha (SESSION_TOKEN_PREFIX @ simple u1 @ simple u2)")
    (auto simp: generate_session_token_def Let_def)

lemma authenticate_row:
  assumes "authenticate_headers sha time_text q db now headers = Inr session"
  shows "\<exists>c parsed s u. session_token_from_headers headers = Inr (Some c) \<and> parse_session_token sha (tc_token c) = Inr parsed
    \<and> token_selects db now parsed s u \<and> ss_id session = ses_id s \<and> su_id (ss_user session) = us_id u
    \<and> su_roles (ss_user session) = filter (has_role db (us_tenant_id u) (us_id u)) ROLE_ALL"
proof -
  from assms obtain c where c: "session_token_from_headers headers = Inr (Some c)"
    by (auto simp: authenticate_headers_def rbind_eq_Inr ok_or_eq_Inr)
  with assms obtain parsed where p: "parse_session_token sha (tc_token c) = Inr parsed"
    by (cases "parse_session_token sha (tc_token c)") (auto simp: authenticate_headers_def find_active_session_by_token_def)
  show ?thesis by (rule authenticate_selected [OF c p assms]) (use c p in blast)
qed

lemma find_map_SomeD: "find_map f xs = Some y \<Longrightarrow> \<exists>x\<in>set xs. f x = Some y"
  by (induction xs) (auto split: option.splits)

text \<open>The holder of a wallet is found through a row of that wallet.\<close>

lemma principal_wallet:
  assumes "authenticate_remaining_balance_principal sha q db now headers wallet_id = Inr p"
  shows "rb_wallet_id p = wallet_id \<and> (\<exists>w\<in>set (db_wallets db). wrow_id w = wallet_id \<and> wallet_row_live w
    \<and> wrow_tenant_id w = rb_tenant_id p \<and> wrow_project_id w = Some (rb_project_id p))"
proof -
  from assms obtain c :: "session_token_candidate option" and by_session where c: "(case c of
        None \<Rightarrow> Inr None
      | Some candidate \<Rightarrow>
          if tc_source candidate \<noteq> ST_AuthorizationBearer then Inr None
          else (case parse_session_token sha (tc_token candidate) of
                  Inl _ \<Rightarrow> Inr None
                | Inr parsed \<Rightarrow> find_remaining_balance_user_session_principal (q 0) db now parsed wallet_id)) = Inr by_session"
    and rest: "(case by_session of
        Some found \<Rightarrow> Inr found
      | None \<Rightarrow> rbind (bearer_token headers) (\<lambda>t. rbind (case t of
            None \<Rightarrow> Inr None
          | Some token \<Rightarrow>
              (case parse_virtual_key sha token of
                 Inl _ \<Rightarrow> Inr None
               | Inr parsed \<Rightarrow> find_remaining_balance_developer_token_principal (q 1) db now parsed wallet_id))
          (ok_or auth_forbidden))) = Inr p"
    unfolding authenticate_remaining_balance_principal_def rbind_eq_Inr [of "session_token_from_headers headers"]
    by (elim exE conjE) (simp only: rbind_eq_Inr, blast)
  show ?thesis
  proof (cases by_session)
    case (Some x)
    with rest c obtain parsed where "find_remaining_balance_user_session_principal (q 0) db now parsed wallet_id = Inr (Some p)"
      by (auto split: option.split_asm sum.split_asm if_split_asm)
    then show ?thesis
      by (auto simp: find_remaining_balance_user_session_principal_def dest!: find_map_SomeD
          split: if_splits option.splits) blast
  next
    case None
    with rest obtain t by_key where "(case t of
            None \<Rightarrow> Inr None
          | Some token \<Rightarrow>
              (case parse_virtual_key sha token of
                 Inl _ \<Rightarrow> Inr None
               | Inr parsed \<Rightarrow> find_remaining_balance_developer_token_principal (q 1) db now parsed wallet_id)) = Inr (Some p)"
      by (auto simp: rbind_eq_Inr ok_or_eq_Inr)
    then obtain parsed where "find_remaining_balance_developer_token_principal (q 1) db now parsed wallet_id = Inr (Some p)"
      by (auto split: option.split_asm sum.split_asm)
    then show ?thesis
      by (auto simp: find_remaining_balance_developer_token_principal_def dest!: find_map_SomeD split: if_splits) blast
  qed
qed

text \<open>Without a bearer token nobody is found.\<close>

lemma no_bearer_no_principal:
  assumes "bearer_token headers = Inr None" "session_token_from_headers headers = Inr c"
  shows "authenticate_remaining_balance_principal sha q db now headers wallet_id = Inl auth_forbidden"
proof -
  have "tc_source x \<noteq> ST_AuthorizationBearer" if "c = Some x" for x
    using assms that by (auto simp: session_token_from_headers_def rbind_eq_Inr split: option.splits)
  with assms show ?thesis
    by (cases c) (simp_all add: authenticate_remaining_balance_principal_def)
qed

text \<open>The three ways to present a token.\<close>

lemma bearer_presents:
  assumes "headers ''authorization'' = Some (Some (scheme @ CHR '' '' # token))" "eq_ignore_ascii_case scheme ''bearer''"
    and "graphic token" "token \<noteq> []"
  shows "session_token_from_headers headers = Inr (Some \<lparr>tc_token = token, tc_source = ST_AuthorizationBearer\<rparr>)"
proof -
  have s: "graphic scheme" "scheme \<noteq> []" using graphic_scheme [OF assms(2)] by auto
  have "hd scheme \<in> set scheme" "last token \<in> set token" using s assms(4) by simp_all
  then have "trim (scheme @ CHR '' '' # token) = scheme @ CHR '' '' # token"
    using s assms(3,4) by (intro trim_printable_ends) (auto simp: graphic_def list_all_iff)
  with assms s show ?thesis
    by (simp add: session_token_from_headers_def bearer_token_def Let_def split_whitespace_two)
qed

lemma header_presents:
  assumes "headers ''authorization'' = None" "headers ADMIN_SESSION_HEADER = Some (Some token)" "graphic token" "token \<noteq> []"
  shows "session_token_from_headers headers = Inr (Some \<lparr>tc_token = token, tc_source = ST_AdminHeader\<rparr>)"
  using assms by (simp add: session_token_from_headers_def bearer_token_def admin_session_header_def graphic_trim)

lemma cookie_presents:
  assumes "headers ''authorization'' = None" "headers ADMIN_SESSION_HEADER = None"
    and "headers ''cookie'' = Some (Some (ADMIN_SESSION_COOKIE @ ''='' @ token))"
    and "graphic token" "token \<noteq> []" "CHR '';'' \<notin> set token"
  shows "session_token_from_headers headers = Inr (Some \<lparr>tc_token = token, tc_source = ST_Cookie\<rparr>)"
proof -
  have name: "graphic ADMIN_SESSION_COOKIE" "CHR ''='' \<notin> set ADMIN_SESSION_COOKIE" "CHR '';'' \<notin> set ADMIN_SESSION_COOKIE"
    by (simp_all add: ADMIN_SESSION_COOKIE_def graphic_def byte_of_def)
  have "graphic (ADMIN_SESSION_COOKIE @ CHR ''='' # token)" using name(1) assms(4) by (simp add: graphic_def byte_of_def)
  then have "trim (ADMIN_SESSION_COOKIE @ CHR ''='' # token) = ADMIN_SESSION_COOKIE @ CHR ''='' # token"
    by (intro graphic_trim) auto
  moreover have "trim ADMIN_SESSION_COOKIE = ADMIN_SESSION_COOKIE"
    by (intro graphic_trim name(1)) (simp add: ADMIN_SESSION_COOKIE_def)
  moreover have "split_on (CHR '';'') (ADMIN_SESSION_COOKIE @ CHR ''='' # token) = [ADMIN_SESSION_COOKIE @ CHR ''='' # token]"
    using name(3) assms(6) by (intro split_on_none) simp
  ultimately have "cookie_value (ADMIN_SESSION_COOKIE @ CHR ''='' # token) ADMIN_SESSION_COOKIE = Some token"
    using assms(4,5) by (simp add: cookie_value_def split_once_append [OF name(2)] graphic_trim)
  with assms(1-3) show ?thesis
    by (simp add: session_token_from_headers_def bearer_token_def admin_session_header_def session_token_from_cookie_def)
qed

text \<open>The row of a created session, in every later state.\<close>

lemma created_row:
  assumes "session_keys_unique db"
    and "create_session time_text q db now i t u p h ttl = (db0, Inr created)" "session_reaches sha time_text db0 db1"
  obtains s where "s \<in> set (db_sessions db1)" "cs_id created = i" "ses_id s = i" "ses_tenant_id s = t" "ses_user_id s = u"
    "ses_token_lookup_prefix s = p" "ses_token_hash s = h" "ses_expires_at s = now + ttl * 1000000"
    "\<forall>r\<in>set (db_sessions db1). ses_token_hash r = h \<or> ses_id r = i \<longrightarrow> r = s"
proof -
  let ?row = "\<lparr>ses_id = i, ses_tenant_id = t, ses_user_id = u, ses_token_lookup_prefix = p, ses_token_hash = h,
    ses_status = ''active'', ses_expires_at = now + ttl * 1000000, ses_revoked_at = None\<rparr>"
  have db0: "db_sessions db0 = db_sessions db @ [?row]" "cs_id created = i"
    using assms(2) by (auto simp: create_session_def Let_def split: if_splits)
  have "session_keys_unique db0" using create_session_unique [OF assms(1), of time_text q now i t u p h ttl] assms(2) by simp
  then have unique: "session_keys_unique db1" using session_reaches_unique [OF assms(3)] by simp
  obtain s where s: "s \<in> set (db_sessions db1)" "row_succeeds ?row s"
    by (rule table_succeeds_row [OF session_reaches_table [OF assms(3)], of ?row]) (simp add: db0)
  have "\<forall>r\<in>set (db_sessions db1). ses_token_hash r = h \<or> ses_id r = i \<longrightarrow> r = s"
    using s unique by (auto simp: session_keys_unique_def row_succeeds_def distinct_map dest: inj_onD)
  then show thesis using s(2) by (intro that [OF s(1) db0(2)]) (simp_all add: row_succeeds_def)
qed

text \<open>C9. An issued session. A token that was generated and stored for a user, presented as bearer token, in the session header
  or in the cookie, authenticates exactly while its row is not revoked or expired and the user is active, whatever
  happened to the tables since. It authenticates that session and that user and nobody else, with the roles the user
  holds at that moment, and never after its lifetime.\<close>

theorem issued_session_authenticates_iff_live:
  assumes "generate_session_token sha simple u1 u2 = Some g" "session_keys_unique db"
    and "create_session time_text q0 db now0 new_id tenant_id user_id (gs_prefix g) (gs_token_hash g) ttl = (db0, Inr created)"
    and "session_reaches sha time_text db0 db1"
    and "session_token_from_headers headers = Inr (Some c)" "tc_token c = gs_token g"
  shows "((\<exists>session. authenticate_headers sha time_text (\<lambda>_. True) db1 now headers = Inr session) \<longleftrightarrow>
      (\<exists>s\<in>set (db_sessions db1). ses_id s = new_id \<and> session_row_live now s)
      \<and> (\<exists>u\<in>set (db_users db1). us_tenant_id u = tenant_id \<and> us_id u = user_id \<and> user_row_live u))
    \<and> (authenticate_headers sha time_text q db1 now headers = Inr session \<longrightarrow>
        ss_id session = cs_id created \<and> su_tenant_id (ss_user session) = tenant_id \<and> su_id (ss_user session) = user_id
        \<and> su_roles (ss_user session) = filter (has_role db1 tenant_id user_id) ROLE_ALL
        \<and> now < now0 + ttl * 1000000)"
proof -
  note parsed = generated_token_parses [OF assms(1), folded assms(6)]
  obtain s where s: "s \<in> set (db_sessions db1)" "cs_id created = new_id" "ses_id s = new_id" "ses_tenant_id s = tenant_id"
    "ses_user_id s = user_id" "ses_token_lookup_prefix s = gs_prefix g" "ses_token_hash s = gs_token_hash g"
    "ses_expires_at s = now0 + ttl * 1000000"
    "\<forall>r\<in>set (db_sessions db1). ses_token_hash r = gs_token_hash g \<or> ses_id r = new_id \<longrightarrow> r = s"
    by (rule created_row [OF assms(2-4)])
  have selects: "token_selects db1 now \<lparr>ps_prefix = gs_prefix g, ps_token_hash = gs_token_hash g\<rparr> r u \<longleftrightarrow>
      r = s \<and> u \<in> set (db_users db1) \<and> us_tenant_id u = tenant_id \<and> us_id u = user_id \<and> session_row_live now s \<and> user_row_live u"
    for r u
  proof (cases "r = s")
    case True
    then show ?thesis using s(1,4-7) by (auto simp: token_selects_def)
  next
    case False
    with s(9) have "r \<notin> set (db_sessions db1) \<or> ses_token_hash r \<noteq> gs_token_hash g" by blast
    with False show ?thesis by (auto simp: token_selects_def)
  qed
  have only: "session_row_live now s \<and> ss_id session = new_id \<and> su_tenant_id (ss_user session) = tenant_id
      \<and> su_id (ss_user session) = user_id \<and> su_roles (ss_user session) = filter (has_role db1 tenant_id user_id) ROLE_ALL
      \<and> (\<exists>u\<in>set (db_users db1). us_tenant_id u = tenant_id \<and> us_id u = user_id \<and> user_row_live u)"
    if "authenticate_headers sha time_text q db1 now headers = Inr session" for q session
    by (rule authenticate_selected [OF assms(5) parsed that]) (auto simp: selects s(3))
  have "\<exists>session. authenticate_headers sha time_text (\<lambda>_. True) db1 now headers = Inr session"
    if "session_row_live now s" "u \<in> set (db_users db1)" "us_tenant_id u = tenant_id" "us_id u = user_id" "user_row_live u" for u
    using that by (intro authenticate_finds [OF assms(5) parsed]) (simp_all add: selects)
  then have "(\<exists>session. authenticate_headers sha time_text (\<lambda>_. True) db1 now headers = Inr session) \<longleftrightarrow>
      session_row_live now s \<and> (\<exists>u\<in>set (db_users db1). us_tenant_id u = tenant_id \<and> us_id u = user_id \<and> user_row_live u)"
    using only by blast
  moreover have "session_row_live now s \<longleftrightarrow> (\<exists>s\<in>set (db_sessions db1). ses_id s = new_id \<and> session_row_live now s)"
    using s(1,3,9) by blast
  moreover have "session_row_live now s \<longrightarrow> now < now0 + ttl * 1000000" using s(8) by (simp add: session_row_live_def)
  ultimately show ?thesis using only [of q session] s(2) by metis
qed

text \<open>C10. Logging out is final. After a successful logout with a token that was issued, no request that presents this token is
  authenticated again, whatever sessions are created, whoever logs out and whatever happens to the other tables.\<close>

theorem logged_out_session_stays_out:
  assumes "generate_session_token sha simple u1 u2 = Some g" "session_keys_unique db"
    and "create_session time_text q0 db now0 new_id tenant_id user_id (gs_prefix g) (gs_token_hash g) ttl = (db0, Inr created)"
    and "session_reaches sha time_text db0 db1"
    and "session_token_from_headers headers = Inr (Some c)" "tc_token c = gs_token g"
    and "logout sha time_text secure q db1 now headers = (db2, Inr cookie)" "session_reaches sha time_text db2 db3"
    and "session_token_from_headers headers' = Inr (Some c')" "tc_token c' = gs_token g"
  shows "authenticate_headers sha time_text q' db3 now' headers' \<noteq> Inr session"
proof
  assume auth: "authenticate_headers sha time_text q' db3 now' headers' = Inr session"
  note parsed = generated_token_parses [OF assms(1)]
  from assms(7) obtain session1 where s1: "authenticate_headers sha time_text q db1 now headers = Inr session1"
    "revoke_session (q 3) db1 now (su_tenant_id (ss_user session1)) (ss_id session1) = (db2, Inr ())"
    by (auto simp: logout_def split: sum.splits prod.splits)
  obtain s where s: "s \<in> set (db_sessions db1)" "ses_token_hash s = gs_token_hash g" "ses_id s = ss_id session1"
    "ses_tenant_id s = su_tenant_id (ss_user session1)"
    by (rule authenticate_selected [OF assms(5) parsed [folded assms(6)] s1(1)]) (auto simp: token_selects_def)
  then obtain r where r: "r \<in> set (db_sessions db2)" "ses_token_hash r = gs_token_hash g" "ses_status r \<noteq> ''active''"
    using revoke_session_row [of "q 3" db1 now s db2] s1(2) by auto
  obtain r' where r': "r' \<in> set (db_sessions db3)" "row_succeeds r r'"
    by (rule table_succeeds_row [OF session_reaches_table [OF assms(8)] r(1)])
  have "session_reaches sha time_text db1 db2"
    using SS_Logout [of sha time_text db1 secure q now headers] assms(7) by (simp add: session_reaches_def)
  then have "session_reaches sha time_text db0 db3"
    using assms(4,8) by (simp add: session_reaches_def)
  then obtain s3 where s3: "\<forall>x\<in>set (db_sessions db3). ses_token_hash x = gs_token_hash g \<or> ses_id x = new_id \<longrightarrow> x = s3"
    by (rule created_row [OF assms(2,3)])
  obtain t where "t \<in> set (db_sessions db3)" "ses_token_hash t = gs_token_hash g" "ses_status t = ''active''"
    by (rule authenticate_selected [OF assms(9) parsed [folded assms(10)] auth])
       (auto simp: token_selects_def session_row_live_def)
  moreover have "ses_token_hash r' = gs_token_hash g" "ses_status r' \<noteq> ''active''"
    using r r'(2) by (auto simp: row_succeeds_def)
  ultimately show False using s3 r'(1) by metis
qed

section \<open>A sample session\<close>

definition sample_digest :: "string \<Rightarrow> string" where
  "sample_digest _ = replicate 64 (CHR ''d'')"

definition sample_token :: generated_session_token where
  "sample_token = \<lparr>gs_token = ''sess_'' @ replicate 64 (CHR ''a''), gs_prefix = ''sess_'' @ replicate 15 (CHR ''a''),
     gs_token_hash = replicate 64 (CHR ''d'')\<rparr>"

definition sample_admin_db :: "string \<Rightarrow> admin_db" where
  "sample_admin_db role_name = \<lparr>db_users = [\<lparr>us_id = 20, us_tenant_id = 1, us_email = ''admin@example.local'', us_display_name = ''Admin'',
       us_password_hash = None, us_status = ''active'', us_deleted = False\<rparr>],
     db_sessions = [], db_members = [\<lparr>mem_tenant_id = 1, mem_user_id = 20, mem_project_id = None, mem_role = role_name,
       mem_scope_active = True\<rparr>], db_wallets = [], db_virtual_keys = []\<rparr>"

definition sample_session_row :: session_row where
  "sample_session_row = \<lparr>ses_id = 7, ses_tenant_id = 1, ses_user_id = 20, ses_token_lookup_prefix = gs_prefix sample_token,
     ses_token_hash = gs_token_hash sample_token, ses_status = ''active'', ses_expires_at = 3600000000, ses_revoked_at = None\<rparr>"

definition sample_created_db :: "string \<Rightarrow> admin_db" where
  "sample_created_db role_name = (sample_admin_db role_name)\<lparr>db_sessions := [sample_session_row]\<rparr>"

definition sample_cookie_headers :: header_map where
  "sample_cookie_headers name =
     (if name = ''cookie'' then Some (Some (ADMIN_SESSION_COOKIE @ ''='' @ gs_token sample_token)) else None)"

lemma graphic_token: "graphic (gs_token sample_token)"
  by (simp add: sample_token_def graphic_def byte_of_def list_all_iff)

lemma sample_token_generated:
  "generate_session_token sample_digest (\<lambda>_. replicate 32 (CHR ''a'')) 1 2 = Some sample_token"
proof -
  have "list_all is_ascii_hexdigit (replicate 64 (CHR ''a''))" by (simp add: list_all_iff is_ascii_hexdigit_def byte_of_def)
  from session_token_parses [OF this, of sample_digest] show ?thesis
    by (simp add: generate_session_token_def SESSION_TOKEN_PREFIX_def sample_token_def sample_digest_def
        replicate_add [symmetric] take_Cons')
qed

lemma sample_session_created:
  "create_session (\<lambda>_. []) (\<lambda>_. True) (sample_admin_db role_name) 0 7 1 20 (gs_prefix sample_token) (gs_token_hash sample_token) 3600 =
     ((sample_created_db role_name), Inr \<lparr>cs_id = 7, cs_expires_at = []\<rparr>)"
  by (simp add: create_session_def session_row_insertable_def sample_created_db_def sample_session_row_def
      sample_admin_db_def sample_token_def list_all_iff is_ascii_hexdigit_def is_ascii_uppercase_def byte_of_def
      starts_with_def)

lemma sample_db_unique: "session_keys_unique (sample_admin_db role_name)"
  by (simp add: session_keys_unique_def sample_admin_db_def)

lemma sample_cookie_read:
  "session_token_from_headers sample_cookie_headers = Inr (Some \<lparr>tc_token = gs_token sample_token, tc_source = ST_Cookie\<rparr>)"
  by (rule cookie_presents)
    (simp_all add: sample_cookie_headers_def ADMIN_SESSION_HEADER_def graphic_token, simp_all add: sample_token_def)

lemma session_reaches_refl: "session_reaches sha time_text db db"
  by (simp add: session_reaches_def)

lemma sample_rows_live:
  "\<exists>s\<in>set (db_sessions (sample_created_db role_name)). ses_id s = 7 \<and> session_row_live 5 s"
  "\<exists>u\<in>set (db_users (sample_created_db role_name)). us_tenant_id u = 1 \<and> us_id u = 20 \<and> user_row_live u"
  by (simp_all add: sample_created_db_def sample_session_row_def sample_admin_db_def session_row_live_def user_row_live_def)

theorem issued_session_authenticates_iff_live_witness:
  "\<exists>session. authenticate_headers sample_digest (\<lambda>_. []) (\<lambda>_. True) (sample_created_db ''viewer'') 5 sample_cookie_headers = Inr session
     \<and> ss_id session = 7 \<and> su_id (ss_user session) = 20"
  using issued_session_authenticates_iff_live [OF sample_token_generated sample_db_unique
      sample_session_created [of "''viewer''"] session_reaches_refl sample_cookie_read, where now = 5 and q = "\<lambda>_. True"]
    sample_rows_live [of "''viewer''"] by auto

lemma sample_authenticated:
  assumes "role_from_str role_name = Inr role"
  shows "\<exists>session. authenticate_headers sample_digest (\<lambda>_. []) (\<lambda>_. True) (sample_created_db role_name) 5 sample_cookie_headers =
      Inr session \<and> su_roles (ss_user session) = [role]"
proof -
  let ?parsed = "\<lparr>ps_prefix = gs_prefix sample_token, ps_token_hash = gs_token_hash sample_token\<rparr>"
  let ?token = "\<lparr>tc_token = gs_token sample_token, tc_source = ST_Cookie\<rparr>"
  have parsed: "parse_session_token sample_digest (tc_token ?token) = Inr ?parsed"
    by (simp add: generated_token_parses [OF sample_token_generated])
  have "\<exists>s u. token_selects (sample_created_db role_name) 5 ?parsed s u"
    by (auto simp: sample_created_db_def sample_session_row_def sample_admin_db_def session_row_live_def user_row_live_def
        token_selects_def)
  then obtain s u where selected: "token_selects (sample_created_db role_name) 5 ?parsed s u" by blast
  have "\<exists>session. authenticate_headers sample_digest (\<lambda>_. []) (\<lambda>_. True) (sample_created_db role_name) 5 sample_cookie_headers =
      Inr session" by (rule authenticate_finds [OF sample_cookie_read parsed TrueI selected])
  then obtain session where session:
    "authenticate_headers sample_digest (\<lambda>_. []) (\<lambda>_. True) (sample_created_db role_name) 5 sample_cookie_headers = Inr session" ..
  have roles: "has_role (sample_created_db role_name) 1 20 = (\<lambda>r. r = role)"
    using assms by (auto simp: has_role_def sample_created_db_def sample_admin_db_def)
  have one: "filter (\<lambda>r. r = role) ROLE_ALL = [role]" by (cases role) (simp_all add: ROLE_ALL_def)
  have user: "us_tenant_id v = 1 \<and> us_id v = 20" if "v \<in> set (db_users (sample_created_db role_name))" for v
    using that by (auto simp: sample_created_db_def sample_admin_db_def)
  have "su_roles (ss_user session) = [role]"
    by (rule authenticate_selected [OF sample_cookie_read parsed session])
      (use user roles one in \<open>auto simp: token_selects_def\<close>)
  with session show ?thesis by blast
qed

lemma sample_logout:
  assumes "role_from_str role_name = Inr role"
  shows "\<exists>db2 cookie. logout sample_digest (\<lambda>_. []) True (\<lambda>_. True) (sample_created_db role_name) 5 sample_cookie_headers =
     (db2, Inr cookie)"
  using sample_authenticated [OF assms] by (auto simp: logout_def revoke_session_def)

lemma role_from_as_str: "role_from_str (role_as_str r) = Inr r"
proof -
  have "graphic (role_as_str r)" "role_as_str r \<noteq> []" by (cases r; simp add: graphic_def byte_of_def)+
  then have "trim (role_as_str r) = role_as_str r" by (rule graphic_trim)
  then show ?thesis
    by (cases r) (simp_all add: role_from_str_def to_ascii_lowercase_def ascii_lower_def is_ascii_uppercase_def byte_of_def)
qed

lemma viewer_role: "role_from_str ''viewer'' = Inr Role_Viewer"
  using role_from_as_str [of Role_Viewer] by simp

theorem logged_out_session_stays_out_witness:
  "\<exists>db2 cookie. logout sample_digest (\<lambda>_. []) True (\<lambda>_. True) (sample_created_db ''viewer'') 5 sample_cookie_headers = (db2, Inr cookie)
     \<and> (\<forall>session. authenticate_headers sample_digest (\<lambda>_. []) (\<lambda>_. True) db2 6 sample_cookie_headers \<noteq> Inr session)"
proof -
  obtain db2 cookie where out: "logout sample_digest (\<lambda>_. []) True (\<lambda>_. True) (sample_created_db ''viewer'') 5 sample_cookie_headers =
      (db2, Inr cookie)" using sample_logout [of "''viewer''"] by (auto simp: viewer_role)
  have "authenticate_headers sample_digest (\<lambda>_. []) (\<lambda>_. True) db2 6 sample_cookie_headers \<noteq> Inr session" for session
    by (rule logged_out_session_stays_out [OF sample_token_generated sample_db_unique sample_session_created
          session_reaches_refl sample_cookie_read _ out session_reaches_refl sample_cookie_read]) simp_all
  with out show ?thesis by blast
qed

end
