(* ===== verification/AdminAccess.thy ===== *)
theory AdminAccess
  imports AdminRbac SessionSafety
begin

text \<open>
  What the admin middleware guarantees: which requests reach a handler and with which identity, that the capabilities
  shown to a user are the ones granted, and which writes no permission guards.
\<close>

fun admitted :: "rbac_outcome \<Rightarrow> bool" where
  "admitted RO_Next = True"
| "admitted (RO_NextSession s) = True"
| "admitted (RO_NextPrincipal p) = True"
| "admitted (RO_AuthError e) = False"

lemma wallet_path_not_public: "wallet_remaining_balance_path path \<Longrightarrow> \<not> is_public_admin_path path"
  by (auto simp: path_defs starts_with_def)


lemma sample_signed_in:
  "\<exists>session. authenticate_headers sample_digest (\<lambda>_. []) (\<lambda>_. True) (sample_created_db (role_as_str r)) 5 sample_cookie_headers =
     Inr session \<and> session_roles session = [r]"
  using sample_authenticated [OF role_from_as_str] by (simp add: session_roles_def)


lemma session_admitted_iff:
  assumes "authenticate_headers sha time_text q db now headers = Inr s" "session_roles s \<noteq> []"
    and "bearer_token headers = Inr None"
  shows "admitted (require_admin_rbac sha time_text parse_uuid q db now headers req_method path) \<longleftrightarrow>
    is_public_admin_path path \<or> session_permitted s (permission_for_admin_request req_method path)"
proof -
  obtain c where "session_token_from_headers headers = Inr c"
    using assms(1) by (auto simp: authenticate_headers_def rbind_eq_Inr)
  then have "authenticate_remaining_balance_principal sha q' db now headers w = Inl auth_forbidden" for q' w
    by (rule no_bearer_no_principal [OF assms(3)])
  with assms(1,2) show ?thesis by (auto simp: require_admin_rbac_def Let_def split: option.split)
qed

lemma key_filter_iff:
  "distinct (map f xs) \<Longrightarrow> c \<in> set xs \<Longrightarrow> f c \<in> set (map f (filter P xs)) \<longleftrightarrow> P c"
  by (auto simp: distinct_map inj_on_def)


lemma sample_no_bearer: "bearer_token sample_cookie_headers = Inr None"
  by (simp add: bearer_token_def sample_cookie_headers_def)




end
