(* ===== verification/WebhookSignature.thy ===== *)
theory WebhookSignature
  imports Passwords RustUtf8
begin

text \<open>
  Verification of payment webhooks (\<open>crates/billing-ledger/src/payment_provider.rs\<close>): the signature header formats, the
  replay window of the time-stamped format, and the comparison with the expected MAC. SHA-256 is a parameter. The other
  parts of that file, the adapter contracts and readbacks, are not modelled.
\<close>

section \<open>Data\<close>

record payment_provider_header_value =
  hv_name :: string
  hv_value :: string

record signature_parse_readback =
  sg_header_present :: bool
  sg_header_name :: "string option"
  sg_format :: string
  sg_timestamp_present :: bool
  sg_timestamp :: "int option"
  sg_signature_present :: bool
  sg_signature_count :: nat
  sg_selected_scheme :: "string option"
  sg_unsupported_reason :: "string option"
  sg_raw_header_echoed :: bool
  sg_raw_signature_echoed :: bool

record signature_verification_readback =
  sv_status :: string
  sv_format :: string
  sv_timestamp_present :: bool
  sv_timestamp_tolerance_seconds :: "nat option"
  sv_timestamp_age_seconds :: "int option"
  sv_replay_window_ok :: bool
  sv_signature_present :: bool
  sv_signature_match :: bool
  sv_signed_payload_basis :: string
  sv_signed_payload_sha256 :: "string option"
  sv_payload_sha256 :: string
  sv_mismatch_reason :: "string option"
  sv_raw_header_echoed :: bool
  sv_raw_signature_echoed :: bool
  sv_raw_payload_echoed :: bool
  sv_secret_echoed :: bool

definition STRIPE_LIKE_SIGNATURE_TOLERANCE_SECONDS :: nat where
  "STRIPE_LIKE_SIGNATURE_TOLERANCE_SECONDS = 300"

text \<open>\<open>i64::saturating_sub\<close>.\<close>

definition i64_saturating_sub :: "int \<Rightarrow> int \<Rightarrow> int" where
  "i64_saturating_sub a b = max (- (2 ^ 63)) (min (2 ^ 63 - 1) (a - b))"

section \<open>Helpers\<close>

definition sha256_hex :: "(string \<Rightarrow> string) \<Rightarrow> string \<Rightarrow> string" where
  "sha256_hex sha v = hex_encode (sha v)"

definition hmac_sha256_hex :: "(string \<Rightarrow> string) \<Rightarrow> string \<Rightarrow> string \<Rightarrow> string" where
  "hmac_sha256_hex sha key data =
     (let short_key = (if length key > 64 then sha key else key);
          normalized_key = short_key @ replicate (64 - length short_key) (CHR 0x00);
          inner_pad = map (xor_byte (CHR 0x36)) normalized_key;
          outer_pad = map (xor_byte (CHR 0x5C)) normalized_key;
          inner_hash = sha (inner_pad @ data)
      in hex_encode (sha (outer_pad @ inner_hash)))"

definition constant_time_str_eq :: "string \<Rightarrow> string \<Rightarrow> bool" where
  "constant_time_str_eq left right =
     (if length left \<noteq> length right then False
      else foldl (\<lambda>acc (l, r). acc OR byte_of (xor_byte l r)) 0 (zip left right) = (0 :: nat))"

definition stripe_like_signature_timestamp :: "string \<Rightarrow> int option" where
  "stripe_like_signature_timestamp v =
     find_map (\<lambda>part. Option.bind (strip_prefix ''t='' (trim part)) (parse_signed 64)) (split_on (CHR '','') v)"

definition stripe_like_signature_values :: "string \<Rightarrow> string \<Rightarrow> string list" where
  "stripe_like_signature_values v scheme =
     map to_ascii_lowercase
       (filter (\<lambda>x. length x = 64 \<and> list_all is_ascii_hexdigit x)
         (map trim (List.map_filter (\<lambda>part. strip_prefix (scheme @ ''='') (trim part)) (split_on (CHR '','') v))))"

definition normalize_simulated_signature_header :: "string \<Rightarrow> string" where
  "normalize_simulated_signature_header v =
     to_ascii_lowercase (unwrap_or []
       (find_map (\<lambda>raw. let part = trim raw in
            case strip_prefix ''sha256='' part of
              Some x \<Rightarrow> Some x
            | None \<Rightarrow> if length part = 64 \<and> list_all is_ascii_hexdigit part then Some part else None)
          (split_on (CHR '','') v)))"

definition stripe_like_signed_payload :: "int \<Rightarrow> string \<Rightarrow> string" where
  "stripe_like_signed_payload timestamp body = show_int timestamp @ ''.'' @ from_utf8_lossy body"

section \<open>Parsing and verifying\<close>

definition parse_stripe_like_signature_headers ::
  "payment_provider_header_value list \<Rightarrow> signature_parse_readback" where
  "parse_stripe_like_signature_headers headers =
     (let selected = (case List.find (\<lambda>h. eq_ignore_ascii_case (hv_name h) ''stripe-signature'') headers of
                        Some h \<Rightarrow> Some h
                      | None \<Rightarrow> List.find (\<lambda>h. eq_ignore_ascii_case (hv_name h) ''x-fubox-payment-signature'') headers)
      in case selected of
           None \<Rightarrow>
             \<lparr>sg_header_present = False, sg_header_name = None, sg_format = ''missing'', sg_timestamp_present = False,
              sg_timestamp = None, sg_signature_present = False, sg_signature_count = 0, sg_selected_scheme = None,
              sg_unsupported_reason = Some ''signature_header_missing'', sg_raw_header_echoed = False,
              sg_raw_signature_echoed = False\<rparr>
         | Some header \<Rightarrow>
             let lower_name = to_ascii_lowercase (hv_name header);
                 v = trim (hv_value header);
                 timestamp = stripe_like_signature_timestamp v;
                 timestamp_present = (timestamp \<noteq> None);
                 stripe_v1_count = length (stripe_like_signature_values v ''v1'');
                 stripe_v1_present = (stripe_v1_count > 0);
                 fubox_sha256_present = (starts_with ''sha256='' v \<or> contains '',sha256='' v);
                 bare_hex_present = (length v = 64 \<and> list_all is_ascii_hexdigit v);
                 (format, selected_scheme, signature_present, unsupported_reason) =
                   (if lower_name = ''stripe-signature'' \<and> timestamp_present \<and> stripe_v1_present
                    then (''stripe_like'', Some ''v1'', True, None)
                    else if fubox_sha256_present
                    then (''fubox_simulated_sha256'', Some ''sha256'', True, None)
                    else if lower_name = ''x-fubox-payment-signature'' \<and> bare_hex_present
                    then (''fubox_simulated_bare_hex'', Some ''sha256'', True, None)
                    else (''unsupported'', None, False, Some ''signature_header_format_unsupported''))
             in \<lparr>sg_header_present = True, sg_header_name = Some lower_name, sg_format = format,
                 sg_timestamp_present = timestamp_present, sg_timestamp = timestamp,
                 sg_signature_present = signature_present,
                 sg_signature_count = (if stripe_v1_count > 0 then stripe_v1_count
                                       else if fubox_sha256_present \<or> bare_hex_present then 1 else 0),
                 sg_selected_scheme = selected_scheme, sg_unsupported_reason = unsupported_reason,
                 sg_raw_header_echoed = False, sg_raw_signature_echoed = False\<rparr>)"

definition signature_verification_refused ::
  "string \<Rightarrow> bool \<Rightarrow> int option \<Rightarrow> bool \<Rightarrow> string \<Rightarrow> string \<Rightarrow> string option \<Rightarrow> string \<Rightarrow> signature_verification_readback" where
  "signature_verification_refused format timestamp_present age signature_present basis payload_sha256
       signed_payload_sha256 reason =
     \<lparr>sv_status = ''refused'', sv_format = format, sv_timestamp_present = timestamp_present,
      sv_timestamp_tolerance_seconds = Some STRIPE_LIKE_SIGNATURE_TOLERANCE_SECONDS, sv_timestamp_age_seconds = age,
      sv_replay_window_ok = False, sv_signature_present = signature_present, sv_signature_match = False,
      sv_signed_payload_basis = basis, sv_signed_payload_sha256 = signed_payload_sha256,
      sv_payload_sha256 = payload_sha256, sv_mismatch_reason = Some reason, sv_raw_header_echoed = False,
      sv_raw_signature_echoed = False, sv_raw_payload_echoed = False, sv_secret_echoed = False\<rparr>"

definition verify_stripe_like_signature_headers ::
  "(string \<Rightarrow> string) \<Rightarrow> payment_provider_header_value list \<Rightarrow> string \<Rightarrow> string \<Rightarrow> int \<Rightarrow> signature_verification_readback" where
  "verify_stripe_like_signature_headers sha headers body webhook_secret current_timestamp =
     (let payload_sha256 = sha256_hex sha body;
          parse = parse_stripe_like_signature_headers headers;
          refused = (\<lambda>reason. signature_verification_refused (sg_format parse) (sg_timestamp_present parse) None
                       (sg_signature_present parse) ''raw_body'' payload_sha256 None reason)
      in case sg_header_name parse of
           None \<Rightarrow> refused ''signature_header_missing''
         | Some header_name \<Rightarrow>
      if trim webhook_secret = [] then refused ''webhook_secret_missing''
      else case List.find (\<lambda>h. eq_ignore_ascii_case (hv_name h) header_name) headers of
             None \<Rightarrow> refused ''signature_header_missing''
           | Some header \<Rightarrow>
      let header_value = trim (hv_value header) in
      if sg_format parse = ''stripe_like'' then
        (case sg_timestamp parse of
           None \<Rightarrow> signature_verification_refused (sg_format parse) False None (sg_signature_present parse)
                     ''stripe:t.raw_body'' payload_sha256 None ''signature_timestamp_missing''
         | Some timestamp \<Rightarrow>
             let age = i64_saturating_sub current_timestamp timestamp;
                 replay_window_ok = (nat \<bar>age\<bar> \<le> STRIPE_LIKE_SIGNATURE_TOLERANCE_SECONDS);
                 signed_payload = stripe_like_signed_payload timestamp body;
                 signed_payload_sha256 = sha256_hex sha signed_payload;
                 expected = hmac_sha256_hex sha webhook_secret signed_payload;
                 signature_match = (replay_window_ok \<and> list_ex (\<lambda>candidate. constant_time_str_eq candidate expected)
                                      (stripe_like_signature_values header_value ''v1''))
             in \<lparr>sv_status = (if signature_match then ''verified'' else ''refused''), sv_format = sg_format parse,
                 sv_timestamp_present = True,
                 sv_timestamp_tolerance_seconds = Some STRIPE_LIKE_SIGNATURE_TOLERANCE_SECONDS,
                 sv_timestamp_age_seconds = Some age, sv_replay_window_ok = replay_window_ok,
                 sv_signature_present = sg_signature_present parse, sv_signature_match = signature_match,
                 sv_signed_payload_basis = ''stripe:t.raw_body'',
                 sv_signed_payload_sha256 = Some signed_payload_sha256, sv_payload_sha256 = payload_sha256,
                 sv_mismatch_reason = (if \<not> replay_window_ok then Some ''signature_replay_window_refused''
                                       else if signature_match then None else Some ''signature_mismatch''),
                 sv_raw_header_echoed = False, sv_raw_signature_echoed = False, sv_raw_payload_echoed = False,
                 sv_secret_echoed = False\<rparr>)
      else if sg_format parse = ''fubox_simulated_sha256'' \<or> sg_format parse = ''fubox_simulated_bare_hex'' then
        let expected = hmac_sha256_hex sha webhook_secret body;
            provided = normalize_simulated_signature_header header_value;
            signature_match = constant_time_str_eq provided expected
        in \<lparr>sv_status = (if signature_match then ''verified'' else ''refused''), sv_format = sg_format parse,
            sv_timestamp_present = sg_timestamp_present parse, sv_timestamp_tolerance_seconds = None,
            sv_timestamp_age_seconds = None, sv_replay_window_ok = True,
            sv_signature_present = sg_signature_present parse, sv_signature_match = signature_match,
            sv_signed_payload_basis = ''raw_body'', sv_signed_payload_sha256 = Some payload_sha256,
            sv_payload_sha256 = payload_sha256,
            sv_mismatch_reason = (if signature_match then None else Some ''signature_mismatch''),
            sv_raw_header_echoed = False, sv_raw_signature_echoed = False, sv_raw_payload_echoed = False,
            sv_secret_echoed = False\<rparr>
      else refused (unwrap_or ''signature_header_format_unsupported'' (sg_unsupported_reason parse)))"

section \<open>Accepted webhooks are signed\<close>

lemma constant_time_str_eq_iff: "constant_time_str_eq left right \<longleftrightarrow> left = right"
  using constant_time_eq_iff [of left right] by (simp add: constant_time_str_eq_def constant_time_eq_def)

lemma hmac_hex_eq: "hmac_sha256_hex sha key data = hex_encode (hmac_sha256 sha key data)"
  by (simp add: hmac_sha256_hex_def hmac_sha256_def Let_def)

definition signature_header :: "payment_provider_header_value list \<Rightarrow> payment_provider_header_value option" where
  "signature_header headers =
     (case List.find (\<lambda>h. eq_ignore_ascii_case (hv_name h) ''stripe-signature'') headers of
        Some h \<Rightarrow> Some h
      | None \<Rightarrow> List.find (\<lambda>h. eq_ignore_ascii_case (hv_name h) ''x-fubox-payment-signature'') headers)"

lemma lower_header_names:
  "to_ascii_lowercase ''stripe-signature'' = ''stripe-signature''"
  "to_ascii_lowercase ''x-fubox-payment-signature'' = ''x-fubox-payment-signature''"
  by code_simp+

lemma signature_header_lookup:
  assumes "signature_header headers = Some h"
  shows "List.find (\<lambda>h'. eq_ignore_ascii_case (hv_name h') (to_ascii_lowercase (hv_name h))) headers = Some h"
    and "h \<in> set headers"
proof -
  let ?find = "\<lambda>name. List.find (\<lambda>h. eq_ignore_ascii_case (hv_name h) name) headers"
  have found: "?find name = Some g \<Longrightarrow> to_ascii_lowercase (hv_name g) = to_ascii_lowercase name \<and> g \<in> set headers" for g name
    by (auto simp: find_Some_iff eq_ignore_ascii_case_def)
  consider "?find ''stripe-signature'' = Some h" | "?find ''x-fubox-payment-signature'' = Some h"
    using assms by (auto simp: signature_header_def split: option.splits)
  then show "?find (to_ascii_lowercase (hv_name h)) = Some h" and "h \<in> set headers"
    using found [of _ h] by (cases; simp add: lower_header_names)+
qed

lemma parse_no_header:
  "signature_header headers = None \<Longrightarrow> sg_header_name (parse_stripe_like_signature_headers headers) = None"
  by (simp add: parse_stripe_like_signature_headers_def signature_header_def split: option.splits)

lemma parse_header:
  assumes "signature_header headers = Some h"
  defines "p \<equiv> parse_stripe_like_signature_headers headers" and "v \<equiv> trim (hv_value h)"
  shows "sg_header_name p = Some (to_ascii_lowercase (hv_name h))"
    and "sg_timestamp p = stripe_like_signature_timestamp v"
    and "sg_format p =
      (if to_ascii_lowercase (hv_name h) = ''stripe-signature'' \<and> stripe_like_signature_timestamp v \<noteq> None
          \<and> stripe_like_signature_values v ''v1'' \<noteq> [] then ''stripe_like''
       else if starts_with ''sha256='' v \<or> contains '',sha256='' v then ''fubox_simulated_sha256''
       else if to_ascii_lowercase (hv_name h) = ''x-fubox-payment-signature'' \<and> length v = 64
          \<and> list_all is_ascii_hexdigit v then ''fubox_simulated_bare_hex''
       else ''unsupported'')"
  using assms(1) unfolding p_def v_def
  by (simp_all add: parse_stripe_like_signature_headers_def signature_header_def [symmetric] Let_def)

lemma verified_iff:
  assumes "signature_header headers = Some h"
  defines "v \<equiv> trim (hv_value h)" and "p \<equiv> parse_stripe_like_signature_headers headers"
  shows "sv_status (verify_stripe_like_signature_headers sha headers body secret now) = ''verified'' \<longleftrightarrow>
    trim secret \<noteq> [] \<and>
      (if sg_format p = ''stripe_like''
       then (\<exists>t. stripe_like_signature_timestamp v = Some t \<and> \<bar>now - t\<bar> \<le> 300
              \<and> hmac_sha256_hex sha secret (stripe_like_signed_payload t body)
                  \<in> set (stripe_like_signature_values v ''v1''))
       else sg_format p \<in> {''fubox_simulated_sha256'', ''fubox_simulated_bare_hex''}
         \<and> normalize_simulated_signature_header v = hmac_sha256_hex sha secret body)"
proof -
  have age: "nat \<bar>i64_saturating_sub now t\<bar> \<le> STRIPE_LIKE_SIGNATURE_TOLERANCE_SECONDS \<longleftrightarrow> \<bar>now - t\<bar> \<le> 300" for t
    by (auto simp: i64_saturating_sub_def STRIPE_LIKE_SIGNATURE_TOLERANCE_SECONDS_def)
  note ph = parse_header [OF assms(1), folded v_def p_def]
  show ?thesis
    unfolding verify_stripe_like_signature_headers_def Let_def p_def [symmetric] ph(1,2) option.case
      signature_header_lookup(1) [OF assms(1)] v_def [symmetric] age
    by (auto simp: signature_verification_refused_def constant_time_str_eq_iff list_ex_iff split: option.splits)
qed

text \<open>C13. A webhook is accepted only if it is signed with the webhook secret: one of its signature headers carries the MAC
  of the body together with a time stamp at most 300 seconds from now, or, in the simulator's format, the MAC of the body
  alone. With no secret configured nothing is accepted.\<close>

theorem accepted_webhook_is_signed:
  assumes "sv_status (verify_stripe_like_signature_headers sha headers body secret now) = ''verified''"
  shows "trim secret \<noteq> [] \<and> (\<exists>h\<in>set headers.
      (eq_ignore_ascii_case (hv_name h) ''stripe-signature''
        \<and> (\<exists>t. stripe_like_signature_timestamp (trim (hv_value h)) = Some t \<and> \<bar>now - t\<bar> \<le> 300
             \<and> hmac_sha256_hex sha secret (stripe_like_signed_payload t body)
                 \<in> set (stripe_like_signature_values (trim (hv_value h)) ''v1'')))
      \<or> normalize_simulated_signature_header (trim (hv_value h)) = hmac_sha256_hex sha secret body)"
proof (cases "signature_header headers")
  case None
  then show ?thesis
    using assms parse_no_header [OF None]
    by (simp add: verify_stripe_like_signature_headers_def signature_verification_refused_def Let_def)
next
  case (Some h)
  note v = verified_iff [OF Some, of sha body secret now, THEN iffD1, OF assms]
  show ?thesis
  proof (cases "sg_format (parse_stripe_like_signature_headers headers) = ''stripe_like''")
    case True
    then have "eq_ignore_ascii_case (hv_name h) ''stripe-signature''"
      using parse_header(3) [OF Some] by (auto simp: eq_ignore_ascii_case_def lower_header_names split: if_splits)
    with True v signature_header_lookup(2) [OF Some] show ?thesis by auto
  next
    case False
    with v signature_header_lookup(2) [OF Some] show ?thesis by auto
  qed
qed

section \<open>Signed webhooks are accepted\<close>

lemma hex_table:
  assumes "n < 16"
  shows "is_ascii_hexdigit (''0123456789abcdef'' ! n)" "ascii_lower (''0123456789abcdef'' ! n) = ''0123456789abcdef'' ! n"
    and "''0123456789abcdef'' ! n \<noteq> CHR '',''"
proof -
  have all: "\<forall>c\<in>set ''0123456789abcdef''. is_ascii_hexdigit c \<and> ascii_lower c = c \<and> c \<noteq> CHR '',''" by code_simp
  have "''0123456789abcdef'' ! n \<in> set ''0123456789abcdef''" using assms by (intro nth_mem) simp
  from bspec [OF all this] show "is_ascii_hexdigit (''0123456789abcdef'' ! n)"
    "ascii_lower (''0123456789abcdef'' ! n) = ''0123456789abcdef'' ! n" "''0123456789abcdef'' ! n \<noteq> CHR '',''" by blast+
qed

lemma hex_encode_digits:
  "length (hex_encode s) = 2 * length s" "list_all is_ascii_hexdigit (hex_encode s)"
  "to_ascii_lowercase (hex_encode s) = hex_encode s" "CHR '','' \<notin> set (hex_encode s)"
proof -
  have n: "byte_of c div 16 < 16" "byte_of c mod 16 < 16" for c
    by (simp_all add: byte_of_def div_less_iff_less_mult)
  show "length (hex_encode s) = 2 * length s" by (induction s) (simp_all add: hex_encode_def)
  show "list_all is_ascii_hexdigit (hex_encode s)"
    by (induction s) (use hex_table n in \<open>simp_all add: hex_encode_def\<close>)
  show "to_ascii_lowercase (hex_encode s) = hex_encode s"
    by (induction s) (use hex_table n in \<open>simp_all add: hex_encode_def to_ascii_lowercase_def\<close>)
  show "CHR '','' \<notin> set (hex_encode s)"
    by (induction s) (use hex_table n in \<open>simp_all add: hex_encode_def eq_commute [of "CHR '',''"]\<close>)
qed

lemma hexdigit_printable: "is_ascii_hexdigit c \<Longrightarrow> 33 \<le> byte_of c \<and> byte_of c < 127"
  by (auto simp: is_ascii_hexdigit_def is_ascii_digit_def)

lemma trim_ends_hex:
  assumes "33 \<le> byte_of c" "byte_of c < 127" "list_all is_ascii_hexdigit s" "s \<noteq> []"
  shows "trim (c # p @ s) = c # p @ s" "trim s = s"
proof -
  have "is_ascii_hexdigit (last s)" "is_ascii_hexdigit (hd s)" using assms(3,4) by (auto simp: list_all_iff)
  note ends = hexdigit_printable [OF this(1)] hexdigit_printable [OF this(2)]
  show "trim s = s" using assms(4) ends by (intro trim_printable_ends) auto
  show "trim (c # p @ s) = c # p @ s" using assms ends by (intro trim_printable_ends) auto
qed

lemma show_int_digits:
  "show_int t \<noteq> []" "is_ascii_digit (last (show_int t))" "CHR '','' \<notin> set (show_int t)"
  "33 \<le> byte_of (hd (show_int t))" "byte_of (hd (show_int t)) < 127"
proof -
  have last: "is_ascii_digit (last (show_nat n))" for n
    using show_nat_digits [of n] by (auto simp: list_all_iff)
  show "show_int t \<noteq> []" "is_ascii_digit (last (show_int t))" using last by (simp_all add: show_int_def)
  show "CHR '','' \<notin> set (show_int t)"
    using show_nat_digits [of "nat t"] show_nat_digits [of "nat (- t)"]
    by (auto simp: show_int_def list_all_iff is_ascii_digit_def byte_of_def)
  show "33 \<le> byte_of (hd (show_int t))" "byte_of (hd (show_int t)) < 127"
    using is_ascii_digit_printable [OF show_nat_hd_digit [of "nat t"]] by (simp_all add: show_int_def byte_of_def)
qed

lemma stripe_header_fields:
  assumes "- (2 ^ 63) \<le> t" "t < 2 ^ 63" "length mac = 32"
  defines "v \<equiv> ''t='' @ show_int t @ '',v1='' @ hex_encode mac"
  shows "trim v = v" "stripe_like_signature_timestamp v = Some t"
    and "stripe_like_signature_values v ''v1'' = [hex_encode mac]"
proof -
  have hex: "list_all is_ascii_hexdigit (hex_encode mac)" "hex_encode mac \<noteq> []"
    using hex_encode_digits(1,2) [of mac] assms(3) by auto
  show "trim v = v"
    using trim_ends_hex(1) [OF _ _ hex, of "CHR ''t''" "''='' @ show_int t @ '',v1=''"] by (simp add: v_def byte_of_def)
  have split: "split_on (CHR '','') v = [''t='' @ show_int t, ''v1='' @ hex_encode mac]"
    using split_on_append [of "CHR '',''" "''t='' @ show_int t" "''v1='' @ hex_encode mac"] show_int_digits(3) [of t]
      split_on_none [of "CHR '',''" "''v1='' @ hex_encode mac"] hex_encode_digits(4) [of mac] by (simp add: v_def)
  have "trim (''t='' @ show_int t) = ''t='' @ show_int t"
    using show_int_digits [of t] is_ascii_digit_printable by (intro trim_printable_ends) (auto simp: byte_of_def)
  moreover have "trim (''v1='' @ hex_encode mac) = ''v1='' @ hex_encode mac"
    using trim_ends_hex(1) [OF _ _ hex, of "CHR ''v''" "''1=''"] by (simp add: byte_of_def)
  ultimately show "stripe_like_signature_timestamp v = Some t"
    and "stripe_like_signature_values v ''v1'' = [hex_encode mac]"
    using parse_signed_show_int [of 64 t] assms(1-3) trim_ends_hex(2) [OF _ _ hex, of "CHR ''a''"] hex_encode_digits [of mac]
    by (simp_all add: stripe_like_signature_timestamp_def stripe_like_signature_values_def split strip_prefix_def
        List.map_filter_def byte_of_def)
qed

lemma stripe_header_verifies:
  assumes "sha256_digest sha" "trim secret \<noteq> []" "- (2 ^ 63) \<le> t" "t < 2 ^ 63" "\<bar>now - t\<bar> \<le> 300"
    and sel: "signature_header headers = Some h" and name: "eq_ignore_ascii_case (hv_name h) ''stripe-signature''"
    and val: "hv_value h = ''t='' @ show_int t @ '',v1='' @ hmac_sha256_hex sha secret (stripe_like_signed_payload t body)"
  shows "sv_status (verify_stripe_like_signature_headers sha headers body secret now) = ''verified''"
proof -
  note fields = stripe_header_fields [OF assms(3,4) length_hmac [OF assms(1)], of secret "stripe_like_signed_payload t body",
      folded hmac_hex_eq]
  have "sg_format (parse_stripe_like_signature_headers headers) = ''stripe_like''"
    using parse_header(3) [OF sel] name fields by (simp add: eq_ignore_ascii_case_def lower_header_names val)
  then show ?thesis
    using verified_iff [OF sel, of sha body secret now] assms(2,5) fields by (simp add: val)
qed

text \<open>A webhook signed by the provider within the replay window is accepted: the first time-stamped signature header
  decides, whatever the letter case of its name, and other headers around it do not matter.\<close>

theorem signed_webhook_accepted:
  assumes "sha256_digest sha" "trim secret \<noteq> []" "- (2 ^ 63) \<le> t" "t < 2 ^ 63" "\<bar>now - t\<bar> \<le> 300"
    and "eq_ignore_ascii_case name ''stripe-signature''"
    and "\<forall>h\<in>set before. \<not> eq_ignore_ascii_case (hv_name h) ''stripe-signature''"
    and mac: "mac = hmac_sha256_hex sha secret (stripe_like_signed_payload t body)"
  shows "sv_status (verify_stripe_like_signature_headers sha
      (before @ \<lparr>hv_name = name, hv_value = ''t='' @ show_int t @ '',v1='' @ mac\<rparr> # others) body secret now) = ''verified''"
proof -
  let ?h = "\<lparr>hv_name = name, hv_value = ''t='' @ show_int t @ '',v1='' @ mac\<rparr>"
  have "List.find (\<lambda>h. eq_ignore_ascii_case (hv_name h) ''stripe-signature'') (before @ ?h # others) = Some ?h"
    using assms(6,7) by (induction before) auto
  then show ?thesis
    using assms(1-6) by (intro stripe_header_verifies [of sha secret t now _ ?h]) (simp_all add: signature_header_def mac)
qed

definition sample_sha :: "string \<Rightarrow> string" where
  "sample_sha s = replicate 32 (CHR ''d'')"

definition sample_webhook :: "string \<Rightarrow> payment_provider_header_value list" where
  "sample_webhook body = [\<lparr>hv_name = ''stripe-signature'', hv_value = ''t='' @ show_int 1000 @ '',v1='' @
     hmac_sha256_hex sample_sha ''whsec'' (stripe_like_signed_payload 1000 body)\<rparr>]"

lemma sample_secret: "trim ''whsec'' \<noteq> []" "sha256_digest sample_sha"
  by (simp_all add: trim_printable_ends byte_of_def sha256_digest_def sample_sha_def)

theorem signed_webhook_accepted_witness:
  "sv_status (verify_stripe_like_signature_headers sample_sha (sample_webhook ''{}'') ''{}'' ''whsec'' 1200) = ''verified''"
  unfolding sample_webhook_def
  using signed_webhook_accepted [OF sample_secret(2,1), of 1000 1200 "''stripe-signature''" "[]", OF _ _ _ _ _ refl]
  by (simp add: eq_ignore_ascii_case_def)

lemma sample_webhook_verified:
  "sv_status (verify_stripe_like_signature_headers sample_sha (sample_webhook ''{}'') ''{}'' ''whsec'' 1200) = ''verified''"
  by (rule stripe_header_verifies [OF sample_secret(2,1), of 1000 1200 _ "hd (sample_webhook ''{}'')"])
    (simp_all add: sample_webhook_def signature_header_def eq_ignore_ascii_case_def)

theorem accepted_webhook_is_signed_witness:
  "\<exists>h\<in>set (sample_webhook ''{}'').
      (eq_ignore_ascii_case (hv_name h) ''stripe-signature''
        \<and> (\<exists>t. stripe_like_signature_timestamp (trim (hv_value h)) = Some t \<and> \<bar>1200 - t\<bar> \<le> 300
             \<and> hmac_sha256_hex sample_sha ''whsec'' (stripe_like_signed_payload t ''{}'')
                 \<in> set (stripe_like_signature_values (trim (hv_value h)) ''v1'')))
      \<or> normalize_simulated_signature_header (trim (hv_value h)) = hmac_sha256_hex sample_sha ''whsec'' ''{}''"
  using accepted_webhook_is_signed [OF sample_webhook_verified] by blast

end
