(* ===== verification/GatewayErrors.thy ===== *)
theory GatewayErrors
  imports ProviderErrors RustParse
begin

text \<open>
  Errors of the gateway (\<open>gateway/src/errors.rs\<close>, \<open>gateway/src/main.rs\<close>): the error value with its log summary, the
  constructors the request handler uses, and what a failed provider call means for the next route and for the
  provider key: fallback, status and cooldown. An adapter reports a failed call as a signal
  (\<open>adapters/src/lib.rs\<close>).
\<close>

section \<open>Error values\<close>

record gateway_api_error =
  ge_status :: u16
  ge_error_type :: string
  ge_code :: string
  ge_message :: string
  ge_param :: "string option"
  ge_owner :: string
  ge_stage :: string
  ge_retryable :: "bool option"

record error_log_summary =
  es_http_status :: int
  es_error_owner :: string
  es_error_code :: string
  es_retryable :: "bool option"

definition log_summary :: "gateway_api_error \<Rightarrow> error_log_summary" where
  "log_summary e =
     \<lparr>es_http_status = uint (ge_status e), es_error_owner = ge_owner e, es_error_code = ge_code e,
      es_retryable = ge_retryable e\<rparr>"

definition api_key_rate_limited :: "string \<Rightarrow> gateway_api_error" where
  "api_key_rate_limited dimension =
     \<lparr>ge_status = 429, ge_error_type = ''rate_limit_error'', ge_code = ''api_key_rate_limited'',
      ge_message = ''API key rate limit exceeded for '' @ dimension, ge_param = Some ''authorization'',
      ge_owner = ''policy'', ge_stage = ''rate_limit'', ge_retryable = Some True\<rparr>"

definition route_no_candidate :: gateway_api_error where
  "route_no_candidate =
     \<lparr>ge_status = 404, ge_error_type = ''invalid_request_error'', ge_code = ''route_no_candidate'',
      ge_message = ''No enabled OpenAI-compatible route is available for the requested model'',
      ge_param = Some ''model'', ge_owner = ''gateway'', ge_stage = ''route'', ge_retryable = Some False\<rparr>"

definition billing_insufficient_balance :: gateway_api_error where
  "billing_insufficient_balance =
     \<lparr>ge_status = 402, ge_error_type = ''billing_error'', ge_code = ''billing_insufficient_balance'',
      ge_message = ''Billing balance or budget is insufficient for this request'', ge_param = None,
      ge_owner = ''billing'', ge_stage = ''preauth'', ge_retryable = Some False\<rparr>"

definition rate_limit_reservation_rejected_error :: gateway_api_error where
  "rate_limit_reservation_rejected_error =
     \<lparr>ge_status = 429, ge_error_type = ''rate_limit_error'', ge_code = ''rate_limit_exceeded'',
      ge_message = ''Rate-limit capacity is unavailable for the selected model'', ge_param = Some ''model'',
      ge_owner = ''gateway'', ge_stage = ''route'', ge_retryable = Some True\<rparr>"

definition provider_key_service_error :: "string \<Rightarrow> string \<Rightarrow> bool option \<Rightarrow> gateway_api_error" where
  "provider_key_service_error code message retryable =
     \<lparr>ge_status = 503, ge_error_type = ''gateway_error'', ge_code = code, ge_message = message, ge_param = None,
      ge_owner = ''gateway'', ge_stage = ''provider_key'', ge_retryable = retryable\<rparr>"

definition request_status_for_http :: "int \<Rightarrow> string" where
  "request_status_for_http status =
     (if (400 \<le> status \<and> status \<le> 499) \<or> status = 501 then ''rejected'' else ''failed'')"

section \<open>Failed provider calls\<close>

datatype adapter_provider_transport_error_kind = APT_Timeout | APT_Connect | APT_Body | APT_Other

record adapter_error_signal =
  as_status_code :: "u16 option"
  as_transport :: "adapter_provider_transport_error_kind option"
  as_retry_after_ms :: "u64 option"

definition error_signal_can_fallback :: "adapter_error_signal \<Rightarrow> bool" where
  "error_signal_can_fallback signal =
     (case as_status_code signal of
        Some status_code \<Rightarrow> status_code = 408 \<or> status_code = 429 \<or> (500 \<le> status_code \<and> status_code \<le> 599)
      | None \<Rightarrow>
          (case as_transport signal of
             Some transport \<Rightarrow> transport = APT_Timeout \<or> transport = APT_Connect \<or> transport = APT_Other
           | None \<Rightarrow> False))"

fun provider_transport_from_adapter :: "adapter_provider_transport_error_kind \<Rightarrow> provider_transport_error_kind" where
  "provider_transport_from_adapter APT_Timeout = PT_Timeout"
| "provider_transport_from_adapter APT_Connect = PT_Connect"
| "provider_transport_from_adapter APT_Body = PT_Body"
| "provider_transport_from_adapter APT_Other = PT_Other"

definition provider_error_signal_from_adapter_signal :: "adapter_error_signal \<Rightarrow> provider_error_signal" where
  "provider_error_signal_from_adapter_signal signal =
     \<lparr>sg_status_code = as_status_code signal,
      sg_transport = map_option provider_transport_from_adapter (as_transport signal), sg_stream = None,
      sg_retry_after_ms = as_retry_after_ms signal\<rparr>"

definition DEFAULT_PROVIDER_KEY_RATE_LIMIT_COOLDOWN_MS :: u64 where
  "DEFAULT_PROVIDER_KEY_RATE_LIMIT_COOLDOWN_MS = 60000"

definition DEFAULT_PROVIDER_KEY_RETRY_AFTER_COOLDOWN_MS :: u64 where
  "DEFAULT_PROVIDER_KEY_RETRY_AFTER_COOLDOWN_MS = 30000"

definition MIN_PROVIDER_KEY_COOLDOWN_MS :: u64 where
  "MIN_PROVIDER_KEY_COOLDOWN_MS = 1000"

definition MAX_PROVIDER_KEY_COOLDOWN_MS :: u64 where
  "MAX_PROVIDER_KEY_COOLDOWN_MS = 3600000"

definition provider_key_cooldown_ms_from_now :: "u64 option \<Rightarrow> u64 \<Rightarrow> int" where
  "provider_key_cooldown_ms_from_now retry_after_ms default_ms =
     (let cooldown_ms = min (max (unwrap_or default_ms retry_after_ms) MIN_PROVIDER_KEY_COOLDOWN_MS) MAX_PROVIDER_KEY_COOLDOWN_MS
      in if uint cooldown_ms < 2 ^ 63 then uint cooldown_ms else 2 ^ 63 - 1)"

definition provider_key_status_and_cooldown_for_classification ::
  "provider_error_classification \<Rightarrow> bool \<Rightarrow> (string \<times> int option) option" where
  "provider_key_status_and_cooldown_for_classification classification quota_like =
     (if pc_status_code classification = Some 401 then Some (''auth_failed'', None)
      else if quota_like then Some (''quota_exhausted'', None)
      else case pc_health_impact classification of
             HI_MarkAuthFailed \<Rightarrow> Some (''auth_failed'', None)
           | HI_Cooldown \<Rightarrow>
               Some (''cooldown'', Some (provider_key_cooldown_ms_from_now (pc_retry_after_ms classification)
                  DEFAULT_PROVIDER_KEY_RATE_LIMIT_COOLDOWN_MS))
           | HI_Degrade \<Rightarrow>
               (if pc_retry_after_ms classification \<noteq> None
                then Some (''cooldown'', Some (provider_key_cooldown_ms_from_now (pc_retry_after_ms classification)
                       DEFAULT_PROVIDER_KEY_RETRY_AFTER_COOLDOWN_MS))
                else Some (''degraded'', None))
           | HI_None \<Rightarrow> None)"

definition provider_key_runtime_status_patch ::
  "adapter_error_signal \<Rightarrow> bool \<Rightarrow> (string \<times> int option) option" where
  "provider_key_runtime_status_patch adapter_signal quota_like =
     provider_key_status_and_cooldown_for_classification
       (classify_provider_error (provider_error_signal_from_adapter_signal adapter_signal)) quota_like"

section \<open>The \<open>Retry-After\<close> header\<close>

definition parse_retry_after_ms :: "string \<Rightarrow> u64 option" where
  "parse_retry_after_ms header = map_option of_nat (parse_unsigned 64 (trim header))"

definition parse_retry_after_seconds :: "string \<Rightarrow> u64 option" where
  "parse_retry_after_seconds header =
     Option.bind (parse_unsigned 64 (trim header)) (\<lambda>seconds.
       if seconds * 1000 < 2 ^ 64 then Some (of_nat (seconds * 1000)) else None)"

definition retry_after_ms_to_header_value :: "u64 \<Rightarrow> string" where
  "retry_after_ms_to_header_value retry_after_ms =
     show_nat (unat retry_after_ms div 1000 + (if unat retry_after_ms mod 1000 = 0 then 0 else 1))"

section \<open>Properties\<close>

lemma cooldown_bounds: "1000 \<le> provider_key_cooldown_ms_from_now r d \<and> provider_key_cooldown_ms_from_now r d \<le> 3600000"
proof -
  let ?c = "min (max (unwrap_or d r) MIN_PROVIDER_KEY_COOLDOWN_MS) MAX_PROVIDER_KEY_COOLDOWN_MS"
  have "MIN_PROVIDER_KEY_COOLDOWN_MS \<le> ?c \<and> ?c \<le> MAX_PROVIDER_KEY_COOLDOWN_MS"
    by (intro conjI min.boundedI max.cobounded2 min.cobounded2) (simp add: MIN_PROVIDER_KEY_COOLDOWN_MS_def MAX_PROVIDER_KEY_COOLDOWN_MS_def)
  then have "1000 \<le> uint ?c \<and> uint ?c \<le> 3600000"
    by (simp add: word_le_def MIN_PROVIDER_KEY_COOLDOWN_MS_def MAX_PROVIDER_KEY_COOLDOWN_MS_def)
  then show ?thesis by (simp add: provider_key_cooldown_ms_from_now_def Let_def)
qed

lemma fallback_status_classified:
  fixes code :: u16
  assumes "code = 408 \<or> code = 429 \<or> (500 \<le> code \<and> code \<le> 599)" and c_def: "c = classify_status_code g code"
  shows "pc_can_fallback c \<and> pc_kind c \<noteq> EK_ClientRequest \<and> pc_kind c \<noteq> EK_Authentication
    \<and> (pc_health_impact c = HI_Degrade \<or> pc_health_impact c = HI_Cooldown)"
proof -
  consider "code = 408" | "code = 429" | "500 \<le> code" "code \<le> 599" using assms(1) by blast
  then show ?thesis
  proof cases
    case 3
    have n: "\<not> code \<le> 499" using order_trans [OF 3(1), of 499] by auto
    then have ne: "code \<noteq> k" if "k \<le> 499" for k using that by auto
    show ?thesis
      by (simp add: c_def classify_status_code_def status_classification_def Let_def n ne)
  qed (simp_all add: c_def classify_status_code_def status_classification_def)
qed

lemma fallback_classified:
  assumes "error_signal_can_fallback s"
  defines "c \<equiv> classify_provider_error (provider_error_signal_from_adapter_signal s)"
  shows "pc_can_fallback c \<and> pc_kind c \<noteq> EK_ClientRequest \<and> pc_kind c \<noteq> EK_Authentication
    \<and> (pc_health_impact c = HI_Degrade \<or> pc_health_impact c = HI_Cooldown)"
    and "pc_status_code c \<noteq> Some 401"
proof -
  note unfolds = c_def classify_provider_error_def provider_error_signal_from_adapter_signal_def
  have "pc_can_fallback c \<and> pc_kind c \<noteq> EK_ClientRequest \<and> pc_kind c \<noteq> EK_Authentication
      \<and> (pc_health_impact c = HI_Degrade \<or> pc_health_impact c = HI_Cooldown) \<and> pc_status_code c = as_status_code s"
  proof (cases "as_transport s")
    case None
    then obtain code where code: "as_status_code s = Some code" "code = 408 \<or> code = 429 \<or> (500 \<le> code \<and> code \<le> 599)"
      using assms(1) by (auto simp: error_signal_can_fallback_def split: option.splits)
    moreover have "pc_status_code (classify_status_code g code) = Some code" for g
      by (simp add: classify_status_code_def status_classification_def Let_def)
    ultimately show ?thesis using None fallback_status_classified [OF code(2) refl] by (simp add: unfolds)
  next
    case (Some t)
    then show ?thesis by (cases t) (simp_all add: unfolds classify_transport_error_def)
  qed
  moreover have "as_status_code s \<noteq> Some 401" using assms(1) by (auto simp: error_signal_can_fallback_def)
  ultimately show "pc_can_fallback c \<and> pc_kind c \<noteq> EK_ClientRequest \<and> pc_kind c \<noteq> EK_Authentication
      \<and> (pc_health_impact c = HI_Degrade \<or> pc_health_impact c = HI_Cooldown)" "pc_status_code c \<noteq> Some 401" by simp_all
qed

text \<open>The handler moves on to another route only for errors the routing rules call recoverable: never for a request the
  provider rejected as the client's fault or for a refused credential, and every such error leaves a mark on the
  provider key, degraded or in a cooldown of between one second and one hour.\<close>

theorem fallback_is_classified_recoverable:
  assumes "error_signal_can_fallback s"
  shows "(let c = classify_provider_error (provider_error_signal_from_adapter_signal s)
          in pc_can_fallback c \<and> pc_kind c \<noteq> EK_ClientRequest \<and> pc_kind c \<noteq> EK_Authentication)
    \<and> (provider_key_runtime_status_patch s False = Some (''degraded'', None)
       \<or> (\<exists>ms. provider_key_runtime_status_patch s False = Some (''cooldown'', Some ms) \<and> 1000 \<le> ms \<and> ms \<le> 3600000))"
  using fallback_classified [OF assms] cooldown_bounds
  by (auto simp: Let_def provider_key_runtime_status_patch_def provider_key_status_and_cooldown_for_classification_def)

theorem fallback_is_classified_recoverable_witness:
  "\<exists>ms. provider_key_runtime_status_patch \<lparr>as_status_code = Some 429, as_transport = None, as_retry_after_ms = Some 20\<rparr> False
      = Some (''cooldown'', Some ms) \<and> 1000 \<le> ms \<and> ms \<le> 3600000"
proof -
  let ?s = "\<lparr>as_status_code = Some 429, as_transport = None, as_retry_after_ms = Some 20\<rparr>"
  have "provider_key_runtime_status_patch ?s False \<noteq> Some (''degraded'', None)"
    by (simp add: provider_key_runtime_status_patch_def provider_key_status_and_cooldown_for_classification_def
        classify_provider_error_def provider_error_signal_from_adapter_signal_def classify_status_code_def status_classification_def)
  moreover have "error_signal_can_fallback ?s" by (simp add: error_signal_can_fallback_def)
  ultimately show ?thesis using fallback_is_classified_recoverable [of ?s] by blast
qed

text \<open>The header a client receives never asks it to come back too early, and at most one second too late.\<close>

lemma retry_after_header_rounds_up:
  "\<exists>seconds. retry_after_ms_to_header_value ms = show_nat seconds
     \<and> unat ms \<le> 1000 * seconds \<and> 1000 * seconds < unat ms + 1000"
proof -
  have aux: "n \<le> 1000 * (n div 1000 + (if n mod 1000 = 0 then 0 else 1))
      \<and> 1000 * (n div 1000 + (if n mod 1000 = 0 then 0 else 1)) < n + 1000" for n :: nat
  proof -
    define q r where qr: "q = n div 1000" "r = n mod 1000"
    have "n = 1000 * q + r" "r < 1000" by (simp_all add: qr)
    then show ?thesis unfolding qr [symmetric] by simp
  qed
  show ?thesis unfolding retry_after_ms_to_header_value_def using aux [of "unat ms"] by blast
qed

lemma trim_show_nat: "trim (show_nat n) = show_nat n"
  using show_nat_digits [of n] show_nat_hd_digit [of n] is_ascii_digit_printable
  by (intro trim_printable_ends) (auto simp: list_all_iff)

lemma retry_after_header_roundtrip:
  assumes "unat ms \<le> 2 ^ 64 - 1000"
  shows "\<exists>ms'. parse_retry_after_seconds (retry_after_ms_to_header_value ms) = Some ms' \<and> ms \<le> ms' \<and> unat ms' < unat ms + 1000"
proof -
  obtain sec where sec: "retry_after_ms_to_header_value ms = show_nat sec" "unat ms \<le> 1000 * sec" "1000 * sec < unat ms + 1000"
    using retry_after_header_rounds_up by blast
  then have "sec * 1000 < 2 ^ 64" using assms by simp
  moreover from this have "sec < 2 ^ 64" by simp
  ultimately have "parse_retry_after_seconds (show_nat sec) = Some (of_nat (sec * 1000))"
    using parse_unsigned_show_nat [of sec 64] trim_show_nat [of sec] by (simp add: parse_retry_after_seconds_def)
  moreover have "n < 2 ^ 64 \<Longrightarrow> unat (of_nat n :: u64) = n" for n by (simp add: unat_of_nat)
  then have "unat (of_nat (sec * 1000) :: u64) = sec * 1000" using \<open>sec * 1000 < 2 ^ 64\<close> by blast
  ultimately show ?thesis using sec by (auto simp: word_le_nat_alt mult.commute)
qed

end
