(* ===== verification/GatewayRouting.thy ===== *)
theory GatewayRouting
  imports Complex_Main Selection RateLimit Rating RustParse Ledger
begin

text \<open>
  The gateway's use of routing (\<open>gateway/src/main.rs\<close>): a resolved route row becomes a routing candidate, the
  request becomes a routing request seeded from its body hash, and the decision becomes the ordered list of
  routes the handler tries. A route row is \<open>resolved_chat_route\<close> (\<open>gateway/src/db.rs\<close>); its two JSON columns are
  values of the parameter type of \<open>json_api\<close>, and \<open>depth\<close> bounds how deep such a document nests. A health score
  is an \<open>f64\<close>: a rational, an infinity or not a number. Identifiers print through the parameter \<open>fmt\<close>.
\<close>

section \<open>Data\<close>

datatype f64 = F64_NaN | F64_Infinite bool | F64_Finite rat

fun f64_is_finite :: "f64 \<Rightarrow> bool" where
  "f64_is_finite (F64_Finite q) = True"
| "f64_is_finite _ = False"

fun f64_le_const :: "f64 \<Rightarrow> rat \<Rightarrow> bool" where
  "f64_le_const (F64_Finite q) c = (q \<le> c)"
| "f64_le_const (F64_Infinite negative) c = negative"
| "f64_le_const F64_NaN c = False"

fun f64_less_const :: "f64 \<Rightarrow> rat \<Rightarrow> bool" where
  "f64_less_const (F64_Finite q) c = (q < c)"
| "f64_less_const (F64_Infinite negative) c = negative"
| "f64_less_const F64_NaN c = False"

record 'v resolved_chat_route =
  cr_canonical_model_id :: uuid
  cr_canonical_model_key :: string
  cr_model_association_id :: uuid
  cr_association_type :: string
  cr_provider_id :: uuid
  cr_channel_id :: uuid
  cr_provider_key_id :: uuid
  cr_channel_name :: string
  cr_endpoint :: string
  cr_protocol_mode :: string
  cr_upstream_model :: string
  cr_timeout_policy :: 'v
  cr_channel_status :: string
  cr_fallback_allowed :: bool
  cr_association_priority :: int
  cr_channel_priority :: int
  cr_channel_weight :: int
  cr_channel_health_score :: f64
  cr_rpm_limit :: "int option"
  cr_tpm_limit :: "int option"
  cr_concurrency_limit :: "int option"
  cr_current_window_state :: 'v

definition GATEWAY_ROUTE_PRIORITY_ASSOCIATION_MULTIPLIER :: int where
  "GATEWAY_ROUTE_PRIORITY_ASSOCIATION_MULTIPLIER = 1000000"

definition GATEWAY_RATE_LIMIT_REQUIRED_REQUESTS :: i64 where
  "GATEWAY_RATE_LIMIT_REQUIRED_REQUESTS = 1"

definition GATEWAY_RATE_LIMIT_REQUIRED_TOKENS_FALLBACK :: i64 where
  "GATEWAY_RATE_LIMIT_REQUIRED_TOKENS_FALLBACK = 1"

definition GATEWAY_RATE_LIMIT_REQUIRED_CONCURRENCY :: i64 where
  "GATEWAY_RATE_LIMIT_REQUIRED_CONCURRENCY = 1"

section \<open>Window counters in JSON\<close>

definition json_as_i64 :: "'v json_api \<Rightarrow> 'v \<Rightarrow> i64 option" where
  "json_as_i64 j v = (case json_view j v of JV_Number as_i64 as_u64 \<Rightarrow> as_i64 | _ \<Rightarrow> None)"

definition json_as_str :: "'v json_api \<Rightarrow> 'v \<Rightarrow> string option" where
  "json_as_str j v = (case json_view j v of JV_String s \<Rightarrow> Some s | _ \<Rightarrow> None)"

definition json_nesting :: "'v json_api \<Rightarrow> ('v \<Rightarrow> nat) \<Rightarrow> bool" where
  "json_nesting j depth \<longleftrightarrow> (\<forall>v k u. json_get j v k = Some u \<longrightarrow> depth u < depth v)"

text \<open>\<open>window_state_used_value\<close> recurses into the member \<open>used\<close>; the number is how many levels may
  still be entered, one more than the depth of the value.\<close>

primrec window_state_used_upto :: "'v json_api \<Rightarrow> nat \<Rightarrow> 'v \<Rightarrow> i64 option" where
  "window_state_used_upto j 0 v = None"
| "window_state_used_upto j (Suc n) v =
     (case json_as_i64 j v of
        Some used \<Rightarrow> Some used
      | None \<Rightarrow> (case json_as_u64 j v of
                  Some used \<Rightarrow> if uint used < 2 ^ 63 then Some used else None
                | None \<Rightarrow> (case Option.bind (json_as_str j v) (\<lambda>s. parse_signed 64 (trim s)) of
                            Some used \<Rightarrow> Some (word_of_int used)
                          | None \<Rightarrow> Option.bind (json_get j v ''used'') (window_state_used_upto j n))))"

definition window_state_used_value :: "'v json_api \<Rightarrow> ('v \<Rightarrow> nat) \<Rightarrow> 'v \<Rightarrow> i64 option" where
  "window_state_used_value j depth v = window_state_used_upto j (Suc (depth v)) v"

fun window_state_keys :: "rate_limit_dimension \<Rightarrow> string list" where
  "window_state_keys RD_RequestsPerMinute =
     [''requests_per_minute_used'', ''rpm_used'', ''requests_per_minute'', ''rpm'']"
| "window_state_keys RD_TokensPerMinute =
     [''tokens_per_minute_used'', ''tpm_used'', ''tokens_per_minute'', ''tpm'']"
| "window_state_keys RD_Concurrency =
     [''concurrency_used'', ''active_concurrency'', ''in_flight'', ''concurrency'']"

definition window_state_used_for_dimension ::
  "'v json_api \<Rightarrow> ('v \<Rightarrow> nat) \<Rightarrow> 'v \<Rightarrow> rate_limit_dimension \<Rightarrow> i64 option" where
  "window_state_used_for_dimension j depth state dimension =
     find_map (\<lambda>key. Option.bind (json_get j state key) (window_state_used_value j depth)) (window_state_keys dimension)"

section \<open>Routes as routing candidates\<close>

definition route_priority_for_routing :: "'v resolved_chat_route \<Rightarrow> int" where
  "route_priority_for_routing route =
     i32_saturate (i32_saturate (cr_association_priority route * GATEWAY_ROUTE_PRIORITY_ASSOCIATION_MULTIPLIER)
                   + cr_channel_priority route)"

definition channel_status_for_routing :: "string \<Rightarrow> channel_status" where
  "channel_status_for_routing status =
     (if status = ''enabled'' then CS_Enabled
      else if status = ''degraded'' then CS_Degraded
      else if status = ''disabled'' then CS_Disabled
      else if status = ''cooldown'' \<or> status = ''cooling_down'' then CS_CoolingDown
      else if status = ''recovery_probe'' then CS_RecoveryProbe
      else if status = ''auth_failed'' then CS_AuthFailed
      else if status = ''quota_exhausted'' then CS_QuotaExhausted
      else if status = ''manual_disabled'' then CS_ManualDisabled
      else if status = ''deleted'' then CS_Deleted
      else CS_Disabled)"

definition channel_health_for_routing :: "f64 \<Rightarrow> channel_health" where
  "channel_health_for_routing health_score =
     (if \<not> f64_is_finite health_score \<or> f64_le_const health_score 0 then CH_Unhealthy
      else if f64_less_const health_score (1 / 2) then CH_Degraded
      else CH_Healthy)"

definition route_rate_limit_window :: "int option \<Rightarrow> i64 option \<Rightarrow> i64 \<Rightarrow> rate_limit_window" where
  "route_rate_limit_window limit used required =
     (case limit of
        None \<Rightarrow> window_unlimited
      | Some l \<Rightarrow> (case used of
                    Some u \<Rightarrow> window_limited (word_of_int l) u required
                  | None \<Rightarrow> window_missing (word_of_int l) required))"

definition route_rate_limit_availability ::
  "'v json_api \<Rightarrow> ('v \<Rightarrow> nat) \<Rightarrow> 'v resolved_chat_route \<Rightarrow> rate_limit_availability" where
  "route_rate_limit_availability j depth route =
     (let used = window_state_used_for_dimension j depth (cr_current_window_state route)
      in evaluate_rate_limit_availability
           \<lparr>ai_requests_per_minute = route_rate_limit_window (cr_rpm_limit route) (used RD_RequestsPerMinute)
              GATEWAY_RATE_LIMIT_REQUIRED_REQUESTS,
            ai_tokens_per_minute = route_rate_limit_window (cr_tpm_limit route) (used RD_TokensPerMinute)
              GATEWAY_RATE_LIMIT_REQUIRED_TOKENS_FALLBACK,
            ai_concurrency = route_rate_limit_window (cr_concurrency_limit route) (used RD_Concurrency)
              GATEWAY_RATE_LIMIT_REQUIRED_CONCURRENCY\<rparr>)"

definition routing_candidate_from_route ::
  "(uuid \<Rightarrow> string) \<Rightarrow> 'v json_api \<Rightarrow> ('v \<Rightarrow> nat) \<Rightarrow> 'v resolved_chat_route \<Rightarrow> route_candidate" where
  "routing_candidate_from_route fmt j depth route =
     with_rate_limit_available (av_selectable (route_rate_limit_availability j depth route))
       (with_health (channel_health_for_routing (cr_channel_health_score route))
         (with_status (channel_status_for_routing (cr_channel_status route))
           (route_candidate_new (fmt (cr_channel_id route)) (fmt (cr_provider_id route)) (cr_upstream_model route)
              (route_priority_for_routing route)
              (if 0 \<le> cr_channel_weight route then word_of_int (cr_channel_weight route) else 0))))"

section \<open>The request and the decision\<close>

definition str_is_char_boundary :: "string \<Rightarrow> nat \<Rightarrow> bool" where
  "str_is_char_boundary s n \<longleftrightarrow>
     n = 0 \<or> n = length s \<or> (n < length s \<and> \<not> (128 \<le> byte_of (s ! n) \<and> byte_of (s ! n) < 192))"

definition hex_digit_value :: "char \<Rightarrow> nat option" where
  "hex_digit_value c =
     (if is_ascii_digit c then Some (byte_of c - 48)
      else if 97 \<le> byte_of c \<and> byte_of c \<le> 102 then Some (byte_of c - 87)
      else if 65 \<le> byte_of c \<and> byte_of c \<le> 70 then Some (byte_of c - 55)
      else None)"

primrec hex_digits_value :: "nat \<Rightarrow> string \<Rightarrow> nat option" where
  "hex_digits_value acc [] = Some acc"
| "hex_digits_value acc (c # cs) =
     (case hex_digit_value c of
        None \<Rightarrow> None
      | Some d \<Rightarrow> let acc' = 16 * acc + d in if acc' < 2 ^ 64 then hex_digits_value acc' cs else None)"

definition u64_from_hex :: "string \<Rightarrow> u64 option" where
  "u64_from_hex s =
     (let digits = (case s of c # cs \<Rightarrow> if c = CHR ''+'' then cs else s | [] \<Rightarrow> [])
      in if digits = [] then None else map_option of_nat (hex_digits_value 0 digits))"

definition routing_seed_from_hash :: "string \<Rightarrow> u64" where
  "routing_seed_from_hash request_body_hash =
     unwrap_or 0 (if 16 \<le> length request_body_hash \<and> str_is_char_boundary request_body_hash 16
                  then u64_from_hex (take 16 request_body_hash) else None)"

definition route_request_for_selection :: "string \<Rightarrow> string \<Rightarrow> string \<Rightarrow> route_request" where
  "route_request_for_selection requested_model model_key request_body_hash =
     with_canonical_model model_key (route_request_new requested_model (routing_seed_from_hash request_body_hash))"

definition route_selection_context_for_gateway_trace_affinity ::
  "(uuid \<Rightarrow> string) \<Rightarrow> string option \<Rightarrow> uuid option \<Rightarrow> route_selection_context" where
  "route_selection_context_for_gateway_trace_affinity fmt trace_id previous_success =
     (let cx = (case trace_id of Some t \<Rightarrow> for_trace t | None \<Rightarrow> context_default)
      in case previous_success of
           Some channel_id \<Rightarrow> with_trace_affinity_channel (fmt channel_id) cx
         | None \<Rightarrow> cx)"

text \<open>The lookup of the previous success is a database answer: an error, no row, or the channel of the row. It is
  asked for only when the request carries a trace id, and an error counts as no row.\<close>

definition route_decision_with_gateway_trace_affinity ::
  "(uuid \<Rightarrow> string) \<Rightarrow> 'v json_api \<Rightarrow> ('v \<Rightarrow> nat) \<Rightarrow> (string \<Rightarrow> string + uuid option) \<Rightarrow> string option \<Rightarrow> string \<Rightarrow> string
   \<Rightarrow> string \<Rightarrow> 'v resolved_chat_route list \<Rightarrow> route_decision" where
  "route_decision_with_gateway_trace_affinity fmt j depth lookup trace_id requested_model model_key
       request_body_hash routes =
     (let previous_success = (case trace_id of
             None \<Rightarrow> None
           | Some t \<Rightarrow> (case lookup t of Inr found \<Rightarrow> found | Inl e \<Rightarrow> None))
      in select_route_with_context (route_request_for_selection requested_model model_key request_body_hash)
           (map (routing_candidate_from_route fmt j depth) routes)
           (route_selection_context_for_gateway_trace_affinity fmt trace_id previous_success))"

section \<open>The routes to try\<close>

definition chat_route_matches_candidate ::
  "(uuid \<Rightarrow> string) \<Rightarrow> 'v resolved_chat_route \<Rightarrow> route_candidate \<Rightarrow> bool" where
  "chat_route_matches_candidate fmt route c \<longleftrightarrow>
     fmt (cr_channel_id route) = rc_channel_id c \<and> fmt (cr_provider_id route) = rc_provider_id c
     \<and> cr_upstream_model route = rc_provider_model c"

definition selected_chat_route ::
  "(uuid \<Rightarrow> string) \<Rightarrow> 'v resolved_chat_route list \<Rightarrow> route_decision \<Rightarrow> 'v resolved_chat_route option" where
  "selected_chat_route fmt routes decision =
     Option.bind (rd_selected decision) (\<lambda>selected.
       List.find (\<lambda>route. fmt (cr_channel_id route) = sr_channel_id selected
         \<and> fmt (cr_provider_id route) = sr_provider_id selected
         \<and> cr_upstream_model route = sr_provider_model selected) routes)"

text \<open>The loop over the evaluated candidates that follows the selected route.\<close>

fun push_fallback_attempts ::
  "(uuid \<Rightarrow> string) \<Rightarrow> nat \<Rightarrow> 'v resolved_chat_route list \<Rightarrow> evaluated_candidate list
   \<Rightarrow> 'v resolved_chat_route list \<Rightarrow> 'v resolved_chat_route list" where
  "push_fallback_attempts fmt max_attempts routes [] attempts = attempts"
| "push_fallback_attempts fmt max_attempts routes (evaluated # rest) attempts =
     (if length attempts \<ge> max_attempts then attempts
      else if \<not> is_selectable evaluated then push_fallback_attempts fmt max_attempts routes rest attempts
      else if list_ex (\<lambda>route. chat_route_matches_candidate fmt route (ev_candidate evaluated)) attempts
      then push_fallback_attempts fmt max_attempts routes rest attempts
      else case List.find (\<lambda>route. chat_route_matches_candidate fmt route (ev_candidate evaluated)) routes of
             None \<Rightarrow> push_fallback_attempts fmt max_attempts routes rest attempts
           | Some route \<Rightarrow>
               push_fallback_attempts fmt max_attempts routes rest
                 (if cr_fallback_allowed route then attempts @ [route] else attempts))"

definition chat_attempt_routes ::
  "(uuid \<Rightarrow> string) \<Rightarrow> 'v resolved_chat_route list \<Rightarrow> route_decision \<Rightarrow> nat \<Rightarrow> 'v resolved_chat_route list" where
  "chat_attempt_routes fmt routes decision max_attempts =
     (case selected_chat_route fmt routes decision of
        None \<Rightarrow> []
      | Some selected \<Rightarrow> push_fallback_attempts fmt (max max_attempts 1) routes (rd_candidates decision) [selected])"

text \<open>The configured bound is a \<open>u32\<close>, which fits a \<open>usize\<close>.\<close>

definition configured_max_provider_attempts :: "u32 \<Rightarrow> nat" where
  "configured_max_provider_attempts default_max_attempts = max (unat default_max_attempts) 1"

definition route_upstream_timeout :: "'v json_api \<Rightarrow> 'v resolved_chat_route \<Rightarrow> nat \<Rightarrow> nat" where
  "route_upstream_timeout j route default_timeout_ms =
     (case Option.bind (json_get j (cr_timeout_policy route) ''request_timeout_ms'') (json_as_u64 j) of
        Some milliseconds \<Rightarrow> if milliseconds > 0 then unat milliseconds else default_timeout_ms
      | None \<Rightarrow> default_timeout_ms)"

section \<open>Lemmas\<close>

lemma window_state_fuel:
  assumes "json_nesting j depth"
  shows "depth v < n \<Longrightarrow> depth v < m \<Longrightarrow> window_state_used_upto j n v = window_state_used_upto j m v"
proof (induction n arbitrary: m v)
  case (Suc n)
  from Suc.prems obtain m' where m: "m = Suc m'" by (cases m) auto
  have "window_state_used_upto j n u = window_state_used_upto j m' u" if "json_get j v ''used'' = Some u" for u
    using that assms Suc.prems m by (intro Suc.IH) (fastforce simp: json_nesting_def)+
  then show ?case unfolding m by (cases "json_get j v ''used''") (simp_all split: option.split)
qed simp

lemma window_state_used_value_unfold:
  assumes "json_nesting j depth"
  shows "window_state_used_value j depth v =
     (case json_as_i64 j v of
        Some used \<Rightarrow> Some used
      | None \<Rightarrow> (case json_as_u64 j v of
                  Some used \<Rightarrow> if uint used < 2 ^ 63 then Some used else None
                | None \<Rightarrow> (case Option.bind (json_as_str j v) (\<lambda>s. parse_signed 64 (trim s)) of
                            Some used \<Rightarrow> Some (word_of_int used)
                          | None \<Rightarrow> Option.bind (json_get j v ''used'') (window_state_used_value j depth))))"
proof -
  have "window_state_used_upto j (depth v) u = window_state_used_value j depth u" if "json_get j v ''used'' = Some u" for u
    using that assms unfolding window_state_used_value_def by (intro window_state_fuel) (auto simp: json_nesting_def)
  then show ?thesis
    by (cases "json_get j v ''used''") (simp_all add: window_state_used_value_def split: option.split)
qed

definition route_key :: "'v resolved_chat_route \<Rightarrow> uuid \<times> uuid \<times> string" where
  "route_key r = (cr_channel_id r, cr_provider_id r, cr_upstream_model r)"

definition route_eligible :: "'v json_api \<Rightarrow> ('v \<Rightarrow> nat) \<Rightarrow> 'v resolved_chat_route \<Rightarrow> bool" where
  "route_eligible j depth r \<longleftrightarrow>
     cr_channel_status r \<in> {''enabled'', ''degraded''}
     \<and> (\<exists>q. cr_channel_health_score r = F64_Finite q \<and> 0 < q)
     \<and> 0 < cr_channel_weight r
     \<and> av_selectable (route_rate_limit_availability j depth r)"

definition routes_agree :: "'v resolved_chat_route list \<Rightarrow> bool" where
  "routes_agree routes \<longleftrightarrow> (\<forall>r\<in>set routes. \<forall>s\<in>set routes. route_key r = route_key s \<longrightarrow>
     cr_channel_status r = cr_channel_status s \<and> cr_channel_health_score r = cr_channel_health_score s
     \<and> cr_channel_weight r = cr_channel_weight s \<and> cr_rpm_limit r = cr_rpm_limit s \<and> cr_tpm_limit r = cr_tpm_limit s
     \<and> cr_concurrency_limit r = cr_concurrency_limit s \<and> cr_current_window_state r = cr_current_window_state s)"

definition weights_fit :: "'v resolved_chat_route list \<Rightarrow> bool" where
  "weights_fit routes \<longleftrightarrow> (\<forall>r\<in>set routes. cr_channel_weight r < 2 ^ 31)"

lemma candidate_fields [simp]:
  "rc_channel_id (routing_candidate_from_route fmt j depth r) = fmt (cr_channel_id r)"
  "rc_provider_id (routing_candidate_from_route fmt j depth r) = fmt (cr_provider_id r)"
  "rc_provider_model (routing_candidate_from_route fmt j depth r) = cr_upstream_model r"
  by (simp_all add: routing_candidate_from_route_def with_rate_limit_available_def with_health_def with_status_def
      route_candidate_new_def)

lemma route_matches_own:
  assumes "inj fmt"
  shows "chat_route_matches_candidate fmt r (routing_candidate_from_route fmt j depth s) \<longleftrightarrow> route_key r = route_key s"
  using assms by (auto simp: chat_route_matches_candidate_def route_key_def dest: injD)

lemma status_for_routing_usable:
  "channel_status_for_routing st = CS_Enabled \<longleftrightarrow> st = ''enabled''"
  "channel_status_for_routing st = CS_Degraded \<longleftrightarrow> st = ''degraded''"
  by (simp_all add: channel_status_for_routing_def)

lemma health_for_routing_usable:
  "channel_health_for_routing h \<noteq> CH_Unhealthy \<longleftrightarrow> (\<exists>q. h = F64_Finite q \<and> 0 < q)"
  by (cases h) (auto simp: channel_health_for_routing_def)

lemma weight_for_routing:
  assumes "w < 2 ^ 31"
  shows "(if 0 \<le> w then word_of_int w else 0 :: u32) = 0 \<longleftrightarrow> w \<le> 0"
  using assms by (auto simp: word_of_int_eq_0_iff dvd_def)

lemma selection_filter_none_iff:
  "selection_filter_reason_for c = None \<longleftrightarrow>
     (rc_status c = CS_Enabled \<or> rc_status c = CS_Degraded) \<and> rc_rate_limit_available c
     \<and> rc_health c \<noteq> CH_Unhealthy \<and> rc_weight c \<noteq> 0"
  by (simp add: selection_filter_reason_for_def split: channel_status.split)

lemma eligible_iff_selectable:
  assumes "cr_channel_weight r < 2 ^ 31"
  shows "selection_filter_reason_for (routing_candidate_from_route fmt j depth r) = None \<longleftrightarrow> route_eligible j depth r"
  unfolding selection_filter_none_iff route_eligible_def
  using weight_for_routing [OF assms] health_for_routing_usable [of "cr_channel_health_score r"]
    status_for_routing_usable [of "cr_channel_status r"]
  by (auto simp: routing_candidate_from_route_def with_rate_limit_available_def with_health_def with_status_def
      route_candidate_new_def not_le)

definition printed_key :: "(uuid \<Rightarrow> string) \<Rightarrow> 'v resolved_chat_route \<Rightarrow> string \<times> string \<times> string" where
  "printed_key fmt r = (fmt (cr_channel_id r), fmt (cr_provider_id r), cr_upstream_model r)"

lemma matches_printed_key:
  "chat_route_matches_candidate fmt r c \<longleftrightarrow> printed_key fmt r = (rc_channel_id c, rc_provider_id c, rc_provider_model c)"
  by (auto simp: chat_route_matches_candidate_def printed_key_def)

lemma distinct_route_keys: "distinct (map (printed_key fmt) rs) \<Longrightarrow> distinct (map route_key rs)"
  using distinct_map [of "\<lambda>(c, p, m). (fmt c, fmt p, m)" "map route_key rs"]
  by (simp add: comp_def printed_key_def [abs_def] route_key_def)

text \<open>One turn of the loop appends at most one route.\<close>

definition pushed ::
  "(uuid \<Rightarrow> string) \<Rightarrow> 'v resolved_chat_route list \<Rightarrow> evaluated_candidate \<Rightarrow> 'v resolved_chat_route list
   \<Rightarrow> 'v resolved_chat_route list" where
  "pushed fmt routes e attempts =
     (if is_selectable e \<and> \<not> list_ex (\<lambda>r. chat_route_matches_candidate fmt r (ev_candidate e)) attempts
      then case List.find (\<lambda>r. chat_route_matches_candidate fmt r (ev_candidate e)) routes of
             Some r \<Rightarrow> if cr_fallback_allowed r then [r] else []
           | None \<Rightarrow> []
      else [])"

lemma push_fallback_attempts_Cons:
  "push_fallback_attempts fmt n routes (e # es) attempts =
     (if n \<le> length attempts then attempts
      else push_fallback_attempts fmt n routes es (attempts @ pushed fmt routes e attempts))"
  by (simp add: pushed_def split: option.split)

lemma pushed_cases:
  obtains "pushed fmt routes e attempts = []"
  | r where "pushed fmt routes e attempts = [r]" "r \<in> set routes" "cr_fallback_allowed r" "is_selectable e"
      "chat_route_matches_candidate fmt r (ev_candidate e)"
      "\<not> list_ex (\<lambda>r. chat_route_matches_candidate fmt r (ev_candidate e)) attempts"
proof (cases "List.find (\<lambda>r. chat_route_matches_candidate fmt r (ev_candidate e)) routes")
  case None
  then have "pushed fmt routes e attempts = []" by (simp add: pushed_def)
  then show thesis by (rule that(1))
next
  case (Some r)
  then have "r \<in> set routes" "chat_route_matches_candidate fmt r (ev_candidate e)" using find_SomeD by fast+
  moreover have "pushed fmt routes e attempts =
      (if is_selectable e \<and> \<not> list_ex (\<lambda>r. chat_route_matches_candidate fmt r (ev_candidate e)) attempts \<and> cr_fallback_allowed r
       then [r] else [])"
    using Some by (simp add: pushed_def)
  ultimately show thesis using that by (metis (no_types, lifting))
qed

lemma pushed_sound:
  assumes "distinct (map (printed_key fmt) attempts)"
  shows "length (pushed fmt routes e attempts) \<le> 1"
    and "distinct (map (printed_key fmt) (attempts @ pushed fmt routes e attempts))"
    and "\<forall>r\<in>set (pushed fmt routes e attempts). r \<in> set routes \<and> cr_fallback_allowed r \<and> is_selectable e
           \<and> chat_route_matches_candidate fmt r (ev_candidate e)"
  using assms by (cases fmt routes e attempts rule: pushed_cases; auto simp: list_ex_iff matches_printed_key)+

declare push_fallback_attempts.simps(2) [simp del]

text \<open>What the loop appends: routes of the list, each allowed as a fallback and matching a selectable candidate,
  none twice, and never past the bound.\<close>

lemma push_fallback_attempts_sound:
  assumes "distinct (map (printed_key fmt) attempts)"
  shows "\<exists>more. push_fallback_attempts fmt n routes es attempts = attempts @ more
    \<and> length (attempts @ more) \<le> max n (length attempts)
    \<and> distinct (map (printed_key fmt) (attempts @ more))
    \<and> (\<forall>r\<in>set more. r \<in> set routes \<and> cr_fallback_allowed r
         \<and> (\<exists>e\<in>set es. is_selectable e \<and> chat_route_matches_candidate fmt r (ev_candidate e)))"
  using assms
proof (induction es arbitrary: attempts)
  case (Cons e es)
  note p = pushed_sound [OF Cons.prems, where routes = routes and e = e]
  show ?case
  proof (cases "n \<le> length attempts")
    case True
    then show ?thesis using Cons.prems by (intro exI [of _ "[]"]) (simp add: push_fallback_attempts_Cons)
  next
    case False
    from Cons.IH [OF p(2)] obtain more where more:
      "push_fallback_attempts fmt n routes es (attempts @ pushed fmt routes e attempts) = (attempts @ pushed fmt routes e attempts) @ more"
      "length ((attempts @ pushed fmt routes e attempts) @ more) \<le> max n (length (attempts @ pushed fmt routes e attempts))"
      "distinct (map (printed_key fmt) ((attempts @ pushed fmt routes e attempts) @ more))"
      "\<forall>r\<in>set more. r \<in> set routes \<and> cr_fallback_allowed r
         \<and> (\<exists>e\<in>set es. is_selectable e \<and> chat_route_matches_candidate fmt r (ev_candidate e))" by blast
    show ?thesis
      using False more p(1) by (intro exI [of _ "pushed fmt routes e attempts @ more"])
        (use p(3) in \<open>auto simp: push_fallback_attempts_Cons\<close>)
  qed
qed simp

lemma push_fallback_attempts_mono: "set attempts \<subseteq> set (push_fallback_attempts fmt n routes es attempts)"
  by (induction es arbitrary: attempts) (force simp: push_fallback_attempts_Cons)+

lemma push_fallback_attempts_nonempty: "attempts \<noteq> [] \<Longrightarrow> push_fallback_attempts fmt n routes es attempts \<noteq> []"
  using push_fallback_attempts_mono [of attempts fmt n routes es] by auto

text \<open>With room left, every selectable candidate whose route may serve as a fallback has been appended.\<close>

lemma push_fallback_attempts_complete:
  assumes "length (push_fallback_attempts fmt n routes es attempts) < n"
    and "e \<in> set es" "is_selectable e"
    and "List.find (\<lambda>r. chat_route_matches_candidate fmt r (ev_candidate e)) routes = Some r" "cr_fallback_allowed r"
  shows "\<exists>a\<in>set (push_fallback_attempts fmt n routes es attempts). chat_route_matches_candidate fmt a (ev_candidate e)"
  using assms(1,2)
proof (induction es arbitrary: attempts)
  case (Cons f es)
  then have step: "push_fallback_attempts fmt n routes (f # es) attempts
      = push_fallback_attempts fmt n routes es (attempts @ pushed fmt routes f attempts)"
    by (auto simp: push_fallback_attempts_Cons split: if_splits)
  show ?case
  proof (cases "e = f")
    case True
    then have "\<exists>a\<in>set (attempts @ pushed fmt routes f attempts). chat_route_matches_candidate fmt a (ev_candidate e)"
      using assms(3-5) find_SomeD [OF assms(4)]
      by (cases "list_ex (\<lambda>r. chat_route_matches_candidate fmt r (ev_candidate e)) attempts")
        (auto simp: pushed_def list_ex_iff)
    then show ?thesis unfolding step using push_fallback_attempts_mono by blast
  qed (use Cons step in auto)
qed simp

lemma eligible_agree:
  assumes "routes_agree routes" "r \<in> set routes" "s \<in> set routes" "route_key r = route_key s" "route_eligible j depth s"
  shows "route_eligible j depth r"
proof -
  have "cr_channel_status r = cr_channel_status s" "cr_channel_health_score r = cr_channel_health_score s"
    "cr_channel_weight r = cr_channel_weight s" "cr_rpm_limit r = cr_rpm_limit s" "cr_tpm_limit r = cr_tpm_limit s"
    "cr_concurrency_limit r = cr_concurrency_limit s" "cr_current_window_state r = cr_current_window_state s"
    using assms(1-4) unfolding routes_agree_def by metis+
  with assms(5) show ?thesis by (simp add: route_eligible_def route_rate_limit_availability_def)
qed

lemma evaluated_routes:
  "set (evaluate_candidates (map (routing_candidate_from_route fmt j depth) routes)) =
     (\<lambda>r. \<lparr>ev_candidate = routing_candidate_from_route fmt j depth r,
           ev_filter_reason = selection_filter_reason_for (routing_candidate_from_route fmt j depth r)\<rparr>) ` set routes"
  by (simp add: evaluate_candidates_def candidate_order.set_sort_by image_image)

lemma decision_candidates:
  "rd_candidates (select_route_with_context request cands cx) = evaluate_candidates cands"
  by (simp add: select_route_with_context_def select_from_evaluated_candidates_def Let_def)

lemma selectable_evaluated:
  assumes "weights_fit routes" "e \<in> set (evaluate_candidates (map (routing_candidate_from_route fmt j depth) routes))" "is_selectable e"
  shows "\<exists>r\<in>set routes. route_eligible j depth r \<and> ev_candidate e = routing_candidate_from_route fmt j depth r"
proof -
  obtain r where r: "r \<in> set routes" "e = \<lparr>ev_candidate = routing_candidate_from_route fmt j depth r,
      ev_filter_reason = selection_filter_reason_for (routing_candidate_from_route fmt j depth r)\<rparr>"
    using assms(2) unfolding evaluated_routes by blast
  then have "cr_channel_weight r < 2 ^ 31" using assms(1) by (simp add: weights_fit_def)
  with eligible_iff_selectable [OF this, of fmt j depth] r assms(3) show ?thesis by (auto simp: is_selectable_def)
qed

lemma selected_chat_route_eligible:
  assumes "inj fmt" "routes_agree routes" "weights_fit routes"
    and "decision = select_route_with_context request (map (routing_candidate_from_route fmt j depth) routes) cx"
    and "rd_selected decision = Some sel"
  shows "\<exists>r. selected_chat_route fmt routes decision = Some r \<and> r \<in> set routes \<and> route_eligible j depth r"
proof -
  let ?es = "evaluate_candidates (map (routing_candidate_from_route fmt j depth) routes)"
  obtain e where e: "e \<in> set ?es" "sel = selected_route_from_candidate e" "is_selectable e"
    using selected_is_candidate [of request ?es cx sel] assms(4,5) by (auto simp: select_route_with_context_def)
  obtain s where s: "s \<in> set routes" "route_eligible j depth s" "ev_candidate e = routing_candidate_from_route fmt j depth s"
    using selectable_evaluated [OF assms(3) e(1,3)] by metis
  have eq: "selected_chat_route fmt routes decision = List.find (\<lambda>r. route_key r = route_key s) routes"
    using assms(1,5) e(2) s(3)
    by (auto simp: selected_chat_route_def selected_route_from_candidate_def route_key_def inj_eq intro!: arg_cong [where f = "\<lambda>P. List.find P routes"])
  obtain r where r: "List.find (\<lambda>r. route_key r = route_key s) routes = Some r"
    using s(1) by (cases "List.find (\<lambda>r. route_key r = route_key s) routes") (auto simp: find_None_iff)
  from find_SomeD [OF r] have "r \<in> set routes" "route_key r = route_key s" by auto
  with eligible_agree [OF assms(2) _ s(1) _ s(2)] eq r show ?thesis by auto
qed

text \<open>C30. Every route the gateway tries is fit to be tried: the list of attempts is at most as long as configured
  (and at least one), no channel, provider and model combination occurs twice, each attempted route is an enabled or
  degraded, healthy, weighted route whose provider key has capacity left, and each route after the first was marked
  as allowed for fallback. Rows of one channel, provider and model carry the same channel and key columns.\<close>

theorem attempted_routes_are_eligible:
  assumes "uuid_display fmt" "routes_agree routes" "weights_fit routes"
    and "attempts = chat_attempt_routes fmt routes
      (route_decision_with_gateway_trace_affinity fmt j depth lookup trace_id requested_model model_key hash routes) max_attempts"
  shows "length attempts \<le> max max_attempts 1 \<and> distinct (map route_key attempts)
    \<and> (\<forall>r\<in>set attempts. r \<in> set routes \<and> route_eligible j depth r) \<and> (\<forall>r\<in>set (tl attempts). cr_fallback_allowed r)"
proof -
  define D where "D = route_decision_with_gateway_trace_affinity fmt j depth lookup trace_id requested_model model_key hash routes"
  let ?es = "evaluate_candidates (map (routing_candidate_from_route fmt j depth) routes)"
  have inj: "inj fmt" using assms(1) by (simp add: uuid_display_def)
  obtain request cx where D: "D = select_route_with_context request (map (routing_candidate_from_route fmt j depth) routes) cx"
    by (simp add: D_def route_decision_with_gateway_trace_affinity_def Let_def)
  show ?thesis
  proof (cases "selected_chat_route fmt routes D")
    case None
    then show ?thesis using assms(4) by (simp add: chat_attempt_routes_def D_def)
  next
    case (Some r)
    then have r: "r \<in> set routes" "route_eligible j depth r"
      using selected_chat_route_eligible [OF inj assms(2,3) D] by (auto simp: selected_chat_route_def split: option.splits bind_splits)
    obtain more where more: "attempts = r # more" "length (r # more) \<le> max max_attempts 1"
      "distinct (map (printed_key fmt) (r # more))"
      "\<forall>r\<in>set more. r \<in> set routes \<and> cr_fallback_allowed r
         \<and> (\<exists>e\<in>set ?es. is_selectable e \<and> chat_route_matches_candidate fmt r (ev_candidate e))"
      using push_fallback_attempts_sound [of fmt "[r]" "max max_attempts 1" routes ?es] Some assms(4)
      by (auto simp: chat_attempt_routes_def D_def [symmetric] D decision_candidates)
    have "route_eligible j depth s" if s: "s \<in> set more" for s
    proof -
      from more(4) s obtain e where e: "e \<in> set ?es" "is_selectable e" "chat_route_matches_candidate fmt s (ev_candidate e)" by blast
      obtain t where t: "t \<in> set routes" "route_eligible j depth t" "ev_candidate e = routing_candidate_from_route fmt j depth t"
        using selectable_evaluated [OF assms(3) e(1,2)] by metis
      with e(3) route_matches_own [OF inj] have "route_key s = route_key t" by metis
      with eligible_agree [OF assms(2) _ t(1) _ t(2)] more(4) s show ?thesis by blast
    qed
    with more r distinct_route_keys [OF more(3)] show ?thesis by auto
  qed
qed

lemma eligible_evaluated:
  assumes "weights_fit routes" "r \<in> set routes" "route_eligible j depth r"
  shows "\<lparr>ev_candidate = routing_candidate_from_route fmt j depth r, ev_filter_reason = None\<rparr>
    \<in> set (evaluate_candidates (map (routing_candidate_from_route fmt j depth) routes))"
  using assms eligible_iff_selectable [of r fmt j depth] unfolding evaluated_routes weights_fit_def by force

text \<open>C31. No fit route is overlooked: there is an attempt exactly when some route is eligible, and when fewer routes
  are tried than configured, every eligible route whose rows allow fallback is among them. Trace affinity and the seed
  decide only which route comes first.\<close>

theorem eligible_routes_are_attempted:
  assumes "uuid_display fmt" "routes_agree routes" "weights_fit routes" "length routes < 2 ^ 32"
    and "attempts = chat_attempt_routes fmt routes
      (route_decision_with_gateway_trace_affinity fmt j depth lookup trace_id requested_model model_key hash routes) max_attempts"
  shows "(attempts \<noteq> [] \<longleftrightarrow> (\<exists>r\<in>set routes. route_eligible j depth r))
    \<and> (attempts \<noteq> [] \<and> length attempts < max max_attempts 1 \<longrightarrow>
         (\<forall>r\<in>set routes. route_eligible j depth r \<and> (\<forall>s\<in>set routes. route_key s = route_key r \<longrightarrow> cr_fallback_allowed s)
            \<longrightarrow> route_key r \<in> route_key ` set attempts))"
proof -
  define D where "D = route_decision_with_gateway_trace_affinity fmt j depth lookup trace_id requested_model model_key hash routes"
  let ?cs = "map (routing_candidate_from_route fmt j depth) routes"
  have inj: "inj fmt" using assms(1) by (simp add: uuid_display_def)
  obtain request cx where D: "D = select_route_with_context request ?cs cx"
    by (simp add: D_def route_decision_with_gateway_trace_affinity_def Let_def)
  have att: "attempts = (case selected_chat_route fmt routes D of None \<Rightarrow> []
      | Some r \<Rightarrow> push_fallback_attempts fmt (max max_attempts 1) routes (evaluate_candidates ?cs) [r])"
    using assms(5) unfolding D_def [symmetric] by (simp add: chat_attempt_routes_def D decision_candidates split: option.split)
  have nonempty: "attempts \<noteq> [] \<longleftrightarrow> selected_chat_route fmt routes D \<noteq> None"
    unfolding att by (simp add: push_fallback_attempts_nonempty split: option.split)
  have sel: "\<exists>r\<in>set routes. route_eligible j depth r" if "selected_chat_route fmt routes D \<noteq> None"
    using selected_chat_route_eligible [OF inj assms(2,3) D] that by (cases "rd_selected D") (auto simp: selected_chat_route_def)
  have conv: "selected_chat_route fmt routes D \<noteq> None" if "r \<in> set routes" "route_eligible j depth r" for r
  proof -
    have "cr_channel_weight r < 2 ^ 31" using assms(3) that(1) by (simp add: weights_fit_def)
    then have "rd_selected D \<noteq> None"
      using eligible_selected [of "routing_candidate_from_route fmt j depth r" ?cs request cx] that assms(4)
        eligible_iff_selectable [of r fmt j depth] by (simp add: D)
    then show ?thesis using selected_chat_route_eligible [OF inj assms(2,3) D] by auto
  qed
  have all: "route_key r \<in> route_key ` set attempts"
    if ne: "attempts \<noteq> []" "length attempts < max max_attempts 1" and r: "r \<in> set routes" "route_eligible j depth r"
      and fb: "\<forall>s\<in>set routes. route_key s = route_key r \<longrightarrow> cr_fallback_allowed s" for r
  proof -
    let ?e = "\<lparr>ev_candidate = routing_candidate_from_route fmt j depth r, ev_filter_reason = None\<rparr>"
    obtain s where s: "List.find (\<lambda>s. chat_route_matches_candidate fmt s (ev_candidate ?e)) routes = Some s"
      using r(1) route_matches_own [OF inj, of r j depth r]
      by (cases "List.find (\<lambda>s. chat_route_matches_candidate fmt s (ev_candidate ?e)) routes") (auto simp: find_None_iff)
    from find_SomeD [OF s] have "s \<in> set routes" "route_key s = route_key r" using route_matches_own [OF inj] by auto
    then have "cr_fallback_allowed s" using fb by blast
    then have "\<exists>a\<in>set attempts. chat_route_matches_candidate fmt a (ev_candidate ?e)"
      using push_fallback_attempts_complete [OF _ eligible_evaluated [OF assms(3) r] _ s] ne att
      by (auto simp: is_selectable_def split: option.splits)
    then obtain a where "a \<in> set attempts" "route_key a = route_key r" by (auto simp: route_matches_own [OF inj])
    then show ?thesis by (metis imageI)
  qed
  show ?thesis using nonempty sel conv all by blast
qed

text \<open>Two routes of different channels, the second one close to its limit, for the concrete instances.\<close>

definition plain_json :: "jdoc json_api" where
  "plain_json = jdoc_api JNull"

definition sample_route :: "uuid \<Rightarrow> jdoc resolved_chat_route" where
  "sample_route channel =
     \<lparr>cr_canonical_model_id = 1, cr_canonical_model_key = ''gpt'', cr_model_association_id = 2,
      cr_association_type = ''global'', cr_provider_id = 3, cr_channel_id = channel, cr_provider_key_id = 4,
      cr_channel_name = ''main'', cr_endpoint = ''https://p'', cr_protocol_mode = ''openai_compatible'',
      cr_upstream_model = ''gpt-up'', cr_timeout_policy = JNull, cr_channel_status = ''enabled'',
      cr_fallback_allowed = True, cr_association_priority = 1, cr_channel_priority = 1, cr_channel_weight = 10,
      cr_channel_health_score = F64_Finite 1, cr_rpm_limit = Some 100, cr_tpm_limit = None,
      cr_concurrency_limit = None, cr_current_window_state = JObj [(''rpm'', JObj [(''used'', JNum 99)])]\<rparr>"

definition sample_routes :: "jdoc resolved_chat_route list" where
  "sample_routes = [sample_route 10, sample_route 11]"

lemma jdoc_nesting: "json_nesting plain_json size"
proof -
  have "size u < size (JObj kvs)" if "map_of kvs k = Some u" for kvs k and u :: jdoc
    using map_of_SomeD [OF that] by (induction kvs) auto
  then show ?thesis
    by (auto simp: json_nesting_def plain_json_def jdoc_api_def jdoc_get_def split: jdoc.splits)
qed

lemma sample_route_eligible: "route_eligible plain_json size (sample_route c)"
proof -
  have "window_state_used_for_dimension plain_json size (JObj [(''rpm'', JObj [(''used'', JNum 99)])]) RD_RequestsPerMinute = Some 99"
    by (simp add: window_state_used_for_dimension_def window_state_used_value_def plain_json_def jdoc_eval
        json_as_i64_def json_as_str_def)
  then show ?thesis
    by (simp add: route_eligible_def sample_route_def route_rate_limit_availability_def Let_def av_selectable_iff
        route_rate_limit_window_def window_limited_def window_unlimited_def window_fits_def
        GATEWAY_RATE_LIMIT_REQUIRED_REQUESTS_def)
qed

lemma sample_routes_ok: "routes_agree sample_routes" "weights_fit sample_routes"
  by (simp_all add: routes_agree_def weights_fit_def sample_routes_def sample_route_def route_key_def)

theorem attempted_routes_are_eligible_witness:
  "length (chat_attempt_routes uuid_hyphenated sample_routes
      (route_decision_with_gateway_trace_affinity uuid_hyphenated plain_json size (\<lambda>_. Inr (Some 11)) (Some ''t'')
         ''gpt'' ''gpt'' ''00000000000000ff'' sample_routes) 1) \<le> 1"
  using attempted_routes_are_eligible [OF uuid_hyphenated_display sample_routes_ok refl, of plain_json size
      "\<lambda>_. Inr (Some 11)" "Some ''t''" "''gpt''" "''gpt''" "''00000000000000ff''" 1] by simp

theorem eligible_routes_are_attempted_witness:
  "chat_attempt_routes uuid_hyphenated sample_routes
      (route_decision_with_gateway_trace_affinity uuid_hyphenated plain_json size (\<lambda>_. Inl ''db'') (Some ''t'')
         ''gpt'' ''gpt'' ''00000000000000ff'' sample_routes) 3 \<noteq> []"
proof -
  have "\<exists>r\<in>set sample_routes. route_eligible plain_json size r" "length sample_routes < 2 ^ 32"
    using sample_route_eligible by (simp_all add: sample_routes_def)
  then show ?thesis
    using eligible_routes_are_attempted [OF uuid_hyphenated_display sample_routes_ok _ refl, of plain_json size
      "\<lambda>_. Inl ''db''" "Some ''t''" "''gpt''" "''gpt''" "''00000000000000ff''" 3] by blast
qed

end
