(* ===== verification/GatewayBilling.thy ===== *)
theory GatewayBilling
  imports GatewayErrors GatewayRouting PreAuthorize
begin

text \<open>
  The money side of a gateway request (\<open>gateway/src/main.rs\<close>): pre-authorisation of a route before a provider is called,
  with the pending reserve of the paid hot path, and rating and settlement after a successful call. What the database
  answers is a field of \<open>billing_answers\<close>; the environment variables are optional strings. Each function returns the
  database writes it asks for as a list of events, in order.
\<close>

section \<open>Data\<close>

record resolved_price_version =
  pv_id :: uuid
  pv_pricing_rules_json :: string

record pre_authorize_wallet_balance_row =
  wb_currency :: string
  wb_available_balance :: string

record pre_authorize_budget_remaining_row =
  br_currency :: string
  br_remaining_amount :: string

record pre_authorize_read_model =
  rm_wallet :: "pre_authorize_wallet_balance_row option"
  rm_budgets :: "pre_authorize_budget_remaining_row list"

datatype paid_reserve_outcome = RO_Applied | RO_Idempotent | RO_RejectedInsufficientBalance

record paid_reserve_entry =
  pe_request_id :: uuid
  pe_model :: string
  pe_reserve_amount :: string
  pe_currency :: string
  pe_price_version_id :: uuid

record request_usage_update =
  ru_input_tokens :: "int option"
  ru_output_tokens :: "int option"

record adapter_usage =
  au_prompt_tokens :: "u64 option"
  au_completion_tokens :: "u64 option"
  au_total_tokens :: "u64 option"

record request_rating_update =
  rt_final_cost :: string
  rt_currency :: string
  rt_price_version_id :: uuid

record ledger_settle_entry =
  ls_request_id :: uuid
  ls_model :: string
  ls_final_cost :: string
  ls_currency :: string
  ls_price_version_id :: uuid
  ls_input_tokens :: int
  ls_output_tokens :: int

datatype reservation_db_status = DB_Applied | DB_NotApplied | DB_Refused | DB_Noop

text \<open>The writes of a request, in the order they are made. An acquisition carries its answer.\<close>

datatype gateway_event =
    EV_RequestStarted
  | EV_RequestFinished string int
  | EV_PaidReserve paid_reserve_entry bool
  | EV_PaidReserveReleased string
  | EV_KeySlotAcquired bool
  | EV_KeySlotReleased
  | EV_KeyCapacityAcquired string bool
  | EV_RateLimitRecorded
  | EV_ReservationAcquired uuid reservation_db_status
  | EV_ReservationReleased uuid
  | EV_ReservationRejectionRecorded nat
  | EV_AttemptStarted nat
  | EV_AttemptFinished nat string
  | EV_ProviderKeyPatched uuid string "int option"
  | EV_ProviderCalled nat
  | EV_FinalRouteRecorded nat
  | EV_Settled ledger_settle_entry

record 'v billing_answers =
  ba_json :: "'v json_api"
  ba_paid_beta_env :: "string option"
  ba_paid_opt_in :: "gateway_api_error + bool"
  ba_price_version :: "uuid \<Rightarrow> gateway_api_error + resolved_price_version option"
  ba_read_model :: "string \<Rightarrow> gateway_api_error + pre_authorize_read_model"
  ba_reserve_amount_env :: "string option"
  ba_insert_reserve :: "paid_reserve_entry \<Rightarrow> gateway_api_error + paid_reserve_outcome"

section \<open>Pre-authorisation\<close>

definition env_truthy :: "string \<Rightarrow> bool" where
  "env_truthy v \<longleftrightarrow>
     to_ascii_lowercase (trim v) \<in> {''1'', ''true'', ''yes'', ''on'', ''enabled'', ''paid_controlled_beta''}"

definition paid_hot_path_beta_env_enabled :: "string option \<Rightarrow> bool" where
  "paid_hot_path_beta_env_enabled var = env_truthy (unwrap_or [] var)"

definition paid_hot_path_beta_enabled :: "'v billing_answers \<Rightarrow> bool" where
  "paid_hot_path_beta_enabled b =
     (if paid_hot_path_beta_env_enabled (ba_paid_beta_env b) then True
      else case ba_paid_opt_in b of Inr enabled \<Rightarrow> enabled | Inl e \<Rightarrow> False)"

definition GATEWAY_PAID_HOT_PATH_BETA_DEFAULT_RESERVE_AMOUNT :: string where
  "GATEWAY_PAID_HOT_PATH_BETA_DEFAULT_RESERVE_AMOUNT = ''0.00000100''"

definition paid_hot_path_reserve_amount :: "string option \<Rightarrow> pre_authorize_estimate \<Rightarrow> fixed_decimal option" where
  "paid_hot_path_reserve_amount reserve_env estimate =
     (if fd_units (pe_minimum_cost estimate) > 0 then Some (pe_minimum_cost estimate)
      else let configured = unwrap_or GATEWAY_PAID_HOT_PATH_BETA_DEFAULT_RESERVE_AMOUNT reserve_env
           in case fd_parse (trim configured) (fd_scale (pe_minimum_cost estimate)) of
                Inl e \<Rightarrow> None
              | Inr amount \<Rightarrow> if fd_units amount > 0 then Some amount else None)"

definition pricing_rules_have_billable_usage_rate :: "pricing_rules \<Rightarrow> bool" where
  "pricing_rules_have_billable_usage_rate pricing \<longleftrightarrow>
     fd_units (pr_input_rate pricing) \<noteq> 0 \<or> fd_units (pr_output_rate pricing) \<noteq> 0
     \<or> fd_units (pr_cache_rate pricing) \<noteq> 0 \<or> fd_units (pr_reasoning_rate pricing) \<noteq> 0"

definition pre_authorize_estimate_from_price_version ::
  "'v json_api \<Rightarrow> resolved_price_version \<Rightarrow> (pre_authorize_estimate \<times> string) option" where
  "pre_authorize_estimate_from_price_version j price_version =
     (case pricing_from_json_str j (pv_pricing_rules_json price_version) of
        Inl e \<Rightarrow> None
      | Inr pricing \<Rightarrow>
          Some (\<lparr>pe_minimum_cost = pr_fixed_request_cost pricing,
                 pe_billable_if_usage_present = pricing_rules_have_billable_usage_rate pricing\<rparr>, pr_currency pricing))"

definition parse_pre_authorize_amount :: "string \<Rightarrow> nat \<Rightarrow> fixed_decimal option" where
  "parse_pre_authorize_amount amount scale = (case fd_parse amount scale of Inr a \<Rightarrow> Some a | Inl e \<Rightarrow> None)"

definition pre_authorize_wallet_balance :: "pre_authorize_read_model \<Rightarrow> string \<Rightarrow> nat \<Rightarrow> fixed_decimal option" where
  "pre_authorize_wallet_balance read_model currency scale =
     Option.bind (rm_wallet read_model) (\<lambda>wallet.
       if wb_currency wallet \<noteq> currency then None
       else parse_pre_authorize_amount (wb_available_balance wallet) scale)"

definition pre_authorize_budget_balances :: "pre_authorize_read_model \<Rightarrow> string \<Rightarrow> nat \<Rightarrow> fixed_decimal list" where
  "pre_authorize_budget_balances read_model currency scale =
     List.map_filter (\<lambda>budget. parse_pre_authorize_amount (br_remaining_amount budget) scale)
       (filter (\<lambda>budget. br_currency budget = currency) (rm_budgets read_model))"

definition pre_authorize_error_for_decision :: "pre_authorize_decision \<Rightarrow> gateway_api_error option" where
  "pre_authorize_error_for_decision decision =
     (case decision of PA_Allow \<Rightarrow> None | PA_Reject reason \<Rightarrow> Some billing_insufficient_balance)"

definition pre_authorize_route ::
  "'v billing_answers \<Rightarrow> uuid \<Rightarrow> 'v resolved_chat_route \<Rightarrow> gateway_api_error option \<times> gateway_event list" where
  "pre_authorize_route b request_id route =
     (let paid = paid_hot_path_beta_enabled b;
          refuse_if_paid = (if paid then (Some billing_insufficient_balance, []) else (None, []))
      in case ba_price_version b (cr_canonical_model_id route) of
           Inl e \<Rightarrow> refuse_if_paid
         | Inr None \<Rightarrow> refuse_if_paid
         | Inr (Some price_version) \<Rightarrow>
      case pre_authorize_estimate_from_price_version (ba_json b) price_version of
           None \<Rightarrow> refuse_if_paid
         | Some (estimate, currency) \<Rightarrow>
      if \<not> paid \<and> fd_units (pe_minimum_cost estimate) = 0 \<and> \<not> pe_billable_if_usage_present estimate then (None, [])
      else case ba_read_model b currency of
           Inl e \<Rightarrow> refuse_if_paid
         | Inr read_model \<Rightarrow>
      if paid \<and> rm_wallet read_model = None then (Some billing_insufficient_balance, [])
      else let scale = fd_scale (pe_minimum_cost estimate) in
      case (if paid then paid_hot_path_reserve_amount (ba_reserve_amount_env b) estimate
            else Some (pe_minimum_cost estimate)) of
           None \<Rightarrow> (Some billing_insufficient_balance, [])
         | Some reserve_amount \<Rightarrow>
      let decision = pre_authorize
            \<lparr>pe_minimum_cost = reserve_amount,
             pe_billable_if_usage_present = (pe_billable_if_usage_present estimate \<or> paid)\<rparr>
            (pre_authorize_wallet_balance read_model currency scale)
            (pre_authorize_budget_balances read_model currency scale)
      in case pre_authorize_error_for_decision decision of
           Some e \<Rightarrow> (Some e, [])
         | None \<Rightarrow>
      if \<not> paid then (None, [])
      else let entry = \<lparr>pe_request_id = request_id, pe_model = cr_canonical_model_key route,
                 pe_reserve_amount = unwrap_or [] (fd_to_string reserve_amount), pe_currency = currency,
                 pe_price_version_id = pv_id price_version\<rparr>
           in case ba_insert_reserve b entry of
                Inr RO_Applied \<Rightarrow> (None, [EV_PaidReserve entry True])
              | Inr RO_Idempotent \<Rightarrow> (None, [EV_PaidReserve entry True])
              | Inr RO_RejectedInsufficientBalance \<Rightarrow> (Some billing_insufficient_balance, [EV_PaidReserve entry False])
              | Inl e \<Rightarrow> (Some billing_insufficient_balance, [EV_PaidReserve entry False]))"

section \<open>Rating and settlement\<close>

definition u64_to_i64 :: "u64 \<Rightarrow> int option" where
  "u64_to_i64 v = (if uint v < 2 ^ 63 then Some (uint v) else None)"

definition i64_to_u64 :: "int \<Rightarrow> u64 option" where
  "i64_to_u64 v = (if 0 \<le> v then Some (word_of_int v) else None)"

definition request_usage_from_adapter_usage :: "adapter_usage option \<Rightarrow> request_usage_update" where
  "request_usage_from_adapter_usage usage =
     (case usage of
        None \<Rightarrow> \<lparr>ru_input_tokens = None, ru_output_tokens = None\<rparr>
      | Some u \<Rightarrow> \<lparr>ru_input_tokens = Option.bind (au_prompt_tokens u) u64_to_i64,
                   ru_output_tokens = Option.bind (au_completion_tokens u) u64_to_i64\<rparr>)"

definition extended_token_usage_for_rating :: "request_usage_update \<Rightarrow> extended_token_usage option" where
  "extended_token_usage_for_rating u =
     Option.bind (Option.bind (ru_input_tokens u) i64_to_u64) (\<lambda>input.
     Option.bind (Option.bind (ru_output_tokens u) i64_to_u64) (\<lambda>output.
     Some (xu_new input output)))"

definition runtime_rating_usage_matches_request_usage :: "request_usage_update \<Rightarrow> extended_token_usage \<Rightarrow> bool" where
  "runtime_rating_usage_matches_request_usage request_usage rating_usage =
     (case Option.bind (ru_input_tokens request_usage) i64_to_u64 of
        None \<Rightarrow> False
      | Some input_tokens \<Rightarrow>
          (case Option.bind (ru_output_tokens request_usage) i64_to_u64 of
             None \<Rightarrow> False
           | Some output_tokens \<Rightarrow>
               word_checked_add (xu_input_tokens rating_usage) (unwrap_or 0 (xu_cache_tokens rating_usage)) = Some input_tokens
               \<and> word_checked_add (xu_output_tokens rating_usage) (unwrap_or 0 (xu_reasoning_tokens rating_usage)) = Some output_tokens))"

definition runtime_token_usage_for_rating ::
  "'v json_api \<Rightarrow> request_usage_update \<Rightarrow> 'v option \<Rightarrow> extended_token_usage option" where
  "runtime_token_usage_for_rating j usage runtime_payload =
     Option.bind (extended_token_usage_for_rating usage) (\<lambda>fallback.
     case runtime_payload of
        None \<Rightarrow> Some fallback
      | Some payload \<Rightarrow>
          (case extract_runtime_token_usage_from_value j payload of
             Inr (Some u) \<Rightarrow> if runtime_rating_usage_matches_request_usage usage u then Some u else Some fallback
           | Inr None \<Rightarrow> Some fallback
           | Inl e \<Rightarrow> Some fallback))"

definition request_rating_from_price_version ::
  "'v json_api \<Rightarrow> resolved_price_version \<Rightarrow> extended_token_usage \<Rightarrow> request_rating_update option" where
  "request_rating_from_price_version j price_version usage =
     (case rate_usage_from_json j (pv_pricing_rules_json price_version) usage of
        Inl e \<Rightarrow> None
      | Inr rating \<Rightarrow> Some \<lparr>rt_final_cost = unwrap_or [] (fd_to_string (rr_total_cost rating)),
                           rt_currency = rr_currency rating, rt_price_version_id = pv_id price_version\<rparr>)"

definition rate_request_usage ::
  "'v billing_answers \<Rightarrow> uuid \<Rightarrow> request_usage_update \<Rightarrow> 'v option \<Rightarrow> request_rating_update option" where
  "rate_request_usage b canonical_model_id usage runtime_payload =
     Option.bind (runtime_token_usage_for_rating (ba_json b) usage runtime_payload) (\<lambda>token_usage.
     case ba_price_version b canonical_model_id of
        Inr (Some price_version) \<Rightarrow> request_rating_from_price_version (ba_json b) price_version token_usage
      | Inr None \<Rightarrow> None
      | Inl e \<Rightarrow> None)"

definition decimal_string_is_nonzero :: "string \<Rightarrow> bool" where
  "decimal_string_is_nonzero v =
     list_ex (\<lambda>c. is_ascii_digit c \<and> c \<noteq> CHR ''0'') (dropWhile (\<lambda>c. c = CHR ''-'' \<or> c = CHR ''+'') v)"

definition settle_ledger_amount :: "string \<Rightarrow> string option" where
  "settle_ledger_amount final_cost =
     (let cost = trim final_cost
      in if \<not> decimal_string_is_nonzero cost then None
         else if starts_with ''-'' cost then Some cost
         else Some (''-'' @ cost))"

definition settle_request_ledger ::
  "uuid \<Rightarrow> 'v resolved_chat_route \<Rightarrow> request_usage_update \<Rightarrow> request_rating_update option \<Rightarrow> gateway_event list" where
  "settle_request_ledger request_id route usage rating =
     (case rating of
        None \<Rightarrow> []
      | Some r \<Rightarrow>
          (case (ru_input_tokens usage, ru_output_tokens usage) of
             (Some input_tokens, Some output_tokens) \<Rightarrow>
               if settle_ledger_amount (rt_final_cost r) = None then []
               else [EV_Settled \<lparr>ls_request_id = request_id, ls_model = cr_canonical_model_key route,
                       ls_final_cost = rt_final_cost r, ls_currency = rt_currency r,
                       ls_price_version_id = rt_price_version_id r, ls_input_tokens = input_tokens,
                       ls_output_tokens = output_tokens\<rparr>]
           | _ \<Rightarrow> []))"

section \<open>Lemmas on printed amounts\<close>

lemma digit_val_zero_iff: "is_ascii_digit c \<Longrightarrow> digit_val c = 0 \<longleftrightarrow> c = CHR ''0''"
proof -
  assume "is_ascii_digit c"
  then have "digit_val c = 0 \<longleftrightarrow> byte_of c = byte_of (CHR ''0'')" by (auto simp: is_ascii_digit_def digit_val_def byte_of_def)
  then show "digit_val c = 0 \<longleftrightarrow> c = CHR ''0''" unfolding byte_of_def of_char_eq_iff .
qed

lemma nonzero_digits:
  "list_all is_ascii_digit s \<Longrightarrow> list_ex (\<lambda>c. is_ascii_digit c \<and> c \<noteq> CHR ''0'') s \<longleftrightarrow> digits_val s \<noteq> 0"
  by (induction s rule: rev_induct) (auto simp: digit_val_zero_iff)

lemma nonzero_decimal_text:
  assumes "decimal_parts_ok sign whole fraction"
  shows "decimal_string_is_nonzero (decimal_text sign whole fraction) \<longleftrightarrow>
    digits_val whole \<noteq> 0 \<or> digits_val (unwrap_or [] fraction) \<noteq> 0"
proof -
  let ?rest = "whole @ (case fraction of None \<Rightarrow> [] | Some f \<Rightarrow> CHR ''.'' # f)"
  have whole: "whole \<noteq> []" "list_all is_ascii_digit whole" "list_all is_ascii_digit (unwrap_or [] fraction)"
    "sign \<in> {'''', ''-'', ''+''}" using assms by (auto simp: decimal_parts_ok_def)
  then have "hd whole \<noteq> CHR ''-'' \<and> hd whole \<noteq> CHR ''+''"
    by (cases whole) (auto simp: is_ascii_digit_def byte_of_def)
  then have "dropWhile (\<lambda>c. c = CHR ''-'' \<or> c = CHR ''+'') ?rest = ?rest" using whole(1) by (cases whole) auto
  then have "dropWhile (\<lambda>c. c = CHR ''-'' \<or> c = CHR ''+'') (decimal_text sign whole fraction) = ?rest"
    using whole(4) by (auto simp: decimal_text_def)
  moreover have "\<not> is_ascii_digit (CHR ''.'')" by (simp add: is_ascii_digit_def byte_of_def)
  ultimately show ?thesis
    using nonzero_digits [OF whole(2)] nonzero_digits [OF whole(3)]
    by (cases fraction) (simp_all add: decimal_string_is_nonzero_def unwrap_or_def)
qed

lemma printed_amount_settles:
  assumes "fd_ok d" "0 \<le> fd_units d"
  shows "\<exists>s. fd_to_string d = Some s \<and> fd_parse s (fd_scale d) = Inr d
    \<and> settle_ledger_amount s = (if fd_units d = 0 then None else Some (''-'' @ s))
    \<and> fd_parse (''-'' @ s) (fd_scale d) = Inr (FixedDecimal (- fd_units d) (fd_scale d))"
proof -
  have scale: "fd_scale d \<le> MAX_MONEY_SCALE" using assms(1) by (simp add: fd_ok_def)
  obtain whole fraction where t: "fd_to_string d = Some (decimal_text '''' whole fraction)"
    "decimal_parts_ok '''' whole fraction" "length (unwrap_or [] fraction) = fd_scale d"
    "decimal_magnitude whole fraction (fd_scale d) = fd_units d"
    using fd_to_string_text [OF scale] assms(2) by fastforce
  have neg: "''-'' @ decimal_text '''' whole fraction = decimal_text ''-'' whole fraction" by (simp add: decimal_text_def)
  have ok: "decimal_parts_ok ''-'' whole fraction" using t(2) by (simp add: decimal_parts_ok_def)
  have range: "in_i128 (fd_units d)" using assms(1) by (simp add: fd_ok_def)
  have parse: "fd_parse (decimal_text '''' whole fraction) (fd_scale d) = Inr d"
    "fd_parse (decimal_text ''-'' whole fraction) (fd_scale d) = Inr (FixedDecimal (- fd_units d) (fd_scale d))"
    unfolding fd_parse_def using parse_decimal_text [OF t(2) _ scale] parse_decimal_text [OF ok _ scale] t(3,4) range by simp_all
  have zero: "fd_units d = 0 \<longleftrightarrow> digits_val whole = 0 \<and> digits_val (unwrap_or [] fraction) = 0"
    unfolding t(4) [symmetric] using t(3) by (auto simp: decimal_magnitude_def add_nonneg_eq_0_iff)
  have "\<not> starts_with ''-'' (decimal_text '''' whole fraction)"
    using t(2) by (cases whole) (auto simp: decimal_text_def decimal_parts_ok_def is_ascii_digit_def byte_of_def)
  then have "settle_ledger_amount (decimal_text '''' whole fraction) =
      (if fd_units d = 0 then None else Some (''-'' @ decimal_text '''' whole fraction))"
    using nonzero_decimal_text [OF t(2)] zero trim_decimal_text [OF t(2)] by (simp add: settle_ledger_amount_def)
  with t(1) parse neg show ?thesis by simp
qed

lemma rated_total_ok:
  assumes "pricing_ok p" "rate_usage p u = Inr r"
  shows "fd_ok (rr_total_cost r)" "0 \<le> fd_units (rr_total_cost r)"
  using rate_usage_parts(1-4) [OF assms(2), THEN category_cost_nonneg] rate_usage_parts(5-7) [OF assms(2)] assms(1)
  by (simp_all add: pricing_ok_def opt_units_def [of "Some _"] fd_ok_def)

lemma pricing_from_json_str_ok: "pricing_from_json_str j s = Inr p \<Longrightarrow> pricing_ok p"
  using pricing_from_json_value_ok by (auto simp: pricing_from_json_str_def result_simps)

section \<open>Properties\<close>

lemma reserve_amount_ok:
  assumes "pricing_ok p" "paid_hot_path_reserve_amount env \<lparr>pe_minimum_cost = pr_fixed_request_cost p, pe_billable_if_usage_present = x\<rparr> = Some a"
  shows "fd_ok a \<and> 0 < fd_units a \<and> fd_scale a = pr_scale p"
  using assms parse_decimal_string_ok
  by (auto simp: paid_hot_path_reserve_amount_def pricing_ok_def fd_parse_def Let_def split: if_splits sum.splits)

definition reserve_entry :: "uuid \<Rightarrow> 'v resolved_chat_route \<Rightarrow> resolved_price_version \<Rightarrow> pricing_rules \<Rightarrow> fixed_decimal \<Rightarrow> paid_reserve_entry" where
  "reserve_entry request_id route price_version p amount =
     \<lparr>pe_request_id = request_id, pe_model = cr_canonical_model_key route,
      pe_reserve_amount = unwrap_or [] (fd_to_string amount), pe_currency = pr_currency p,
      pe_price_version_id = pv_id price_version\<rparr>"

lemma paid_route_parts:
  assumes "paid_hot_path_beta_enabled b" "pre_authorize_route b request_id route = (None, events)"
  shows "\<exists>price_version p read_model amount.
    pricing_from_json_str (ba_json b) (pv_pricing_rules_json price_version) = Inr p
    \<and> ba_read_model b (pr_currency p) = Inr read_model
    \<and> paid_hot_path_reserve_amount (ba_reserve_amount_env b)
       \<lparr>pe_minimum_cost = pr_fixed_request_cost p, pe_billable_if_usage_present = pricing_rules_have_billable_usage_rate p\<rparr> = Some amount
    \<and> pre_authorize \<lparr>pe_minimum_cost = amount, pe_billable_if_usage_present = True\<rparr>
       (pre_authorize_wallet_balance read_model (pr_currency p) (fd_scale (pr_fixed_request_cost p)))
       (pre_authorize_budget_balances read_model (pr_currency p) (fd_scale (pr_fixed_request_cost p))) = PA_Allow
    \<and> events = [EV_PaidReserve (reserve_entry request_id route price_version p amount) True]
    \<and> ba_insert_reserve b (reserve_entry request_id route price_version p amount) \<in> {Inr RO_Applied, Inr RO_Idempotent}"
  using assms
  by (auto simp: pre_authorize_route_def Let_def pre_authorize_estimate_from_price_version_def pre_authorize_error_for_decision_def
      reserve_entry_def [symmetric]
      split: sum.splits option.splits if_splits pre_authorize_decision.splits paid_reserve_outcome.splits)

text \<open>C32. On the paid hot path no provider is called on credit: a route passes pre-authorisation only after the ledger took a
  pending reserve for this request, of a positive amount that the stored text states exactly; and when the wallet row is
  readable and in the price's currency, the wallet covers that amount. Without a price, a readable price or a wallet the
  request is refused.\<close>

theorem paid_request_is_reserved:
  assumes "paid_hot_path_beta_enabled b" "pre_authorize_route b request_id route = (None, events)"
  shows "\<exists>entry amount. events = [EV_PaidReserve entry True] \<and> pe_request_id entry = request_id
    \<and> fd_parse (pe_reserve_amount entry) (fd_scale amount) = Inr amount \<and> 0 < fd_units amount
    \<and> ba_insert_reserve b entry \<in> {Inr RO_Applied, Inr RO_Idempotent}
    \<and> (\<forall>read_model wallet balance. ba_read_model b (pe_currency entry) = Inr read_model \<and> rm_wallet read_model = Some wallet
         \<and> wb_currency wallet = pe_currency entry \<and> fd_parse (wb_available_balance wallet) (fd_scale amount) = Inr balance
         \<longrightarrow> fd_units amount \<le> fd_units balance)"
proof -
  from paid_route_parts [OF assms] obtain price_version p read_model amount where parts:
    "pricing_from_json_str (ba_json b) (pv_pricing_rules_json price_version) = Inr p"
    "ba_read_model b (pr_currency p) = Inr read_model"
    "paid_hot_path_reserve_amount (ba_reserve_amount_env b)
       \<lparr>pe_minimum_cost = pr_fixed_request_cost p, pe_billable_if_usage_present = pricing_rules_have_billable_usage_rate p\<rparr> = Some amount"
    "pre_authorize \<lparr>pe_minimum_cost = amount, pe_billable_if_usage_present = True\<rparr>
       (pre_authorize_wallet_balance read_model (pr_currency p) (fd_scale (pr_fixed_request_cost p)))
       (pre_authorize_budget_balances read_model (pr_currency p) (fd_scale (pr_fixed_request_cost p))) = PA_Allow"
    "events = [EV_PaidReserve (reserve_entry request_id route price_version p amount) True]"
    "ba_insert_reserve b (reserve_entry request_id route price_version p amount) \<in> {Inr RO_Applied, Inr RO_Idempotent}" by blast
  have ok: "pricing_ok p" by (rule pricing_from_json_str_ok [OF parts(1)])
  note amount = reserve_amount_ok [OF ok parts(3)]
  have scale: "fd_scale (pr_fixed_request_cost p) = pr_scale p" using ok by (simp add: pricing_ok_def)
  have "fd_units amount \<le> fd_units balance"
    if w: "rm_wallet read_model = Some wallet" "wb_currency wallet = pr_currency p"
      "fd_parse (wb_available_balance wallet) (fd_scale amount) = Inr balance" for wallet balance
  proof -
    have "fd_scale balance = fd_scale amount" using w(3) parse_decimal_string_ok by (auto simp: fd_parse_def)
    moreover have "\<not> amount_is_insufficient balance \<lparr>pe_minimum_cost = amount, pe_billable_if_usage_present = True\<rparr>"
      using parts(4) w amount scale
      by (auto simp: pre_authorize_def pre_authorize_wallet_balance_def parse_pre_authorize_amount_def split: if_splits)
    ultimately have "covers balance \<lparr>pe_minimum_cost = amount, pe_billable_if_usage_present = True\<rparr>"
      by (simp add: amount_is_insufficient_covers)
    then show ?thesis using amount by (simp add: covers_def max_def split: if_splits)
  qed
  moreover have "fd_parse (unwrap_or [] (fd_to_string amount)) (fd_scale amount) = Inr amount"
    using printed_amount_settles [of amount] amount by (auto simp: unwrap_or_def)
  ultimately show ?thesis
    using parts(2,5,6) amount
    by (intro exI [of _ "reserve_entry request_id route price_version p amount"] exI [of _ amount]) (auto simp: reserve_entry_def)
qed

lemma usage_rated_tokens:
  assumes "usage = request_usage_from_adapter_usage adapter" "runtime_token_usage_for_rating j usage payload = Some u"
  shows "\<exists>a prompt completion. adapter = Some a \<and> au_prompt_tokens a = Some prompt \<and> au_completion_tokens a = Some completion
    \<and> ru_input_tokens usage = Some (uint prompt) \<and> ru_output_tokens usage = Some (uint completion)
    \<and> unat (xu_input_tokens u) + unat (unwrap_or 0 (xu_cache_tokens u)) = unat prompt
    \<and> unat (xu_output_tokens u) + unat (unwrap_or 0 (xu_reasoning_tokens u)) = unat completion"
proof -
  obtain fallback where fb: "extended_token_usage_for_rating usage = Some fallback"
    using assms(2) by (auto simp: runtime_token_usage_for_rating_def bind_eq_Some_conv)
  then obtain a prompt completion where a: "adapter = Some a" "au_prompt_tokens a = Some prompt" "au_completion_tokens a = Some completion"
    "ru_input_tokens usage = Some (uint prompt)" "ru_output_tokens usage = Some (uint completion)" "fallback = xu_new prompt completion"
    using assms(1) by (auto simp: extended_token_usage_for_rating_def request_usage_from_adapter_usage_def u64_to_i64_def i64_to_u64_def
        bind_eq_Some_conv split: option.splits if_splits)
  have add: "word_checked_add x y = Some z \<Longrightarrow> unat x + unat y = unat z" for x y z :: u64
    by (auto simp: word_checked_add_def unat_word_ariths split: if_splits)
  have "u = fallback \<or> runtime_rating_usage_matches_request_usage usage u"
    using assms(2) fb by (auto simp: runtime_token_usage_for_rating_def split: option.splits sum.splits if_splits)
  then have "unat (xu_input_tokens u) + unat (unwrap_or 0 (xu_cache_tokens u)) = unat prompt
      \<and> unat (xu_output_tokens u) + unat (unwrap_or 0 (xu_reasoning_tokens u)) = unat completion"
  proof
    assume "u = fallback"
    then show ?thesis using a(6) by (simp add: xu_new_def unwrap_or_def)
  next
    assume "runtime_rating_usage_matches_request_usage usage u"
    then show ?thesis using a(4,5)
      by (auto simp: runtime_rating_usage_matches_request_usage_def i64_to_u64_def dest!: add split: if_splits)
  qed
  with a show ?thesis by blast
qed


text \<open>A paid request at a concrete price list, for the concrete instances.\<close>

definition sample_price_list :: jdoc where
  "sample_price_list = JObj [(''input_token_rate_per_1m'', JNum 15000000)]"

definition sample_billing :: "jdoc billing_answers" where
  "sample_billing =
     \<lparr>ba_json = jdoc_api sample_price_list, ba_paid_beta_env = None, ba_paid_opt_in = Inr True,
      ba_price_version = (\<lambda>_. Inr (Some \<lparr>pv_id = 9, pv_pricing_rules_json = ''{}''\<rparr>)),
      ba_read_model = (\<lambda>_. Inr \<lparr>rm_wallet = Some \<lparr>wb_currency = ''USD'', wb_available_balance = ''5.00''\<rparr>, rm_budgets = []\<rparr>),
      ba_reserve_amount_env = None, ba_insert_reserve = (\<lambda>_. Inr RO_Applied)\<rparr>"

definition sample_rules :: pricing_rules where
  "sample_rules =
     \<lparr>pr_currency = ''USD'', pr_scale = 8, pr_input_rate = FixedDecimal 15000000 8, pr_output_rate = FixedDecimal 0 8,
      pr_cache_rate = FixedDecimal 0 8, pr_reasoning_rate = FixedDecimal 0 8, pr_fixed_request_cost = FixedDecimal 0 8\<rparr>"

lemma sample_rules_parse: "pricing_from_json_str (jdoc_api sample_price_list) ''{}'' = Inr sample_rules"
  by (simp add: pricing_from_json_str_def pricing_from_json_value_def jdoc_eval Let_def sample_price_list_def sample_rules_def
      validate_scale_def DEFAULT_MONEY_SCALE_def MAX_MONEY_SCALE_def validate_currency_def
      currency_ok_def DEFAULT_CURRENCY_def is_ascii_uppercase_def byte_of_def
      parse_optional_money_field_def fd_zero_def from_units_def reject_negative_def)

lemma sample_amounts: "fd_parse ''0.00000100'' 8 = Inr (FixedDecimal 100 8)" "fd_parse ''5.00'' 8 = Inr (FixedDecimal 500000000 8)"
  using parse_decimal_text [of "''''" "''0''" "Some ''00000100''" 8 "''decimal''"] parse_decimal_text [of "''''" "''5''" "Some ''00''" 8 "''decimal''"]
  by (simp_all add: fd_parse_def decimal_text_def decimal_parts_ok_def decimal_magnitude_def is_ascii_digit_def byte_of_def
      MAX_MONEY_SCALE_def digits_val_def digit_val_def in_i128_def i128_min_def i128_max_def unwrap_or_def)

lemma sample_billing_paid: "paid_hot_path_beta_enabled sample_billing"
  by (simp add: sample_billing_def paid_hot_path_beta_enabled_def)

lemma sample_pre_authorized: "fst (pre_authorize_route sample_billing request_id (sample_route channel)) = None"
proof -
  have "trim ''0.00000100'' = ''0.00000100''" by (simp add: trim_printable_ends byte_of_def)
  then show ?thesis
    by (simp add: pre_authorize_route_def sample_billing_paid Let_def)
      (simp add: sample_billing_def pre_authorize_estimate_from_price_version_def sample_rules_parse sample_rules_def
        paid_hot_path_reserve_amount_def GATEWAY_PAID_HOT_PATH_BETA_DEFAULT_RESERVE_AMOUNT_def unwrap_or_def sample_amounts
        pre_authorize_wallet_balance_def parse_pre_authorize_amount_def pre_authorize_budget_balances_def
        pre_authorize_def pre_authorize_error_for_decision_def amount_is_insufficient_def)
qed

theorem paid_request_is_reserved_witness:
  "\<exists>entry amount. pre_authorize_route sample_billing 7 (sample_route 10) = (None, [EV_PaidReserve entry True])
     \<and> fd_parse (pe_reserve_amount entry) (fd_scale amount) = Inr amount \<and> 0 < fd_units amount"
proof -
  obtain events where "pre_authorize_route sample_billing 7 (sample_route 10) = (None, events)"
    using sample_pre_authorized [of 7 10] by (cases "pre_authorize_route sample_billing 7 (sample_route 10)") auto
  with paid_request_is_reserved [OF sample_billing_paid this] show ?thesis by blast
qed

definition sample_usage :: adapter_usage where
  "sample_usage = \<lparr>au_prompt_tokens = Some 2000, au_completion_tokens = Some 10, au_total_tokens = None\<rparr>"

lemma sample_rating:
  "\<exists>rating. rate_request_usage sample_billing 1 (request_usage_from_adapter_usage (Some sample_usage)) None = Some rating"
proof -
  obtain r where "rate_usage sample_rules (xu_new 2000 10) = Inr r" by (simp add: rating_eval sample_rules_def)
  then show ?thesis
    by (simp add: rate_request_usage_def sample_billing_def sample_usage_def request_usage_from_adapter_usage_def u64_to_i64_def
        runtime_token_usage_for_rating_def extended_token_usage_for_rating_def i64_to_u64_def request_rating_from_price_version_def
        rate_usage_from_json_def sample_rules_parse)
qed


end
