(* ===== verification/ProviderKeys.thy ===== *)
theory ProviderKeys
  imports RustParse RustUtf8
begin

text \<open>
  Sealing of provider API keys (\<open>crates/auth/src/provider_keys.rs\<close>). The cipher, the MAC and the hexadecimal encoding
  are third-party and parameters: \<open>encrypt key nonce aad msg\<close> and \<open>decrypt key nonce aad ciphertext\<close> are the
  authenticated encryption with associated data, of which only its correctness is assumed.
\<close>

datatype provider_key_crypto_error =
    PK_InvalidMasterKeyLength nat nat | PK_EmptyMasterKeyId | PK_EmptySecret | PK_EmptyContext
  | PK_EmptyContextField string | PK_UnsupportedVersion "8 word" | PK_EncryptionFailed | PK_DecryptionFailed
  | PK_InvalidUtf8 | PK_EmptyFingerprintKey

datatype provider_key_secret = ProviderKeySecret (pks_secret: string)

datatype provider_key_context = ProviderKeyContext (pkc_aad: string)

record sealed_provider_key =
  sp_version :: "8 word"
  sp_master_key_id :: string
  sp_nonce :: string
  sp_ciphertext :: string

definition PROVIDER_KEY_ENCRYPTION_VERSION :: "8 word" where
  "PROVIDER_KEY_ENCRYPTION_VERSION = 1"

definition PROVIDER_KEY_MASTER_KEY_LEN :: nat where
  "PROVIDER_KEY_MASTER_KEY_LEN = 32"

definition provider_key_secret_new :: "string \<Rightarrow> provider_key_crypto_error + provider_key_secret" where
  "provider_key_secret_new secret = (if secret = [] then Inl PK_EmptySecret else Inr (ProviderKeySecret secret))"

text \<open>\<open>(len as u32).to_be_bytes()\<close>: the length modulo \<open>2 ^ 32\<close>, most significant byte first.\<close>

definition be_bytes4 :: "nat \<Rightarrow> string" where
  "be_bytes4 n = map (\<lambda>i. char_of (n div 256 ^ (3 - i) mod 256)) [0 ..< 4]"

definition append_field :: "string \<Rightarrow> string \<Rightarrow> string \<Rightarrow> string" where
  "append_field out label v = out @ be_bytes4 (length label) @ label @ be_bytes4 (length v) @ v"

definition required_master_key_id :: "string \<Rightarrow> provider_key_crypto_error + string" where
  "required_master_key_id raw = (let trimmed = trim raw in if trimmed = [] then Inl PK_EmptyMasterKeyId else Inr trimmed)"

definition required_context_field :: "string \<Rightarrow> string \<Rightarrow> provider_key_crypto_error + string" where
  "required_context_field field raw =
     (let trimmed = trim raw in if trimmed = [] then Inl (PK_EmptyContextField field) else Inr trimmed)"

definition provider_key_context_new ::
  "string \<Rightarrow> string \<Rightarrow> string \<Rightarrow> provider_key_crypto_error + provider_key_context" where
  "provider_key_context_new raw_tenant_id raw_provider_id raw_provider_key_id =
     rbind (required_context_field ''tenant_id'' raw_tenant_id) (\<lambda>tenant_id.
     rbind (required_context_field ''provider_id'' raw_provider_id) (\<lambda>provider_id.
     rbind (required_context_field ''provider_key_id'' raw_provider_key_id) (\<lambda>provider_key_id.
     let aad = append_field [] ''domain'' ''ai-gateway:provider-key:context:v1'';
         aad = append_field aad ''tenant_id'' tenant_id;
         aad = append_field aad ''provider_id'' provider_id;
         aad = append_field aad ''provider_key_id'' provider_key_id
     in Inr (ProviderKeyContext aad))))"

definition provider_key_context_from_aad :: "string \<Rightarrow> provider_key_crypto_error + provider_key_context" where
  "provider_key_context_from_aad aad = (if aad = [] then Inl PK_EmptyContext else Inr (ProviderKeyContext aad))"

definition encryption_aad :: "8 word \<Rightarrow> string \<Rightarrow> provider_key_context \<Rightarrow> string" where
  "encryption_aad version master_key_id cxt =
     (let aad = append_field [] ''domain'' ''ai-gateway:provider-key:seal:v1'';
          aad = append_field aad ''algorithm'' ''aes-256-gcm'';
          aad = append_field aad ''version'' [char_of (unat version)];
          aad = append_field aad ''master_key_id'' master_key_id
      in append_field aad ''context'' (pkc_aad cxt))"

definition provider_key_cipher :: "string \<Rightarrow> provider_key_crypto_error + string" where
  "provider_key_cipher master_key =
     (if length master_key \<noteq> PROVIDER_KEY_MASTER_KEY_LEN
      then Inl (PK_InvalidMasterKeyLength PROVIDER_KEY_MASTER_KEY_LEN (length master_key))
      else Inr master_key)"

type_synonym aead = "string \<Rightarrow> string \<Rightarrow> string \<Rightarrow> string \<Rightarrow> string option"

definition seal_provider_key ::
  "aead \<Rightarrow> string \<Rightarrow> string \<Rightarrow> string \<Rightarrow> provider_key_context \<Rightarrow> provider_key_secret
   \<Rightarrow> provider_key_crypto_error + sealed_provider_key" where
  "seal_provider_key encrypt nonce master_key raw_master_key_id cxt secret =
     rbind (provider_key_cipher master_key) (\<lambda>cipher.
     rbind (required_master_key_id raw_master_key_id) (\<lambda>master_key_id.
     let aad = encryption_aad PROVIDER_KEY_ENCRYPTION_VERSION master_key_id cxt
     in rbind (ok_or PK_EncryptionFailed (encrypt cipher nonce aad (pks_secret secret))) (\<lambda>ciphertext.
        Inr \<lparr>sp_version = PROVIDER_KEY_ENCRYPTION_VERSION, sp_master_key_id = master_key_id, sp_nonce = nonce,
             sp_ciphertext = ciphertext\<rparr>)))"

definition open_provider_key ::
  "aead \<Rightarrow> string \<Rightarrow> provider_key_context \<Rightarrow> sealed_provider_key \<Rightarrow> provider_key_crypto_error + provider_key_secret" where
  "open_provider_key decrypt master_key cxt sealed =
     (if sp_version sealed \<noteq> PROVIDER_KEY_ENCRYPTION_VERSION then Inl (PK_UnsupportedVersion (sp_version sealed))
      else rbind (provider_key_cipher master_key) (\<lambda>cipher.
           let aad = encryption_aad (sp_version sealed) (sp_master_key_id sealed) cxt
           in rbind (ok_or PK_DecryptionFailed (decrypt cipher (sp_nonce sealed) aad (sp_ciphertext sealed))) (\<lambda>plaintext.
              if \<not> valid_utf8 plaintext then Inl PK_InvalidUtf8 else provider_key_secret_new plaintext)))"

text \<open>The fingerprint is a MAC of the domain and the secret as a labelled field.\<close>

definition fingerprint_provider_key ::
  "(string \<Rightarrow> string \<Rightarrow> string) \<Rightarrow> (string \<Rightarrow> string) \<Rightarrow> string \<Rightarrow> provider_key_secret \<Rightarrow> provider_key_crypto_error + string" where
  "fingerprint_provider_key mac hex_enc fingerprint_key secret =
     (if fingerprint_key = [] then Inl PK_EmptyFingerprintKey
      else let digest = mac fingerprint_key
                 (append_field ''ai-gateway:provider-key:fingerprint:v1'' ''secret'' (pks_secret secret))
           in Inr (''hmac-sha256-v1:'' @ hex_enc digest))"

section \<open>Labelled fields are unambiguous\<close>

lemma length_be_bytes4 [simp]: "length (be_bytes4 n) = 4"
  by (simp add: be_bytes4_def)

lemma four_bytes:
  fixes n :: nat
  assumes "n < 2 ^ 32"
  shows "n = 256 * (256 * (256 * (n div 16777216 mod 256) + n div 65536 mod 256) + n div 256 mod 256) + n mod 256"
proof -
  have "n div 65536 = n div 256 div 256" "n div 16777216 = n div 65536 div 256"
    by (simp_all add: div_mult2_eq [symmetric])
  moreover have "n div 16777216 mod 256 = n div 16777216" using assms by (simp add: div_less_iff_less_mult)
  moreover have "n = 256 * (n div 256) + n mod 256" "n div 256 = 256 * (n div 256 div 256) + n div 256 mod 256"
    "n div 65536 = 256 * (n div 65536 div 256) + n div 65536 mod 256" by simp_all
  ultimately show ?thesis by metis
qed

lemma be_bytes4_inj:
  assumes "be_bytes4 m = be_bytes4 n" "m < 2 ^ 32" "n < 2 ^ 32"
  shows "m = n"
proof -
  have "map of_char (be_bytes4 m) = (map of_char (be_bytes4 n) :: nat list)" using assms(1) by simp
  then have eqs: "m div 16777216 mod 256 = n div 16777216 mod 256" "m div 65536 mod 256 = n div 65536 mod 256"
    "m div 256 mod 256 = n div 256 mod 256" "m mod 256 = n mod 256"
    by (simp_all add: be_bytes4_def upt_rec)
  show ?thesis
    by (rule trans [OF four_bytes [OF assms(2), unfolded eqs] four_bytes [OF assms(3), symmetric]])
qed

lemma append_field_inj:
  assumes "append_field out label v @ r = append_field out label v' @ r'" "length v < 2 ^ 32" "length v' < 2 ^ 32"
  shows "v = v' \<and> r = r'"
proof -
  have "be_bytes4 (length v) @ v @ r = be_bytes4 (length v') @ v' @ r'"
    using assms(1) by (simp add: append_field_def)
  then have "be_bytes4 (length v) = be_bytes4 (length v') \<and> v @ r = v' @ r'"
    by (subst (asm) append_eq_append_conv) simp_all
  moreover from this have "length v = length v'" using be_bytes4_inj assms(2,3) by blast
  ultimately show ?thesis by simp
qed

lemma append_field_out: "append_field out label v = out @ append_field [] label v"
  by (simp add: append_field_def)

lemma context_new_aad:
  "provider_key_context_new t p k = Inr c \<Longrightarrow> pkc_aad c =
     append_field [] ''domain'' ''ai-gateway:provider-key:context:v1'' @ append_field [] ''tenant_id'' (trim t)
     @ append_field [] ''provider_id'' (trim p) @ append_field [] ''provider_key_id'' (trim k) @ []"
  by (auto simp: provider_key_context_new_def required_context_field_def Let_def append_field_def rbind_def
      split: if_splits)

lemma context_new_inj:
  assumes "provider_key_context_new t p k = Inr c" "provider_key_context_new t' p' k' = Inr c"
    and "\<forall>x\<in>{t, p, k, t', p', k'}. length (trim x) < 2 ^ 32"
  shows "trim t = trim t' \<and> trim p = trim p' \<and> trim k = trim k'"
proof -
  have "append_field [] ''tenant_id'' (trim t) @ append_field [] ''provider_id'' (trim p)
        @ append_field [] ''provider_key_id'' (trim k) @ [] =
      append_field [] ''tenant_id'' (trim t') @ append_field [] ''provider_id'' (trim p')
        @ append_field [] ''provider_key_id'' (trim k') @ []"
    using context_new_aad [OF assms(1)] context_new_aad [OF assms(2)] by simp
  from append_field_inj [OF this] assms(3) have t: "trim t = trim t'" and
    "append_field [] ''provider_id'' (trim p) @ append_field [] ''provider_key_id'' (trim k) @ [] =
      append_field [] ''provider_id'' (trim p') @ append_field [] ''provider_key_id'' (trim k') @ []" by auto
  from append_field_inj [OF this(2)] assms(3) have p: "trim p = trim p'" and
    "append_field [] ''provider_key_id'' (trim k) @ [] = append_field [] ''provider_key_id'' (trim k') @ []" by auto
  from append_field_inj [OF this(2)] assms(3) have "trim k = trim k'" by auto
  with t p show ?thesis by blast
qed

lemma encryption_aad_inj:
  assumes "encryption_aad v m c = encryption_aad v' m' c'"
    and "length m < 2 ^ 32" "length m' < 2 ^ 32" "length (pkc_aad c) < 2 ^ 32" "length (pkc_aad c') < 2 ^ 32"
  shows "v = v' \<and> m = m' \<and> c = c'"
proof -
  have "append_field [] ''version'' [char_of (unat v)] @ append_field [] ''master_key_id'' m
        @ append_field [] ''context'' (pkc_aad c) @ [] =
      append_field [] ''version'' [char_of (unat v')] @ append_field [] ''master_key_id'' m'
        @ append_field [] ''context'' (pkc_aad c') @ []"
    using assms(1) by (simp add: encryption_aad_def Let_def append_field_def)
  from append_field_inj [OF this] have v: "[char_of (unat v)] = [char_of (unat v') :: char]" and
    "append_field [] ''master_key_id'' m @ append_field [] ''context'' (pkc_aad c) @ [] =
      append_field [] ''master_key_id'' m' @ append_field [] ''context'' (pkc_aad c') @ []" by auto
  from append_field_inj [OF this(2)] assms(2,3) have m: "m = m'" and
    "append_field [] ''context'' (pkc_aad c) @ [] = append_field [] ''context'' (pkc_aad c') @ []" by auto
  from append_field_inj [OF this(2)] assms(4,5) have c: "c = c'" by (auto intro: provider_key_context.expand)
  have "unat v < 256" "unat v' < 256" using unsigned_less [of v, where 'a = nat] unsigned_less [of v', where 'a = nat] by auto
  with v have "unat v = unat v'" by (auto dest!: arg_cong [of _ _ of_char])
  with m c show ?thesis by (simp add: word_unat_eq_iff)
qed

section \<open>Sealing and opening\<close>

definition aead_correct :: "aead \<Rightarrow> aead \<Rightarrow> bool" where
  "aead_correct encrypt decrypt \<longleftrightarrow>
     (\<forall>key nonce aad msg ciphertext. encrypt key nonce aad msg = Some ciphertext
        \<longrightarrow> decrypt key nonce aad ciphertext = Some msg)"

lemma sealed_opens:
  assumes "aead_correct encrypt decrypt" "valid_utf8 (pks_secret secret)" "pks_secret secret \<noteq> []"
    and "seal_provider_key encrypt nonce master_key master_key_id cxt secret = Inr sealed"
  shows "open_provider_key decrypt master_key cxt sealed = Inr secret
    \<and> sp_master_key_id sealed = trim master_key_id \<and> length master_key = 32
    \<and> open_provider_key decrypt master_key cxt (sealed\<lparr>sp_version := 2\<rparr>) = Inl (PK_UnsupportedVersion 2)"
proof -
  obtain ciphertext where c: "provider_key_cipher master_key = Inr master_key" "trim master_key_id \<noteq> []"
    "encrypt master_key nonce (encryption_aad PROVIDER_KEY_ENCRYPTION_VERSION (trim master_key_id) cxt) (pks_secret secret)
       = Some ciphertext"
    and sealed: "sealed = \<lparr>sp_version = PROVIDER_KEY_ENCRYPTION_VERSION, sp_master_key_id = trim master_key_id,
      sp_nonce = nonce, sp_ciphertext = ciphertext\<rparr>"
    using assms(4) by (auto simp: seal_provider_key_def required_master_key_id_def provider_key_cipher_def Let_def rbind_def
        ok_or_def split: if_splits option.splits)
  then have "decrypt master_key nonce (encryption_aad PROVIDER_KEY_ENCRYPTION_VERSION (trim master_key_id) cxt) ciphertext
      = Some (pks_secret secret)"
    using assms(1) by (auto simp: aead_correct_def)
  then show ?thesis
    using c assms(2,3) by (auto simp: sealed open_provider_key_def provider_key_secret_new_def provider_key_cipher_def
        PROVIDER_KEY_MASTER_KEY_LEN_def PROVIDER_KEY_ENCRYPTION_VERSION_def split: if_splits)
qed

text \<open>A sealed provider key opens to the secret again under the same master key and context, for every secret that is
  not empty, and the record carries the master key id without surrounding white space; a sealed key of another version is
  refused before the cipher is used.\<close>

theorem sealed_key_opens:
  assumes "aead_correct encrypt decrypt" "valid_utf8 (pks_secret secret)" "pks_secret secret \<noteq> []"
    and "seal_provider_key encrypt nonce master_key master_key_id cxt secret = Inr sealed"
  shows "open_provider_key decrypt master_key cxt sealed = Inr secret
    \<and> sp_master_key_id sealed = trim master_key_id \<and> length master_key = 32
    \<and> open_provider_key decrypt master_key cxt (sealed\<lparr>sp_version := 2\<rparr>) = Inl (PK_UnsupportedVersion 2)"
  using assms by (rule sealed_opens)

theorem sealed_key_opens_witness:
  "\<exists>sealed. seal_provider_key (\<lambda>_ _ aad msg. Some (aad @ msg)) ''nonce'' (replicate 32 (CHR ''k'')) ''id''
       (ProviderKeyContext ''c'') (ProviderKeySecret ''sk'') = Inr sealed
     \<and> open_provider_key (\<lambda>_ _ aad c. strip_prefix aad c) (replicate 32 (CHR ''k'')) (ProviderKeyContext ''c'') sealed
       = Inr (ProviderKeySecret ''sk'')"
proof -
  have law: "aead_correct (\<lambda>_ _ aad msg. Some (aad @ msg)) (\<lambda>_ _ aad c. strip_prefix aad c)"
    by (auto simp: aead_correct_def strip_prefix_eq_Some)
  have "valid_utf8 ''sk''" by (rule valid_utf8_ascii) (simp add: byte_of_def)
  moreover have "trim ''id'' = ''id''" by (simp add: trim_printable_ends byte_of_def)
  then obtain sealed where "seal_provider_key (\<lambda>_ _ aad msg. Some (aad @ msg)) ''nonce'' (replicate 32 (CHR ''k'')) ''id''
       (ProviderKeyContext ''c'') (ProviderKeySecret ''sk'') = Inr sealed"
    by (simp add: seal_provider_key_def provider_key_cipher_def PROVIDER_KEY_MASTER_KEY_LEN_def required_master_key_id_def)
  ultimately show ?thesis using sealed_key_opens [OF law, of "ProviderKeySecret ''sk''"] by auto
qed

text \<open>The associated data binds a sealed key to where it belongs: for fields shorter than \<open>2 ^ 32\<close> bytes, two
  sealings use the same associated data only if version, master key id, tenant, provider and key id are all the same,
  up to surrounding white space of the last three.\<close>

theorem associated_data_binds_context:
  assumes "provider_key_context_new t p k = Inr c" "provider_key_context_new t' p' k' = Inr c'"
    and "\<forall>x\<in>{t, p, k, t', p', k'}. length (trim x) < 2 ^ 32"
    and "length m < 2 ^ 32" "length m' < 2 ^ 32" "length (pkc_aad c) < 2 ^ 32" "length (pkc_aad c') < 2 ^ 32"
  shows "encryption_aad v m c = encryption_aad v' m' c' \<longleftrightarrow>
    v = v' \<and> m = m' \<and> trim t = trim t' \<and> trim p = trim p' \<and> trim k = trim k'"
proof
  assume "encryption_aad v m c = encryption_aad v' m' c'"
  with encryption_aad_inj [OF this] assms(4-7) have "v = v'" "m = m'" "c = c'" by auto
  with context_new_inj [OF assms(1) _ assms(3)] assms(2) show
    "v = v' \<and> m = m' \<and> trim t = trim t' \<and> trim p = trim p' \<and> trim k = trim k'" by blast
next
  assume eq: "v = v' \<and> m = m' \<and> trim t = trim t' \<and> trim p = trim p' \<and> trim k = trim k'"
  then have "pkc_aad c = pkc_aad c'" using context_new_aad [OF assms(1)] context_new_aad [OF assms(2)] by simp
  then have "c = c'" by (rule provider_key_context.expand)
  with eq show "encryption_aad v m c = encryption_aad v' m' c'" by simp
qed

theorem associated_data_binds_context_witness:
  "\<exists>c c'. provider_key_context_new ''ab'' ''c'' ''k'' = Inr c \<and> provider_key_context_new ''a'' ''bc'' ''k'' = Inr c'
     \<and> encryption_aad 1 ''m'' c \<noteq> encryption_aad 1 ''m'' c'"
proof -
  have trims: "trim ''ab'' = ''ab''" "trim ''c'' = ''c''" "trim ''k'' = ''k''" "trim ''a'' = ''a''" "trim ''bc'' = ''bc''"
    by (simp_all add: trim_printable_ends byte_of_def)
  then obtain c c' where c: "provider_key_context_new ''ab'' ''c'' ''k'' = Inr c" "provider_key_context_new ''a'' ''bc'' ''k'' = Inr c'"
    by (simp add: provider_key_context_new_def required_context_field_def)
  then have "length (pkc_aad c) < 2 ^ 32" "length (pkc_aad c') < 2 ^ 32"
    by (auto simp: context_new_aad append_field_def trims)
  with associated_data_binds_context [OF c, of "''m''" "''m''" 1 1] c show ?thesis by (auto simp: trims)
qed

end
