(* ===== verification/GatewayKeys.thy ===== *)
theory GatewayKeys
  imports ProviderKeys GatewayRouting GatewayErrors
begin

unbundle bit_operations_syntax

text \<open>
  Provider keys between the control plane and the gateway: the control plane seals a secret and stores it as a JSON
  payload (\<open>control-plane/src/admin.rs\<close>), the gateway decodes its master key from base64 and opens the stored payload
  for a route (\<open>gateway/src/main.rs\<close>). The JSON reading and writing of the payload, the hexadecimal decoder of the
  \<open>hex\<close> crate and the cipher are parameters; the base64 decoder is the gateway's own loop.
\<close>

section \<open>Base64\<close>

definition byte_word :: "char \<Rightarrow> 8 word" where
  "byte_word c = of_nat (byte_of c)"

definition word_char :: "8 word \<Rightarrow> char" where
  "word_char w = char_of (unat w)"

definition base64_value :: "char \<Rightarrow> unit + 8 word" where
  "base64_value c =
     (let b = byte_of c in
      if 65 \<le> b \<and> b \<le> 90 then Inr (byte_word c - 65)
      else if 97 \<le> b \<and> b \<le> 122 then Inr (byte_word c - 97 + 26)
      else if 48 \<le> b \<and> b \<le> 57 then Inr (byte_word c - 48 + 52)
      else if b = 43 then Inr 62
      else if b = 47 then Inr 63
      else Inl ())"

text \<open>One chunk of four, and the loop over the chunks; the last chunk is the one after which nothing is left.\<close>

definition decode_base64_chunk :: "bool \<Rightarrow> char \<Rightarrow> char \<Rightarrow> char \<Rightarrow> char \<Rightarrow> unit + 8 word list" where
  "decode_base64_chunk is_last c0 c1 c2 c3 =
     (let padding = length (takeWhile (\<lambda>b. b = CHR ''='') [c3, c2, c1, c0])
      in if padding > 2 \<or> (padding > 0 \<and> \<not> is_last) \<or> c0 = CHR ''='' \<or> c1 = CHR ''='' then Inl ()
         else if padding = 1 \<and> c2 = CHR ''='' then Inl ()
         else if padding = 2 \<and> c2 \<noteq> CHR ''='' then Inl ()
         else rbind (base64_value c0) (\<lambda>b0.
              rbind (base64_value c1) (\<lambda>b1.
              rbind (if padding < 2
                     then rbind (base64_value c2) (\<lambda>b2.
                          rbind (if padding = 0 then rbind (base64_value c3) (\<lambda>b3. Inr [push_bit 6 b2 OR b3]) else Inr [])
                            (\<lambda>third. Inr ((push_bit 4 b1 OR drop_bit 2 b2) # third)))
                     else Inr []) (\<lambda>more.
              Inr ((push_bit 2 b0 OR drop_bit 4 b1) # more)))))"

fun decode_base64_chunks :: "string \<Rightarrow> unit + string" where
  "decode_base64_chunks (c0 # c1 # c2 # c3 # rest) =
     rbind (decode_base64_chunk (rest = []) c0 c1 c2 c3) (\<lambda>pushed.
     rbind (decode_base64_chunks rest) (\<lambda>output.
     Inr (map word_char pushed @ output)))"
| "decode_base64_chunks _ = Inr []"

definition decode_base64 :: "string \<Rightarrow> unit + string" where
  "decode_base64 raw =
     (let bytes = filter (\<lambda>b. \<not> is_ascii_whitespace b) raw
      in if bytes = [] \<or> length bytes mod 4 \<noteq> 0 then Inl () else decode_base64_chunks bytes)"

section \<open>Sealing in the control plane\<close>

definition PROVIDER_KEY_ENCRYPTION_ALGORITHM :: string where
  "PROVIDER_KEY_ENCRYPTION_ALGORITHM = ''aes-256-gcm''"

definition PROVIDER_KEY_NONCE_LEN :: nat where
  "PROVIDER_KEY_NONCE_LEN = 12"

record sealed_provider_key_payload_fields =
  pf_algorithm :: string
  pf_version :: "8 word"
  pf_master_key_id :: string
  pf_nonce :: string
  pf_ciphertext :: string

definition sealed_provider_key_payload ::
  "(sealed_provider_key_payload_fields \<Rightarrow> string option) \<Rightarrow> sealed_provider_key \<Rightarrow> string + string" where
  "sealed_provider_key_payload to_json sealed =
     ok_or ''provider key encryption payload failed''
       (to_json \<lparr>pf_algorithm = PROVIDER_KEY_ENCRYPTION_ALGORITHM, pf_version = sp_version sealed,
          pf_master_key_id = sp_master_key_id sealed, pf_nonce = hex_encode (sp_nonce sealed),
          pf_ciphertext = hex_encode (sp_ciphertext sealed)\<rparr>)"

definition provider_key_secret_from_request ::
  "string option \<Rightarrow> string option \<Rightarrow> string + provider_key_secret" where
  "provider_key_secret_from_request secret api_key =
     rbind (case (secret, api_key) of
              (Some s, Some k) \<Rightarrow> Inl ''provide either secret or api_key for provider key creation, not both''
            | (Some s, None) \<Rightarrow> Inr s
            | (None, Some k) \<Rightarrow> Inr k
            | (None, None) \<Rightarrow> Inl ''secret or api_key is required for provider key creation'') (\<lambda>raw_secret.
     if trim raw_secret = [] then Inl ''provider key secret must not be empty''
     else map_err (\<lambda>_. ''provider key secret must not be empty'') (provider_key_secret_new raw_secret))"

text \<open>The part of \<open>build_new_provider_key\<close> and of \<open>build_rotated_provider_key\<close> that produces the stored secret.\<close>

definition sealed_secret_for_storage ::
  "aead \<Rightarrow> (uuid \<Rightarrow> string) \<Rightarrow> (sealed_provider_key_payload_fields \<Rightarrow> string option) \<Rightarrow> string \<Rightarrow> string \<Rightarrow> string
   \<Rightarrow> uuid \<Rightarrow> uuid \<Rightarrow> uuid \<Rightarrow> string option \<Rightarrow> string option \<Rightarrow> string + string" where
  "sealed_secret_for_storage encrypt fmt to_json nonce master_key master_key_id tenant_id provider_id provider_key_id
       secret api_key =
     rbind (provider_key_secret_from_request secret api_key) (\<lambda>key_secret.
     rbind (map_err (\<lambda>_. ''provider key encryption failed'')
              (provider_key_context_new (fmt tenant_id) (fmt provider_id) (fmt provider_key_id))) (\<lambda>cxt.
     rbind (map_err (\<lambda>_. ''provider key encryption failed'')
              (seal_provider_key encrypt nonce master_key master_key_id cxt key_secret)) (\<lambda>sealed.
     sealed_provider_key_payload to_json sealed)))"

section \<open>Opening in the gateway\<close>

definition decode_provider_key_master_key :: "string option \<Rightarrow> gateway_api_error + string" where
  "decode_provider_key_master_key raw =
     rbind (case raw of
              Some r \<Rightarrow> if trim r \<noteq> [] then Inr (trim r)
                       else Inl (provider_key_service_error ''provider_key_master_key_not_configured''
                                   ''provider key master key is not configured'' (Some True))
            | None \<Rightarrow> Inl (provider_key_service_error ''provider_key_master_key_not_configured''
                            ''provider key master key is not configured'' (Some True))) (\<lambda>raw.
     rbind (map_err (\<lambda>_. provider_key_service_error ''provider_key_master_key_invalid''
                       ''provider key master key must be valid base64'' (Some False)) (decode_base64 raw)) (\<lambda>decoded.
     if length decoded = PROVIDER_KEY_MASTER_KEY_LEN then Inr decoded
     else Inl (provider_key_service_error ''provider_key_master_key_invalid''
                 ''provider key master key must decode to 32 bytes'' (Some False))))"

definition sealed_provider_key_from_payload ::
  "(string \<Rightarrow> sealed_provider_key_payload_fields option) \<Rightarrow> (string \<Rightarrow> string option) \<Rightarrow> string
   \<Rightarrow> gateway_api_error + sealed_provider_key" where
  "sealed_provider_key_from_payload from_json hex_decode encrypted_secret =
     (let invalid = (\<lambda>message. provider_key_service_error ''provider_key_secret_invalid'' message (Some False)) in
      rbind (ok_or (invalid ''provider key encrypted secret payload is invalid'') (from_json encrypted_secret)) (\<lambda>payload.
      if pf_algorithm payload \<noteq> PROVIDER_KEY_ENCRYPTION_ALGORITHM
      then Inl (invalid ''provider key encrypted secret algorithm is unsupported'')
      else rbind (ok_or (invalid ''provider key encrypted secret nonce is invalid'') (hex_decode (pf_nonce payload))) (\<lambda>nonce.
           if length nonce \<noteq> PROVIDER_KEY_NONCE_LEN then Inl (invalid ''provider key encrypted secret nonce is invalid'')
           else rbind (ok_or (invalid ''provider key encrypted secret ciphertext is invalid'')
                         (hex_decode (pf_ciphertext payload))) (\<lambda>ciphertext.
                Inr \<lparr>sp_version = pf_version payload, sp_master_key_id = pf_master_key_id payload, sp_nonce = nonce,
                     sp_ciphertext = ciphertext\<rparr>))))"

fun gateway_provider_key_crypto_error :: "provider_key_crypto_error \<Rightarrow> gateway_api_error" where
  "gateway_provider_key_crypto_error (PK_InvalidMasterKeyLength expected actual) =
     provider_key_service_error ''provider_key_master_key_invalid'' ''provider key master key must decode to 32 bytes'' (Some False)"
| "gateway_provider_key_crypto_error PK_DecryptionFailed =
     provider_key_service_error ''provider_key_decryption_failed''
       ''provider key could not be opened with the configured master key'' (Some False)"
| "gateway_provider_key_crypto_error PK_InvalidUtf8 =
     provider_key_service_error ''provider_key_decryption_failed''
       ''provider key could not be opened with the configured master key'' (Some False)"
| "gateway_provider_key_crypto_error (PK_UnsupportedVersion v) =
     provider_key_service_error ''provider_key_decryption_failed''
       ''provider key could not be opened with the configured master key'' (Some False)"
| "gateway_provider_key_crypto_error _ =
     provider_key_service_error ''provider_key_configuration_error''
       ''provider key runtime configuration is invalid'' (Some False)"

text \<open>The lookup of the key row is a database answer: an error, no row, or the id and the stored secret of the row.\<close>

definition open_provider_key_for_route ::
  "aead \<Rightarrow> (uuid \<Rightarrow> string) \<Rightarrow> (string \<Rightarrow> sealed_provider_key_payload_fields option) \<Rightarrow> (string \<Rightarrow> string option)
   \<Rightarrow> (uuid \<Rightarrow> uuid \<Rightarrow> uuid \<Rightarrow> gateway_api_error + (uuid \<times> string) option) \<Rightarrow> string option \<Rightarrow> uuid
   \<Rightarrow> 'v resolved_chat_route \<Rightarrow> gateway_api_error + provider_key_secret" where
  "open_provider_key_for_route decrypt fmt from_json hex_decode lookup raw_master_key tenant_id route =
     rbind (lookup (cr_provider_key_id route) (cr_provider_id route) (cr_channel_id route)) (\<lambda>found.
     rbind (ok_or (provider_key_service_error ''provider_key_unavailable''
              ''provider key is unavailable for the selected provider route'' (Some True)) found) (\<lambda>(id, encrypted_secret).
     rbind (decode_provider_key_master_key raw_master_key) (\<lambda>master_key.
     rbind (sealed_provider_key_from_payload from_json hex_decode encrypted_secret) (\<lambda>sealed.
     rbind (map_err gateway_provider_key_crypto_error
              (provider_key_context_new (fmt tenant_id) (fmt (cr_provider_id route)) (fmt id))) (\<lambda>cxt.
     map_err gateway_provider_key_crypto_error (open_provider_key decrypt master_key cxt sealed))))))"

section \<open>The decoder inverts the standard encoding\<close>

text \<open>The encoding of RFC 4648, as the reference: three bytes make four digits, a rest of one or two bytes is padded.\<close>

definition base64_char :: "8 word \<Rightarrow> char" where
  "base64_char w = ''ABCDEFGHIJKLMNOPQRSTUVWXYZabcdefghijklmnopqrstuvwxyz0123456789+/'' ! unat w"

definition sextet0 :: "8 word \<Rightarrow> 8 word" where
  "sextet0 a = drop_bit 2 a"

definition sextet1 :: "8 word \<Rightarrow> 8 word \<Rightarrow> 8 word" where
  "sextet1 a b = push_bit 4 (take_bit 2 a) OR drop_bit 4 b"

definition sextet2 :: "8 word \<Rightarrow> 8 word \<Rightarrow> 8 word" where
  "sextet2 b c = push_bit 2 (take_bit 4 b) OR drop_bit 6 c"

definition sextet3 :: "8 word \<Rightarrow> 8 word" where
  "sextet3 c = take_bit 6 c"

fun base64_encode :: "string \<Rightarrow> string" where
  "base64_encode [] = []"
| "base64_encode [a] = [base64_char (sextet0 (byte_word a)), base64_char (sextet1 (byte_word a) 0), CHR ''='', CHR ''='']"
| "base64_encode [a, b] =
     [base64_char (sextet0 (byte_word a)), base64_char (sextet1 (byte_word a) (byte_word b)),
      base64_char (sextet2 (byte_word b) 0), CHR ''='']"
| "base64_encode (a # b # c # rest) =
     [base64_char (sextet0 (byte_word a)), base64_char (sextet1 (byte_word a) (byte_word b)),
      base64_char (sextet2 (byte_word b) (byte_word c)), base64_char (sextet3 (byte_word c))] @ base64_encode rest"

lemmas sextet_defs = sextet0_def sextet1_def sextet2_def sextet3_def

lemma octet_eqI:
  fixes a b :: "8 word"
  assumes "bit a 0 = bit b 0" "bit a 1 = bit b 1" "bit a 2 = bit b 2" "bit a 3 = bit b 3"
    "bit a 4 = bit b 4" "bit a 5 = bit b 5" "bit a 6 = bit b 6" "bit a 7 = bit b 7"
  shows "a = b"
proof (rule bit_word_eqI)
  fix n assume "n < LENGTH(8)"
  then have "n = 0 \<or> n = 1 \<or> n = 2 \<or> n = 3 \<or> n = 4 \<or> n = 5 \<or> n = 6 \<or> n = 7" by auto
  then show "bit a n = bit b n" using assms by metis
qed

lemma octet_high [simp]: "8 \<le> n \<Longrightarrow> \<not> bit (a :: 8 word) n"
  by (auto dest: bit_imp_le_length)

lemma sextets_rejoin:
  "push_bit 2 (sextet0 a) OR drop_bit 4 (sextet1 a b) = a"
  "push_bit 4 (sextet1 a b) OR drop_bit 2 (sextet2 b c) = b"
  "push_bit 6 (sextet2 b c) OR sextet3 c = c"
  by (rule octet_eqI; simp add: sextet_defs bit_simps del: bit_0)+

lemma sextet_small:
  fixes w :: "8 word"
  assumes "\<not> bit w 6" "\<not> bit w 7"
  shows "unat w < 64"
proof -
  have "w = take_bit 6 w" using assms by (intro octet_eqI) (simp_all add: bit_simps del: bit_0)
  then have "unat w = take_bit 6 (unat w)" by (metis unsigned_take_bit_eq)
  then show ?thesis using take_bit_nat_less_exp [of 6 "unat w"] by simp
qed

lemma sextets_small:
  "unat (sextet0 a) < 64" "unat (sextet1 a b) < 64" "unat (sextet2 b c) < 64" "unat (sextet3 c) < 64"
  by (rule sextet_small; simp add: sextet_defs bit_simps)+

lemma base64_alphabet:
  "map base64_value ''ABCDEFGHIJKLMNOPQRSTUVWXYZabcdefghijklmnopqrstuvwxyz0123456789+/'' = map (\<lambda>n. Inr (of_nat n)) [0..<64]"
  "list_all (\<lambda>c. c \<noteq> CHR ''='' \<and> \<not> is_ascii_whitespace c \<and> 33 \<le> byte_of c \<and> byte_of c < 127) ''ABCDEFGHIJKLMNOPQRSTUVWXYZabcdefghijklmnopqrstuvwxyz0123456789+/''"
  by (simp_all add: base64_value_def byte_of_def byte_word_def is_ascii_whitespace_def upt_conv_Cons)

lemma base64_char_value:
  assumes "unat w < 64"
  shows "base64_value (base64_char w) = Inr w" "base64_char w \<noteq> CHR ''=''" "\<not> is_ascii_whitespace (base64_char w)"
    and "33 \<le> byte_of (base64_char w) \<and> byte_of (base64_char w) < 127"
proof -
  let ?A = "''ABCDEFGHIJKLMNOPQRSTUVWXYZabcdefghijklmnopqrstuvwxyz0123456789+/''"
  have len: "length ?A = 64" by simp
  have "base64_value (?A ! unat w) = map base64_value ?A ! unat w" by (rule nth_map [symmetric], subst len, rule assms)
  also have "\<dots> = Inr w" unfolding base64_alphabet(1) using assms by simp
  finally show "base64_value (base64_char w) = Inr w" unfolding base64_char_def .
  have "?A ! unat w \<in> set ?A" by (rule nth_mem, subst len, rule assms)
  then show "base64_char w \<noteq> CHR ''=''" "\<not> is_ascii_whitespace (base64_char w)"
    "33 \<le> byte_of (base64_char w) \<and> byte_of (base64_char w) < 127"
    unfolding base64_char_def using base64_alphabet(2) unfolding list_all_iff by blast+
qed

lemma word_char_byte_word: "word_char (byte_word c) = c"
  by (simp add: word_char_def byte_word_def byte_of_def unat_of_nat)

lemmas base64_digit = base64_char_value(1) [OF sextets_small(1)] base64_char_value(1) [OF sextets_small(2)]
  base64_char_value(1) [OF sextets_small(3)] base64_char_value(1) [OF sextets_small(4)]

lemmas base64_no_pad = base64_char_value(2) [OF sextets_small(1)] base64_char_value(2) [OF sextets_small(2)]
  base64_char_value(2) [OF sextets_small(3)] base64_char_value(2) [OF sextets_small(4)]

lemma decode_base64_chunks_encode: "decode_base64_chunks (base64_encode s) = Inr s"
proof (induction s rule: base64_encode.induct)
  case (4 a b c rest)
  then show ?case
    by (simp add: decode_base64_chunk_def base64_no_pad base64_digit sextets_rejoin word_char_byte_word)
qed (simp_all add: decode_base64_chunk_def base64_no_pad base64_digit sextets_rejoin word_char_byte_word)

lemma pad_not_space: "\<not> is_ascii_whitespace (CHR ''='')"
  by (simp add: is_ascii_whitespace_def byte_of_def)

lemma base64_encode_shape:
  "length (base64_encode s) mod 4 = 0" "s \<noteq> [] \<Longrightarrow> base64_encode s \<noteq> []"
  "list_all (\<lambda>b. \<not> is_ascii_whitespace b) (base64_encode s)"
  by (induction s rule: base64_encode.induct)
    (simp_all add: base64_char_value(3) [OF sextets_small(1)] base64_char_value(3) [OF sextets_small(2)]
      base64_char_value(3) [OF sextets_small(3)] base64_char_value(3) [OF sextets_small(4)] pad_not_space)

lemma decode_base64_encode:
  assumes "s \<noteq> []" "filter (\<lambda>b. \<not> is_ascii_whitespace b) raw = base64_encode s"
  shows "decode_base64 raw = Inr s"
  using base64_encode_shape [of s] decode_base64_chunks_encode [of s] assms by (simp add: decode_base64_def)

text \<open>The gateway's base64 decoder is a decoder of the standard encoding: whatever way the text of a non-empty byte
  string is broken up with white space, the bytes come back.\<close>

theorem base64_decoder_inverts_encoding:
  assumes "s \<noteq> []" "filter (\<lambda>b. \<not> is_ascii_whitespace b) raw = base64_encode s"
  shows "decode_base64 raw = Inr s"
  using assms by (rule decode_base64_encode)

lemma sample_base64: "base64_encode ''fo'' = ''Zm8=''"
  by code_simp

theorem base64_decoder_inverts_encoding_witness: "decode_base64 '' Zm8 ='' = Inr ''fo''"
  by (rule base64_decoder_inverts_encoding)
    (simp_all add: sample_base64 is_ascii_whitespace_def byte_of_def del: base64_encode.simps)

section \<open>What the control plane seals, the gateway opens\<close>

lemma map_err_Inr: "map_err f m = Inr x \<longleftrightarrow> m = Inr x"
  by (cases m) (simp_all add: map_err_def)

lemma stored_secret_parts:
  assumes "sealed_secret_for_storage encrypt fmt to_json nonce master_key master_key_id tenant provider key secret api_key = Inr stored"
  obtains raw cxt sealed where "secret = Some raw \<and> api_key = None \<or> secret = None \<and> api_key = Some raw" "raw \<noteq> []"
    "provider_key_context_new (fmt tenant) (fmt provider) (fmt key) = Inr cxt"
    "seal_provider_key encrypt nonce master_key master_key_id cxt (ProviderKeySecret raw) = Inr sealed"
    "sealed_provider_key_payload to_json sealed = Inr stored"
  using assms
  by (auto simp: sealed_secret_for_storage_def provider_key_secret_from_request_def provider_key_secret_new_def
      result_simps map_err_Inr split: option.splits if_splits)

lemma stored_key_opens:
  assumes "aead_correct encrypt decrypt" "\<forall>x. hex_decode (hex_encode x) = Some x"
    and "\<forall>p j. to_json p = Some j \<longrightarrow> from_json j = Some p" "length nonce = 12"
    and "sealed_secret_for_storage encrypt fmt to_json nonce master_key master_key_id tenant provider key secret api_key = Inr stored"
    and "valid_utf8 (case secret of Some s \<Rightarrow> s | None \<Rightarrow> (case api_key of Some k \<Rightarrow> k | None \<Rightarrow> []))"
    and "trim raw_master_key = base64_encode master_key"
    and "lookup (cr_provider_key_id route) provider (cr_channel_id route) = Inr (Some (key, stored))" "cr_provider_id route = provider"
  shows "open_provider_key_for_route decrypt fmt from_json hex_decode lookup (Some raw_master_key) tenant route
    = Inr (ProviderKeySecret (case secret of Some s \<Rightarrow> s | None \<Rightarrow> (case api_key of Some k \<Rightarrow> k | None \<Rightarrow> [])))"
proof -
  obtain raw cxt sealed where parts: "secret = Some raw \<and> api_key = None \<or> secret = None \<and> api_key = Some raw" "raw \<noteq> []"
    "provider_key_context_new (fmt tenant) (fmt provider) (fmt key) = Inr cxt"
    "seal_provider_key encrypt nonce master_key master_key_id cxt (ProviderKeySecret raw) = Inr sealed"
    "sealed_provider_key_payload to_json sealed = Inr stored" by (rule stored_secret_parts [OF assms(5)])
  have raw: "raw = (case secret of Some s \<Rightarrow> s | None \<Rightarrow> (case api_key of Some k \<Rightarrow> k | None \<Rightarrow> []))"
    using parts(1) by auto
  note opens = sealed_opens [OF assms(1) _ _ parts(4)]
  have key: "open_provider_key decrypt master_key cxt sealed = Inr (ProviderKeySecret raw)" "length master_key = 32"
    using opens assms(6) parts(2) raw by auto
  have "sp_nonce sealed = nonce" using parts(4)
    by (auto simp: seal_provider_key_def result_simps Let_def)
  then have "sealed_provider_key_from_payload from_json hex_decode stored = Inr sealed"
    using parts(5) assms(2-4)
    by (auto simp: sealed_provider_key_payload_def sealed_provider_key_from_payload_def PROVIDER_KEY_NONCE_LEN_def result_simps)
  moreover have "decode_provider_key_master_key (Some raw_master_key) = Inr master_key"
    using key(2) assms(7) decode_base64_encode [of master_key "trim raw_master_key"] base64_encode_shape(2,3) [of master_key]
    by (force simp: decode_provider_key_master_key_def PROVIDER_KEY_MASTER_KEY_LEN_def map_err_def filter_id_conv list_all_iff)
  ultimately show ?thesis
    using assms(8,9) parts(3) key(1) by (simp add: open_provider_key_for_route_def map_err_def raw [symmetric])
qed

text \<open>C34. A provider secret entered in the control plane is the secret the gateway uses: the payload stored for a tenant,
  provider and key opens in the gateway for every route of that provider and key to exactly the secret, when the gateway
  has the same master key in base64. The payload survives its JSON form and the hexadecimal digits are decoded back; the
  nonce is twelve bytes and the secret is text.\<close>

theorem stored_provider_key_opens_in_gateway:
  assumes "aead_correct encrypt decrypt" "\<forall>x. hex_decode (hex_encode x) = Some x"
    and "\<forall>p j. to_json p = Some j \<longrightarrow> from_json j = Some p" "length nonce = 12"
    and "sealed_secret_for_storage encrypt fmt to_json nonce master_key master_key_id tenant provider key secret api_key = Inr stored"
    and "valid_utf8 (case secret of Some s \<Rightarrow> s | None \<Rightarrow> (case api_key of Some k \<Rightarrow> k | None \<Rightarrow> []))"
    and "trim raw_master_key = base64_encode master_key"
    and "lookup (cr_provider_key_id route) provider (cr_channel_id route) = Inr (Some (key, stored))" "cr_provider_id route = provider"
  shows "open_provider_key_for_route decrypt fmt from_json hex_decode lookup (Some raw_master_key) tenant route
    = Inr (ProviderKeySecret (case secret of Some s \<Rightarrow> s | None \<Rightarrow> (case api_key of Some k \<Rightarrow> k | None \<Rightarrow> [])))"
  using assms by (rule stored_key_opens)

lemma trim_base64_encode:
  assumes "s \<noteq> []"
  shows "trim (base64_encode s) = base64_encode s"
proof -
  have "list_all (\<lambda>c. 33 \<le> byte_of c \<and> byte_of c < 127) (base64_encode s)"
    by (induction s rule: base64_encode.induct)
      (simp_all add: base64_char_value(4) [OF sextets_small(1)] base64_char_value(4) [OF sextets_small(2)]
        base64_char_value(4) [OF sextets_small(3)] base64_char_value(4) [OF sextets_small(4)] byte_of_def [of "CHR ''=''"])
  then show ?thesis using base64_encode_shape(2) [OF assms]
    by (intro trim_printable_ends) (auto simp: list_all_iff)
qed

text \<open>Concrete parameters: a decoder of hexadecimal digits, a transparent cipher and a one-payload JSON form.\<close>

fun sample_hex_decode :: "string \<Rightarrow> string option" where
  "sample_hex_decode [] = Some []"
| "sample_hex_decode [a] = None"
| "sample_hex_decode (a # b # rest) =
     (case (hex_digit_value a, hex_digit_value b) of
        (Some x, Some y) \<Rightarrow> map_option ((#) (char_of (16 * x + y))) (sample_hex_decode rest)
      | _ \<Rightarrow> None)"

lemma hex_digit_value_table:
  assumes "n < 16"
  shows "hex_digit_value (''0123456789abcdef'' ! n) = Some n"
proof -
  have table: "map hex_digit_value ''0123456789abcdef'' = map Some [0..<16]"
    by (simp add: hex_digit_value_def is_ascii_digit_def byte_of_def upt_conv_Cons)
  have len: "length ''0123456789abcdef'' = 16" by simp
  have "hex_digit_value (''0123456789abcdef'' ! n) = map hex_digit_value ''0123456789abcdef'' ! n"
    by (rule nth_map [symmetric], subst len, rule assms)
  also have "\<dots> = Some n" unfolding table using assms by simp
  finally show ?thesis .
qed

lemma sample_hex_decode_encode: "sample_hex_decode (hex_encode s) = Some s"
proof (induction s)
  case (Cons c s)
  have "byte_of c div 16 < 16" "byte_of c mod 16 < 16" by (simp_all add: byte_of_def div_less_iff_less_mult)
  then show ?case using Cons by (simp add: hex_encode_def hex_digit_value_table) (simp add: byte_of_def)
qed (simp add: hex_encode_def)

definition sample_sealed :: sealed_provider_key where
  "sample_sealed =
     \<lparr>sp_version = 1, sp_master_key_id = ''id'', sp_nonce = replicate 12 (CHR ''n''),
      sp_ciphertext = encryption_aad 1 ''id'' (case provider_key_context_new ''id'' ''id'' ''id'' of Inr c \<Rightarrow> c | Inl e \<Rightarrow> ProviderKeyContext []) @ ''sk''\<rparr>"

definition sample_payload :: sealed_provider_key_payload_fields where
  "sample_payload =
     \<lparr>pf_algorithm = PROVIDER_KEY_ENCRYPTION_ALGORITHM, pf_version = 1, pf_master_key_id = ''id'',
      pf_nonce = hex_encode (sp_nonce sample_sealed), pf_ciphertext = hex_encode (sp_ciphertext sample_sealed)\<rparr>"

lemma sample_sealing:
  "aead_correct (\<lambda>_ _ aad msg. Some (aad @ msg)) (\<lambda>_ _ aad c. strip_prefix aad c)"
  "sealed_secret_for_storage (\<lambda>_ _ aad msg. Some (aad @ msg)) (\<lambda>_. ''id'')
     (\<lambda>p. if p = sample_payload then Some ''payload'' else None) (replicate 12 (CHR ''n'')) (replicate 32 (CHR ''k'')) ''id'' 1 3 4
     (Some ''sk'') None = Inr ''payload''"
  "valid_utf8 ''sk''"
proof -
  show "aead_correct (\<lambda>_ _ aad msg. Some (aad @ msg)) (\<lambda>_ _ aad c. strip_prefix aad c)"
    by (auto simp: aead_correct_def strip_prefix_eq_Some)
  have trims: "trim ''id'' = ''id''" "trim ''sk'' = ''sk''" by (simp_all add: trim_printable_ends byte_of_def)
  obtain c where c: "provider_key_context_new ''id'' ''id'' ''id'' = Inr c"
    by (simp add: provider_key_context_new_def required_context_field_def trims)
  show "sealed_secret_for_storage (\<lambda>_ _ aad msg. Some (aad @ msg)) (\<lambda>_. ''id'')
      (\<lambda>p. if p = sample_payload then Some ''payload'' else None) (replicate 12 (CHR ''n'')) (replicate 32 (CHR ''k'')) ''id'' 1 3 4
      (Some ''sk'') None = Inr ''payload''"
    by (simp add: sealed_secret_for_storage_def provider_key_secret_from_request_def trims provider_key_secret_new_def c
        seal_provider_key_def provider_key_cipher_def PROVIDER_KEY_MASTER_KEY_LEN_def required_master_key_id_def map_err_def
        PROVIDER_KEY_ENCRYPTION_VERSION_def sealed_provider_key_payload_def sample_payload_def sample_sealed_def)
  show "valid_utf8 ''sk''" by (rule valid_utf8_ascii) (simp add: byte_of_def)
qed

lemma sample_key_opens:
  "open_provider_key_for_route (\<lambda>_ _ aad c. strip_prefix aad c) (\<lambda>_. ''id'') (\<lambda>j. if j = ''payload'' then Some sample_payload else None)
     sample_hex_decode (\<lambda>_ _ _. Inr (Some (4, ''payload''))) (Some (base64_encode (replicate 32 (CHR ''k'')))) 1 (sample_route channel)
   = Inr (ProviderKeySecret ''sk'')"
  using stored_key_opens [OF sample_sealing(1), of sample_hex_decode "\<lambda>p. if p = sample_payload then Some ''payload'' else None"
      "\<lambda>j. if j = ''payload'' then Some sample_payload else None" "replicate 12 (CHR ''n'')" "\<lambda>_. ''id''"
      "replicate 32 (CHR ''k'')" "''id''" 1 3 4 "Some ''sk''" None "''payload''" "base64_encode (replicate 32 (CHR ''k''))"
      "\<lambda>_ _ _. Inr (Some (4, ''payload''))" "sample_route channel"] sample_sealing(2,3)
  by (simp add: sample_hex_decode_encode trim_base64_encode sample_route_def del: base64_encode.simps split: if_splits)

theorem stored_provider_key_opens_in_gateway_witness:
  "open_provider_key_for_route (\<lambda>_ _ aad c. strip_prefix aad c) (\<lambda>_. ''id'') (\<lambda>j. if j = ''payload'' then Some sample_payload else None)
     sample_hex_decode (\<lambda>_ _ _. Inr (Some (4, ''payload''))) (Some (base64_encode (replicate 32 (CHR ''k'')))) 1 (sample_route 10)
   = Inr (ProviderKeySecret ''sk'')"
  using stored_provider_key_opens_in_gateway [OF sample_sealing(1), of sample_hex_decode "\<lambda>p. if p = sample_payload then Some ''payload'' else None"
      "\<lambda>j. if j = ''payload'' then Some sample_payload else None" "replicate 12 (CHR ''n'')" "\<lambda>_. ''id''"
      "replicate 32 (CHR ''k'')" "''id''" 1 3 4 "Some ''sk''" None "''payload''" "base64_encode (replicate 32 (CHR ''k''))"
      "\<lambda>_ _ _. Inr (Some (4, ''payload''))" "sample_route 10"] sample_sealing(2,3)
  by (simp add: sample_hex_decode_encode trim_base64_encode sample_route_def del: base64_encode.simps split: if_splits)

end
