(* ===== verification/AdapterErrors.thy ===== *)
theory AdapterErrors
  imports GatewayErrors
begin

text \<open>
  Errors of the provider adapters (\<open>adapters/src/openai.rs\<close>, \<open>anthropic.rs\<close>, \<open>gemini.rs\<close>): the error enums with
  their HTTP status, body, mapping and signal, and what the gateway derives from them (\<open>gateway/src/errors.rs\<close>,
  \<open>gateway/src/main.rs\<close>): the normalized error, the summary that is logged, the fallback decision and the patch of the
  provider key. A JSON value is the tree that \<open>serde_json::Value\<close> is, an object by its list of members, a number by
  its text.
\<close>

section \<open>JSON bodies\<close>

datatype json_value =
    JT_Null
  | JT_Bool bool
  | JT_Number string
  | JT_String string
  | JT_Array "json_value list"
  | JT_Object "(string \<times> json_value) list"

definition jv_get :: "json_value \<Rightarrow> string \<Rightarrow> json_value option" where
  "jv_get v key = (case v of JT_Object members \<Rightarrow> map_of members key | _ \<Rightarrow> None)"

definition jv_as_str :: "json_value \<Rightarrow> string option" where
  "jv_as_str v = (case v of JT_String s \<Rightarrow> Some s | _ \<Rightarrow> None)"

definition jv_insert :: "string \<Rightarrow> json_value \<Rightarrow> json_value \<Rightarrow> json_value" where
  "jv_insert key v object =
     (case object of JT_Object members \<Rightarrow> JT_Object ((key, v) # filter (\<lambda>m. fst m \<noteq> key) members) | _ \<Rightarrow> object)"

definition jv_option :: "('a \<Rightarrow> json_value) \<Rightarrow> 'a option \<Rightarrow> json_value" where
  "jv_option f x = (case x of None \<Rightarrow> JT_Null | Some v \<Rightarrow> f v)"

definition jv_u64 :: "'a::len word \<Rightarrow> json_value" where
  "jv_u64 n = JT_Number (show_nat (unat n))"

definition string_field :: "json_value option \<Rightarrow> string \<Rightarrow> string \<Rightarrow> string" where
  "string_field v field fallback = unwrap_or fallback (Option.bind (Option.bind v (\<lambda>v. jv_get v field)) jv_as_str)"

definition error_body :: "string \<Rightarrow> string \<Rightarrow> string \<Rightarrow> string option \<Rightarrow> (string \<times> json_value) list \<Rightarrow> json_value" where
  "error_body error_type code message param metadata =
     JT_Object
       [(''error'', JT_Object
          [(''message'', JT_String message), (''type'', JT_String error_type),
           (''param'', jv_option JT_String param), (''code'', JT_String code)]),
        (''gateway'', JT_Object metadata)]"

definition error_origin :: "string \<Rightarrow> string \<Rightarrow> (string \<times> json_value) list" where
  "error_origin owner stage = [(''error_owner'', JT_String owner), (''error_stage'', JT_String stage)]"

section \<open>Signals and mappings, shared by the adapters\<close>

record adapter_retry_after =
  rt_header_value :: string
  rt_retry_after_ms :: "u64 option"

record adapter_error_mapping =
  em_http_status :: u16
  em_error_type :: string
  em_code :: string
  em_message :: string
  em_param :: "string option"
  em_owner :: string
  em_stage :: string
  em_retryable :: "bool option"
  em_retry_after_ms :: "u64 option"
  em_signal :: "adapter_error_signal option"

definition from_status :: "u16 \<Rightarrow> adapter_error_signal" where
  "from_status status_code = \<lparr>as_status_code = Some status_code, as_transport = None, as_retry_after_ms = None\<rparr>"

definition from_transport :: "adapter_provider_transport_error_kind \<Rightarrow> adapter_error_signal" where
  "from_transport transport = \<lparr>as_status_code = None, as_transport = Some transport, as_retry_after_ms = None\<rparr>"

definition status_signal :: "u16 \<Rightarrow> adapter_retry_after option \<Rightarrow> adapter_error_signal" where
  "status_signal status retry_after =
     (case Option.bind retry_after rt_retry_after_ms of
        Some retry_after_ms \<Rightarrow> (from_status status)\<lparr>as_retry_after_ms := Some retry_after_ms\<rparr>
      | None \<Rightarrow> from_status status)"

definition retryable_for_status :: "u16 \<Rightarrow> bool option" where
  "retryable_for_status status =
     (if status = 408 \<or> status = 429 \<or> (500 \<le> status \<and> status \<le> 599) then Some True
      else if 400 \<le> status \<and> status \<le> 499 then Some False else None)"

definition provider_error_code :: "u16 \<Rightarrow> string" where
  "provider_error_code status =
     (if status = 429 then ''provider_429''
      else if 500 \<le> status \<and> status \<le> 599 then ''provider_5xx''
      else if status = 401 \<or> status = 403 then ''provider_auth_failed'' else ''provider_http_error'')"

definition is_success_status :: "u16 \<Rightarrow> bool" where
  "is_success_status status \<longleftrightarrow> 200 \<le> status \<and> status < 300"

fun transport_variant :: "adapter_provider_transport_error_kind \<Rightarrow> string" where
  "transport_variant APT_Timeout = ''Timeout''"
| "transport_variant APT_Connect = ''Connect''"
| "transport_variant APT_Body = ''Body''"
| "transport_variant APT_Other = ''Other''"

definition signal_json :: "adapter_error_signal \<Rightarrow> json_value" where
  "signal_json signal =
     JT_Object
       [(''status_code'', jv_option jv_u64 (as_status_code signal)),
        (''transport'', jv_option (\<lambda>t. JT_String (transport_variant t)) (as_transport signal)),
        (''retry_after_ms'', jv_option jv_u64 (as_retry_after_ms signal))]"

definition gateway_with_signal ::
  "u16 \<Rightarrow> adapter_retry_after option \<Rightarrow> adapter_error_signal option \<Rightarrow> json_value \<Rightarrow> json_value" where
  "gateway_with_signal http_status retry_after signal gateway =
     (let g1 = jv_insert ''retryable'' (jv_option JT_Bool (retryable_for_status http_status)) gateway;
          g2 = (case retry_after of
                  None \<Rightarrow> g1
                | Some r \<Rightarrow>
                    let g = jv_insert ''retry_after'' (JT_String (rt_header_value r)) g1
                    in (case rt_retry_after_ms r of None \<Rightarrow> g | Some ms \<Rightarrow> jv_insert ''retry_after_ms'' (jv_u64 ms) g))
      in case signal of None \<Rightarrow> g2 | Some s \<Rightarrow> jv_insert ''error_signal'' (signal_json s) g2)"

definition attach_error_signal_metadata ::
  "u16 \<Rightarrow> adapter_retry_after option \<Rightarrow> adapter_error_signal option \<Rightarrow> json_value \<Rightarrow> json_value" where
  "attach_error_signal_metadata http_status retry_after signal body =
     (case jv_get body ''gateway'' of
        Some (JT_Object metadata) \<Rightarrow>
          jv_insert ''gateway'' (gateway_with_signal http_status retry_after signal (JT_Object metadata)) body
      | _ \<Rightarrow> body)"

definition error_mapping_of_body :: "u16 \<Rightarrow> json_value \<Rightarrow> adapter_error_signal option \<Rightarrow> adapter_error_mapping" where
  "error_mapping_of_body status body signal =
     (let error = jv_get body ''error''; gateway = jv_get body ''gateway''
      in \<lparr>em_http_status = status,
          em_error_type = string_field error ''type'' ''gateway_error'',
          em_code = string_field error ''code'' ''gateway_error'',
          em_message = string_field error ''message'' ''adapter error'',
          em_param = Option.bind (Option.bind error (\<lambda>e. jv_get e ''param'')) jv_as_str,
          em_owner = string_field gateway ''error_owner'' ''gateway'',
          em_stage = string_field gateway ''error_stage'' ''provider_call'',
          em_retryable = retryable_for_status status,
          em_retry_after_ms = Option.bind signal as_retry_after_ms,
          em_signal = signal\<rparr>)"

definition upstream_status_body :: "u16 \<Rightarrow> json_value \<Rightarrow> json_value" where
  "upstream_status_body status body =
     error_body ''provider_error'' (provider_error_code status)
       (''upstream provider returned HTTP '' @ show_nat (unat status)) None
       (error_origin ''provider'' ''provider_call'' @ [(''provider_status'', jv_u64 status), (''provider_error'', body)])"

definition invalid_upstream_body :: "string \<Rightarrow> u16 \<Rightarrow> string \<Rightarrow> json_value" where
  "invalid_upstream_body code status message =
     error_body ''provider_error'' code message None
       (error_origin ''parser'' ''response_transform'' @ [(''provider_status'', jv_u64 status)])"

section \<open>The OpenAI-compatible adapter\<close>

datatype openai_adapter_error =
    OA_InvalidJson string
  | OA_InvalidRequest string "string option"
  | OA_RequestSerialize string
  | OA_StreamingNotImplemented
  | OA_InvalidUpstreamBaseUrl string
  | OA_HttpClient string
  | OA_ProviderAuthorizationInvalid
  | OA_UpstreamTimeout
  | OA_UpstreamConnect string
  | OA_UpstreamRequest string
  | OA_UpstreamRead string
  | OA_UpstreamStatus u16 json_value "adapter_retry_after option"
  | OA_UpstreamInvalidJson u16 string "adapter_retry_after option"
  | OA_UpstreamInvalidResponse u16 string "adapter_retry_after option"

fun openai_http_status :: "openai_adapter_error \<Rightarrow> u16" where
  "openai_http_status (OA_InvalidJson _) = 400"
| "openai_http_status (OA_InvalidRequest _ _) = 400"
| "openai_http_status (OA_RequestSerialize _) = 500"
| "openai_http_status OA_StreamingNotImplemented = 501"
| "openai_http_status (OA_InvalidUpstreamBaseUrl _) = 500"
| "openai_http_status (OA_HttpClient _) = 500"
| "openai_http_status OA_ProviderAuthorizationInvalid = 500"
| "openai_http_status OA_UpstreamTimeout = 504"
| "openai_http_status (OA_UpstreamConnect _) = 502"
| "openai_http_status (OA_UpstreamRequest _) = 502"
| "openai_http_status (OA_UpstreamRead _) = 502"
| "openai_http_status (OA_UpstreamInvalidJson _ _ _) = 502"
| "openai_http_status (OA_UpstreamInvalidResponse _ _ _) = 502"
| "openai_http_status (OA_UpstreamStatus status _ _) = status"

fun openai_retry_after :: "openai_adapter_error \<Rightarrow> adapter_retry_after option" where
  "openai_retry_after (OA_UpstreamStatus _ _ retry_after) = retry_after"
| "openai_retry_after (OA_UpstreamInvalidJson _ _ retry_after) = retry_after"
| "openai_retry_after (OA_UpstreamInvalidResponse _ _ retry_after) = retry_after"
| "openai_retry_after _ = None"

fun openai_to_error_signal :: "openai_adapter_error \<Rightarrow> adapter_error_signal option" where
  "openai_to_error_signal OA_UpstreamTimeout = Some (from_transport APT_Timeout)"
| "openai_to_error_signal (OA_UpstreamConnect _) = Some (from_transport APT_Connect)"
| "openai_to_error_signal (OA_UpstreamRead _) = Some (from_transport APT_Body)"
| "openai_to_error_signal (OA_UpstreamRequest _) = Some (from_transport APT_Other)"
| "openai_to_error_signal (OA_UpstreamStatus status _ retry_after) = Some (status_signal status retry_after)"
| "openai_to_error_signal (OA_UpstreamInvalidJson status _ retry_after) =
     (if \<not> is_success_status status then Some (status_signal status retry_after) else None)"
| "openai_to_error_signal (OA_UpstreamInvalidResponse status _ retry_after) =
     (if \<not> is_success_status status then Some (status_signal status retry_after) else None)"
| "openai_to_error_signal _ = None"

fun openai_error_body :: "openai_adapter_error \<Rightarrow> json_value" where
  "openai_error_body (OA_InvalidJson message) =
     error_body ''invalid_request_error'' ''invalid_json'' message (Some ''body'') (error_origin ''client'' ''request_parse'')"
| "openai_error_body (OA_InvalidRequest message param) =
     error_body ''invalid_request_error'' ''invalid_request'' message param (error_origin ''client'' ''request_validate'')"
| "openai_error_body (OA_RequestSerialize message) =
     error_body ''gateway_error'' ''request_serialize_failed'' message None (error_origin ''gateway'' ''request_transform'')"
| "openai_error_body OA_StreamingNotImplemented =
     error_body ''invalid_request_error'' ''streaming_not_implemented''
       ''stream=true is not implemented by this gateway slice'' (Some ''stream'') (error_origin ''gateway'' ''request_validate'')"
| "openai_error_body (OA_InvalidUpstreamBaseUrl message) =
     error_body ''gateway_error'' ''invalid_upstream_base_url'' (''invalid upstream base URL: '' @ message) None
       (error_origin ''gateway'' ''provider_call'')"
| "openai_error_body (OA_HttpClient message) =
     error_body ''gateway_error'' ''http_client_error'' message None (error_origin ''gateway'' ''provider_call'')"
| "openai_error_body OA_ProviderAuthorizationInvalid =
     error_body ''gateway_error'' ''provider_authorization_invalid'' ''provider authorization credential is invalid'' None
       (error_origin ''gateway'' ''provider_call'')"
| "openai_error_body OA_UpstreamTimeout =
     error_body ''provider_error'' ''provider_timeout'' ''upstream provider request timed out'' None
       (error_origin ''network'' ''provider_call'')"
| "openai_error_body (OA_UpstreamConnect message) =
     error_body ''provider_error'' ''provider_connect_failed'' message None (error_origin ''network'' ''provider_call'')"
| "openai_error_body (OA_UpstreamRequest message) =
     error_body ''provider_error'' ''provider_request_failed'' message None (error_origin ''network'' ''provider_call'')"
| "openai_error_body (OA_UpstreamRead message) =
     error_body ''provider_error'' ''provider_response_read_failed'' message None (error_origin ''network'' ''provider_call'')"
| "openai_error_body (OA_UpstreamStatus status body _) = upstream_status_body status body"
| "openai_error_body (OA_UpstreamInvalidJson status message _) = invalid_upstream_body ''provider_invalid_json'' status message"
| "openai_error_body (OA_UpstreamInvalidResponse status message _) =
     invalid_upstream_body ''provider_invalid_response'' status message"

definition to_openai_error_body :: "openai_adapter_error \<Rightarrow> json_value" where
  "to_openai_error_body e =
     attach_error_signal_metadata (openai_http_status e) (openai_retry_after e) (openai_to_error_signal e) (openai_error_body e)"

definition openai_to_adapter_error_mapping :: "openai_adapter_error \<Rightarrow> adapter_error_mapping" where
  "openai_to_adapter_error_mapping e =
     error_mapping_of_body (openai_http_status e) (to_openai_error_body e) (openai_to_error_signal e)"

section \<open>The Anthropic and Gemini adapters\<close>

datatype anthropic_adapter_error =
    AA_InvalidJson string
  | AA_InvalidRequest string "string option"
  | AA_RequestSerialize string
  | AA_UpstreamStatus u16 json_value "adapter_retry_after option"
  | AA_UpstreamInvalidJson u16 string "adapter_retry_after option"

fun anthropic_http_status :: "anthropic_adapter_error \<Rightarrow> u16" where
  "anthropic_http_status (AA_InvalidJson _) = 400"
| "anthropic_http_status (AA_InvalidRequest _ _) = 400"
| "anthropic_http_status (AA_RequestSerialize _) = 500"
| "anthropic_http_status (AA_UpstreamInvalidJson _ _ _) = 502"
| "anthropic_http_status (AA_UpstreamStatus status _ _) = status"

fun anthropic_retry_after :: "anthropic_adapter_error \<Rightarrow> adapter_retry_after option" where
  "anthropic_retry_after (AA_UpstreamStatus _ _ retry_after) = retry_after"
| "anthropic_retry_after (AA_UpstreamInvalidJson _ _ retry_after) = retry_after"
| "anthropic_retry_after _ = None"

fun anthropic_to_error_signal :: "anthropic_adapter_error \<Rightarrow> adapter_error_signal option" where
  "anthropic_to_error_signal (AA_UpstreamStatus status _ retry_after) = Some (status_signal status retry_after)"
| "anthropic_to_error_signal (AA_UpstreamInvalidJson status _ retry_after) =
     (if \<not> is_success_status status then Some (status_signal status retry_after) else None)"
| "anthropic_to_error_signal _ = None"

fun anthropic_error_body :: "anthropic_adapter_error \<Rightarrow> json_value" where
  "anthropic_error_body (AA_InvalidJson message) =
     error_body ''invalid_request_error'' ''invalid_json'' message (Some ''body'') (error_origin ''client'' ''request_parse'')"
| "anthropic_error_body (AA_InvalidRequest message param) =
     error_body ''invalid_request_error'' ''invalid_request'' message param (error_origin ''client'' ''request_validate'')"
| "anthropic_error_body (AA_RequestSerialize message) =
     error_body ''gateway_error'' ''request_serialize_failed'' message None (error_origin ''gateway'' ''request_transform'')"
| "anthropic_error_body (AA_UpstreamStatus status body _) = upstream_status_body status body"
| "anthropic_error_body (AA_UpstreamInvalidJson status message _) =
     invalid_upstream_body ''provider_invalid_json'' status message"

definition anthropic_to_adapter_error_body :: "anthropic_adapter_error \<Rightarrow> json_value" where
  "anthropic_to_adapter_error_body e =
     attach_error_signal_metadata (anthropic_http_status e) (anthropic_retry_after e) (anthropic_to_error_signal e)
       (anthropic_error_body e)"

definition anthropic_to_adapter_error_mapping :: "anthropic_adapter_error \<Rightarrow> adapter_error_mapping" where
  "anthropic_to_adapter_error_mapping e =
     error_mapping_of_body (anthropic_http_status e) (anthropic_to_adapter_error_body e) (anthropic_to_error_signal e)"

datatype gemini_adapter_error =
    GA_InvalidJson string
  | GA_InvalidRequest string "string option"
  | GA_RequestSerialize string
  | GA_UpstreamStatus u16 json_value "adapter_retry_after option"
  | GA_UpstreamInvalidJson u16 string "adapter_retry_after option"
  | GA_UpstreamInvalidResponse u16 string "adapter_retry_after option"

fun gemini_http_status :: "gemini_adapter_error \<Rightarrow> u16" where
  "gemini_http_status (GA_InvalidJson _) = 400"
| "gemini_http_status (GA_InvalidRequest _ _) = 400"
| "gemini_http_status (GA_RequestSerialize _) = 500"
| "gemini_http_status (GA_UpstreamInvalidJson _ _ _) = 502"
| "gemini_http_status (GA_UpstreamInvalidResponse _ _ _) = 502"
| "gemini_http_status (GA_UpstreamStatus status _ _) = status"

fun gemini_retry_after :: "gemini_adapter_error \<Rightarrow> adapter_retry_after option" where
  "gemini_retry_after (GA_UpstreamStatus _ _ retry_after) = retry_after"
| "gemini_retry_after (GA_UpstreamInvalidJson _ _ retry_after) = retry_after"
| "gemini_retry_after (GA_UpstreamInvalidResponse _ _ retry_after) = retry_after"
| "gemini_retry_after _ = None"

fun gemini_to_error_signal :: "gemini_adapter_error \<Rightarrow> adapter_error_signal option" where
  "gemini_to_error_signal (GA_UpstreamStatus status _ retry_after) = Some (status_signal status retry_after)"
| "gemini_to_error_signal (GA_UpstreamInvalidJson status _ retry_after) =
     (if \<not> is_success_status status then Some (status_signal status retry_after) else None)"
| "gemini_to_error_signal (GA_UpstreamInvalidResponse status _ retry_after) =
     (if \<not> is_success_status status then Some (status_signal status retry_after) else None)"
| "gemini_to_error_signal _ = None"

fun gemini_error_body :: "gemini_adapter_error \<Rightarrow> json_value" where
  "gemini_error_body (GA_InvalidJson message) =
     error_body ''invalid_request_error'' ''invalid_json'' message (Some ''body'') (error_origin ''client'' ''request_parse'')"
| "gemini_error_body (GA_InvalidRequest message param) =
     error_body ''invalid_request_error'' ''invalid_request'' message param (error_origin ''client'' ''request_validate'')"
| "gemini_error_body (GA_RequestSerialize message) =
     error_body ''gateway_error'' ''request_serialize_failed'' message None (error_origin ''gateway'' ''request_transform'')"
| "gemini_error_body (GA_UpstreamStatus status body _) = upstream_status_body status body"
| "gemini_error_body (GA_UpstreamInvalidJson status message _) =
     invalid_upstream_body ''provider_invalid_json'' status message"
| "gemini_error_body (GA_UpstreamInvalidResponse status message _) =
     invalid_upstream_body ''provider_invalid_response'' status message"

definition gemini_to_adapter_error_body :: "gemini_adapter_error \<Rightarrow> json_value" where
  "gemini_to_adapter_error_body e =
     attach_error_signal_metadata (gemini_http_status e) (gemini_retry_after e) (gemini_to_error_signal e) (gemini_error_body e)"

definition gemini_to_adapter_error_mapping :: "gemini_adapter_error \<Rightarrow> adapter_error_mapping" where
  "gemini_to_adapter_error_mapping e =
     error_mapping_of_body (gemini_http_status e) (gemini_to_adapter_error_body e) (gemini_to_error_signal e)"

section \<open>Normalized errors and the log summary\<close>

record provider_error_normalization =
  pn_http_status :: u16
  pn_error_type :: string
  pn_code :: string
  pn_message :: string
  pn_param :: "string option"
  pn_owner :: string
  pn_stage :: string
  pn_retryable :: "bool option"
  pn_provider_status :: "u16 option"
  pn_category :: string
  pn_action :: string

definition is_invalid_model_text :: "string \<Rightarrow> bool" where
  "is_invalid_model_text raw =
     (let v = to_ascii_lowercase raw
      in contains ''invalid_model'' v \<or> contains ''model_not_found'' v \<or> contains ''model not found'' v
         \<or> contains ''model does not exist'' v \<or> contains ''does not exist'' v)"

fun value_contains_invalid_model_text :: "json_value \<Rightarrow> bool" where
  "value_contains_invalid_model_text (JT_String s) = is_invalid_model_text s"
| "value_contains_invalid_model_text (JT_Array vs) = list_ex value_contains_invalid_model_text vs"
| "value_contains_invalid_model_text (JT_Object members) =
     list_ex (\<lambda>(key, v). is_invalid_model_text key \<or> value_contains_invalid_model_text v) members"
| "value_contains_invalid_model_text _ = False"

definition upstream_error_looks_like_invalid_model :: "u16 \<Rightarrow> json_value \<Rightarrow> bool" where
  "upstream_error_looks_like_invalid_model status body \<longleftrightarrow>
     status = 404 \<or> ((status = 400 \<or> status = 422) \<and> value_contains_invalid_model_text body)"

definition upstream_timeout_normalization :: provider_error_normalization where
  "upstream_timeout_normalization =
     \<lparr>pn_http_status = 504, pn_error_type = ''provider_error'', pn_code = ''upstream_timeout'',
      pn_message = ''The upstream provider did not respond before the gateway timeout.'', pn_param = None,
      pn_owner = ''network'', pn_stage = ''provider_call'', pn_retryable = Some True, pn_provider_status = None,
      pn_category = ''timeout'',
      pn_action = ''Retry later or ask the gateway operator to check provider latency and timeout settings.''\<rparr>"

definition upstream_status_normalization :: "u16 \<Rightarrow> json_value \<Rightarrow> adapter_retry_after option \<Rightarrow> provider_error_normalization" where
  "upstream_status_normalization status body retry_after =
     (let normalization = \<lambda>error_type code message param retryable category action.
            \<lparr>pn_http_status = status, pn_error_type = error_type, pn_code = code, pn_message = message, pn_param = param,
             pn_owner = ''provider'', pn_stage = ''provider_call'', pn_retryable = retryable,
             pn_provider_status = Some status, pn_category = category, pn_action = action\<rparr>
      in if upstream_error_looks_like_invalid_model status body
         then normalization ''invalid_request_error'' ''upstream_invalid_model''
           ''The upstream provider rejected the routed model.'' (Some ''model'') (Some False) ''invalid_model''
           ''Ask the gateway operator to check the model mapping for this API key and provider channel.''
         else if status = 401 \<or> status = 403
         then normalization ''provider_error'' ''provider_auth_failed''
           ''The upstream provider rejected the configured provider credential.'' None (Some False) ''authentication''
           ''Ask the gateway operator to verify or rotate the provider key for this channel.''
         else if status = 429
         then normalization ''rate_limit_error'' ''provider_429''
           ''The upstream provider rate limit or quota was reached.'' None (Some True) ''rate_limit''
           (if retry_after \<noteq> None
            then ''Retry after the provider retry window, or ask the gateway operator to add capacity.''
            else ''Retry later, or ask the gateway operator to add capacity.'')
         else if 500 \<le> status \<and> status \<le> 599
         then normalization ''provider_error'' ''provider_5xx''
           ''The upstream provider returned a server error.'' None (Some True) ''server_error''
           ''Retry later or ask the gateway operator to check provider health and fallback routing.''
         else normalization ''provider_error'' ''provider_http_error''
           ''The upstream provider rejected the request.'' None (retryable_for_status status) ''http_error''
           ''Check the request parameters or ask the gateway operator to inspect the provider attempt.'')"

fun normalize_openai_provider_error :: "openai_adapter_error \<Rightarrow> provider_error_normalization option" where
  "normalize_openai_provider_error OA_UpstreamTimeout = Some upstream_timeout_normalization"
| "normalize_openai_provider_error (OA_UpstreamStatus status body retry_after) =
     Some (upstream_status_normalization status body retry_after)"
| "normalize_openai_provider_error (OA_UpstreamInvalidJson status _ retry_after) =
     (if \<not> is_success_status status then Some (upstream_status_normalization status JT_Null retry_after) else None)"
| "normalize_openai_provider_error _ = None"

fun normalize_anthropic_provider_error :: "anthropic_adapter_error \<Rightarrow> provider_error_normalization option" where
  "normalize_anthropic_provider_error (AA_UpstreamStatus status body retry_after) =
     Some (upstream_status_normalization status body retry_after)"
| "normalize_anthropic_provider_error (AA_UpstreamInvalidJson status _ retry_after) =
     (if \<not> is_success_status status then Some (upstream_status_normalization status JT_Null retry_after) else None)"
| "normalize_anthropic_provider_error _ = None"

fun normalize_gemini_provider_error :: "gemini_adapter_error \<Rightarrow> provider_error_normalization option" where
  "normalize_gemini_provider_error (GA_UpstreamStatus status body retry_after) =
     Some (upstream_status_normalization status body retry_after)"
| "normalize_gemini_provider_error (GA_UpstreamInvalidJson status _ retry_after) =
     (if \<not> is_success_status status then Some (upstream_status_normalization status JT_Null retry_after) else None)"
| "normalize_gemini_provider_error (GA_UpstreamInvalidResponse status _ retry_after) =
     (if \<not> is_success_status status then Some (upstream_status_normalization status JT_Null retry_after) else None)"
| "normalize_gemini_provider_error _ = None"

definition adapter_error_summary :: "provider_error_normalization option \<Rightarrow> adapter_error_mapping \<Rightarrow> error_log_summary" where
  "adapter_error_summary normalized mapping =
     (case normalized of
        Some n \<Rightarrow> \<lparr>es_http_status = uint (pn_http_status n), es_error_owner = pn_owner n, es_error_code = pn_code n,
                   es_retryable = pn_retryable n\<rparr>
      | None \<Rightarrow> \<lparr>es_http_status = uint (em_http_status mapping), es_error_owner = em_owner mapping,
                 es_error_code = em_code mapping, es_retryable = em_retryable mapping\<rparr>)"

definition summarize_adapter_error :: "openai_adapter_error \<Rightarrow> error_log_summary" where
  "summarize_adapter_error e = adapter_error_summary (normalize_openai_provider_error e) (openai_to_adapter_error_mapping e)"

definition summarize_anthropic_adapter_error :: "anthropic_adapter_error \<Rightarrow> error_log_summary" where
  "summarize_anthropic_adapter_error e =
     adapter_error_summary (normalize_anthropic_provider_error e) (anthropic_to_adapter_error_mapping e)"

definition summarize_gemini_adapter_error :: "gemini_adapter_error \<Rightarrow> error_log_summary" where
  "summarize_gemini_adapter_error e =
     adapter_error_summary (normalize_gemini_provider_error e) (gemini_to_adapter_error_mapping e)"

text \<open>\<open>StatusCode::from_u16\<close> refuses what has not three digits; the response then carries 500.\<close>

definition status_code_or_500 :: "u16 \<Rightarrow> u16" where
  "status_code_or_500 status = (if 100 \<le> status \<and> status \<le> 999 then status else 500)"

section \<open>Fallback and the provider key\<close>

definition signal_can_fallback :: "adapter_error_signal option \<Rightarrow> bool" where
  "signal_can_fallback signal = (case signal of None \<Rightarrow> False | Some s \<Rightarrow> error_signal_can_fallback s)"

definition provider_error_can_fallback :: "openai_adapter_error \<Rightarrow> bool" where
  "provider_error_can_fallback e = signal_can_fallback (openai_to_error_signal e)"

definition anthropic_provider_error_can_fallback :: "anthropic_adapter_error \<Rightarrow> bool" where
  "anthropic_provider_error_can_fallback e = signal_can_fallback (anthropic_to_error_signal e)"

definition gemini_provider_error_can_fallback :: "gemini_adapter_error \<Rightarrow> bool" where
  "gemini_provider_error_can_fallback e = signal_can_fallback (gemini_to_error_signal e)"

definition is_quota_like_text :: "string \<Rightarrow> bool" where
  "is_quota_like_text raw =
     (let v = to_ascii_lowercase raw
      in contains ''insufficient_quota'' v \<or> contains ''quota_exhausted'' v \<or> contains ''quota_exceeded'' v
         \<or> contains ''quota exceeded'' v \<or> contains ''exceeded your current quota'' v \<or> contains ''billing hard limit'' v)"

fun value_contains_quota_like_text :: "json_value \<Rightarrow> bool" where
  "value_contains_quota_like_text (JT_String s) = is_quota_like_text s"
| "value_contains_quota_like_text (JT_Array vs) = list_ex value_contains_quota_like_text vs"
| "value_contains_quota_like_text (JT_Object members) =
     list_ex (\<lambda>(key, v). is_quota_like_text key \<or> value_contains_quota_like_text v) members"
| "value_contains_quota_like_text _ = False"

fun adapter_error_is_quota_like :: "openai_adapter_error \<Rightarrow> bool" where
  "adapter_error_is_quota_like (OA_UpstreamStatus _ body _) = value_contains_quota_like_text body"
| "adapter_error_is_quota_like _ = False"

fun anthropic_adapter_error_is_quota_like :: "anthropic_adapter_error \<Rightarrow> bool" where
  "anthropic_adapter_error_is_quota_like (AA_UpstreamStatus _ body _) = value_contains_quota_like_text body"
| "anthropic_adapter_error_is_quota_like _ = False"

fun gemini_adapter_error_is_quota_like :: "gemini_adapter_error \<Rightarrow> bool" where
  "gemini_adapter_error_is_quota_like (GA_UpstreamStatus _ body _) = value_contains_quota_like_text body"
| "gemini_adapter_error_is_quota_like _ = False"

definition provider_key_runtime_status_patch_for_adapter_error :: "openai_adapter_error \<Rightarrow> (string \<times> int option) option" where
  "provider_key_runtime_status_patch_for_adapter_error e =
     Option.bind (openai_to_error_signal e) (\<lambda>signal. provider_key_runtime_status_patch signal (adapter_error_is_quota_like e))"

definition provider_key_runtime_status_patch_for_anthropic_adapter_error ::
  "anthropic_adapter_error \<Rightarrow> (string \<times> int option) option" where
  "provider_key_runtime_status_patch_for_anthropic_adapter_error e =
     Option.bind (anthropic_to_error_signal e)
       (\<lambda>signal. provider_key_runtime_status_patch signal (anthropic_adapter_error_is_quota_like e))"

definition provider_key_runtime_status_patch_for_gemini_adapter_error ::
  "gemini_adapter_error \<Rightarrow> (string \<times> int option) option" where
  "provider_key_runtime_status_patch_for_gemini_adapter_error e =
     Option.bind (gemini_to_error_signal e)
       (\<lambda>signal. provider_key_runtime_status_patch signal (gemini_adapter_error_is_quota_like e))"

section \<open>What the three adapters have in common\<close>

text \<open>The body is read back field by field when the mapping is built. The members that \<open>attach_error_signal_metadata\<close>
  adds never hide the ones the mapping reads.\<close>

definition mapped_key :: "string \<Rightarrow> bool" where
  "mapped_key key \<longleftrightarrow> key \<notin> {''retryable'', ''retry_after'', ''retry_after_ms'', ''error_signal''}"

lemma map_of_filter_other: "key \<noteq> k \<Longrightarrow> map_of (filter (\<lambda>m. fst m \<noteq> key) xs) k = map_of xs k"
  by (induction xs) auto

lemma jv_get_insert: "k \<noteq> key \<Longrightarrow> jv_get (jv_insert key v object) k = jv_get object k"
  by (simp add: jv_get_def jv_insert_def map_of_filter_other split: json_value.split)

lemma jv_get_insert_same: "jv_get (jv_insert key v (JT_Object members)) key = Some v"
  by (simp add: jv_get_def jv_insert_def)

lemma jv_get_gateway_with_signal: "mapped_key k \<Longrightarrow> jv_get (gateway_with_signal status retry_after signal gateway) k = jv_get gateway k"
  by (simp add: gateway_with_signal_def mapped_key_def jv_get_insert Let_def split: option.split)

lemma jv_get_attached_error: "jv_get (attach_error_signal_metadata status retry_after signal body) ''error'' = jv_get body ''error''"
  by (simp add: attach_error_signal_metadata_def jv_get_insert split: option.split json_value.split)

lemma jv_get_attached_gateway:
  "jv_get (attach_error_signal_metadata status retry_after signal (error_body t c m p metadata)) ''gateway''
   = Some (gateway_with_signal status retry_after signal (JT_Object metadata))"
  by (simp add: attach_error_signal_metadata_def error_body_def jv_get_def jv_insert_def)

lemma mapping_reads_body:
  fixes signal :: "adapter_error_signal option"
  assumes m_def: "mapping = error_mapping_of_body status
    (attach_error_signal_metadata status' retry_after signal (error_body t c m p (error_origin owner stage @ extra))) signal'"
  shows "em_http_status mapping = status" "em_error_type mapping = t" "em_code mapping = c" "em_message mapping = m"
    "em_param mapping = p" "em_owner mapping = owner" "em_stage mapping = stage"
    "em_retryable mapping = retryable_for_status status"
proof -
  let ?body = "error_body t c m p (error_origin owner stage @ extra)"
  have error: "jv_get ?body ''error'' = Some (JT_Object
      [(''message'', JT_String m), (''type'', JT_String t), (''param'', jv_option JT_String p), (''code'', JT_String c)])"
    by (simp add: jv_get_def error_body_def)
  have origin: "jv_get (JT_Object (error_origin owner stage @ extra)) ''error_owner'' = Some (JT_String owner)"
      "jv_get (JT_Object (error_origin owner stage @ extra)) ''error_stage'' = Some (JT_String stage)"
    by (simp_all add: jv_get_def error_origin_def)
  note read = m_def error_mapping_of_body_def Let_def jv_get_attached_error jv_get_attached_gateway error string_field_def
    jv_get_gateway_with_signal mapped_key_def origin jv_as_str_def unwrap_or_def
  show "em_http_status mapping = status" "em_retryable mapping = retryable_for_status status" by (simp_all add: read)
  show "em_error_type mapping = t" "em_code mapping = c" "em_message mapping = m" by (simp_all add: read) (simp_all add: jv_get_def jv_as_str_def)
  show "em_param mapping = p" by (simp add: read) (simp add: jv_get_def jv_option_def jv_as_str_def split: option.split)
  show "em_owner mapping = owner" "em_stage mapping = stage" by (simp_all add: read)
qed

text \<open>The contract of an adapter's error type: a normalized error comes with the signal of the same status, and an error
  with a signal that is not normalized is reported as a server error.\<close>

definition matching_signal :: "provider_error_normalization \<Rightarrow> adapter_error_signal \<Rightarrow> bool" where
  "matching_signal n s \<longleftrightarrow>
     n = upstream_timeout_normalization \<and> s = from_transport APT_Timeout
     \<or> (\<exists>status body retry_after. n = upstream_status_normalization status body retry_after
          \<and> s = status_signal status retry_after)"

lemma status_signal_code: "as_status_code (status_signal status retry_after) = Some status"
  by (simp add: status_signal_def from_status_def split: option.split)

lemma matching_fallback_retryable:
  assumes "matching_signal n s" "error_signal_can_fallback s"
  shows "pn_retryable n = Some True"
proof (cases "n = upstream_timeout_normalization")
  case False
  then obtain status body retry_after where n: "n = upstream_status_normalization status body retry_after"
    and s: "s = status_signal status retry_after" using assms(1) by (auto simp: matching_signal_def)
  have code: "status = 408 \<or> status = 429 \<or> (500 \<le> status \<and> status \<le> 599)"
    using assms(2) by (simp add: s error_signal_can_fallback_def status_signal_code)
  then have "\<not> upstream_error_looks_like_invalid_model status body" "status \<noteq> 401 \<and> status \<noteq> 403"
    by (auto simp: upstream_error_looks_like_invalid_model_def)
  then show ?thesis using code by (auto simp: n upstream_status_normalization_def Let_def retryable_for_status_def)
qed (simp add: upstream_timeout_normalization_def)

locale adapter_errors =
  fixes http_status :: "'e \<Rightarrow> u16"
    and signal :: "'e \<Rightarrow> adapter_error_signal option"
    and normalized :: "'e \<Rightarrow> provider_error_normalization option"
    and mapping :: "'e \<Rightarrow> adapter_error_mapping"
  assumes normalized_signal: "normalized e = Some n \<Longrightarrow> \<exists>s. signal e = Some s \<and> matching_signal n s"
    and other_signal: "normalized e = None \<Longrightarrow> signal e \<noteq> None \<Longrightarrow> 500 \<le> http_status e \<and> http_status e \<le> 599"
    and mapping_status: "em_http_status (mapping e) = http_status e"
    and mapping_retryable: "em_retryable (mapping e) = retryable_for_status (http_status e)"
begin

lemma fallback_logged:
  assumes "signal_can_fallback (signal e)"
  shows "es_retryable (adapter_error_summary (normalized e) (mapping e)) = Some True"
proof (cases "normalized e")
  case None
  then have "500 \<le> http_status e \<and> http_status e \<le> 599"
    using other_signal [of e] assms by (auto simp: signal_can_fallback_def split: option.splits)
  then show ?thesis using None by (simp add: adapter_error_summary_def mapping_retryable retryable_for_status_def)
next
  case (Some n)
  then show ?thesis using normalized_signal [of e n] assms matching_fallback_retryable
    by (auto simp: adapter_error_summary_def signal_can_fallback_def)
qed

lemma logged_status:
  "es_http_status (adapter_error_summary (normalized e) (mapping e)) =
     uint (case normalized e of Some n \<Rightarrow> pn_http_status n | None \<Rightarrow> http_status e)"
  by (simp add: adapter_error_summary_def mapping_status split: option.split)

end

lemma upstream_status_normalization_status: "pn_http_status (upstream_status_normalization status body retry_after) = status"
  by (simp add: upstream_status_normalization_def Let_def)

lemma matching_status: "matching_signal (upstream_status_normalization status body retry_after) (status_signal status retry_after)"
  by (auto simp: matching_signal_def)

lemma matching_timeout: "matching_signal upstream_timeout_normalization (from_transport APT_Timeout)"
  by (simp add: matching_signal_def)

lemma error_mapping_status [simp]:
  "em_http_status (error_mapping_of_body status body signal) = status"
  "em_retryable (error_mapping_of_body status body signal) = retryable_for_status status"
  by (simp_all add: error_mapping_of_body_def Let_def)

interpretation openai: adapter_errors openai_http_status openai_to_error_signal normalize_openai_provider_error
  openai_to_adapter_error_mapping
proof
  fix e n
  assume "normalize_openai_provider_error e = Some n"
  then show "\<exists>s. openai_to_error_signal e = Some s \<and> matching_signal n s"
    by (cases e) (auto simp: matching_status matching_timeout split: if_splits)
next
  fix e
  assume "normalize_openai_provider_error e = None" "openai_to_error_signal e \<noteq> None"
  then show "500 \<le> openai_http_status e \<and> openai_http_status e \<le> 599" by (cases e) auto
qed (simp_all add: openai_to_adapter_error_mapping_def)

interpretation anthropic: adapter_errors anthropic_http_status anthropic_to_error_signal normalize_anthropic_provider_error
  anthropic_to_adapter_error_mapping
proof
  fix e n
  assume "normalize_anthropic_provider_error e = Some n"
  then show "\<exists>s. anthropic_to_error_signal e = Some s \<and> matching_signal n s"
    by (cases e) (auto simp: matching_status split: if_splits)
next
  fix e
  assume "normalize_anthropic_provider_error e = None" "anthropic_to_error_signal e \<noteq> None"
  then show "500 \<le> anthropic_http_status e \<and> anthropic_http_status e \<le> 599" by (cases e) auto
qed (simp_all add: anthropic_to_adapter_error_mapping_def)

interpretation gemini: adapter_errors gemini_http_status gemini_to_error_signal normalize_gemini_provider_error
  gemini_to_adapter_error_mapping
proof
  fix e n
  assume "normalize_gemini_provider_error e = Some n"
  then show "\<exists>s. gemini_to_error_signal e = Some s \<and> matching_signal n s"
    by (cases e) (auto simp: matching_status split: if_splits)
next
  fix e
  assume "normalize_gemini_provider_error e = None" "gemini_to_error_signal e \<noteq> None"
  then show "500 \<le> gemini_http_status e \<and> gemini_http_status e \<le> 599" by (cases e) auto
qed (simp_all add: gemini_to_adapter_error_mapping_def)

lemmas summary_defs = summarize_adapter_error_def summarize_anthropic_adapter_error_def summarize_gemini_adapter_error_def

text \<open>For each of the three adapters, an error after which the gateway tries another route is always logged as
  retryable: the fallback decision, made on the signal, and the summary, made on the normalized error or on the mapping
  read back from the error body, never contradict each other.\<close>

theorem fallback_is_logged_retryable:
  "(provider_error_can_fallback e \<longrightarrow> es_retryable (summarize_adapter_error e) = Some True)
   \<and> (anthropic_provider_error_can_fallback a \<longrightarrow> es_retryable (summarize_anthropic_adapter_error a) = Some True)
   \<and> (gemini_provider_error_can_fallback g \<longrightarrow> es_retryable (summarize_gemini_adapter_error g) = Some True)"
  by (simp add: summary_defs openai.fallback_logged anthropic.fallback_logged gemini.fallback_logged
      provider_error_can_fallback_def anthropic_provider_error_can_fallback_def gemini_provider_error_can_fallback_def)

theorem fallback_is_logged_retryable_witness:
  "es_retryable (summarize_adapter_error (OA_UpstreamConnect ''refused'')) = Some True
   \<and> es_retryable (summarize_anthropic_adapter_error (AA_UpstreamStatus 529 JT_Null None)) = Some True
   \<and> es_retryable (summarize_gemini_adapter_error (GA_UpstreamInvalidJson 503 ''busy'' None)) = Some True"
proof -
  have "provider_error_can_fallback (OA_UpstreamConnect ''refused'')"
      "anthropic_provider_error_can_fallback (AA_UpstreamStatus 529 JT_Null None)"
      "gemini_provider_error_can_fallback (GA_UpstreamInvalidJson 503 ''busy'' None)"
    by (simp_all add: provider_error_can_fallback_def anthropic_provider_error_can_fallback_def
        gemini_provider_error_can_fallback_def signal_can_fallback_def error_signal_can_fallback_def
        from_transport_def status_signal_code is_success_status_def)
  then show ?thesis
    using fallback_is_logged_retryable [of "OA_UpstreamConnect ''refused''" "AA_UpstreamStatus 529 JT_Null None"
        "GA_UpstreamInvalidJson 503 ''busy'' None"] by blast
qed

text \<open>The request row gets the status of the response, except for a body that is no JSON under a status outside 2xx: the
  client sees 502 and the row holds the status of the provider.\<close>

definition openai_unreadable_failure :: "openai_adapter_error \<Rightarrow> bool" where
  "openai_unreadable_failure e = (case e of OA_UpstreamInvalidJson status m r \<Rightarrow> \<not> is_success_status status | _ \<Rightarrow> False)"

definition gemini_unreadable_failure :: "gemini_adapter_error \<Rightarrow> bool" where
  "gemini_unreadable_failure e =
     (case e of GA_UpstreamInvalidJson status m r \<Rightarrow> \<not> is_success_status status
      | GA_UpstreamInvalidResponse status m r \<Rightarrow> \<not> is_success_status status | _ \<Rightarrow> False)"

lemma openai_logged_status:
  "\<not> openai_unreadable_failure e \<Longrightarrow> es_http_status (summarize_adapter_error e) = uint (openai_http_status e)"
  unfolding summary_defs openai.logged_status
  by (cases e) (auto simp: openai_unreadable_failure_def
      upstream_status_normalization_status upstream_timeout_normalization_def)

lemma gemini_logged_status:
  "\<not> gemini_unreadable_failure e \<Longrightarrow> es_http_status (summarize_gemini_adapter_error e) = uint (gemini_http_status e)"
  unfolding summary_defs gemini.logged_status
  by (cases e) (auto simp: gemini_unreadable_failure_def upstream_status_normalization_status)

text \<open>The summary blames the client exactly for a request that could not be read.\<close>

lemma openai_client_blamed:
  "es_error_owner (summarize_adapter_error e) = ''client'' \<longleftrightarrow> (\<exists>m p. e = OA_InvalidJson m \<or> e = OA_InvalidRequest m p)"
proof -
  have origin: "error_origin owner stage = error_origin owner stage @ []" for owner stage by simp
  note defs = summarize_adapter_error_def adapter_error_summary_def openai_to_adapter_error_mapping_def to_openai_error_body_def
    upstream_status_body_def invalid_upstream_body_def upstream_status_normalization_def upstream_timeout_normalization_def Let_def
  show ?thesis
    by (cases e) (simp_all add: defs mapping_reads_body [OF refl] mapping_reads_body [OF refl, where extra = "[]", simplified])
qed

end
