(* ===== verification/ChatCompletions.thy ===== *)
theory ChatCompletions
  imports GatewayBilling GatewayKeys AdapterErrors
begin

text \<open>
  The chat completions handler of the gateway (\<open>gateway/src/main.rs\<close>) from the list of routes to try to the response:
  admission against the limits of the virtual key, the reservation of provider key capacity, and the attempt loop with
  its fallbacks. Each answer of the database, the key store and the provider is a field of \<open>chat_answers\<close>, indexed by
  the number of the attempt where it can differ between attempts, so that a statement about all answers covers every
  failure. The result is the list of writes in order and the response. Metadata of the log rows is left out.
\<close>

section \<open>Limits of the virtual key\<close>

definition positive_i32_from_value :: "'v json_api \<Rightarrow> 'v option \<Rightarrow> int option" where
  "positive_i32_from_value j v =
     Option.bind v (\<lambda>v.
     Option.bind (case json_as_i64 j v of
                    Some n \<Rightarrow> Some (sint n)
                  | None \<Rightarrow> Option.bind (json_as_str j v) (\<lambda>raw. parse_signed 64 (trim raw))) (\<lambda>parsed.
     if 0 < parsed \<and> parsed \<le> i32_max then Some parsed else None))"

definition virtual_key_limit :: "'v json_api \<Rightarrow> string \<Rightarrow> string \<Rightarrow> 'v \<Rightarrow> int option" where
  "virtual_key_limit j flat nested policy =
     (case positive_i32_from_value j (json_get j policy flat) of
        Some n \<Rightarrow> Some n
      | None \<Rightarrow> Option.bind (json_get j policy nested) (\<lambda>v.
          case positive_i32_from_value j (Some v) of
            Some n \<Rightarrow> Some n
          | None \<Rightarrow> positive_i32_from_value j (json_get j v ''limit'')))"

definition virtual_key_concurrency_limit :: "'v json_api \<Rightarrow> 'v \<Rightarrow> int option" where
  "virtual_key_concurrency_limit j policy = virtual_key_limit j ''concurrency_limit'' ''concurrency'' policy"

definition virtual_key_rpm_limit :: "'v json_api \<Rightarrow> 'v \<Rightarrow> int option" where
  "virtual_key_rpm_limit j policy = virtual_key_limit j ''rpm_limit'' ''rpm'' policy"

definition virtual_key_tpm_limit :: "'v json_api \<Rightarrow> 'v \<Rightarrow> int option" where
  "virtual_key_tpm_limit j policy = virtual_key_limit j ''tpm_limit'' ''tpm'' policy"

section \<open>The reservation of an attempt\<close>

record gateway_rate_limit_reservation_attempt =
  ra_acquire :: rate_limit_reservation_plan
  ra_release :: rate_limit_reservation_plan
  ra_required_capacity :: rate_limit_required_capacity
  ra_db_acquire :: "reservation_db_status option"
  ra_db_release :: "reservation_db_status option"
  ra_db_release_attempted :: bool
  ra_db_release_error :: bool

definition default_gateway_rate_limit_required_capacity :: rate_limit_required_capacity where
  "default_gateway_rate_limit_required_capacity =
     \<lparr>rq_requests_per_minute = GATEWAY_RATE_LIMIT_REQUIRED_REQUESTS,
      rq_tokens_per_minute = GATEWAY_RATE_LIMIT_REQUIRED_TOKENS_FALLBACK,
      rq_concurrency = GATEWAY_RATE_LIMIT_REQUIRED_CONCURRENCY\<rparr>"

definition route_rate_limit_counter_window :: "int option \<Rightarrow> i64 option \<Rightarrow> rate_limit_counter_window" where
  "route_rate_limit_counter_window limit used =
     (case limit of
        None \<Rightarrow> \<lparr>cw_limit = None, cw_used = None\<rparr>
      | Some l \<Rightarrow> \<lparr>cw_limit = Some (word_of_int l), cw_used = used\<rparr>)"

definition route_rate_limit_reservation_plan ::
  "'v json_api \<Rightarrow> ('v \<Rightarrow> nat) \<Rightarrow> 'v resolved_chat_route \<Rightarrow> rate_limit_reservation_operation \<Rightarrow> bool
   \<Rightarrow> rate_limit_required_capacity \<Rightarrow> rate_limit_reservation_plan" where
  "route_rate_limit_reservation_plan j depth route operation reservation_acquired required =
     (let used = window_state_used_for_dimension j depth (cr_current_window_state route);
          rpm = route_rate_limit_counter_window (cr_rpm_limit route) (used RD_RequestsPerMinute);
          tpm = route_rate_limit_counter_window (cr_tpm_limit route) (used RD_TokensPerMinute);
          concurrency = route_rate_limit_counter_window (cr_concurrency_limit route) (used RD_Concurrency)
      in plan_rate_limit_reservation
           (case operation of
              RO_Acquire \<Rightarrow> reservation_acquire rpm tpm concurrency required
            | RO_Release \<Rightarrow> reservation_release rpm tpm concurrency required reservation_acquired))"

definition gateway_rate_limit_reservation_for_attempt ::
  "'v json_api \<Rightarrow> ('v \<Rightarrow> nat) \<Rightarrow> 'v resolved_chat_route \<Rightarrow> rate_limit_tpm_reservation_estimate option
   \<Rightarrow> gateway_rate_limit_reservation_attempt" where
  "gateway_rate_limit_reservation_for_attempt j depth route tpm_estimate =
     (let required = (case tpm_estimate of
              Some estimate \<Rightarrow> from_tpm_estimate GATEWAY_RATE_LIMIT_REQUIRED_REQUESTS estimate
                GATEWAY_RATE_LIMIT_REQUIRED_CONCURRENCY
            | None \<Rightarrow> default_gateway_rate_limit_required_capacity);
          acquire = route_rate_limit_reservation_plan j depth route RO_Acquire False required;
          release = route_rate_limit_reservation_plan j depth route RO_Release (pl_status acquire = RS_Acquired) required
      in \<lparr>ra_acquire = acquire, ra_release = release, ra_required_capacity = required, ra_db_acquire = None,
          ra_db_release = None, ra_db_release_attempted = False, ra_db_release_error = False\<rparr>)"

definition reservation_acquired :: "gateway_rate_limit_reservation_attempt \<Rightarrow> bool" where
  "reservation_acquired r \<longleftrightarrow> pl_status (ra_acquire r) = RS_Acquired"

definition db_acquire_allows_attempt :: "gateway_rate_limit_reservation_attempt \<Rightarrow> bool" where
  "db_acquire_allows_attempt r =
     (case ra_db_acquire r of None \<Rightarrow> True | Some status \<Rightarrow> status = DB_Applied \<or> status = DB_Noop)"

definition reservation_executable :: "gateway_rate_limit_reservation_attempt \<Rightarrow> bool" where
  "reservation_executable r \<longleftrightarrow> reservation_acquired r \<and> db_acquire_allows_attempt r"

definition db_execution_required :: "gateway_rate_limit_reservation_attempt \<Rightarrow> bool" where
  "db_execution_required r \<longleftrightarrow> pl_counter_updates_planned (ra_acquire r) > 0"

definition db_release_needed :: "gateway_rate_limit_reservation_attempt \<Rightarrow> bool" where
  "db_release_needed r \<longleftrightarrow> ra_db_acquire r = Some DB_Applied \<and> \<not> ra_db_release_attempted r"

definition record_db_acquire :: "reservation_db_status \<Rightarrow> gateway_rate_limit_reservation_attempt \<Rightarrow> gateway_rate_limit_reservation_attempt" where
  "record_db_acquire status r = r\<lparr>ra_db_acquire := Some status\<rparr>"

definition record_db_release :: "reservation_db_status \<Rightarrow> gateway_rate_limit_reservation_attempt \<Rightarrow> gateway_rate_limit_reservation_attempt" where
  "record_db_release status r = r\<lparr>ra_db_release := Some status, ra_db_release_attempted := True\<rparr>"

definition record_db_release_error :: "gateway_rate_limit_reservation_attempt \<Rightarrow> gateway_rate_limit_reservation_attempt" where
  "record_db_release_error r = r\<lparr>ra_db_release_attempted := True, ra_db_release_error := True\<rparr>"

section \<open>Answers and responses\<close>

record 'v chat_answers =
  ca_create_request :: "gateway_api_error + uuid"
  ca_billing :: "nat \<Rightarrow> 'v billing_answers"
  ca_key_slot :: "gateway_api_error + bool"
  ca_key_rpm :: "gateway_api_error + bool"
  ca_key_tpm :: "gateway_api_error + bool"
  ca_reservation :: "nat \<Rightarrow> gateway_api_error + reservation_db_status"
  ca_reservation_release :: "nat \<Rightarrow> gateway_api_error + reservation_db_status"
  ca_create_attempt :: "nat \<Rightarrow> gateway_api_error + uuid"
  ca_key_lookup :: "nat \<Rightarrow> uuid \<Rightarrow> uuid \<Rightarrow> uuid \<Rightarrow> gateway_api_error + (uuid \<times> string) option"
  ca_gemini_request :: "nat \<Rightarrow> gemini_adapter_error option"
  ca_gemini_client :: "nat \<Rightarrow> string option"
  ca_gemini_call :: "nat \<Rightarrow> string \<Rightarrow> gemini_adapter_error + ('v \<times> adapter_usage option)"
  ca_upstream_client :: "nat \<Rightarrow> openai_adapter_error option"
  ca_upstream_call :: "nat \<Rightarrow> string \<Rightarrow> openai_adapter_error + ('v \<times> adapter_usage option)"

text \<open>What the handler has of the request and of the process: the JSON accessors, the policy of the virtual key, the token
  estimate, the streaming flag, and what opens a provider key (cipher, UUID display, JSON and hex decoders, master key).\<close>

record 'v chat_request =
  cq_json :: "'v json_api"
  cq_depth :: "'v \<Rightarrow> nat"
  cq_policy :: 'v
  cq_tenant_id :: uuid
  cq_tpm_estimate :: "rate_limit_tpm_reservation_estimate option"
  cq_streaming :: bool
  cq_decrypt :: aead
  cq_fmt :: "uuid \<Rightarrow> string"
  cq_from_json :: "string \<Rightarrow> sealed_provider_key_payload_fields option"
  cq_hex_decode :: "string \<Rightarrow> string option"
  cq_master_key :: "string option"

datatype chat_adapter_error = CE_OpenAi openai_adapter_error | CE_Gemini gemini_adapter_error

datatype 'v chat_response =
    RS_Completed nat 'v
  | RS_GatewayError gateway_api_error
  | RS_AdapterError chat_adapter_error
  | RS_Streaming bool

fun chat_adapter_http_status :: "chat_adapter_error \<Rightarrow> u16" where
  "chat_adapter_http_status (CE_OpenAi e) = openai_http_status e"
| "chat_adapter_http_status (CE_Gemini e) = gemini_http_status e"

text \<open>The status line of the response. A streamed response is 200 here; the stream itself is another part of the code.\<close>

fun chat_response_status :: "'v chat_response \<Rightarrow> u16" where
  "chat_response_status (RS_Completed n payload) = 200"
| "chat_response_status (RS_GatewayError e) = ge_status e"
| "chat_response_status (RS_AdapterError e) = status_code_or_500 (chat_adapter_http_status e)"
| "chat_response_status (RS_Streaming slot) = 200"

section \<open>Closing writes\<close>

definition finish_request_with_error :: "error_log_summary \<Rightarrow> gateway_event list" where
  "finish_request_with_error summary =
     [EV_RequestFinished (request_status_for_http (es_http_status summary)) (es_http_status summary),
      EV_PaidReserveReleased ''request_error'']"

definition start_and_finish_request_error :: "gateway_api_error + uuid \<Rightarrow> error_log_summary \<Rightarrow> gateway_event list" where
  "start_and_finish_request_error created summary =
     (case created of Inl e \<Rightarrow> [] | Inr request_id \<Rightarrow> EV_RequestStarted # finish_request_with_error summary)"

definition release_virtual_key_concurrency_if_needed :: "bool \<Rightarrow> gateway_event list" where
  "release_virtual_key_concurrency_if_needed acquired = (if acquired then [EV_KeySlotReleased] else [])"

fun chat_adapter_error_summary :: "chat_adapter_error \<Rightarrow> error_log_summary" where
  "chat_adapter_error_summary (CE_OpenAi e) = summarize_adapter_error e"
| "chat_adapter_error_summary (CE_Gemini e) = summarize_gemini_adapter_error e"

fun chat_adapter_error_can_fallback :: "chat_adapter_error \<Rightarrow> bool" where
  "chat_adapter_error_can_fallback (CE_OpenAi e) = provider_error_can_fallback e"
| "chat_adapter_error_can_fallback (CE_Gemini e) = gemini_provider_error_can_fallback e"

fun chat_adapter_error_patch :: "chat_adapter_error \<Rightarrow> (string \<times> int option) option" where
  "chat_adapter_error_patch (CE_OpenAi e) = provider_key_runtime_status_patch_for_adapter_error e"
| "chat_adapter_error_patch (CE_Gemini e) = provider_key_runtime_status_patch_for_gemini_adapter_error e"

definition finish_provider_attempt_with_error :: "nat \<Rightarrow> gateway_event list" where
  "finish_provider_attempt_with_error attempt_no = [EV_AttemptFinished attempt_no ''failed'']"

definition finish_provider_attempt_with_adapter_error ::
  "nat \<Rightarrow> 'v resolved_chat_route \<Rightarrow> chat_adapter_error \<Rightarrow> gateway_event list" where
  "finish_provider_attempt_with_adapter_error attempt_no route e =
     finish_provider_attempt_with_error attempt_no
     @ (case chat_adapter_error_patch e of
          None \<Rightarrow> []
        | Some (status, cooldown_ms) \<Rightarrow> [EV_ProviderKeyPatched (cr_provider_key_id route) status cooldown_ms])"

definition pre_authorize_before_provider_attempt ::
  "'v billing_answers \<Rightarrow> uuid \<Rightarrow> 'v resolved_chat_route \<Rightarrow> gateway_api_error option \<times> gateway_event list" where
  "pre_authorize_before_provider_attempt b request_id route =
     (case pre_authorize_route b request_id route of
        (None, events) \<Rightarrow> (None, events)
      | (Some e, events) \<Rightarrow> (Some e, events @ finish_request_with_error (log_summary e)))"

definition acquire_gateway_rate_limit_reservation_for_attempt ::
  "gateway_api_error + reservation_db_status \<Rightarrow> 'v resolved_chat_route \<Rightarrow> gateway_rate_limit_reservation_attempt
   \<Rightarrow> gateway_rate_limit_reservation_attempt \<times> gateway_event list \<times> gateway_api_error option" where
  "acquire_gateway_rate_limit_reservation_for_attempt answer route r =
     (if \<not> reservation_acquired r then (r, [], None)
      else if \<not> db_execution_required r then (r, [], None)
      else case answer of
             Inr status \<Rightarrow>
               (record_db_acquire status r, [EV_ReservationAcquired (cr_provider_key_id route) status], None)
           | Inl e \<Rightarrow> (r, finish_request_with_error (log_summary e), Some e))"

definition release_gateway_rate_limit_reservation_if_needed ::
  "gateway_api_error + reservation_db_status \<Rightarrow> 'v resolved_chat_route \<Rightarrow> gateway_rate_limit_reservation_attempt
   \<Rightarrow> gateway_rate_limit_reservation_attempt \<times> gateway_event list" where
  "release_gateway_rate_limit_reservation_if_needed answer route r =
     (if \<not> db_release_needed r then (r, [])
      else ((case answer of Inr status \<Rightarrow> record_db_release status r | Inl e \<Rightarrow> record_db_release_error r),
            [EV_ReservationReleased (cr_provider_key_id route)]))"

section \<open>Admission\<close>

definition acquire_virtual_key_slot ::
  "int option \<Rightarrow> gateway_api_error + bool \<Rightarrow> bool \<times> gateway_event list \<times> gateway_api_error option" where
  "acquire_virtual_key_slot limit answer =
     (case limit of
        None \<Rightarrow> (False, [], None)
      | Some l \<Rightarrow>
          (case answer of
             Inr True \<Rightarrow> (True, [EV_KeySlotAcquired True], None)
           | Inr False \<Rightarrow>
               let e = api_key_rate_limited ''concurrency''
               in (False, [EV_KeySlotAcquired False, EV_RateLimitRecorded] @ finish_request_with_error (log_summary e), Some e)
           | Inl e \<Rightarrow> (False, finish_request_with_error (log_summary e), Some e)))"

definition acquire_virtual_key_capacity ::
  "string \<Rightarrow> bool \<Rightarrow> int option \<Rightarrow> gateway_api_error + bool \<Rightarrow> gateway_event list \<times> gateway_api_error option" where
  "acquire_virtual_key_capacity dimension slot limit answer =
     (case limit of
        None \<Rightarrow> ([], None)
      | Some l \<Rightarrow>
          (case answer of
             Inr True \<Rightarrow> ([EV_KeyCapacityAcquired dimension True], None)
           | Inr False \<Rightarrow>
               let e = api_key_rate_limited dimension
               in ([EV_KeyCapacityAcquired dimension False, EV_RateLimitRecorded]
                   @ finish_request_with_error (log_summary e) @ release_virtual_key_concurrency_if_needed slot, Some e)
           | Inl e \<Rightarrow> (finish_request_with_error (log_summary e) @ release_virtual_key_concurrency_if_needed slot, Some e)))"

section \<open>One provider call\<close>

datatype 'v call_outcome =
    CO_Completed 'v "adapter_usage option"
  | CO_KeyFailed gateway_api_error
  | CO_NotSent chat_adapter_error
  | CO_CallFailed chat_adapter_error

definition route_uses_gemini_adapter :: "'v resolved_chat_route \<Rightarrow> bool" where
  "route_uses_gemini_adapter route \<longleftrightarrow> cr_protocol_mode route \<in> {''gemini'', ''gemini_generate_content''}"

definition chat_provider_key ::
  "'v chat_request \<Rightarrow> 'v chat_answers \<Rightarrow> nat \<Rightarrow> 'v resolved_chat_route \<Rightarrow> gateway_api_error + provider_key_secret" where
  "chat_provider_key q a n route =
     open_provider_key_for_route (cq_decrypt q) (cq_fmt q) (cq_from_json q) (cq_hex_decode q) (ca_key_lookup a n)
       (cq_master_key q) (cq_tenant_id q) route"

definition gemini_provider_call ::
  "'v chat_request \<Rightarrow> 'v chat_answers \<Rightarrow> nat \<Rightarrow> 'v resolved_chat_route \<Rightarrow> 'v call_outcome" where
  "gemini_provider_call q a n route =
     (case ca_gemini_request a n of
        Some e \<Rightarrow> CO_NotSent (CE_Gemini e)
      | None \<Rightarrow>
          (case chat_provider_key q a n route of
             Inl e \<Rightarrow> CO_KeyFailed e
           | Inr (ProviderKeySecret secret) \<Rightarrow>
               (case ca_gemini_client a n of
                  Some message \<Rightarrow> CO_NotSent (CE_Gemini (GA_RequestSerialize message))
                | None \<Rightarrow>
                    (case ca_gemini_call a n secret of
                       Inl e \<Rightarrow> CO_CallFailed (CE_Gemini e)
                     | Inr (payload, usage) \<Rightarrow> CO_Completed payload usage))))"

definition openai_provider_call ::
  "'v chat_request \<Rightarrow> 'v chat_answers \<Rightarrow> nat \<Rightarrow> 'v resolved_chat_route \<Rightarrow> 'v call_outcome" where
  "openai_provider_call q a n route =
     (case ca_upstream_client a n of
        Some e \<Rightarrow> CO_NotSent (CE_OpenAi e)
      | None \<Rightarrow>
          (case chat_provider_key q a n route of
             Inl e \<Rightarrow> CO_KeyFailed e
           | Inr (ProviderKeySecret secret) \<Rightarrow>
               (case ca_upstream_call a n secret of
                  Inl e \<Rightarrow> CO_CallFailed (CE_OpenAi e)
                | Inr (payload, usage) \<Rightarrow> CO_Completed payload usage)))"

definition provider_call :: "'v chat_request \<Rightarrow> 'v chat_answers \<Rightarrow> nat \<Rightarrow> 'v resolved_chat_route \<Rightarrow> 'v call_outcome" where
  "provider_call q a n route =
     (if route_uses_gemini_adapter route then gemini_provider_call q a n route else openai_provider_call q a n route)"

definition chat_attempt_succeeded ::
  "'v billing_answers \<Rightarrow> uuid \<Rightarrow> bool \<Rightarrow> nat \<Rightarrow> 'v resolved_chat_route \<Rightarrow> 'v \<Rightarrow> adapter_usage option \<Rightarrow> gateway_event list" where
  "chat_attempt_succeeded b request_id slot attempt_no route payload adapter_usage =
     (let usage = request_usage_from_adapter_usage adapter_usage;
          rating = rate_request_usage b (cr_canonical_model_id route) usage (Some payload)
      in [EV_AttemptFinished attempt_no ''succeeded'', EV_FinalRouteRecorded attempt_no,
          EV_RequestFinished ''succeeded'' 200]
         @ settle_request_ledger request_id route usage rating
         @ release_virtual_key_concurrency_if_needed slot)"

section \<open>The attempt loop and the handler\<close>

text \<open>One pass of the loop ends with a response or goes on to the next route (\<open>continue\<close>, and \<open>break\<close> at the last route),
  having rejected the reservation or not. \<open>routes_left\<close> says that a route is left.\<close>

datatype 'v attempt_step =
    AS_Return "gateway_event list" "'v chat_response"
  | AS_Continue "gateway_event list" bool

definition attempt_reservation ::
  "'v chat_request \<Rightarrow> 'v chat_answers \<Rightarrow> nat \<Rightarrow> 'v resolved_chat_route
   \<Rightarrow> gateway_rate_limit_reservation_attempt \<times> gateway_event list \<times> gateway_api_error option" where
  "attempt_reservation q a n route =
     acquire_gateway_rate_limit_reservation_for_attempt (ca_reservation a n) route
       (gateway_rate_limit_reservation_for_attempt (cq_json q) (cq_depth q) route (cq_tpm_estimate q))"

definition chat_provider_attempt ::
  "'v chat_request \<Rightarrow> 'v chat_answers \<Rightarrow> uuid \<Rightarrow> bool \<Rightarrow> nat \<Rightarrow> bool \<Rightarrow> 'v resolved_chat_route
   \<Rightarrow> gateway_event list \<Rightarrow> 'v attempt_step" where
  "chat_provider_attempt q a request_id slot n routes_left route released =
     (let free_slot = release_virtual_key_concurrency_if_needed slot
      in case provider_call q a n route of
        CO_NotSent e \<Rightarrow>
          AS_Return (released @ finish_provider_attempt_with_adapter_error n route e
            @ finish_request_with_error (chat_adapter_error_summary e) @ free_slot) (RS_AdapterError e)
      | CO_KeyFailed e \<Rightarrow>
          AS_Return (released @ finish_provider_attempt_with_error n @ finish_request_with_error (log_summary e) @ free_slot)
            (RS_GatewayError e)
      | CO_Completed payload usage \<Rightarrow>
          AS_Return (EV_ProviderCalled n # chat_attempt_succeeded (ca_billing a n) request_id slot n route payload usage)
            (RS_Completed n payload)
      | CO_CallFailed e \<Rightarrow>
          let failed_attempt = EV_ProviderCalled n # released @ finish_provider_attempt_with_adapter_error n route e
          in if routes_left \<and> chat_adapter_error_can_fallback e then AS_Continue failed_attempt False
             else AS_Return (failed_attempt @ finish_request_with_error (chat_adapter_error_summary e) @ free_slot)
                    (RS_AdapterError e))"

fun after_events :: "gateway_event list \<Rightarrow> 'v attempt_step \<Rightarrow> 'v attempt_step" where
  "after_events events (AS_Return es response) = AS_Return (events @ es) response"
| "after_events events (AS_Continue es rejected) = AS_Continue (events @ es) rejected"

definition chat_attempt ::
  "'v chat_request \<Rightarrow> 'v chat_answers \<Rightarrow> uuid \<Rightarrow> bool \<Rightarrow> nat \<Rightarrow> bool \<Rightarrow> 'v resolved_chat_route \<Rightarrow> 'v attempt_step" where
  "chat_attempt q a request_id slot n routes_left route =
     (let free_slot = release_virtual_key_concurrency_if_needed slot;
          (refused, authorized) = pre_authorize_before_provider_attempt (ca_billing a n) request_id route
      in case refused of Some e \<Rightarrow> AS_Return (authorized @ free_slot) (RS_GatewayError e)
      | None \<Rightarrow>
      let (r, reserved, failed) = attempt_reservation q a n route
      in after_events authorized (case failed of Some e \<Rightarrow> AS_Return (reserved @ free_slot) (RS_GatewayError e)
      | None \<Rightarrow>
      if \<not> reservation_executable r then AS_Continue reserved True
      else let released = snd (release_gateway_rate_limit_reservation_if_needed (ca_reservation_release a n) route r)
      in case ca_create_attempt a n of
        Inl e \<Rightarrow> AS_Return (reserved @ released @ finish_request_with_error (log_summary e) @ free_slot) (RS_GatewayError e)
      | Inr attempt_id \<Rightarrow>
          after_events (reserved @ [EV_AttemptStarted n]) (chat_provider_attempt q a request_id slot n routes_left route released)))"

primrec chat_attempt_loop ::
  "'v chat_request \<Rightarrow> 'v chat_answers \<Rightarrow> uuid \<Rightarrow> bool \<Rightarrow> nat \<Rightarrow> nat \<Rightarrow> 'v resolved_chat_route list
   \<Rightarrow> gateway_event list \<times> 'v chat_response" where
  "chat_attempt_loop q a request_id slot n rejections [] =
     (let e = rate_limit_reservation_rejected_error
      in (EV_ReservationRejectionRecorded rejections # finish_request_with_error (log_summary e)
          @ release_virtual_key_concurrency_if_needed slot, RS_GatewayError e))"
| "chat_attempt_loop q a request_id slot n rejections (route # rest) =
     (case chat_attempt q a request_id slot n (rest \<noteq> []) route of
        AS_Return events response \<Rightarrow> (events, response)
      | AS_Continue events rejected \<Rightarrow>
          let (later, response) = chat_attempt_loop q a request_id slot (Suc n) (if rejected then Suc rejections else rejections) rest
          in (events @ later, response))"

definition chat_completions_for_routes ::
  "'v chat_request \<Rightarrow> 'v chat_answers \<Rightarrow> 'v resolved_chat_route list \<Rightarrow> gateway_event list \<times> 'v chat_response" where
  "chat_completions_for_routes q a attempt_routes =
     (case attempt_routes of
        [] \<Rightarrow> (start_and_finish_request_error (ca_create_request a) (log_summary route_no_candidate),
              RS_GatewayError route_no_candidate)
      | selected # others \<Rightarrow>
      case ca_create_request a of
        Inl e \<Rightarrow> ([], RS_GatewayError e)
      | Inr request_id \<Rightarrow>
      let (refused, authorized) =
            (if paid_hot_path_beta_enabled (ca_billing a 0)
             then pre_authorize_before_provider_attempt (ca_billing a 0) request_id selected else (None, []))
      in case refused of Some e \<Rightarrow> (EV_RequestStarted # authorized, RS_GatewayError e)
      | None \<Rightarrow>
      let (slot, slots, no_slot) =
            acquire_virtual_key_slot (virtual_key_concurrency_limit (cq_json q) (cq_policy q)) (ca_key_slot a);
          begun = EV_RequestStarted # authorized @ slots
      in case no_slot of Some e \<Rightarrow> (begun, RS_GatewayError e)
      | None \<Rightarrow>
      let (rpm, no_rpm) =
            acquire_virtual_key_capacity ''rpm'' slot (virtual_key_rpm_limit (cq_json q) (cq_policy q)) (ca_key_rpm a)
      in case no_rpm of Some e \<Rightarrow> (begun @ rpm, RS_GatewayError e)
      | None \<Rightarrow>
      let (tpm, no_tpm) =
            acquire_virtual_key_capacity ''tpm'' slot (virtual_key_tpm_limit (cq_json q) (cq_policy q)) (ca_key_tpm a)
      in case no_tpm of Some e \<Rightarrow> (begun @ rpm @ tpm, RS_GatewayError e)
      | None \<Rightarrow>
      let admitted = begun @ rpm @ tpm @ [EV_RateLimitRecorded]
      in if cq_streaming q then (admitted, RS_Streaming slot)
         else let (events, response) = chat_attempt_loop q a request_id slot 1 0 attempt_routes
              in (admitted @ events, response))"

end
