(* ===== verification/ChatSafety.thy ===== *)
theory ChatSafety
  imports ChatCompletions
begin

text \<open>
  What the writes of a chat request add up to, whatever the database, the key store and the providers answer. The locale
  \<open>event_account\<close> says when a quantity is opened and closed by the events; the total over a run is proved once in it, and
  it is interpreted for the slot of the virtual key, the request row, the row of each attempt and the reservations of
  provider capacity.
\<close>

section \<open>Totals over the events of a run\<close>

definition event_total :: "(gateway_event \<Rightarrow> int) \<Rightarrow> gateway_event list \<Rightarrow> int" where
  "event_total w events = sum_list (map w events)"

lemma event_total_simps [simp]: "event_total w [] = 0" "event_total w (e # es) = w e + event_total w es" "event_total w (es @ fs) = event_total w es + event_total w fs"
  by (simp_all add: event_total_def)

definition billing_event :: "gateway_event \<Rightarrow> bool" where
  "billing_event e = (case e of EV_PaidReserve entry ok \<Rightarrow> True | EV_Settled entry \<Rightarrow> True | _ \<Rightarrow> False)"

lemma pre_authorize_events: "pre_authorize_route b request_id route = (refused, events) \<Longrightarrow> list_all billing_event events"
  by (auto simp: pre_authorize_route_def Let_def billing_event_def split: sum.splits option.splits if_splits paid_reserve_outcome.splits prod.splits)

lemma settle_events: "list_all billing_event (settle_request_ledger request_id route usage rating)"
  by (simp add: settle_request_ledger_def billing_event_def split: option.split)

lemma total_neutral: "(\<And>e. P e \<Longrightarrow> w e = 0) \<Longrightarrow> list_all P es \<Longrightarrow> event_total w es = 0"
  by (induction es) auto

text \<open>A reservation is held after attempt \<open>n\<close> on a route when the database applied it.\<close>

definition reservation_held :: "'v chat_request \<Rightarrow> 'v chat_answers \<Rightarrow> nat \<Rightarrow> 'v resolved_chat_route \<Rightarrow> bool" where
  "reservation_held q a n route \<longleftrightarrow> ra_db_acquire (fst (attempt_reservation q a n route)) = Some DB_Applied"

definition held_at :: "'v chat_request \<Rightarrow> 'v chat_answers \<Rightarrow> nat \<Rightarrow> 'v resolved_chat_route list \<Rightarrow> 'v chat_response \<Rightarrow> bool" where
  "held_at q a n routes response =
     (case response of
        RS_Completed k payload \<Rightarrow> n \<le> k \<and> k < n + length routes \<and> reservation_held q a k (routes ! (k - n))
      | _ \<Rightarrow> False)"

lemma attempt_reservation_cases:
  assumes "attempt_reservation q a n route = (r, reserved, failed)"
  obtains (Failed) e where "failed = Some e" "reserved = finish_request_with_error (log_summary e)"
    | (Planned) "failed = None" "reserved = []" "ra_db_acquire r = None"
    | (Executed) status where "failed = None" "reserved = [EV_ReservationAcquired (cr_provider_key_id route) status]"
        "ra_db_acquire r = Some status" "\<not> ra_db_release_attempted r" "reservation_acquired r"
  using assms
  by (auto simp: attempt_reservation_def acquire_gateway_rate_limit_reservation_for_attempt_def record_db_acquire_def reservation_acquired_def
      gateway_rate_limit_reservation_for_attempt_def Let_def split: if_splits sum.splits)

text \<open>What every attempt that returns satisfies and every attempt that goes on prepares holds of the whole loop.\<close>

lemma attempt_loop_rule:
  assumes "\<And>n routes_left route events response.
      chat_attempt q a request_id slot n routes_left route = AS_Return events response \<Longrightarrow> P n events response"
    and "\<And>n rejections. P n (fst (chat_attempt_loop q a request_id slot n rejections []))
      (RS_GatewayError rate_limit_reservation_rejected_error)"
    and "\<And>n routes_left route events rejected later response.
      chat_attempt q a request_id slot n routes_left route = AS_Continue events rejected \<Longrightarrow>
      P (Suc n) later response \<Longrightarrow> P n (events @ later) response"
  shows "P n (fst (chat_attempt_loop q a request_id slot n rejections routes))
    (snd (chat_attempt_loop q a request_id slot n rejections routes))"
proof (induction routes arbitrary: n rejections)
  case Nil
  show ?case using assms(2) [of n rejections] by (simp add: Let_def)
next
  case (Cons route rest)
  then show ?case using assms(1) assms(3)
    by (cases "chat_attempt q a request_id slot n (rest \<noteq> []) route") (simp_all add: case_prod_beta)
qed

text \<open>A completed response names the attempt that produced it, and the loop never streams.\<close>

definition response_of_attempt :: "nat \<Rightarrow> 'v chat_response \<Rightarrow> bool" where
  "response_of_attempt n response = (case response of RS_Completed k payload \<Rightarrow> k = n | RS_Streaming slot \<Rightarrow> False | _ \<Rightarrow> True)"

lemma after_events_Return: "after_events es step = AS_Return events response \<longleftrightarrow> (\<exists>later. step = AS_Return later response \<and> events = es @ later)"
  by (cases step) auto

lemma after_events_Continue: "after_events es step = AS_Continue events rejected \<longleftrightarrow> (\<exists>later. step = AS_Continue later rejected \<and> events = es @ later)"
  by (cases step) auto

lemma attempt_response: "chat_attempt q a request_id slot n routes_left route = AS_Return events response \<Longrightarrow> response_of_attempt n response"
  by (auto simp: chat_attempt_def chat_provider_attempt_def response_of_attempt_def Let_def after_events_Return
      split: option.splits prod.splits if_splits sum.splits call_outcome.splits)

lemma completed_loop:
  "snd (chat_attempt_loop q a request_id slot n rejections routes) = RS_Completed k payload \<Longrightarrow> n \<le> k \<and> k < n + length routes"
proof (induction routes arbitrary: n rejections)
  case (Cons route rest)
  show ?case
  proof (cases "chat_attempt q a request_id slot n (rest \<noteq> []) route")
    case (AS_Return events response)
    then show ?thesis using Cons.prems attempt_response [OF AS_Return] by (simp add: response_of_attempt_def)
  next
    case (AS_Continue events rejected)
    then show ?thesis using Cons.prems Cons.IH [of "Suc n" "if rejected then Suc rejections else rejections"]
      by (simp add: case_prod_beta)
  qed
qed (simp add: Let_def)

lemma loop_not_streaming: "snd (chat_attempt_loop q a request_id slot n rejections routes) \<noteq> RS_Streaming b"
  by (rule attempt_loop_rule [where P = "\<lambda>n events response. response \<noteq> RS_Streaming b"])
    (auto dest!: attempt_response simp: response_of_attempt_def)

lemma held_at_Cons:
  "held_at q a n (route # rest) (RS_Completed k payload) =
     (if k = n then reservation_held q a n route else held_at q a (Suc n) rest (RS_Completed k payload))"
  by (auto simp: held_at_def Suc_diff_le nth_Cons')

definition slot_release :: "(gateway_event \<Rightarrow> int) \<Rightarrow> bool \<Rightarrow> int" where
  "slot_release w slot = (if slot then w EV_KeySlotReleased else 0)"

locale event_account =
  fixes w :: "gateway_event \<Rightarrow> int" and closing held :: int
  assumes neutral: "billing_event e \<Longrightarrow> w e = 0" "w (EV_PaidReserveReleased reason) = 0"
      "w (EV_ProviderKeyPatched key status cooldown) = 0" "w (EV_ReservationRejectionRecorded k) = 0"
      "w (EV_ProviderCalled k) = 0" "w (EV_FinalRouteRecorded k) = 0" "w EV_RateLimitRecorded = 0"
      "w (EV_KeyCapacityAcquired dimension ok) = 0" "w (EV_KeySlotAcquired False) = 0"
    and slot: "w (EV_KeySlotAcquired True) + w EV_KeySlotReleased = 0"
    and finished: "w (EV_RequestFinished status code) = closing"
    and attempt: "w (EV_AttemptStarted k) + w (EV_AttemptFinished k status) = 0"
    and acquired: "w (EV_ReservationAcquired key db) = (if db = DB_Applied then held else 0)"
    and released: "w (EV_ReservationReleased key) = - held"
begin

lemma closing_events [simp]:
  "event_total w (finish_request_with_error summary) = closing"
  "event_total w (release_virtual_key_concurrency_if_needed slot) = slot_release w slot"
  "event_total w (finish_provider_attempt_with_error n) = w (EV_AttemptFinished n ''failed'')"
  "event_total w (finish_provider_attempt_with_adapter_error n route e) = w (EV_AttemptFinished n ''failed'')"
  "event_total w (settle_request_ledger request_id route usage rating) = 0"
  by (simp_all add: finish_request_with_error_def release_virtual_key_concurrency_if_needed_def slot_release_def finished neutral
      finish_provider_attempt_with_error_def finish_provider_attempt_with_adapter_error_def split: option.split prod.split)
    (rule total_neutral [OF neutral(1) settle_events])

lemma pre_authorized:
  assumes "pre_authorize_before_provider_attempt b request_id route = (refused, events)"
  shows "event_total w events = (if refused = None then 0 else closing)"
  using assms pre_authorize_events [of b request_id route] total_neutral [of billing_event w, OF neutral(1)]
  by (auto simp: pre_authorize_before_provider_attempt_def split: option.splits prod.splits)

lemma provider_attempt:
  assumes "event_total w released = - kept"
  shows "case chat_provider_attempt q a request_id slot n routes_left route released of
      AS_Return events response \<Rightarrow> w (EV_AttemptStarted n) + event_total w events = closing + slot_release w slot
        - (case response of RS_Completed k payload \<Rightarrow> 0 | _ \<Rightarrow> kept)
        \<and> (\<forall>k payload. response = RS_Completed k payload \<longrightarrow> k = n)
    | AS_Continue events rejected \<Rightarrow> w (EV_AttemptStarted n) + event_total w events = - kept"
  using assms attempt [of n "''failed''"] attempt [of n "''succeeded''"]
  by (auto simp: chat_provider_attempt_def chat_attempt_succeeded_def Let_def neutral finished split: call_outcome.split)

lemma whole_attempt:
  assumes kept_def: "kept = (if reservation_held q a n route then held else 0)"
  shows "case chat_attempt q a request_id slot n routes_left route of
      AS_Return events response \<Rightarrow>
        event_total w events = closing + slot_release w slot + (case response of RS_Completed k payload \<Rightarrow> kept | _ \<Rightarrow> 0)
        \<and> (\<forall>k payload. response = RS_Completed k payload \<longrightarrow> k = n)
    | AS_Continue events rejected \<Rightarrow> event_total w events = 0"
proof -
  obtain refused authorized where pre: "pre_authorize_before_provider_attempt (ca_billing a n) request_id route = (refused, authorized)"
    by fastforce
  obtain r reserved failed where res: "attempt_reservation q a n route = (r, reserved, failed)" by (cases "attempt_reservation q a n route")
  let ?released = "snd (release_gateway_rate_limit_reservation_if_needed (ca_reservation_release a n) route r)"
  note defs = chat_attempt_def pre res Let_def reservation_executable_def db_acquire_allows_attempt_def
  show ?thesis
  proof (cases refused)
    case (Some e)
    then show ?thesis using pre_authorized [OF pre] by (simp add: defs)
  next
    case None
    then have authorized: "event_total w authorized = 0" using pre_authorized [OF pre] by simp
    show ?thesis using res
    proof (cases rule: attempt_reservation_cases)
      case Failed
      then show ?thesis using None authorized by (simp add: defs)
    next
      case Planned
      then have "event_total w ?released = - 0" "kept = 0"
        by (simp_all add: release_gateway_rate_limit_reservation_if_needed_def db_release_needed_def kept_def reservation_held_def res)
      then show ?thesis using Planned None authorized provider_attempt [where released = ?released and kept = 0 and q = q and a = a and request_id = request_id and slot = slot and n = n and routes_left = routes_left and route = route]
        by (auto simp: defs split: attempt_step.splits chat_response.splits sum.splits)
    next
      case (Executed status)
      then have "event_total w ?released = - kept" "event_total w reserved = kept"
          "status \<noteq> DB_Applied \<Longrightarrow> kept = 0"
        by (simp_all add: release_gateway_rate_limit_reservation_if_needed_def db_release_needed_def kept_def reservation_held_def res
            acquired released)
      then show ?thesis using Executed None authorized provider_attempt [where released = ?released and kept = "kept" and q = q and a = a and request_id = request_id and slot = slot and n = n and routes_left = routes_left and route = route]
        by (auto simp: defs split: attempt_step.splits chat_response.splits sum.splits)
    qed
  qed
qed

lemma attempt_loop:
  "event_total w (fst (chat_attempt_loop q a request_id slot n rejections routes))
   = closing + slot_release w slot + (if held_at q a n routes (snd (chat_attempt_loop q a request_id slot n rejections routes)) then held else 0)"
proof (induction routes arbitrary: n rejections)
  case Nil
  then show ?case by (simp add: Let_def neutral held_at_def)
next
  case (Cons route rest)
  show ?case
  proof (cases "chat_attempt q a request_id slot n (rest \<noteq> []) route")
    case (AS_Return events response)
    then show ?thesis using whole_attempt [OF refl, where q = q and a = a and request_id = request_id and slot = slot and n = n and routes_left = "rest \<noteq> []" and route = route]
      by (cases response) (auto simp: held_at_Cons held_at_def)
  next
    case (AS_Continue events rejected)
    then have "event_total w events = 0" using whole_attempt [OF refl, where q = q and a = a and request_id = request_id and slot = slot and n = n and routes_left = "rest \<noteq> []" and route = route] by simp
    moreover obtain later response where
      later: "chat_attempt_loop q a request_id slot (Suc n) (if rejected then Suc rejections else rejections) rest = (later, response)"
      by fastforce
    moreover have "held_at q a n (route # rest) response = held_at q a (Suc n) rest response"
      using completed_loop [of q a request_id slot "Suc n" "if rejected then Suc rejections else rejections" rest] later
      by (cases response) (auto simp: held_at_Cons, auto simp: held_at_def)
    ultimately show ?thesis using AS_Continue Cons.IH [of "Suc n" "if rejected then Suc rejections else rejections"] by simp
  qed
qed

lemma slot_acquisition:
  assumes "acquire_virtual_key_slot limit answer = (slot, events, refused)"
  shows "event_total w events = (if refused = None then - slot_release w slot else closing)"
  using assms slot
  by (auto simp: acquire_virtual_key_slot_def slot_release_def neutral Let_def split: option.splits sum.splits if_splits bool.splits)

lemma capacity_acquisition:
  assumes "acquire_virtual_key_capacity dimension slot limit answer = (events, refused)"
  shows "event_total w events = (if refused = None then 0 else closing + slot_release w slot)"
  using assms
  by (auto simp: acquire_virtual_key_capacity_def neutral Let_def split: option.splits sum.splits if_splits bool.splits)

lemma request_total:
  assumes "chat_completions_for_routes q a routes = (events, response)"
  shows "event_total w events =
    (case (ca_create_request a, response) of
       (Inl e, _) \<Rightarrow> 0
     | (Inr request_id, RS_Streaming slot) \<Rightarrow> w EV_RequestStarted - slot_release w slot
     | (Inr request_id, _) \<Rightarrow> w EV_RequestStarted + closing + (if held_at q a 1 routes response then held else 0))"
proof (cases routes)
  case Nil
  then show ?thesis using assms
    by (auto simp: chat_completions_for_routes_def start_and_finish_request_error_def held_at_def split: sum.split)
next
  case (Cons selected others)
  show ?thesis
  proof (cases "ca_create_request a")
    case (Inl e)
    then show ?thesis using assms Cons by (simp add: chat_completions_for_routes_def)
  next
    case (Inr request_id)
    define paid where "paid = (if paid_hot_path_beta_enabled (ca_billing a 0)
      then pre_authorize_before_provider_attempt (ca_billing a 0) request_id selected else (None, []))"
    obtain refused authorized where pre: "paid = (refused, authorized)" by fastforce
    have authorized: "event_total w authorized = (if refused = None then 0 else closing)"
      using pre pre_authorized [of "ca_billing a 0" request_id selected refused authorized] unfolding paid_def by (simp split: if_splits)
    obtain slot slots no_slot where
      slot: "acquire_virtual_key_slot (virtual_key_concurrency_limit (cq_json q) (cq_policy q)) (ca_key_slot a) = (slot, slots, no_slot)"
      by (rule prod_cases3)
    obtain rpm no_rpm where
      rpm: "acquire_virtual_key_capacity ''rpm'' slot (virtual_key_rpm_limit (cq_json q) (cq_policy q)) (ca_key_rpm a) = (rpm, no_rpm)"
      by fastforce
    obtain tpm no_tpm where
      tpm: "acquire_virtual_key_capacity ''tpm'' slot (virtual_key_tpm_limit (cq_json q) (cq_policy q)) (ca_key_tpm a) = (tpm, no_tpm)"
      by fastforce
    note totals = authorized slot_acquisition [OF slot] capacity_acquisition [OF rpm] capacity_acquisition [OF tpm]
    note run = assms [unfolded Cons chat_completions_for_routes_def Inr sum.case list.case Let_def paid_def [symmetric] pre slot rpm tpm split_conv]
    show ?thesis
      using run totals attempt_loop [of q a request_id slot 1 0 routes] loop_not_streaming [of q a request_id slot 1 0 routes] Inr Cons
      by (auto simp: neutral held_at_def split: option.splits if_splits prod.splits chat_response.splits)
  qed
qed

end

section \<open>What a request opens it closes\<close>

fun slot_weight :: "gateway_event \<Rightarrow> int" where
  "slot_weight (EV_KeySlotAcquired True) = 1"
| "slot_weight EV_KeySlotReleased = -1"
| "slot_weight _ = 0"

fun request_weight :: "gateway_event \<Rightarrow> int" where
  "request_weight EV_RequestStarted = 1"
| "request_weight (EV_RequestFinished status code) = -1"
| "request_weight _ = 0"

fun finish_weight :: "gateway_event \<Rightarrow> int" where
  "finish_weight (EV_RequestFinished status code) = 1"
| "finish_weight _ = 0"

fun attempt_weight :: "nat \<Rightarrow> gateway_event \<Rightarrow> int" where
  "attempt_weight n (EV_AttemptStarted k) = (if k = n then 1 else 0)"
| "attempt_weight n (EV_AttemptFinished k status) = (if k = n then -1 else 0)"
| "attempt_weight n _ = 0"

fun reservation_weight :: "gateway_event \<Rightarrow> int" where
  "reservation_weight (EV_ReservationAcquired key status) = (if status = DB_Applied then 1 else 0)"
| "reservation_weight (EV_ReservationReleased key) = -1"
| "reservation_weight _ = 0"

lemma billing_event_weights:
  assumes "billing_event e"
  shows "slot_weight e = 0" "request_weight e = 0" "finish_weight e = 0" "attempt_weight n e = 0" "reservation_weight e = 0"
  using assms by (cases e; simp add: billing_event_def)+

interpretation slots: event_account slot_weight 0 0
  by unfold_locales (simp_all add: billing_event_weights)

interpretation requests: event_account request_weight "-1" 0
  by unfold_locales (simp_all add: billing_event_weights)

interpretation finishes: event_account finish_weight 1 0
  by unfold_locales (simp_all add: billing_event_weights)

interpretation attempts: event_account "attempt_weight n" 0 0 for n
  by unfold_locales (simp_all add: billing_event_weights)

interpretation reservations: event_account reservation_weight 0 1
  by unfold_locales (simp_all add: billing_event_weights)

lemma loop_not_streaming_pair [simp]: "chat_attempt_loop q a request_id slot n rejections routes \<noteq> (events, RS_Streaming b)"
  using loop_not_streaming [of q a request_id slot n rejections routes b] by auto

definition admission_event :: "gateway_event \<Rightarrow> bool" where
  "admission_event e =
     (case e of EV_RequestStarted \<Rightarrow> True | EV_PaidReserve entry ok \<Rightarrow> True | EV_KeySlotAcquired ok \<Rightarrow> True
      | EV_KeyCapacityAcquired dimension ok \<Rightarrow> True | EV_RateLimitRecorded \<Rightarrow> True | _ \<Rightarrow> False)"

lemma pre_authorize_admission_events:
  "pre_authorize_route b request_id route = (refused, events) \<Longrightarrow> list_all admission_event events"
  by (auto simp: pre_authorize_route_def Let_def admission_event_def split: sum.splits option.splits if_splits paid_reserve_outcome.splits prod.splits)

text \<open>A part of the admission either lets the request pass with admission events only, or ends it.\<close>

definition ends_or_passes :: "gateway_event list \<Rightarrow> gateway_api_error option \<Rightarrow> bool" where
  "ends_or_passes events refused =
     (case refused of
        None \<Rightarrow> list_all admission_event events
      | Some e \<Rightarrow> \<exists>before slot. list_all admission_event before
          \<and> events = before @ finish_request_with_error (log_summary e) @ release_virtual_key_concurrency_if_needed slot)"

lemma ends_or_passes_SomeI:
  "list_all admission_event before \<Longrightarrow>
   ends_or_passes (before @ finish_request_with_error (log_summary e) @ release_virtual_key_concurrency_if_needed slot) (Some e)"
  "list_all admission_event before \<Longrightarrow> ends_or_passes (before @ finish_request_with_error (log_summary e)) (Some e)"
proof -
  assume before: "list_all admission_event before"
  then show "ends_or_passes (before @ finish_request_with_error (log_summary e) @ release_virtual_key_concurrency_if_needed slot) (Some e)"
    unfolding ends_or_passes_def option.case by blast
  show "ends_or_passes (before @ finish_request_with_error (log_summary e)) (Some e)"
    unfolding ends_or_passes_def option.case using before
    by (intro exI [of _ before] exI [of _ False]) (simp add: release_virtual_key_concurrency_if_needed_def)
qed

lemma ends_or_passes_after:
  "list_all admission_event before \<Longrightarrow> ends_or_passes events refused \<Longrightarrow> ends_or_passes (before @ events) refused"
  by (cases refused) (auto simp: ends_or_passes_def, metis append.assoc list_all_append)

lemma pre_authorize_ends_or_passes:
  "pre_authorize_before_provider_attempt b request_id route = (refused, events) \<Longrightarrow> ends_or_passes events refused"
  using pre_authorize_admission_events [of b request_id route] ends_or_passes_SomeI(2)
  by (auto simp: pre_authorize_before_provider_attempt_def ends_or_passes_def [of _ None] split: option.splits prod.splits)

lemma slot_ends_or_passes:
  assumes "acquire_virtual_key_slot limit answer = (slot, events, refused)"
  shows "ends_or_passes events refused"
proof -
  note refusals = ends_or_passes_SomeI(2) [of "[]"] ends_or_passes_SomeI(2) [of "[EV_KeySlotAcquired False, EV_RateLimitRecorded]"]
  show ?thesis using assms refusals
    by (auto simp: acquire_virtual_key_slot_def Let_def ends_or_passes_def [of _ None] admission_event_def
        split: option.splits sum.splits bool.splits)
qed

lemma capacity_ends_or_passes:
  assumes "acquire_virtual_key_capacity dimension slot limit answer = (events, refused)"
  shows "ends_or_passes events refused"
proof -
  note refusals = ends_or_passes_SomeI(1) [of "[]"] ends_or_passes_SomeI(1) [of "[EV_KeyCapacityAcquired dimension False, EV_RateLimitRecorded]"]
  show ?thesis using assms refusals
    by (auto simp: acquire_virtual_key_capacity_def Let_def ends_or_passes_def [of _ None] admission_event_def
        split: option.splits sum.splits bool.splits)
qed

lemma request_cases:
  assumes run: "chat_completions_for_routes q a routes = (events, response)" and "\<not> cq_streaming q"
  obtains (Unrecorded) e where "events = []" "response = RS_GatewayError e"
    | (Refused) e where "ends_or_passes events (Some e)" "response = RS_GatewayError e"
    | (Admitted) request_id slot before later where "list_all admission_event before" "events = before @ later"
        "chat_attempt_loop q a request_id slot 1 0 routes = (later, response)"
proof (cases routes)
  case Nil
  then show ?thesis using run Unrecorded Refused ends_or_passes_SomeI(2) [of "[EV_RequestStarted]" route_no_candidate]
    by (auto simp: chat_completions_for_routes_def start_and_finish_request_error_def admission_event_def split: sum.splits)
next
  case (Cons selected others)
  show ?thesis
  proof (cases "ca_create_request a")
    case (Inl e)
    then show ?thesis using run Cons Unrecorded by (auto simp: chat_completions_for_routes_def)
  next
    case (Inr request_id)
    define paid where "paid = (if paid_hot_path_beta_enabled (ca_billing a 0)
      then pre_authorize_before_provider_attempt (ca_billing a 0) request_id selected else (None, []))"
    obtain refused authorized where pre: "paid = (refused, authorized)" by fastforce
    have authorized: "ends_or_passes authorized refused"
      using pre pre_authorize_ends_or_passes [of "ca_billing a 0" request_id selected refused authorized]
      unfolding paid_def by (auto simp: ends_or_passes_def split: if_splits)
    obtain slot slots no_slot where
      slot: "acquire_virtual_key_slot (virtual_key_concurrency_limit (cq_json q) (cq_policy q)) (ca_key_slot a) = (slot, slots, no_slot)"
      by (rule prod_cases3)
    obtain rpm no_rpm where
      rpm: "acquire_virtual_key_capacity ''rpm'' slot (virtual_key_rpm_limit (cq_json q) (cq_policy q)) (ca_key_rpm a) = (rpm, no_rpm)"
      by fastforce
    obtain tpm no_tpm where
      tpm: "acquire_virtual_key_capacity ''tpm'' slot (virtual_key_tpm_limit (cq_json q) (cq_policy q)) (ca_key_tpm a) = (tpm, no_tpm)"
      by fastforce
    note parts = authorized slot_ends_or_passes [OF slot] capacity_ends_or_passes [OF rpm] capacity_ends_or_passes [OF tpm]
    note passed = parts [unfolded ends_or_passes_def] and ended = parts [THEN ends_or_passes_after [rotated]]
    note result = run [unfolded Cons chat_completions_for_routes_def Inr sum.case list.case Let_def paid_def [symmetric] pre slot rpm tpm split_conv]
    have started: "admission_event EV_RequestStarted" "admission_event EV_RateLimitRecorded" by (simp_all add: admission_event_def)
    show ?thesis
    proof (cases "refused = None \<and> no_slot = None \<and> no_rpm = None \<and> no_tpm = None")
      case True
      then show ?thesis
        using result Cons assms(2) passed started
          Admitted [of "EV_RequestStarted # authorized @ slots @ rpm @ tpm @ [EV_RateLimitRecorded]" _ request_id slot]
        by (auto simp del: chat_attempt_loop.simps split: prod.splits)
    next
      case False
      then show ?thesis
        using result passed started Refused ended(1) [of "[EV_RequestStarted]"] ended(2) [of "EV_RequestStarted # authorized"]
          ended(3) [of "EV_RequestStarted # authorized @ slots"] ended(4) [of "EV_RequestStarted # authorized @ slots @ rpm"]
        by (auto simp del: chat_attempt_loop.simps split: option.splits)
    qed
  qed
qed

lemma not_streaming:
  assumes "chat_completions_for_routes q a routes = (events, response)" "\<not> cq_streaming q"
  shows "response \<noteq> RS_Streaming slot"
  using assms by (cases rule: request_cases) auto



section \<open>What a request charges\<close>

definition settled :: "gateway_event list \<Rightarrow> gateway_event list" where
  "settled events = filter (\<lambda>e. case e of EV_Settled entry \<Rightarrow> True | _ \<Rightarrow> False) events"

fun reserve_pending :: "bool \<Rightarrow> gateway_event \<Rightarrow> bool" where
  "reserve_pending pending (EV_PaidReserve entry ok) = (pending \<or> ok)"
| "reserve_pending pending (EV_PaidReserveReleased reason) = False"
| "reserve_pending pending (EV_Settled entry) = False"
| "reserve_pending pending _ = pending"

definition pending_after :: "bool \<Rightarrow> gateway_event list \<Rightarrow> bool" where
  "pending_after pending events = foldl reserve_pending pending events"

lemma settled_simps [simp]:
  "settled [] = []" "settled (es @ fs) = settled es @ settled fs"
  "settled (finish_request_with_error summary) = []" "settled (release_virtual_key_concurrency_if_needed slot) = []"
  "settled (finish_provider_attempt_with_error n) = []" "settled (finish_provider_attempt_with_adapter_error n route e) = []"
  "settled (settle_request_ledger request_id route usage rating) = settle_request_ledger request_id route usage rating"
  by (simp_all add: settled_def finish_request_with_error_def release_virtual_key_concurrency_if_needed_def
      finish_provider_attempt_with_error_def finish_provider_attempt_with_adapter_error_def settle_request_ledger_def split: option.split prod.split)

lemma settled_Cons [simp]: "settled (e # es) = (case e of EV_Settled entry \<Rightarrow> e # settled es | _ \<Rightarrow> settled es)"
  by (simp add: settled_def split: gateway_event.split)

lemma pending_simps [simp]:
  "pending_after b [] = b" "pending_after b (e # es) = pending_after (reserve_pending b e) es"
  "pending_after b (es @ fs) = pending_after (pending_after b es) fs"
  "\<not> pending_after b (finish_request_with_error summary)"
  "pending_after b (release_virtual_key_concurrency_if_needed slot) = b"
  by (simp_all add: pending_after_def finish_request_with_error_def release_virtual_key_concurrency_if_needed_def)

lemma settled_admission: "list_all admission_event es \<Longrightarrow> settled es = []"
  by (induction es) (auto simp: admission_event_def split: gateway_event.splits)

lemma settled_pre_authorize:
  "pre_authorize_before_provider_attempt b request_id route = (refused, es) \<Longrightarrow> settled es = []"
  using pre_authorize_admission_events [of b request_id route, THEN settled_admission]
  by (auto simp: pre_authorize_before_provider_attempt_def split: option.splits prod.splits)

lemma settled_reservation: "attempt_reservation q a n route = (r, es, failed) \<Longrightarrow> settled es = []"
  by (erule attempt_reservation_cases) simp_all

lemma settled_release: "settled (snd (release_gateway_rate_limit_reservation_if_needed answer route r)) = []"
  by (simp add: release_gateway_rate_limit_reservation_if_needed_def)

definition charge_of :: "'v chat_answers \<Rightarrow> uuid \<Rightarrow> nat \<Rightarrow> 'v resolved_chat_route \<Rightarrow> 'v \<Rightarrow> adapter_usage option \<Rightarrow> gateway_event list" where
  "charge_of a request_id n route payload usage =
     (let u = request_usage_from_adapter_usage usage
      in settle_request_ledger request_id route u (rate_request_usage (ca_billing a n) (cr_canonical_model_id route) u (Some payload)))"

lemma attempt_charges:
  "case chat_attempt q a request_id slot n routes_left route of
     AS_Continue events rejected \<Rightarrow> settled events = []
   | AS_Return events response \<Rightarrow>
       (case response of
          RS_Completed k payload \<Rightarrow> \<exists>usage. provider_call q a n route = CO_Completed payload usage
            \<and> settled events = charge_of a request_id n route payload usage
        | _ \<Rightarrow> settled events = [] \<and> (\<forall>b. \<not> pending_after b events))"
proof -
  obtain refused authorized where pre: "pre_authorize_before_provider_attempt (ca_billing a n) request_id route = (refused, authorized)"
    by fastforce
  obtain r reserved failed where res: "attempt_reservation q a n route = (r, reserved, failed)" by (cases "attempt_reservation q a n route")
  have ended: "\<not> pending_after b authorized" if "refused = Some e" for b e
    using pre that by (auto simp: pre_authorize_before_provider_attempt_def split: option.splits prod.splits)
  have failed: "\<not> pending_after b reserved" if "failed = Some e" for b e
    using res that by (auto elim: attempt_reservation_cases)
  note none = settled_pre_authorize [OF pre] settled_reservation [OF res] settled_release
  show ?thesis
    using none ended failed
    by (auto simp: chat_attempt_def pre res Let_def chat_provider_attempt_def chat_attempt_succeeded_def
        charge_of_def split: option.splits if_splits sum.splits call_outcome.splits)
qed

lemma loop_charges:
  assumes "chat_attempt_loop q a request_id slot n rejections routes = (events, response)"
  shows "case response of
      RS_Completed k payload \<Rightarrow> \<exists>usage. provider_call q a k (routes ! (k - n)) = CO_Completed payload usage
        \<and> settled events = charge_of a request_id k (routes ! (k - n)) payload usage
    | _ \<Rightarrow> settled events = [] \<and> (\<forall>b. \<not> pending_after b events)"
  using assms
proof (induction routes arbitrary: n rejections events)
  case Nil
  then show ?case by (auto simp: Let_def)
next
  case (Cons route rest)
  show ?case
  proof (cases "chat_attempt q a request_id slot n (rest \<noteq> []) route")
    case (AS_Return es resp)
    then show ?thesis
      using Cons.prems attempt_charges [where q = q and a = a and request_id = request_id and slot = slot and n = n
          and routes_left = "rest \<noteq> []" and route = route] attempt_response [OF AS_Return]
      by (auto simp: response_of_attempt_def split: chat_response.splits)
  next
    case (AS_Continue es rejected)
    then obtain later where later: "events = es @ later"
        "chat_attempt_loop q a request_id slot (Suc n) (if rejected then Suc rejections else rejections) rest = (later, response)"
      using Cons.prems by (auto simp: Let_def split: prod.splits)
    have "settled es = []"
      using AS_Continue attempt_charges [where q = q and a = a and request_id = request_id and slot = slot and n = n
          and routes_left = "rest \<noteq> []" and route = route] by simp
    moreover have "(route # rest) ! (k - n) = rest ! (k - Suc n)" if "response = RS_Completed k payload" for k payload
      using completed_loop [of q a request_id slot "Suc n" "if rejected then Suc rejections else rejections" rest k payload] later that
      by (simp add: nth_Cons')
    ultimately show ?thesis using Cons.IH [OF later(2)] later(1) by (auto split: chat_response.splits)
  qed
qed


text \<open>C7. A chat request that succeeds at attempt \<open>n\<close> charges exactly what the rating of that attempt's reported usage comes to,
  once: the settlements in its writes are those of the payload and usage the provider of the \<open>n\<close>-th route returned.\<close>

theorem chat_success_charges_the_attempt:
  assumes "chat_completions_for_routes q a routes = (events, RS_Completed n payload)" "\<not> cq_streaming q"
  shows "\<exists>request_id usage. 1 \<le> n \<and> n \<le> length routes
    \<and> provider_call q a n (routes ! (n - 1)) = CO_Completed payload usage
    \<and> settled events = charge_of a request_id n (routes ! (n - 1)) payload usage
    \<and> length (settled events) \<le> 1"
  using assms
proof (cases rule: request_cases)
  case (Admitted request_id slot before later)
  have "length (charge_of a request_id n route payload usage) \<le> 1" for route usage
    by (simp add: charge_of_def Let_def settle_request_ledger_def split: option.split)
  moreover obtain usage where "provider_call q a n (routes ! (n - 1)) = CO_Completed payload usage"
      "settled later = charge_of a request_id n (routes ! (n - 1)) payload usage"
    using loop_charges [OF Admitted(3)] by auto
  moreover have "1 \<le> n \<and> n \<le> length routes"
    using completed_loop [of q a request_id slot 1 0 routes n payload] Admitted(3) by simp
  ultimately show ?thesis using settled_admission [OF Admitted(1)] Admitted(2) by auto
qed simp_all

lemma paid_attempt_pending:
  assumes "chat_attempt q a request_id slot n routes_left route = AS_Return events (RS_Completed k payload)"
    and "paid_hot_path_beta_enabled (ca_billing a n)"
  shows "pending_after b events \<longleftrightarrow> settled events = []"
proof -
  obtain refused authorized where pre: "pre_authorize_before_provider_attempt (ca_billing a n) request_id route = (refused, authorized)"
    by fastforce
  obtain r reserved failed where res: "attempt_reservation q a n route = (r, reserved, failed)" by (cases "attempt_reservation q a n route")
  have refused: "refused = None" "failed = None"
    using assms(1) by (auto simp: chat_attempt_def pre res Let_def after_events_Return split: option.splits)
  then obtain entry where reserve: "authorized = [EV_PaidReserve entry True]"
    using pre paid_route_parts [OF assms(2), of request_id route]
    by (auto simp: pre_authorize_before_provider_attempt_def split: option.splits prod.splits)
  have reserved: "pending_after c reserved = c" for c using res refused(2) by (auto elim: attempt_reservation_cases)
  have settle: "pending_after True (settle_request_ledger i route u rating) \<longleftrightarrow> settle_request_ledger i route u rating = []" for i u rating
    by (simp add: settle_request_ledger_def split: option.split)
  show ?thesis
    using assms(1) settled_reservation [OF res] refused
    by (auto simp: chat_attempt_def pre res Let_def reserve reserved after_events_Return chat_provider_attempt_def
        chat_attempt_succeeded_def settle split: if_splits sum.splits call_outcome.splits)
qed

lemma paid_loop_pending:
  "\<forall>k payload. snd (chat_attempt_loop q a request_id slot n rejections routes) = RS_Completed k payload
     \<and> paid_hot_path_beta_enabled (ca_billing a k) \<longrightarrow>
     (\<forall>b. pending_after b (fst (chat_attempt_loop q a request_id slot n rejections routes))
        \<longleftrightarrow> settled (fst (chat_attempt_loop q a request_id slot n rejections routes)) = [])"
proof (rule attempt_loop_rule [where P = "\<lambda>n events response. \<forall>k payload. response = RS_Completed k payload
     \<and> paid_hot_path_beta_enabled (ca_billing a k) \<longrightarrow> (\<forall>b. pending_after b events \<longleftrightarrow> settled events = [])"])
  fix n routes_left route events response
  assume step: "chat_attempt q a request_id slot n routes_left route = AS_Return events response"
  then show "\<forall>k payload. response = RS_Completed k payload \<and> paid_hot_path_beta_enabled (ca_billing a k) \<longrightarrow>
      (\<forall>b. pending_after b events \<longleftrightarrow> settled events = [])"
    using paid_attempt_pending attempt_response [OF step] by (fastforce simp: response_of_attempt_def)
next
  fix n routes_left route events rejected later response
  assume "chat_attempt q a request_id slot n routes_left route = AS_Continue events rejected"
  then have "settled events = []"
    using attempt_charges [where q = q and a = a and request_id = request_id and slot = slot and n = n
        and routes_left = routes_left and route = route] by simp
  moreover assume "\<forall>k payload. response = RS_Completed k payload \<and> paid_hot_path_beta_enabled (ca_billing a k) \<longrightarrow>
      (\<forall>b. pending_after b later \<longleftrightarrow> settled later = [])"
  ultimately show "\<forall>k payload. response = RS_Completed k payload \<and> paid_hot_path_beta_enabled (ca_billing a k) \<longrightarrow>
      (\<forall>b. pending_after b (events @ later) \<longleftrightarrow> settled (events @ later) = [])" by simp
qed simp

text \<open>C29. The gap in the charging of the paid hot path: a request that succeeds on it without a charge, because the usage is
  missing or could not be rated or costs nothing, keeps its reserve pending at the end.\<close>

theorem uncharged_success_keeps_reserve:
  assumes "chat_completions_for_routes q a routes = (events, RS_Completed n payload)" "\<not> cq_streaming q"
    and "paid_hot_path_beta_enabled (ca_billing a n)"
  shows "pending_after False events \<longleftrightarrow> settled events = []"
  using assms(1,2)
proof (cases rule: request_cases)
  case (Admitted request_id slot before later)
  then show ?thesis using paid_loop_pending [of q a request_id slot 1 0 routes] assms(3) by (auto simp: settled_admission)
qed simp_all

section \<open>The providers that are called\<close>

primrec provider_calls :: "gateway_event list \<Rightarrow> nat list" where
  "provider_calls [] = []"
| "provider_calls (e # es) = (case e of EV_ProviderCalled n \<Rightarrow> [n] | _ \<Rightarrow> []) @ provider_calls es"

lemma provider_calls_append [simp]: "provider_calls (es @ fs) = provider_calls es @ provider_calls fs"
  by (induction es) auto

lemma no_calls [simp]:
  "provider_calls (finish_request_with_error summary) = []" "provider_calls (release_virtual_key_concurrency_if_needed slot) = []"
  "provider_calls (finish_provider_attempt_with_error n) = []" "provider_calls (finish_provider_attempt_with_adapter_error n route e) = []"
  "provider_calls (settle_request_ledger request_id route usage rating) = []"
  by (simp_all add: finish_request_with_error_def release_virtual_key_concurrency_if_needed_def
      finish_provider_attempt_with_error_def finish_provider_attempt_with_adapter_error_def settle_request_ledger_def split: option.split prod.split)

lemma no_calls_admission: "list_all admission_event es \<Longrightarrow> provider_calls es = []"
  by (induction es) (auto simp: admission_event_def split: gateway_event.splits)

lemma no_calls_pre_authorize:
  "pre_authorize_before_provider_attempt b request_id route = (refused, es) \<Longrightarrow> provider_calls es = []"
  using pre_authorize_admission_events [of b request_id route, THEN no_calls_admission]
  by (auto simp: pre_authorize_before_provider_attempt_def split: option.splits prod.splits)

lemma no_calls_reservation: "attempt_reservation q a n route = (r, es, failed) \<Longrightarrow> provider_calls es = []"
  by (erule attempt_reservation_cases) simp_all

lemma no_calls_release: "provider_calls (snd (release_gateway_rate_limit_reservation_if_needed answer route r)) = []"
  by (simp add: release_gateway_rate_limit_reservation_if_needed_def)

definition recoverable_call :: "'v chat_request \<Rightarrow> 'v chat_answers \<Rightarrow> nat \<Rightarrow> 'v resolved_chat_route \<Rightarrow> bool" where
  "recoverable_call q a n route =
     (case provider_call q a n route of CO_CallFailed e \<Rightarrow> chat_adapter_error_can_fallback e | _ \<Rightarrow> False)"

lemma attempt_calls:
  "case chat_attempt q a request_id slot n routes_left route of
     AS_Continue events rejected \<Rightarrow> provider_calls events = [] \<or> provider_calls events = [n] \<and> recoverable_call q a n route
   | AS_Return events response \<Rightarrow> provider_calls events = [] \<or> provider_calls events = [n]"
proof -
  obtain refused authorized where pre: "pre_authorize_before_provider_attempt (ca_billing a n) request_id route = (refused, authorized)"
    by fastforce
  obtain r reserved failed where res: "attempt_reservation q a n route = (r, reserved, failed)" by (cases "attempt_reservation q a n route")
  show ?thesis
    using no_calls_pre_authorize [OF pre] no_calls_reservation [OF res] no_calls_release
    by (auto simp: chat_attempt_def pre res Let_def chat_provider_attempt_def recoverable_call_def chat_attempt_succeeded_def
        split: option.splits if_splits sum.splits call_outcome.splits)
qed

definition calls_ok :: "'v chat_request \<Rightarrow> 'v chat_answers \<Rightarrow> nat \<Rightarrow> 'v resolved_chat_route list \<Rightarrow> nat list \<Rightarrow> bool" where
  "calls_ok q a n routes calls \<longleftrightarrow>
     sorted_wrt (<) calls \<and> (\<forall>k \<in> set calls. n \<le> k \<and> k < n + length routes)
     \<and> (\<forall>k \<in> set (butlast calls). recoverable_call q a k (routes ! (k - n)))"

lemma calls_ok_Cons:
  assumes "calls_ok q a (Suc n) rest later" "calls = [] \<or> calls = [n] \<and> recoverable_call q a n route"
  shows "calls_ok q a n (route # rest) (calls @ later)"
proof -
  have "(route # rest) ! (k - n) = rest ! (k - Suc n)" if "k \<in> set later" for k
    using assms(1) that by (auto simp: calls_ok_def nth_Cons' dest: bspec)
  then have "recoverable_call q a k ((route # rest) ! (k - n))" if "k \<in> set (butlast later)" for k
    using assms(1) that by (simp add: calls_ok_def in_set_butlastD)
  then show ?thesis using assms by (fastforce simp: calls_ok_def Suc_le_eq split: if_splits)
qed

lemma loop_calls: "calls_ok q a n routes (provider_calls (fst (chat_attempt_loop q a request_id slot n rejections routes)))"
proof (induction routes arbitrary: n rejections)
  case Nil
  then show ?case by (simp add: Let_def calls_ok_def)
next
  case (Cons route rest)
  note step = attempt_calls [where q = q and a = a and request_id = request_id and slot = slot and n = n
      and routes_left = "rest \<noteq> []" and route = route]
  show ?case
  proof (cases "chat_attempt q a request_id slot n (rest \<noteq> []) route")
    case (AS_Return events response)
    then show ?thesis using step by (auto simp: calls_ok_def)
  next
    case (AS_Continue events rejected)
    then show ?thesis
      using step calls_ok_Cons [OF Cons.IH [of "Suc n" "if rejected then Suc rejections else rejections"], of "provider_calls events" route]
      by (simp add: case_prod_beta)
  qed
qed

text \<open>C27. The providers are called in the order of the routes, each route at most once, and another provider is called only
  after the previous call failed with an error that allows a fallback: after a success, or an error that may have produced
  a response already, no further provider is called.\<close>

theorem provider_called_again_only_after_recoverable_error:
  assumes "chat_completions_for_routes q a routes = (events, response)" "\<not> cq_streaming q"
  shows "sorted_wrt (<) (provider_calls events) \<and> set (provider_calls events) \<subseteq> {1..length routes}
    \<and> (\<forall>k \<in> set (butlast (provider_calls events)). recoverable_call q a k (routes ! (k - 1)))"
  using assms
proof (cases rule: request_cases)
  case (Refused e)
  then show ?thesis by (auto simp: ends_or_passes_def no_calls_admission)
next
  case (Admitted request_id slot before later)
  then show ?thesis using loop_calls [of q a 1 routes request_id slot 0]
    by (auto simp: calls_ok_def no_calls_admission less_Suc_eq_le)
qed simp

section \<open>What the request row says\<close>

definition finish_codes :: "gateway_event list \<Rightarrow> (string \<times> int) set" where
  "finish_codes events = {(status, code). EV_RequestFinished status code \<in> set events}"

lemma finish_codes_simps [simp]:
  "finish_codes [] = {}" "finish_codes (es @ fs) = finish_codes es \<union> finish_codes fs"
  "finish_codes (finish_request_with_error summary) = {(request_status_for_http (es_http_status summary), es_http_status summary)}"
  "finish_codes (release_virtual_key_concurrency_if_needed slot) = {}"
  "finish_codes (finish_provider_attempt_with_error n) = {}" "finish_codes (finish_provider_attempt_with_adapter_error n route e) = {}"
  "finish_codes (settle_request_ledger request_id route usage rating) = {}"
  by (auto simp: finish_codes_def finish_request_with_error_def release_virtual_key_concurrency_if_needed_def
      finish_provider_attempt_with_error_def finish_provider_attempt_with_adapter_error_def settle_request_ledger_def split: option.splits if_splits)

lemma finish_codes_Cons [simp]:
  "finish_codes (e # es) = (case e of EV_RequestFinished status code \<Rightarrow> {(status, code)} | _ \<Rightarrow> {}) \<union> finish_codes es"
  by (auto simp: finish_codes_def split: gateway_event.splits)

lemma no_finish_admission: "list_all admission_event es \<Longrightarrow> finish_codes es = {}"
  by (induction es) (auto simp: admission_event_def split: gateway_event.splits)

fun logged_status :: "'v chat_response \<Rightarrow> string \<times> int" where
  "logged_status (RS_Completed n payload) = (''succeeded'', 200)"
| "logged_status (RS_GatewayError e) = (request_status_for_http (uint (ge_status e)), uint (ge_status e))"
| "logged_status (RS_AdapterError e) =
     (request_status_for_http (es_http_status (chat_adapter_error_summary e)), es_http_status (chat_adapter_error_summary e))"
| "logged_status (RS_Streaming slot) = ('''', 0)"

lemma attempt_logs:
  "case chat_attempt q a request_id slot n routes_left route of
     AS_Continue events rejected \<Rightarrow> finish_codes events = {}
   | AS_Return events response \<Rightarrow> finish_codes events = {logged_status response}"
proof -
  obtain refused authorized where pre: "pre_authorize_before_provider_attempt (ca_billing a n) request_id route = (refused, authorized)"
    by fastforce
  obtain r reserved failed where res: "attempt_reservation q a n route = (r, reserved, failed)" by (cases "attempt_reservation q a n route")
  have authorized: "finish_codes authorized = (case refused of None \<Rightarrow> {} | Some e \<Rightarrow> {logged_status (RS_GatewayError e)})"
    using pre pre_authorize_admission_events [of "ca_billing a n" request_id route, THEN no_finish_admission]
    by (auto simp: pre_authorize_before_provider_attempt_def log_summary_def split: option.splits prod.splits)
  have reserved: "finish_codes reserved = (case failed of None \<Rightarrow> {} | Some e \<Rightarrow> {logged_status (RS_GatewayError e)})"
    using res by (rule attempt_reservation_cases) (simp_all add: log_summary_def)
  have released: "finish_codes (snd (release_gateway_rate_limit_reservation_if_needed answer route r)) = {}" for answer
    by (simp add: release_gateway_rate_limit_reservation_if_needed_def)
  show ?thesis
    using authorized reserved released
    by (cases refused; cases failed) (simp_all add: chat_attempt_def pre res Let_def chat_provider_attempt_def
        chat_attempt_succeeded_def log_summary_def split: sum.split call_outcome.split)
qed

lemma loop_logs:
  "finish_codes (fst (chat_attempt_loop q a request_id slot n rejections routes))
   = {logged_status (snd (chat_attempt_loop q a request_id slot n rejections routes))}"
proof (rule attempt_loop_rule [where P = "\<lambda>n events response. finish_codes events = {logged_status response}"])
  show "finish_codes events = {logged_status response}"
    if "chat_attempt q a request_id slot n routes_left route = AS_Return events response" for n routes_left route events response
    using that attempt_logs [where q = q and a = a and request_id = request_id and slot = slot and n = n
        and routes_left = routes_left and route = route] by simp
  show "finish_codes (events @ later) = {logged_status response}"
    if "chat_attempt q a request_id slot n routes_left route = AS_Continue events rejected"
      "finish_codes later = {logged_status response}" for n routes_left route events rejected later response
    using that attempt_logs [where q = q and a = a and request_id = request_id and slot = slot and n = n
        and routes_left = routes_left and route = route] by simp
qed (simp add: Let_def log_summary_def)

fun unreadable_failure :: "'v chat_response \<Rightarrow> bool" where
  "unreadable_failure (RS_AdapterError (CE_OpenAi e)) = openai_unreadable_failure e"
| "unreadable_failure (RS_AdapterError (CE_Gemini e)) = gemini_unreadable_failure e"
| "unreadable_failure _ = False"

lemma logged_status_is_response_status:
  assumes "\<not> unreadable_failure response" "\<And>slot. response \<noteq> RS_Streaming slot"
    and "\<And>e. response = RS_AdapterError e \<Longrightarrow> 100 \<le> chat_adapter_http_status e \<and> chat_adapter_http_status e \<le> 999"
  shows "snd (logged_status response) = uint (chat_response_status response)"
proof (cases response)
  case (RS_AdapterError e)
  then have "status_code_or_500 (chat_adapter_http_status e) = chat_adapter_http_status e"
    using assms(3) by (simp add: status_code_or_500_def)
  then show ?thesis using RS_AdapterError assms(1) by (cases e) (simp_all add: openai_logged_status gemini_logged_status)
qed (use assms(2) in simp_all)


section \<open>A concrete run\<close>

text \<open>Two routes, a virtual key with a limit of two concurrent requests, a provider key at 99 of 100 requests, and the paid
  hot path. The first provider fails with a given error; the second answers without reporting usage.\<close>

definition sample_chat_json :: "jdoc json_api" where
  "sample_chat_json = plain_json\<lparr>json_view := (\<lambda>v. case v of JNum n \<Rightarrow> JV_Number (Some n) (Some n) | _ \<Rightarrow> JV_Other)\<rparr>"

definition sample_chat_request :: "jdoc chat_request" where
  "sample_chat_request =
     \<lparr>cq_json = sample_chat_json, cq_depth = size, cq_policy = JObj [(''concurrency'', JObj [(''limit'', JNum 2)])],
      cq_tenant_id = 1, cq_tpm_estimate = None, cq_streaming = False,
      cq_decrypt = (\<lambda>_ _ aad c. strip_prefix aad c), cq_fmt = (\<lambda>_. ''id''),
      cq_from_json = (\<lambda>j. if j = ''payload'' then Some sample_payload else None), cq_hex_decode = sample_hex_decode,
      cq_master_key = Some (base64_encode (replicate 32 (CHR ''k'')))\<rparr>"

definition sample_chat_answers :: "openai_adapter_error \<Rightarrow> jdoc chat_answers" where
  "sample_chat_answers first_error =
     \<lparr>ca_create_request = Inr 7, ca_billing = (\<lambda>_. sample_billing), ca_key_slot = Inr True, ca_key_rpm = Inr True,
      ca_key_tpm = Inr True, ca_reservation = (\<lambda>_. Inr DB_Applied), ca_reservation_release = (\<lambda>_. Inr DB_Applied),
      ca_create_attempt = (\<lambda>n. Inr (of_nat n)), ca_key_lookup = (\<lambda>_ _ _ _. Inr (Some (4, ''payload''))),
      ca_gemini_request = (\<lambda>_. None), ca_gemini_client = (\<lambda>_. None),
      ca_gemini_call = (\<lambda>_ _. Inl (GA_RequestSerialize '''')), ca_upstream_client = (\<lambda>_. None),
      ca_upstream_call = (\<lambda>n secret. if n = 1 then Inl first_error else Inr (JNull, None))\<rparr>"

lemma sample_limit: "virtual_key_concurrency_limit sample_chat_json (cq_policy sample_chat_request) = Some 2"
    "virtual_key_rpm_limit sample_chat_json (cq_policy sample_chat_request) = None"
    "virtual_key_tpm_limit sample_chat_json (cq_policy sample_chat_request) = None"
  by (simp_all add: virtual_key_concurrency_limit_def virtual_key_rpm_limit_def virtual_key_tpm_limit_def virtual_key_limit_def positive_i32_from_value_def sample_chat_request_def
   sample_chat_json_def plain_json_def jdoc_eval json_as_i64_def json_as_str_def i32_max_def)

lemma sample_used: "window_state_used_for_dimension sample_chat_json size (JObj [(''rpm'', JObj [(''used'', JNum 99)])]) RD_RequestsPerMinute = Some 99"
    by (simp add: window_state_used_for_dimension_def window_state_used_value_def sample_chat_json_def plain_json_def jdoc_eval
        json_as_i64_def json_as_str_def)

lemma sample_plan:
  fixes plan
  assumes "plan = plan_rate_limit_reservation (reservation_acquire \<lparr>cw_limit = Some 100, cw_used = Some 99\<rparr>
    \<lparr>cw_limit = None, cw_used = None\<rparr> \<lparr>cw_limit = None, cw_used = None\<rparr> default_gateway_rate_limit_required_capacity)"
  shows "pl_status plan = RS_Acquired" "pl_counter_updates_planned plan = 1"
  using acquire_granted_iff_fits [of "\<lparr>cw_limit = Some 100, cw_used = Some 99\<rparr>" "\<lparr>cw_limit = None, cw_used = None\<rparr>"
      "\<lparr>cw_limit = None, cw_used = None\<rparr>" default_gateway_rate_limit_required_capacity]
  by (simp_all add: assms Let_def acquire_windows_def window_fits_def reservation_window_def
      default_gateway_rate_limit_required_capacity_def GATEWAY_RATE_LIMIT_REQUIRED_REQUESTS_def
      GATEWAY_RATE_LIMIT_REQUIRED_TOKENS_FALLBACK_def GATEWAY_RATE_LIMIT_REQUIRED_CONCURRENCY_def)

lemma sample_reservation:
  "\<exists>r. attempt_reservation sample_chat_request (sample_chat_answers e) n (sample_route channel)
     = (r, [EV_ReservationAcquired 4 DB_Applied], None) \<and> reservation_executable r \<and> ra_db_acquire r = Some DB_Applied
       \<and> \<not> ra_db_release_attempted r"
  by (simp add: attempt_reservation_def acquire_gateway_rate_limit_reservation_for_attempt_def sample_chat_answers_def sample_chat_request_def
      gateway_rate_limit_reservation_for_attempt_def Let_def reservation_acquired_def route_rate_limit_reservation_plan_def sample_route_def
      sample_used route_rate_limit_counter_window_def db_execution_required_def reservation_executable_def db_acquire_allows_attempt_def
      record_db_acquire_def sample_plan)

lemma sample_key: "chat_provider_key sample_chat_request (sample_chat_answers e) n (sample_route channel) = Inr (ProviderKeySecret ''sk'')"
  unfolding chat_provider_key_def
  by (simp add: sample_chat_request_def sample_chat_answers_def sample_key_opens del: base64_encode.simps)

lemma sample_authorized:
  "\<exists>entry. pre_authorize_before_provider_attempt sample_billing request_id (sample_route channel) = (None, [EV_PaidReserve entry True])"
proof -
  obtain events where pre: "pre_authorize_route sample_billing request_id (sample_route channel) = (None, events)"
    using sample_pre_authorized [of request_id channel] by (cases "pre_authorize_route sample_billing request_id (sample_route channel)") auto
  then obtain entry where "events = [EV_PaidReserve entry True]" using paid_route_parts [OF sample_billing_paid pre] by blast
  with pre show ?thesis by (simp add: pre_authorize_before_provider_attempt_def)
qed

lemma sample_answer_fields:
  "ca_billing (sample_chat_answers e) n = sample_billing" "ca_create_attempt (sample_chat_answers e) n = Inr (of_nat n)"
  "ca_upstream_client (sample_chat_answers e) n = None" "ca_create_request (sample_chat_answers e) = Inr 7"
  "ca_upstream_call (sample_chat_answers e) n secret = (if n = 1 then Inl e else Inr (JNull, None))"
  "ca_key_slot (sample_chat_answers e) = Inr True" "\<not> route_uses_gemini_adapter (sample_route channel)"
  by (simp_all add: sample_chat_answers_def route_uses_gemini_adapter_def sample_route_def)

lemma sample_call:
  "provider_call sample_chat_request (sample_chat_answers e) n (sample_route channel) =
     (if n = 1 then CO_CallFailed (CE_OpenAi e) else CO_Completed JNull None)"
  by (simp add: provider_call_def openai_provider_call_def sample_key sample_answer_fields)

lemma sample_attempt:
  "\<exists>entry. chat_attempt sample_chat_request (sample_chat_answers e) 7 slot n routes_left (sample_route channel) =
     after_events [EV_PaidReserve entry True, EV_ReservationAcquired 4 DB_Applied, EV_AttemptStarted n]
       (chat_provider_attempt sample_chat_request (sample_chat_answers e) 7 slot n routes_left (sample_route channel) [EV_ReservationReleased 4])"
proof -
  obtain r where r: "attempt_reservation sample_chat_request (sample_chat_answers e) n (sample_route channel)
     = (r, [EV_ReservationAcquired 4 DB_Applied], None)" "reservation_executable r" "ra_db_acquire r = Some DB_Applied"
     "\<not> ra_db_release_attempted r" using sample_reservation by blast
  obtain entry where entry: "pre_authorize_before_provider_attempt sample_billing 7 (sample_route channel) = (None, [EV_PaidReserve entry True])"
    using sample_authorized by blast
  have "snd (release_gateway_rate_limit_reservation_if_needed (ca_reservation_release (sample_chat_answers e) n) (sample_route channel) r)
      = [EV_ReservationReleased 4]"
    using r by (simp add: release_gateway_rate_limit_reservation_if_needed_def db_release_needed_def sample_route_def)
  then show ?thesis
    by (cases "chat_provider_attempt sample_chat_request (sample_chat_answers e) 7 slot n routes_left (sample_route channel) [EV_ReservationReleased 4]")
      (simp_all add: chat_attempt_def r(1,2) entry sample_answer_fields)
qed

lemma sample_loop:
  "\<exists>events. chat_attempt_loop sample_chat_request (sample_chat_answers e) 7 slot 1 0 sample_routes =
     (events, if provider_error_can_fallback e then RS_Completed 2 JNull else RS_AdapterError (CE_OpenAi e))
     \<and> (\<not> provider_error_can_fallback e \<longrightarrow>
         EV_RequestFinished (request_status_for_http (es_http_status (summarize_adapter_error e))) (es_http_status (summarize_adapter_error e))
           \<in> set events)"
proof -
  obtain first second where steps:
    "chat_attempt sample_chat_request (sample_chat_answers e) 7 slot 1 True (sample_route 10) =
       after_events [EV_PaidReserve first True, EV_ReservationAcquired 4 DB_Applied, EV_AttemptStarted 1]
         (chat_provider_attempt sample_chat_request (sample_chat_answers e) 7 slot 1 True (sample_route 10) [EV_ReservationReleased 4])"
    "chat_attempt sample_chat_request (sample_chat_answers e) 7 slot 2 False (sample_route 11) =
       after_events [EV_PaidReserve second True, EV_ReservationAcquired 4 DB_Applied, EV_AttemptStarted 2]
         (chat_provider_attempt sample_chat_request (sample_chat_answers e) 7 slot 2 False (sample_route 11) [EV_ReservationReleased 4])"
    using sample_attempt by meson
  show ?thesis
    using steps
    by (simp add: sample_routes_def chat_provider_attempt_def sample_call Let_def numeral_2_eq_2 finish_request_with_error_def)
qed

abbreviation sample_chat :: "openai_adapter_error \<Rightarrow> gateway_event list \<times> jdoc chat_response" where
  "sample_chat e \<equiv> chat_completions_for_routes sample_chat_request (sample_chat_answers e) sample_routes"

lemma sample_run:
  "\<exists>events. sample_chat e = (events, if provider_error_can_fallback e then RS_Completed 2 JNull else RS_AdapterError (CE_OpenAi e))
     \<and> (\<not> provider_error_can_fallback e \<longrightarrow>
         EV_RequestFinished (request_status_for_http (es_http_status (summarize_adapter_error e))) (es_http_status (summarize_adapter_error e))
           \<in> set events)"
proof -
  obtain entry where entry: "pre_authorize_before_provider_attempt sample_billing 7 (sample_route 10) = (None, [EV_PaidReserve entry True])"
    using sample_authorized by blast
  obtain events where "chat_attempt_loop sample_chat_request (sample_chat_answers e) 7 True 1 0 (sample_route 10 # [sample_route 11]) =
     (events, if provider_error_can_fallback e then RS_Completed 2 JNull else RS_AdapterError (CE_OpenAi e))"
     "\<not> provider_error_can_fallback e \<longrightarrow>
         EV_RequestFinished (request_status_for_http (es_http_status (summarize_adapter_error e))) (es_http_status (summarize_adapter_error e))
           \<in> set events"
    using sample_loop [of e True] unfolding sample_routes_def by blast
  moreover have "cq_json sample_chat_request = sample_chat_json" "\<not> cq_streaming sample_chat_request"
    by (simp_all add: sample_chat_request_def)
  ultimately show ?thesis
    by (simp add: chat_completions_for_routes_def sample_routes_def sample_answer_fields sample_billing_paid entry sample_limit
        acquire_virtual_key_slot_def acquire_virtual_key_capacity_def del: chat_attempt_loop.simps)
qed

lemma sample_not_streaming: "\<not> cq_streaming sample_chat_request"
  by (simp add: sample_chat_request_def)

lemma sample_errors:
  "provider_error_can_fallback (OA_UpstreamConnect m)" "\<not> provider_error_can_fallback (OA_UpstreamStatus 400 JT_Null None)"
  by (simp_all add: provider_error_can_fallback_def signal_can_fallback_def error_signal_can_fallback_def from_transport_def status_signal_code)

lemma sample_completed: "\<exists>events. sample_chat (OA_UpstreamConnect ''refused'') = (events, RS_Completed 2 JNull)"
  using sample_run [of "OA_UpstreamConnect ''refused''"] by (auto simp: sample_errors)




theorem chat_success_charges_the_attempt_witness:
  "\<exists>events request_id usage. sample_chat (OA_UpstreamConnect ''refused'') = (events, RS_Completed 2 JNull)
     \<and> settled events = charge_of (sample_chat_answers (OA_UpstreamConnect ''refused'')) request_id 2 (sample_route 11) JNull usage"
proof -
  obtain events where run: "sample_chat (OA_UpstreamConnect ''refused'') = (events, RS_Completed 2 JNull)" using sample_completed by blast
  with chat_success_charges_the_attempt [OF run sample_not_streaming] show ?thesis by (auto simp: sample_routes_def)
qed

lemma sample_uncharged:
  assumes "sample_chat (OA_UpstreamConnect ''refused'') = (events, RS_Completed 2 JNull)"
  shows "settled events = []"
  using assms sample_not_streaming
proof (cases rule: request_cases)
  case (Admitted request_id slot before later)
  have "charge_of a request_id 2 (sample_route 11) JNull None = []" for a :: "jdoc chat_answers"
    by (simp add: charge_of_def Let_def settle_request_ledger_def request_usage_from_adapter_usage_def split: option.split)
  then show ?thesis using loop_charges [OF Admitted(3)]
    by (simp add: Admitted(2) settled_admission [OF Admitted(1)] sample_routes_def sample_call)
qed simp_all

theorem uncharged_success_keeps_reserve_witness:
  "\<exists>events. sample_chat (OA_UpstreamConnect ''refused'') = (events, RS_Completed 2 JNull) \<and> pending_after False events"
proof -
  obtain events where run: "sample_chat (OA_UpstreamConnect ''refused'') = (events, RS_Completed 2 JNull)" using sample_completed by blast
  moreover have "paid_hot_path_beta_enabled (ca_billing (sample_chat_answers e) 2)" for e
    by (simp add: sample_answer_fields sample_billing_paid)
  ultimately show ?thesis using uncharged_success_keeps_reserve [OF run sample_not_streaming] sample_uncharged [OF run] by blast
qed

theorem provider_called_again_only_after_recoverable_error_witness:
  "\<exists>events response. sample_chat (OA_UpstreamConnect ''refused'') = (events, response) \<and> set (provider_calls events) \<subseteq> {1..2}"
proof -
  obtain events where run: "sample_chat (OA_UpstreamConnect ''refused'') = (events, RS_Completed 2 JNull)" using sample_completed by blast
  moreover have "length sample_routes = 2" by (simp add: sample_routes_def)
  ultimately show ?thesis using provider_called_again_only_after_recoverable_error [OF run sample_not_streaming] by auto
qed


end
