(* ===== verification/Spec2Isabelle.thy ===== *)
theory Spec2Isabelle
  imports WriterSafety ExactCache PreAuthorize Reconciliation CandidateGeneration RateLimit SseDecoding SseTerminal ProviderErrors LoginSafety AdminAccess Passwords WebhookSignature ChatSafety
begin

text \<open>
  The fubox API gateway accepts requests for language models under virtual keys, chooses a provider channel for
  each, calls the provider, relays the response, and charges the tokens used to a wallet. This development models
  the parts of it that decide: money and rating, the ledger, routing and rate limits, the stream decoder, the chat
  handler of the gateway with its errors and provider keys, and the credentials, permissions, login limiter and
  webhook check of the control plane. Names of definitions follow the Rust source; paths below are relative to \<open>src/\<close>.

  How the parts work together. A request carries a virtual key (\<open>Credentials\<close>). Associations and channels
  become candidates (\<open>CandidateGeneration\<close>) under the channel's name of the model (\<open>ModelMapping\<close>), the rate
  limiter marks those with capacity (\<open>RateLimit\<close>), and one is selected (\<open>Selection\<close>). The gateway turns its
  route rows into candidates and the decision into the list of routes to try (\<open>GatewayRouting\<close>), then runs the
  handler over that list (\<open>ChatCompletions\<close>): it admits the request under the limits of its key, compares the estimate
  with wallet and budgets and takes a reserve (\<open>GatewayBilling\<close> with \<open>PreAuthorize\<close>), opens the provider's key
  (\<open>GatewayKeys\<close> with \<open>ProviderKeys\<close>), calls the provider, classifies a failure for retry and fallback
  (\<open>AdapterErrors\<close>, \<open>GatewayErrors\<close>, \<open>ProviderErrors\<close>), and rates and settles a success (\<open>Rating\<close>, \<open>ExactCache\<close>,
  \<open>Writer\<close>, which plans with \<open>Ledger\<close>). Streams are decoded by \<open>Sse\<close>. A worker compares requests with the
  ledger afterwards (\<open>Reconciliation\<close>). Administrators sign in through \<open>LoginRateLimit\<close> and \<open>Passwords\<close>, their requests
  are authenticated by \<open>AdminSessions\<close> and pass \<open>AdminRbac\<close>, and payment providers report through \<open>WebhookSignature\<close>.

  The theories:

  \<^item> \<open>Prelude\<close>, \<open>RustStr\<close>, \<open>RustParse\<close>, \<open>RustUtf8\<close>: Rust's \<open>Result\<close>, checked arithmetic and iterator folds, the stable
    sort with the locale \<open>comparator\<close>, and the string, integer parsing and UTF-8 operations the code uses. A \<open>str\<close> is
    its list of bytes.
  \<^item> \<open>Money\<close>, \<open>Rating\<close> (\<open>crates/billing-ledger/src/rating.rs\<close>): decimals as units with a scale, the \<open>i128\<close> range
    written out. Parsing accepts exactly the decimal grammar and inverts printing; a rating is the exact
    half-up rounded price; extracted usage splits the reported totals; parsed pricing fails only by overflow.
  \<^item> \<open>Ledger\<close> (\<open>ledger.rs\<close>): the planners of reserve, settle, refund and adjustment. The locale \<open>ledger_planner\<close>
    states what a planner promises (keys, replay) and is interpreted on each of them. Refunds never exceed
    the debit; idempotency keys determine the operation.
  \<^item> \<open>Writer\<close>, \<open>WriterSafety\<close> (\<open>writer_contract.rs\<close>): planner, command plan and in-memory executor, and its
    refinement to an abstract wallet of holds, charges and refunds. The wallet is never overdrawn, budgets are
    respected, a request is applied at most once, a retry is recognised, and the ledger constraints hold in every
    state that \<open>writer_reaches\<close>.
  \<^item> \<open>ExactCache\<close> (\<open>exact_cache.rs\<close>), \<open>PreAuthorize\<close> (\<open>pre_authorize.rs\<close>), \<open>Reconciliation\<close> (\<open>reconciliation.rs\<close>):
    exact charges of cached requests, the pre-authorisation test, and the counters, totals and redaction of the
    report.
  \<^item> \<open>Selection\<close> (\<open>crates/routing/src/selection.rs\<close>), \<open>ModelMapping\<close>, \<open>CandidateGeneration\<close>, \<open>RateLimit\<close>,
    \<open>ProviderErrors\<close> (the files of the same names, \<open>errors.rs\<close> for the last): only permitted candidates are
    selected, seeds split by weight, an eligible candidate is found, the order of candidates does not matter;
    under every interleaving of acquisitions and releases (\<open>limiter_step\<close>) limits hold; every classification has
    the reaction of its kind.
  \<^item> \<open>Sse\<close>, \<open>SseDecoding\<close>, \<open>SseTerminal\<close> (\<open>crates/stream/src/lib.rs\<close>): the incremental decoder gives the events of
    the whole stream however it is cut, decoding inverts printing, and the byte scan for a JSON key finds
    exactly the pairs outside strings.
  \<^item> \<open>GatewayRouting\<close> (\<open>apps/gateway/src/main.rs\<close>, \<open>chat_attempt_routes\<close> and what it calls): every route tried is
    eligible and tried once, within the configured number of attempts, and an eligible route is tried.
  \<^item> \<open>GatewayErrors\<close>, \<open>AdapterErrors\<close> (\<open>apps/gateway/src/errors.rs\<close>, \<open>crates/adapters/src/openai.rs\<close>, \<open>anthropic.rs\<close>,
    \<open>gemini.rs\<close>): the errors of the gateway and of three adapters. The locale \<open>adapter_errors\<close> is what the gateway relies
    on of an adapter, interpreted on each. An error that allows fallback is logged as retryable.
  \<^item> \<open>ProviderKeys\<close> (\<open>crates/auth/src/provider_keys.rs\<close>), \<open>GatewayKeys\<close> (\<open>apps/control-plane/src/admin.rs\<close>,
    \<open>apps/gateway/src/main.rs\<close>): a key that the control plane sealed opens in the gateway, and the associated data
    determines the context of a sealing.
  \<^item> \<open>GatewayBilling\<close> (\<open>apps/gateway/src/main.rs\<close>): a paid request is reserved before a provider is called, and a
    settlement charges exactly the rated cost.
  \<^item> \<open>ChatCompletions\<close>, \<open>ChatSafety\<close> (\<open>chat_completions\<close> of \<open>apps/gateway/src/main.rs\<close> without streaming): the handler
    maps the answers of its surroundings, the record \<open>chat_answers\<close>, to its response and to the list of its writes, of type
    \<open>gateway_event\<close>. The locale \<open>event_account\<close> sums a quantity over that list and is interpreted for the slots,
    the request row, the attempt rows and the reservations. Whatever the surroundings answer: slots and rows are closed,
    an error charges nothing, a success charges the attempt that succeeded, reservations are released except the one of
    the successful attempt, and a further provider is called only after a recoverable error.
  \<^item> \<open>Credentials\<close> (\<open>crates/auth/src/rbac.rs\<close>, \<open>keys.rs\<close>, \<open>sessions.rs\<close>): roles, keys and tokens; what is issued
    authenticates.
  \<^item> \<open>RedisProtocol\<close>, \<open>LoginRateLimit\<close>, \<open>LoginSafety\<close> (\<open>crates/auth/src/login_rate_limit.rs\<close>,
    \<open>apps/control-plane/src/auth_login_rate_limit.rs\<close>, the handler \<open>login\<close> of \<open>auth.rs\<close>): the locale
    \<open>login_failure_store\<close> is the contract of a store; the in-memory store interprets it, and for the Redis store
    with its Lua scripts and wire protocol the contract is a theorem under the assumption on Lua numbers. Guesses are
    bounded, the stores are interchangeable, and reading a response ends on every input.
  \<^item> \<open>Passwords\<close> (\<open>crates/auth/src/passwords.rs\<close>), \<open>WebhookSignature\<close>
    (\<open>crates/billing-ledger/src/payment_provider.rs\<close>): a hash accepts exactly the passwords that derive its key; a webhook is
    accepted only with the MAC of its body.
  \<^item> \<open>AdminSessions\<close>, \<open>SessionSafety\<close> (\<open>apps/control-plane/src/auth.rs\<close>, \<open>auth_repo.rs\<close>): the token of a request, the statements of
    the session repository as functions on tables, authentication and logout. In every state that \<open>session_reaches\<close> an
    issued token authenticates its user exactly while its row is live, and never after a logout.
  \<^item> \<open>AdminRbac\<close>, \<open>AdminAccess\<close> (\<open>apps/control-plane/src/rbac.rs\<close>): exactly which requests the middleware admits, that the
    capabilities shown are those granted, and which writes no permission guards.
  \<^item> This theory: a reserve that pre-authorisation allowed is not refused for lack of funds, and a selected
    route's reservation is granted.

  Integers and loops. \<open>u64\<close>, \<open>u32\<close>, \<open>u16\<close> and UUIDs are words, an \<open>i64\<close> is a word read with \<open>sint\<close> or an integer with its
  range test, an \<open>i128\<close> is an integer with the range test of the checked operation. Lengths and indices (\<open>usize\<close>) are
  natural numbers, since they are bounded by memory. Every loop is structural or has a termination proof, so each
  operation returns. The one exception is the Redis reader, which recurses through nested arrays and is a partial
  function: it is proved to return on every input. The parameter \<open>depth\<close> of \<open>GatewayRouting\<close> is the nesting depth
  of a JSON document, not a bound on the code.

  Parameters. UUID formatting and parsing, the text form of a time, \<open>lower\<close> of the database, SHA-256, the hexadecimal codec, the authenticated cipher, regular expressions,
  \<open>serde_json\<close> values (\<open>json_api\<close>), Lua's \<open>tonumber\<close> and \<open>tostring\<close>, and the answers of database and providers are arguments
  of the definitions; what is assumed of them is named (\<open>uuid_display\<close>, \<open>uuid_simple\<close>, \<open>lua_numbers\<close>) or a premise, and
  shown to be satisfiable by the witnesses.

  Not modelled. Panics of a poisoned lock, allocation failure and stack depth. Sockets and key expiry of Redis; an expired
  value counts as absent for the scripts, which \<open>expired_value_inactive\<close> shows. HTTP clients, the OIDC login, which
  ends in an error, and environment look-up; the values read are arguments. In the chat handler: the streaming branch (the model stops at the response
  \<open>RS_Streaming\<close>), the JSON metadata of the log rows, building of provider requests and reading of provider responses,
  and an attempt number beyond \<open>i32\<close>. The other endpoints of the gateway (responses, embeddings, native Anthropic and
  Gemini) repeat the structure of the chat handler and are left out, as are tokenizer estimates. SQL other than that of the
  session repository, which includes most rules of the administration and user handlers. The translation of requests and responses in the
  adapters, payment orders and subscriptions, the worker's jobs, observability, configuration, and the web interface.
\<close>

section \<open>Funds: from pre-authorisation to the ledger\<close>

text \<open>The two refusals for lack of funds, and that no arithmetic step of the planner produces one.\<close>

fun funds_error :: "writer_error \<Rightarrow> bool" where
  "funds_error (WE_InsufficientWalletBalance _ _) = True"
| "funds_error (WE_InsufficientBudget _ _ _ _) = True"
| "funds_error _ = False"

definition no_funds_error :: "writer_error + 'a \<Rightarrow> bool" where
  "no_funds_error m \<longleftrightarrow> (\<forall>e. m = Inl e \<longrightarrow> \<not> funds_error e)"

lemma no_funds_error_simps [simp]:
  "no_funds_error (Inr x)" "no_funds_error (Inl e) \<longleftrightarrow> \<not> funds_error e"
  by (simp_all add: no_funds_error_def)

lemma no_funds_error_rbind:
  "no_funds_error m \<Longrightarrow> (\<And>x. m = Inr x \<Longrightarrow> no_funds_error (f x)) \<Longrightarrow> no_funds_error (rbind m f)"
  by (cases m) simp_all

lemma no_funds_error_map_err: "(\<And>e. \<not> funds_error (f e)) \<Longrightarrow> no_funds_error (map_err f m)"
  by (cases m) simp_all

lemma no_funds_error_ok_or: "\<not> funds_error e \<Longrightarrow> no_funds_error (ok_or e m)"
  by (cases m) simp_all

lemma no_funds_error_try_fold: "(\<And>a x. no_funds_error (f a x)) \<Longrightarrow> no_funds_error (try_fold f a xs)"
  by (induction xs arbitrary: a) (auto intro: no_funds_error_rbind)

lemma no_funds_error_try_map: "(\<And>x. no_funds_error (f x)) \<Longrightarrow> no_funds_error (try_map f xs)"
  by (induction xs) (auto intro!: no_funds_error_rbind)

lemma no_funds_error_arith:
  "no_funds_error (writer_checked_add a b)" "no_funds_error (writer_checked_subtract a b)" "no_funds_error (writer_zero s)"
  by (auto simp: writer_checked_add_def writer_checked_subtract_def writer_zero_def writer_ensure_same_scale_def
      intro!: no_funds_error_rbind no_funds_error_map_err no_funds_error_ok_or)

lemma no_funds_error_parts:
  "no_funds_error (refund_credit_for_plan lp s)" "no_funds_error (balance_window c w st d k)"
  "no_funds_error (budget_checks bs c d)"
  by (auto simp: refund_credit_for_plan_def balance_window_def Let_def budget_checks_def active_credit_grant_total_def
      active_ledger_effect_def
      intro!: no_funds_error_rbind no_funds_error_try_fold no_funds_error_try_map no_funds_error_arith)

lemma budget_checks_pass:
  assumes "budget_checks bs c d = Inr cs" "y \<in> set cs"
    and "\<And>b. b \<in> set bs \<Longrightarrow> bud_active b \<Longrightarrow> bud_currency b = c \<Longrightarrow> d \<le> bud_remaining b"
  shows "bc_passed y"
proof -
  have "\<exists>b \<in> set (sort_by (\<lambda>a b. ord_cmp (budget_sort_key a) (budget_sort_key b))
               (filter (\<lambda>b. bud_active b \<and> bud_currency b = c) bs)). bc_passed y = (d \<le> bud_remaining b)"
    using assms(1,2) unfolding budget_checks_def try_map_eq_Inr
    by (auto dest!: list_all2_in_set2 simp: rbind_eq_Inr)
  with assms(3) show ?thesis by (auto simp: budget_order.set_sort_by)
qed

lemma funded_reserve_plan:
  assumes w: "ws_wallet st = Some w" "wal_currency w = c" and pos: "0 < fd_units amount"
    and avail: "fd_units amount \<le> available st"
    and budgets: "\<And>b. b \<in> set (ws_budgets st) \<Longrightarrow> bud_active b \<Longrightarrow> bud_currency b = c \<Longrightarrow>
      fd_units amount \<le> fd_units (bud_remaining b) \<and> fd_scale (bud_remaining b) = fd_scale amount"
  shows "no_funds_error (plan_consistent_ledger_write fmt (CW_Reserve scope rid amount c) st)"
proof -
  define req where "req = CW_Reserve scope rid amount c"
  have cur: "cw_currency req = c" by (simp add: req_def)
  have funded: "wc_passed (wallet_check (wal_id w) (bw_available_before_write b) d)
      \<and> (\<forall>checks. budget_checks (ws_budgets st) c d = Inr checks \<longrightarrow> List.find (\<lambda>c. \<not> bc_passed c) checks = None)"
    if d: "(if i then writer_zero (fd_scale (wal_available w)) else required_debit_for_write req st) = Inr d"
      and b: "balance_window c w st d k = Inr b" for i d k b
  proof -
    note bw = balance_window_Inr [OF b w]
    have cases: "fd_units d = 0 \<or> d = amount" using d by (auto simp: req_def split: if_splits)
    then have "wc_passed (wallet_check (wal_id w) (bw_available_before_write b) d)"
      using bw(1-3) avail by (auto simp: wallet_check_def Let_def fd_is_zero_def less_eq_fixed_decimal_def)
    moreover have "d \<le> bud_remaining x" if "x \<in> set (ws_budgets st)" "bud_active x" "bud_currency x = c" for x
      using budgets [OF that] cases pos by (auto simp: less_eq_fixed_decimal_def)
    then have "List.find (\<lambda>c. \<not> bc_passed c) checks = None" if "budget_checks (ws_budgets st) c d = Inr checks" for checks
      using budget_checks_pass [OF that] by (auto simp: find_None_iff)
    ultimately show ?thesis by simp
  qed
  have debit: "no_funds_error (if i then writer_zero s else required_debit_for_write req st)" for i s
    by (simp add: req_def no_funds_error_arith)
  show ?thesis
    unfolding req_def [symmetric] plan_consistent_ledger_write_def Let_def cur w(1) ok_or_simps rbind_Inr
    by (rule no_funds_error_rbind [OF no_funds_error_map_err], simp, simp only: w(2) simp_thms if_False,
        rule no_funds_error_rbind [OF debit], rule no_funds_error_rbind [OF no_funds_error_parts(1)],
        rule no_funds_error_rbind [OF no_funds_error_parts(2)], drule (1) funded,
        auto intro!: no_funds_error_rbind no_funds_error_parts(3))
qed

text \<open>C39. Pre-authorisation keeps its promise. When it allows an estimate against the wallet's available amount and the
  remaining amounts of the active budgets of the currency, the reserve of that estimate is not refused by the
  consistent writer for lack of wallet balance or budget, in the same state.\<close>

theorem preauthorized_reserve_funded:
  assumes "ws_wallet st = Some w" "wal_currency w = c" "0 < fd_units amount"
    and "fd_scale amount = fd_scale (wal_available w)"
    and "\<forall>b\<in>set (ws_budgets st). fd_scale (bud_remaining b) = fd_scale amount"
    and "pre_authorize \<lparr>pe_minimum_cost = amount, pe_billable_if_usage_present = billable\<rparr>
           (Some (FixedDecimal (available st) (fd_scale (wal_available w))))
           (map bud_remaining (filter (\<lambda>b. bud_active b \<and> bud_currency b = c) (ws_budgets st))) = PA_Allow"
  shows "no_funds_error (plan_consistent_ledger_write fmt (CW_Reserve scope rid amount c) st)"
proof (rule funded_reserve_plan [OF assms(1-3)])
  show "fd_units amount \<le> available st"
    using assms(3,4,6) by (auto simp: pre_authorize_def amount_is_insufficient_def split: if_splits)
next
  fix b
  assume b: "b \<in> set (ws_budgets st)" "bud_active b" "bud_currency b = c"
  then have "\<not> amount_is_insufficient (bud_remaining b)
      \<lparr>pe_minimum_cost = amount, pe_billable_if_usage_present = billable\<rparr>"
    using assms(6) by (auto simp: pre_authorize_def list_ex_iff split: if_splits)
  with b assms(3,5) show "fd_units amount \<le> fd_units (bud_remaining b) \<and> fd_scale (bud_remaining b) = fd_scale amount"
    by (auto simp: amount_is_insufficient_def split: if_splits)
qed

theorem preauthorized_reserve_funded_witness:
  "no_funds_error (plan_consistent_ledger_write sample_fmt (CW_Reserve sample_scope 7 (FixedDecimal 40 8) ''USD'')
     (imw_state sample_writer))"
  by (rule preauthorized_reserve_funded [where billable = True and
        w = "\<lparr>wal_id = 1, wal_currency = ''USD'', wal_available = FixedDecimal 100 8\<rparr>"])
     (simp_all add: sample_writer_def available_def grant_total_def ledger_effect_def sum_units_def pre_authorize_def
       amount_is_insufficient_def)

section \<open>Capacity: from the rate limiter to the selected route\<close>

definition limiter_windows :: "rate_limit_availability_input \<Rightarrow> rate_limit_reservation_input" where
  "limiter_windows i = reservation_acquire
     \<lparr>cw_limit = lw_limit (ai_requests_per_minute i), cw_used = lw_used (ai_requests_per_minute i)\<rparr>
     \<lparr>cw_limit = lw_limit (ai_tokens_per_minute i), cw_used = lw_used (ai_tokens_per_minute i)\<rparr>
     \<lparr>cw_limit = lw_limit (ai_concurrency i), cw_used = lw_used (ai_concurrency i)\<rparr>
     \<lparr>rq_requests_per_minute = lw_required (ai_requests_per_minute i),
      rq_tokens_per_minute = lw_required (ai_tokens_per_minute i), rq_concurrency = lw_required (ai_concurrency i)\<rparr>"

lemma limiter_windows_input: "reservation_availability_input (limiter_windows i) = i"
  by (cases i) (simp add: limiter_windows_def reservation_acquire_def reservation_availability_input_def
      reservation_window_def)

lemma limiter_windows_granted:
  "pl_status (plan_rate_limit_reservation (limiter_windows i)) = RS_Acquired \<longleftrightarrow>
     av_selectable (evaluate_rate_limit_availability i)"
proof -
  have "ri_operation (limiter_windows i) = RO_Acquire" by (simp add: limiter_windows_def reservation_acquire_def)
  then show ?thesis by (simp add: plan_rate_limit_reservation_def Let_def limiter_windows_input)
qed

text \<open>C40. A selected route has capacity. When every candidate carries the verdict of the rate limiter on its windows, the
  selected route is a candidate whose requirement fits all three windows, and the reservation on those windows
  is granted.\<close>

theorem selected_route_has_capacity:
  assumes "rd_selected (select_route_with_context request
      (map (\<lambda>(c, i). apply_rate_limit_availability_to_candidate c (evaluate_rate_limit_availability i)) cs) cx) = Some r"
  shows "\<exists>(c, i)\<in>set cs. sr_channel_id r = rc_channel_id c
    \<and> window_fits (ai_requests_per_minute i) \<and> window_fits (ai_tokens_per_minute i) \<and> window_fits (ai_concurrency i)
    \<and> pl_status (plan_rate_limit_reservation (limiter_windows i)) = RS_Acquired"
proof -
  from assms obtain e where e: "r = selected_route_from_candidate e" "is_selectable e"
    "e \<in> set (evaluate_candidates
       (map (\<lambda>(c, i). apply_rate_limit_availability_to_candidate c (evaluate_rate_limit_availability i)) cs))"
    unfolding select_route_with_context_def using selected_is_candidate by blast
  then obtain c i where ci: "(c, i) \<in> set cs"
    "ev_candidate e = apply_rate_limit_availability_to_candidate c (evaluate_rate_limit_availability i)"
    "ev_filter_reason e = selection_filter_reason_for (ev_candidate e)"
    by (auto simp: evaluate_candidates_def candidate_order.set_sort_by)
  then have "rc_rate_limit_available (ev_candidate e)"
    using e(2) by (auto simp: is_selectable_def selection_filter_reason_for_def split: channel_status.splits if_splits)
  then have "av_selectable (evaluate_rate_limit_availability i)"
    using ci(2) by (simp add: apply_rate_limit_availability_to_candidate_def with_rate_limit_available_def)
  moreover have "sr_channel_id r = rc_channel_id c"
    using e(1) ci(2) by (simp add: selected_route_from_candidate_def apply_rate_limit_availability_to_candidate_def
        with_rate_limit_available_def)
  ultimately show ?thesis using ci(1) by (auto simp: av_selectable_iff limiter_windows_granted)
qed

definition sample_limits :: rate_limit_availability_input where
  "sample_limits = \<lparr>ai_requests_per_minute = window_limited 10 9 1, ai_tokens_per_minute = window_unlimited,
     ai_concurrency = window_limited 4 0 1\<rparr>"

theorem selected_route_has_capacity_witness:
  "\<exists>r. rd_selected (select_route_with_context (route_request_new ''m'' 41)
       (map (\<lambda>(c, i). apply_rate_limit_availability_to_candidate c (evaluate_rate_limit_availability i))
          [(route_candidate_new ''a'' ''p'' ''m'' 0 3, sample_limits)]) context_default) = Some r
     \<and> pl_status (plan_rate_limit_reservation (limiter_windows sample_limits)) = RS_Acquired"
proof -
  let ?c = "route_candidate_new ''a'' ''p'' ''m'' 0 3"
  have "av_selectable (evaluate_rate_limit_availability sample_limits)" by code_simp
  then have a: "apply_rate_limit_availability_to_candidate ?c (evaluate_rate_limit_availability sample_limits) = ?c"
    by (simp add: apply_rate_limit_availability_to_candidate_def with_rate_limit_available_def route_candidate_new_def)
  have "selection_filter_reason_for ?c = None" by (simp add: selection_filter_reason_for_def route_candidate_new_def)
  then have e: "evaluate_candidates [?c] = [\<lparr>ev_candidate = ?c, ev_filter_reason = None\<rparr>]"
    by (simp add: evaluate_candidates_def)
  have "pick_by_priority_then_weight [\<lparr>ev_candidate = ?c, ev_filter_reason = None\<rparr>] 41 \<noteq> None"
    by (simp add: pick_by_priority_eq best_group_def is_selectable_def weight64_def route_candidate_new_def)
  then obtain r where r: "rd_selected (select_route_with_context (route_request_new ''m'' 41)
       (map (\<lambda>(c, i). apply_rate_limit_availability_to_candidate c (evaluate_rate_limit_availability i))
          [(?c, sample_limits)]) context_default) = Some r"
    by (auto simp: a e select_route_with_context_def select_from_evaluated_candidates_def context_default_def
        trace_affinity_disabled_def evaluate_trace_affinity_def pick_by_trace_affinity_def route_request_new_def)
  with selected_route_has_capacity [OF r] show ?thesis by auto
qed

end
